(* ===== verification/Prelude.thy ===== *)
theory Prelude
  imports Main "HOL-Library.Word" "HOL-Library.Monad_Syntax"
begin

section \<open>Shared notions\<close>

text \<open>
  What the components share: names for machine words, the collections \<open>byte_bits\<close> (bits of words, for the simplifier)
  and \<open>eval_defs\<close>, lemmas on words, bytes and searches, and C's integer division.
\<close>

unbundle bit_operations_syntax

type_synonym u8 = "8 word"
type_synonym u16 = "16 word"
type_synonym u32 = "32 word"

named_theorems byte_bits
named_theorems eval_defs

lemma unat_u8_less [simp]: "unat (x :: u8) < 256"
  using unsigned_less [of x, where ?'a = nat] by simp

lemma byte_eq_iff:
  "(x :: u8) = y \<longleftrightarrow> bit x 0 = bit y 0 \<and> bit x 1 = bit y 1 \<and> bit x 2 = bit y 2 \<and> bit x 3 = bit y 3 \<and>
     bit x 4 = bit y 4 \<and> bit x 5 = bit y 5 \<and> bit x 6 = bit y 6 \<and> bit x 7 = bit y 7"
proof
  assume bits: "bit x 0 = bit y 0 \<and> bit x 1 = bit y 1 \<and> bit x 2 = bit y 2 \<and> bit x 3 = bit y 3 \<and>
     bit x 4 = bit y 4 \<and> bit x 5 = bit y 5 \<and> bit x 6 = bit y 6 \<and> bit x 7 = bit y 7"
  show "x = y"
  proof (rule bit_word_eqI)
    fix n assume "n < LENGTH(8)"
    then have "n \<in> {0, 1, 2, 3, 4, 5, 6, 7}" by auto
    with bits show "bit x n = bit y n" by auto
  qed
qed simp

lemma and_power2_eq_0: "(x :: 'a::len word) AND 2 ^ n = 0 \<longleftrightarrow> \<not> bit x n"
  by (metis and_exp_eq_0_iff_not_bit)

lemma bit_all_u8: "(\<forall>x::u8. P x) \<longleftrightarrow> (\<forall>n<256. P (word_of_nat n))"
proof
  assume *: "\<forall>n<256. P (word_of_nat n)"
  show "\<forall>x. P x"
  proof
    fix x :: u8
    have "P (word_of_nat (unat x))" using * unat_u8_less by blast
    then show "P x" by simp
  qed
qed auto

lemma byte_mask_eq_0 [byte_bits]:
  fixes x :: u8
  shows "x AND 1 = 0 \<longleftrightarrow> \<not> bit x 0" "x AND 2 = 0 \<longleftrightarrow> \<not> bit x (Suc 0)" "x AND 4 = 0 \<longleftrightarrow> \<not> bit x 2"
    "x AND 8 = 0 \<longleftrightarrow> \<not> bit x 3" "x AND 0x10 = 0 \<longleftrightarrow> \<not> bit x 4" "x AND 0x20 = 0 \<longleftrightarrow> \<not> bit x 5"
    "x AND 0x40 = 0 \<longleftrightarrow> \<not> bit x 6" "x AND 0x80 = 0 \<longleftrightarrow> \<not> bit x 7"
  using and_power2_eq_0 [of x 0] and_power2_eq_0 [of x 1] and_power2_eq_0 [of x 2] and_power2_eq_0 [of x 3]
    and_power2_eq_0 [of x 4] and_power2_eq_0 [of x 5] and_power2_eq_0 [of x 6] and_power2_eq_0 [of x 7]
  by simp_all

declare bit_and_iff [byte_bits] bit_or_iff [byte_bits] bit_xor_iff [byte_bits]
  bit_not_iff [byte_bits]

lemma if_or_word [byte_bits]: "(if c then t OR m else t) = t OR (if c then m else (0 :: 'a::len word))"
  by simp

lemma bit_if_word [byte_bits]: "bit (if c then m else (0 :: 'a::len word)) n \<longleftrightarrow> c \<and> bit m n"
  by simp

lemma bit_shift_right_1 [byte_bits]:
  fixes x :: "'a::len word"
  shows "bit (drop_bit (Suc 0) x) 0 = bit x (Suc 0)" "bit (drop_bit (Suc 0) x) (Suc 0) = bit x 2"
    "bit (drop_bit (Suc 0) x) 2 = bit x 3" "bit (drop_bit (Suc 0) x) 3 = bit x 4"
    "bit (drop_bit (Suc 0) x) 4 = bit x 5" "bit (drop_bit (Suc 0) x) 5 = bit x 6"
    "bit (drop_bit (Suc 0) x) 6 = bit x 7" "bit (drop_bit (Suc 0) x) 7 = bit x 8"
  by (simp_all add: bit_drop_bit_eq eval_nat_numeral)

lemma byte_high_bits [simp]: "8 \<le> n \<Longrightarrow> \<not> bit (x :: u8) n"
  using bit_imp_le_length [of x n] by auto

lemma unat_word_of_nat: "n < 2 ^ LENGTH('a) \<Longrightarrow> unat (word_of_nat n :: 'a::len word) = n"
  by (simp add: unsigned_of_nat take_bit_nat_eq_self)

lemma word_xor_eq_0_iff: "(a :: 'a::len word) XOR b = 0 \<longleftrightarrow> a = b"
  by (auto simp: bit_eq_iff bit_xor_iff)

lemma word_of_nat_inject:
  assumes "n < 2 ^ LENGTH('a)" "m < 2 ^ LENGTH('a)" "(word_of_nat n :: 'a::len word) = word_of_nat m"
  shows "n = m"
proof -
  have "unat (word_of_nat n :: 'a word) = n" "unat (word_of_nat m :: 'a word) = m"
    by (rule unat_word_of_nat [OF assms(1)], rule unat_word_of_nat [OF assms(2)])
  with assms(3) show ?thesis by metis
qed

lemma u8_of_nat_inject: "n < 256 \<Longrightarrow> m < 256 \<Longrightarrow> (word_of_nat n :: u8) = word_of_nat m \<Longrightarrow> n = m"
  using word_of_nat_inject [of n m, where 'a = 8] by simp

lemma ucast_u8_eq_0: "(ucast (x :: u8) :: u32) = 0 \<longleftrightarrow> x = 0"
proof
  assume zero: "(ucast x :: u32) = 0"
  show "x = 0"
  proof (rule bit_word_eqI)
    fix n assume "n < LENGTH(8)"
    then have "bit x n = bit (ucast x :: u32) n" by (simp add: bit_ucast_iff)
    then show "bit x n = bit 0 n" by (simp add: zero)
  qed
qed simp

lemma word_neq_NOT: "(x :: 'a::len word) \<noteq> NOT x"
proof
  assume "x = NOT x"
  then have "bit x 0 = bit (NOT x) 0" by simp
  then show False by (simp add: bit_not_iff)
qed

lemma ucast_ucast_fits:
  fixes x :: "'a::len word"
  assumes "x < 2 ^ LENGTH('b::len)" "LENGTH('b) < LENGTH('a)"
  shows "ucast (ucast x :: 'b word) = x"
proof -
  have "(2 :: 'a word) ^ LENGTH('b) = word_of_nat (2 ^ LENGTH('b))" by simp
  then have "unat x < unat (word_of_nat (2 ^ LENGTH('b)) :: 'a word)" using assms(1) by (simp add: word_less_nat_alt)
  also have "\<dots> = 2 ^ LENGTH('b)" by (rule unat_word_of_nat) (use assms(2) in simp)
  finally have "unat x < 2 ^ LENGTH('b)" .
  then have "unat (ucast (ucast x :: 'b word) :: 'a word) = unat x"
    using assms(2) by (simp add: unsigned_ucast_eq unsigned_take_bit_eq take_bit_nat_eq_self)
  then show ?thesis by (simp only: word_unat_eq_iff)
qed

text \<open>C's integer division, which truncates towards zero (the divisors of the code are positive).\<close>

definition cdiv :: "int \<Rightarrow> int \<Rightarrow> int" where
  "cdiv a b = (if 0 \<le> a then a div b else - ((- a) div b))"

definition cmod :: "int \<Rightarrow> int \<Rightarrow> int" where
  "cmod a b = a - cdiv a b * b"

lemma cdiv_nonneg [simp]: "0 \<le> a \<Longrightarrow> cdiv a b = a div b"
  by (simp add: cdiv_def)

lemma cmod_nonneg [simp]: "0 \<le> a \<Longrightarrow> cmod a b = a mod b"
  by (simp add: cmod_def minus_div_mult_eq_mod)

text \<open>A loop that stops at the first index with a property.\<close>

lemma find_upt_Some_iff: "find P [0..<n] = Some i \<longleftrightarrow> i < n \<and> P i \<and> (\<forall>j<i. \<not> P j)"
  by (auto simp: find_Some_iff)

lemma find_upt_None_iff: "find P [0..<n] = None \<longleftrightarrow> (\<forall>i<n. \<not> P i)"
  by (auto simp: find_None_iff)

end
