(* ===== verification/Ecc.thy ===== *)
theory Ecc
  imports Prelude
begin

section \<open>The ECC of yaffs\_ecc.c\<close>

text \<open>
  The SmartMedia error-correcting code of \<^verbatim>\<open>fs/yaffs2/yaffs_ecc.c\<close>: the 22-bit code over a
  256-byte block (\<open>yaffs_ECCCalculate\<close>, \<open>yaffs_ECCCorrect\<close>) and the variable-length code used for
  the tags (\<open>yaffs_ECCCalculateOther\<close>, \<open>yaffs_ECCCorrectOther\<close>).
  The preprocessor switch \<^verbatim>\<open>CONFIG_YAFFS_ECC_WRONG_ORDER\<close> is the Boolean argument
  \<open>wrong_order\<close>.  A C array is a list; reading or writing past its end is the result \<open>None\<close>.
  The proofs rest on one fact: the parity table is the XOR-linear span of eight column masks, so the
  code of a damaged block differs from the code of the original by a syndrome that depends only on
  the damaged positions.  The contract a client relies on (clean data is accepted, one flipped bit is
  repaired, two are reported) is the locale \<open>error_code\<close>, interpreted on both codes.
\<close>

type_synonym ecc3 = "u8 \<times> u8 \<times> u8"

definition column_parity_table :: "u8 list" where
  "column_parity_table =
    [
     0x00, 0x55, 0x59, 0x0c, 0x65, 0x30, 0x3c, 0x69,
     0x69, 0x3c, 0x30, 0x65, 0x0c, 0x59, 0x55, 0x00,
     0x95, 0xc0, 0xcc, 0x99, 0xf0, 0xa5, 0xa9, 0xfc,
     0xfc, 0xa9, 0xa5, 0xf0, 0x99, 0xcc, 0xc0, 0x95,
     0x99, 0xcc, 0xc0, 0x95, 0xfc, 0xa9, 0xa5, 0xf0,
     0xf0, 0xa5, 0xa9, 0xfc, 0x95, 0xc0, 0xcc, 0x99,
     0x0c, 0x59, 0x55, 0x00, 0x69, 0x3c, 0x30, 0x65,
     0x65, 0x30, 0x3c, 0x69, 0x00, 0x55, 0x59, 0x0c,
     0xa5, 0xf0, 0xfc, 0xa9, 0xc0, 0x95, 0x99, 0xcc,
     0xcc, 0x99, 0x95, 0xc0, 0xa9, 0xfc, 0xf0, 0xa5,
     0x30, 0x65, 0x69, 0x3c, 0x55, 0x00, 0x0c, 0x59,
     0x59, 0x0c, 0x00, 0x55, 0x3c, 0x69, 0x65, 0x30,
     0x3c, 0x69, 0x65, 0x30, 0x59, 0x0c, 0x00, 0x55,
     0x55, 0x00, 0x0c, 0x59, 0x30, 0x65, 0x69, 0x3c,
     0xa9, 0xfc, 0xf0, 0xa5, 0xcc, 0x99, 0x95, 0xc0,
     0xc0, 0x95, 0x99, 0xcc, 0xa5, 0xf0, 0xfc, 0xa9,
     0xa9, 0xfc, 0xf0, 0xa5, 0xcc, 0x99, 0x95, 0xc0,
     0xc0, 0x95, 0x99, 0xcc, 0xa5, 0xf0, 0xfc, 0xa9,
     0x3c, 0x69, 0x65, 0x30, 0x59, 0x0c, 0x00, 0x55,
     0x55, 0x00, 0x0c, 0x59, 0x30, 0x65, 0x69, 0x3c,
     0x30, 0x65, 0x69, 0x3c, 0x55, 0x00, 0x0c, 0x59,
     0x59, 0x0c, 0x00, 0x55, 0x3c, 0x69, 0x65, 0x30,
     0xa5, 0xf0, 0xfc, 0xa9, 0xc0, 0x95, 0x99, 0xcc,
     0xcc, 0x99, 0x95, 0xc0, 0xa9, 0xfc, 0xf0, 0xa5,
     0x0c, 0x59, 0x55, 0x00, 0x69, 0x3c, 0x30, 0x65,
     0x65, 0x30, 0x3c, 0x69, 0x00, 0x55, 0x59, 0x0c,
     0x99, 0xcc, 0xc0, 0x95, 0xfc, 0xa9, 0xa5, 0xf0,
     0xf0, 0xa5, 0xa9, 0xfc, 0x95, 0xc0, 0xcc, 0x99,
     0x95, 0xc0, 0xcc, 0x99, 0xf0, 0xa5, 0xa9, 0xfc,
     0xfc, 0xa9, 0xa5, 0xf0, 0x99, 0xcc, 0xc0, 0x95,
     0x00, 0x55, 0x59, 0x0c, 0x65, 0x30, 0x3c, 0x69,
     0x69, 0x3c, 0x30, 0x65, 0x0c, 0x59, 0x55, 0x00]"

definition column_parity :: "u8 \<Rightarrow> u8" where
  "column_parity d = column_parity_table ! unat d"

text \<open>
  The bit-counting loop, shared by \<open>yaffs_CountBits\<close> (an unsigned char) and
  \<open>yaffs_CountBits32\<close> (an unsigned int).
\<close>

function yaffs_CountBits_loop :: "'a::len word \<Rightarrow> int \<Rightarrow> int" where
  "yaffs_CountBits_loop x r =
     (if x \<noteq> 0 then yaffs_CountBits_loop (drop_bit 1 x) (if x AND 1 \<noteq> 0 then r + 1 else r) else r)"
  by pat_completeness auto
termination
proof (relation "measure (\<lambda>(x, r). unat x)")
  fix x :: "'a::len word" and r :: int
  assume "x \<noteq> 0"
  then have "0 < unat x" by (simp add: unat_gt_0)
  then have "unat x div 2 < unat x" by simp
  moreover have "unat (drop_bit 1 x) = unat x div 2"
    using unat_drop_bit_eq [of 1 x] by (simp only: drop_bit_eq_div [of 1 "unat x"] power_one_right)
  ultimately show "((drop_bit 1 x, if x AND 1 \<noteq> 0 then r + 1 else r), (x, r)) \<in> measure (\<lambda>(x, r). unat x)"
    by simp
qed simp

declare yaffs_CountBits_loop.simps [simp del]

definition yaffs_CountBits :: "u8 \<Rightarrow> int" where
  "yaffs_CountBits x = yaffs_CountBits_loop x 0"

definition yaffs_CountBits32 :: "u32 \<Rightarrow> int" where
  "yaffs_CountBits32 x = yaffs_CountBits_loop x 0"

text \<open>
  The parity loop.  The line parities are 8 bits wide in \<open>yaffs_ECCCalculate\<close> and 32 bits wide in
  \<open>yaffs_ECCCalculateOther\<close>; the loop counter is truncated to that width when it is XORed in.
\<close>

fun ECCCalculate_loop :: "nat \<Rightarrow> u8 list \<Rightarrow> u8 \<Rightarrow> 'a::len word \<Rightarrow> 'a word \<Rightarrow> u8 \<times> 'a word \<times> 'a word" where
  "ECCCalculate_loop i [] col_parity line_parity line_parity_prime =
     (col_parity, line_parity, line_parity_prime)"
| "ECCCalculate_loop i (d # data) col_parity line_parity line_parity_prime =
     (let b = column_parity d
      in if b AND 1 \<noteq> 0
         then ECCCalculate_loop (i + 1) data (col_parity XOR b)
                (line_parity XOR word_of_nat i) (line_parity_prime XOR NOT (word_of_nat i))
         else ECCCalculate_loop (i + 1) data (col_parity XOR b) line_parity line_parity_prime)"

text \<open>The packing of the line parities into \<open>ecc[1]\<close> and \<open>ecc[0]\<close> (before complementing).\<close>

definition ecc_bits_hi :: "u8 \<Rightarrow> u8 \<Rightarrow> u8" where
  "ecc_bits_hi line_parity line_parity_prime =
    (let t = 0;
         t = (if line_parity AND 0x80 \<noteq> 0 then t OR 0x80 else t);
         t = (if line_parity_prime AND 0x80 \<noteq> 0 then t OR 0x40 else t);
         t = (if line_parity AND 0x40 \<noteq> 0 then t OR 0x20 else t);
         t = (if line_parity_prime AND 0x40 \<noteq> 0 then t OR 0x10 else t);
         t = (if line_parity AND 0x20 \<noteq> 0 then t OR 0x08 else t);
         t = (if line_parity_prime AND 0x20 \<noteq> 0 then t OR 0x04 else t);
         t = (if line_parity AND 0x10 \<noteq> 0 then t OR 0x02 else t);
         t = (if line_parity_prime AND 0x10 \<noteq> 0 then t OR 0x01 else t)
     in t)"

definition ecc_bits_lo :: "u8 \<Rightarrow> u8 \<Rightarrow> u8" where
  "ecc_bits_lo line_parity line_parity_prime =
    (let t = 0;
         t = (if line_parity AND 0x08 \<noteq> 0 then t OR 0x80 else t);
         t = (if line_parity_prime AND 0x08 \<noteq> 0 then t OR 0x40 else t);
         t = (if line_parity AND 0x04 \<noteq> 0 then t OR 0x20 else t);
         t = (if line_parity_prime AND 0x04 \<noteq> 0 then t OR 0x10 else t);
         t = (if line_parity AND 0x02 \<noteq> 0 then t OR 0x08 else t);
         t = (if line_parity_prime AND 0x02 \<noteq> 0 then t OR 0x04 else t);
         t = (if line_parity AND 0x01 \<noteq> 0 then t OR 0x02 else t);
         t = (if line_parity_prime AND 0x01 \<noteq> 0 then t OR 0x01 else t)
     in t)"

definition yaffs_ECCCalculate :: "bool \<Rightarrow> u8 list \<Rightarrow> ecc3 option" where
  "yaffs_ECCCalculate wrong_order data =
     (if length data < 256 then None
      else case ECCCalculate_loop 0 (take 256 data) 0 0 0 of
        (col_parity, line_parity, line_parity_prime) \<Rightarrow>
          (let ecc2 = NOT col_parity OR 0x03;
               ecc1 = NOT (ecc_bits_hi line_parity line_parity_prime);
               ecc0 = NOT (ecc_bits_lo line_parity line_parity_prime)
           in Some (if wrong_order then (ecc1, ecc0, ecc2) else (ecc0, ecc1, ecc2))))"

text \<open>Decoding of the damaged byte and bit from the difference of the two codes.\<close>

definition ecc_error_byte :: "u8 \<Rightarrow> u8 \<Rightarrow> u8" where
  "ecc_error_byte d0 d1 =
    (let byte = 0;
         byte = (if d1 AND 0x80 \<noteq> 0 then byte OR 0x80 else byte);
         byte = (if d1 AND 0x20 \<noteq> 0 then byte OR 0x40 else byte);
         byte = (if d1 AND 0x08 \<noteq> 0 then byte OR 0x20 else byte);
         byte = (if d1 AND 0x02 \<noteq> 0 then byte OR 0x10 else byte);
         byte = (if d0 AND 0x80 \<noteq> 0 then byte OR 0x08 else byte);
         byte = (if d0 AND 0x20 \<noteq> 0 then byte OR 0x04 else byte);
         byte = (if d0 AND 0x08 \<noteq> 0 then byte OR 0x02 else byte);
         byte = (if d0 AND 0x02 \<noteq> 0 then byte OR 0x01 else byte)
     in byte)"

definition ecc_error_bit :: "u8 \<Rightarrow> nat" where
  "ecc_error_bit d2 =
     (if d2 AND 0x80 \<noteq> 0 then 4 else 0) + (if d2 AND 0x20 \<noteq> 0 then 2 else 0)
       + (if d2 AND 0x08 \<noteq> 0 then 1 else 0)"

definition yaffs_ECCCorrect ::
  "bool \<Rightarrow> u8 list \<Rightarrow> ecc3 \<Rightarrow> ecc3 \<Rightarrow> (int \<times> u8 list \<times> ecc3) option" where
  "yaffs_ECCCorrect wrong_order data read_ecc test_ecc =
    (case (read_ecc, test_ecc) of ((r0, r1, r2), (t0, t1, t2)) \<Rightarrow>
     let d0 = r0 XOR t0; d1 = r1 XOR t1; d2 = r2 XOR t2
     in if d0 OR d1 OR d2 = 0 then Some (0, data, read_ecc)
        else if (d0 XOR drop_bit 1 d0) AND 0x55 = 0x55 \<and>
                (d1 XOR drop_bit 1 d1) AND 0x55 = 0x55 \<and>
                (d2 XOR drop_bit 1 d2) AND 0x54 = 0x54 then
          (let (d0, d1) = (if wrong_order then (d1, d0) else (d0, d1));
               byte = unat (ecc_error_byte d0 d1); b = ecc_error_bit d2
           in if byte < length data
              then Some (1, data[byte := data ! byte XOR push_bit b 1], read_ecc)
              else None)
        else if yaffs_CountBits d0 + yaffs_CountBits d1 + yaffs_CountBits d2 = 1 then
          Some (1, data, test_ecc)
        else Some (-1, data, read_ecc))"


text \<open>The code over an arbitrary number of bytes.\<close>

record yaffs_ECCOther =
  colParity :: u8
  lineParity :: u32
  lineParityPrime :: u32

definition yaffs_ECCCalculateOther :: "u8 list \<Rightarrow> nat \<Rightarrow> yaffs_ECCOther option" where
  "yaffs_ECCCalculateOther data nBytes =
     (if length data < nBytes then None
      else case ECCCalculate_loop 0 (take nBytes data) 0 0 0 of
        (col_parity, line_parity, line_parity_prime) \<Rightarrow>
          Some \<lparr>colParity = drop_bit 2 col_parity AND 0x3f, lineParity = line_parity,
                lineParityPrime = line_parity_prime\<rparr>)"

definition ecc_other_bit :: "u8 \<Rightarrow> nat" where
  "ecc_other_bit cDelta =
     (if cDelta AND 0x20 \<noteq> 0 then 4 else 0) + (if cDelta AND 0x08 \<noteq> 0 then 2 else 0)
       + (if cDelta AND 0x02 \<noteq> 0 then 1 else 0)"

definition yaffs_ECCCorrectOther ::
  "u8 list \<Rightarrow> nat \<Rightarrow> yaffs_ECCOther \<Rightarrow> yaffs_ECCOther \<Rightarrow> (int \<times> u8 list \<times> yaffs_ECCOther) option" where
  "yaffs_ECCCorrectOther data nBytes read_ecc test_ecc =
    (let cDelta = colParity read_ecc XOR colParity test_ecc;
         lDelta = lineParity read_ecc XOR lineParity test_ecc;
         lDeltaPrime = lineParityPrime read_ecc XOR lineParityPrime test_ecc
     in if (ucast cDelta :: u32) OR lDelta OR lDeltaPrime = 0 then Some (0, data, read_ecc)
        else if lDelta = NOT lDeltaPrime \<and> (cDelta XOR drop_bit 1 cDelta) AND 0x15 = 0x15 then
          (if nBytes \<le> unat lDelta then Some (-1, data, read_ecc)
           else if unat lDelta < length data
           then Some (1, data[unat lDelta := data ! unat lDelta XOR push_bit (ecc_other_bit cDelta) 1], read_ecc)
           else None)
        else if yaffs_CountBits32 lDelta + yaffs_CountBits32 lDeltaPrime + yaffs_CountBits cDelta = 1 then
          Some (1, data, test_ecc)
        else Some (-1, data, read_ecc))"


subsection \<open>The parity table is linear\<close>

fun xor_span :: "u8 list \<Rightarrow> u8 list" where
  "xor_span [] = [0]"
| "xor_span (c # cs) = (let s = xor_span cs in s @ map (\<lambda>v. v XOR c) s)"

fun xor_bits :: "u8 list \<Rightarrow> nat \<Rightarrow> u8" where
  "xor_bits [] n = 0"
| "xor_bits (c # cs) n = xor_bits cs n XOR (if bit n (length cs) then c else 0)"

lemma length_xor_span [simp]: "length (xor_span cs) = 2 ^ length cs"
  by (induction cs) (simp_all add: Let_def)

lemma xor_bits_cong:
  "(\<And>j. j < length cs \<Longrightarrow> bit n j = bit m j) \<Longrightarrow> xor_bits cs n = xor_bits cs m"
  by (induction cs) auto

lemma xor_bits_mod: "xor_bits cs (n mod 2 ^ length cs) = xor_bits cs n"
  by (rule xor_bits_cong) (simp add: bit_take_bit_iff flip: take_bit_eq_mod)

lemma xor_span_nth: "n < 2 ^ length cs \<Longrightarrow> xor_span cs ! n = xor_bits cs n"
proof (induction cs arbitrary: n)
  case (Cons c cs)
  let ?k = "length cs"
  show ?case
  proof (cases "n < 2 ^ ?k")
    case True
    then have "\<not> bit n ?k" by (simp add: bit_iff_odd)
    with True Cons.IH show ?thesis by (simp add: Let_def nth_append)
  next
    case False
    define m where "m = n - 2 ^ ?k"
    have m: "m < 2 ^ ?k" "n = 2 ^ ?k + m" using False Cons.prems by (auto simp: m_def)
    then have "n div 2 ^ ?k = 1" "n mod 2 ^ ?k = m" by (simp_all add: div_add_self1)
    then have "bit n ?k" "xor_bits cs m = xor_bits cs n"
      using xor_bits_mod [of cs n] by (simp_all add: bit_iff_odd)
    with m Cons.IH [of m] show ?thesis by (simp add: Let_def nth_append)
  qed
qed simp

lemma column_parity_table_span:
  "column_parity_table = xor_span [0xa9, 0xa5, 0x99, 0x95, 0x69, 0x65, 0x59, 0x55]"
  by (simp add: column_parity_table_def)

lemma column_parity_bits: "column_parity d = xor_bits [0xa9, 0xa5, 0x99, 0x95, 0x69, 0x65, 0x59, 0x55] (unat d)"
  unfolding column_parity_def column_parity_table_span by (rule xor_span_nth) simp

lemma xor_bits_xor: "xor_bits cs (n XOR m) = xor_bits cs n XOR xor_bits cs m"
  by (induction cs) (auto simp: bit_xor_iff ac_simps)

lemma column_parity_xor: "column_parity (a XOR b) = column_parity a XOR column_parity b"
  by (simp add: column_parity_bits unsigned_xor_eq xor_bits_xor)


subsection \<open>Flipping one bit changes the code by its syndrome\<close>

lemma less_8_cases: "(b :: nat) < 8 \<Longrightarrow> b \<in> {0, 1, 2, 3, 4, 5, 6, 7}"
  by auto

lemma column_parity_0 [simp]: "column_parity 0 = 0"
  by (simp add: column_parity_bits)

lemma column_parity_single:
  "column_parity 1 = 0x55" "column_parity 2 = 0x59" "column_parity 4 = 0x65" "column_parity 8 = 0x69"
  "column_parity 16 = 0x95" "column_parity 32 = 0x99" "column_parity 64 = 0xa5" "column_parity 128 = 0xa9"
  by (simp_all add: column_parity_def column_parity_table_def)

lemma column_parity_push_bit_odd: "b < 8 \<Longrightarrow> bit (column_parity (push_bit b 1)) 0"
  by (drule less_8_cases) (auto simp: column_parity_single)

lemma ECCCalculate_loop_shift:
  "ECCCalculate_loop i ds (c XOR x) (l XOR y) (p XOR z) =
     (case ECCCalculate_loop i ds c l p of (c', l', p') \<Rightarrow> (c' XOR x, l' XOR y, p' XOR z))"
proof (induction ds arbitrary: i c l p)
  case (Cons d ds)
  show ?case
    using Cons.IH [of "i + 1" "c XOR column_parity d" "l XOR word_of_nat i" "p XOR NOT (word_of_nat i)"]
      Cons.IH [of "i + 1" "c XOR column_parity d" l p]
    by (simp add: Let_def ac_simps)
qed simp

lemma ECCCalculate_loop_flip:
  assumes "k < length ds" and odd: "bit (column_parity e) 0"
  shows "ECCCalculate_loop i (ds[k := ds ! k XOR e]) c l p =
     (case ECCCalculate_loop i ds c l p of (c', l', p') \<Rightarrow>
       (c' XOR column_parity e, l' XOR word_of_nat (i + k), p' XOR NOT (word_of_nat (i + k))))"
  using assms(1)
proof (induction ds arbitrary: i k c l p)
  case (Cons d ds)
  show ?case
  proof (cases k)
    case 0
    show ?thesis
      using odd ECCCalculate_loop_shift [of "i + 1" ds "c XOR column_parity d" "column_parity e"
          l "word_of_nat i" p "NOT (word_of_nat i)"]
       ECCCalculate_loop_shift [of "i + 1" ds "c XOR column_parity d" "column_parity e"
          "l XOR word_of_nat i" "word_of_nat i" "p XOR NOT (word_of_nat i)" "NOT (word_of_nat i)"]
      by (simp add: 0 column_parity_xor byte_bits ac_simps Let_def split: prod.splits)
  next
    case (Suc k')
    with Cons.prems have "k' < length ds" by simp
    from Cons.IH [OF this] Suc show ?thesis by (simp add: Let_def add.assoc)
  qed
qed simp

lemma bit_ecc_bits_lo [byte_bits]:
  "bit (ecc_bits_lo l p) 0 = bit p 0" "bit (ecc_bits_lo l p) (Suc 0) = bit l 0"
  "bit (ecc_bits_lo l p) 2 = bit p 1" "bit (ecc_bits_lo l p) 3 = bit l (Suc 0)"
  "bit (ecc_bits_lo l p) 4 = bit p 2" "bit (ecc_bits_lo l p) 5 = bit l 2"
  "bit (ecc_bits_lo l p) 6 = bit p 3" "bit (ecc_bits_lo l p) 7 = bit l 3"
  unfolding ecc_bits_lo_def Let_def if_or_word by (simp_all add: bit_or_iff bit_if_word byte_mask_eq_0 del: if_or_word)

lemma bit_ecc_bits_hi [byte_bits]:
  "bit (ecc_bits_hi l p) 0 = bit p 4" "bit (ecc_bits_hi l p) (Suc 0) = bit l 4"
  "bit (ecc_bits_hi l p) 2 = bit p 5" "bit (ecc_bits_hi l p) 3 = bit l 5"
  "bit (ecc_bits_hi l p) 4 = bit p 6" "bit (ecc_bits_hi l p) 5 = bit l 6"
  "bit (ecc_bits_hi l p) 6 = bit p 7" "bit (ecc_bits_hi l p) 7 = bit l 7"
  unfolding ecc_bits_hi_def Let_def if_or_word by (simp_all add: bit_or_iff bit_if_word byte_mask_eq_0)

lemma bit_ecc_error_byte [byte_bits]:
  "bit (ecc_error_byte d0 d1) 0 = bit d0 (Suc 0)" "bit (ecc_error_byte d0 d1) (Suc 0) = bit d0 3"
  "bit (ecc_error_byte d0 d1) 2 = bit d0 5" "bit (ecc_error_byte d0 d1) 3 = bit d0 7"
  "bit (ecc_error_byte d0 d1) 4 = bit d1 (Suc 0)" "bit (ecc_error_byte d0 d1) 5 = bit d1 3"
  "bit (ecc_error_byte d0 d1) 6 = bit d1 5" "bit (ecc_error_byte d0 d1) 7 = bit d1 7"
  unfolding ecc_error_byte_def Let_def if_or_word by (simp_all add: bit_or_iff bit_if_word byte_mask_eq_0)

lemma ecc_bits_xor:
  "NOT (ecc_bits_lo l p) XOR NOT (ecc_bits_lo (l XOR y) (p XOR z)) = ecc_bits_lo y z"
  "NOT (ecc_bits_hi l p) XOR NOT (ecc_bits_hi (l XOR y) (p XOR z)) = ecc_bits_hi y z"
  "(NOT c OR 3) XOR (NOT (c XOR x) OR 3) = (x :: u8) AND 0xFC"
  by (simp_all add: byte_eq_iff byte_bits, auto)

lemma ecc_bits_single:
  "(ecc_bits_lo w (NOT w) XOR drop_bit 1 (ecc_bits_lo w (NOT w))) AND 0x55 = 0x55"
  "(ecc_bits_hi w (NOT w) XOR drop_bit 1 (ecc_bits_hi w (NOT w))) AND 0x55 = 0x55"
  "ecc_error_byte (ecc_bits_lo w (NOT w)) (ecc_bits_hi w (NOT w)) = w"
  by (simp_all add: byte_eq_iff byte_bits)


subsection \<open>Decoding\<close>

fun xor3 :: "ecc3 \<Rightarrow> ecc3 \<Rightarrow> ecc3" where
  "xor3 (a, b, c) (x, y, z) = (a XOR x, b XOR y, c XOR z)"

definition ecc_syndrome :: "bool \<Rightarrow> u8 \<Rightarrow> u8 \<Rightarrow> u8 \<Rightarrow> ecc3" where
  "ecc_syndrome wrong_order x y z =
     (if wrong_order then (ecc_bits_hi y z, ecc_bits_lo y z, x AND 0xFC)
      else (ecc_bits_lo y z, ecc_bits_hi y z, x AND 0xFC))"

lemma yaffs_ECCCalculate_Some: "256 \<le> length data \<Longrightarrow> \<exists>ecc. yaffs_ECCCalculate wo data = Some ecc"
  by (auto simp: yaffs_ECCCalculate_def Let_def split: prod.splits)

lemma ecc_delta:
  "xor3 (NOT (ecc_bits_lo l p), NOT (ecc_bits_hi l p), NOT c OR 3)
        (NOT (ecc_bits_lo (l XOR y) (p XOR z)), NOT (ecc_bits_hi (l XOR y) (p XOR z)), NOT (c XOR x) OR 3)
     = ecc_syndrome False x y z"
  by (simp add: ecc_bits_xor ecc_syndrome_def del: bit.xor_compl_left bit.xor_compl_right)

lemma take_flip: "take n (data[k := v]) = (take n data)[k := v]"
  by (rule take_update_swap)

lemma ECCCalculate_flip:
  assumes "256 \<le> length data" "k < 256" "bit (column_parity e) 0" "yaffs_ECCCalculate wo data = Some ecc"
  shows "\<exists>ecc'. yaffs_ECCCalculate wo (data[k := data ! k XOR e]) = Some ecc' \<and>
    xor3 ecc ecc' = ecc_syndrome wo (column_parity e) (word_of_nat k) (NOT (word_of_nat k))"
proof -
  obtain c l p where loop: "ECCCalculate_loop 0 (take 256 data) 0 0 0 = (c, l :: u8, p)"
    by (metis prod_cases3)
  have "take 256 (data[k := data ! k XOR e]) = (take 256 data)[k := take 256 data ! k XOR e]"
    using assms(1,2) by (simp add: take_update_swap)
  with loop assms have loop': "ECCCalculate_loop 0 (take 256 (data[k := data ! k XOR e])) 0 0 0 =
      (c XOR column_parity e, l XOR word_of_nat k, p XOR NOT (word_of_nat k :: u8))"
    using ECCCalculate_loop_flip [of k "take 256 data" e 0 0 "0 :: u8" 0] by simp
  show ?thesis
    using assms(1,4) loop loop' ecc_delta [of l p c "word_of_nat k" "NOT (word_of_nat k)" "column_parity e"]
    by (auto simp: yaffs_ECCCalculate_def Let_def ecc_syndrome_def)
qed

lemma column_parity_single_error:
  "b < 8 \<Longrightarrow> ecc_error_bit (column_parity (push_bit b 1) AND 0xFC) = b"
  "b < 8 \<Longrightarrow> (column_parity (push_bit b 1) AND 0xFC XOR drop_bit 1 (column_parity (push_bit b 1) AND 0xFC)) AND 0x54 = 0x54"
  "b < 8 \<Longrightarrow> column_parity (push_bit b 1) AND 0xFC \<noteq> 0"
  by (drule less_8_cases, auto simp: column_parity_single ecc_error_bit_def)+

lemma yaffs_ECCCorrect_delta:
  assumes "xor3 read_ecc test_ecc = (d0, d1, d2)"
  shows "yaffs_ECCCorrect wo data read_ecc test_ecc =
    (if d0 OR d1 OR d2 = 0 then Some (0, data, read_ecc)
     else if (d0 XOR drop_bit 1 d0) AND 0x55 = 0x55 \<and> (d1 XOR drop_bit 1 d1) AND 0x55 = 0x55 \<and>
             (d2 XOR drop_bit 1 d2) AND 0x54 = 0x54 then
       (let byte = unat (if wo then ecc_error_byte d1 d0 else ecc_error_byte d0 d1)
        in if byte < length data
           then Some (1, data[byte := data ! byte XOR push_bit (ecc_error_bit d2) 1], read_ecc) else None)
     else if yaffs_CountBits d0 + yaffs_CountBits d1 + yaffs_CountBits d2 = 1 then Some (1, data, test_ecc)
     else Some (-1, data, read_ecc))"
  using assms unfolding yaffs_ECCCorrect_def
  by (cases read_ecc; cases test_ecc) (simp add: Let_def split: prod.splits del: drop_bit_xor)

lemma ecc_correct_single:
  assumes "b < 8" "k < 256" "k < length data"
    and "xor3 read_ecc test_ecc = ecc_syndrome wo (column_parity (push_bit b 1)) (word_of_nat k) (NOT (word_of_nat k))"
  shows "yaffs_ECCCorrect wo data read_ecc test_ecc = Some (1, data[k := data ! k XOR push_bit b 1], read_ecc)"
proof -
  have k: "unat (word_of_nat k :: u8) = k"
    using assms(2) by (simp add: unat_word_of_nat)
  have "xor3 read_ecc test_ecc =
      (if wo then ecc_bits_hi (word_of_nat k) (NOT (word_of_nat k)) else ecc_bits_lo (word_of_nat k) (NOT (word_of_nat k)),
       if wo then ecc_bits_lo (word_of_nat k) (NOT (word_of_nat k)) else ecc_bits_hi (word_of_nat k) (NOT (word_of_nat k)),
       column_parity (push_bit b 1) AND 0xFC)"
    using assms(4) by (simp add: ecc_syndrome_def)
  from yaffs_ECCCorrect_delta [OF this] show ?thesis
    using assms(1-3) k column_parity_single_error [OF assms(1)] ecc_bits_single [of "word_of_nat k"]
    by (cases wo) (simp_all add: or_eq_0_iff)
qed

lemma CountBits_card: "yaffs_CountBits_loop x r = r + int (card {n. bit x n})"
proof (induction x r rule: yaffs_CountBits_loop.induct)
  case (1 x r)
  show ?case
  proof (cases "x = 0")
    case True
    then show ?thesis by (simp add: yaffs_CountBits_loop.simps)
  next
    case False
    have "{n. bit x n} = (if bit x 0 then {0} else {}) \<union> Suc ` {n. bit (drop_bit 1 x) n}"
      by (auto simp: bit_drop_bit_eq image_iff) (metis not0_implies_Suc plus_1_eq_Suc)+
    moreover have "card (Suc ` {n. bit (drop_bit 1 x) n}) = card {n. bit (drop_bit 1 x) n}"
      by (rule card_image) simp
    moreover have "finite {n. bit (drop_bit 1 x) n}"
      by (rule finite_subset [of _ "{..<LENGTH('a)}"]) (auto dest: bit_imp_le_length)
    ultimately have "int (card {n. bit x n}) = (if bit x 0 then 1 else 0) + int (card {n. bit (drop_bit 1 x) n})"
      by (auto simp: card_insert_if)
    moreover have "(x AND 1 \<noteq> 0) = bit x 0"
      using and_power2_eq_0 [of x 0] by simp
    ultimately show ?thesis
      using 1 False by (subst yaffs_CountBits_loop.simps) simp
  qed
qed


lemma yaffs_CountBits_of_bool:
  "yaffs_CountBits x = of_bool (bit x 0) + of_bool (bit x (Suc 0)) + of_bool (bit x 2) + of_bool (bit x 3)
     + of_bool (bit x 4) + of_bool (bit x 5) + of_bool (bit x 6) + of_bool (bit x 7)"
proof -
  have "{n. bit x n} = {0, 1, 2, 3, 4, 5, 6, 7} \<inter> {n. bit x n}"
    using less_8_cases byte_high_bits not_le by blast
  then have "int (card {n. bit x n}) = (\<Sum>n\<in>{0, 1, 2, 3, 4, 5, 6, 7}. of_bool (bit x n))"
    by (simp only: sum_of_bool_eq finite.intros)
  then show ?thesis
    by (simp add: yaffs_CountBits_def CountBits_card)
qed

lemma yaffs_CountBits32_card: "yaffs_CountBits32 x = int (card {n. bit x n})"
  by (simp add: yaffs_CountBits32_def CountBits_card)

definition flip_bit_at :: "nat \<Rightarrow> u8 list \<Rightarrow> u8 list" where
  "flip_bit_at n data = data[n div 8 := data ! (n div 8) XOR push_bit (n mod 8) 1]"

lemma length_flip_bit_at [simp]: "length (flip_bit_at n data) = length data"
  by (simp add: flip_bit_at_def)

lemma flip_bit_at_twice [simp]: "flip_bit_at n (flip_bit_at n data) = data"
  by (cases "n div 8 < length data") (simp_all add: flip_bit_at_def ac_simps not_less list_update_beyond)

lemma ecc_no_error: "yaffs_ECCCorrect wo data ecc ecc = Some (0, data, ecc)"
  by (cases ecc) (simp add: yaffs_ECCCorrect_def)

lemma ECCCalculate_flip_bit:
  assumes "256 \<le> length data" "n < 2048" "yaffs_ECCCalculate wo data = Some ecc"
  shows "\<exists>ecc'. yaffs_ECCCalculate wo (flip_bit_at n data) = Some ecc' \<and>
    xor3 ecc ecc' = ecc_syndrome wo (column_parity (push_bit (n mod 8) 1)) (word_of_nat (n div 8))
       (NOT (word_of_nat (n div 8)))"
  unfolding flip_bit_at_def using assms
  by (intro ECCCalculate_flip column_parity_push_bit_odd) auto

lemma ecc_single_data_error:
  assumes "256 \<le> length data" "n < 2048" "yaffs_ECCCalculate wo data = Some ecc"
    and "yaffs_ECCCalculate wo (flip_bit_at n data) = Some ecc'"
  shows "yaffs_ECCCorrect wo (flip_bit_at n data) ecc ecc' = Some (1, data, ecc)"
proof -
  have "xor3 ecc ecc' = ecc_syndrome wo (column_parity (push_bit (n mod 8) 1)) (word_of_nat (n div 8))
       (NOT (word_of_nat (n div 8)))"
    using ECCCalculate_flip_bit [OF assms(1-3)] assms(4) by simp
  then have "yaffs_ECCCorrect wo (flip_bit_at n data) ecc ecc' =
      Some (1, flip_bit_at n (flip_bit_at n data), ecc)"
    unfolding flip_bit_at_def [of n "flip_bit_at n data"]
    using assms(1,2) by (intro ecc_correct_single) auto
  then show ?thesis by simp
qed

lemma xor3_swap: "xor3 a b = xor3 b a"
  by (cases a; cases b) (simp add: ac_simps)

lemma xor3_trans: "xor3 a b = x \<Longrightarrow> xor3 b c = y \<Longrightarrow> xor3 a c = xor3 x y"
  by (cases a; cases b; cases c; cases x; cases y) (auto simp: ac_simps)

lemma column_parity_pairs:
  "b < 8 \<Longrightarrow> bit (column_parity (push_bit b 1)) 2 \<noteq> bit (column_parity (push_bit b 1)) 3 \<and>
     bit (column_parity (push_bit b 1)) 4 \<noteq> bit (column_parity (push_bit b 1)) 5 \<and>
     bit (column_parity (push_bit b 1)) 6 \<noteq> bit (column_parity (push_bit b 1)) 7"
  by (drule less_8_cases) (auto simp: column_parity_single)

lemma column_parity_double:
  assumes "b < 8" "c < 8"
  shows "even (yaffs_CountBits ((column_parity (push_bit b 1) XOR column_parity (push_bit c 1)) AND 0xFC))"
    and "(column_parity (push_bit b 1) XOR column_parity (push_bit c 1)) AND 0xFC = 0 \<longleftrightarrow> b = c"
proof -
  let ?x = "column_parity (push_bit b 1)" and ?y = "column_parity (push_bit c 1)"
  have pairs: "bit ?x 3 = (\<not> bit ?x 2)" "bit ?x 5 = (\<not> bit ?x 4)" "bit ?x 7 = (\<not> bit ?x 6)"
    "bit ?y 3 = (\<not> bit ?y 2)" "bit ?y 5 = (\<not> bit ?y 4)" "bit ?y 7 = (\<not> bit ?y 6)"
    using column_parity_pairs [OF assms(1)] column_parity_pairs [OF assms(2)] by blast+
  show "even (yaffs_CountBits ((?x XOR ?y) AND 0xFC))"
    using pairs by (simp add: yaffs_CountBits_of_bool bit_and_iff bit_xor_iff del: push_bit_of_1)
  show "(?x XOR ?y) AND 0xFC = 0 \<longleftrightarrow> b = c"
  proof
    assume "(?x XOR ?y) AND 0xFC = 0"
    then have "?x AND 0xFC = ?y AND 0xFC"
      by (simp add: byte_eq_iff bit_and_iff bit_xor_iff del: push_bit_of_1)
    then show "b = c"
      using column_parity_single_error(1) assms by metis
  qed simp
qed

lemma ecc_bits_double:
  "even (yaffs_CountBits (ecc_bits_lo w w))" "even (yaffs_CountBits (ecc_bits_hi w w))"
  "(ecc_bits_lo w w XOR drop_bit 1 (ecc_bits_lo w w)) AND 0x55 \<noteq> 0x55"
  "ecc_bits_lo w w = 0 \<and> ecc_bits_hi w w = 0 \<longleftrightarrow> w = 0"
  by (auto simp: yaffs_CountBits_of_bool byte_eq_iff byte_bits)

lemma ecc_double_data_error:
  assumes "256 \<le> length data" "n < 2048" "m < 2048" "n \<noteq> m" "yaffs_ECCCalculate wo data = Some ecc"
    and "yaffs_ECCCalculate wo (flip_bit_at m (flip_bit_at n data)) = Some ecc'"
  shows "yaffs_ECCCorrect wo (flip_bit_at m (flip_bit_at n data)) ecc ecc' =
    Some (-1, flip_bit_at m (flip_bit_at n data), ecc)"
proof -
  let ?cn = "column_parity (push_bit (n mod 8) 1)" and ?cm = "column_parity (push_bit (m mod 8) 1)"
  let ?wn = "word_of_nat (n div 8) :: u8" and ?wm = "word_of_nat (m div 8) :: u8"
  let ?w = "?wn XOR ?wm" and ?x = "(?cn XOR ?cm) AND 0xFC"
  obtain ecc1 where ecc1: "yaffs_ECCCalculate wo (flip_bit_at n data) = Some ecc1"
     and d1: "xor3 ecc ecc1 = ecc_syndrome wo ?cn ?wn (NOT ?wn)"
    using ECCCalculate_flip_bit assms by blast
  have d2: "xor3 ecc1 ecc' = ecc_syndrome wo ?cm ?wm (NOT ?wm)"
    using ECCCalculate_flip_bit [of "flip_bit_at n data" m wo ecc1] ecc1 assms by auto
  have lo: "ecc_bits_lo ?wn (NOT ?wn) XOR ecc_bits_lo ?wm (NOT ?wm) = ecc_bits_lo ?w ?w"
    and hi: "ecc_bits_hi ?wn (NOT ?wn) XOR ecc_bits_hi ?wm (NOT ?wm) = ecc_bits_hi ?w ?w"
    by (auto simp: byte_eq_iff byte_bits)
  have "xor3 ecc ecc' = (if wo then ecc_bits_hi ?w ?w else ecc_bits_lo ?w ?w,
      if wo then ecc_bits_lo ?w ?w else ecc_bits_hi ?w ?w, ?x)"
    using xor3_trans [OF d1 d2] by (simp add: ecc_syndrome_def lo hi bit.conj_xor_distrib2 del: push_bit_of_1)
  note correct = yaffs_ECCCorrect_delta [OF this, of wo "flip_bit_at m (flip_bit_at n data)"]
  have "\<not> (?w = 0 \<and> ?x = 0)"
  proof
    assume "?w = 0 \<and> ?x = 0"
    then have "?wn = ?wm" "n mod 8 = m mod 8" 
      using column_parity_double(2) [of "n mod 8" "m mod 8"] by (simp_all add: word_xor_eq_0_iff)
    moreover have "n div 8 < 256" "m div 8 < 256" using assms by auto
    ultimately have "n div 8 = m div 8" by (metis u8_of_nat_inject)
    with \<open>n mod 8 = m mod 8\<close> have "n = m" by (metis div_mult_mod_eq)
    with assms show False by simp
  qed
  then have "\<not> (ecc_bits_lo ?w ?w = 0 \<and> ecc_bits_hi ?w ?w = 0 \<and> ?x = 0)"
    using ecc_bits_double(4) by blast
  moreover have "even (yaffs_CountBits ?x)"
    by (rule column_parity_double) auto
  then have "yaffs_CountBits (ecc_bits_lo ?w ?w) + yaffs_CountBits (ecc_bits_hi ?w ?w) + yaffs_CountBits ?x \<noteq> 1"
    using ecc_bits_double(1,2) [of ?w] by presburger
  ultimately show ?thesis
    using ecc_bits_double(3) [of ?w] unfolding correct
    by (cases wo) (auto simp: or_eq_0_iff add.commute add.left_commute simp del: push_bit_of_1)
qed


fun flip_ecc3 :: "nat \<Rightarrow> ecc3 \<Rightarrow> ecc3" where
  "flip_ecc3 n (e0, e1, e2) =
     (if n < 8 then (e0 XOR push_bit n 1, e1, e2)
      else if n < 16 then (e0, e1 XOR push_bit (n - 8) 1, e2)
      else (e0, e1, e2 XOR push_bit (n - 16) 1))"

lemma CountBits_push_bit: "b < 8 \<Longrightarrow> yaffs_CountBits (push_bit b 1) = 1"
  by (drule less_8_cases) (auto simp: yaffs_CountBits_of_bool)

lemma CountBits_0 [simp]: "yaffs_CountBits 0 = 0"
  by (simp add: yaffs_CountBits_of_bool)

lemma push_bit_1_u8_neq_0: "b < 8 \<Longrightarrow> push_bit b (1 :: u8) \<noteq> 0"
  by (drule less_8_cases) auto

lemma ecc_single_code_error:
  assumes "n < 24"
  shows "yaffs_ECCCorrect wo data (flip_ecc3 n ecc) ecc = Some (1, data, ecc)"
proof (cases ecc)
  case (fields e0 e1 e2)
  consider "n < 8" | "8 \<le> n" "n < 16" | "16 \<le> n" by linarith
  then show ?thesis
  proof cases
    case 1
    with fields have "xor3 (flip_ecc3 n ecc) ecc = (push_bit n 1, 0, 0)"
      by (simp add: xor.commute xor.left_commute del: push_bit_of_1)
    from yaffs_ECCCorrect_delta [OF this] 1 show ?thesis
      by (simp add: CountBits_push_bit push_bit_1_u8_neq_0 del: push_bit_of_1)
  next
    case 2
    with fields have "xor3 (flip_ecc3 n ecc) ecc = (0, push_bit (n - 8) 1, 0)"
      by (simp add: xor.commute xor.left_commute del: push_bit_of_1)
    from yaffs_ECCCorrect_delta [OF this] 2 show ?thesis
      by (simp add: CountBits_push_bit push_bit_1_u8_neq_0 del: push_bit_of_1)
  next
    case 3
    with fields have "xor3 (flip_ecc3 n ecc) ecc = (0, 0, push_bit (n - 16) 1)"
      by (simp add: xor.commute xor.left_commute del: push_bit_of_1)
    from yaffs_ECCCorrect_delta [OF this] 3 assms show ?thesis
      by (simp add: CountBits_push_bit push_bit_1_u8_neq_0 del: push_bit_of_1)
  qed
qed

subsection \<open>The variable-length code\<close>

lemma ECCCalculateOther_flip:
  assumes "nBytes \<le> length data" "n < 8 * nBytes" "yaffs_ECCCalculateOther data nBytes = Some ecc"
  shows "\<exists>ecc'. yaffs_ECCCalculateOther (flip_bit_at n data) nBytes = Some ecc' \<and>
    colParity ecc XOR colParity ecc' = drop_bit 2 (column_parity (push_bit (n mod 8) 1)) AND 0x3f \<and>
    lineParity ecc XOR lineParity ecc' = word_of_nat (n div 8) \<and>
    lineParityPrime ecc XOR lineParityPrime ecc' = NOT (word_of_nat (n div 8))"
proof -
  let ?k = "n div 8" and ?e = "push_bit (n mod 8) 1 :: u8"
  obtain c l p where loop: "ECCCalculate_loop 0 (take nBytes data) 0 0 0 = (c, l :: u32, p)"
    by (metis prod_cases3)
  have k: "?k < nBytes" "?k < length data" using assms by auto
  then have "take nBytes (flip_bit_at n data) = (take nBytes data)[?k := take nBytes data ! ?k XOR ?e]"
    by (simp add: flip_bit_at_def take_update_swap)
  with k loop column_parity_push_bit_odd [of "n mod 8"]
  have "ECCCalculate_loop 0 (take nBytes (flip_bit_at n data)) 0 0 0 =
      (c XOR column_parity ?e, l XOR word_of_nat ?k, p XOR NOT (word_of_nat ?k :: u32))"
    using ECCCalculate_loop_flip [of ?k "take nBytes data" ?e 0 0 "0 :: u32" 0] by simp
  with loop assms show ?thesis
    by (auto simp: yaffs_ECCCalculateOther_def xor.left_commute xor.commute byte_eq_iff bit_and_iff bit_xor_iff
        simp del: push_bit_of_1 split: if_splits)
qed


lemma column_parity_other:
  "b < 8 \<Longrightarrow> ecc_other_bit (drop_bit 2 (column_parity (push_bit b 1)) AND 0x3f) = b"
  "b < 8 \<Longrightarrow> ((drop_bit 2 (column_parity (push_bit b 1)) AND 0x3f) XOR
      drop_bit 1 (drop_bit 2 (column_parity (push_bit b 1)) AND 0x3f)) AND 0x15 = 0x15"
  by (drule less_8_cases, auto simp: column_parity_single ecc_other_bit_def)+

lemma yaffs_ECCCorrectOther_delta:
  assumes "colParity read_ecc XOR colParity test_ecc = cDelta"
    and "lineParity read_ecc XOR lineParity test_ecc = lDelta"
    and "lineParityPrime read_ecc XOR lineParityPrime test_ecc = lDeltaPrime"
  shows "yaffs_ECCCorrectOther data nBytes read_ecc test_ecc =
    (if (ucast cDelta :: u32) OR lDelta OR lDeltaPrime = 0 then Some (0, data, read_ecc)
        else if lDelta = NOT lDeltaPrime \<and> (cDelta XOR drop_bit 1 cDelta) AND 0x15 = 0x15 then
          (if nBytes \<le> unat lDelta then Some (-1, data, read_ecc)
           else if unat lDelta < length data
           then Some (1, data[unat lDelta := data ! unat lDelta XOR push_bit (ecc_other_bit cDelta) 1], read_ecc)
           else None)
        else if yaffs_CountBits32 lDelta + yaffs_CountBits32 lDeltaPrime + yaffs_CountBits cDelta = 1 then
          Some (1, data, test_ecc)
        else Some (-1, data, read_ecc))"
  unfolding yaffs_ECCCorrectOther_def assms Let_def by (rule refl)

lemma ecc_other_no_error: "yaffs_ECCCorrectOther data nBytes ecc ecc = Some (0, data, ecc)"
  by (simp add: yaffs_ECCCorrectOther_def)

lemma shift_2_column:
  "yaffs_CountBits (drop_bit 2 y AND 0x3f) = yaffs_CountBits (y AND 0xFC)"
  "drop_bit 2 y AND 0x3f = 0 \<longleftrightarrow> (y :: u8) AND 0xFC = 0"
  by (simp_all add: yaffs_CountBits_of_bool byte_eq_iff bit_and_iff bit_drop_bit_eq)

lemma ecc_other_single_data_error:
  assumes "nBytes \<le> length data" "n < 8 * nBytes" "nBytes < 2 ^ 32"
    and "yaffs_ECCCalculateOther data nBytes = Some ecc"
    and "yaffs_ECCCalculateOther (flip_bit_at n data) nBytes = Some ecc'"
  shows "yaffs_ECCCorrectOther (flip_bit_at n data) nBytes ecc ecc' = Some (1, data, ecc)"
proof -
  let ?w = "word_of_nat (n div 8) :: u32" and ?c = "drop_bit 2 (column_parity (push_bit (n mod 8) 1)) AND 0x3f"
  have w: "unat ?w = n div 8" using assms by (intro unat_word_of_nat) auto
  have "colParity ecc XOR colParity ecc' = ?c" "lineParity ecc XOR lineParity ecc' = ?w"
    "lineParityPrime ecc XOR lineParityPrime ecc' = NOT ?w"
    using ECCCalculateOther_flip [OF assms(1,2,4)] assms(5) by auto
  note correct = yaffs_ECCCorrectOther_delta [OF this, of "flip_bit_at n data" nBytes]
  have "n mod 8 < 8" by simp
  note col = column_parity_other [OF this]
  have "yaffs_ECCCorrectOther (flip_bit_at n data) nBytes ecc ecc' = Some (1, flip_bit_at n (flip_bit_at n data), ecc)"
    unfolding correct col w flip_bit_at_def [of n "flip_bit_at n data"]
    using assms(1,2) by (simp del: push_bit_of_1 flip_bit_at_twice)
  then show ?thesis by simp
qed

lemma ecc_other_double_data_error:
  assumes "nBytes \<le> length data" "n < 8 * nBytes" "m < 8 * nBytes" "n \<noteq> m" "nBytes < 2 ^ 32"
    and "yaffs_ECCCalculateOther data nBytes = Some ecc"
    and "yaffs_ECCCalculateOther (flip_bit_at m (flip_bit_at n data)) nBytes = Some ecc'"
  shows "yaffs_ECCCorrectOther (flip_bit_at m (flip_bit_at n data)) nBytes ecc ecc' =
    Some (-1, flip_bit_at m (flip_bit_at n data), ecc)"
proof -
  let ?cn = "column_parity (push_bit (n mod 8) 1)" and ?cm = "column_parity (push_bit (m mod 8) 1)"
  let ?wn = "word_of_nat (n div 8) :: u32" and ?wm = "word_of_nat (m div 8) :: u32"
  let ?w = "?wn XOR ?wm" and ?x = "drop_bit 2 (?cn XOR ?cm) AND 0x3f"
  obtain ecc1 where ecc1: "yaffs_ECCCalculateOther (flip_bit_at n data) nBytes = Some ecc1"
     and d1: "colParity ecc XOR colParity ecc1 = drop_bit 2 ?cn AND 0x3f"
      "lineParity ecc XOR lineParity ecc1 = ?wn" "lineParityPrime ecc XOR lineParityPrime ecc1 = NOT ?wn"
    using ECCCalculateOther_flip assms by blast
  have d2: "colParity ecc1 XOR colParity ecc' = drop_bit 2 ?cm AND 0x3f"
      "lineParity ecc1 XOR lineParity ecc' = ?wm" "lineParityPrime ecc1 XOR lineParityPrime ecc' = NOT ?wm"
    using ECCCalculateOther_flip [of nBytes "flip_bit_at n data" m ecc1] ecc1 assms by auto
  have "colParity ecc XOR colParity ecc' = (colParity ecc XOR colParity ecc1) XOR (colParity ecc1 XOR colParity ecc')"
    "lineParity ecc XOR lineParity ecc' = (lineParity ecc XOR lineParity ecc1) XOR (lineParity ecc1 XOR lineParity ecc')"
    "lineParityPrime ecc XOR lineParityPrime ecc' =
       (lineParityPrime ecc XOR lineParityPrime ecc1) XOR (lineParityPrime ecc1 XOR lineParityPrime ecc')"
    by (simp_all add: xor.assoc)
  then have "colParity ecc XOR colParity ecc' = ?x" "lineParity ecc XOR lineParity ecc' = ?w"
     "lineParityPrime ecc XOR lineParityPrime ecc' = ?w"
    unfolding d1 d2 by (simp_all add: bit.conj_xor_distrib2 del: push_bit_of_1)
  note correct = yaffs_ECCCorrectOther_delta [OF this, of "flip_bit_at m (flip_bit_at n data)" nBytes]
  have x: "even (yaffs_CountBits ?x)" "?x = 0 \<longleftrightarrow> n mod 8 = m mod 8"
    using column_parity_double [of "n mod 8" "m mod 8"] unfolding shift_2_column by simp_all
  have "\<not> (?w = 0 \<and> ?x = 0)"
  proof
    assume zero: "?w = 0 \<and> ?x = 0"
    then have "?wn = ?wm" by (simp only: word_xor_eq_0_iff)
    moreover have "n div 8 < 2 ^ 32" "m div 8 < 2 ^ 32" using assms by auto
    ultimately have "n div 8 = m div 8"
      using word_of_nat_inject [of "n div 8" "m div 8", where 'a = 32] by simp
    with zero x(2) have "n = m" by (metis div_mult_mod_eq)
    with assms show False by simp
  qed
  then have "(ucast ?x :: u32) OR ?w OR ?w \<noteq> 0"
    by (auto simp: or_eq_0_iff ucast_u8_eq_0 simp del: push_bit_of_1)
  moreover have "?w \<noteq> NOT ?w" by (rule word_neq_NOT)
  moreover have "yaffs_CountBits32 ?w + yaffs_CountBits32 ?w + yaffs_CountBits ?x \<noteq> 1"
    using x(1) by presburger
  ultimately show ?thesis unfolding correct by simp
qed

subsection \<open>The contract of an error-correcting code\<close>

text \<open>
  What the readers of tags and pages rely on.  \<open>calc\<close> computes the code of a block, \<open>correct\<close>
  compares a stored code with a recomputed one, \<open>flip n\<close> damages bit \<open>n\<close> of a block of
  \<open>nbits\<close> bits.
\<close>

locale error_code =
  fixes calc :: "'d \<Rightarrow> 'e option"
    and correct :: "'d \<Rightarrow> 'e \<Rightarrow> 'e \<Rightarrow> (int \<times> 'd \<times> 'e) option"
    and wf :: "'d \<Rightarrow> bool"
    and flip :: "nat \<Rightarrow> 'd \<Rightarrow> 'd"
    and nbits :: nat
  assumes calc_total: "wf d \<Longrightarrow> \<exists>e. calc d = Some e"
    and wf_flip: "wf d \<Longrightarrow> wf (flip n d)"
    and clean: "correct d e e = Some (0, d, e)"
    and single: "wf d \<Longrightarrow> n < nbits \<Longrightarrow> calc d = Some e \<Longrightarrow> calc (flip n d) = Some e' \<Longrightarrow>
      correct (flip n d) e e' = Some (1, d, e)"
    and double: "wf d \<Longrightarrow> n < nbits \<Longrightarrow> m < nbits \<Longrightarrow> n \<noteq> m \<Longrightarrow> calc d = Some e \<Longrightarrow>
      calc (flip m (flip n d)) = Some e' \<Longrightarrow>
      correct (flip m (flip n d)) e e' = Some (-1, flip m (flip n d), e)"
begin

text \<open>A reader recomputes the code of what it read and corrects against the stored one.\<close>

lemma read_clean:
  assumes "wf d" "calc d = Some e"
  shows "Option.bind (calc d) (correct d e) = Some (0, d, e)"
  using assms by (simp add: clean)

lemma read_single:
  assumes "wf d" "calc d = Some e" "n < nbits"
  shows "Option.bind (calc (flip n d)) (correct (flip n d) e) = Some (1, d, e)"
proof -
  obtain e' where e': "calc (flip n d) = Some e'" using calc_total wf_flip assms(1) by blast
  with single [OF assms(1,3,2) e'] show ?thesis by simp
qed

lemma read_double:
  assumes "wf d" "calc d = Some e" "n < nbits" "m < nbits" "n \<noteq> m"
  shows "Option.bind (calc (flip m (flip n d))) (correct (flip m (flip n d)) e) =
    Some (-1, flip m (flip n d), e)"
proof -
  obtain e' where e': "calc (flip m (flip n d)) = Some e'" using calc_total wf_flip assms(1) by blast
  with double [OF assms(1,3,4,5,2) e'] show ?thesis by simp
qed

end

lemma yaffs_ECCCalculateOther_Some:
  "nBytes \<le> length data \<Longrightarrow> \<exists>ecc. yaffs_ECCCalculateOther data nBytes = Some ecc"
  by (auto simp: yaffs_ECCCalculateOther_def split: prod.splits)

interpretation ecc256: error_code "yaffs_ECCCalculate wo" "yaffs_ECCCorrect wo" "\<lambda>d. 256 \<le> length d" flip_bit_at 2048
  for wo
  by unfold_locales
    (simp_all add: yaffs_ECCCalculate_Some ecc_no_error ecc_single_data_error ecc_double_data_error
      del: split_paired_Ex)

text \<open>The tags part of a packed YAFFS2 tag is 16 bytes.\<close>

interpretation ecc16: error_code "\<lambda>d. yaffs_ECCCalculateOther d 16" "\<lambda>d. yaffs_ECCCorrectOther d 16"
    "\<lambda>d. 16 \<le> length d" flip_bit_at 128
  by unfold_locales
    (simp_all add: yaffs_ECCCalculateOther_Some ecc_other_no_error ecc_other_single_data_error ecc_other_double_data_error)

subsection \<open>Properties\<close>

lemma ECCCalculate_loop_zeros: "ECCCalculate_loop i (replicate n 0) c l p = (c, l, p)"
  by (induction n arbitrary: i) simp_all

lemma ECCCalculate_zeros: "yaffs_ECCCalculate False (replicate 256 0) = Some (0xFF, 0xFF, 0xFF)"
  unfolding yaffs_ECCCalculate_def
  by (simp add: ECCCalculate_loop_zeros ecc_bits_lo_def ecc_bits_hi_def)

lemma ECCCalculateOther_zeros:
  "yaffs_ECCCalculateOther (replicate 16 0) 16 = Some \<lparr>colParity = 0, lineParity = 0, lineParityPrime = 0\<rparr>"
  unfolding yaffs_ECCCalculateOther_def by (simp add: ECCCalculate_loop_zeros)

text \<open>
  C8. The 256-byte code corrects every single-bit error in the data: if the code of a block is
  stored, any one bit of the block is flipped, and the code is recomputed from the damaged block,
  then \<open>yaffs_ECCCorrect\<close> returns 1 and restores the block exactly, in both byte orders.
\<close>

theorem yaffs_ECC_corrects_single_bit:
  assumes "256 \<le> length data" "n < 2048" "yaffs_ECCCalculate wo data = Some ecc"
  shows "Option.bind (yaffs_ECCCalculate wo (flip_bit_at n data)) (yaffs_ECCCorrect wo (flip_bit_at n data) ecc)
    = Some (1, data, ecc)"
  using assms(1,3,2) by (rule ecc256.read_single)

theorem yaffs_ECC_corrects_single_bit_witness:
  "Option.bind (yaffs_ECCCalculate False (flip_bit_at 1000 (replicate 256 0)))
     (yaffs_ECCCorrect False (flip_bit_at 1000 (replicate 256 0)) (0xFF, 0xFF, 0xFF))
   = Some (1, replicate 256 0, (0xFF, 0xFF, 0xFF))"
  by (rule yaffs_ECC_corrects_single_bit) (simp_all add: ECCCalculate_zeros)

text \<open>
  C28. The 256-byte code detects every double-bit error in the data: with two different bits of the
  block flipped, \<open>yaffs_ECCCorrect\<close> returns -1 and changes neither the block nor the stored code.
\<close>

theorem yaffs_ECC_detects_double_bit:
  assumes "256 \<le> length data" "n < 2048" "m < 2048" "n \<noteq> m" "yaffs_ECCCalculate wo data = Some ecc"
  shows "Option.bind (yaffs_ECCCalculate wo (flip_bit_at m (flip_bit_at n data)))
      (yaffs_ECCCorrect wo (flip_bit_at m (flip_bit_at n data)) ecc)
    = Some (-1, flip_bit_at m (flip_bit_at n data), ecc)"
  using assms(1,5,2,3,4) by (rule ecc256.read_double)

theorem yaffs_ECC_detects_double_bit_witness:
  "Option.bind (yaffs_ECCCalculate False (flip_bit_at 7 (flip_bit_at 1000 (replicate 256 0))))
     (yaffs_ECCCorrect False (flip_bit_at 7 (flip_bit_at 1000 (replicate 256 0))) (0xFF, 0xFF, 0xFF))
   = Some (-1, flip_bit_at 7 (flip_bit_at 1000 (replicate 256 0)), (0xFF, 0xFF, 0xFF))"
  by (rule yaffs_ECC_detects_double_bit) (simp_all add: ECCCalculate_zeros)

text \<open>
  A single flipped bit in the stored code itself is recognised as such: the data is left
  alone, the stored code is repaired and the result is 1.
\<close>

theorem yaffs_ECC_repairs_stored_code:
  assumes "n < 24"
  shows "yaffs_ECCCorrect wo data (flip_ecc3 n ecc) ecc = Some (1, data, ecc)"
  using assms by (rule ecc_single_code_error)

theorem yaffs_ECC_repairs_stored_code_witness:
  "yaffs_ECCCorrect True [] (flip_ecc3 9 (0xFF, 0xFF, 0xFF)) (0xFF, 0xFF, 0xFF) = Some (1, [], (0xFF, 0xFF, 0xFF))"
  by (rule yaffs_ECC_repairs_stored_code) simp

text \<open>
  C29. The variable-length code over \<open>nBytes\<close> bytes corrects any single-bit error and detects any
  double-bit error in the data it covers.
\<close>

theorem yaffs_ECCOther_corrects_one_detects_two:
  assumes "nBytes \<le> length data" "nBytes < 2 ^ 32" "n < 8 * nBytes" "m < 8 * nBytes" "n \<noteq> m"
    and "yaffs_ECCCalculateOther data nBytes = Some ecc"
    and "yaffs_ECCCalculateOther (flip_bit_at n data) nBytes = Some ecc1"
    and "yaffs_ECCCalculateOther (flip_bit_at m (flip_bit_at n data)) nBytes = Some ecc2"
  shows "yaffs_ECCCorrectOther (flip_bit_at n data) nBytes ecc ecc1 = Some (1, data, ecc) \<and>
    yaffs_ECCCorrectOther (flip_bit_at m (flip_bit_at n data)) nBytes ecc ecc2 =
      Some (-1, flip_bit_at m (flip_bit_at n data), ecc)"
  using assms by (intro conjI ecc_other_single_data_error ecc_other_double_data_error)

theorem yaffs_ECCOther_corrects_one_detects_two_witness:
  "\<exists>ecc1 ecc2. yaffs_ECCCorrectOther (flip_bit_at 3 (replicate 16 0)) 16
       \<lparr>colParity = 0, lineParity = 0, lineParityPrime = 0\<rparr> ecc1
     = Some (1, replicate 16 0, \<lparr>colParity = 0, lineParity = 0, lineParityPrime = 0\<rparr>) \<and>
   yaffs_ECCCorrectOther (flip_bit_at 127 (flip_bit_at 3 (replicate 16 0))) 16
       \<lparr>colParity = 0, lineParity = 0, lineParityPrime = 0\<rparr> ecc2
     = Some (-1, flip_bit_at 127 (flip_bit_at 3 (replicate 16 0)), \<lparr>colParity = 0, lineParity = 0, lineParityPrime = 0\<rparr>)"
proof -
  obtain ecc1 where e1: "yaffs_ECCCalculateOther (flip_bit_at 3 (replicate 16 0)) 16 = Some ecc1"
    using yaffs_ECCCalculateOther_Some [of 16 "flip_bit_at 3 (replicate 16 0)"] by auto
  obtain ecc2 where e2: "yaffs_ECCCalculateOther (flip_bit_at 127 (flip_bit_at 3 (replicate 16 0))) 16 = Some ecc2"
    using yaffs_ECCCalculateOther_Some [of 16 "flip_bit_at 127 (flip_bit_at 3 (replicate 16 0))"] by auto
  show ?thesis
    by (intro exI, rule yaffs_ECCOther_corrects_one_detects_two [OF _ _ _ _ _ ECCCalculateOther_zeros e1 e2]) simp_all
qed

end
