(* ===== verification/Tags.thy ===== *)
theory Tags
  imports Ecc
begin

section \<open>Extended tags and their packed forms\<close>

text \<open>
  The tags of a chunk: the in-memory \<open>yaffs_ExtendedTags\<close> (\<^verbatim>\<open>yaffs_guts.h\<close>) with its validity
  markers (\<^verbatim>\<open>yaffs_tagsvalidity.c\<close>), the YAFFS1 packed form (\<^verbatim>\<open>yaffs_packedtags1.c\<close>, bit fields as
  words of the field's width) and the YAFFS2 packed form (\<^verbatim>\<open>yaffs_packedtags2.c\<close>, four 32-bit words
  protected by the variable-length ECC).  The ECC of a packed YAFFS2 tag is computed over the bytes of
  the struct, so the byte order of the machine is an argument (\<open>be\<close>, True for big-endian).
  C's \<^verbatim>\<open>unsigned\<close> fields are 32-bit words; an enum field that is filled from flash
  (\<open>extraObjectType\<close>) is kept as a word, since it can hold any value.
\<close>

datatype yaffs_ECCResult =
    YAFFS_ECC_RESULT_UNKNOWN
  | YAFFS_ECC_RESULT_NO_ERROR
  | YAFFS_ECC_RESULT_FIXED
  | YAFFS_ECC_RESULT_UNFIXED

text \<open>The code compares these enumerators with \<^verbatim>\<open>>\<close>: they are ordered by their value.\<close>

fun ecc_result_code :: "yaffs_ECCResult \<Rightarrow> nat" where
  "ecc_result_code YAFFS_ECC_RESULT_UNKNOWN = 0"
| "ecc_result_code YAFFS_ECC_RESULT_NO_ERROR = 1"
| "ecc_result_code YAFFS_ECC_RESULT_FIXED = 2"
| "ecc_result_code YAFFS_ECC_RESULT_UNFIXED = 3"

lemma ecc_result_code_inject: "ecc_result_code x = ecc_result_code y \<Longrightarrow> x = y"
  by (cases x; cases y) simp_all

instantiation yaffs_ECCResult :: linorder
begin

definition less_eq_yaffs_ECCResult :: "yaffs_ECCResult \<Rightarrow> yaffs_ECCResult \<Rightarrow> bool" where
  "less_eq_yaffs_ECCResult x y \<longleftrightarrow> ecc_result_code x \<le> ecc_result_code y"

definition less_yaffs_ECCResult :: "yaffs_ECCResult \<Rightarrow> yaffs_ECCResult \<Rightarrow> bool" where
  "less_yaffs_ECCResult x y \<longleftrightarrow> ecc_result_code x < ecc_result_code y"

instance
  by standard
    (auto simp: less_eq_yaffs_ECCResult_def less_yaffs_ECCResult_def intro: ecc_result_code_inject)

end

abbreviation (input) "YAFFS_OBJECT_TYPE_FILE \<equiv> (1 :: u32)"
abbreviation (input) "YAFFS_OBJECT_TYPE_SYMLINK \<equiv> (2 :: u32)"
abbreviation (input) "YAFFS_OBJECT_TYPE_DIRECTORY \<equiv> (3 :: u32)"
abbreviation (input) "YAFFS_OBJECT_TYPE_HARDLINK \<equiv> (4 :: u32)"
abbreviation (input) "YAFFS_OBJECT_TYPE_SPECIAL \<equiv> (5 :: u32)"

record yaffs_ExtendedTags =
  validMarker0 :: u32
  chunkUsed :: u32
  objectId :: u32
  chunkId :: u32
  byteCount :: u32
  eccResult :: yaffs_ECCResult
  blockBad :: u32
  chunkDeleted :: u32
  serialNumber :: u32
  sequenceNumber :: u32
  extraHeaderInfoAvailable :: u32
  extraParentObjectId :: u32
  extraIsShrinkHeader :: u32
  extraShadows :: u32
  extraObjectType :: u32
  extraFileLength :: u32
  extraEquivalentObjectId :: u32
  validMarker1 :: u32

text \<open>\<^verbatim>\<open>memset(t, 0, sizeof(yaffs_ExtendedTags))\<close>.\<close>

definition zero_tags :: yaffs_ExtendedTags where
  "zero_tags = \<lparr>validMarker0 = 0, chunkUsed = 0, objectId = 0, chunkId = 0, byteCount = 0,
     eccResult = YAFFS_ECC_RESULT_UNKNOWN, blockBad = 0, chunkDeleted = 0, serialNumber = 0,
     sequenceNumber = 0, extraHeaderInfoAvailable = 0, extraParentObjectId = 0,
     extraIsShrinkHeader = 0, extraShadows = 0, extraObjectType = 0, extraFileLength = 0,
     extraEquivalentObjectId = 0, validMarker1 = 0\<rparr>"

definition yaffs_InitialiseTags :: yaffs_ExtendedTags where
  "yaffs_InitialiseTags = zero_tags\<lparr>validMarker0 := 0xAAAAAAAA, validMarker1 := 0x55555555\<rparr>"

definition yaffs_ValidateTags :: "yaffs_ExtendedTags \<Rightarrow> bool" where
  "yaffs_ValidateTags tags \<longleftrightarrow> validMarker0 tags = 0xAAAAAAAA \<and> validMarker1 tags = 0x55555555"

definition yaffs_TagsMatch :: "yaffs_ExtendedTags \<Rightarrow> u32 \<Rightarrow> u32 \<Rightarrow> bool" where
  "yaffs_TagsMatch tags objId chunkInObject \<longleftrightarrow>
     chunkId tags = chunkInObject \<and> objectId tags = objId \<and> chunkDeleted tags = 0"

subsection \<open>YAFFS1 packed tags\<close>

record yaffs_PackedTags1 =
  pt1_chunkId :: "20 word"
  pt1_serialNumber :: "2 word"
  pt1_byteCount :: "10 word"
  pt1_objectId :: "18 word"
  pt1_ecc :: "12 word"
  pt1_deleted :: "1 word"
  pt1_unusedStuff :: "1 word"
  pt1_shouldBeFF :: u32

definition yaffs_PackTags1 :: "yaffs_ExtendedTags \<Rightarrow> yaffs_PackedTags1" where
  "yaffs_PackTags1 t =
     \<lparr>pt1_chunkId = ucast (chunkId t), pt1_serialNumber = ucast (serialNumber t),
      pt1_byteCount = ucast (byteCount t), pt1_objectId = ucast (objectId t), pt1_ecc = 0,
      pt1_deleted = (if chunkDeleted t \<noteq> 0 then 0 else 1), pt1_unusedStuff = 0,
      pt1_shouldBeFF = 0xFFFFFFFF\<rparr>"

text \<open>
  The 12 bytes of the struct are exactly its bit fields (32 + 32 + 32 bits, no padding), so the
  \<^verbatim>\<open>memcmp\<close> against twelve \<^verbatim>\<open>0xff\<close> bytes asks whether every field is all ones.
\<close>

definition pt1_allFF :: "yaffs_PackedTags1 \<Rightarrow> bool" where
  "pt1_allFF pt \<longleftrightarrow> pt1_chunkId pt = - 1 \<and> pt1_serialNumber pt = - 1 \<and> pt1_byteCount pt = - 1 \<and>
     pt1_objectId pt = - 1 \<and> pt1_ecc pt = - 1 \<and> pt1_deleted pt = - 1 \<and> pt1_unusedStuff pt = - 1 \<and>
     pt1_shouldBeFF pt = - 1"

definition yaffs_UnpackTags1 :: "yaffs_ExtendedTags \<Rightarrow> yaffs_PackedTags1 \<Rightarrow> yaffs_ExtendedTags" where
  "yaffs_UnpackTags1 t pt =
     (if \<not> pt1_allFF pt then
        t\<lparr>blockBad := (if pt1_shouldBeFF pt \<noteq> 0xFFFFFFFF then 1 else 0), chunkUsed := 1,
          objectId := ucast (pt1_objectId pt), chunkId := ucast (pt1_chunkId pt),
          byteCount := ucast (pt1_byteCount pt), eccResult := YAFFS_ECC_RESULT_NO_ERROR,
          chunkDeleted := (if pt1_deleted pt \<noteq> 0 then 0 else 1),
          serialNumber := ucast (pt1_serialNumber pt)\<rparr>
      else zero_tags)"

subsection \<open>YAFFS2 packed tags\<close>

record yaffs_PackedTags2TagsPart =
  pt_sequenceNumber :: u32
  pt_objectId :: u32
  pt_chunkId :: u32
  pt_byteCount :: u32

record yaffs_PackedTags2 =
  pt_t :: yaffs_PackedTags2TagsPart
  pt_ecc :: yaffs_ECCOther

definition EXTRA_HEADER_INFO_FLAG :: u32 where
  "EXTRA_HEADER_INFO_FLAG = 0x80000000"

definition EXTRA_SHRINK_FLAG :: u32 where
  "EXTRA_SHRINK_FLAG = 0x40000000"

definition EXTRA_SHADOWS_FLAG :: u32 where
  "EXTRA_SHADOWS_FLAG = 0x20000000"

definition ALL_EXTRA_FLAGS :: u32 where
  "ALL_EXTRA_FLAGS = 0xF0000000"

definition EXTRA_OBJECT_TYPE_MASK :: u32 where
  "EXTRA_OBJECT_TYPE_MASK = push_bit 28 0x0F"


text \<open>The memory image of the struct: four 32-bit words in the machine's byte order.\<close>

definition u32_bytes :: "bool \<Rightarrow> u32 \<Rightarrow> u8 list" where
  "u32_bytes be w =
     (let bs = [ucast w, ucast (drop_bit 8 w), ucast (drop_bit 16 w), ucast (drop_bit 24 w)]
      in if be then rev bs else bs)"

fun bytes_u32 :: "bool \<Rightarrow> u8 list \<Rightarrow> u32" where
  "bytes_u32 be [a, b, c, d] =
     (if be then push_bit 24 (ucast a) OR push_bit 16 (ucast b) OR push_bit 8 (ucast c) OR ucast d
      else ucast a OR push_bit 8 (ucast b) OR push_bit 16 (ucast c) OR push_bit 24 (ucast d))"
| "bytes_u32 be _ = 0"

definition tagspart_bytes :: "bool \<Rightarrow> yaffs_PackedTags2TagsPart \<Rightarrow> u8 list" where
  "tagspart_bytes be p = u32_bytes be (pt_sequenceNumber p) @ u32_bytes be (pt_objectId p) @
     u32_bytes be (pt_chunkId p) @ u32_bytes be (pt_byteCount p)"

definition bytes_tagspart :: "bool \<Rightarrow> u8 list \<Rightarrow> yaffs_PackedTags2TagsPart" where
  "bytes_tagspart be bs =
     \<lparr>pt_sequenceNumber = bytes_u32 be (take 4 bs), pt_objectId = bytes_u32 be (take 4 (drop 4 bs)),
      pt_chunkId = bytes_u32 be (take 4 (drop 8 bs)), pt_byteCount = bytes_u32 be (take 4 (drop 12 bs))\<rparr>"

definition pack_tagspart :: "yaffs_ExtendedTags \<Rightarrow> yaffs_PackedTags2TagsPart" where
  "pack_tagspart t =
    (let p = \<lparr>pt_sequenceNumber = sequenceNumber t, pt_objectId = objectId t, pt_chunkId = chunkId t,
              pt_byteCount = byteCount t\<rparr>
     in if chunkId t = 0 \<and> extraHeaderInfoAvailable t \<noteq> 0 then
          (let cid = EXTRA_HEADER_INFO_FLAG OR extraParentObjectId t;
               cid = (if extraIsShrinkHeader t \<noteq> 0 then cid OR EXTRA_SHRINK_FLAG else cid);
               cid = (if extraShadows t \<noteq> 0 then cid OR EXTRA_SHADOWS_FLAG else cid);
               oid = (pt_objectId p AND NOT EXTRA_OBJECT_TYPE_MASK) OR push_bit 28 (extraObjectType t);
               bc = (if extraObjectType t = YAFFS_OBJECT_TYPE_HARDLINK then extraEquivalentObjectId t
                     else if extraObjectType t = YAFFS_OBJECT_TYPE_FILE then extraFileLength t
                     else 0)
           in p\<lparr>pt_chunkId := cid, pt_objectId := oid, pt_byteCount := bc\<rparr>)
        else p)"

text \<open>
  \<open>ignore_ecc\<close> is the switch \<^verbatim>\<open>YAFFS_IGNORE_TAGS_ECC\<close>; when it is set the \<open>ecc\<close> field keeps its
  previous contents (\<open>old_ecc\<close>).  The result is \<open>None\<close> only if the ECC would read past the struct,
  which it never does.
\<close>

definition yaffs_PackTags2 ::
  "bool \<Rightarrow> bool \<Rightarrow> yaffs_ECCOther \<Rightarrow> yaffs_ExtendedTags \<Rightarrow> yaffs_PackedTags2 option" where
  "yaffs_PackTags2 be ignore_ecc old_ecc t =
     (let p = pack_tagspart t
      in if ignore_ecc then Some \<lparr>pt_t = p, pt_ecc = old_ecc\<rparr>
         else do { ecc \<leftarrow> yaffs_ECCCalculateOther (tagspart_bytes be p) 16;
                   Some \<lparr>pt_t = p, pt_ecc = ecc\<rparr> })"

definition unpack_tagspart :: "yaffs_ExtendedTags \<Rightarrow> yaffs_PackedTags2TagsPart \<Rightarrow> yaffs_ExtendedTags" where
  "unpack_tagspart t p =
    (let t = t\<lparr>blockBad := 0, chunkUsed := 1, objectId := pt_objectId p, chunkId := pt_chunkId p,
               byteCount := pt_byteCount p, chunkDeleted := 0, serialNumber := 0,
               sequenceNumber := pt_sequenceNumber p\<rparr>
     in if pt_chunkId p AND EXTRA_HEADER_INFO_FLAG \<noteq> 0 then
          (let ty = drop_bit 28 (pt_objectId p);
               t = t\<lparr>chunkId := 0, byteCount := 0, extraHeaderInfoAvailable := 1,
                     extraParentObjectId := pt_chunkId p AND NOT ALL_EXTRA_FLAGS,
                     extraIsShrinkHeader := (if pt_chunkId p AND EXTRA_SHRINK_FLAG \<noteq> 0 then 1 else 0),
                     extraShadows := (if pt_chunkId p AND EXTRA_SHADOWS_FLAG \<noteq> 0 then 1 else 0),
                     extraObjectType := ty,
                     objectId := objectId t AND NOT EXTRA_OBJECT_TYPE_MASK\<rparr>
           in if ty = YAFFS_OBJECT_TYPE_HARDLINK then t\<lparr>extraEquivalentObjectId := pt_byteCount p\<rparr>
              else t\<lparr>extraFileLength := pt_byteCount p\<rparr>)
        else t)"

definition ecc_result_of :: "int \<Rightarrow> yaffs_ECCResult" where
  "ecc_result_of result =
     (if result = 0 then YAFFS_ECC_RESULT_NO_ERROR
      else if result = 1 then YAFFS_ECC_RESULT_FIXED
      else if result = -1 then YAFFS_ECC_RESULT_UNFIXED
      else YAFFS_ECC_RESULT_UNKNOWN)"

definition yaffs_UnpackTags2 ::
  "bool \<Rightarrow> bool \<Rightarrow> yaffs_PackedTags2 \<Rightarrow> (yaffs_ExtendedTags \<times> yaffs_PackedTags2) option" where
  "yaffs_UnpackTags2 be ignore_ecc pt =
     (let t = yaffs_InitialiseTags
      in if pt_sequenceNumber (pt_t pt) \<noteq> 0xFFFFFFFF then
           if ignore_ecc then
             Some (unpack_tagspart (t\<lparr>eccResult := YAFFS_ECC_RESULT_NO_ERROR\<rparr>) (pt_t pt), pt)
           else do {
             ecc \<leftarrow> yaffs_ECCCalculateOther (tagspart_bytes be (pt_t pt)) 16;
             (result, bytes, ecc') \<leftarrow> yaffs_ECCCorrectOther (tagspart_bytes be (pt_t pt)) 16 (pt_ecc pt) ecc;
             let p = bytes_tagspart be bytes;
             Some (unpack_tagspart (t\<lparr>eccResult := ecc_result_of result\<rparr>) p, \<lparr>pt_t = p, pt_ecc = ecc'\<rparr>) }
         else Some (t, pt))"

subsection \<open>The memory image\<close>

lemma bytes_u32_bytes [simp]: "bytes_u32 be (u32_bytes be w) = w"
proof -
  let ?v = "(ucast (ucast w :: u8) OR push_bit 8 (ucast (ucast (drop_bit 8 w) :: u8)) OR
      push_bit 16 (ucast (ucast (drop_bit 16 w) :: u8)) OR push_bit 24 (ucast (ucast (drop_bit 24 w) :: u8))) :: u32"
  have "?v = w"
  proof (rule bit_word_eqI)
    fix n assume "n < LENGTH(32)"
    then consider "n < 8" | "8 \<le> n" "n < 16" | "16 \<le> n" "n < 24" | "24 \<le> n" "n < 32" by force
    then show "bit ?v n = bit w n"
      by cases (auto simp: bit_or_iff bit_push_bit_iff bit_ucast_iff bit_drop_bit_eq)
  qed
  then show ?thesis by (simp add: u32_bytes_def Let_def or.commute or.left_commute)
qed

lemma length_u32_bytes [simp]: "length (u32_bytes be w) = 4"
  by (simp add: u32_bytes_def Let_def)

lemma u32_bytes_parts:
  fixes a b c d :: u8
  defines "w \<equiv> (ucast a OR push_bit 8 (ucast b) OR push_bit 16 (ucast c) OR push_bit 24 (ucast d)) :: u32"
  shows "ucast w = a" "ucast (drop_bit 8 w) = b" "ucast (drop_bit 16 w) = c" "ucast (drop_bit 24 w) = d"
  unfolding w_def
  by (rule bit_word_eqI, auto simp: bit_or_iff bit_push_bit_iff bit_ucast_iff bit_drop_bit_eq)+

lemma u32_bytes_bytes: "length bs = 4 \<Longrightarrow> u32_bytes be (bytes_u32 be bs) = bs"
proof -
  assume "length bs = 4"
  then obtain a b c d where bs: "bs = [a, b, c, d]"
    by (auto simp: numeral_eq_Suc length_Suc_conv)
  show ?thesis
    using u32_bytes_parts [of a b c d] u32_bytes_parts [of d c b a]
    by (auto simp: bs u32_bytes_def Let_def or.commute or.left_commute)
qed

lemma length_tagspart_bytes [simp]: "length (tagspart_bytes be p) = 16"
  by (simp add: tagspart_bytes_def)

lemma bytes_tagspart_bytes [simp]: "bytes_tagspart be (tagspart_bytes be p) = p"
  by (simp add: bytes_tagspart_def tagspart_bytes_def)

lemma tagspart_bytes_bytes: "length bs = 16 \<Longrightarrow> tagspart_bytes be (bytes_tagspart be bs) = bs"
proof -
  assume len: "length bs = 16"
  have "take 4 bs @ take 4 (drop 4 bs) @ take 4 (drop 8 bs) @ take 4 (drop 12 bs) = bs"
    using len append_take_drop_id [of 4 bs] append_take_drop_id [of 4 "drop 4 bs"]
      append_take_drop_id [of 4 "drop 8 bs"] by simp
  then show ?thesis
    using len by (simp add: tagspart_bytes_def bytes_tagspart_def u32_bytes_bytes)
qed
subsection \<open>Packing and unpacking the tags part\<close>

lemma bit_ALL_EXTRA_FLAGS: "bit ALL_EXTRA_FLAGS n \<longleftrightarrow> 28 \<le> n \<and> n < 32"
proof -
  have "ALL_EXTRA_FLAGS = push_bit 28 (mask 4)"
    by (simp add: ALL_EXTRA_FLAGS_def mask_eq_exp_minus_1)
  show ?thesis unfolding \<open>ALL_EXTRA_FLAGS = push_bit 28 (mask 4)\<close>
    by (auto simp: bit_push_bit_iff bit_mask_iff)
qed

lemma EXTRA_OBJECT_TYPE_MASK_eq: "EXTRA_OBJECT_TYPE_MASK = ALL_EXTRA_FLAGS"
  by (simp add: EXTRA_OBJECT_TYPE_MASK_def ALL_EXTRA_FLAGS_def)

lemma flag_exp:
  "EXTRA_HEADER_INFO_FLAG = 2 ^ 31" "EXTRA_SHRINK_FLAG = 2 ^ 30" "EXTRA_SHADOWS_FLAG = 2 ^ 29"
  by (simp_all add: EXTRA_HEADER_INFO_FLAG_def EXTRA_SHRINK_FLAG_def EXTRA_SHADOWS_FLAG_def)

lemma bit_flags:
  "bit EXTRA_HEADER_INFO_FLAG n \<longleftrightarrow> n = 31" "bit EXTRA_SHRINK_FLAG n \<longleftrightarrow> n = 30"
  "bit EXTRA_SHADOWS_FLAG n \<longleftrightarrow> n = 29"
  unfolding flag_exp bit_exp_iff by auto

lemma and_flag_eq_0:
  "x AND EXTRA_HEADER_INFO_FLAG = 0 \<longleftrightarrow> \<not> bit x 31"
  "x AND EXTRA_SHRINK_FLAG = 0 \<longleftrightarrow> \<not> bit x 30"
  "x AND EXTRA_SHADOWS_FLAG = 0 \<longleftrightarrow> \<not> bit x 29"
  unfolding flag_exp by (simp_all only: and_power2_eq_0)

lemmas flag_bits = bit_ALL_EXTRA_FLAGS EXTRA_OBJECT_TYPE_MASK_eq bit_flags and_flag_eq_0

text \<open>A value that leaves the top four bits free for the flags.\<close>

definition fits28 :: "u32 \<Rightarrow> bool" where
  "fits28 x \<longleftrightarrow> x AND ALL_EXTRA_FLAGS = 0"

lemma fits28_bit: "fits28 x \<Longrightarrow> bit x n \<Longrightarrow> n < 28"
proof (rule ccontr)
  assume "fits28 x" "bit x n" "\<not> n < 28"
  moreover from \<open>bit x n\<close> have "n < 32" using bit_imp_le_length [of x n] by simp
  ultimately have "bit (x AND ALL_EXTRA_FLAGS) n" by (simp add: bit_and_iff flag_bits)
  with \<open>fits28 x\<close> show False by (simp add: fits28_def)
qed

lemma fits28_and_not: "fits28 x \<Longrightarrow> (x OR y) AND NOT ALL_EXTRA_FLAGS = x OR (y AND NOT ALL_EXTRA_FLAGS)"
  by (rule bit_word_eqI) (auto simp: bit_and_iff bit_or_iff bit_not_iff flag_bits dest: fits28_bit)

text \<open>The tags an unpacked data chunk or an object header carries.\<close>

definition data_tags :: "yaffs_ExtendedTags \<Rightarrow> yaffs_ExtendedTags" where
  "data_tags t = yaffs_InitialiseTags\<lparr>chunkUsed := 1, objectId := objectId t, chunkId := chunkId t,
     byteCount := byteCount t, sequenceNumber := sequenceNumber t\<rparr>"

definition header_tags :: "yaffs_ExtendedTags \<Rightarrow> yaffs_ExtendedTags" where
  "header_tags t = yaffs_InitialiseTags\<lparr>chunkUsed := 1, objectId := objectId t,
     sequenceNumber := sequenceNumber t, extraHeaderInfoAvailable := 1,
     extraParentObjectId := extraParentObjectId t,
     extraIsShrinkHeader := (if extraIsShrinkHeader t \<noteq> 0 then 1 else 0),
     extraShadows := (if extraShadows t \<noteq> 0 then 1 else 0), extraObjectType := extraObjectType t,
     extraFileLength := (if extraObjectType t = YAFFS_OBJECT_TYPE_FILE then extraFileLength t else 0),
     extraEquivalentObjectId :=
       (if extraObjectType t = YAFFS_OBJECT_TYPE_HARDLINK then extraEquivalentObjectId t else 0)\<rparr>"

lemma unpack_pack_data:
  assumes "chunkId t \<noteq> 0 \<or> extraHeaderInfoAvailable t = 0" "chunkId t AND EXTRA_HEADER_INFO_FLAG = 0"
  shows "unpack_tagspart (yaffs_InitialiseTags\<lparr>eccResult := r\<rparr>) (pack_tagspart t) = (data_tags t)\<lparr>eccResult := r\<rparr>"
  using assms
  by (auto simp: unpack_tagspart_def pack_tagspart_def data_tags_def yaffs_InitialiseTags_def zero_tags_def Let_def)

definition header_word :: "bool \<Rightarrow> bool \<Rightarrow> u32 \<Rightarrow> u32" where
  "header_word shrink shadows parent =
     EXTRA_HEADER_INFO_FLAG OR parent OR (if shrink then EXTRA_SHRINK_FLAG else 0)
       OR (if shadows then EXTRA_SHADOWS_FLAG else 0)"

lemma header_word_fields:
  assumes "fits28 parent"
  shows "header_word sk sw parent AND EXTRA_HEADER_INFO_FLAG \<noteq> 0"
    and "header_word sk sw parent AND NOT ALL_EXTRA_FLAGS = parent"
    and "header_word sk sw parent AND EXTRA_SHRINK_FLAG \<noteq> 0 \<longleftrightarrow> sk"
    and "header_word sk sw parent AND EXTRA_SHADOWS_FLAG \<noteq> 0 \<longleftrightarrow> sw"
proof -
  have high: "\<not> bit parent 31" "\<not> bit parent 30" "\<not> bit parent 29"
    using fits28_bit [OF assms] by fastforce+
  show "header_word sk sw parent AND EXTRA_HEADER_INFO_FLAG \<noteq> 0"
    "header_word sk sw parent AND EXTRA_SHRINK_FLAG \<noteq> 0 \<longleftrightarrow> sk"
    "header_word sk sw parent AND EXTRA_SHADOWS_FLAG \<noteq> 0 \<longleftrightarrow> sw"
    using high by (auto simp: header_word_def flag_bits bit_or_iff EXTRA_HEADER_INFO_FLAG_def)
  show "header_word sk sw parent AND NOT ALL_EXTRA_FLAGS = parent"
    by (rule bit_word_eqI)
      (auto simp: header_word_def bit_and_iff bit_or_iff bit_not_iff flag_bits dest: fits28_bit [OF assms])
qed

lemma type_word_fields:
  fixes oid ty :: u32
  assumes "fits28 oid" "ty < 16"
  shows "drop_bit 28 ((oid AND NOT EXTRA_OBJECT_TYPE_MASK) OR push_bit 28 ty) = ty"
    and "((oid AND NOT EXTRA_OBJECT_TYPE_MASK) OR push_bit 28 ty) AND NOT EXTRA_OBJECT_TYPE_MASK = oid"
proof -
  have ty: "bit ty n \<Longrightarrow> n < 4" for n
  proof -
    have "unat ty < 2 ^ 4" using assms(2) by (simp add: word_less_nat_alt)
    moreover assume "bit ty n"
    then have "bit (unat ty) n" by (simp add: bit_unsigned_iff bit_imp_le_length)
    ultimately show "n < 4" by (metis bit_take_bit_iff take_bit_nat_eq_self)
  qed
  show "drop_bit 28 ((oid AND NOT EXTRA_OBJECT_TYPE_MASK) OR push_bit 28 ty) = ty"
    by (rule bit_word_eqI)
      (auto simp: bit_and_iff bit_or_iff bit_not_iff bit_drop_bit_eq bit_push_bit_iff flag_bits
        dest: fits28_bit [OF assms(1)] ty)
  show "((oid AND NOT EXTRA_OBJECT_TYPE_MASK) OR push_bit 28 ty) AND NOT EXTRA_OBJECT_TYPE_MASK = oid"
    by (rule bit_word_eqI)
      (auto simp: bit_and_iff bit_or_iff bit_not_iff bit_push_bit_iff flag_bits dest: fits28_bit [OF assms(1)] ty)
qed

lemma unpack_pack_header:
  assumes "chunkId t = 0" "extraHeaderInfoAvailable t \<noteq> 0" "fits28 (objectId t)" "fits28 (extraParentObjectId t)"
    "extraObjectType t < 16"
  shows "unpack_tagspart (yaffs_InitialiseTags\<lparr>eccResult := r\<rparr>) (pack_tagspart t) = (header_tags t)\<lparr>eccResult := r\<rparr>"
proof -
  have pack: "pack_tagspart t = \<lparr>pt_sequenceNumber = sequenceNumber t,
      pt_objectId = (objectId t AND NOT EXTRA_OBJECT_TYPE_MASK) OR push_bit 28 (extraObjectType t),
      pt_chunkId = header_word (extraIsShrinkHeader t \<noteq> 0) (extraShadows t \<noteq> 0) (extraParentObjectId t),
      pt_byteCount = (if extraObjectType t = YAFFS_OBJECT_TYPE_HARDLINK then extraEquivalentObjectId t
                     else if extraObjectType t = YAFFS_OBJECT_TYPE_FILE then extraFileLength t
                     else 0)\<rparr>"
    using assms by (simp add: pack_tagspart_def header_word_def Let_def or.assoc)
  obtain oid where oid: "(objectId t AND NOT EXTRA_OBJECT_TYPE_MASK) OR push_bit 28 (extraObjectType t) = oid"
    "drop_bit 28 oid = extraObjectType t" "oid AND NOT EXTRA_OBJECT_TYPE_MASK = objectId t"
    using type_word_fields [OF assms(3,5)] by blast
  show ?thesis
    unfolding unpack_tagspart_def pack Let_def oid(1)
    by (simp add: header_word_fields [OF assms(4)] oid(2,3) assms(1)
        header_tags_def yaffs_InitialiseTags_def zero_tags_def)
qed

subsection \<open>Reading tags back from flash\<close>

text \<open>
  \<open>flip_tags be n pt\<close> is the packed tag with bit \<open>n\<close> of the memory image of its tags part flipped.
\<close>

definition flip_tags :: "bool \<Rightarrow> nat \<Rightarrow> yaffs_PackedTags2 \<Rightarrow> yaffs_PackedTags2" where
  "flip_tags be n pt = pt\<lparr>pt_t := bytes_tagspart be (flip_bit_at n (tagspart_bytes be (pt_t pt)))\<rparr>"

lemma flip_tags_bytes: "tagspart_bytes be (pt_t (flip_tags be n pt)) = flip_bit_at n (tagspart_bytes be (pt_t pt))"
  by (simp add: flip_tags_def tagspart_bytes_bytes)

lemma flip_tags_ecc: "pt_ecc (flip_tags be n pt) = pt_ecc pt"
  by (simp add: flip_tags_def)

lemma flip_tags_eta: "\<lparr>pt_t = pt_t (flip_tags be n pt), pt_ecc = pt_ecc pt\<rparr> = flip_tags be n pt"
  by (simp add: flip_tags_def)

text \<open>The extended tags that were packed: with extra header information or without.\<close>

definition packable :: "yaffs_ExtendedTags \<Rightarrow> bool" where
  "packable t \<longleftrightarrow>
     (if chunkId t = 0 \<and> extraHeaderInfoAvailable t \<noteq> 0
      then fits28 (objectId t) \<and> fits28 (extraParentObjectId t) \<and> extraObjectType t < 16
      else chunkId t AND EXTRA_HEADER_INFO_FLAG = 0)"

definition kept_tags :: "yaffs_ExtendedTags \<Rightarrow> yaffs_ExtendedTags" where
  "kept_tags t = (if chunkId t = 0 \<and> extraHeaderInfoAvailable t \<noteq> 0 then header_tags t else data_tags t)"

lemma unpack_pack_tagspart:
  assumes "packable t"
  shows "unpack_tagspart (yaffs_InitialiseTags\<lparr>eccResult := r\<rparr>) (pack_tagspart t) = (kept_tags t)\<lparr>eccResult := r\<rparr>"
proof (cases "chunkId t = 0 \<and> extraHeaderInfoAvailable t \<noteq> 0")
  case True
  then show ?thesis using assms by (simp add: packable_def kept_tags_def unpack_pack_header)
next
  case False
  then have "kept_tags t = data_tags t" "chunkId t AND EXTRA_HEADER_INFO_FLAG = 0"
    using assms by (simp_all only: packable_def kept_tags_def if_False)
  with False show ?thesis by (simp add: unpack_pack_data)
qed

lemma pack_sequenceNumber [simp]: "pt_sequenceNumber (pack_tagspart t) = sequenceNumber t"
  by (simp add: pack_tagspart_def Let_def)

lemma PackTags2_Some:
  assumes "yaffs_PackTags2 be False old t = Some pt"
  shows "pt_t pt = pack_tagspart t"
    and "yaffs_ECCCalculateOther (tagspart_bytes be (pt_t pt)) 16 = Some (pt_ecc pt)"
  using assms by (auto simp: yaffs_PackTags2_def Let_def split: bind_splits)

lemma PackTags2_total: "\<exists>pt. yaffs_PackTags2 be ignore old t = Some pt"
  using yaffs_ECCCalculateOther_Some [of 16 "tagspart_bytes be (pack_tagspart t)"]
  by (auto simp: yaffs_PackTags2_def Let_def)

lemma UnpackTags2_read:
  assumes "pt_sequenceNumber (pt_t pt') \<noteq> 0xFFFFFFFF"
    and "Option.bind (yaffs_ECCCalculateOther (tagspart_bytes be (pt_t pt')) 16)
      (yaffs_ECCCorrectOther (tagspart_bytes be (pt_t pt')) 16 (pt_ecc pt')) = Some (r, tagspart_bytes be p, ecc)"
  shows "yaffs_UnpackTags2 be False pt' =
    Some (unpack_tagspart (yaffs_InitialiseTags\<lparr>eccResult := ecc_result_of r\<rparr>) p, \<lparr>pt_t = p, pt_ecc = ecc\<rparr>)"
  using assms by (auto simp: yaffs_UnpackTags2_def Let_def bind_eq_Some_conv)

text \<open>Packing and unpacking, without an error in between.\<close>

lemma unpack_pack_tags2:
  assumes "packable t" "sequenceNumber t \<noteq> 0xFFFFFFFF"
  shows "\<exists>pt. yaffs_PackTags2 be False old t = Some pt \<and>
    yaffs_UnpackTags2 be False pt = Some ((kept_tags t)\<lparr>eccResult := YAFFS_ECC_RESULT_NO_ERROR\<rparr>, pt)"
proof -
  obtain pt where pt: "yaffs_PackTags2 be False old t = Some pt" using PackTags2_total by blast
  note P = PackTags2_Some [OF pt]
  have "yaffs_UnpackTags2 be False pt =
      Some (unpack_tagspart (yaffs_InitialiseTags\<lparr>eccResult := ecc_result_of 0\<rparr>) (pt_t pt), \<lparr>pt_t = pt_t pt, pt_ecc = pt_ecc pt\<rparr>)"
    by (rule UnpackTags2_read) (use P assms ecc16.read_clean [OF _ P(2)] in simp_all)
  with pt P(1) unpack_pack_tagspart [OF assms(1)] show ?thesis by (simp add: ecc_result_of_def)
qed

subsection \<open>Properties\<close>

text \<open>A data chunk and an object header for the concrete instances.\<close>

definition sample_data :: yaffs_ExtendedTags where
  "sample_data = zero_tags\<lparr>objectId := 300, chunkId := 5, byteCount := 100, sequenceNumber := 0x1001\<rparr>"

definition sample_header :: yaffs_ExtendedTags where
  "sample_header = zero_tags\<lparr>objectId := 300, sequenceNumber := 0x1001, extraHeaderInfoAvailable := 1,
     extraParentObjectId := 1, extraIsShrinkHeader := 1, extraObjectType := YAFFS_OBJECT_TYPE_FILE, extraFileLength := 4096\<rparr>"

lemma sample_flips:
  "pt_t pt = pack_tagspart sample_data \<Longrightarrow> pt_sequenceNumber (pt_t (flip_tags False 100 pt)) = 0x1001"
  "pt_t pt = pack_tagspart sample_data \<Longrightarrow>
     pt_sequenceNumber (pt_t (flip_tags False 101 (flip_tags False 100 pt))) = 0x1001"
  by (simp_all add: flip_tags_def tagspart_bytes_bytes,
      simp_all add: bytes_tagspart_def tagspart_bytes_def pack_tagspart_def sample_data_def zero_tags_def
      flip_bit_at_def list_update_append)

lemma packable_samples: "packable sample_data" "packable sample_header"
  by (simp_all add: packable_def sample_data_def sample_header_def zero_tags_def fits28_def
      EXTRA_HEADER_INFO_FLAG_def ALL_EXTRA_FLAGS_def)

text \<open>
  C18. Tags written and read back: for tags whose ids leave the four flag bits free, packing and
  then unpacking gives back the object id, chunk id, byte count and sequence number, or, for an
  object header with extra information, the parent, the flags, the type and the length or
  equivalent id; \<open>eccResult\<close> is NO_ERROR, and the packed tag is left as it was.
\<close>

theorem PackTags2_UnpackTags2:
  assumes "packable t" "sequenceNumber t \<noteq> 0xFFFFFFFF"
  shows "\<exists>pt. yaffs_PackTags2 be False old t = Some pt \<and>
    yaffs_UnpackTags2 be False pt = Some ((kept_tags t)\<lparr>eccResult := YAFFS_ECC_RESULT_NO_ERROR\<rparr>, pt)"
  using assms by (rule unpack_pack_tags2)

theorem PackTags2_UnpackTags2_witness:
  "\<exists>pt. yaffs_PackTags2 False False \<lparr>colParity = 0, lineParity = 0, lineParityPrime = 0\<rparr> sample_header = Some pt \<and>
    yaffs_UnpackTags2 False False pt = Some ((header_tags sample_header)\<lparr>eccResult := YAFFS_ECC_RESULT_NO_ERROR\<rparr>, pt)"
  using PackTags2_UnpackTags2 [OF packable_samples(2), of False "\<lparr>colParity = 0, lineParity = 0, lineParityPrime = 0\<rparr>"]
  by (simp add: kept_tags_def sample_header_def zero_tags_def)

text \<open>
  One flipped bit anywhere in the 16 bytes of a packed tag is repaired when the tag is read: the
  tags are those that were packed, \<open>eccResult\<close> is FIXED and the packed tag in memory is the original
  one again, unless the flip makes the sequence number all ones, the mark of an unused page.
\<close>

theorem UnpackTags2_fixes_single_bit:
  assumes "packable t" "yaffs_PackTags2 be False old t = Some pt" "n < 128"
    and "pt_sequenceNumber (pt_t (flip_tags be n pt)) \<noteq> 0xFFFFFFFF"
  shows "yaffs_UnpackTags2 be False (flip_tags be n pt) =
    Some ((kept_tags t)\<lparr>eccResult := YAFFS_ECC_RESULT_FIXED\<rparr>, pt)"
proof -
  note P = PackTags2_Some [OF assms(2)]
  have "yaffs_UnpackTags2 be False (flip_tags be n pt) =
      Some (unpack_tagspart (yaffs_InitialiseTags\<lparr>eccResult := ecc_result_of 1\<rparr>) (pt_t pt), \<lparr>pt_t = pt_t pt, pt_ecc = pt_ecc pt\<rparr>)"
    by (rule UnpackTags2_read [OF assms(4)])
      (use ecc16.read_single [OF _ P(2) assms(3)] in \<open>simp add: flip_tags_bytes flip_tags_ecc\<close>)
  with P(1) unpack_pack_tagspart [OF assms(1)] show ?thesis by (simp add: ecc_result_of_def)
qed

theorem UnpackTags2_fixes_single_bit_witness:
  "\<exists>pt. yaffs_PackTags2 False False \<lparr>colParity = 0, lineParity = 0, lineParityPrime = 0\<rparr> sample_data = Some pt \<and>
     yaffs_UnpackTags2 False False (flip_tags False 100 pt) =
       Some ((data_tags sample_data)\<lparr>eccResult := YAFFS_ECC_RESULT_FIXED\<rparr>, pt)"
proof -
  obtain pt where pt: "yaffs_PackTags2 False False \<lparr>colParity = 0, lineParity = 0, lineParityPrime = 0\<rparr> sample_data = Some pt"
    using PackTags2_total by blast
  have "pt_sequenceNumber (pt_t (flip_tags False 100 pt)) \<noteq> 0xFFFFFFFF"
    using PackTags2_Some(1) [OF pt] by (simp add: sample_flips)
  from UnpackTags2_fixes_single_bit [OF packable_samples(1) pt _ this] pt show ?thesis
    by (simp add: kept_tags_def) (simp add: sample_data_def zero_tags_def)
qed

text \<open>
  Two flipped bits in the 16 bytes of a packed tag are never silently accepted: the tags
  that come out carry \<open>eccResult\<close> UNFIXED and the packed tag in memory is not changed.
\<close>

theorem UnpackTags2_detects_double_bit:
  assumes "yaffs_PackTags2 be False old t = Some pt" "n < 128" "m < 128" "n \<noteq> m"
    and "pt_sequenceNumber (pt_t (flip_tags be m (flip_tags be n pt))) \<noteq> 0xFFFFFFFF"
  shows "\<exists>t'. yaffs_UnpackTags2 be False (flip_tags be m (flip_tags be n pt)) =
    Some (t', flip_tags be m (flip_tags be n pt)) \<and> eccResult t' = YAFFS_ECC_RESULT_UNFIXED"
proof -
  note P = PackTags2_Some [OF assms(1)]
  have "yaffs_UnpackTags2 be False (flip_tags be m (flip_tags be n pt)) =
      Some (unpack_tagspart (yaffs_InitialiseTags\<lparr>eccResult := ecc_result_of (-1)\<rparr>)
         (pt_t (flip_tags be m (flip_tags be n pt))), \<lparr>pt_t = pt_t (flip_tags be m (flip_tags be n pt)), pt_ecc = pt_ecc pt\<rparr>)"
    by (rule UnpackTags2_read [OF assms(5)])
      (use ecc16.read_double [OF _ P(2) assms(2-4)] in \<open>simp add: flip_tags_bytes flip_tags_ecc\<close>)
  then show ?thesis
    using flip_tags_eta [of be m "flip_tags be n pt"]
    by (simp add: flip_tags_ecc ecc_result_of_def unpack_tagspart_def Let_def)
qed

theorem UnpackTags2_detects_double_bit_witness:
  "\<exists>pt t'. yaffs_PackTags2 False False \<lparr>colParity = 0, lineParity = 0, lineParityPrime = 0\<rparr> sample_data = Some pt \<and>
     yaffs_UnpackTags2 False False (flip_tags False 101 (flip_tags False 100 pt)) =
       Some (t', flip_tags False 101 (flip_tags False 100 pt)) \<and> eccResult t' = YAFFS_ECC_RESULT_UNFIXED"
proof -
  obtain pt where pt: "yaffs_PackTags2 False False \<lparr>colParity = 0, lineParity = 0, lineParityPrime = 0\<rparr> sample_data = Some pt"
    using PackTags2_total by blast
  have "pt_sequenceNumber (pt_t (flip_tags False 101 (flip_tags False 100 pt))) \<noteq> 0xFFFFFFFF"
    using PackTags2_Some(1) [OF pt] by (simp add: sample_flips)
  from UnpackTags2_detects_double_bit [OF pt _ _ _ this] pt show ?thesis by simp
qed

text \<open>
  YAFFS1 packed tags: the ids that fit their bit fields and the deletion mark survive a round
  trip, and a packed tag is never mistaken for an erased page.
\<close>

theorem PackTags1_UnpackTags1:
  assumes "chunkId t < 2 ^ 20" "serialNumber t < 4" "byteCount t < 2 ^ 10" "objectId t < 2 ^ 18"
  shows "\<not> pt1_allFF (yaffs_PackTags1 t) \<and>
    yaffs_UnpackTags1 zero_tags (yaffs_PackTags1 t) =
      zero_tags\<lparr>chunkUsed := 1, objectId := objectId t, chunkId := chunkId t, byteCount := byteCount t,
        eccResult := YAFFS_ECC_RESULT_NO_ERROR, chunkDeleted := (if chunkDeleted t \<noteq> 0 then 1 else 0),
        serialNumber := serialNumber t\<rparr>"
proof -
  have no_ff: "\<not> pt1_allFF (yaffs_PackTags1 t)" by (simp add: pt1_allFF_def yaffs_PackTags1_def)
  have "ucast (ucast (chunkId t) :: 20 word) = chunkId t" "ucast (ucast (serialNumber t) :: 2 word) = serialNumber t"
    "ucast (ucast (byteCount t) :: 10 word) = byteCount t" "ucast (ucast (objectId t) :: 18 word) = objectId t"
    using assms by (auto intro!: ucast_ucast_fits)
  with no_ff show ?thesis by (simp add: yaffs_UnpackTags1_def) (simp add: yaffs_PackTags1_def zero_tags_def)
qed

theorem PackTags1_UnpackTags1_witness:
  "\<not> pt1_allFF (yaffs_PackTags1 sample_data) \<and> yaffs_UnpackTags1 zero_tags (yaffs_PackTags1 sample_data) =
      zero_tags\<lparr>chunkUsed := 1, objectId := 300, chunkId := 5, byteCount := 100,
        eccResult := YAFFS_ECC_RESULT_NO_ERROR\<rparr>"
  using PackTags1_UnpackTags1 [of sample_data] by (simp add: sample_data_def zero_tags_def)

end
