(* ===== verification/Device.thy ===== *)
theory Device
  imports Tags
begin

section \<open>The device\<close>

text \<open>
  The run-time state of one YAFFS device (\<^verbatim>\<open>struct yaffs_DeviceStruct\<close> of \<^verbatim>\<open>yaffs_guts.h\<close>) and
  the records it is made of.  C's \<^verbatim>\<open>int\<close> fields are \<open>int\<close>, unsigned ones are words; the 10-bit signed
  bit fields of a block are \<open>int\<close>s that every store wraps with \<open>int10\<close>.  Buffers are addresses (0 is
  NULL).  The NAND driver is reached through function pointers: they are fields of the record that
  act on the driver's own state \<open>genericDevice\<close>, whose type is a parameter.  The kernel's allocator is
  the field \<open>ymalloc_result\<close>, the address the n-th allocation returns.
  Reading or writing an array outside its bounds, and calling a missing function pointer, is undefined
  behaviour: the operation is then \<open>None\<close>.  \<^verbatim>\<open>YBUG()\<close> only prints a trace in this configuration.
\<close>

abbreviation (input) "YAFFS_OK \<equiv> (1 :: int)"
abbreviation (input) "YAFFS_FAIL \<equiv> (0 :: int)"

abbreviation (input) "YAFFS_OBJECTID_ROOT \<equiv> (1 :: u32)"
abbreviation (input) "YAFFS_OBJECTID_LOSTNFOUND \<equiv> (2 :: u32)"
abbreviation (input) "YAFFS_OBJECTID_UNLINKED \<equiv> (3 :: u32)"
abbreviation (input) "YAFFS_OBJECTID_DELETED \<equiv> (4 :: u32)"
abbreviation (input) "YAFFS_OBJECTID_CHECKPOINT_DATA \<equiv> (0x20 :: u32)"
abbreviation (input) "YAFFS_SEQUENCE_CHECKPOINT_DATA \<equiv> (0x21 :: u32)"
abbreviation (input) "YAFFS_MAGIC \<equiv> (0x5941FF53 :: u32)"
abbreviation (input) "YAFFS_CHECKPOINT_VERSION \<equiv> (3 :: u32)"

datatype yaffs_BlockState =
    YAFFS_BLOCK_STATE_UNKNOWN
  | YAFFS_BLOCK_STATE_SCANNING
  | YAFFS_BLOCK_STATE_NEEDS_SCANNING
  | YAFFS_BLOCK_STATE_EMPTY
  | YAFFS_BLOCK_STATE_ALLOCATING
  | YAFFS_BLOCK_STATE_FULL
  | YAFFS_BLOCK_STATE_DIRTY
  | YAFFS_BLOCK_STATE_CHECKPOINT
  | YAFFS_BLOCK_STATE_COLLECTING
  | YAFFS_BLOCK_STATE_DEAD

text \<open>A store into a signed 10-bit field.\<close>

definition int10 :: "int \<Rightarrow> int" where
  "int10 x = signed_take_bit 9 x"

lemma int10_id [simp]: "-512 \<le> x \<Longrightarrow> x < 512 \<Longrightarrow> int10 x = x"
  unfolding int10_def by (rule signed_take_bit_int_eq_self) simp_all

record yaffs_BlockInfo =
  softDeletions :: int
  pagesInUse :: int
  blockState :: yaffs_BlockState
  needsRetiring :: bool
  skipErasedCheck :: bool
  gcPrioritise :: bool
  chunkErrorStrikes :: "3 word"
  hasShrinkHeader :: bool
  bi_sequenceNumber :: u32

record yaffs_Spare =
  tagByte0 :: u8
  tagByte1 :: u8
  tagByte2 :: u8
  tagByte3 :: u8
  pageStatus :: u8
  blockStatus :: u8
  tagByte4 :: u8
  tagByte5 :: u8
  spare_ecc1 :: "u8 \<times> u8 \<times> u8"
  tagByte6 :: u8
  tagByte7 :: u8
  spare_ecc2 :: "u8 \<times> u8 \<times> u8"

record yaffs_NANDSpare =
  nspare_spare :: yaffs_Spare
  eccres1 :: int
  eccres2 :: int

record yaffs_TempBuffer =
  tb_buffer :: nat
  tb_line :: int
  tb_maxLine :: int

record yaffs_ChunkCache =
  cc_object :: "nat option"
  cc_chunkId :: int
  cc_lastUse :: int
  cc_dirty :: bool
  cc_nBytes :: int
  cc_locked :: bool
  cc_buffer :: nat
  cc_data :: "u8 list"

record 'n yaffs_Device =
  nDataBytesPerChunk :: int
  nChunksPerBlock :: int
  startBlock :: int
  endBlock :: int
  nReservedBlocks :: int
  nCheckpointReservedBlocks :: int
  nShortOpCaches :: int
  useNANDECC :: bool
  isYaffs2 :: bool
  genericDevice :: 'n
  writeChunkToNAND :: "('n \<Rightarrow> int \<Rightarrow> u8 list option \<Rightarrow> yaffs_Spare \<Rightarrow> int \<times> 'n) option"
  readChunkFromNAND :: "('n \<Rightarrow> int \<Rightarrow> bool \<Rightarrow> int \<times> u8 list \<times> yaffs_NANDSpare \<times> 'n) option"
  eraseBlockInNAND :: "('n \<Rightarrow> int \<Rightarrow> int \<times> 'n) option"
  initialiseNAND :: "('n \<Rightarrow> int \<times> 'n) option"
  writeChunkWithTagsToNAND :: "('n \<Rightarrow> int \<Rightarrow> u8 list option \<Rightarrow> yaffs_ExtendedTags \<Rightarrow> int \<times> 'n) option"
  readChunkWithTagsFromNAND :: "('n \<Rightarrow> int \<Rightarrow> bool \<Rightarrow> int \<times> u8 list \<times> yaffs_ExtendedTags \<times> 'n) option"
  markNANDBlockBad :: "('n \<Rightarrow> int \<Rightarrow> int \<times> 'n) option"
  queryNANDBlock :: "('n \<Rightarrow> int \<Rightarrow> int \<times> yaffs_BlockState \<times> u32 \<times> 'n) option"
  wideTnodesDisabled :: bool
  skipCheckpointRead :: bool
  skipCheckpointWrite :: bool
  chunkGroupBits :: u16
  chunkGroupSize :: u16
  tnodeWidth :: u32
  tnodeMask :: u32
  crumbMask :: u32
  crumbShift :: u32
  crumbsPerChunk :: u32
  chunkShift :: u32
  chunkMask :: u32
  isMounted :: bool
  isCheckpointed :: bool
  internalStartBlock :: int
  internalEndBlock :: int
  blockOffset :: int
  chunkOffset :: int
  checkpointPageSequence :: int
  checkpointByteCount :: int
  checkpointByteOffset :: int
  checkpointBuffer :: "u8 list option"
  checkpointBufferAddr :: nat
  checkpointOpenForWrite :: bool
  blocksInCheckpoint :: int
  checkpointCurrentChunk :: int
  checkpointCurrentBlock :: int
  checkpointNextBlock :: int
  checkpointBlockList :: "int list option"
  checkpointMaxBlocks :: int
  checkpointSum :: u32
  checkpointXor :: u32
  blockInfo :: "yaffs_BlockInfo list"
  chunkBits :: "u8 list"
  blockInfoAlt :: bool
  chunkBitsAlt :: bool
  chunkBitmapStride :: int
  nErasedBlocks :: int
  allocationBlock :: int
  allocationPage :: u32
  allocationBlockFinder :: int
  nTnodesCreated :: int
  freeTnodes :: nat
  nFreeTnodes :: int
  allocatedTnodeList :: "nat list"
  isDoingGC :: bool
  nObjectsCreated :: int
  nFreeObjects :: int
  allocatedObjectList :: "nat list"
  nFreeChunks :: int
  currentDirtyChecker :: int
  nonAggressiveSkip :: int
  nPageWrites :: int
  nPageReads :: int
  nBlockErasures :: int
  nErasureFailures :: int
  nGCCopies :: int
  garbageCollections :: int
  passiveGarbageCollections :: int
  nRetriedWrites :: int
  nRetiredBlocks :: int
  eccFixed :: int
  eccUnfixed :: int
  tagsEccFixed :: int
  tagsEccUnfixed :: int
  nDeletions :: int
  nUnmarkedDeletions :: int
  hasPendingPrioritisedGCs :: bool
  srCache :: "yaffs_ChunkCache list"
  srLastUse :: int
  cacheHits :: int
  nDeletedFiles :: int
  nUnlinkedFiles :: int
  nBackgroundDeletions :: int
  tempBuffer :: "yaffs_TempBuffer list"
  maxTemp :: int
  unmanagedTempAllocations :: int
  unmanagedTempDeallocations :: int
  useHeaderFileSize :: bool
  spareBuffer :: "u8 list"
  dev_sequenceNumber :: u32
  oldestDirtySequence :: u32
  superBlock :: bool
  markSuperBlockDirty :: bool
  superBlockDirty :: bool
  ymalloc_result :: "nat \<Rightarrow> nat"
  ymalloc_count :: nat

subsection \<open>Block information\<close>

definition block_index :: "'n yaffs_Device \<Rightarrow> int \<Rightarrow> nat option" where
  "block_index dev blk =
     (let i = blk - internalStartBlock dev
      in if 0 \<le> i \<and> i < int (length (blockInfo dev)) then Some (nat i) else None)"

definition yaffs_GetBlockInfo :: "'n yaffs_Device \<Rightarrow> int \<Rightarrow> yaffs_BlockInfo option" where
  "yaffs_GetBlockInfo dev blk = map_option (\<lambda>i. blockInfo dev ! i) (block_index dev blk)"

text \<open>A store through the pointer that \<open>yaffs_GetBlockInfo\<close> returns.\<close>

definition set_block_info :: "'n yaffs_Device \<Rightarrow> int \<Rightarrow> yaffs_BlockInfo \<Rightarrow> 'n yaffs_Device" where
  "set_block_info dev blk bi =
     (case block_index dev blk of None \<Rightarrow> dev | Some i \<Rightarrow> dev\<lparr>blockInfo := (blockInfo dev)[i := bi]\<rparr>)"

text \<open>Allocation.\<close>

definition YMALLOC :: "'n yaffs_Device \<Rightarrow> nat \<times> 'n yaffs_Device" where
  "YMALLOC dev = (ymalloc_result dev (ymalloc_count dev), dev\<lparr>ymalloc_count := ymalloc_count dev + 1\<rparr>)"

lemma block_index_inj: "block_index dev b = Some i \<Longrightarrow> block_index dev c = Some i \<Longrightarrow> b = c"
  by (auto simp: block_index_def Let_def split: if_splits)

lemma block_index_less: "block_index dev b = Some i \<Longrightarrow> i < length (blockInfo dev)"
  by (auto simp: block_index_def Let_def split: if_splits)

lemma block_index_set [simp]: "block_index (set_block_info dev b bi) c = block_index dev c"
  by (auto simp: block_index_def set_block_info_def Let_def split: option.splits)

lemma get_set_block_info:
  "yaffs_GetBlockInfo (set_block_info dev b bi) c =
     (if c = b \<and> yaffs_GetBlockInfo dev b \<noteq> None then Some bi else yaffs_GetBlockInfo dev c)"
proof (cases "block_index dev b")
  case None
  then show ?thesis by (simp add: set_block_info_def yaffs_GetBlockInfo_def)
next
  case (Some i)
  then show ?thesis
  proof (cases "block_index dev c")
    case None
    then show ?thesis using Some by (auto simp: yaffs_GetBlockInfo_def)
  next
    case (Some j)
    have "blockInfo (set_block_info dev b bi) = (blockInfo dev)[i := bi]"
      using \<open>block_index dev b = Some i\<close> by (simp add: set_block_info_def)
    with Some \<open>block_index dev b = Some i\<close> show ?thesis
      using block_index_inj [of dev b i c] block_index_less [of dev b i]
      by (auto simp: yaffs_GetBlockInfo_def nth_list_update)
  qed
qed

end
