(* ===== verification/Geometry.thy ===== *)
theory Geometry
  imports Device
begin

section \<open>File offsets and device geometry\<close>

text \<open>
  How a file offset becomes a chunk number and an offset in the chunk (\<open>yaffs_AddrToChunk\<close>), the two
  shift-counting helpers, and the part of \<open>yaffs_GutsInitialise\<close> that checks the geometry and derives
  from it the shifts, the crumbs and the width of the tnodes.  \<open>yaffs_AddrToChunk\<close> is \<open>None\<close> where
  the code reaches \<^verbatim>\<open>YBUG()\<close> with its results unset.  An \<open>loff_t\<close> is an \<open>int\<close>; the results are 32-bit
  words, truncated as the code's casts do.
\<close>

definition yaffs_AddrToChunk :: "'n yaffs_Device \<Rightarrow> int \<Rightarrow> (u32 \<times> u32) option" where
  "yaffs_AddrToChunk dev addr =
     (if chunkShift dev \<noteq> 0 then
        Some (word_of_int (drop_bit (unat (chunkShift dev)) addr), word_of_int (addr AND uint (chunkMask dev)))
      else if crumbsPerChunk dev \<noteq> 0 then
        (let offset = word_of_int (addr AND uint (crumbMask dev));
             addr = drop_bit (unat (crumbShift dev)) addr;
             chunk = word_of_int addr div crumbsPerChunk dev;
             offset = offset + word_of_int (push_bit (unat (crumbShift dev)) (addr - uint (chunk * crumbsPerChunk dev)))
         in Some (chunk, offset))
      else None)"

lemma unat_drop_bit_1: "unat (drop_bit (Suc 0) (x :: 'a::len word)) = unat x div 2"
  by (simp only: drop_bit_Suc drop_bit_0)
    (cases "LENGTH('a) = 1"; use unsigned_less [of x, where ?'a = nat] in \<open>simp add: unat_div_distrib\<close>)

lemma unat_half_less: "x \<noteq> (0 :: 'a::len word) \<Longrightarrow> unat (drop_bit (Suc 0) x) < unat x"
  by (simp add: unat_drop_bit_1 unat_eq_zero div_less_dividend unat_gt_0)

function ShiftsGE_loop :: "u32 \<Rightarrow> nat \<Rightarrow> nat \<Rightarrow> nat \<times> nat" where
  "ShiftsGE_loop x extraBits nShifts =
     (if x > 1 then ShiftsGE_loop (drop_bit 1 x) (if x AND 1 \<noteq> 0 then extraBits + 1 else extraBits) (nShifts + 1)
      else (extraBits, nShifts))"
  by pat_completeness auto

termination
  by (relation "measure (\<lambda>(x, _, _). unat x)")
    (auto simp: word_less_nat_alt unat_drop_bit_1)

definition ShiftsGE :: "u32 \<Rightarrow> nat" where
  "ShiftsGE x = (let (extraBits, nShifts) = ShiftsGE_loop x 0 0 in if extraBits \<noteq> 0 then nShifts + 1 else nShifts)"

text \<open>The loop is only entered with a non-zero argument, and keeps it non-zero.\<close>

function ShiftDiv_loop :: "u32 \<Rightarrow> nat \<Rightarrow> nat" where
  "ShiftDiv_loop x nShifts =
     (if x \<noteq> 0 \<and> x AND 1 = 0 then ShiftDiv_loop (drop_bit 1 x) (nShifts + 1) else nShifts)"
  by pat_completeness auto

termination
  by (relation "measure (\<lambda>(x, _). unat x)") (auto simp: unat_half_less)

definition ShiftDiv :: "u32 \<Rightarrow> nat" where
  "ShiftDiv x = (if x = 0 then 0 else ShiftDiv_loop x 0)"

declare ShiftsGE_loop.simps [simp del] ShiftDiv_loop.simps [simp del]

subsection \<open>Geometry set-up in \<open>yaffs_GutsInitialise\<close>\<close>

definition guts_block_offsets :: "'n yaffs_Device \<Rightarrow> 'n yaffs_Device" where
  "guts_block_offsets dev =
     (let dev = dev\<lparr>internalStartBlock := startBlock dev, internalEndBlock := endBlock dev, blockOffset := 0,
                    chunkOffset := 0, nFreeChunks := 0\<rparr>
      in if startBlock dev = 0 then
           dev\<lparr>internalStartBlock := startBlock dev + 1, internalEndBlock := endBlock dev + 1, blockOffset := 1,
               chunkOffset := nChunksPerBlock dev\<rparr>
         else dev)"

definition guts_geometry_bad :: "'n yaffs_Device \<Rightarrow> bool" where
  "guts_geometry_bad dev \<longleftrightarrow>
     (isYaffs2 dev \<and> nDataBytesPerChunk dev < 1024) \<or> (\<not> isYaffs2 dev \<and> nDataBytesPerChunk dev \<noteq> 512) \<or>
     nChunksPerBlock dev < 2 \<or> nReservedBlocks dev < 2 \<or> internalStartBlock dev \<le> 0 \<or> internalEndBlock dev \<le> 0 \<or>
     internalEndBlock dev \<le> internalStartBlock dev + nReservedBlocks dev + 2"

definition guts_chunk_size :: "'n yaffs_Device \<Rightarrow> 'n yaffs_Device" where
  "guts_chunk_size dev =
     (let dev = dev\<lparr>chunkShift := word_of_nat (ShiftDiv (word_of_int (nDataBytesPerChunk dev)))\<rparr>;
          dev = dev\<lparr>chunkMask := push_bit (unat (chunkShift dev)) 1 - 1\<rparr>
      in if word_of_int (nDataBytesPerChunk dev) = chunkMask dev + 1
         then dev\<lparr>crumbMask := 0, crumbShift := 0, crumbsPerChunk := 0\<rparr>
         else (let dev = dev\<lparr>crumbShift := word_of_nat (ShiftDiv 16)\<rparr>
               in dev\<lparr>crumbMask := push_bit (unat (crumbShift dev)) 1 - 1,
                      crumbsPerChunk := word_of_int (nDataBytesPerChunk dev div push_bit (unat (crumbShift dev)) 1),
                      chunkShift := 0, chunkMask := 0\<rparr>))"

text \<open>
  The tnode width.  Shifting 1 by the whole width of an \<open>int\<close> is undefined: \<open>None\<close>.  The result is
  YAFFS_FAIL when a chunk group would be larger than a block.
\<close>

definition guts_tnode_width :: "'n yaffs_Device \<Rightarrow> (int \<times> 'n yaffs_Device) option" where
  "guts_tnode_width dev =
     (let x = word_of_int (nChunksPerBlock dev * (internalEndBlock dev + 1));
          bits = ShiftsGE x;
          (bits, width) = (if \<not> wideTnodesDisabled dev then
                             (let bits = (if odd bits then bits + 1 else bits) in (bits, if bits < 16 then 16 else bits))
                           else (bits, 16))
      in if width \<ge> 32 then None
         else (let dev = dev\<lparr>tnodeWidth := word_of_nat width, tnodeMask := push_bit width 1 - 1,
                             chunkGroupBits := (if bits \<le> width then 0 else word_of_nat (bits - width))\<rparr>;
                   dev = dev\<lparr>chunkGroupSize := push_bit (unat (chunkGroupBits dev)) 1\<rparr>
               in Some (if nChunksPerBlock dev < uint (chunkGroupSize dev) then YAFFS_FAIL else YAFFS_OK, dev)))"

subsection \<open>Shift counts\<close>

lemma word_and_1_eq_0: "(x :: 'a::len word) AND 1 = 0 \<longleftrightarrow> even (unat x)"
proof -
  have "x AND 1 = 0 \<longleftrightarrow> \<not> bit x 0" using and_power2_eq_0 [of x 0] by simp
  also have "\<dots> \<longleftrightarrow> \<not> bit (unat x) 0" by (simp add: bit_unsigned_iff)
  finally show ?thesis by (simp add: bit_0)
qed

lemma ShiftsGE_loop_spec:
  assumes "0 < unat x"
  shows "\<exists>k e'. ShiftsGE_loop x e n = (e', n + k) \<and> e \<le> e' \<and> 2 ^ k \<le> unat x \<and> unat x < 2 ^ (k + 1) \<and>
    (e' = e \<longleftrightarrow> unat x = 2 ^ k)"
  using assms
proof (induction x e n rule: ShiftsGE_loop.induct)
  case (1 x e n)
  show ?case
  proof (cases "x > 1")
    case True
    then have big: "1 < unat x" by (simp add: word_less_nat_alt)
    let ?e = "if x AND 1 \<noteq> 0 then e + 1 else e"
    obtain k e' where IH: "ShiftsGE_loop (drop_bit 1 x) ?e (n + 1) = (e', n + 1 + k)" "?e \<le> e'"
      "2 ^ k \<le> unat x div 2" "unat x div 2 < 2 ^ (k + 1)" "e' = ?e \<longleftrightarrow> unat x div 2 = 2 ^ k"
      using "1.IH" [OF True] big by (auto simp: unat_drop_bit_1)
    have "ShiftsGE_loop x e n = (e', n + (k + 1))"
      using True IH(1) by (subst ShiftsGE_loop.simps) simp
    moreover have "2 ^ (k + 1) \<le> unat x" "unat x < 2 ^ (k + 1 + 1)" using IH(3,4) by auto
    moreover have "e' = e \<longleftrightarrow> unat x = 2 ^ (k + 1)"
    proof (cases "even (unat x)")
      case True
      then show ?thesis using IH(5) by (auto simp: word_and_1_eq_0)
    next
      case False
      then have "unat x \<noteq> 2 ^ (k + 1)" by (metis even_power even_numeral add_gr_0 zero_less_one)
      with False show ?thesis using IH(2) by (auto simp: word_and_1_eq_0)
    qed
    moreover have "e \<le> e'" using IH(2) by (auto split: if_splits)
    ultimately show ?thesis by blast
  next
    case False
    with "1.prems" have "unat x = 1" by (simp add: word_less_nat_alt)
    with False show ?thesis by (subst ShiftsGE_loop.simps) (auto intro!: exI [of _ 0])
  qed
qed

lemma ShiftDiv_loop_spec:
  assumes "x \<noteq> 0"
  shows "\<exists>k. ShiftDiv_loop x n = n + k \<and> (\<exists>m. odd m \<and> unat x = 2 ^ k * m)"
  using assms
proof (induction x n rule: ShiftDiv_loop.induct)
  case (1 x n)
  show ?case
  proof (cases "x AND 1 = 0")
    case True
    then obtain h where h: "unat x = 2 * h" by (auto simp: word_and_1_eq_0)
    with "1.prems" have "drop_bit 1 x \<noteq> 0" by (simp add: unat_drop_bit_1 flip: unat_eq_zero)
    then obtain k m where "ShiftDiv_loop (drop_bit 1 x) (n + 1) = n + 1 + k" "odd m" "h = 2 ^ k * m"
      using "1.IH" "1.prems" True h by (auto simp: unat_drop_bit_1)
    then show ?thesis
      using "1.prems" True h by (subst ShiftDiv_loop.simps) (auto intro!: exI [of _ "k + 1"])
  next
    case False
    then show ?thesis by (subst ShiftDiv_loop.simps) (auto simp: word_and_1_eq_0 intro!: exI [of _ 0])
  qed
qed

lemma ShiftDiv_spec: "x \<noteq> 0 \<Longrightarrow> \<exists>m. odd m \<and> unat x = 2 ^ ShiftDiv x * m"
  using ShiftDiv_loop_spec [of x 0] by (auto simp: ShiftDiv_def)

lemma ShiftDiv_less: "x \<noteq> 0 \<Longrightarrow> ShiftDiv x < 32"
proof -
  assume "x \<noteq> 0"
  then obtain m where m: "odd m" "unat x = 2 ^ ShiftDiv x * m" using ShiftDiv_spec by blast
  have "(2 :: nat) ^ ShiftDiv x \<le> 2 ^ ShiftDiv x * m" using m(1) by (cases m) auto
  also have "\<dots> < 2 ^ 32" using unsigned_less [of x, where ?'a = nat] m(2) by simp
  finally show ?thesis by (simp only: power_strict_increasing_iff one_less_numeral_iff semiring_norm)
qed

lemma ShiftDiv_16: "ShiftDiv 16 = 4"
  by (simp add: ShiftDiv_def ShiftDiv_loop.simps)

subsection \<open>Chunk and offset\<close>

lemma uint_word_of_int_small: "0 \<le> i \<Longrightarrow> i < 2 ^ 32 \<Longrightarrow> uint (word_of_int i :: u32) = i"
  by (simp add: unsigned_of_int take_bit_int_eq_self)

lemma guts_chunk_size_shift:
  assumes "512 \<le> B" "B < 2 ^ 31" "nDataBytesPerChunk dev = B"
  obtains s where "s < 32" "0 < s" "B = 2 ^ s"
      "unat (chunkShift (guts_chunk_size dev)) = s" "chunkMask (guts_chunk_size dev) = mask s"
    | "chunkShift (guts_chunk_size dev) = 0" "crumbMask (guts_chunk_size dev) = mask 4"
      "unat (crumbShift (guts_chunk_size dev)) = 4"
      "crumbsPerChunk (guts_chunk_size dev) = word_of_int (B div 16)"
proof -
  let ?w = "word_of_int B :: u32"
  obtain s where S: "ShiftDiv ?w = s" by blast
  have w: "uint ?w = B" by (rule uint_word_of_int_small) (use assms in auto)
  then have "?w \<noteq> 0" using assms(1) by (metis unsigned_0 numeral_le_iff not_numeral_le_zero)
  then have s: "s < 32" using ShiftDiv_less S by blast
  then have us: "unat (word_of_nat s :: u32) = s" by (intro unat_word_of_nat) simp
  have eq: "?w = 2 ^ s \<longleftrightarrow> B = 2 ^ s"
  proof -
    have "uint (word_of_int (2 ^ s) :: u32) = 2 ^ s"
      by (rule uint_word_of_int_small) (use s in \<open>simp_all only: power_strict_increasing_iff, simp_all\<close>)
    moreover have "word_of_int (2 ^ s) = (2 ^ s :: u32)" by simp
    ultimately show ?thesis using w by metis
  qed
  show thesis
  proof (cases "?w = 2 ^ s")
    case True
    have "0 < s" using True eq assms(1) by (cases s) auto
    moreover have S2: "ShiftDiv (2 ^ s) = s" using S unfolding True .
    ultimately show thesis
      using True eq s by (intro that(1) [of s]) (simp_all add: guts_chunk_size_def Let_def assms(3) S2 us mask_eq_exp_minus_1)
  next
    case False
    then show thesis
      by (intro that(2)) (simp_all add: guts_chunk_size_def Let_def assms(3) S us ShiftDiv_16 mask_eq_exp_minus_1)
  qed
qed

lemma crumb_arith:
  fixes a c addr :: int
  assumes "a = addr div 16" "0 < c"
  shows "addr mod 16 + 16 * (a - a div c * c) = addr mod (16 * c)" "a div c = addr div (16 * c)"
  using assms by (simp_all add: mod_mult2_eq' zdiv_zmult2_eq zmod_zmult2_eq minus_div_mult_eq_mod add.commute)

text \<open>
  C31. After the chunk size has been set up for any chunk size of at least 512 bytes that is a power
  of two or a multiple of 16, \<open>yaffs_AddrToChunk\<close> splits every offset below 64 GiB into its chunk
  number and its offset in the chunk: division and remainder by the chunk size, whichever of the
  shift and crumb paths the device uses.
\<close>

theorem yaffs_AddrToChunk_div_mod:
  assumes "512 \<le> nDataBytesPerChunk dev" "nDataBytesPerChunk dev < 2 ^ 31" "16 dvd nDataBytesPerChunk dev"
    and "0 \<le> addr" "addr < 2 ^ 36"
  shows "yaffs_AddrToChunk (guts_chunk_size dev) addr =
    Some (word_of_int (addr div nDataBytesPerChunk dev), word_of_int (addr mod nDataBytesPerChunk dev))"
  using assms(1,2) refl
proof (cases rule: guts_chunk_size_shift [of "nDataBytesPerChunk dev" dev])
  case (1 s)
  have "uint (mask s :: u32) = mask s" using \<open>s < 32\<close> by (intro bit_eqI) (auto simp: bit_unsigned_iff bit_mask_iff)
  moreover have "chunkShift (guts_chunk_size dev) \<noteq> 0" using 1 by (metis unat_0 less_irrefl)
  ultimately show ?thesis
    using 1 by (simp add: yaffs_AddrToChunk_def drop_bit_eq_div take_bit_eq_mask [symmetric] take_bit_eq_mod)
next
  case 2
  let ?B = "nDataBytesPerChunk dev" and ?c = "nDataBytesPerChunk dev div 16" and ?a = "addr div 16"
  have c: "0 < ?c" "?c < 2 ^ 32" "16 * ?c = ?B" using assms by auto
  have uc: "uint (word_of_int ?c :: u32) = ?c" by (rule uint_word_of_int_small) (use c in auto)
  then have "word_of_int ?c \<noteq> (0 :: u32)" using c by (metis unsigned_0 less_irrefl)
  have a: "0 \<le> ?a" "?a < 2 ^ 32" using assms(4,5) by auto
  have ua: "uint (word_of_int ?a :: u32) = ?a" by (rule uint_word_of_int_small [OF a])
  have chunk: "uint (word_of_int ?a div word_of_int ?c :: u32) = ?a div ?c" by (simp add: uint_div_distrib ua uc)
  have "?a div ?c * ?c \<le> ?a" "0 \<le> ?a div ?c * ?c" using a c by (metis div_mult_mod_eq le_add_same_cancel1 pos_mod_sign, simp add: pos_imp_zdiv_nonneg_iff)
  then have prod: "uint ((word_of_int ?a div word_of_int ?c) * word_of_int ?c :: u32) = ?a div ?c * ?c"
    using a by (simp add: uint_mult_lem chunk uc uint_word_ariths)
  have "word_of_int ?a div word_of_int ?c = (word_of_int (?a div ?c) :: u32)"
    using chunk by (metis word_of_int_uint)
  moreover have "word_of_int (addr mod 16) + word_of_int (16 * (?a - ?a div ?c * ?c)) = (word_of_int (addr mod ?B) :: u32)"
    using crumb_arith(1) [OF refl c(1), of addr] c(3) by (metis of_int_add)
  moreover have "?a div ?c = addr div ?B" using crumb_arith(2) [OF refl c(1), of addr] c(3) by simp
  moreover have "addr AND 15 = addr mod 16"
    using take_bit_eq_mask [of 4 addr] by (simp add: take_bit_eq_mod mask_eq_exp_minus_1)
  ultimately show ?thesis
    using 2 \<open>word_of_int ?c \<noteq> 0\<close> prod
    by (simp add: yaffs_AddrToChunk_def Let_def drop_bit_eq_div push_bit_eq_mult mask_eq_exp_minus_1 mult.commute mult.left_commute)
qed

text \<open>A geometry for the concrete instances: 2112-byte chunks, which need crumbs, 64 per block.\<close>

definition sample_geometry :: "unit yaffs_Device \<Rightarrow> unit yaffs_Device" where
  "sample_geometry dev = dev\<lparr>nDataBytesPerChunk := 2112, nChunksPerBlock := 64, internalEndBlock := 1024,
     wideTnodesDisabled := False\<rparr>"

theorem yaffs_AddrToChunk_div_mod_witness:
  "\<forall>dev. yaffs_AddrToChunk (guts_chunk_size (sample_geometry dev)) 1000000 = Some (473, 1024)"
proof
  fix dev
  show "yaffs_AddrToChunk (guts_chunk_size (sample_geometry dev)) 1000000 = Some (473, 1024)"
    using yaffs_AddrToChunk_div_mod [of "sample_geometry dev" 1000000] by (simp add: sample_geometry_def)
qed

text \<open>The opposite direction, for the tnode width: a shift count covers its argument and is the least that does.\<close>

lemma ShiftsGE_bounds:
  "unat x \<le> 2 ^ ShiftsGE x" and ShiftsGE_least: "unat x \<le> 2 ^ k \<Longrightarrow> ShiftsGE x \<le> k"
proof -
  have zero: "ShiftsGE 0 = 0" by (simp add: ShiftsGE_def ShiftsGE_loop.simps)
  have "unat x \<le> 2 ^ ShiftsGE x \<and> (unat x \<le> 2 ^ k \<longrightarrow> ShiftsGE x \<le> k)"
  proof (cases "unat x = 0")
    case True
    then show ?thesis using zero by (simp add: unat_eq_zero)
  next
    case False
    then obtain j e where j: "ShiftsGE_loop x 0 0 = (e, j)" "2 ^ j \<le> unat x" "unat x < 2 ^ (j + 1)" "e = 0 \<longleftrightarrow> unat x = 2 ^ j"
      using ShiftsGE_loop_spec [of x 0 0] by auto
    have least: "unat x \<le> 2 ^ k \<Longrightarrow> j \<le> k" using j(2) by (metis le_trans power_le_imp_le_exp one_less_numeral_iff semiring_norm(76))
    show ?thesis
    proof (cases "e = 0")
      case True
      then show ?thesis using j least by (simp add: ShiftsGE_def)
    next
      case False
      then have "2 ^ j < unat x" using j by simp
      then have "unat x \<le> 2 ^ k \<Longrightarrow> j < k" by (metis less_le_trans power_less_imp_less_exp one_less_numeral_iff semiring_norm(76))
      with False j show ?thesis by (auto simp: ShiftsGE_def)
    qed
  qed
  then show "unat x \<le> 2 ^ ShiftsGE x" "unat x \<le> 2 ^ k \<Longrightarrow> ShiftsGE x \<le> k" by blast+
qed

text \<open>
  C32. The tnode width: with wide tnodes enabled, the set-up always succeeds for a device of at most
  \<open>2 ^ 30\<close> chunks; the width is even, at least 16 and at most 30, every chunk number of the device fits
  it, and no chunk grouping is needed (the group size is 1).
\<close>

theorem guts_tnode_width_wide:
  assumes "\<not> wideTnodesDisabled dev" "2 \<le> nChunksPerBlock dev" "0 < internalEndBlock dev"
    and "nChunksPerBlock dev * (internalEndBlock dev + 1) \<le> 2 ^ 30"
  shows "\<exists>dev' w. guts_tnode_width dev = Some (YAFFS_OK, dev') \<and> unat (tnodeWidth dev') = w \<and>
    even w \<and> 16 \<le> w \<and> w \<le> 30 \<and> tnodeMask dev' = mask w \<and> chunkGroupBits dev' = 0 \<and> chunkGroupSize dev' = 1 \<and>
    nChunksPerBlock dev * (internalEndBlock dev + 1) \<le> 2 ^ w"
proof -
  let ?n = "nChunksPerBlock dev * (internalEndBlock dev + 1)"
  let ?x = "word_of_int ?n :: u32"
  have "0 \<le> ?n" using assms(2,3) by (intro mult_nonneg_nonneg) linarith+
  moreover have "?n < 2 ^ 32" using assms(4) by (rule le_less_trans) simp
  ultimately have "uint ?x = ?n" by (rule uint_word_of_int_small)
  then have x: "int (unat ?x) = ?n" by simp
  obtain b where b: "ShiftsGE ?x = b" by blast
  have "int (unat ?x) \<le> 2 ^ 30" using x assms(4) by simp
  then have "unat ?x \<le> 2 ^ 30" by (metis of_nat_le_iff of_nat_numeral of_nat_power)
  then have b30: "b \<le> 30" using ShiftsGE_least b by blast
  have fit: "?n \<le> 2 ^ b"
    using ShiftsGE_bounds [of ?x] x unfolding b by (metis of_nat_le_iff of_nat_numeral of_nat_power)
  define b' where "b' = (if odd b then b + 1 else b)"
  define w where "w = (if b' < 16 then 16 else b')"
  have b'30: "b' \<le> 30" "even b'" "b \<le> b'" using b30 by (cases "b = 30"; simp add: b'_def)+
  then have w: "even w" "16 \<le> w" "w \<le> 30" "b' \<le> w" by (auto simp: w_def)
  have "(2 :: int) ^ b \<le> 2 ^ w" using b'30 w by (intro power_increasing) auto
  then have "?n \<le> 2 ^ w" using fit by linarith
  moreover have "unat (word_of_nat w :: u32) = w" by (rule unat_word_of_nat) (use w in simp)
  moreover have "guts_tnode_width dev = Some (YAFFS_OK, dev\<lparr>tnodeWidth := word_of_nat w, tnodeMask := push_bit w 1 - 1,
      chunkGroupBits := 0, chunkGroupSize := 1\<rparr>)"
    unfolding guts_tnode_width_def Let_def b b'_def [symmetric] w_def [symmetric]
    using w assms(1,2) by simp
  ultimately show ?thesis using w by (simp add: mask_eq_exp_minus_1)
qed

theorem guts_tnode_width_wide_witness:
  "\<forall>dev. \<exists>dev' w. guts_tnode_width (sample_geometry dev) = Some (YAFFS_OK, dev') \<and> unat (tnodeWidth dev') = w \<and>
     even w \<and> 16 \<le> w \<and> w \<le> 30 \<and> tnodeMask dev' = mask w \<and> chunkGroupBits dev' = 0 \<and> chunkGroupSize dev' = 1 \<and>
     (65600 :: int) \<le> 2 ^ w"
proof
  fix dev
  show "\<exists>dev' w. guts_tnode_width (sample_geometry dev) = Some (YAFFS_OK, dev') \<and> unat (tnodeWidth dev') = w \<and>
     even w \<and> 16 \<le> w \<and> w \<le> 30 \<and> tnodeMask dev' = mask w \<and> chunkGroupBits dev' = 0 \<and> chunkGroupSize dev' = 1 \<and>
     (65600 :: int) \<le> 2 ^ w"
    using guts_tnode_width_wide [of "sample_geometry dev"] by (simp add: sample_geometry_def)
qed

end
