(* ===== verification/TagsCompat.thy ===== *)
theory TagsCompat
  imports Device
begin

section \<open>The YAFFS1 tags layer\<close>

text \<open>
  \<^verbatim>\<open>yaffs_tagscompat.c\<close>: tags of YAFFS1 devices live in eight bytes of the 16-byte spare area,
  protected by a 12-bit ECC of their own; the two 256-byte halves of the page are protected by the
  3-byte ECC.  \<open>yaffs_Tags\<close> is a struct of bit fields in a union with eight bytes: \<open>tags_image\<close> is that
  memory, with the fields allocated from the least significant bit as on a little-endian target.  The
  switch \<^verbatim>\<open>CONFIG_YAFFS_ECC_WRONG_ORDER\<close> is the argument \<open>wo\<close>.  Two values that the code leaves
  unset are arguments: the \<open>unusedStuff\<close> bits of a tags struct on the stack, and the \<open>eccResult\<close> that
  \<open>yaffs_ReadChunkFromNAND\<close> does not write when no data is read.
\<close>

definition yaffs_countBitsTable :: "nat list" where
  "yaffs_countBitsTable =
    [0, 1, 1, 2, 1, 2, 2, 3, 1, 2, 2, 3, 2, 3, 3, 4,
     1, 2, 2, 3, 2, 3, 3, 4, 2, 3, 3, 4, 3, 4, 4, 5,
     1, 2, 2, 3, 2, 3, 3, 4, 2, 3, 3, 4, 3, 4, 4, 5,
     2, 3, 3, 4, 3, 4, 4, 5, 3, 4, 4, 5, 4, 5, 5, 6,
     1, 2, 2, 3, 2, 3, 3, 4, 2, 3, 3, 4, 3, 4, 4, 5,
     2, 3, 3, 4, 3, 4, 4, 5, 3, 4, 4, 5, 4, 5, 5, 6,
     2, 3, 3, 4, 3, 4, 4, 5, 3, 4, 4, 5, 4, 5, 5, 6,
     3, 4, 4, 5, 4, 5, 5, 6, 4, 5, 5, 6, 5, 6, 6, 7,
     1, 2, 2, 3, 2, 3, 3, 4, 2, 3, 3, 4, 3, 4, 4, 5,
     2, 3, 3, 4, 3, 4, 4, 5, 3, 4, 4, 5, 4, 5, 5, 6,
     2, 3, 3, 4, 3, 4, 4, 5, 3, 4, 4, 5, 4, 5, 5, 6,
     3, 4, 4, 5, 4, 5, 5, 6, 4, 5, 5, 6, 5, 6, 6, 7,
     2, 3, 3, 4, 3, 4, 4, 5, 3, 4, 4, 5, 4, 5, 5, 6,
     3, 4, 4, 5, 4, 5, 5, 6, 4, 5, 5, 6, 5, 6, 6, 7,
     3, 4, 4, 5, 4, 5, 5, 6, 4, 5, 5, 6, 5, 6, 6, 7,
     4, 5, 5, 6, 5, 6, 6, 7, 5, 6, 6, 7, 6, 7, 7, 8]"

definition tagscompat_CountBits :: "u8 \<Rightarrow> nat" where
  "tagscompat_CountBits x = yaffs_countBitsTable ! unat x"

record yaffs_Tags =
  tg_chunkId :: "20 word"
  tg_serialNumber :: "2 word"
  tg_byteCount :: "10 word"
  tg_objectId :: "18 word"
  tg_ecc :: "12 word"
  tg_unusedStuff :: "2 word"

type_synonym tags_union = "64 word"

definition tags_image :: "yaffs_Tags \<Rightarrow> tags_union" where
  "tags_image t = ucast (tg_chunkId t) OR push_bit 20 (ucast (tg_serialNumber t)) OR
     push_bit 22 (ucast (tg_byteCount t)) OR push_bit 32 (ucast (tg_objectId t)) OR
     push_bit 50 (ucast (tg_ecc t)) OR push_bit 62 (ucast (tg_unusedStuff t))"

definition image_tags :: "tags_union \<Rightarrow> yaffs_Tags" where
  "image_tags w = \<lparr>tg_chunkId = ucast w, tg_serialNumber = ucast (drop_bit 20 w),
     tg_byteCount = ucast (drop_bit 22 w), tg_objectId = ucast (drop_bit 32 w),
     tg_ecc = ucast (drop_bit 50 w), tg_unusedStuff = ucast (drop_bit 62 w)\<rparr>"

definition asBytes :: "yaffs_Tags \<Rightarrow> nat \<Rightarrow> u8" where
  "asBytes t i = ucast (drop_bit (8 * i) (tags_image t))"

subsection \<open>Tags ECC\<close>

definition yaffs_CalcECC :: "bool \<Rightarrow> u8 list \<Rightarrow> yaffs_Spare \<Rightarrow> yaffs_Spare option" where
  "yaffs_CalcECC wo data spare =
     do { e1 \<leftarrow> yaffs_ECCCalculate wo data;
          e2 \<leftarrow> yaffs_ECCCalculate wo (drop 256 data);
          Some (spare\<lparr>spare_ecc1 := e1, spare_ecc2 := e2\<rparr>) }"

definition CalcTagsECC_j :: "u8 \<Rightarrow> u32 \<times> u32 \<Rightarrow> nat \<Rightarrow> u32 \<times> u32" where
  "CalcTagsECC_j b s j =
     (let bit = fst s + 1 in (bit, if b AND push_bit j 1 \<noteq> 0 then snd s XOR bit else snd s))"

definition CalcTagsECC_i :: "yaffs_Tags \<Rightarrow> u32 \<times> u32 \<Rightarrow> nat \<Rightarrow> u32 \<times> u32" where
  "CalcTagsECC_i t s i = foldl (CalcTagsECC_j (asBytes t i)) s [0..<8]"

definition yaffs_CalcTagsECC :: "yaffs_Tags \<Rightarrow> yaffs_Tags" where
  "yaffs_CalcTagsECC tags =
     (let tags = tags\<lparr>tg_ecc := 0\<rparr>
      in tags\<lparr>tg_ecc := ucast (snd (foldl (CalcTagsECC_i tags) (0, 0) [0..<8]))\<rparr>)"

definition yaffs_CheckECCOnTags :: "yaffs_Tags \<Rightarrow> int \<times> yaffs_Tags" where
  "yaffs_CheckECCOnTags tags =
     (let ecc = (ucast (tg_ecc tags) :: u32);
          tags = yaffs_CalcTagsECC tags;
          ecc = ecc XOR ucast (tg_ecc tags)
      in if ecc \<noteq> 0 \<and> ecc \<le> 64 then
           (let ecc = ecc - 1;
                tags = image_tags (tags_image tags XOR push_bit (unat ecc) 1)
            in (1, yaffs_CalcTagsECC tags))
         else if ecc \<noteq> 0 then (- 1, tags)
         else (0, tags))"

subsection \<open>Tags in the spare area\<close>

definition yaffs_LoadTagsIntoSpare :: "yaffs_Spare \<Rightarrow> yaffs_Tags \<Rightarrow> yaffs_Spare" where
  "yaffs_LoadTagsIntoSpare spare tags =
     (let tu = asBytes (yaffs_CalcTagsECC tags)
      in spare\<lparr>tagByte0 := tu 0, tagByte1 := tu 1, tagByte2 := tu 2, tagByte3 := tu 3,
               tagByte4 := tu 4, tagByte5 := tu 5, tagByte6 := tu 6, tagByte7 := tu 7\<rparr>)"

definition spare_union :: "yaffs_Spare \<Rightarrow> tags_union" where
  "spare_union s = ucast (tagByte0 s) OR push_bit 8 (ucast (tagByte1 s)) OR push_bit 16 (ucast (tagByte2 s)) OR
     push_bit 24 (ucast (tagByte3 s)) OR push_bit 32 (ucast (tagByte4 s)) OR push_bit 40 (ucast (tagByte5 s)) OR
     push_bit 48 (ucast (tagByte6 s)) OR push_bit 56 (ucast (tagByte7 s))"

definition yaffs_GetTagsFromSpare :: "'n yaffs_Device \<Rightarrow> yaffs_Spare \<Rightarrow> yaffs_Tags \<times> 'n yaffs_Device" where
  "yaffs_GetTagsFromSpare dev spare =
     (let (result, tags) = yaffs_CheckECCOnTags (image_tags (spare_union spare))
      in (tags, if result > 0 then dev\<lparr>tagsEccFixed := tagsEccFixed dev + 1\<rparr>
                else if result < 0 then dev\<lparr>tagsEccUnfixed := tagsEccUnfixed dev + 1\<rparr>
                else dev))"

definition yaffs_SpareInitialise :: yaffs_Spare where
  "yaffs_SpareInitialise = \<lparr>tagByte0 = 0xFF, tagByte1 = 0xFF, tagByte2 = 0xFF, tagByte3 = 0xFF,
     pageStatus = 0xFF, blockStatus = 0xFF, tagByte4 = 0xFF, tagByte5 = 0xFF, spare_ecc1 = (0xFF, 0xFF, 0xFF),
     tagByte6 = 0xFF, tagByte7 = 0xFF, spare_ecc2 = (0xFF, 0xFF, 0xFF)\<rparr>"

subsection \<open>Pages of a YAFFS1 device\<close>

definition yaffs_WriteChunkToNAND ::
  "'n yaffs_Device \<Rightarrow> int \<Rightarrow> u8 list option \<Rightarrow> yaffs_Spare \<Rightarrow> (int \<times> 'n yaffs_Device) option" where
  "yaffs_WriteChunkToNAND dev chunkInNAND data spare =
     (if chunkInNAND < startBlock dev * nChunksPerBlock dev then Some (YAFFS_FAIL, dev)
      else do { f \<leftarrow> writeChunkToNAND dev;
                let dev = dev\<lparr>nPageWrites := nPageWrites dev + 1\<rparr>;
                let (r, n) = f (genericDevice dev) chunkInNAND data spare;
                Some (r, dev\<lparr>genericDevice := n\<rparr>) })"

text \<open>
  \<open>yaffs_HandleReadDataError\<close> receives the chunk number as the driver sees it, without the device's
  chunk offset.
\<close>

definition yaffs_HandleReadDataError :: "'n yaffs_Device \<Rightarrow> int \<Rightarrow> 'n yaffs_Device option" where
  "yaffs_HandleReadDataError dev chunkInNAND =
     (let blockInNAND = cdiv chunkInNAND (nChunksPerBlock dev)
      in do { bi \<leftarrow> yaffs_GetBlockInfo dev blockInNAND;
              Some (set_block_info dev blockInNAND (bi\<lparr>needsRetiring := True\<rparr>)) })"

definition combined_ecc_result :: "int \<Rightarrow> int \<Rightarrow> yaffs_ECCResult" where
  "combined_ecc_result e1 e2 =
     (if e1 < 0 \<or> e2 < 0 then YAFFS_ECC_RESULT_UNFIXED
      else if e1 > 0 \<or> e2 > 0 then YAFFS_ECC_RESULT_FIXED
      else YAFFS_ECC_RESULT_NO_ERROR)"

definition count_ecc :: "int \<Rightarrow> 'n yaffs_Device \<Rightarrow> 'n yaffs_Device" where
  "count_ecc e dev = (if e > 0 then dev\<lparr>eccFixed := eccFixed dev + 1\<rparr>
     else if e < 0 then dev\<lparr>eccUnfixed := eccUnfixed dev + 1\<rparr> else dev)"

text \<open>
  The result is the return value, the data (when \<open>want_data\<close>), the spare area, the ECC result if the
  code stores one, and the device.
\<close>

definition yaffs_ReadChunkFromNAND ::
  "bool \<Rightarrow> 'n yaffs_Device \<Rightarrow> int \<Rightarrow> bool \<Rightarrow> bool \<Rightarrow>
     (int \<times> u8 list \<times> yaffs_Spare \<times> yaffs_ECCResult option \<times> 'n yaffs_Device) option" where
  "yaffs_ReadChunkFromNAND wo dev chunkInNAND want_data doErrorCorrection =
     do { f \<leftarrow> readChunkFromNAND dev;
          let dev = dev\<lparr>nPageReads := nPageReads dev + 1\<rparr>;
          let (retVal, data, nspare, n) = f (genericDevice dev) chunkInNAND want_data;
          let dev = dev\<lparr>genericDevice := n\<rparr>;
          let spare = nspare_spare nspare;
          if \<not> useNANDECC dev then
            if want_data \<and> doErrorCorrection then do {
              calcEcc \<leftarrow> yaffs_ECCCalculate wo data;
              (e1, d1, ecc1) \<leftarrow> yaffs_ECCCorrect wo data (spare_ecc1 spare) calcEcc;
              calcEcc \<leftarrow> yaffs_ECCCalculate wo (drop 256 d1);
              (e2, d2, ecc2) \<leftarrow> yaffs_ECCCorrect wo (drop 256 d1) (spare_ecc2 spare) calcEcc;
              let data = take 256 d1 @ d2;
              let spare = spare\<lparr>spare_ecc1 := ecc1, spare_ecc2 := ecc2\<rparr>;
              let dev = count_ecc e2 (count_ecc e1 dev);
              dev \<leftarrow> (if e1 \<noteq> 0 \<or> e2 \<noteq> 0 then yaffs_HandleReadDataError dev chunkInNAND else Some dev);
              Some (retVal, data, spare, Some (combined_ecc_result e1 e2), dev) }
            else Some (retVal, data, spare, None, dev)
          else
            if want_data \<and> doErrorCorrection then do {
              let e1 = eccres1 nspare;
              let e2 = eccres2 nspare;
              dev \<leftarrow> (if e1 \<noteq> 0 \<or> e2 \<noteq> 0 then yaffs_HandleReadDataError dev chunkInNAND else Some dev);
              Some (retVal, data, spare, Some (combined_ecc_result e1 e2), dev) }
            else Some (retVal, data, spare, None, dev) }"

subsection \<open>The interface to the rest of YAFFS\<close>

definition yaffs_TagsCompatabilityWriteChunkWithTagsToNAND ::
  "bool \<Rightarrow> 2 word \<Rightarrow> 'n yaffs_Device \<Rightarrow> int \<Rightarrow> u8 list option \<Rightarrow> yaffs_ExtendedTags \<Rightarrow> (int \<times> 'n yaffs_Device) option" where
  "yaffs_TagsCompatabilityWriteChunkWithTagsToNAND wo unused dev chunkInNAND data eTags =
     (let spare = yaffs_SpareInitialise
      in if chunkDeleted eTags \<noteq> 0
         then yaffs_WriteChunkToNAND dev chunkInNAND data (spare\<lparr>pageStatus := 0\<rparr>)
         else (let tags = \<lparr>tg_chunkId = ucast (chunkId eTags), tg_serialNumber = ucast (serialNumber eTags),
                           tg_byteCount = ucast (byteCount eTags), tg_objectId = ucast (objectId eTags),
                           tg_ecc = 0, tg_unusedStuff = unused\<rparr>
               in do { spare \<leftarrow> (case data of
                         Some d \<Rightarrow> if \<not> useNANDECC dev then yaffs_CalcECC wo d spare else Some spare
                       | None \<Rightarrow> Some spare);
                       yaffs_WriteChunkToNAND dev chunkInNAND data (yaffs_LoadTagsIntoSpare spare tags) }))"

definition yaffs_TagsCompatabilityReadChunkWithTagsFromNAND ::
  "bool \<Rightarrow> yaffs_ECCResult \<Rightarrow> 'n yaffs_Device \<Rightarrow> int \<Rightarrow> bool \<Rightarrow> yaffs_ExtendedTags option \<Rightarrow>
     (int \<times> u8 list \<times> yaffs_ExtendedTags option \<times> 'n yaffs_Device) option" where
  "yaffs_TagsCompatabilityReadChunkWithTagsFromNAND wo unset dev chunkInNAND want_data eTags =
     do { (r, data, spare, ecc, dev) \<leftarrow> yaffs_ReadChunkFromNAND wo dev chunkInNAND want_data True;
          if r \<noteq> 0 then
            (case eTags of
               None \<Rightarrow> Some (YAFFS_OK, data, None, dev)
             | Some et \<Rightarrow>
                 (let et = et\<lparr>chunkDeleted := (if tagscompat_CountBits (pageStatus spare) < 7 then 1 else 0),
                              eccResult := (case ecc of Some e \<Rightarrow> e | None \<Rightarrow> unset), blockBad := 0,
                              chunkUsed := (if spare \<noteq> yaffs_SpareInitialise then 1 else 0)\<rparr>
                  in if chunkUsed et \<noteq> 0 then
                       (let (tags, dev) = yaffs_GetTagsFromSpare dev spare
                        in Some (YAFFS_OK, data,
                             Some (et\<lparr>objectId := ucast (tg_objectId tags), chunkId := ucast (tg_chunkId tags),
                                      byteCount := ucast (tg_byteCount tags), serialNumber := ucast (tg_serialNumber tags)\<rparr>),
                             dev))
                     else Some (YAFFS_OK, data, Some et, dev)))
          else Some (YAFFS_FAIL, data, eTags, dev) }"

definition yaffs_TagsCompatabilityMarkNANDBlockBad :: "'n yaffs_Device \<Rightarrow> int \<Rightarrow> (int \<times> 'n yaffs_Device) option" where
  "yaffs_TagsCompatabilityMarkNANDBlockBad dev blockInNAND =
     (let spare = yaffs_SpareInitialise\<lparr>blockStatus := 0x59\<rparr>
      in do { (_, dev) \<leftarrow> yaffs_WriteChunkToNAND dev (blockInNAND * nChunksPerBlock dev) None spare;
              (_, dev) \<leftarrow> yaffs_WriteChunkToNAND dev (blockInNAND * nChunksPerBlock dev + 1) None spare;
              Some (YAFFS_OK, dev) })"

definition yaffs_TagsCompatabilityQueryNANDBlock ::
  "bool \<Rightarrow> 'n yaffs_Device \<Rightarrow> int \<Rightarrow> (int \<times> yaffs_BlockState \<times> u32 \<times> 'n yaffs_Device) option" where
  "yaffs_TagsCompatabilityQueryNANDBlock wo dev blockNo =
     do { (_, _, spare0, _, dev) \<leftarrow> yaffs_ReadChunkFromNAND wo dev (blockNo * nChunksPerBlock dev) False True;
          (_, _, spare1, _, dev) \<leftarrow> yaffs_ReadChunkFromNAND wo dev (blockNo * nChunksPerBlock dev + 1) False True;
          Some (YAFFS_OK,
                if tagscompat_CountBits (blockStatus spare0 AND blockStatus spare1) < 7 then YAFFS_BLOCK_STATE_DEAD
                else if spare0 = yaffs_SpareInitialise then YAFFS_BLOCK_STATE_EMPTY
                else YAFFS_BLOCK_STATE_NEEDS_SCANNING,
                0, dev) }"

subsection \<open>The memory image of the tags\<close>

lemma bit_tags_image:
  "bit (tags_image t) n \<longleftrightarrow>
     (if n < 20 then bit (tg_chunkId t) n else if n < 22 then bit (tg_serialNumber t) (n - 20)
      else if n < 32 then bit (tg_byteCount t) (n - 22) else if n < 50 then bit (tg_objectId t) (n - 32)
      else if n < 62 then bit (tg_ecc t) (n - 50) else n < 64 \<and> bit (tg_unusedStuff t) (n - 62))"
  unfolding tags_image_def
  by (auto simp: bit_or_iff bit_push_bit_iff bit_ucast_iff dest: bit_imp_le_length)

lemma image_tags_image [simp]: "image_tags (tags_image t) = t"
proof -
  have "ucast (tags_image t) = tg_chunkId t" "ucast (drop_bit 20 (tags_image t)) = tg_serialNumber t"
    "ucast (drop_bit 22 (tags_image t)) = tg_byteCount t" "ucast (drop_bit 32 (tags_image t)) = tg_objectId t"
    "ucast (drop_bit 50 (tags_image t)) = tg_ecc t" "ucast (drop_bit 62 (tags_image t)) = tg_unusedStuff t"
    by (rule bit_word_eqI, auto simp: bit_tags_image bit_ucast_iff bit_drop_bit_eq)+
  then show ?thesis by (simp add: image_tags_def)
qed

lemma tags_image_tags [simp]: "tags_image (image_tags w) = w"
  by (rule bit_word_eqI) (auto simp: bit_tags_image image_tags_def bit_ucast_iff bit_drop_bit_eq)

lemma tags_image_inject: "tags_image t = tags_image u \<longleftrightarrow> t = u"
  by (metis image_tags_image)

text \<open>Bits 50 to 61 of the image hold the ECC.\<close>

lemma bit_image_no_ecc:
  "bit (tags_image (t\<lparr>tg_ecc := 0\<rparr>)) n \<longleftrightarrow> bit (tags_image t) n \<and> (n < 50 \<or> 62 \<le> n)"
  by (auto simp: bit_tags_image)

lemma tg_ecc_image_tags: "bit (tg_ecc (image_tags w)) n \<longleftrightarrow> n < 12 \<and> bit w (n + 50)"
  by (auto simp: image_tags_def bit_ucast_iff bit_drop_bit_eq add.commute)

subsection \<open>The tags ECC as a sum over bit positions\<close>

primrec bit_sum :: "tags_union \<Rightarrow> nat \<Rightarrow> u32" where
  "bit_sum w 0 = 0"
| "bit_sum w (Suc n) = bit_sum w n XOR (if bit w n then word_of_nat (Suc n) else 0)"

lemma asBytes_bit: "j < 8 \<Longrightarrow> bit (asBytes t i) j = bit (tags_image t) (8 * i + j)"
  by (simp add: asBytes_def bit_ucast_iff bit_drop_bit_eq)

lemma CalcTagsECC_j_step:
  assumes "j < 8"
  shows "CalcTagsECC_j (asBytes t i) (word_of_nat (8 * i + j), bit_sum (tags_image t) (8 * i + j)) j =
    (word_of_nat (8 * i + Suc j), bit_sum (tags_image t) (8 * i + Suc j))"
proof -
  have "asBytes t i AND push_bit j 1 = 0 \<longleftrightarrow> \<not> bit (tags_image t) (8 * i + j)"
    using asBytes_bit [OF assms, of t i] and_power2_eq_0 [of "asBytes t i" j] by simp
  then show ?thesis by (simp add: CalcTagsECC_j_def Let_def add.commute)
qed

lemma CalcTagsECC_j_foldl:
  "n \<le> 8 \<Longrightarrow> foldl (CalcTagsECC_j (asBytes t i)) (word_of_nat (8 * i), bit_sum (tags_image t) (8 * i)) [0..<n] =
     (word_of_nat (8 * i + n), bit_sum (tags_image t) (8 * i + n))"
  by (induction n) (simp_all add: CalcTagsECC_j_step del: add_Suc_right of_nat_add of_nat_Suc)

lemma CalcTagsECC_i_foldl:
  "foldl (CalcTagsECC_i t) (0, 0) [0..<n] = (word_of_nat (8 * n), bit_sum (tags_image t) (8 * n))"
proof (induction n)
  case (Suc n)
  then show ?case
    using CalcTagsECC_j_foldl [of 8 t n] by (simp add: CalcTagsECC_i_def add.commute)
qed simp

lemma bit_sum_small: "n \<le> 64 \<Longrightarrow> 7 \<le> k \<Longrightarrow> \<not> bit (bit_sum w n) k"
proof (induction n)
  case (Suc n)
  have "\<not> bit (word_of_nat (Suc n) :: u32) k"
  proof -
    have "Suc n < 2 ^ 7" using Suc.prems by simp
    also have "\<dots> \<le> 2 ^ k" using Suc.prems by (intro power_increasing) auto
    finally have "take_bit k (Suc n) = Suc n" by (simp add: take_bit_nat_eq_self)
    then show ?thesis by (metis bit_of_nat_iff bit_take_bit_iff less_irrefl)
  qed
  then show ?case using Suc by (simp add: bit_xor_iff del: of_nat_Suc)
qed simp

lemma CalcTagsECC_eq:
  "yaffs_CalcTagsECC t = t\<lparr>tg_ecc := ucast (bit_sum (tags_image (t\<lparr>tg_ecc := 0\<rparr>)) 64)\<rparr>"
  unfolding yaffs_CalcTagsECC_def Let_def CalcTagsECC_i_foldl by simp

lemma ucast_bit_sum: "(ucast (ucast (bit_sum w 64) :: 12 word) :: u32) = bit_sum w 64"
proof (rule bit_word_eqI)
  fix n
  show "bit (ucast (ucast (bit_sum w 64) :: 12 word) :: u32) n = bit (bit_sum w 64) n"
    using bit_sum_small [of 64 n w] by (cases "n < 7") (auto simp: bit_ucast_iff dest: bit_imp_le_length)
qed

lemma bit_flip: "bit (w XOR push_bit p 1 :: 64 word) n \<longleftrightarrow> bit w n \<noteq> (n = p \<and> n < 64)"
  by (auto simp: bit_xor_iff bit_exp_iff dest: bit_imp_le_length)

lemma bit_sum_flip:
  "p < 64 \<Longrightarrow> bit_sum (w XOR push_bit p 1) n = bit_sum w n XOR (if p < n then word_of_nat (Suc p) else 0)"
proof (induction n)
  case (Suc n)
  then show ?case
    by (auto simp: bit_flip less_Suc_eq ac_simps simp del: of_nat_Suc push_bit_of_1)
qed simp

subsection \<open>Checking the tags ECC\<close>

lemma CalcTagsECC_idem [simp]: "yaffs_CalcTagsECC (yaffs_CalcTagsECC t) = yaffs_CalcTagsECC t"
  by (simp add: CalcTagsECC_eq)

lemma bit_image_upd:
  "bit (tags_image (t\<lparr>tg_ecc := e\<rparr>)) n \<longleftrightarrow> (if 50 \<le> n \<and> n < 62 then bit e (n - 50) else bit (tags_image t) n)"
  by (auto simp: bit_tags_image)

lemma less_than_7_cases: "k < 7 \<Longrightarrow> k \<in> {0, 1, 2, 3, 4, 5, 6 :: nat}"
  by auto

lemma flip_keeps_ecc:
  assumes "p < 50 \<or> 62 \<le> p" "p < 64"
  shows "tg_ecc (image_tags (tags_image t XOR push_bit p 1)) = tg_ecc t"
    and "tags_image ((image_tags (tags_image t XOR push_bit p 1))\<lparr>tg_ecc := 0\<rparr>) =
      tags_image (t\<lparr>tg_ecc := 0\<rparr>) XOR push_bit p 1"
proof -
  show "tg_ecc (image_tags (tags_image t XOR push_bit p 1)) = tg_ecc t"
    by (rule bit_word_eqI) (use assms in \<open>auto simp: tg_ecc_image_tags bit_flip bit_tags_image simp del: push_bit_of_1\<close>)
  show "tags_image ((image_tags (tags_image t XOR push_bit p 1))\<lparr>tg_ecc := 0\<rparr>) =
      tags_image (t\<lparr>tg_ecc := 0\<rparr>) XOR push_bit p 1"
    by (rule bit_word_eqI) (use assms in \<open>auto simp: bit_flip bit_image_no_ecc simp del: push_bit_of_1\<close>)
qed

lemma flip_ecc_bit:
  assumes "k < 12"
  shows "(image_tags (tags_image t XOR push_bit (50 + k) 1))\<lparr>tg_ecc := 0\<rparr> = t\<lparr>tg_ecc := 0\<rparr>"
    and "tg_ecc (image_tags (tags_image t XOR push_bit (50 + k) 1)) = tg_ecc t XOR push_bit k 1"
proof -
  have "tags_image ((image_tags (tags_image t XOR push_bit (50 + k) 1))\<lparr>tg_ecc := 0\<rparr>) = tags_image (t\<lparr>tg_ecc := 0\<rparr>)"
    by (rule bit_word_eqI) (use assms in \<open>auto simp: bit_flip bit_image_no_ecc simp del: push_bit_of_1\<close>)
  then show "(image_tags (tags_image t XOR push_bit (50 + k) 1))\<lparr>tg_ecc := 0\<rparr> = t\<lparr>tg_ecc := 0\<rparr>"
    by (simp only: tags_image_inject)
  show "tg_ecc (image_tags (tags_image t XOR push_bit (50 + k) 1)) = tg_ecc t XOR push_bit k 1"
    by (rule bit_word_eqI)
      (use assms in \<open>auto simp: tg_ecc_image_tags bit_flip bit_tags_image bit_xor_iff bit_push_bit_iff bit_1_iff simp del: push_bit_of_1\<close>)
qed

lemma flip_flip: "image_tags (tags_image (image_tags (tags_image t XOR push_bit p 1)) XOR push_bit p 1) = t"
  by (simp add: xor.assoc del: push_bit_of_1)

lemma word_of_nat_pred: "word_of_nat (Suc p) - (1 :: u32) = word_of_nat p" by simp

lemma syndrome_bounds:
  assumes "p < 64"
  shows "word_of_nat (Suc p) \<noteq> (0 :: u32)" "word_of_nat (Suc p) \<le> (64 :: u32)"
    "unat (word_of_nat (Suc p) - 1 :: u32) = p"
proof -
  have u: "unat (word_of_nat (Suc p) :: u32) = Suc p" by (rule unat_word_of_nat) (use assms in simp)
  then show "word_of_nat (Suc p) \<noteq> (0 :: u32)" by (metis nat.simps(3) unsigned_0)
  show "word_of_nat (Suc p) \<le> (64 :: u32)" unfolding word_le_nat_alt u using assms by simp
  show "unat (word_of_nat (Suc p) - 1 :: u32) = p"
    unfolding word_of_nat_pred by (rule unat_word_of_nat) (use assms in simp)
qed

lemma CheckECC_syndrome:
  assumes "(ucast (tg_ecc t) :: u32) XOR ucast (tg_ecc (yaffs_CalcTagsECC t)) = word_of_nat (Suc p)" "p < 64"
  shows "yaffs_CheckECCOnTags t =
    (1, yaffs_CalcTagsECC (image_tags (tags_image (yaffs_CalcTagsECC t) XOR push_bit p 1)))"
  unfolding yaffs_CheckECCOnTags_def Let_def assms(1)
  using syndrome_bounds [OF assms(2)] by simp

lemma CheckECC_clean: "yaffs_CheckECCOnTags (yaffs_CalcTagsECC t) = (0, yaffs_CalcTagsECC t)"
  by (simp add: yaffs_CheckECCOnTags_def)

lemma CalcTagsECC_upd: "yaffs_CalcTagsECC (t\<lparr>tg_ecc := e\<rparr>) = yaffs_CalcTagsECC t"
  by (simp add: CalcTagsECC_eq)

lemma flip_upd:
  assumes "p < 50 \<or> 62 \<le> p" "p < 64"
  shows "image_tags (tags_image (t\<lparr>tg_ecc := e\<rparr>) XOR push_bit p 1) = (image_tags (tags_image t XOR push_bit p 1))\<lparr>tg_ecc := e\<rparr>"
proof -
  have "tags_image (t\<lparr>tg_ecc := e\<rparr>) XOR push_bit p 1 = tags_image ((image_tags (tags_image t XOR push_bit p 1))\<lparr>tg_ecc := e\<rparr>)"
    by (rule bit_word_eqI) (use assms in \<open>auto simp: bit_image_upd bit_flip simp del: push_bit_of_1\<close>)
  then show ?thesis by simp
qed

lemma CheckECC_flip_data:
  assumes "p < 50 \<or> 62 \<le> p" "p < 64"
  shows "yaffs_CheckECCOnTags (image_tags (tags_image (yaffs_CalcTagsECC t) XOR push_bit p 1)) = (1, yaffs_CalcTagsECC t)"
proof -
  let ?v = "yaffs_CalcTagsECC t"
  let ?f = "image_tags (tags_image ?v XOR push_bit p 1)"
  let ?w = "tags_image (?v\<lparr>tg_ecc := 0\<rparr>)"
  have calc: "yaffs_CalcTagsECC ?f = ?f\<lparr>tg_ecc := ucast (bit_sum (?w XOR push_bit p 1) 64)\<rparr>"
    unfolding CalcTagsECC_eq [of ?f] flip_keeps_ecc(2) [OF assms] ..
  have "tg_ecc ?f = ucast (bit_sum ?w 64)"
    unfolding flip_keeps_ecc(1) [OF assms] by (simp add: CalcTagsECC_eq)
  then have "(ucast (tg_ecc ?f) :: u32) XOR ucast (tg_ecc (yaffs_CalcTagsECC ?f)) =
      bit_sum ?w 64 XOR bit_sum (?w XOR push_bit p 1) 64"
    unfolding calc by (simp add: ucast_bit_sum del: push_bit_of_1)
  also have "\<dots> = word_of_nat (Suc p)"
    unfolding bit_sum_flip [OF assms(2)] using assms(2) by (simp add: xor.assoc [symmetric] del: of_nat_Suc)
  finally have "yaffs_CheckECCOnTags ?f = (1, yaffs_CalcTagsECC (image_tags (tags_image (yaffs_CalcTagsECC ?f) XOR push_bit p 1)))"
    using assms(2) by (rule CheckECC_syndrome)
  also have "image_tags (tags_image (yaffs_CalcTagsECC ?f) XOR push_bit p 1) = ?v\<lparr>tg_ecc := ucast (bit_sum (?w XOR push_bit p 1) 64)\<rparr>"
    unfolding calc flip_upd [OF assms] flip_flip ..
  finally show ?thesis by (simp add: CalcTagsECC_upd)
qed

lemma CheckECC_flip_ecc:
  assumes "k < 7"
  shows "yaffs_CheckECCOnTags (image_tags (tags_image (yaffs_CalcTagsECC t) XOR push_bit (50 + k) 1)) =
    (1, yaffs_CalcTagsECC (image_tags (tags_image (yaffs_CalcTagsECC t) XOR push_bit (2 ^ k - 1) 1)))"
proof -
  let ?v = "yaffs_CalcTagsECC t"
  let ?f = "image_tags (tags_image ?v XOR push_bit (50 + k) 1)"
  have calc: "yaffs_CalcTagsECC ?f = ?v"
    using flip_ecc_bit(1) [of k ?v] CalcTagsECC_upd [of 0 ?f] CalcTagsECC_upd [of 0 ?v] assms by simp
  have "(ucast (tg_ecc ?f) :: u32) XOR ucast (tg_ecc (yaffs_CalcTagsECC ?f)) = push_bit k 1"
  proof -
    have "tg_ecc ?f = tg_ecc ?v XOR push_bit k 1" using flip_ecc_bit(2) [of k ?v] assms by simp
    then show ?thesis unfolding calc
      by (intro bit_word_eqI) (use assms in \<open>auto simp: bit_xor_iff bit_ucast_iff bit_exp_iff dest: bit_imp_le_length\<close>)
  qed
  also have "\<dots> = word_of_nat (Suc (2 ^ k - 1))" by simp
  finally have syn: "(ucast (tg_ecc ?f) :: u32) XOR ucast (tg_ecc (yaffs_CalcTagsECC ?f)) = word_of_nat (Suc (2 ^ k - 1))" .
  have "(2 :: nat) ^ k \<le> 2 ^ 6" using assms by (intro power_increasing) auto
  then have "2 ^ k - 1 < (64 :: nat)" by simp
  from CheckECC_syndrome [OF syn this] show ?thesis unfolding calc .
qed

lemma flip_changes:
  assumes "p < 64" "p < 50 \<or> 62 \<le> p"
  shows "yaffs_CalcTagsECC (image_tags (tags_image v XOR push_bit p 1)) \<noteq> v"
proof -
  have "bit (tags_image (yaffs_CalcTagsECC (image_tags (tags_image v XOR push_bit p 1)))) p \<noteq> bit (tags_image v) p"
    unfolding CalcTagsECC_eq bit_image_upd using assms by (auto simp: bit_flip simp del: push_bit_of_1)
  then show ?thesis by metis
qed

subsection \<open>Tags through the spare area\<close>

lemma spare_union_Load: "spare_union (yaffs_LoadTagsIntoSpare spare t) = tags_image (yaffs_CalcTagsECC t)"
proof (rule bit_word_eqI)
  fix n assume "n < LENGTH(64)"
  then consider "n < 8" | "8 \<le> n" "n < 16" | "16 \<le> n" "n < 24" | "24 \<le> n" "n < 32" | "32 \<le> n" "n < 40"
    | "40 \<le> n" "n < 48" | "48 \<le> n" "n < 56" | "56 \<le> n" "n < 64" by force
  then show "bit (spare_union (yaffs_LoadTagsIntoSpare spare t)) n = bit (tags_image (yaffs_CalcTagsECC t)) n"
    by cases (auto simp: spare_union_def yaffs_LoadTagsIntoSpare_def asBytes_def Let_def
        bit_or_iff bit_push_bit_iff bit_ucast_iff bit_drop_bit_eq)
qed

text \<open>The top bits of the ECC are never set, so tags that were written never look like an erased page.\<close>

lemma Load_not_erased: "yaffs_LoadTagsIntoSpare spare t \<noteq> yaffs_SpareInitialise"
proof
  assume "yaffs_LoadTagsIntoSpare spare t = yaffs_SpareInitialise"
  then have "bit (tags_image (yaffs_CalcTagsECC t)) 61 = bit (spare_union yaffs_SpareInitialise) 61"
    using spare_union_Load by metis
  moreover have "bit (tags_image (yaffs_CalcTagsECC t)) 61 \<longleftrightarrow> bit (bit_sum (tags_image (t\<lparr>tg_ecc := 0\<rparr>)) 64) 11"
    by (simp add: bit_tags_image CalcTagsECC_eq bit_ucast_iff)
  moreover have "bit (spare_union yaffs_SpareInitialise) 61"
    by (simp add: spare_union_def yaffs_SpareInitialise_def)
  ultimately show False using bit_sum_small [of 64 11] by simp
qed

lemma GetTags_Load:
  assumes "spare_union s = tags_image (yaffs_CalcTagsECC t)"
  shows "yaffs_GetTagsFromSpare dev s = (yaffs_CalcTagsECC t, dev)"
  by (simp add: yaffs_GetTagsFromSpare_def assms CheckECC_clean)

lemma CalcTagsECC_fields [simp]:
  "tg_chunkId (yaffs_CalcTagsECC t) = tg_chunkId t" "tg_serialNumber (yaffs_CalcTagsECC t) = tg_serialNumber t"
  "tg_byteCount (yaffs_CalcTagsECC t) = tg_byteCount t" "tg_objectId (yaffs_CalcTagsECC t) = tg_objectId t"
  by (simp_all add: CalcTagsECC_eq)

lemma tagscompat_CountBits_FF: "tagscompat_CountBits 0xFF = 8"
  by (simp add: tagscompat_CountBits_def yaffs_countBitsTable_def)

text \<open>The tags of a YAFFS1 data chunk: every id fits its bit field.\<close>

definition fits_tags1 :: "yaffs_ExtendedTags \<Rightarrow> bool" where
  "fits_tags1 t \<longleftrightarrow> chunkId t < 2 ^ 20 \<and> serialNumber t < 4 \<and> byteCount t < 2 ^ 10 \<and> objectId t < 2 ^ 18"

definition tags1_read :: "yaffs_ECCResult \<Rightarrow> yaffs_ExtendedTags \<Rightarrow> yaffs_ExtendedTags \<Rightarrow> yaffs_ExtendedTags" where
  "tags1_read r t et = et\<lparr>chunkDeleted := 0, eccResult := r, blockBad := 0, chunkUsed := 1,
     objectId := objectId t, chunkId := chunkId t, byteCount := byteCount t, serialNumber := serialNumber t\<rparr>"

lemma fits_tags1_ucast:
  assumes "fits_tags1 t"
  shows "ucast (ucast (chunkId t) :: 20 word) = chunkId t" "ucast (ucast (serialNumber t) :: 2 word) = serialNumber t"
    "ucast (ucast (byteCount t) :: 10 word) = byteCount t" "ucast (ucast (objectId t) :: 18 word) = objectId t"
  using assms by (auto simp: fits_tags1_def intro!: ucast_ucast_fits)

text \<open>What the code reads back when the spare area is the one it wrote.\<close>

lemma read_back:
  assumes "yaffs_ReadChunkFromNAND wo dev c True True = Some (r, d, s, Some e, dev')" "r \<noteq> 0"
    and "s = (yaffs_LoadTagsIntoSpare spare tags)\<lparr>spare_ecc1 := e1, spare_ecc2 := e2\<rparr>" "pageStatus spare = 0xFF"
    and "fits_tags1 t" "tg_chunkId tags = ucast (chunkId t)" "tg_serialNumber tags = ucast (serialNumber t)"
      "tg_byteCount tags = ucast (byteCount t)" "tg_objectId tags = ucast (objectId t)"
  shows "yaffs_TagsCompatabilityReadChunkWithTagsFromNAND wo unset dev c True (Some et) =
    Some (YAFFS_OK, d, Some (tags1_read e t et), dev')"
proof -
  have s: "s = yaffs_LoadTagsIntoSpare (spare\<lparr>spare_ecc1 := e1, spare_ecc2 := e2\<rparr>) tags"
    by (simp add: assms(3) yaffs_LoadTagsIntoSpare_def Let_def)
  have "s \<noteq> yaffs_SpareInitialise" unfolding s by (rule Load_not_erased)
  moreover have "pageStatus s = 0xFF" using assms(4) by (simp add: s yaffs_LoadTagsIntoSpare_def Let_def)
  moreover have "yaffs_GetTagsFromSpare dev' s = (yaffs_CalcTagsECC tags, dev')"
    by (rule GetTags_Load) (simp add: s spare_union_Load)
  ultimately show ?thesis
    using assms(1,2,6-9) fits_tags1_ucast [OF assms(5)]
    by (simp add: yaffs_TagsCompatabilityReadChunkWithTagsFromNAND_def Let_def tagscompat_CountBits_FF tags1_read_def)
qed

lemma ECCCalculate_take: "take 256 d = take 256 d' \<Longrightarrow> length d = length d' \<Longrightarrow> yaffs_ECCCalculate wo d = yaffs_ECCCalculate wo d'"
  by (simp add: yaffs_ECCCalculate_def)

lemma flip_second_half:
  assumes "length d = 512" "2048 \<le> n" "n < 4096"
  shows "take 256 (flip_bit_at n d) = take 256 d" "drop 256 (flip_bit_at n d) = flip_bit_at (n - 2048) (drop 256 d)"
proof -
  obtain m where n: "n = 2048 + m" using assms(2) le_Suc_ex by blast
  have "(2048 + m) mod 8 = m mod 8" by presburger
  with n show "take 256 (flip_bit_at n d) = take 256 d" "drop 256 (flip_bit_at n d) = flip_bit_at (n - 2048) (drop 256 d)"
    using assms by (simp_all add: flip_bit_at_def div_add1_eq drop_update_swap)
qed

lemma flip_first_half: "n < 2048 \<Longrightarrow> drop 256 (flip_bit_at n d) = drop 256 d"
  by (simp add: flip_bit_at_def)

text \<open>Reading a page whose two halves carry the ECCs \<open>e1\<close> and \<open>e2\<close>.\<close>

lemma ReadChunk_clean:
  assumes "length d = 512" "yaffs_ECCCalculate wo d = Some e1" "yaffs_ECCCalculate wo (drop 256 d) = Some e2"
    and "\<not> useNANDECC dev" "readChunkFromNAND dev = Some f" "f (genericDevice dev) c True = (r, d, ns, n)"
    and "spare_ecc1 (nspare_spare ns) = e1" "spare_ecc2 (nspare_spare ns) = e2"
  shows "yaffs_ReadChunkFromNAND wo dev c True True =
    Some (r, d, nspare_spare ns, Some YAFFS_ECC_RESULT_NO_ERROR, dev\<lparr>nPageReads := nPageReads dev + 1, genericDevice := n\<rparr>)"
  using assms ecc256.clean
  by (simp add: yaffs_ReadChunkFromNAND_def Let_def combined_ecc_result_def count_ecc_def)

lemma ReadChunk_one_flip:
  assumes d: "length d = 512" "b < 4096" "yaffs_ECCCalculate wo d = Some e1" "yaffs_ECCCalculate wo (drop 256 d) = Some e2"
    and dev: "\<not> useNANDECC dev" "readChunkFromNAND dev = Some f" "f (genericDevice dev) c True = (r, flip_bit_at b d, ns, n)"
    and ns: "spare_ecc1 (nspare_spare ns) = e1" "spare_ecc2 (nspare_spare ns) = e2"
    and bi: "yaffs_GetBlockInfo dev (cdiv c (nChunksPerBlock dev)) = Some bi"
  shows "yaffs_ReadChunkFromNAND wo dev c True True =
    Some (r, d, nspare_spare ns, Some YAFFS_ECC_RESULT_FIXED,
      set_block_info (dev\<lparr>nPageReads := nPageReads dev + 1, genericDevice := n, eccFixed := eccFixed dev + 1\<rparr>)
        (cdiv c (nChunksPerBlock dev)) (bi\<lparr>needsRetiring := True\<rparr>))"
proof -
  let ?dev = "dev\<lparr>nPageReads := nPageReads dev + 1, genericDevice := n, eccFixed := eccFixed dev + 1\<rparr>"
  have bi': "yaffs_GetBlockInfo ?dev (cdiv c (nChunksPerBlock dev)) = Some bi"
    using bi by (simp add: yaffs_GetBlockInfo_def block_index_def)
  have err: "yaffs_HandleReadDataError ?dev c = Some (set_block_info ?dev (cdiv c (nChunksPerBlock dev)) (bi\<lparr>needsRetiring := True\<rparr>))"
    using bi' by (simp add: yaffs_HandleReadDataError_def Let_def)
  show ?thesis
  proof (cases "b < 2048")
    case True
    then obtain x where "yaffs_ECCCalculate wo (flip_bit_at b d) = Some x"
      "yaffs_ECCCorrect wo (flip_bit_at b d) e1 x = Some (1, d, e1)"
      using ecc256.read_single [OF _ d(3) True] d(1) by (auto simp: bind_eq_Some_conv)
    then show ?thesis
      using d dev ns err ecc256.clean
      by (simp add: yaffs_ReadChunkFromNAND_def Let_def combined_ecc_result_def count_ecc_def)
  next
    case False
    let ?h = "drop 256 d"
    have flip: "take 256 (flip_bit_at b d) = take 256 d" "drop 256 (flip_bit_at b d) = flip_bit_at (b - 2048) ?h"
      using flip_second_half d(1,2) False by auto
    then have "yaffs_ECCCalculate wo (flip_bit_at b d) = Some e1"
      using d(3) ECCCalculate_take [of "flip_bit_at b d" d] by simp
    moreover have "b - 2048 < 2048" using d(2) False by simp
    then obtain x where "yaffs_ECCCalculate wo (flip_bit_at (b - 2048) ?h) = Some x"
      "yaffs_ECCCorrect wo (flip_bit_at (b - 2048) ?h) e2 x = Some (1, ?h, e2)"
      using ecc256.read_single [OF _ d(4), of "b - 2048"] d(1) by (auto simp: bind_eq_Some_conv)
    ultimately show ?thesis
      using d dev ns err flip ecc256.clean
      by (simp add: yaffs_ReadChunkFromNAND_def Let_def combined_ecc_result_def count_ecc_def)
  qed
qed

lemma WriteChunk_tags1:
  assumes "chunkDeleted t = 0" "length d = 512" "\<not> useNANDECC dev" "startBlock dev * nChunksPerBlock dev \<le> c"
    and "writeChunkToNAND dev = Some w"
  obtains e1 e2 spare tags where
    "yaffs_ECCCalculate wo d = Some e1" "yaffs_ECCCalculate wo (drop 256 d) = Some e2"
    "spare = yaffs_SpareInitialise\<lparr>spare_ecc1 := e1, spare_ecc2 := e2\<rparr>"
    "tg_chunkId tags = ucast (chunkId t)" "tg_serialNumber tags = ucast (serialNumber t)"
    "tg_byteCount tags = ucast (byteCount t)" "tg_objectId tags = ucast (objectId t)"
    "yaffs_TagsCompatabilityWriteChunkWithTagsToNAND wo unused dev c (Some d) t =
       Some (fst (w (genericDevice dev) c (Some d) (yaffs_LoadTagsIntoSpare spare tags)),
         dev\<lparr>nPageWrites := nPageWrites dev + 1,
             genericDevice := snd (w (genericDevice dev) c (Some d) (yaffs_LoadTagsIntoSpare spare tags))\<rparr>)"
proof -
  obtain e1 e2 where e: "yaffs_ECCCalculate wo d = Some e1" "yaffs_ECCCalculate wo (drop 256 d) = Some e2"
    using ecc256.calc_total [of d wo] ecc256.calc_total [of "drop 256 d" wo] assms(2) by auto
  let ?tags = "\<lparr>tg_chunkId = ucast (chunkId t), tg_serialNumber = ucast (serialNumber t),
     tg_byteCount = ucast (byteCount t), tg_objectId = ucast (objectId t), tg_ecc = 0, tg_unusedStuff = unused\<rparr>"
  show thesis
    by (rule that [OF e refl, of ?tags])
      (use assms e in \<open>simp_all add: yaffs_TagsCompatabilityWriteChunkWithTagsToNAND_def Let_def yaffs_CalcECC_def
          yaffs_WriteChunkToNAND_def split_beta\<close>)
qed

subsection \<open>Properties\<close>

text \<open>A driver that keeps one page in memory, and reads it back with the bits \<open>flips\<close> inverted.\<close>

definition page_write :: "u8 list \<times> yaffs_Spare \<Rightarrow> int \<Rightarrow> u8 list option \<Rightarrow> yaffs_Spare \<Rightarrow> int \<times> (u8 list \<times> yaffs_Spare)" where
  "page_write n c d s = (YAFFS_OK, (case d of Some x \<Rightarrow> x | None \<Rightarrow> fst n), s)"

definition page_read :: "nat list \<Rightarrow> u8 list \<times> yaffs_Spare \<Rightarrow> int \<Rightarrow> bool \<Rightarrow> int \<times> u8 list \<times> yaffs_NANDSpare \<times> (u8 list \<times> yaffs_Spare)" where
  "page_read flips n c want = (YAFFS_OK, fold flip_bit_at flips (fst n), \<lparr>nspare_spare = snd n, eccres1 = 0, eccres2 = 0\<rparr>, n)"

definition page_device :: "nat list \<Rightarrow> (u8 list \<times> yaffs_Spare) yaffs_Device \<Rightarrow> (u8 list \<times> yaffs_Spare) yaffs_Device" where
  "page_device flips dev = dev\<lparr>useNANDECC := False, startBlock := 1, nChunksPerBlock := 32,
     writeChunkToNAND := Some page_write, readChunkFromNAND := Some (page_read flips), internalStartBlock := 1,
     internalEndBlock := 2, blockInfo := replicate 2 \<lparr>softDeletions = 0, pagesInUse = 0, blockState = YAFFS_BLOCK_STATE_FULL,
       needsRetiring = False, skipErasedCheck = False, gcPrioritise = False, chunkErrorStrikes = 0,
       hasShrinkHeader = False, bi_sequenceNumber = 0\<rparr>\<rparr>"

definition sample_tags :: yaffs_Tags where
  "sample_tags = \<lparr>tg_chunkId = 5, tg_serialNumber = 1, tg_byteCount = 100, tg_objectId = 300, tg_ecc = 0, tg_unusedStuff = 0\<rparr>"

lemma sample_fits: "fits_tags1 sample_data" "chunkDeleted sample_data = 0"
  by (simp_all add: fits_tags1_def sample_data_def zero_tags_def)

text \<open>
  The tags ECC repairs any single flipped bit of the tags themselves (every bit of the eight bytes
  outside the ECC field): the check returns 1 and the tags are exactly those that were protected.
\<close>

theorem CheckECCOnTags_repairs_tags:
  assumes "p < 64" "p < 50 \<or> 62 \<le> p"
  shows "yaffs_CheckECCOnTags (image_tags (tags_image (yaffs_CalcTagsECC t) XOR push_bit p 1)) = (1, yaffs_CalcTagsECC t)"
  using assms(2,1) by (rule CheckECC_flip_data)

theorem CheckECCOnTags_repairs_tags_witness:
  "yaffs_CheckECCOnTags (image_tags (tags_image (yaffs_CalcTagsECC sample_tags) XOR push_bit 35 1)) =
    (1, yaffs_CalcTagsECC sample_tags)"
  by (rule CheckECCOnTags_repairs_tags) simp_all

text \<open>
  C30. A single flipped bit in the stored ECC field is not recognised as such: for each of the seven
  low bits \<open>k\<close> of the field the check reports a recovered error and inverts bit \<open>2 ^ k - 1\<close> of the intact
  tags, so correct tags come out changed.
\<close>

theorem CheckECCOnTags_damages_tags:
  assumes "k < 7"
  shows "yaffs_CheckECCOnTags (image_tags (tags_image (yaffs_CalcTagsECC t) XOR push_bit (50 + k) 1)) =
      (1, yaffs_CalcTagsECC (image_tags (tags_image (yaffs_CalcTagsECC t) XOR push_bit (2 ^ k - 1) 1))) \<and>
    yaffs_CalcTagsECC (image_tags (tags_image (yaffs_CalcTagsECC t) XOR push_bit (2 ^ k - 1) 1)) \<noteq> yaffs_CalcTagsECC t"
proof (rule conjI [OF CheckECC_flip_ecc [OF assms] flip_changes])
  show "2 ^ k - 1 < (64 :: nat)" "2 ^ k - 1 < (50 :: nat) \<or> 62 \<le> (2 ^ k - 1 :: nat)"
    using less_than_7_cases [OF assms] by auto
qed

theorem CheckECCOnTags_damages_tags_witness:
  "\<exists>t. yaffs_CheckECCOnTags (image_tags (tags_image (yaffs_CalcTagsECC sample_tags) XOR push_bit (50 + 2) 1)) = (1, t) \<and>
     t \<noteq> yaffs_CalcTagsECC sample_tags"
  using CheckECCOnTags_damages_tags [of 2 sample_tags] by auto

text \<open>
  C19. A page written through the YAFFS1 layer and read back unchanged gives the same data and the same
  ids, with \<open>eccResult\<close> NO_ERROR, for any driver that returns the page it was given.
\<close>

theorem tagscompat_write_read:
  assumes "fits_tags1 t" "chunkDeleted t = 0" "length d = 512" "\<not> useNANDECC dev"
    and "startBlock dev * nChunksPerBlock dev \<le> c" "writeChunkToNAND dev = Some w" "readChunkFromNAND dev = Some f"
    and driver: "\<forall>s. \<exists>n. w (genericDevice dev) c (Some d) s = (YAFFS_OK, n) \<and>
      (\<exists>x y n'. f n c True = (YAFFS_OK, d, \<lparr>nspare_spare = s, eccres1 = x, eccres2 = y\<rparr>, n'))"
  shows "\<exists>dev1 dev2. yaffs_TagsCompatabilityWriteChunkWithTagsToNAND wo unused dev c (Some d) t = Some (YAFFS_OK, dev1) \<and>
    yaffs_TagsCompatabilityReadChunkWithTagsFromNAND wo unset dev1 c True (Some et) =
      Some (YAFFS_OK, d, Some (tags1_read YAFFS_ECC_RESULT_NO_ERROR t et), dev2)"
  using assms(2-6)
proof (cases rule: WriteChunk_tags1 [of t d dev c w wo unused])
  case (1 e1 e2 spare tags)
  let ?s = "yaffs_LoadTagsIntoSpare spare tags"
  obtain n x y n' where n: "w (genericDevice dev) c (Some d) ?s = (YAFFS_OK, n)"
    "f n c True = (YAFFS_OK, d, \<lparr>nspare_spare = ?s, eccres1 = x, eccres2 = y\<rparr>, n')"
    using driver by blast
  let ?dev1 = "dev\<lparr>nPageWrites := nPageWrites dev + 1, genericDevice := n\<rparr>"
  have s: "?s = ?s\<lparr>spare_ecc1 := e1, spare_ecc2 := e2\<rparr>" "spare_ecc1 ?s = e1" "spare_ecc2 ?s = e2" "pageStatus spare = 0xFF"
    using 1(3) by (simp_all add: yaffs_LoadTagsIntoSpare_def yaffs_SpareInitialise_def Let_def)
  have "yaffs_ReadChunkFromNAND wo ?dev1 c True True = Some (YAFFS_OK, d, ?s, Some YAFFS_ECC_RESULT_NO_ERROR,
      ?dev1\<lparr>nPageReads := nPageReads ?dev1 + 1, genericDevice := n'\<rparr>)"
    using ReadChunk_clean [OF assms(3) 1(1,2), of ?dev1 f c] assms(4,7) n s by simp
  from read_back [OF this _ s(1,4) assms(1) 1(4-7)] 1(8) n show ?thesis by (auto simp del: split_paired_Ex)
qed

theorem tagscompat_write_read_witness:
  "\<forall>dev. \<exists>dev1 dev2. yaffs_TagsCompatabilityWriteChunkWithTagsToNAND False 0 (page_device [] dev) 40
       (Some (replicate 512 7)) sample_data = Some (YAFFS_OK, dev1) \<and>
     yaffs_TagsCompatabilityReadChunkWithTagsFromNAND False YAFFS_ECC_RESULT_UNKNOWN dev1 40 True (Some zero_tags) =
       Some (YAFFS_OK, replicate 512 7, Some (tags1_read YAFFS_ECC_RESULT_NO_ERROR sample_data zero_tags), dev2)"
proof (intro allI, rule tagscompat_write_read [OF sample_fits])
  fix dev
  show "writeChunkToNAND (page_device [] dev) = Some page_write" "readChunkFromNAND (page_device [] dev) = Some (page_read [])"
    "\<not> useNANDECC (page_device [] dev)" "startBlock (page_device [] dev) * nChunksPerBlock (page_device [] dev) \<le> 40"
    by (simp_all add: page_device_def)
qed (simp_all add: page_write_def page_read_def)

text \<open>
  The same with any one bit of the 512 data bytes flipped on the medium: the data and the tags come
  back as they were written, \<open>eccResult\<close> is FIXED, the correction is counted and the block is marked for
  retirement.
\<close>

theorem tagscompat_write_read_one_flip:
  assumes "fits_tags1 t" "chunkDeleted t = 0" "length d = 512" "b < 4096" "\<not> useNANDECC dev"
    and "startBlock dev * nChunksPerBlock dev \<le> c" "writeChunkToNAND dev = Some w" "readChunkFromNAND dev = Some f"
    and "yaffs_GetBlockInfo dev (cdiv c (nChunksPerBlock dev)) = Some bi"
    and driver: "\<forall>s. \<exists>n. w (genericDevice dev) c (Some d) s = (YAFFS_OK, n) \<and>
      (\<exists>x y n'. f n c True = (YAFFS_OK, flip_bit_at b d, \<lparr>nspare_spare = s, eccres1 = x, eccres2 = y\<rparr>, n'))"
  shows "\<exists>dev1 dev2. yaffs_TagsCompatabilityWriteChunkWithTagsToNAND wo unused dev c (Some d) t = Some (YAFFS_OK, dev1) \<and>
    yaffs_TagsCompatabilityReadChunkWithTagsFromNAND wo unset dev1 c True (Some et) =
      Some (YAFFS_OK, d, Some (tags1_read YAFFS_ECC_RESULT_FIXED t et), dev2) \<and>
    eccFixed dev2 = eccFixed dev + 1 \<and>
    yaffs_GetBlockInfo dev2 (cdiv c (nChunksPerBlock dev)) = Some (bi\<lparr>needsRetiring := True\<rparr>)"
  using assms(2,3,5,6,7)
proof (cases rule: WriteChunk_tags1 [of t d dev c w wo unused])
  case (1 e1 e2 spare tags)
  let ?s = "yaffs_LoadTagsIntoSpare spare tags" and ?blk = "cdiv c (nChunksPerBlock dev)"
  obtain n x y n' where n: "w (genericDevice dev) c (Some d) ?s = (YAFFS_OK, n)"
    "f n c True = (YAFFS_OK, flip_bit_at b d, \<lparr>nspare_spare = ?s, eccres1 = x, eccres2 = y\<rparr>, n')"
    using driver by blast
  let ?dev1 = "dev\<lparr>nPageWrites := nPageWrites dev + 1, genericDevice := n\<rparr>"
  let ?dev2 = "?dev1\<lparr>nPageReads := nPageReads ?dev1 + 1, genericDevice := n', eccFixed := eccFixed ?dev1 + 1\<rparr>"
  have s: "?s = ?s\<lparr>spare_ecc1 := e1, spare_ecc2 := e2\<rparr>" "spare_ecc1 ?s = e1" "spare_ecc2 ?s = e2" "pageStatus spare = 0xFF"
    using 1(3) by (simp_all add: yaffs_LoadTagsIntoSpare_def yaffs_SpareInitialise_def Let_def)
  have bi: "yaffs_GetBlockInfo ?dev1 ?blk = Some bi" "yaffs_GetBlockInfo ?dev2 ?blk = Some bi"
    using assms(9) by (simp_all add: yaffs_GetBlockInfo_def block_index_def)
  have "yaffs_ReadChunkFromNAND wo ?dev1 c True True = Some (YAFFS_OK, d, ?s, Some YAFFS_ECC_RESULT_FIXED,
      set_block_info ?dev2 ?blk (bi\<lparr>needsRetiring := True\<rparr>))"
    using ReadChunk_one_flip [OF assms(3,4) 1(1,2), of ?dev1 f c] assms(5,8) n s bi(1) by simp
  from read_back [OF this _ s(1,4) assms(1) 1(4-7)]
  have rd: "yaffs_TagsCompatabilityReadChunkWithTagsFromNAND wo unset ?dev1 c True (Some et) =
      Some (YAFFS_OK, d, Some (tags1_read YAFFS_ECC_RESULT_FIXED t et), set_block_info ?dev2 ?blk (bi\<lparr>needsRetiring := True\<rparr>))"
    by simp
  have "eccFixed (set_block_info ?dev2 ?blk (bi\<lparr>needsRetiring := True\<rparr>)) = eccFixed dev + 1"
    by (simp add: set_block_info_def split: option.splits)
  moreover have "yaffs_GetBlockInfo (set_block_info ?dev2 ?blk (bi\<lparr>needsRetiring := True\<rparr>)) ?blk = Some (bi\<lparr>needsRetiring := True\<rparr>)"
    using bi(2) by (simp add: get_set_block_info)
  ultimately show ?thesis using rd 1(8) n by (auto simp del: split_paired_Ex)
qed

theorem tagscompat_write_read_one_flip_witness:
  "\<forall>dev. \<exists>dev1 dev2. yaffs_TagsCompatabilityWriteChunkWithTagsToNAND False 0 (page_device [3000] dev) 40
       (Some (replicate 512 7)) sample_data = Some (YAFFS_OK, dev1) \<and>
     yaffs_TagsCompatabilityReadChunkWithTagsFromNAND False YAFFS_ECC_RESULT_UNKNOWN dev1 40 True (Some zero_tags) =
       Some (YAFFS_OK, replicate 512 7, Some (tags1_read YAFFS_ECC_RESULT_FIXED sample_data zero_tags), dev2)"
proof
  fix dev
  let ?dev = "page_device [3000] dev"
  obtain bi where bi: "yaffs_GetBlockInfo ?dev (cdiv 40 (nChunksPerBlock ?dev)) = Some bi"
    by (auto simp: page_device_def yaffs_GetBlockInfo_def block_index_def)
  show "\<exists>dev1 dev2. yaffs_TagsCompatabilityWriteChunkWithTagsToNAND False 0 ?dev 40
       (Some (replicate 512 7)) sample_data = Some (YAFFS_OK, dev1) \<and>
     yaffs_TagsCompatabilityReadChunkWithTagsFromNAND False YAFFS_ECC_RESULT_UNKNOWN dev1 40 True (Some zero_tags) =
       Some (YAFFS_OK, replicate 512 7, Some (tags1_read YAFFS_ECC_RESULT_FIXED sample_data zero_tags), dev2)"
    using tagscompat_write_read_one_flip [OF sample_fits, of "replicate 512 7" 3000 ?dev 40 page_write "page_read [3000]" bi False 0
        YAFFS_ECC_RESULT_UNKNOWN zero_tags] bi
    by (auto simp: page_device_def page_write_def page_read_def simp del: split_paired_Ex)
qed

end
