(* ===== verification/ChunkBits.thy ===== *)
theory ChunkBits
  imports Geometry
begin

section \<open>The bitmap of chunks in use\<close>

text \<open>
  The chunk bitmap of \<^verbatim>\<open>yaffs_guts.c\<close>: one row of \<open>chunkBitmapStride\<close> bytes per block in the
  byte array \<open>chunkBits\<close>.  \<open>yaffs_BlockBits\<close> gives the index of a block's first byte.  An access outside
  the array is \<open>None\<close>; the range checks of the code only print a trace.  The bitmap is shown to behave
  as a finite set of (block, chunk) pairs, stated once as the locale \<open>chunk_set\<close>.
\<close>

definition yaffs_BlockBits :: "'n yaffs_Device \<Rightarrow> int \<Rightarrow> int" where
  "yaffs_BlockBits dev blk = chunkBitmapStride dev * (blk - internalStartBlock dev)"

definition bits_index :: "'n yaffs_Device \<Rightarrow> int \<Rightarrow> nat option" where
  "bits_index dev i = (if 0 \<le> i \<and> i < int (length (chunkBits dev)) then Some (nat i) else None)"

text \<open>\<^verbatim>\<open>memset(blkBits, 0, dev->chunkBitmapStride)\<close>.\<close>

definition yaffs_ClearChunkBits :: "'n yaffs_Device \<Rightarrow> int \<Rightarrow> 'n yaffs_Device option" where
  "yaffs_ClearChunkBits dev blk =
     (let i = yaffs_BlockBits dev blk; stride = chunkBitmapStride dev
      in if 0 \<le> i \<and> 0 \<le> stride \<and> i + stride \<le> int (length (chunkBits dev))
         then Some (dev\<lparr>chunkBits := take (nat i) (chunkBits dev) @ replicate (nat stride) 0 @
                                     drop (nat (i + stride)) (chunkBits dev)\<rparr>)
         else None)"

definition yaffs_ClearChunkBit :: "'n yaffs_Device \<Rightarrow> int \<Rightarrow> int \<Rightarrow> 'n yaffs_Device option" where
  "yaffs_ClearChunkBit dev blk chunk =
     do { i \<leftarrow> bits_index dev (yaffs_BlockBits dev blk + cdiv chunk 8);
          Some (dev\<lparr>chunkBits := (chunkBits dev)[i := chunkBits dev ! i AND NOT (push_bit (nat (chunk AND 7)) 1)]\<rparr>) }"

definition yaffs_SetChunkBit :: "'n yaffs_Device \<Rightarrow> int \<Rightarrow> int \<Rightarrow> 'n yaffs_Device option" where
  "yaffs_SetChunkBit dev blk chunk =
     do { i \<leftarrow> bits_index dev (yaffs_BlockBits dev blk + cdiv chunk 8);
          Some (dev\<lparr>chunkBits := (chunkBits dev)[i := chunkBits dev ! i OR push_bit (nat (chunk AND 7)) 1]\<rparr>) }"

definition yaffs_CheckChunkBit :: "'n yaffs_Device \<Rightarrow> int \<Rightarrow> int \<Rightarrow> int option" where
  "yaffs_CheckChunkBit dev blk chunk =
     do { i \<leftarrow> bits_index dev (yaffs_BlockBits dev blk + cdiv chunk 8);
          Some (if chunkBits dev ! i AND push_bit (nat (chunk AND 7)) 1 \<noteq> 0 then 1 else 0) }"

definition block_row :: "'n yaffs_Device \<Rightarrow> int \<Rightarrow> u8 list option" where
  "block_row dev blk =
     (let i = yaffs_BlockBits dev blk; stride = chunkBitmapStride dev
      in if 0 \<le> i \<and> 0 \<le> stride \<and> i + stride \<le> int (length (chunkBits dev))
         then Some (take (nat stride) (drop (nat i) (chunkBits dev))) else None)"

fun StillSome_loop :: "u8 list \<Rightarrow> int" where
  "StillSome_loop [] = 0"
| "StillSome_loop (b # bs) = (if b \<noteq> 0 then 1 else StillSome_loop bs)"

definition yaffs_StillSomeChunkBits :: "'n yaffs_Device \<Rightarrow> int \<Rightarrow> int option" where
  "yaffs_StillSomeChunkBits dev blk = map_option StillSome_loop (block_row dev blk)"

text \<open>The inner \<^verbatim>\<open>while(x)\<close> loop is the bit-counting loop of \<^verbatim>\<open>yaffs_ecc.c\<close>.\<close>

fun CountChunkBits_loop :: "u8 list \<Rightarrow> int \<Rightarrow> int" where
  "CountChunkBits_loop [] n = n"
| "CountChunkBits_loop (x # bs) n = CountChunkBits_loop bs (yaffs_CountBits_loop x n)"

definition yaffs_CountChunkBits :: "'n yaffs_Device \<Rightarrow> int \<Rightarrow> int option" where
  "yaffs_CountChunkBits dev blk = map_option (\<lambda>row. CountChunkBits_loop row 0) (block_row dev blk)"

subsection \<open>Well-formed bitmaps\<close>

definition nblocks :: "'n yaffs_Device \<Rightarrow> int" where
  "nblocks dev = internalEndBlock dev - internalStartBlock dev + 1"

definition wf_bitmap :: "'n yaffs_Device \<Rightarrow> bool" where
  "wf_bitmap dev \<longleftrightarrow> 0 < nChunksPerBlock dev \<and> chunkBitmapStride dev = (nChunksPerBlock dev + 7) div 8 \<and>
     0 < nblocks dev \<and> int (length (chunkBits dev)) = chunkBitmapStride dev * nblocks dev"

definition valid_block :: "'n yaffs_Device \<Rightarrow> int \<Rightarrow> bool" where
  "valid_block dev blk \<longleftrightarrow> internalStartBlock dev \<le> blk \<and> blk \<le> internalEndBlock dev"

definition valid_chunk :: "'n yaffs_Device \<Rightarrow> int \<times> int \<Rightarrow> bool" where
  "valid_chunk dev k \<longleftrightarrow> valid_block dev (fst k) \<and> 0 \<le> snd k \<and> snd k < nChunksPerBlock dev"

text \<open>The bit number of a chunk in the whole bitmap.\<close>

definition bit_no :: "'n yaffs_Device \<Rightarrow> int \<times> int \<Rightarrow> nat" where
  "bit_no dev k = nat (8 * yaffs_BlockBits dev (fst k) + snd k)"

definition bitmap :: "u8 list \<Rightarrow> nat \<Rightarrow> bool" where
  "bitmap bs n \<longleftrightarrow> n div 8 < length bs \<and> bit (bs ! (n div 8)) (n mod 8)"

lemma row_in_range:
  assumes "wf_bitmap dev" "valid_block dev blk" "0 \<le> j" "j < chunkBitmapStride dev"
  shows "0 \<le> yaffs_BlockBits dev blk + j" "yaffs_BlockBits dev blk + j < int (length (chunkBits dev))"
proof -
  let ?b = "blk - internalStartBlock dev" and ?s = "chunkBitmapStride dev"
  have "0 \<le> ?b" "?b + 1 \<le> nblocks dev" using assms(2) by (auto simp: valid_block_def nblocks_def)
  then have "0 \<le> ?s * ?b" "?s * (?b + 1) \<le> ?s * nblocks dev"
    using assms(3,4) by (auto intro!: mult_left_mono)
  then show "0 \<le> yaffs_BlockBits dev blk + j" "yaffs_BlockBits dev blk + j < int (length (chunkBits dev))"
    using assms(1,3,4) by (auto simp: yaffs_BlockBits_def wf_bitmap_def distrib_left)
qed

lemma chunk_byte:
  assumes "wf_bitmap dev" "valid_chunk dev (blk, chunk)"
  shows "bits_index dev (yaffs_BlockBits dev blk + cdiv chunk 8) = Some (bit_no dev (blk, chunk) div 8)"
    and "nat (chunk AND 7) = bit_no dev (blk, chunk) mod 8"
    and "bit_no dev (blk, chunk) div 8 < length (chunkBits dev)"
proof -
  let ?B = "yaffs_BlockBits dev blk"
  have c: "0 \<le> chunk" "chunk < nChunksPerBlock dev" "valid_block dev blk"
    using assms(2) by (auto simp: valid_chunk_def)
  then have j: "0 \<le> chunk div 8" "chunk div 8 < chunkBitmapStride dev"
    using assms(1) by (auto simp: wf_bitmap_def)
  note r = row_in_range [OF assms(1) c(3) j]
  have B: "0 \<le> ?B" using row_in_range(1) [OF assms(1) c(3), of 0] j by simp
  have d: "(8 * ?B + chunk) div 8 = ?B + chunk div 8" "(8 * ?B + chunk) mod 8 = chunk mod 8" by simp_all
  have byte: "bit_no dev (blk, chunk) div 8 = nat (?B + chunk div 8)"
    using d(1) B c(1) by (simp add: bit_no_def nat_div_distrib [symmetric])
  show "bits_index dev (?B + cdiv chunk 8) = Some (bit_no dev (blk, chunk) div 8)"
    using r c(1) byte by (simp add: bits_index_def)
  show "bit_no dev (blk, chunk) div 8 < length (chunkBits dev)" using r byte by simp
  have "chunk AND 7 = chunk mod 8"
    using take_bit_eq_mask [of 3 chunk] by (simp add: take_bit_eq_mod mask_eq_exp_minus_1)
  then show "nat (chunk AND 7) = bit_no dev (blk, chunk) mod 8"
    using nat_mod_distrib [of "8 * ?B + chunk" 8] d(2) B c(1) by (simp add: bit_no_def)
qed

lemma bit_no_inj:
  assumes "wf_bitmap dev" "valid_chunk dev k" "valid_chunk dev l" "bit_no dev k = bit_no dev l"
  shows "k = l"
proof -
  let ?s = "8 * chunkBitmapStride dev"
  have s: "nChunksPerBlock dev \<le> ?s" using assms(1) by (auto simp: wf_bitmap_def)
  let ?b = "\<lambda>k. fst k - internalStartBlock dev"
  have nn: "0 \<le> ?b k" "0 \<le> ?b l" "0 \<le> snd k" "0 \<le> snd l" "snd k < ?s" "snd l < ?s"
    using assms(2,3) s by (auto simp: valid_chunk_def valid_block_def)
  then have "0 \<le> ?s * ?b k" "0 \<le> ?s * ?b l" by (auto intro!: mult_nonneg_nonneg)
  with nn have pos: "0 \<le> ?s * ?b k + snd k" "0 \<le> ?s * ?b l + snd l" by linarith+
  have "nat (?s * ?b k + snd k) = nat (?s * ?b l + snd l)"
    using assms(4) by (simp only: bit_no_def yaffs_BlockBits_def mult.assoc)
  with pos have eq: "?s * ?b k + snd k = ?s * ?b l + snd l" by (simp only: eq_nat_nat_iff)
  have "?b k = (?s * ?b k + snd k) div ?s" using nn by simp
  moreover have "?b l = (?s * ?b l + snd l) div ?s" using nn by simp
  ultimately have "fst k = fst l" using eq by simp
  with eq show ?thesis by (simp add: prod_eq_iff)
qed

lemma bitmap_update:
  assumes "n div 8 < length bs"
  shows "bitmap (bs[n div 8 := bs ! (n div 8) OR push_bit (n mod 8) 1]) m \<longleftrightarrow> m = n \<or> bitmap bs m"
    and "bitmap (bs[n div 8 := bs ! (n div 8) AND NOT (push_bit (n mod 8) 1)]) m \<longleftrightarrow> m \<noteq> n \<and> bitmap bs m"
proof -
  have same: "m div 8 = n div 8 \<Longrightarrow> m mod 8 = n mod 8 \<longleftrightarrow> m = n" by (metis div_mult_mod_eq)
  have less: "m mod 8 < 8" "n mod 8 < 8" by simp_all
  show "bitmap (bs[n div 8 := bs ! (n div 8) OR push_bit (n mod 8) 1]) m \<longleftrightarrow> m = n \<or> bitmap bs m"
    using assms same less by (auto simp: bitmap_def nth_list_update bit_or_iff bit_exp_iff)
  show "bitmap (bs[n div 8 := bs ! (n div 8) AND NOT (push_bit (n mod 8) 1)]) m \<longleftrightarrow> m \<noteq> n \<and> bitmap bs m"
    using assms same less by (auto simp: bitmap_def nth_list_update bit_and_iff bit_not_iff bit_exp_iff)
qed

subsection \<open>The operations on a well-formed bitmap\<close>

lemma CheckChunkBit_eq:
  assumes "wf_bitmap dev" "valid_chunk dev (blk, chunk)"
  shows "yaffs_CheckChunkBit dev blk chunk = Some (of_bool (bitmap (chunkBits dev) (bit_no dev (blk, chunk))))"
  using chunk_byte [OF assms] and_power2_eq_0 [of "chunkBits dev ! (bit_no dev (blk, chunk) div 8)" "bit_no dev (blk, chunk) mod 8"]
  by (simp add: yaffs_CheckChunkBit_def bitmap_def)

lemma SetChunkBit_eq:
  assumes "wf_bitmap dev" "valid_chunk dev (blk, chunk)"
  obtains bs where "yaffs_SetChunkBit dev blk chunk = Some (dev\<lparr>chunkBits := bs\<rparr>)" "length bs = length (chunkBits dev)"
    "\<And>m. bitmap bs m \<longleftrightarrow> m = bit_no dev (blk, chunk) \<or> bitmap (chunkBits dev) m"
  using chunk_byte [OF assms] bitmap_update(1) [of "bit_no dev (blk, chunk)" "chunkBits dev"]
  by (intro that [of "(chunkBits dev)[bit_no dev (blk, chunk) div 8 := _]"]) (simp_all add: yaffs_SetChunkBit_def)

lemma ClearChunkBit_eq:
  assumes "wf_bitmap dev" "valid_chunk dev (blk, chunk)"
  obtains bs where "yaffs_ClearChunkBit dev blk chunk = Some (dev\<lparr>chunkBits := bs\<rparr>)" "length bs = length (chunkBits dev)"
    "\<And>m. bitmap bs m \<longleftrightarrow> m \<noteq> bit_no dev (blk, chunk) \<and> bitmap (chunkBits dev) m"
  using chunk_byte [OF assms] bitmap_update(2) [of "bit_no dev (blk, chunk)" "chunkBits dev"]
  by (intro that [of "(chunkBits dev)[bit_no dev (blk, chunk) div 8 := _]"]) (simp_all add: yaffs_ClearChunkBit_def)

text \<open>Replacing the bytes keeps the layout.\<close>

lemma layout_upd [simp]:
  "length bs = length (chunkBits dev) \<Longrightarrow> wf_bitmap (dev\<lparr>chunkBits := bs\<rparr>) = wf_bitmap dev"
  "valid_chunk (dev\<lparr>chunkBits := bs\<rparr>) k = valid_chunk dev k"
  "valid_block (dev\<lparr>chunkBits := bs\<rparr>) b = valid_block dev b"
  "bit_no (dev\<lparr>chunkBits := bs\<rparr>) k = bit_no dev k"
  by (simp_all add: wf_bitmap_def nblocks_def valid_chunk_def valid_block_def bit_no_def yaffs_BlockBits_def)

subsection \<open>The bitmap as a set\<close>

text \<open>
  The contract the allocator relies on: marking and unmarking a chunk always succeeds on a valid chunk
  and changes the answer for that chunk only.
\<close>

locale chunk_set =
  fixes wf :: "'s \<Rightarrow> bool"
    and valid :: "'s \<Rightarrow> 'k \<Rightarrow> bool"
    and mark :: "'s \<Rightarrow> 'k \<Rightarrow> 's option"
    and unmark :: "'s \<Rightarrow> 'k \<Rightarrow> 's option"
    and test :: "'s \<Rightarrow> 'k \<Rightarrow> int option"
  assumes test_total: "wf s \<Longrightarrow> valid s k \<Longrightarrow> test s k = Some 0 \<or> test s k = Some 1"
    and mark_law: "wf s \<Longrightarrow> valid s k \<Longrightarrow> \<exists>s'. mark s k = Some s' \<and> wf s' \<and> valid s' = valid s \<and>
      (\<forall>l. valid s l \<longrightarrow> test s' l = (if l = k then Some 1 else test s l))"
    and unmark_law: "wf s \<Longrightarrow> valid s k \<Longrightarrow> \<exists>s'. unmark s k = Some s' \<and> wf s' \<and> valid s' = valid s \<and>
      (\<forall>l. valid s l \<longrightarrow> test s' l = (if l = k then Some 0 else test s l))"
begin

definition used :: "'s \<Rightarrow> 'k set" where
  "used s = {k. valid s k \<and> test s k = Some 1}"

lemma mark_used: "wf s \<Longrightarrow> valid s k \<Longrightarrow> \<exists>s'. mark s k = Some s' \<and> wf s' \<and> valid s' = valid s \<and> used s' = insert k (used s)"
  using mark_law [of s k] by (fastforce simp: used_def)

lemma unmark_used: "wf s \<Longrightarrow> valid s k \<Longrightarrow> \<exists>s'. unmark s k = Some s' \<and> wf s' \<and> valid s' = valid s \<and> used s' = used s - {k}"
proof -
  assume "wf s" "valid s k"
  then obtain s' where s': "unmark s k = Some s'" "wf s'" "valid s' = valid s"
    "\<forall>l. valid s l \<longrightarrow> test s' l = (if l = k then Some 0 else test s l)"
    using unmark_law by blast
  then have "used s' = used s - {k}" by (auto simp: used_def split: if_splits)
  with s' show ?thesis by blast
qed

lemma mark_unmark:
  assumes "wf s" "valid s k" "k \<notin> used s"
  shows "\<exists>s'. Option.bind (mark s k) (\<lambda>s. unmark s k) = Some s' \<and> wf s' \<and> used s' = used s"
proof -
  obtain s1 where s1: "mark s k = Some s1" "wf s1" "valid s1 = valid s" "used s1 = insert k (used s)"
    using mark_used assms by blast
  then obtain s2 where "unmark s1 k = Some s2" "wf s2" "used s2 = used s1 - {k}"
    using unmark_used assms by metis
  with s1 assms(3) show ?thesis by auto
qed

end

interpretation bits: chunk_set wf_bitmap valid_chunk
    "\<lambda>dev (blk, chunk). yaffs_SetChunkBit dev blk chunk" "\<lambda>dev (blk, chunk). yaffs_ClearChunkBit dev blk chunk"
    "\<lambda>dev (blk, chunk). yaffs_CheckChunkBit dev blk chunk"
proof (unfold_locales, goal_cases)
  case (1 dev k)
  then show ?case by (cases k) (simp add: CheckChunkBit_eq)
next
  case (2 dev k)
  obtain blk chunk where k: "k = (blk, chunk)" by fastforce
  obtain bs where bs: "yaffs_SetChunkBit dev blk chunk = Some (dev\<lparr>chunkBits := bs\<rparr>)" "length bs = length (chunkBits dev)"
    "\<And>m. bitmap bs m \<longleftrightarrow> m = bit_no dev (blk, chunk) \<or> bitmap (chunkBits dev) m"
    using SetChunkBit_eq 2 k by metis
  with 2 k show ?case using bit_no_inj [OF 2(1)] by (fastforce simp: CheckChunkBit_eq fun_eq_iff)
next
  case (3 dev k)
  obtain blk chunk where k: "k = (blk, chunk)" by fastforce
  obtain bs where bs: "yaffs_ClearChunkBit dev blk chunk = Some (dev\<lparr>chunkBits := bs\<rparr>)" "length bs = length (chunkBits dev)"
    "\<And>m. bitmap bs m \<longleftrightarrow> m \<noteq> bit_no dev (blk, chunk) \<and> bitmap (chunkBits dev) m"
    using ClearChunkBit_eq 3 k by metis
  with 3 k show ?case using bit_no_inj [OF 3(1)] by (fastforce simp: CheckChunkBit_eq fun_eq_iff)
qed

subsection \<open>Counting\<close>

lemma bitmap_Cons: "bitmap (x # bs) m \<longleftrightarrow> (if m < 8 then bit x m else bitmap bs (m - 8))"
proof (cases "m < 8")
  case False
  then obtain k where "m = k + 8" by (metis add.commute le_Suc_ex not_less)
  moreover have "(k + 8) div 8 = Suc (k div 8)" by simp
  ultimately show ?thesis by (simp add: bitmap_def del: div_add_self2)
qed (simp add: bitmap_def)

lemma bitmap_less: "bitmap bs m \<Longrightarrow> m < 8 * length bs"
  by (simp add: bitmap_def) (metis less_mult_imp_div_less div_less_iff_less_mult mult.commute zero_less_numeral)

lemma finite_bitmap [simp]: "finite {m. bitmap bs m}"
  by (rule finite_subset [of _ "{..<8 * length bs}"]) (auto dest: bitmap_less)

lemma CountChunkBits_loop_card: "CountChunkBits_loop bs n = n + int (card {m. bitmap bs m})"
proof (induction bs arbitrary: n)
  case Nil
  then show ?case by (simp add: bitmap_def)
next
  case (Cons x bs)
  have "{m. bitmap (x # bs) m} = {m. bit x m} \<union> (\<lambda>m. m + 8) ` {m. bitmap bs m}"
  proof (rule set_eqI)
    fix m
    show "m \<in> {m. bitmap (x # bs) m} \<longleftrightarrow> m \<in> {m. bit x m} \<union> (\<lambda>m. m + 8) ` {m. bitmap bs m}"
      by (cases "m < 8") (auto simp: bitmap_Cons image_iff intro!: exI [of _ "m - 8"] dest: bit_imp_le_length)
  qed
  moreover have "{m. bit x m} \<inter> (\<lambda>m. m + 8) ` {m. bitmap bs m} = {}" by (auto dest: bit_imp_le_length)
  moreover have "finite {m. bit x m}"
    by (rule finite_subset [of _ "{..<8}"]) (auto dest: bit_imp_le_length)
  ultimately have "card {m. bitmap (x # bs) m} = card {m. bit x m} + card {m. bitmap bs m}"
    by (simp add: card_Un_disjoint card_image inj_on_def)
  then show ?case by (simp add: Cons.IH CountBits_card)
qed

lemma StillSome_loop_iff: "StillSome_loop bs = of_bool (\<exists>m. bitmap bs m)"
proof (induction bs)
  case Nil
  then show ?case by (simp add: bitmap_def)
next
  case (Cons x bs)
  have "(\<exists>m. bitmap (x # bs) m) \<longleftrightarrow> (\<exists>m<8. bit x m) \<or> (\<exists>m. bitmap bs m)"
  proof (intro iffI; (elim disjE exE)?)
    fix m assume "bitmap bs m"
    then have "bitmap (x # bs) (m + 8)" by (simp add: bitmap_Cons)
    then show "\<exists>m. bitmap (x # bs) m" ..
  qed (auto simp: bitmap_Cons split: if_splits)
  moreover have "x \<noteq> 0 \<longleftrightarrow> (\<exists>m<8. bit x m)"
    using bit_word_eqI [of x 0] by auto
  ultimately show ?case using Cons.IH by simp
qed

lemma block_row_eq:
  assumes "wf_bitmap dev" "valid_block dev blk"
  obtains row where "block_row dev blk = Some row" "int (length row) = chunkBitmapStride dev"
    "\<And>c. bitmap row c \<longleftrightarrow> int c < 8 * chunkBitmapStride dev \<and> bitmap (chunkBits dev) (bit_no dev (blk, int c))"
proof -
  let ?i = "yaffs_BlockBits dev blk" and ?s = "chunkBitmapStride dev"
  have s: "0 < ?s" using assms(1) by (auto simp: wf_bitmap_def)
  have i: "0 \<le> ?i" using row_in_range(1) [OF assms, of 0] s by simp
  have e: "?i + ?s \<le> int (length (chunkBits dev))" using row_in_range(2) [OF assms, of "?s - 1"] s by simp
  let ?row = "take (nat ?s) (drop (nat ?i) (chunkBits dev))"
  have len: "int (length ?row) = ?s" using i e s by simp
  have "bitmap ?row c \<longleftrightarrow> int c < 8 * ?s \<and> bitmap (chunkBits dev) (bit_no dev (blk, int c))" for c
  proof -
    have n: "bit_no dev (blk, int c) = 8 * nat ?i + c" using i by (simp add: bit_no_def nat_add_distrib nat_mult_distrib)
    have d: "(8 * nat ?i + c) div 8 = nat ?i + c div 8" "(8 * nat ?i + c) mod 8 = c mod 8" by simp_all
    have c: "c div 8 < length ?row \<longleftrightarrow> int c < 8 * ?s" using len by linarith
    show ?thesis
    proof (cases "int c < 8 * ?s")
      case True
      then have "c div 8 < length ?row" using c by blast
      moreover have "nat ?i + c div 8 < length (chunkBits dev)" using True e i by linarith
      ultimately show ?thesis using True by (simp add: bitmap_def n d)
    next
      case False
      then show ?thesis using c by (simp add: bitmap_def)
    qed
  qed
  with len i e s show thesis by (intro that [of ?row]) (simp_all add: block_row_def Let_def)
qed

text \<open>The bits beyond the last chunk of a row, when a block has not a multiple of eight chunks.\<close>

definition padding_clear :: "'n yaffs_Device \<Rightarrow> bool" where
  "padding_clear dev \<longleftrightarrow> (\<forall>blk c. valid_block dev blk \<longrightarrow> nChunksPerBlock dev \<le> int c \<longrightarrow> int c < 8 * chunkBitmapStride dev \<longrightarrow>
     \<not> bitmap (chunkBits dev) (bit_no dev (blk, int c)))"

definition chunks_in_use :: "'n yaffs_Device \<Rightarrow> int \<Rightarrow> nat set" where
  "chunks_in_use dev blk = {c. int c < nChunksPerBlock dev \<and> yaffs_CheckChunkBit dev blk (int c) = Some 1}"

lemma chunks_in_use_row:
  assumes "wf_bitmap dev" "padding_clear dev" "valid_block dev blk" "block_row dev blk = Some row"
  shows "{c. bitmap row c} = chunks_in_use dev blk"
proof -
  obtain row' where r: "block_row dev blk = Some row'"
    "\<And>c. bitmap row' c \<longleftrightarrow> int c < 8 * chunkBitmapStride dev \<and> bitmap (chunkBits dev) (bit_no dev (blk, int c))"
    using block_row_eq [OF assms(1,3)] by metis
  have "nChunksPerBlock dev \<le> 8 * chunkBitmapStride dev" using assms(1) by (auto simp: wf_bitmap_def)
  moreover have "int c < nChunksPerBlock dev \<Longrightarrow>
      yaffs_CheckChunkBit dev blk (int c) = Some 1 \<longleftrightarrow> bitmap (chunkBits dev) (bit_no dev (blk, int c))" for c
    using CheckChunkBit_eq [OF assms(1), of blk "int c"] assms(3) by (simp add: valid_chunk_def)
  ultimately show ?thesis
    using r assms(2-4) by (fastforce simp: chunks_in_use_def padding_clear_def not_le)
qed

subsection \<open>Properties\<close>

text \<open>A small bitmap for the concrete instances: three blocks of 12 chunks, chunk 0 of block 2 in use.\<close>

definition sample_bitmap :: "unit yaffs_Device \<Rightarrow> unit yaffs_Device" where
  "sample_bitmap dev = dev\<lparr>nChunksPerBlock := 12, chunkBitmapStride := 2, internalStartBlock := 1, internalEndBlock := 3,
     chunkBits := [0, 0, 1, 0, 0, 0]\<rparr>"

lemma sample_bitmap_bits: "bitmap [0, 0, 1, 0, 0, 0] m \<longleftrightarrow> m = 16"
  by (auto simp: bitmap_Cons bit_1_iff) (simp_all add: bitmap_def)

lemma sample_bitmap_wf: "wf_bitmap (sample_bitmap dev)" "padding_clear (sample_bitmap dev)"
proof -
  show "wf_bitmap (sample_bitmap dev)" by (simp add: wf_bitmap_def nblocks_def sample_bitmap_def)
  show "padding_clear (sample_bitmap dev)"
    unfolding padding_clear_def bit_no_def yaffs_BlockBits_def valid_block_def
    by (auto simp: sample_bitmap_def sample_bitmap_bits nat_eq_iff) presburger
qed

text \<open>
  C10. On a well-formed bitmap, setting and clearing the bit of a chunk never leaves the array and
  refines insertion into and removal from the set of chunks in use, keeping the bitmap well-formed.
\<close>

theorem chunk_bitmap_refines_set:
  assumes "wf_bitmap dev" "valid_chunk dev (blk, chunk)"
  shows "(\<exists>dev'. yaffs_SetChunkBit dev blk chunk = Some dev' \<and> wf_bitmap dev' \<and> bits.used dev' = insert (blk, chunk) (bits.used dev)) \<and>
    (\<exists>dev'. yaffs_ClearChunkBit dev blk chunk = Some dev' \<and> wf_bitmap dev' \<and> bits.used dev' = bits.used dev - {(blk, chunk)})"
  using bits.mark_used [OF assms] bits.unmark_used [OF assms] by auto

theorem chunk_bitmap_refines_set_witness:
  "\<forall>dev. (\<exists>dev'. yaffs_SetChunkBit (sample_bitmap dev) 3 11 = Some dev' \<and> wf_bitmap dev' \<and>
      bits.used dev' = insert (3, 11) (bits.used (sample_bitmap dev))) \<and>
    (\<exists>dev'. yaffs_ClearChunkBit (sample_bitmap dev) 3 11 = Some dev' \<and> wf_bitmap dev' \<and>
      bits.used dev' = bits.used (sample_bitmap dev) - {(3, 11)})"
proof (intro allI, rule chunk_bitmap_refines_set [OF sample_bitmap_wf(1)])
  show "valid_chunk (sample_bitmap dev) (3, 11)" for dev
    by (simp add: valid_chunk_def valid_block_def sample_bitmap_def)
qed

text \<open>
  \<open>yaffs_CountChunkBits\<close> returns the number of chunks of the block that are in use and
  \<open>yaffs_StillSomeChunkBits\<close> whether there is one.
\<close>

theorem CountChunkBits_card:
  assumes "wf_bitmap dev" "padding_clear dev" "valid_block dev blk"
  shows "yaffs_CountChunkBits dev blk = Some (int (card (chunks_in_use dev blk))) \<and>
    yaffs_StillSomeChunkBits dev blk = Some (if chunks_in_use dev blk = {} then 0 else 1)"
proof -
  obtain row where row: "block_row dev blk = Some row" using block_row_eq [OF assms(1,3)] by metis
  note u = chunks_in_use_row [OF assms row]
  have "(\<exists>m. bitmap row m) \<longleftrightarrow> chunks_in_use dev blk \<noteq> {}" using u by blast
  with row u show ?thesis
    by (simp add: yaffs_CountChunkBits_def yaffs_StillSomeChunkBits_def CountChunkBits_loop_card StillSome_loop_iff)
qed

theorem CountChunkBits_card_witness:
  "\<forall>dev. yaffs_CountChunkBits (sample_bitmap dev) 2 = Some (int (card (chunks_in_use (sample_bitmap dev) 2))) \<and>
    yaffs_StillSomeChunkBits (sample_bitmap dev) 2 = Some (if chunks_in_use (sample_bitmap dev) 2 = {} then 0 else 1)"
proof (intro allI, rule CountChunkBits_card [OF sample_bitmap_wf])
  show "valid_block (sample_bitmap dev) 2" for dev by (simp add: valid_block_def sample_bitmap_def)
qed

end
