(* ===== verification/TempBuffers.thy ===== *)
theory TempBuffers
  imports Device
begin

section \<open>Temporary buffers\<close>

text \<open>
  The pool of four chunk-sized working buffers of a device (\<^verbatim>\<open>yaffs_guts.c\<close>).  A slot is in use when
  its \<open>line\<close> is not zero; when the pool is exhausted a buffer is allocated outside it.  The loops over
  the pool that stop at the first match are \<open>find\<close> over the slot numbers.
\<close>

definition YAFFS_N_TEMP_BUFFERS :: nat where
  "YAFFS_N_TEMP_BUFFERS = 4"

text \<open>The loop stops at the first failed allocation; \<open>buf\<close> starts as a non-zero value.\<close>

primrec InitialiseTempBuffers_loop :: "nat \<Rightarrow> nat \<Rightarrow> nat \<Rightarrow> 'n yaffs_Device \<Rightarrow> nat \<times> 'n yaffs_Device" where
  "InitialiseTempBuffers_loop 0 i buf dev = (buf, dev)"
| "InitialiseTempBuffers_loop (Suc todo) i buf dev =
     (if buf \<noteq> 0 then
        (let (buf, dev) = YMALLOC dev
         in InitialiseTempBuffers_loop todo (i + 1) buf
              (dev\<lparr>tempBuffer := (tempBuffer dev)[i := (tempBuffer dev ! i)\<lparr>tb_line := 0, tb_buffer := buf\<rparr>]\<rparr>))
      else (buf, dev))"

definition yaffs_InitialiseTempBuffers :: "'n yaffs_Device \<Rightarrow> int \<times> 'n yaffs_Device" where
  "yaffs_InitialiseTempBuffers dev =
     (let dev = dev\<lparr>tempBuffer := replicate YAFFS_N_TEMP_BUFFERS \<lparr>tb_buffer = 0, tb_line = 0, tb_maxLine = 0\<rparr>\<rparr>;
          (buf, dev) = InitialiseTempBuffers_loop YAFFS_N_TEMP_BUFFERS 0 1 dev
      in (if buf \<noteq> 0 then YAFFS_OK else YAFFS_FAIL, dev))"

definition yaffs_GetTempBuffer :: "'n yaffs_Device \<Rightarrow> int \<Rightarrow> nat \<times> 'n yaffs_Device" where
  "yaffs_GetTempBuffer dev lineNo =
     (case find (\<lambda>i. tb_line (tempBuffer dev ! i) = 0) [0..<YAFFS_N_TEMP_BUFFERS] of
        Some i \<Rightarrow>
          (let dev = dev\<lparr>tempBuffer := (tempBuffer dev)[i := (tempBuffer dev ! i)\<lparr>tb_line := lineNo\<rparr>]\<rparr>;
               dev = (if int i + 1 > maxTemp dev then
                        dev\<lparr>maxTemp := int i + 1,
                            tempBuffer := map (\<lambda>tb. tb\<lparr>tb_maxLine := tb_line tb\<rparr>) (take (i + 1) (tempBuffer dev)) @
                                          drop (i + 1) (tempBuffer dev)\<rparr>
                      else dev)
           in (tb_buffer (tempBuffer dev ! i), dev))
      | None \<Rightarrow> YMALLOC (dev\<lparr>unmanagedTempAllocations := unmanagedTempAllocations dev + 1\<rparr>))"

definition yaffs_ReleaseTempBuffer :: "'n yaffs_Device \<Rightarrow> nat \<Rightarrow> 'n yaffs_Device" where
  "yaffs_ReleaseTempBuffer dev buffer =
     (case find (\<lambda>i. tb_buffer (tempBuffer dev ! i) = buffer) [0..<YAFFS_N_TEMP_BUFFERS] of
        Some i \<Rightarrow> dev\<lparr>tempBuffer := (tempBuffer dev)[i := (tempBuffer dev ! i)\<lparr>tb_line := 0\<rparr>]\<rparr>
      | None \<Rightarrow> if buffer \<noteq> 0 then dev\<lparr>unmanagedTempDeallocations := unmanagedTempDeallocations dev + 1\<rparr> else dev)"

definition yaffs_IsManagedTempBuffer :: "'n yaffs_Device \<Rightarrow> nat \<Rightarrow> int" where
  "yaffs_IsManagedTempBuffer dev buffer =
     (if \<exists>i\<in>set [0..<YAFFS_N_TEMP_BUFFERS]. tb_buffer (tempBuffer dev ! i) = buffer then 1
      else if \<exists>i\<in>set [0..<nat (nShortOpCaches dev)]. cc_buffer (srCache dev ! i) = buffer then 1
      else if buffer = checkpointBufferAddr dev then 1
      else 0)"

subsection \<open>The pool\<close>

definition wf_pool :: "'n yaffs_Device \<Rightarrow> bool" where
  "wf_pool dev \<longleftrightarrow> length (tempBuffer dev) = YAFFS_N_TEMP_BUFFERS \<and> distinct (map tb_buffer (tempBuffer dev)) \<and>
     0 \<notin> tb_buffer ` set (tempBuffer dev)"

text \<open>The buffers of the pool, and those that are handed out.\<close>

definition pool :: "'n yaffs_Device \<Rightarrow> nat set" where
  "pool dev = tb_buffer ` set (tempBuffer dev)"

definition held :: "'n yaffs_Device \<Rightarrow> nat set" where
  "held dev = {tb_buffer tb | tb. tb \<in> set (tempBuffer dev) \<and> tb_line tb \<noteq> 0}"

text \<open>What the pool looks like is its list of (buffer, line) pairs.\<close>

abbreviation slots :: "'n yaffs_Device \<Rightarrow> (nat \<times> int) list" where
  "slots dev \<equiv> map (\<lambda>tb. (tb_buffer tb, tb_line tb)) (tempBuffer dev)"

lemma slot_views:
  "pool dev = fst ` set (slots dev)" "held dev = {b. \<exists>l. (b, l) \<in> set (slots dev) \<and> l \<noteq> 0}"
  "wf_pool dev \<longleftrightarrow> length (slots dev) = YAFFS_N_TEMP_BUFFERS \<and> distinct (map fst (slots dev)) \<and> 0 \<notin> fst ` set (slots dev)"
  by (auto simp: pool_def held_def wf_pool_def image_iff comp_def)

lemma slots_markers:
  "map (\<lambda>tb. (tb_buffer tb, tb_line tb)) (map (\<lambda>tb. tb\<lparr>tb_maxLine := tb_line tb\<rparr>) tbs) = map (\<lambda>tb. (tb_buffer tb, tb_line tb)) tbs"
  by simp

lemma GetTempBuffer_slots:
  assumes "wf_pool dev" "find (\<lambda>i. tb_line (tempBuffer dev ! i) = 0) [0..<YAFFS_N_TEMP_BUFFERS] = Some i"
  shows "i < YAFFS_N_TEMP_BUFFERS" "snd (slots dev ! i) = 0"
    "fst (yaffs_GetTempBuffer dev lineNo) = fst (slots dev ! i)"
    "slots (snd (yaffs_GetTempBuffer dev lineNo)) = (slots dev)[i := (fst (slots dev ! i), lineNo)]"
proof -
  have len: "length (tempBuffer dev) = YAFFS_N_TEMP_BUFFERS" using assms(1) by (simp add: wf_pool_def)
  from assms(2) have i: "i < YAFFS_N_TEMP_BUFFERS" "tb_line (tempBuffer dev ! i) = 0" by (auto simp: find_Some_iff)
  then show "i < YAFFS_N_TEMP_BUFFERS" "snd (slots dev ! i) = 0" using len by simp_all
  let ?tbs = "(tempBuffer dev)[i := (tempBuffer dev ! i)\<lparr>tb_line := lineNo\<rparr>]"
  have upd: "map (\<lambda>tb. (tb_buffer tb, tb_line tb)) ?tbs = (slots dev)[i := (fst (slots dev ! i), lineNo)]"
    using i len by (simp add: map_update)
  have "map (\<lambda>tb. (tb_buffer tb, tb_line tb)) (map (\<lambda>tb. tb\<lparr>tb_maxLine := tb_line tb\<rparr>) (take (i + 1) ?tbs) @ drop (i + 1) ?tbs) =
      map (\<lambda>tb. (tb_buffer tb, tb_line tb)) ?tbs"
    unfolding map_append slots_markers by (metis append_take_drop_id map_append)
  with upd show "slots (snd (yaffs_GetTempBuffer dev lineNo)) = (slots dev)[i := (fst (slots dev ! i), lineNo)]"
    using assms(2) by (simp add: yaffs_GetTempBuffer_def Let_def)
  show "fst (yaffs_GetTempBuffer dev lineNo) = fst (slots dev ! i)"
    using assms(2) i len by (simp add: yaffs_GetTempBuffer_def Let_def nth_append)
qed

lemma ReleaseTempBuffer_slots:
  assumes "wf_pool dev" "i < YAFFS_N_TEMP_BUFFERS" "fst (slots dev ! i) = b"
  shows "slots (yaffs_ReleaseTempBuffer dev b) = (slots dev)[i := (b, 0)]"
proof -
  have len: "length (tempBuffer dev) = YAFFS_N_TEMP_BUFFERS" and dist: "distinct (map tb_buffer (tempBuffer dev))"
    using assms(1) by (auto simp: wf_pool_def)
  have b: "tb_buffer (tempBuffer dev ! i) = b" using assms(2,3) len by simp
  have "find (\<lambda>i. tb_buffer (tempBuffer dev ! i) = b) [0..<YAFFS_N_TEMP_BUFFERS] = Some i"
  proof -
    have "\<forall>j<i. tb_buffer (tempBuffer dev ! j) \<noteq> b"
      using dist b len assms(2) nth_eq_iff_index_eq [OF dist, of _ i] by auto
    then show ?thesis using assms(2) b by (simp add: find_upt_Some_iff)
  qed
  then show ?thesis using b len assms(2) by (simp add: yaffs_ReleaseTempBuffer_def map_update)
qed

lemma held_free_slot:
  assumes "wf_pool dev" "held dev \<noteq> pool dev"
  shows "\<exists>i. find (\<lambda>i. tb_line (tempBuffer dev ! i) = 0) [0..<YAFFS_N_TEMP_BUFFERS] = Some i"
proof (rule ccontr)
  assume "\<not> ?thesis"
  then have "\<forall>i<YAFFS_N_TEMP_BUFFERS. tb_line (tempBuffer dev ! i) \<noteq> 0"
    by (auto simp: find_None_iff simp flip: ex_in_conv not_None_eq)
  then have "\<forall>tb\<in>set (tempBuffer dev). tb_line tb \<noteq> 0" using assms(1) by (metis in_set_conv_nth wf_pool_def)
  then show False using assms(2) by (auto simp: held_def pool_def)
qed

lemma held_update:
  assumes "length xs = n" "distinct (map fst xs)" "i < n" "l \<noteq> 0" "snd (xs ! i) = (0 :: int)"
  shows "{b. \<exists>k. (b, k) \<in> set (xs[i := (fst (xs ! i), l)]) \<and> k \<noteq> 0} = insert (fst (xs ! i)) {b. \<exists>l. (b, l) \<in> set xs \<and> l \<noteq> 0}"
    and "fst (xs ! i) \<notin> {b. \<exists>l. (b, l) \<in> set xs \<and> l \<noteq> 0}"
    and "fst ` set (xs[i := (fst (xs ! i), l')]) = fst ` set xs" "map fst (xs[i := (fst (xs ! i), l')]) = map fst xs"
proof -
  show m: "map fst (xs[i := (fst (xs ! i), l')]) = map fst xs" for l' :: int
    by (simp add: map_update) (metis assms(1,3) list_update_id nth_map)
  then show "fst ` set (xs[i := (fst (xs ! i), l')]) = fst ` set xs" by (metis list.set_map)
  show notin: "fst (xs ! i) \<notin> {b. \<exists>l. (b, l) \<in> set xs \<and> l \<noteq> 0}"
  proof
    assume "fst (xs ! i) \<in> {b. \<exists>l. (b, l) \<in> set xs \<and> l \<noteq> 0}"
    then obtain j where "j < n" "fst (xs ! j) = fst (xs ! i)" "snd (xs ! j) \<noteq> 0"
      using assms(1) by (auto simp: in_set_conv_nth)
    moreover from this have "j = i" using assms(1-3) by (metis distinct_conv_nth length_map nth_map)
    ultimately show False using assms(5) by simp
  qed
  have "(b, k) \<in> set (xs[i := (fst (xs ! i), l)]) \<and> k \<noteq> 0 \<longleftrightarrow> (b, k) = (fst (xs ! i), l) \<or> ((b, k) \<in> set xs \<and> k \<noteq> 0)" for b k
  proof
    assume "(b, k) = (fst (xs ! i), l) \<or> ((b, k) \<in> set xs \<and> k \<noteq> 0)"
    then show "(b, k) \<in> set (xs[i := (fst (xs ! i), l)]) \<and> k \<noteq> 0"
    proof
      assume "(b, k) = (fst (xs ! i), l)"
      then show ?thesis using assms(1,3,4) by (simp add: set_update_memI)
    next
      assume k: "(b, k) \<in> set xs \<and> k \<noteq> 0"
      then obtain j where j: "j < n" "xs ! j = (b, k)" using assms(1) by (auto simp: in_set_conv_nth)
      with k assms(5) have "j \<noteq> i" by auto
      with j assms(1) have "xs[i := (fst (xs ! i), l)] ! j = (b, k)" by simp
      then show ?thesis using j assms(1) k by (metis length_list_update nth_mem)
    qed
  qed (use set_update_subset_insert [of xs i "(fst (xs ! i), l)"] in auto)
  then show "{b. \<exists>k. (b, k) \<in> set (xs[i := (fst (xs ! i), l)]) \<and> k \<noteq> 0} = insert (fst (xs ! i)) {b. \<exists>l. (b, l) \<in> set xs \<and> l \<noteq> 0}"
    by auto
qed

lemma release_update:
  assumes "length xs = n" "distinct (map fst xs)" "i < n" "fst (xs ! i) = b"
  shows "{a. \<exists>l. (a, l) \<in> set (xs[i := (b, 0 :: int)]) \<and> l \<noteq> 0} = {a. \<exists>l. (a, l) \<in> set xs \<and> l \<noteq> 0} - {b}"
    and "fst ` set (xs[i := (b, 0)]) = fst ` set xs" "map fst (xs[i := (b, 0)]) = map fst xs"
proof -
  show m: "map fst (xs[i := (b, 0)]) = map fst xs"
    using assms(4) by (simp add: map_update) (metis assms(1,3) list_update_id nth_map)
  then show "fst ` set (xs[i := (b, 0)]) = fst ` set xs" by (metis list.set_map)
  have "(a, l) \<in> set (xs[i := (b, 0)]) \<and> l \<noteq> 0 \<longleftrightarrow> ((a, l) \<in> set xs \<and> l \<noteq> 0) \<and> a \<noteq> b" for a l
  proof
    assume al: "(a, l) \<in> set (xs[i := (b, 0)]) \<and> l \<noteq> 0"
    then obtain j where j: "j < n" "xs[i := (b, 0)] ! j = (a, l)" using assms(1) by (auto simp: in_set_conv_nth)
    with al have "j \<noteq> i" using assms(1,3) by auto
    with j have "xs ! j = (a, l)" by simp
    moreover have "a \<noteq> b"
      using \<open>xs ! j = (a, l)\<close> \<open>j \<noteq> i\<close> j assms by (metis distinct_conv_nth fst_conv length_map nth_map)
    ultimately show "((a, l) \<in> set xs \<and> l \<noteq> 0) \<and> a \<noteq> b" using j al assms(1) by (metis nth_mem)
  next
    assume al: "((a, l) \<in> set xs \<and> l \<noteq> 0) \<and> a \<noteq> b"
    then obtain j where j: "j < n" "xs ! j = (a, l)" using assms(1) by (auto simp: in_set_conv_nth)
    with al assms(4) have "j \<noteq> i" by auto
    with j assms(1) have "xs[i := (b, 0)] ! j = (a, l)" by simp
    then show "(a, l) \<in> set (xs[i := (b, 0)]) \<and> l \<noteq> 0" using j al assms(1) by (metis length_list_update nth_mem)
  qed
  then show "{a. \<exists>l. (a, l) \<in> set (xs[i := (b, 0)]) \<and> l \<noteq> 0} = {a. \<exists>l. (a, l) \<in> set xs \<and> l \<noteq> 0} - {b}"
    by auto
qed

text \<open>
  What a user of working buffers relies on: while the pool is not exhausted a buffer is handed out that
  nobody holds, and returning it makes it available again.
\<close>

locale buffer_pool =
  fixes wf :: "'s \<Rightarrow> bool"
    and pool :: "'s \<Rightarrow> 'b set"
    and held :: "'s \<Rightarrow> 'b set"
    and get :: "'s \<Rightarrow> 'l \<Rightarrow> 'b \<times> 's"
    and release :: "'s \<Rightarrow> 'b \<Rightarrow> 's"
  assumes get_law: "wf s \<Longrightarrow> held s \<noteq> pool s \<Longrightarrow> fst (get s l) \<in> pool s \<and> fst (get s l) \<notin> held s \<and> wf (snd (get s l)) \<and>
      pool (snd (get s l)) = pool s \<and> held (snd (get s l)) = insert (fst (get s l)) (held s)"
    and release_law: "wf s \<Longrightarrow> b \<in> pool s \<Longrightarrow> wf (release s b) \<and> pool (release s b) = pool s \<and> held (release s b) = held s - {b}"
begin

lemma get_release:
  assumes "wf s" "held s \<noteq> pool s"
  shows "held (release (snd (get s l)) (fst (get s l))) = held s"
  using get_law [OF assms, of l] release_law [of "snd (get s l)" "fst (get s l)"] by auto

lemma two_buffers:
  assumes "wf s" "get s l = (b1, s1)" "get s1 k = (b2, s2)" "held s \<noteq> pool s" "held s1 \<noteq> pool s1"
  shows "b1 \<noteq> b2" "{b1, b2} \<subseteq> pool s - held s" "held (release (release s2 b1) b2) = held s" "held (release (release s2 b2) b1) = held s"
proof -
  have 1: "b1 \<in> pool s" "b1 \<notin> held s" "wf s1" "pool s1 = pool s" "held s1 = insert b1 (held s)"
    using get_law [OF assms(1,4), of l] assms(2) by auto
  have 2: "b2 \<in> pool s" "b2 \<notin> held s1" "wf s2" "pool s2 = pool s" "held s2 = insert b2 (held s1)"
    using get_law [OF 1(3) assms(5), of k] assms(3) 1(4) by auto
  show "b1 \<noteq> b2" "{b1, b2} \<subseteq> pool s - held s" using 1 2 by auto
  show "held (release (release s2 b1) b2) = held s" "held (release (release s2 b2) b1) = held s"
    using release_law [OF 2(3), of b1] release_law [OF 2(3), of b2] release_law [of "release s2 b1" b2]
      release_law [of "release s2 b2" b1] 1 2 by auto
qed

end

text \<open>The line numbers that callers pass are source lines, so they are positive.\<close>

interpretation temp: buffer_pool wf_pool pool held "\<lambda>dev line. yaffs_GetTempBuffer dev (1 + int line)" yaffs_ReleaseTempBuffer
proof (unfold_locales, goal_cases)
  case (1 dev line)
  then obtain i where i: "find (\<lambda>i. tb_line (tempBuffer dev ! i) = 0) [0..<YAFFS_N_TEMP_BUFFERS] = Some i"
    using held_free_slot by blast
  have G: "i < YAFFS_N_TEMP_BUFFERS" "snd (slots dev ! i) = 0"
    "fst (yaffs_GetTempBuffer dev (1 + int line)) = fst (slots dev ! i)"
    "slots (snd (yaffs_GetTempBuffer dev (1 + int line))) = (slots dev)[i := (fst (slots dev ! i), 1 + int line)]"
    by (rule GetTempBuffer_slots [OF 1(1) i])+
  have w: "length (slots dev) = YAFFS_N_TEMP_BUFFERS" "distinct (map fst (slots dev))" "0 \<notin> fst ` set (slots dev)"
    using 1(1) unfolding slot_views(3) by blast+
  have line: "1 + int line \<noteq> 0" by linarith
  have "fst (slots dev ! i) \<in> fst ` set (slots dev)" using G(1) w(1) by (metis imageI nth_mem)
  then show ?case
    unfolding slot_views G(3,4) using held_update(1,2) [OF w(1,2) G(1) line G(2)]
      held_update(3,4) [OF w(1,2) G(1) line G(2), where l' = "1 + int line"] w by auto
next
  case (2 dev b)
  then obtain i where i: "i < YAFFS_N_TEMP_BUFFERS" "fst (slots dev ! i) = b"
    unfolding slot_views by (auto simp: in_set_conv_nth)
  note R = ReleaseTempBuffer_slots [OF 2(1) i]
  have w: "length (slots dev) = YAFFS_N_TEMP_BUFFERS" "distinct (map fst (slots dev))" "0 \<notin> fst ` set (slots dev)"
    using 2(1) unfolding slot_views(3) by blast+
  show ?case
    unfolding slot_views R using release_update [OF w(1,2) i] w by auto
qed

subsection \<open>Setting the pool up\<close>

text \<open>The allocator hands out addresses that are not NULL and all different.\<close>

definition good_malloc :: "'n yaffs_Device \<Rightarrow> bool" where
  "good_malloc dev \<longleftrightarrow> inj (ymalloc_result dev) \<and> (\<forall>n. ymalloc_result dev n \<noteq> 0)"

lemma InitialiseTempBuffers_pool:
  assumes "good_malloc dev"
  shows "\<exists>dev'. yaffs_InitialiseTempBuffers dev = (YAFFS_OK, dev') \<and> wf_pool dev' \<and> held dev' = {} \<and> card (pool dev') = 4"
proof -
  have m: "ymalloc_result dev n \<noteq> 0" "n \<noteq> k \<Longrightarrow> ymalloc_result dev n \<noteq> ymalloc_result dev k" for n k
    using assms by (auto simp: good_malloc_def inj_def)
  have four: "YAFFS_N_TEMP_BUFFERS = Suc (Suc (Suc (Suc 0)))" by (simp add: YAFFS_N_TEMP_BUFFERS_def)
  let ?r = "\<lambda>k. ymalloc_result dev (ymalloc_count dev + k)"
  have r: "?r 0 \<noteq> ?r 1" "?r 0 \<noteq> ?r 2" "?r 0 \<noteq> ?r 3" "?r 1 \<noteq> ?r 2" "?r 1 \<noteq> ?r 3" "?r 2 \<noteq> ?r 3" "?r k \<noteq> 0" for k
    using m by simp_all
  show ?thesis
    using r by (auto simp: yaffs_InitialiseTempBuffers_def YMALLOC_def Let_def four m wf_pool_def held_def pool_def
        numeral_eq_Suc)
qed

subsection \<open>Properties\<close>


text \<open>
  Setting the pool up with a working allocator succeeds and gives four distinct buffers, none of
  them held.
\<close>

theorem InitialiseTempBuffers_ready:
  assumes "good_malloc dev"
  shows "\<exists>dev'. yaffs_InitialiseTempBuffers dev = (YAFFS_OK, dev') \<and> wf_pool dev' \<and> held dev' = {} \<and> card (pool dev') = 4"
  using assms by (rule InitialiseTempBuffers_pool)

text \<open>An allocator for the concrete instances.\<close>

definition sample_malloc :: "unit yaffs_Device \<Rightarrow> unit yaffs_Device" where
  "sample_malloc dev = dev\<lparr>ymalloc_result := (\<lambda>n. 1000 + n), ymalloc_count := 0\<rparr>"

lemma sample_malloc_good: "good_malloc (sample_malloc dev)"
  by (simp add: good_malloc_def sample_malloc_def inj_def)

theorem InitialiseTempBuffers_ready_witness:
  "\<forall>dev. \<exists>dev'. yaffs_InitialiseTempBuffers (sample_malloc dev) = (YAFFS_OK, dev') \<and> wf_pool dev' \<and> held dev' = {} \<and> card (pool dev') = 4"
  using InitialiseTempBuffers_ready [OF sample_malloc_good] by blast


end
