(* ===== verification/Nand.thy ===== *)
theory Nand
  imports TagsCompat TempBuffers ChunkBits
begin

section \<open>Access to the NAND\<close>

text \<open>
  \<^verbatim>\<open>yaffs_nand.c\<close>: the calls into the driver, which remove the block and chunk offset of a device that
  starts at block 0 and choose between the driver's functions with tags and the YAFFS1 layer, and the
  reaction to a read error (\<open>yaffs_HandleChunkError\<close> of \<^verbatim>\<open>yaffs_guts.c\<close>).  \<open>yaffs_Config\<close> collects the
  compile-time switches and the values that the code reads from the stack before it writes them.
\<close>

record yaffs_Config =
  cfg_wrong_order :: bool
  cfg_unset_bits :: "2 word"
  cfg_unset_ecc :: yaffs_ECCResult
  cfg_unset_tags :: yaffs_ExtendedTags
  cfg_always_check_erased :: bool
  cfg_wr_attempts :: int
  cfg_verify_erase :: bool
  cfg_verify :: bool
  cfg_big_endian :: bool

definition yaffs_HandleChunkError :: "'n yaffs_Device \<Rightarrow> int \<Rightarrow> 'n yaffs_Device option" where
  "yaffs_HandleChunkError dev blk =
     do { bi \<leftarrow> yaffs_GetBlockInfo dev blk;
          if \<not> gcPrioritise bi then
            (let bi = bi\<lparr>gcPrioritise := True, chunkErrorStrikes := chunkErrorStrikes bi + 1\<rparr>;
                 bi = (if chunkErrorStrikes bi > 3 then bi\<lparr>needsRetiring := True\<rparr> else bi)
             in Some ((set_block_info dev blk bi)\<lparr>hasPendingPrioritisedGCs := True\<rparr>))
          else Some dev }"

text \<open>\<open>tags\<close> is what the caller's struct holds before the call.\<close>

definition yaffs_ReadChunkWithTagsFromNAND ::
  "yaffs_Config \<Rightarrow> 'n yaffs_Device \<Rightarrow> int \<Rightarrow> bool \<Rightarrow> yaffs_ExtendedTags \<Rightarrow>
     (int \<times> u8 list \<times> yaffs_ExtendedTags \<times> 'n yaffs_Device) option" where
  "yaffs_ReadChunkWithTagsFromNAND cfg dev chunkInNAND want_data tags =
     (let realignedChunkInNAND = chunkInNAND - chunkOffset dev
      in do { (result, data, tags, dev) \<leftarrow>
                (case readChunkWithTagsFromNAND dev of
                   Some f \<Rightarrow>
                     (let (r, d, t, n) = f (genericDevice dev) realignedChunkInNAND want_data
                      in Some (r, d, t, dev\<lparr>genericDevice := n\<rparr>))
                 | None \<Rightarrow>
                     do { (r, d, t, dev) \<leftarrow> yaffs_TagsCompatabilityReadChunkWithTagsFromNAND (cfg_wrong_order cfg)
                            (cfg_unset_ecc cfg) dev realignedChunkInNAND want_data (Some tags);
                          Some (r, d, (case t of Some t \<Rightarrow> t | None \<Rightarrow> tags), dev) });
              dev \<leftarrow> (if eccResult tags > YAFFS_ECC_RESULT_NO_ERROR
                     then yaffs_HandleChunkError dev (cdiv chunkInNAND (nChunksPerBlock dev)) else Some dev);
              Some (result, data, tags, dev) })"

text \<open>The tags are given back as the callee leaves them; no caller passes NULL.\<close>

definition yaffs_WriteChunkWithTagsToNAND ::
  "yaffs_Config \<Rightarrow> 'n yaffs_Device \<Rightarrow> int \<Rightarrow> u8 list option \<Rightarrow> yaffs_ExtendedTags \<Rightarrow>
     (int \<times> yaffs_ExtendedTags \<times> 'n yaffs_Device) option" where
  "yaffs_WriteChunkWithTagsToNAND cfg dev chunkInNAND buffer tags =
     (let chunkInNAND = chunkInNAND - chunkOffset dev;
          tags = tags\<lparr>sequenceNumber := dev_sequenceNumber dev, chunkUsed := 1\<rparr>
      in case writeChunkWithTagsToNAND dev of
           Some f \<Rightarrow>
             (let (r, n) = f (genericDevice dev) chunkInNAND buffer tags in Some (r, tags, dev\<lparr>genericDevice := n\<rparr>))
         | None \<Rightarrow>
             do { (r, dev) \<leftarrow> yaffs_TagsCompatabilityWriteChunkWithTagsToNAND (cfg_wrong_order cfg) (cfg_unset_bits cfg)
                    dev chunkInNAND buffer tags;
                  Some (r, tags, dev) })"

definition yaffs_MarkBlockBad :: "'n yaffs_Device \<Rightarrow> int \<Rightarrow> (int \<times> 'n yaffs_Device) option" where
  "yaffs_MarkBlockBad dev blockNo =
     (let blockNo = blockNo - blockOffset dev
      in case markNANDBlockBad dev of
           Some f \<Rightarrow> (let (r, n) = f (genericDevice dev) blockNo in Some (r, dev\<lparr>genericDevice := n\<rparr>))
         | None \<Rightarrow> yaffs_TagsCompatabilityMarkNANDBlockBad dev blockNo)"

definition yaffs_QueryInitialBlockState ::
  "yaffs_Config \<Rightarrow> 'n yaffs_Device \<Rightarrow> int \<Rightarrow> (int \<times> yaffs_BlockState \<times> u32 \<times> 'n yaffs_Device) option" where
  "yaffs_QueryInitialBlockState cfg dev blockNo =
     (let blockNo = blockNo - blockOffset dev
      in case queryNANDBlock dev of
           Some f \<Rightarrow> (let (r, s, q, n) = f (genericDevice dev) blockNo in Some (r, s, q, dev\<lparr>genericDevice := n\<rparr>))
         | None \<Rightarrow> yaffs_TagsCompatabilityQueryNANDBlock (cfg_wrong_order cfg) dev blockNo)"

definition yaffs_EraseBlockInNAND :: "'n yaffs_Device \<Rightarrow> int \<Rightarrow> (int \<times> 'n yaffs_Device) option" where
  "yaffs_EraseBlockInNAND dev blockInNAND =
     (let blockInNAND = blockInNAND - blockOffset dev;
          dev = dev\<lparr>nBlockErasures := nBlockErasures dev + 1\<rparr>
      in do { f \<leftarrow> eraseBlockInNAND dev;
              let (r, n) = f (genericDevice dev) blockInNAND;
              Some (r, dev\<lparr>genericDevice := n\<rparr>) })"

definition yaffs_InitialiseNAND :: "'n yaffs_Device \<Rightarrow> (int \<times> 'n yaffs_Device) option" where
  "yaffs_InitialiseNAND dev =
     do { f \<leftarrow> initialiseNAND dev;
          let (r, n) = f (genericDevice dev);
          Some (r, dev\<lparr>genericDevice := n\<rparr>) }"

definition yaffs_CheckDevFunctions :: "'n yaffs_Device \<Rightarrow> bool" where
  "yaffs_CheckDevFunctions dev \<longleftrightarrow>
     (if eraseBlockInNAND dev = None \<or> initialiseNAND dev = None then False
      else if writeChunkWithTagsToNAND dev \<noteq> None \<and> readChunkWithTagsFromNAND dev \<noteq> None \<and>
              writeChunkToNAND dev = None \<and> readChunkFromNAND dev = None \<and> markNANDBlockBad dev \<noteq> None \<and>
              queryNANDBlock dev \<noteq> None then True
      else if \<not> isYaffs2 dev \<and> writeChunkToNAND dev \<noteq> None \<and> readChunkFromNAND dev \<noteq> None \<and>
              writeChunkWithTagsToNAND dev = None \<and> readChunkWithTagsFromNAND dev = None \<and>
              markNANDBlockBad dev = None \<and> queryNANDBlock dev = None then True
      else False)"

definition yaffs_CheckFF :: "u8 list \<Rightarrow> int \<Rightarrow> int option" where
  "yaffs_CheckFF buffer nBytes =
     (if nat nBytes \<le> length buffer then Some (if list_all (\<lambda>b. b = 0xFF) (take (nat nBytes) buffer) then 1 else 0) else None)"

definition yaffs_CheckChunkErased :: "yaffs_Config \<Rightarrow> 'n yaffs_Device \<Rightarrow> int \<Rightarrow> (int \<times> 'n yaffs_Device) option" where
  "yaffs_CheckChunkErased cfg dev chunkInNAND =
     (let (data, dev) = yaffs_GetTempBuffer dev 896
      in do { (_, bytes, tags, dev) \<leftarrow> yaffs_ReadChunkWithTagsFromNAND cfg dev chunkInNAND (data \<noteq> 0) (cfg_unset_tags cfg);
              let retval = (if eccResult tags > YAFFS_ECC_RESULT_NO_ERROR then YAFFS_FAIL else YAFFS_OK);
              ff \<leftarrow> (if data = 0 then None else yaffs_CheckFF bytes (nDataBytesPerChunk dev));
              let retval = (if ff = 0 \<or> chunkUsed tags \<noteq> 0 then YAFFS_FAIL else retval);
              Some (retval, yaffs_ReleaseTempBuffer dev data) })"

end
