(* ===== verification/Checkpt.thy ===== *)
theory Checkpt
  imports Nand
begin

section \<open>The checkpoint stream\<close>

text \<open>
  \<^verbatim>\<open>yaffs_checkptrw.c\<close>: a byte stream over erased blocks, to which the state of the file system is
  saved.  A block of the stream is in state CHECKPOINT; each page carries a running number in its tags and
  a hint where the next block is.  The block loops are recursions over the list of block numbers the
  loop visits.  A freshly allocated stream buffer is given as zeros; it is cleared before it is written
  from, and filled from the NAND before it is read from.
\<close>

definition yaffs_CheckpointSpaceOk :: "'n yaffs_Device \<Rightarrow> bool" where
  "yaffs_CheckpointSpaceOk dev \<longleftrightarrow> \<not> nErasedBlocks dev - nReservedBlocks dev \<le> 0"

primrec CheckpointErase_loop :: "int list \<Rightarrow> 'n yaffs_Device \<Rightarrow> 'n yaffs_Device option" where
  "CheckpointErase_loop [] dev = Some dev"
| "CheckpointErase_loop (i # is) dev =
     do { bi \<leftarrow> yaffs_GetBlockInfo dev i;
          if blockState bi = YAFFS_BLOCK_STATE_CHECKPOINT then do {
            f \<leftarrow> eraseBlockInNAND dev;
            let (r, n) = f (genericDevice dev) (i - blockOffset dev);
            let dev = dev\<lparr>genericDevice := n\<rparr>;
            if r \<noteq> 0 then
              CheckpointErase_loop is
                ((set_block_info dev i (bi\<lparr>blockState := YAFFS_BLOCK_STATE_EMPTY\<rparr>))
                   \<lparr>nErasedBlocks := nErasedBlocks dev + 1, nFreeChunks := nFreeChunks dev + nChunksPerBlock dev\<rparr>)
            else do {
              g \<leftarrow> markNANDBlockBad dev;
              let dev = dev\<lparr>genericDevice := snd (g (genericDevice dev) i)\<rparr>;
              CheckpointErase_loop is (set_block_info dev i (bi\<lparr>blockState := YAFFS_BLOCK_STATE_DEAD\<rparr>)) } }
          else CheckpointErase_loop is dev }"

definition yaffs_CheckpointErase :: "'n yaffs_Device \<Rightarrow> (int \<times> 'n yaffs_Device) option" where
  "yaffs_CheckpointErase dev =
     (if eraseBlockInNAND dev = None then Some (0, dev)
      else do { dev \<leftarrow> CheckpointErase_loop [internalStartBlock dev..internalEndBlock dev] dev;
                Some (1, dev\<lparr>blocksInCheckpoint := 0\<rparr>) })"

text \<open>The search loops return the block they stop at.\<close>

primrec find_state_loop :: "yaffs_BlockState \<Rightarrow> int list \<Rightarrow> 'n yaffs_Device \<Rightarrow> int option option" where
  "find_state_loop st [] dev = Some None"
| "find_state_loop st (i # is) dev =
     do { bi \<leftarrow> yaffs_GetBlockInfo dev i;
          if blockState bi = st then Some (Some i) else find_state_loop st is dev }"

definition yaffs_CheckpointFindNextErasedBlock :: "'n yaffs_Device \<Rightarrow> 'n yaffs_Device option" where
  "yaffs_CheckpointFindNextErasedBlock dev =
     (let blocksAvailable = nErasedBlocks dev - nReservedBlocks dev;
          none = dev\<lparr>checkpointNextBlock := -1, checkpointCurrentBlock := -1\<rparr>
      in if checkpointNextBlock dev \<ge> 0 \<and> checkpointNextBlock dev \<le> internalEndBlock dev \<and> blocksAvailable > 0 then
           do { found \<leftarrow> find_state_loop YAFFS_BLOCK_STATE_EMPTY [checkpointNextBlock dev..internalEndBlock dev] dev;
                Some (case found of
                        Some i \<Rightarrow> dev\<lparr>checkpointNextBlock := i + 1, checkpointCurrentBlock := i\<rparr>
                      | None \<Rightarrow> none) }
         else Some none)"

primrec FindNextCheckpointBlock_loop :: "int list \<Rightarrow> 'n yaffs_Device \<Rightarrow> 'n yaffs_Device option" where
  "FindNextCheckpointBlock_loop [] dev = Some (dev\<lparr>checkpointNextBlock := -1, checkpointCurrentBlock := -1\<rparr>)"
| "FindNextCheckpointBlock_loop (i # is) dev =
     do { f \<leftarrow> readChunkWithTagsFromNAND dev;
          let chunk = i * nChunksPerBlock dev;
          let (_, _, tags, n) = f (genericDevice dev) (chunk - chunkOffset dev) False;
          let dev = dev\<lparr>genericDevice := n\<rparr>;
          if sequenceNumber tags = YAFFS_SEQUENCE_CHECKPOINT_DATA then do {
            bl \<leftarrow> checkpointBlockList dev;
            if 0 \<le> blocksInCheckpoint dev \<and> blocksInCheckpoint dev < int (length bl) then
              Some (dev\<lparr>checkpointNextBlock := sint (objectId tags), checkpointCurrentBlock := i,
                        checkpointBlockList := Some (bl[nat (blocksInCheckpoint dev) := i]),
                        blocksInCheckpoint := blocksInCheckpoint dev + 1\<rparr>)
            else None }
          else FindNextCheckpointBlock_loop is dev }"

definition yaffs_CheckpointFindNextCheckpointBlock :: "'n yaffs_Device \<Rightarrow> 'n yaffs_Device option" where
  "yaffs_CheckpointFindNextCheckpointBlock dev =
     FindNextCheckpointBlock_loop
       (if blocksInCheckpoint dev < checkpointMaxBlocks dev then [checkpointNextBlock dev..internalEndBlock dev] else []) dev"

definition yaffs_CheckpointOpen :: "'n yaffs_Device \<Rightarrow> bool \<Rightarrow> (int \<times> 'n yaffs_Device) option" where
  "yaffs_CheckpointOpen dev forWriting =
     (if writeChunkWithTagsToNAND dev = None \<or> readChunkWithTagsFromNAND dev = None \<or> eraseBlockInNAND dev = None \<or>
         markNANDBlockBad dev = None then Some (0, dev)
      else if forWriting \<and> \<not> yaffs_CheckpointSpaceOk dev then Some (0, dev)
      else
        (let dev = (if checkpointBuffer dev = None then
                      (let (addr, dev) = YMALLOC dev
                       in dev\<lparr>checkpointBufferAddr := addr,
                              checkpointBuffer := (if addr = 0 then None else Some (replicate (nat (nDataBytesPerChunk dev)) 0))\<rparr>)
                    else dev)
         in case checkpointBuffer dev of
              None \<Rightarrow> Some (0, dev)
            | Some buf \<Rightarrow>
                (let dev = dev\<lparr>checkpointPageSequence := 0, checkpointOpenForWrite := forWriting, checkpointByteCount := 0,
                               checkpointSum := 0, checkpointXor := 0, checkpointCurrentBlock := -1,
                               checkpointCurrentChunk := -1, checkpointNextBlock := internalStartBlock dev\<rparr>
                 in if forWriting then
                      yaffs_CheckpointErase (dev\<lparr>checkpointBuffer := Some (replicate (nat (nDataBytesPerChunk dev)) 0),
                                                 checkpointByteOffset := 0\<rparr>)
                    else
                      (let maxBlocks = cdiv (internalEndBlock dev - internalStartBlock dev) 16 + 2;
                           (addr, dev) = YMALLOC (dev\<lparr>checkpointByteOffset := nDataBytesPerChunk dev,
                                                      blocksInCheckpoint := 0, checkpointMaxBlocks := maxBlocks\<rparr>)
                       in if addr = 0 then None
                          else Some (1, dev\<lparr>checkpointBlockList := Some (replicate (nat maxBlocks) (-1))\<rparr>)))))"

definition yaffs_GetCheckpointSum :: "'n yaffs_Device \<Rightarrow> u32" where
  "yaffs_GetCheckpointSum dev = push_bit 8 (checkpointSum dev) OR (checkpointXor dev AND 0xFF)"

text \<open>The tags the stream writes; the fields that the code does not set are the stack's.\<close>

definition checkpoint_tags :: "yaffs_Config \<Rightarrow> 'n yaffs_Device \<Rightarrow> yaffs_ExtendedTags" where
  "checkpoint_tags cfg dev = (cfg_unset_tags cfg)\<lparr>chunkDeleted := 0, objectId := word_of_int (checkpointNextBlock dev),
     chunkId := word_of_int (checkpointPageSequence dev + 1), sequenceNumber := YAFFS_SEQUENCE_CHECKPOINT_DATA,
     byteCount := word_of_int (nDataBytesPerChunk dev)\<rparr>"

definition yaffs_CheckpointFlushBuffer :: "yaffs_Config \<Rightarrow> 'n yaffs_Device \<Rightarrow> (int \<times> 'n yaffs_Device) option" where
  "yaffs_CheckpointFlushBuffer cfg dev =
     do { dev \<leftarrow> (if checkpointCurrentBlock dev < 0
                  then map_option (\<lambda>dev. dev\<lparr>checkpointCurrentChunk := 0\<rparr>) (yaffs_CheckpointFindNextErasedBlock dev)
                  else Some dev);
          if checkpointCurrentBlock dev < 0 then Some (0, dev)
          else do {
            let tags = checkpoint_tags cfg dev;
            dev \<leftarrow> (if checkpointCurrentChunk dev = 0 then do {
                      bi \<leftarrow> yaffs_GetBlockInfo dev (checkpointCurrentBlock dev);
                      Some ((set_block_info dev (checkpointCurrentBlock dev) (bi\<lparr>blockState := YAFFS_BLOCK_STATE_CHECKPOINT\<rparr>))
                              \<lparr>blocksInCheckpoint := blocksInCheckpoint dev + 1\<rparr>) }
                    else Some dev);
            let chunk = checkpointCurrentBlock dev * nChunksPerBlock dev + checkpointCurrentChunk dev;
            f \<leftarrow> writeChunkWithTagsToNAND dev;
            let dev = dev\<lparr>genericDevice := snd (f (genericDevice dev) (chunk - chunkOffset dev) (checkpointBuffer dev) tags),
                          checkpointByteOffset := 0, checkpointPageSequence := checkpointPageSequence dev + 1,
                          checkpointCurrentChunk := checkpointCurrentChunk dev + 1\<rparr>;
            let dev = (if checkpointCurrentChunk dev \<ge> nChunksPerBlock dev
                       then dev\<lparr>checkpointCurrentChunk := 0, checkpointCurrentBlock := -1\<rparr> else dev);
            Some (1, dev\<lparr>checkpointBuffer := Some (replicate (nat (nDataBytesPerChunk dev)) 0)\<rparr>) } }"

text \<open>
  The write loop returns the number of bytes it took.  It reads the caller's memory byte by byte, and that
  memory may be part of the device, which a flush changes: \<open>src\<close> gives its contents at each moment.
\<close>

primrec CheckpointWrite_loop :: "yaffs_Config \<Rightarrow> ('n yaffs_Device \<Rightarrow> u8 list) \<Rightarrow> nat list \<Rightarrow> int \<Rightarrow> 'n yaffs_Device \<Rightarrow> (int \<times> 'n yaffs_Device) option" where
  "CheckpointWrite_loop cfg src [] i dev = Some (i, dev)"
| "CheckpointWrite_loop cfg src (k # ks) i dev =
     do { buf \<leftarrow> checkpointBuffer dev;
          if k < length (src dev) \<and> 0 \<le> checkpointByteOffset dev \<and> checkpointByteOffset dev < int (length buf) then do {
            let b = src dev ! k;
            let dev = dev\<lparr>checkpointBuffer := Some (buf[nat (checkpointByteOffset dev) := b]),
                          checkpointSum := checkpointSum dev + ucast b, checkpointXor := checkpointXor dev XOR ucast b,
                          checkpointByteOffset := checkpointByteOffset dev + 1,
                          checkpointByteCount := checkpointByteCount dev + 1\<rparr>;
            (ok, dev) \<leftarrow> (if checkpointByteOffset dev < 0 \<or> checkpointByteOffset dev \<ge> nDataBytesPerChunk dev
                         then yaffs_CheckpointFlushBuffer cfg dev else Some (1, dev));
            if ok \<noteq> 0 then CheckpointWrite_loop cfg src ks (i + 1) dev else Some (i + 1, dev) }
          else None }"

definition yaffs_CheckpointWrite :: "yaffs_Config \<Rightarrow> 'n yaffs_Device \<Rightarrow> ('n yaffs_Device \<Rightarrow> u8 list) \<Rightarrow> nat \<Rightarrow> (int \<times> 'n yaffs_Device) option" where
  "yaffs_CheckpointWrite cfg dev src nBytes =
     (if checkpointBuffer dev = None then Some (0, dev)
      else if \<not> checkpointOpenForWrite dev then Some (-1, dev)
      else CheckpointWrite_loop cfg src [0..<nBytes] 0 dev)"

text \<open>Filling the buffer with the next page of the stream; the first component is \<open>ok\<close>.\<close>

definition CheckpointRead_fill :: "'n yaffs_Device \<Rightarrow> (bool \<times> 'n yaffs_Device) option" where
  "CheckpointRead_fill dev =
     do { dev \<leftarrow> (if checkpointCurrentBlock dev < 0
                  then map_option (\<lambda>dev. dev\<lparr>checkpointCurrentChunk := 0\<rparr>) (yaffs_CheckpointFindNextCheckpointBlock dev)
                  else Some dev);
          if checkpointCurrentBlock dev < 0 then Some (False, dev)
          else do {
            let chunk = checkpointCurrentBlock dev * nChunksPerBlock dev + checkpointCurrentChunk dev;
            f \<leftarrow> readChunkWithTagsFromNAND dev;
            let (_, data, tags, n) = f (genericDevice dev) (chunk - chunkOffset dev) True;
            let ok = (chunkId tags = word_of_int (checkpointPageSequence dev + 1) \<and>
                      sequenceNumber tags = YAFFS_SEQUENCE_CHECKPOINT_DATA);
            let dev = dev\<lparr>genericDevice := n, checkpointBuffer := Some data, checkpointByteOffset := 0,
                          checkpointPageSequence := checkpointPageSequence dev + 1,
                          checkpointCurrentChunk := checkpointCurrentChunk dev + 1\<rparr>;
            Some (ok, if checkpointCurrentChunk dev \<ge> nChunksPerBlock dev then dev\<lparr>checkpointCurrentBlock := -1\<rparr> else dev) } }"

text \<open>The read loop returns the bytes it delivered; their number is the result of the C function.\<close>

primrec CheckpointRead_loop :: "nat \<Rightarrow> 'n yaffs_Device \<Rightarrow> (u8 list \<times> 'n yaffs_Device) option" where
  "CheckpointRead_loop 0 dev = Some ([], dev)"
| "CheckpointRead_loop (Suc n) dev =
     do { (ok, dev) \<leftarrow> (if checkpointByteOffset dev < 0 \<or> checkpointByteOffset dev \<ge> nDataBytesPerChunk dev
                       then CheckpointRead_fill dev else Some (True, dev));
          if ok then do {
            buf \<leftarrow> checkpointBuffer dev;
            if checkpointByteOffset dev < int (length buf) then do {
              let b = buf ! nat (checkpointByteOffset dev);
              (bs, dev) \<leftarrow> CheckpointRead_loop n
                 (dev\<lparr>checkpointSum := checkpointSum dev + ucast b, checkpointXor := checkpointXor dev XOR ucast b,
                      checkpointByteOffset := checkpointByteOffset dev + 1,
                      checkpointByteCount := checkpointByteCount dev + 1\<rparr>);
              Some (b # bs, dev) }
            else None }
          else Some ([], dev) }"

definition yaffs_CheckpointRead :: "'n yaffs_Device \<Rightarrow> nat \<Rightarrow> (int \<times> u8 list \<times> 'n yaffs_Device) option" where
  "yaffs_CheckpointRead dev nBytes =
     (if checkpointBuffer dev = None then Some (0, [], dev)
      else if checkpointOpenForWrite dev then Some (-1, [], dev)
      else do { (bs, dev) \<leftarrow> CheckpointRead_loop nBytes dev; Some (int (length bs), bs, dev) })"

primrec CheckpointClose_loop :: "nat \<Rightarrow> nat \<Rightarrow> 'n yaffs_Device \<Rightarrow> 'n yaffs_Device option" where
  "CheckpointClose_loop 0 i dev = Some dev"
| "CheckpointClose_loop (Suc todo) i dev =
     do { bl \<leftarrow> checkpointBlockList dev;
          if i < length bl then
            if bl ! i \<ge> 0 then do {
              bi \<leftarrow> yaffs_GetBlockInfo dev (bl ! i);
              CheckpointClose_loop todo (i + 1)
                (if blockState bi = YAFFS_BLOCK_STATE_EMPTY
                 then set_block_info dev (bl ! i) (bi\<lparr>blockState := YAFFS_BLOCK_STATE_CHECKPOINT\<rparr>) else dev) }
            else Some dev
          else None }"

definition yaffs_CheckpointClose :: "yaffs_Config \<Rightarrow> 'n yaffs_Device \<Rightarrow> (int \<times> 'n yaffs_Device) option" where
  "yaffs_CheckpointClose cfg dev =
     do { dev \<leftarrow> (if checkpointOpenForWrite dev then
                    (if checkpointByteOffset dev \<noteq> 0 then map_option snd (yaffs_CheckpointFlushBuffer cfg dev) else Some dev)
                  else map_option (\<lambda>dev. dev\<lparr>checkpointBlockList := None\<rparr>)
                         (CheckpointClose_loop (nat (blocksInCheckpoint dev)) 0 dev));
          let dev = dev\<lparr>nFreeChunks := nFreeChunks dev - blocksInCheckpoint dev * nChunksPerBlock dev,
                        nErasedBlocks := nErasedBlocks dev - blocksInCheckpoint dev\<rparr>;
          if checkpointBuffer dev \<noteq> None then Some (1, dev\<lparr>checkpointBuffer := None, checkpointBufferAddr := 0\<rparr>)
          else Some (0, dev) }"

definition yaffs_CheckpointInvalidateStream :: "'n yaffs_Device \<Rightarrow> (int \<times> 'n yaffs_Device) option" where
  "yaffs_CheckpointInvalidateStream dev =
     (if \<not> yaffs_CheckpointSpaceOk dev then Some (0, dev) else yaffs_CheckpointErase dev)"

definition yaffs_InvalidateCheckpoint :: "'n yaffs_Device \<Rightarrow> 'n yaffs_Device option" where
  "yaffs_InvalidateCheckpoint dev =
     (if isCheckpointed dev \<or> blocksInCheckpoint dev > 0 then do {
        (_, dev) \<leftarrow> yaffs_CheckpointInvalidateStream (dev\<lparr>isCheckpointed := False\<rparr>);
        Some (if superBlock dev \<and> markSuperBlockDirty dev then dev\<lparr>superBlockDirty := True\<rparr> else dev) }
      else Some dev)"

end
