(* ===== verification/Blocks.thy ===== *)
theory Blocks
  imports Checkpt
begin

section \<open>Block management\<close>

text \<open>
  The block manager of \<^verbatim>\<open>yaffs_guts.c\<close>: setting the block tables up, choosing a block to
  allocate from and to garbage-collect, allocating and deleting chunks, erasing and retiring blocks,
  writing a new chunk.  The two verification-only trace calls are left out.  \<open>yaffs_WriteNewChunkWithTagsToNAND\<close>
  is a loop that may in principle not end: it is a \<open>partial_function\<close>, \<open>None\<close> also when it does not
  return.
\<close>

definition zero_block_info :: yaffs_BlockInfo where
  "zero_block_info = \<lparr>softDeletions = 0, pagesInUse = 0, blockState = YAFFS_BLOCK_STATE_UNKNOWN, needsRetiring = False,
     skipErasedCheck = False, gcPrioritise = False, chunkErrorStrikes = 0, hasShrinkHeader = False, bi_sequenceNumber = 0\<rparr>"

text \<open>
  An allocation that fails is tried again with the alternative allocator.  A table that was not allocated
  is the empty list.
\<close>

definition alloc_alt :: "'n yaffs_Device \<Rightarrow> nat \<times> bool \<times> 'n yaffs_Device" where
  "alloc_alt dev = (let (a, dev) = YMALLOC dev
     in if a = 0 then (let (a, dev) = YMALLOC dev in (a, True, dev)) else (a, False, dev))"

definition yaffs_InitialiseBlocks :: "'n yaffs_Device \<Rightarrow> int \<times> 'n yaffs_Device" where
  "yaffs_InitialiseBlocks dev =
     (let nBlocks = internalEndBlock dev - internalStartBlock dev + 1;
          dev = dev\<lparr>blockInfo := [], chunkBits := [], allocationBlock := -1\<rparr>;
          (bia, alt, dev) = alloc_alt dev;
          dev = dev\<lparr>blockInfoAlt := alt\<rparr>
      in if bia \<noteq> 0 then
           (let dev = dev\<lparr>chunkBitmapStride := cdiv (nChunksPerBlock dev + 7) 8\<rparr>;
                (cba, alt, dev) = alloc_alt dev;
                dev = dev\<lparr>chunkBitsAlt := alt\<rparr>
            in if cba \<noteq> 0 then
                 (YAFFS_OK, dev\<lparr>blockInfo := replicate (nat nBlocks) zero_block_info,
                                chunkBits := replicate (nat (chunkBitmapStride dev * nBlocks)) 0\<rparr>)
               else (YAFFS_FAIL, dev))
         else (YAFFS_FAIL, dev))"

definition yaffs_DeinitialiseBlocks :: "'n yaffs_Device \<Rightarrow> 'n yaffs_Device" where
  "yaffs_DeinitialiseBlocks dev = dev\<lparr>blockInfoAlt := False, blockInfo := [], chunkBitsAlt := False, chunkBits := []\<rparr>"

subsection \<open>Garbage collection candidates\<close>

primrec oldest_dirty_loop :: "int list \<Rightarrow> 'n yaffs_Device \<Rightarrow> u32 \<Rightarrow> u32 option" where
  "oldest_dirty_loop [] dev seq = Some seq"
| "oldest_dirty_loop (i # is) dev seq =
     do { b \<leftarrow> yaffs_GetBlockInfo dev i;
          oldest_dirty_loop is dev
            (if blockState b = YAFFS_BLOCK_STATE_FULL \<and> pagesInUse b - softDeletions b < nChunksPerBlock dev \<and>
                bi_sequenceNumber b < seq then bi_sequenceNumber b else seq) }"

definition yaffs_BlockNotDisqualifiedFromGC :: "'n yaffs_Device \<Rightarrow> yaffs_BlockInfo \<Rightarrow> (bool \<times> 'n yaffs_Device) option" where
  "yaffs_BlockNotDisqualifiedFromGC dev bi =
     (if \<not> isYaffs2 dev then Some (True, dev)
      else if \<not> hasShrinkHeader bi then Some (True, dev)
      else do {
        dev \<leftarrow> (if oldestDirtySequence dev = 0 then do {
                  seq \<leftarrow> oldest_dirty_loop [internalStartBlock dev..internalEndBlock dev] dev (dev_sequenceNumber dev);
                  Some (dev\<lparr>oldestDirtySequence := seq\<rparr>) }
                else Some dev);
        Some (bi_sequenceNumber bi \<le> oldestDirtySequence dev, dev) })"

text \<open>
  The search for a prioritised block: the result is whether one is pending, the block taken with its
  pages in use, and the device.
\<close>

primrec prioritised_loop :: "int list \<Rightarrow> bool \<Rightarrow> 'n yaffs_Device \<Rightarrow> (bool \<times> (int \<times> int) option \<times> 'n yaffs_Device) option" where
  "prioritised_loop [] pending dev = Some (pending, None, dev)"
| "prioritised_loop (i # is) pending dev =
     do { bi \<leftarrow> yaffs_GetBlockInfo dev i;
          if gcPrioritise bi then
            if blockState bi = YAFFS_BLOCK_STATE_FULL then do {
              (ok, dev) \<leftarrow> yaffs_BlockNotDisqualifiedFromGC dev bi;
              if ok then Some (True, Some (i, pagesInUse bi - softDeletions bi), dev)
              else prioritised_loop is True dev }
            else prioritised_loop is True dev
          else prioritised_loop is pending dev }"

primrec dirtiest_loop :: "nat \<Rightarrow> int \<Rightarrow> int \<Rightarrow> int \<Rightarrow> 'n yaffs_Device \<Rightarrow> (int \<times> int \<times> 'n yaffs_Device) option" where
  "dirtiest_loop 0 b pages dirtiest dev = Some (b, dirtiest, dev)"
| "dirtiest_loop (Suc n) b pages dirtiest dev =
     (if pages > 0 then
        (let b = b + 1;
             b = (if b < internalStartBlock dev \<or> b > internalEndBlock dev then internalStartBlock dev else b)
         in do { bi \<leftarrow> yaffs_GetBlockInfo dev b;
                 (ok, dev) \<leftarrow> (if blockState bi = YAFFS_BLOCK_STATE_FULL \<and> pagesInUse bi - softDeletions bi < pages
                              then yaffs_BlockNotDisqualifiedFromGC dev bi else Some (False, dev));
                 if ok then dirtiest_loop n b (pagesInUse bi - softDeletions bi) b dev
                 else dirtiest_loop n b pages dirtiest dev })
      else Some (b, dirtiest, dev))"

definition YAFFS_PASSIVE_GC_CHUNKS :: int where
  "YAFFS_PASSIVE_GC_CHUNKS = 2"

definition yaffs_FindBlockForGarbageCollection :: "'n yaffs_Device \<Rightarrow> bool \<Rightarrow> (int \<times> 'n yaffs_Device) option" where
  "yaffs_FindBlockForGarbageCollection dev aggressive =
     do { let b = currentDirtyChecker dev;
          (prio, dev) \<leftarrow>
            (if hasPendingPrioritisedGCs dev then do {
               (pending, found, dev) \<leftarrow> prioritised_loop [internalStartBlock dev..internalEndBlock dev - 1] False dev;
               Some (found, if \<not> pending then dev\<lparr>hasPendingPrioritisedGCs := False\<rparr> else dev) }
             else Some (None, dev));
          let aggressive = (aggressive \<or> prio \<noteq> None);
          let dev = dev\<lparr>nonAggressiveSkip := nonAggressiveSkip dev - 1\<rparr>;
          if \<not> aggressive \<and> nonAggressiveSkip dev > 0 then Some (-1, dev)
          else do {
            let pages = (case prio of Some (_, p) \<Rightarrow> p
                         | None \<Rightarrow> if aggressive then nChunksPerBlock dev else YAFFS_PASSIVE_GC_CHUNKS + 1);
            let n = internalEndBlock dev - internalStartBlock dev + 1;
            let iterations = (if aggressive then n else min (cdiv n 16) 200);
            (b, dirtiest, dev) \<leftarrow>
              (case prio of Some (d, _) \<Rightarrow> Some (b, d, dev)
               | None \<Rightarrow> dirtiest_loop (nat (iterations + 1)) b pages (-1) dev);
            let dev = dev\<lparr>currentDirtyChecker := b, oldestDirtySequence := 0\<rparr>;
            Some (dirtiest, if dirtiest > 0 then dev\<lparr>nonAggressiveSkip := 4\<rparr> else dev) } }"

subsection \<open>Erasing and retiring\<close>

definition yaffs_RetireBlock :: "'n yaffs_Device \<Rightarrow> int \<Rightarrow> 'n yaffs_Device option" where
  "yaffs_RetireBlock dev blockInNAND =
     do { dev \<leftarrow> yaffs_InvalidateCheckpoint dev;
          (_, dev) \<leftarrow> yaffs_MarkBlockBad dev blockInNAND;
          bi \<leftarrow> yaffs_GetBlockInfo dev blockInNAND;
          Some ((set_block_info dev blockInNAND
                   (bi\<lparr>blockState := YAFFS_BLOCK_STATE_DEAD, gcPrioritise := False, needsRetiring := False\<rparr>))
                  \<lparr>nRetiredBlocks := nRetiredBlocks dev + 1\<rparr>) }"

text \<open>The check after an erasure, done when verification or erase tracing is on; it only traces.\<close>

primrec check_erased_loop :: "yaffs_Config \<Rightarrow> int list \<Rightarrow> 'n yaffs_Device \<Rightarrow> 'n yaffs_Device option" where
  "check_erased_loop cfg [] dev = Some dev"
| "check_erased_loop cfg (c # cs) dev = do { (_, dev) \<leftarrow> yaffs_CheckChunkErased cfg dev c; check_erased_loop cfg cs dev }"

definition yaffs_BlockBecameDirty :: "yaffs_Config \<Rightarrow> 'n yaffs_Device \<Rightarrow> int \<Rightarrow> 'n yaffs_Device option" where
  "yaffs_BlockBecameDirty cfg dev blockNo =
     do { bi \<leftarrow> yaffs_GetBlockInfo dev blockNo;
          let dev = set_block_info dev blockNo (bi\<lparr>blockState := YAFFS_BLOCK_STATE_DIRTY\<rparr>);
          (erasedOk, dev) \<leftarrow>
            (if \<not> needsRetiring bi then do {
               dev \<leftarrow> yaffs_InvalidateCheckpoint dev;
               (r, dev) \<leftarrow> yaffs_EraseBlockInNAND dev blockNo;
               Some (r \<noteq> 0, if r = 0 then dev\<lparr>nErasureFailures := nErasureFailures dev + 1\<rparr> else dev) }
             else Some (False, dev));
          dev \<leftarrow> (if erasedOk \<and> cfg_verify_erase cfg
                 then check_erased_loop cfg [blockNo * nChunksPerBlock dev..blockNo * nChunksPerBlock dev + nChunksPerBlock dev - 1] dev
                 else Some dev);
          if erasedOk then do {
            bi \<leftarrow> yaffs_GetBlockInfo dev blockNo;
            let dev = (set_block_info dev blockNo
                         (bi\<lparr>blockState := YAFFS_BLOCK_STATE_EMPTY, pagesInUse := 0, softDeletions := 0,
                             hasShrinkHeader := False, skipErasedCheck := True, gcPrioritise := False\<rparr>))
                        \<lparr>nErasedBlocks := nErasedBlocks dev + 1\<rparr>;
            yaffs_ClearChunkBits dev blockNo }
          else yaffs_RetireBlock (dev\<lparr>nFreeChunks := nFreeChunks dev - nChunksPerBlock dev\<rparr>) blockNo }"

subsection \<open>Allocation\<close>

primrec FindBlockForAllocation_loop :: "nat \<Rightarrow> 'n yaffs_Device \<Rightarrow> (int \<times> 'n yaffs_Device) option" where
  "FindBlockForAllocation_loop 0 dev = Some (-1, dev)"
| "FindBlockForAllocation_loop (Suc n) dev =
     (let f = allocationBlockFinder dev + 1;
          f = (if f < internalStartBlock dev \<or> f > internalEndBlock dev then internalStartBlock dev else f);
          dev = dev\<lparr>allocationBlockFinder := f\<rparr>
      in do { bi \<leftarrow> yaffs_GetBlockInfo dev f;
              if blockState bi = YAFFS_BLOCK_STATE_EMPTY then
                (let seq = dev_sequenceNumber dev + 1
                 in Some (f, (set_block_info dev f (bi\<lparr>blockState := YAFFS_BLOCK_STATE_ALLOCATING, bi_sequenceNumber := seq\<rparr>))
                               \<lparr>dev_sequenceNumber := seq, nErasedBlocks := nErasedBlocks dev - 1\<rparr>))
              else FindBlockForAllocation_loop n dev })"

definition yaffs_FindBlockForAllocation :: "'n yaffs_Device \<Rightarrow> (int \<times> 'n yaffs_Device) option" where
  "yaffs_FindBlockForAllocation dev =
     (if nErasedBlocks dev < 1 then Some (-1, dev)
      else FindBlockForAllocation_loop (nat (internalEndBlock dev - internalStartBlock dev + 1)) dev)"

definition yaffs_CheckSpaceForAllocation :: "'n yaffs_Device \<Rightarrow> bool" where
  "yaffs_CheckSpaceForAllocation dev \<longleftrightarrow>
     (let checkpointBlocks = nCheckpointReservedBlocks dev - blocksInCheckpoint dev;
          checkpointBlocks = (if checkpointBlocks < 0 then 0 else checkpointBlocks);
          reservedChunks = (nReservedBlocks dev + checkpointBlocks) * nChunksPerBlock dev
      in nFreeChunks dev > reservedChunks)"

text \<open>The result is the chunk (or -1) and the block it is in, which the caller gets through \<open>blockUsedPtr\<close>.\<close>

definition yaffs_AllocateChunk :: "'n yaffs_Device \<Rightarrow> bool \<Rightarrow> (int \<times> int \<times> 'n yaffs_Device) option" where
  "yaffs_AllocateChunk dev useReserve =
     do { dev \<leftarrow> (if allocationBlock dev < 0 then do {
                    (b, dev) \<leftarrow> yaffs_FindBlockForAllocation dev;
                    Some (dev\<lparr>allocationBlock := b, allocationPage := 0\<rparr>) }
                 else Some dev);
          if \<not> useReserve \<and> \<not> yaffs_CheckSpaceForAllocation dev then Some (-1, -1, dev)
          else if allocationBlock dev \<ge> 0 then do {
            let blk = allocationBlock dev;
            bi \<leftarrow> yaffs_GetBlockInfo dev blk;
            let retVal = blk * nChunksPerBlock dev + uint (allocationPage dev);
            let bi = bi\<lparr>pagesInUse := int10 (pagesInUse bi + 1)\<rparr>;
            dev \<leftarrow> yaffs_SetChunkBit (set_block_info dev blk bi) blk (uint (allocationPage dev));
            let dev = dev\<lparr>allocationPage := allocationPage dev + 1, nFreeChunks := nFreeChunks dev - 1\<rparr>;
            let dev = (if uint (allocationPage dev) \<ge> nChunksPerBlock dev
                       then (set_block_info dev blk (bi\<lparr>blockState := YAFFS_BLOCK_STATE_FULL\<rparr>))\<lparr>allocationBlock := -1\<rparr>
                       else dev);
            Some (retVal, blk, dev) }
          else Some (-1, -1, dev) }"

definition yaffs_GetErasedChunks :: "'n yaffs_Device \<Rightarrow> int" where
  "yaffs_GetErasedChunks dev =
     (let n = nErasedBlocks dev * nChunksPerBlock dev
      in if allocationBlock dev > 0 then n + (nChunksPerBlock dev - uint (allocationPage dev)) else n)"

subsection \<open>Deleting and writing chunks\<close>

definition yaffs_DeleteChunk :: "yaffs_Config \<Rightarrow> 'n yaffs_Device \<Rightarrow> int \<Rightarrow> bool \<Rightarrow> 'n yaffs_Device option" where
  "yaffs_DeleteChunk cfg dev chunk markNAND =
     (if chunk \<le> 0 then Some dev
      else do {
        let dev = dev\<lparr>nDeletions := nDeletions dev + 1\<rparr>;
        let block = cdiv chunk (nChunksPerBlock dev);
        let page = cmod chunk (nChunksPerBlock dev);
        _ \<leftarrow> yaffs_CheckChunkBit dev block page;
        bi \<leftarrow> yaffs_GetBlockInfo dev block;
        dev \<leftarrow> (if markNAND \<and> blockState bi \<noteq> YAFFS_BLOCK_STATE_COLLECTING \<and> \<not> isYaffs2 dev then
                  map_option (snd \<circ> snd)
                    (yaffs_WriteChunkWithTagsToNAND cfg dev chunk None (yaffs_InitialiseTags\<lparr>chunkDeleted := 1\<rparr>))
                else Some (dev\<lparr>nUnmarkedDeletions := nUnmarkedDeletions dev + 1\<rparr>));
        if blockState bi \<in> {YAFFS_BLOCK_STATE_ALLOCATING, YAFFS_BLOCK_STATE_FULL,
                            YAFFS_BLOCK_STATE_NEEDS_SCANNING, YAFFS_BLOCK_STATE_COLLECTING} then do {
          dev \<leftarrow> yaffs_ClearChunkBit (dev\<lparr>nFreeChunks := nFreeChunks dev + 1\<rparr>) block page;
          let bi = bi\<lparr>pagesInUse := int10 (pagesInUse bi - 1)\<rparr>;
          let dev = set_block_info dev block bi;
          if pagesInUse bi = 0 \<and> \<not> hasShrinkHeader bi \<and> blockState bi \<noteq> YAFFS_BLOCK_STATE_ALLOCATING \<and>
             blockState bi \<noteq> YAFFS_BLOCK_STATE_NEEDS_SCANNING
          then yaffs_BlockBecameDirty cfg dev block
          else Some dev }
        else Some dev })"

definition yaffs_SoftDeleteChunk :: "'n yaffs_Device \<Rightarrow> int \<Rightarrow> 'n yaffs_Device option" where
  "yaffs_SoftDeleteChunk dev chunk =
     do { let blk = cdiv chunk (nChunksPerBlock dev);
          bi \<leftarrow> yaffs_GetBlockInfo dev blk;
          Some ((set_block_info dev blk (bi\<lparr>softDeletions := int10 (softDeletions bi + 1)\<rparr>))\<lparr>nFreeChunks := nFreeChunks dev + 1\<rparr>) }"

definition yaffs_HandleWriteChunkError :: "yaffs_Config \<Rightarrow> 'n yaffs_Device \<Rightarrow> int \<Rightarrow> int \<Rightarrow> 'n yaffs_Device option" where
  "yaffs_HandleWriteChunkError cfg dev chunkInNAND erasedOk =
     do { let blk = cdiv chunkInNAND (nChunksPerBlock dev);
          dev \<leftarrow> yaffs_HandleChunkError dev blk;
          bi \<leftarrow> yaffs_GetBlockInfo dev blk;
          let dev = (if erasedOk \<noteq> 0 then set_block_info dev blk (bi\<lparr>needsRetiring := True\<rparr>) else dev);
          yaffs_DeleteChunk cfg dev chunkInNAND True }"

text \<open>
  One attempt of the write loop.  The result is the chunk, whether the write succeeded, whether the loop
  is left because there is no space, the count of attempts and the device with the caller's tags.
\<close>

definition write_attempt ::
  "yaffs_Config \<Rightarrow> u8 list \<Rightarrow> bool \<Rightarrow> int \<Rightarrow> yaffs_ExtendedTags \<Rightarrow> 'n yaffs_Device \<Rightarrow>
     (int \<times> bool \<times> bool \<times> int \<times> yaffs_ExtendedTags \<times> 'n yaffs_Device) option" where
  "write_attempt cfg data useReserve attempts tags dev =
     do { (chunk, blk, dev) \<leftarrow> yaffs_AllocateChunk dev useReserve;
          if chunk < 0 then Some (chunk, False, True, attempts, tags, dev)
          else do {
            bi \<leftarrow> yaffs_GetBlockInfo dev blk;
            if gcPrioritise bi then do {
              dev \<leftarrow> yaffs_DeleteChunk cfg dev chunk True;
              Some (chunk, False, False, attempts, tags, dev) }
            else do {
              let attempts = attempts + 1;
              let bi = (if cfg_always_check_erased cfg then bi\<lparr>skipErasedCheck := False\<rparr> else bi);
              let dev = set_block_info dev blk bi;
              (erasedOk, go, dev) \<leftarrow>
                (if \<not> skipErasedCheck bi then do {
                   (e, dev) \<leftarrow> yaffs_CheckChunkErased cfg dev chunk;
                   if e \<noteq> YAFFS_OK then Some (e, False, dev)
                   else do { bi \<leftarrow> yaffs_GetBlockInfo dev blk;
                             Some (e, True, set_block_info dev blk (bi\<lparr>skipErasedCheck := True\<rparr>)) } }
                 else Some (0, True, dev));
              if \<not> go then Some (chunk, False, False, attempts, tags, dev)
              else do {
                (writeOk, tags, dev) \<leftarrow> yaffs_WriteChunkWithTagsToNAND cfg dev chunk (Some data) tags;
                if writeOk \<noteq> YAFFS_OK then do {
                  dev \<leftarrow> yaffs_HandleWriteChunkError cfg dev chunk erasedOk;
                  Some (chunk, False, False, attempts, tags, dev) }
                else Some (chunk, True, False, attempts, tags, dev) } } } }"

partial_function (option) write_loop ::
  "yaffs_Config \<Rightarrow> u8 list \<Rightarrow> bool \<Rightarrow> int \<Rightarrow> yaffs_ExtendedTags \<Rightarrow> 'n yaffs_Device \<Rightarrow>
     (int \<times> int \<times> yaffs_ExtendedTags \<times> 'n yaffs_Device) option" where
  "write_loop cfg data useReserve attempts tags dev =
     Option.bind (write_attempt cfg data useReserve attempts tags dev)
       (\<lambda>(chunk, writeOk, leave, attempts, tags, dev).
          if leave \<or> writeOk \<or> \<not> attempts < cfg_wr_attempts cfg then Some (chunk, attempts, tags, dev)
          else write_loop cfg data useReserve attempts tags dev)"

definition yaffs_WriteNewChunkWithTagsToNAND ::
  "yaffs_Config \<Rightarrow> 'n yaffs_Device \<Rightarrow> u8 list \<Rightarrow> yaffs_ExtendedTags \<Rightarrow> bool \<Rightarrow>
     (int \<times> yaffs_ExtendedTags \<times> 'n yaffs_Device) option" where
  "yaffs_WriteNewChunkWithTagsToNAND cfg dev data tags useReserve =
     do { dev \<leftarrow> yaffs_InvalidateCheckpoint dev;
          (chunk, attempts, tags, dev) \<leftarrow> write_loop cfg data useReserve 0 tags dev;
          Some (chunk, tags, if attempts > 1 then dev\<lparr>nRetriedWrites := nRetriedWrites dev + (attempts - 1)\<rparr> else dev) }"

subsection \<open>Counting free chunks\<close>

definition free_of_block :: "int \<Rightarrow> yaffs_BlockInfo \<Rightarrow> int" where
  "free_of_block chunks blk =
     (if blockState blk \<in> {YAFFS_BLOCK_STATE_EMPTY, YAFFS_BLOCK_STATE_ALLOCATING, YAFFS_BLOCK_STATE_COLLECTING,
                          YAFFS_BLOCK_STATE_FULL}
      then chunks - pagesInUse blk + softDeletions blk else 0)"

primrec CountFreeChunks_loop :: "int list \<Rightarrow> 'n yaffs_Device \<Rightarrow> int \<Rightarrow> int option" where
  "CountFreeChunks_loop [] dev n = Some n"
| "CountFreeChunks_loop (b # bs) dev n =
     do { blk \<leftarrow> yaffs_GetBlockInfo dev b; CountFreeChunks_loop bs dev (n + free_of_block (nChunksPerBlock dev) blk) }"

definition yaffs_CountFreeChunks :: "'n yaffs_Device \<Rightarrow> int option" where
  "yaffs_CountFreeChunks dev = CountFreeChunks_loop [internalStartBlock dev..internalEndBlock dev] dev 0"

definition yaffs_GetNumberOfFreeChunks :: "'n yaffs_Device \<Rightarrow> int" where
  "yaffs_GetNumberOfFreeChunks dev =
     (let nFree = nFreeChunks dev + nDeletedFiles dev;
          nDirtyCacheChunks = int (length (filter cc_dirty (take (nat (nShortOpCaches dev)) (srCache dev))));
          nFree = nFree - nDirtyCacheChunks;
          nFree = nFree - (nReservedBlocks dev + 1) * nChunksPerBlock dev;
          blocksForCheckpoint = nCheckpointReservedBlocks dev - blocksInCheckpoint dev;
          blocksForCheckpoint = (if blocksForCheckpoint < 0 then 0 else blocksForCheckpoint);
          nFree = nFree - blocksForCheckpoint * nChunksPerBlock dev
      in if nFree < 0 then 0 else nFree)"

end
