(* ===== verification/BlockInv.thy ===== *)
theory BlockInv
  imports Blocks
begin

section \<open>The invariant of the block tables\<close>

text \<open>
  What the block manager keeps true between operations (the run-time checks of \<open>yaffs_VerifyBlock\<close>,
  \<open>yaffs_VerifyBlocks\<close> and \<open>yaffs_VerifyFreeChunks\<close> test parts of it): the counters of erased blocks and
  of free chunks agree with the block table, the count of pages in use of each block agrees with the
  bitmap, and there is at most one allocating block, whose pages from the allocation page on are free.
\<close>

definition erased_count :: "yaffs_BlockInfo list \<Rightarrow> int" where
  "erased_count bis = sum_list (map (\<lambda>b. of_bool (blockState b = YAFFS_BLOCK_STATE_EMPTY)) bis)"

definition free_sum :: "int \<Rightarrow> yaffs_BlockInfo list \<Rightarrow> int" where
  "free_sum chunks bis = sum_list (map (free_of_block chunks) bis)"

definition block_ok :: "'n yaffs_Device \<Rightarrow> int \<Rightarrow> yaffs_BlockInfo \<Rightarrow> bool" where
  "block_ok dev blk bi \<longleftrightarrow> 0 \<le> softDeletions bi \<and> softDeletions bi \<le> pagesInUse bi \<and>
     pagesInUse bi = int (card (chunks_in_use dev blk)) \<and>
     (blockState bi \<in> {YAFFS_BLOCK_STATE_EMPTY, YAFFS_BLOCK_STATE_CHECKPOINT} \<longrightarrow> pagesInUse bi = 0) \<and>
     (blockState bi = YAFFS_BLOCK_STATE_ALLOCATING \<longrightarrow> blk = allocationBlock dev)"

definition alloc_ok :: "'n yaffs_Device \<Rightarrow> bool" where
  "alloc_ok dev \<longleftrightarrow> (0 \<le> allocationBlock dev \<longrightarrow>
     (\<exists>bi. yaffs_GetBlockInfo dev (allocationBlock dev) = Some bi \<and> blockState bi = YAFFS_BLOCK_STATE_ALLOCATING) \<and>
     uint (allocationPage dev) < nChunksPerBlock dev \<and>
     (\<forall>c \<in> chunks_in_use dev (allocationBlock dev). int c < uint (allocationPage dev)))"

text \<open>
  While a block is being erased or retired its chunks are counted as free although no block of the
  table accounts for them: \<open>k\<close> is that number.
\<close>

definition block_inv_off :: "int \<Rightarrow> 'n yaffs_Device \<Rightarrow> bool" where
  "block_inv_off k dev \<longleftrightarrow> wf_bitmap dev \<and> padding_clear dev \<and> nChunksPerBlock dev < 512 \<and> 0 < internalStartBlock dev \<and>
     int (length (blockInfo dev)) = nblocks dev \<and>
     (\<forall>blk bi. yaffs_GetBlockInfo dev blk = Some bi \<longrightarrow> block_ok dev blk bi) \<and>
     nErasedBlocks dev = erased_count (blockInfo dev) \<and> nFreeChunks dev = free_sum (nChunksPerBlock dev) (blockInfo dev) + k \<and>
     alloc_ok dev"

abbreviation block_inv :: "'n yaffs_Device \<Rightarrow> bool" where
  "block_inv \<equiv> block_inv_off 0"

lemma block_invI:
  assumes "wf_bitmap dev" "padding_clear dev" "nChunksPerBlock dev < 512" "0 < internalStartBlock dev"
    "int (length (blockInfo dev)) = nblocks dev" "\<And>blk bi. yaffs_GetBlockInfo dev blk = Some bi \<Longrightarrow> block_ok dev blk bi"
    "nErasedBlocks dev = erased_count (blockInfo dev)" "nFreeChunks dev = free_sum (nChunksPerBlock dev) (blockInfo dev) + k" "alloc_ok dev"
  shows "block_inv_off k dev"
  unfolding block_inv_off_def using assms by blast

lemma block_invD:
  assumes "block_inv_off k dev"
  shows "wf_bitmap dev" "padding_clear dev" "nChunksPerBlock dev < 512" "0 < internalStartBlock dev"
    "int (length (blockInfo dev)) = nblocks dev" "\<And>blk bi. yaffs_GetBlockInfo dev blk = Some bi \<Longrightarrow> block_ok dev blk bi"
    "nErasedBlocks dev = erased_count (blockInfo dev)" "nFreeChunks dev = free_sum (nChunksPerBlock dev) (blockInfo dev) + k" "alloc_ok dev"
  using assms unfolding block_inv_off_def by blast+

subsection \<open>What the invariant depends on\<close>

definition bits_view :: "'n yaffs_Device \<Rightarrow> u8 list \<times> int \<times> int \<times> int \<times> int" where
  "bits_view dev = (chunkBits dev, chunkBitmapStride dev, internalStartBlock dev, internalEndBlock dev, nChunksPerBlock dev)"

lemma bits_view_cong:
  assumes "bits_view dev' = bits_view dev"
  shows "wf_bitmap dev' = wf_bitmap dev" "padding_clear dev' = padding_clear dev" "chunks_in_use dev' = chunks_in_use dev"
    "valid_chunk dev' = valid_chunk dev" "valid_block dev' = valid_block dev" "nblocks dev' = nblocks dev"
proof -
  have *: "chunkBits dev' = chunkBits dev" "chunkBitmapStride dev' = chunkBitmapStride dev"
    "internalStartBlock dev' = internalStartBlock dev" "internalEndBlock dev' = internalEndBlock dev"
    "nChunksPerBlock dev' = nChunksPerBlock dev"
    using assms by (simp_all add: bits_view_def)
  then have bb: "yaffs_BlockBits dev' = yaffs_BlockBits dev" "bit_no dev' = bit_no dev" "bits_index dev' = bits_index dev"
    by (simp_all add: fun_eq_iff yaffs_BlockBits_def bit_no_def bits_index_def)
  show "valid_block dev' = valid_block dev" "valid_chunk dev' = valid_chunk dev" "nblocks dev' = nblocks dev"
    using * by (simp_all add: fun_eq_iff valid_block_def valid_chunk_def nblocks_def)
  then show "wf_bitmap dev' = wf_bitmap dev" "padding_clear dev' = padding_clear dev" "chunks_in_use dev' = chunks_in_use dev"
    using * bb by (simp_all add: wf_bitmap_def padding_clear_def chunks_in_use_def yaffs_CheckChunkBit_def fun_eq_iff)
qed

definition inv_view :: "'n yaffs_Device \<Rightarrow> (u8 list \<times> int \<times> int \<times> int \<times> int) \<times> yaffs_BlockInfo list \<times> int \<times> int \<times> int \<times> u32" where
  "inv_view dev = (bits_view dev, blockInfo dev, nErasedBlocks dev, nFreeChunks dev, allocationBlock dev, allocationPage dev)"

lemma GetBlockInfo_cong:
  "blockInfo dev' = blockInfo dev \<Longrightarrow> internalStartBlock dev' = internalStartBlock dev \<Longrightarrow> yaffs_GetBlockInfo dev' = yaffs_GetBlockInfo dev"
  by (simp add: fun_eq_iff yaffs_GetBlockInfo_def block_index_def)

lemma block_inv_cong: "inv_view dev' = inv_view dev \<Longrightarrow> block_inv_off k dev' = block_inv_off k dev"
proof -
  assume v: "inv_view dev' = inv_view dev"
  then have b: "bits_view dev' = bits_view dev" by (simp add: inv_view_def)
  have f: "blockInfo dev' = blockInfo dev" "internalStartBlock dev' = internalStartBlock dev" "nErasedBlocks dev' = nErasedBlocks dev"
    "nFreeChunks dev' = nFreeChunks dev" "allocationBlock dev' = allocationBlock dev" "allocationPage dev' = allocationPage dev"
    "nChunksPerBlock dev' = nChunksPerBlock dev"
    using v by (simp_all add: inv_view_def bits_view_def)
  show ?thesis
    by (simp add: block_inv_off_def block_ok_def alloc_ok_def bits_view_cong [OF b] f GetBlockInfo_cong [OF f(1,2)])
qed

lemma bits_view_set_block_info [simp]: "bits_view (set_block_info dev b bi) = bits_view dev"
  by (simp add: bits_view_def set_block_info_def split: option.splits)

subsection \<open>Sums over the block table\<close>

lemma sum_list_update_int:
  fixes f :: "'a \<Rightarrow> int"
  assumes "i < length xs"
  shows "sum_list (map f (xs[i := y])) = sum_list (map f xs) - f (xs ! i) + f y"
  using assms by (induction xs arbitrary: i) (auto split: nat.splits)

lemma GetBlockInfo_SomeD:
  assumes "yaffs_GetBlockInfo dev blk = Some bi"
  obtains i where "block_index dev blk = Some i" "i < length (blockInfo dev)" "blockInfo dev ! i = bi"
  using assms block_index_less by (auto simp: yaffs_GetBlockInfo_def)

lemma counts_set_block_info:
  assumes "yaffs_GetBlockInfo dev blk = Some bi"
  shows "erased_count (blockInfo (set_block_info dev blk bi')) = erased_count (blockInfo dev) -
      of_bool (blockState bi = YAFFS_BLOCK_STATE_EMPTY) + of_bool (blockState bi' = YAFFS_BLOCK_STATE_EMPTY)"
    and "free_sum n (blockInfo (set_block_info dev blk bi')) = free_sum n (blockInfo dev) - free_of_block n bi + free_of_block n bi'"
proof -
  obtain i where i: "block_index dev blk = Some i" "i < length (blockInfo dev)" "blockInfo dev ! i = bi"
    using assms by (rule GetBlockInfo_SomeD)
  then have "blockInfo (set_block_info dev blk bi') = (blockInfo dev)[i := bi']" by (simp add: set_block_info_def)
  with i show "erased_count (blockInfo (set_block_info dev blk bi')) = erased_count (blockInfo dev) -
      of_bool (blockState bi = YAFFS_BLOCK_STATE_EMPTY) + of_bool (blockState bi' = YAFFS_BLOCK_STATE_EMPTY)"
    "free_sum n (blockInfo (set_block_info dev blk bi')) = free_sum n (blockInfo dev) - free_of_block n bi + free_of_block n bi'"
    by (simp_all add: erased_count_def free_sum_def sum_list_update_int)
qed

lemma length_set_block_info [simp]: "length (blockInfo (set_block_info dev blk bi)) = length (blockInfo dev)"
  by (simp add: set_block_info_def split: option.splits)

lemma set_block_info_fields [simp]:
  "internalStartBlock (set_block_info dev blk bi) = internalStartBlock dev"
  "internalEndBlock (set_block_info dev blk bi) = internalEndBlock dev"
  "nChunksPerBlock (set_block_info dev blk bi) = nChunksPerBlock dev"
  "nErasedBlocks (set_block_info dev blk bi) = nErasedBlocks dev" "nFreeChunks (set_block_info dev blk bi) = nFreeChunks dev"
  "allocationBlock (set_block_info dev blk bi) = allocationBlock dev" "allocationPage (set_block_info dev blk bi) = allocationPage dev"
  "chunkBits (set_block_info dev blk bi) = chunkBits dev" "chunkBitmapStride (set_block_info dev blk bi) = chunkBitmapStride dev"
  "genericDevice (set_block_info dev blk bi) = genericDevice dev" "dev_sequenceNumber (set_block_info dev blk bi) = dev_sequenceNumber dev"
  "allocationBlockFinder (set_block_info dev blk bi) = allocationBlockFinder dev"
  "nReservedBlocks (set_block_info dev blk bi) = nReservedBlocks dev" "blocksInCheckpoint (set_block_info dev blk bi) = blocksInCheckpoint dev"
  "nCheckpointReservedBlocks (set_block_info dev blk bi) = nCheckpointReservedBlocks dev"
  by (simp_all add: set_block_info_def split: option.splits)

lemma valid_block_info:
  assumes "int (length (blockInfo dev)) = nblocks dev"
  shows "valid_block dev blk \<longleftrightarrow> (\<exists>bi. yaffs_GetBlockInfo dev blk = Some bi)"
  using assms by (auto simp: valid_block_def nblocks_def yaffs_GetBlockInfo_def block_index_def Let_def)

subsection \<open>Bits and blocks\<close>

lemma in_use_bitmap:
  assumes "wf_bitmap dev" "valid_block dev b"
  shows "chunks_in_use dev b = {c. int c < nChunksPerBlock dev \<and> bitmap (chunkBits dev) (bit_no dev (b, int c))}"
  using assms by (auto simp: chunks_in_use_def CheckChunkBit_eq valid_chunk_def)

lemma bit_no_pad_inj:
  assumes "wf_bitmap dev" "valid_block dev b" "valid_block dev b'" "0 \<le> c" "c < 8 * chunkBitmapStride dev"
    "0 \<le> c'" "c' < 8 * chunkBitmapStride dev" "bit_no dev (b, c) = bit_no dev (b', c')"
  shows "b = b' \<and> c = c'"
proof -
  have "wf_bitmap (dev\<lparr>nChunksPerBlock := 8 * chunkBitmapStride dev\<rparr>)"
    using assms(1,4,5) by (auto simp: wf_bitmap_def nblocks_def)
  from bit_no_inj [OF this, of "(b, c)" "(b', c')"] show ?thesis
    using assms by (auto simp: valid_chunk_def valid_block_def bit_no_def yaffs_BlockBits_def)
qed

lemma SetChunkBit_in_use:
  assumes "wf_bitmap dev" "padding_clear dev" "valid_chunk dev (blk, c)"
  obtains bs where "yaffs_SetChunkBit dev blk c = Some (dev\<lparr>chunkBits := bs\<rparr>)" "length bs = length (chunkBits dev)"
    "padding_clear (dev\<lparr>chunkBits := bs\<rparr>)"
    "\<And>b. valid_block dev b \<Longrightarrow> chunks_in_use (dev\<lparr>chunkBits := bs\<rparr>) b =
       (if b = blk then insert (nat c) (chunks_in_use dev b) else chunks_in_use dev b)"
proof -
  obtain bs where bs: "yaffs_SetChunkBit dev blk c = Some (dev\<lparr>chunkBits := bs\<rparr>)" "length bs = length (chunkBits dev)"
    "\<And>m. bitmap bs m \<longleftrightarrow> m = bit_no dev (blk, c) \<or> bitmap (chunkBits dev) m"
    using SetChunkBit_eq [OF assms(1,3)] by metis
  let ?dev = "dev\<lparr>chunkBits := bs\<rparr>"
  have c: "0 \<le> c" "c < nChunksPerBlock dev" "valid_block dev blk" using assms(3) by (auto simp: valid_chunk_def)
  have s: "nChunksPerBlock dev \<le> 8 * chunkBitmapStride dev" using assms(1) by (auto simp: wf_bitmap_def)
  have eq: "bit_no dev (b, int k) = bit_no dev (blk, c) \<longleftrightarrow> b = blk \<and> int k = c"
    if "valid_block dev b" "int k < 8 * chunkBitmapStride dev" for b k
    using bit_no_pad_inj [OF assms(1) that(1) c(3), of "int k" c] that c s by auto
  have "padding_clear ?dev"
    unfolding padding_clear_def layout_upd
    using assms(2) bs(3) eq c by (auto simp: padding_clear_def)
  moreover have "chunks_in_use ?dev b = (if b = blk then insert (nat c) (chunks_in_use dev b) else chunks_in_use dev b)"
    if "valid_block dev b" for b
  proof -
    have "chunks_in_use ?dev b = {k. int k < nChunksPerBlock dev \<and> bitmap bs (bit_no dev (b, int k))}"
      using in_use_bitmap [of ?dev b] assms(1) bs(2) that by simp
    also have "\<dots> = {k. int k < nChunksPerBlock dev \<and> (b = blk \<and> int k = c \<or> bitmap (chunkBits dev) (bit_no dev (b, int k)))}"
      using eq [OF that] s bs(3) by fastforce
    finally show ?thesis using in_use_bitmap [OF assms(1) that] c by auto
  qed
  ultimately show thesis using bs(1,2) that by blast
qed

lemma ClearChunkBit_in_use:
  assumes "wf_bitmap dev" "padding_clear dev" "valid_chunk dev (blk, c)"
  obtains bs where "yaffs_ClearChunkBit dev blk c = Some (dev\<lparr>chunkBits := bs\<rparr>)" "length bs = length (chunkBits dev)"
    "padding_clear (dev\<lparr>chunkBits := bs\<rparr>)"
    "\<And>b. valid_block dev b \<Longrightarrow> chunks_in_use (dev\<lparr>chunkBits := bs\<rparr>) b =
       (if b = blk then chunks_in_use dev b - {nat c} else chunks_in_use dev b)"
proof -
  obtain bs where bs: "yaffs_ClearChunkBit dev blk c = Some (dev\<lparr>chunkBits := bs\<rparr>)" "length bs = length (chunkBits dev)"
    "\<And>m. bitmap bs m \<longleftrightarrow> m \<noteq> bit_no dev (blk, c) \<and> bitmap (chunkBits dev) m"
    using ClearChunkBit_eq [OF assms(1,3)] by metis
  let ?dev = "dev\<lparr>chunkBits := bs\<rparr>"
  have c: "0 \<le> c" "c < nChunksPerBlock dev" "valid_block dev blk" using assms(3) by (auto simp: valid_chunk_def)
  have s: "nChunksPerBlock dev \<le> 8 * chunkBitmapStride dev" using assms(1) by (auto simp: wf_bitmap_def)
  have eq: "bit_no dev (b, int k) = bit_no dev (blk, c) \<longleftrightarrow> b = blk \<and> int k = c"
    if "valid_block dev b" "int k < 8 * chunkBitmapStride dev" for b k
    using bit_no_pad_inj [OF assms(1) that(1) c(3), of "int k" c] that c s by auto
  have "padding_clear ?dev"
    unfolding padding_clear_def layout_upd
    using assms(2) bs(3) by (auto simp: padding_clear_def)
  moreover have "chunks_in_use ?dev b = (if b = blk then chunks_in_use dev b - {nat c} else chunks_in_use dev b)"
    if "valid_block dev b" for b
  proof -
    have "chunks_in_use ?dev b = {k. int k < nChunksPerBlock dev \<and> bitmap bs (bit_no dev (b, int k))}"
      using in_use_bitmap [of ?dev b] assms(1) bs(2) that by simp
    also have "\<dots> = {k. int k < nChunksPerBlock dev \<and> \<not> (b = blk \<and> int k = c) \<and> bitmap (chunkBits dev) (bit_no dev (b, int k))}"
      using eq [OF that] s bs(3) by fastforce
    finally show ?thesis using in_use_bitmap [OF assms(1) that] c by auto
  qed
  ultimately show thesis using bs(1,2) that by blast
qed

lemma finite_in_use [simp]: "finite (chunks_in_use dev b)"
  by (rule finite_subset [of _ "{..<nat (nChunksPerBlock dev)}"]) (auto simp: chunks_in_use_def)

lemma card_in_use_le: "int (card (chunks_in_use dev b)) \<le> max 0 (nChunksPerBlock dev)"
proof -
  have "card (chunks_in_use dev b) \<le> card {..<nat (nChunksPerBlock dev)}"
    by (rule card_mono) (auto simp: chunks_in_use_def)
  then show ?thesis by simp
qed

subsection \<open>Finding a block to allocate from\<close>

definition next_finder :: "'n yaffs_Device \<Rightarrow> int" where
  "next_finder dev = (let f = allocationBlockFinder dev + 1
     in if f < internalStartBlock dev \<or> f > internalEndBlock dev then internalStartBlock dev else f)"

lemma next_finder_step:
  assumes "0 < nblocks dev" "valid_block dev t" "t \<noteq> next_finder dev"
  shows "(t - next_finder (dev\<lparr>allocationBlockFinder := next_finder dev\<rparr>)) mod nblocks dev + 1 = (t - next_finder dev) mod nblocks dev"
proof -
  let ?N = "nblocks dev" and ?n = "next_finder dev" and ?n' = "next_finder (dev\<lparr>allocationBlockFinder := next_finder dev\<rparr>)"
  have n: "internalStartBlock dev \<le> ?n" "?n \<le> internalEndBlock dev"
    using assms(1) by (auto simp: next_finder_def Let_def nblocks_def)
  have n': "?n' = (if ?n = internalEndBlock dev then internalStartBlock dev else ?n + 1)"
    using n by (auto simp: next_finder_def [of "dev\<lparr>allocationBlockFinder := _\<rparr>"] Let_def)
  have t: "internalStartBlock dev \<le> t" "t \<le> internalEndBlock dev" using assms(2) by (auto simp: valid_block_def)
  have m: "x mod ?N = (if 0 \<le> x then x else x + ?N)" if "- ?N \<le> x" "x < ?N" for x
  proof (cases "0 \<le> x")
    case False
    then have "x mod ?N = (x + ?N) mod ?N" by simp
    also have "\<dots> = x + ?N" using that False by (intro mod_pos_pos_trivial) auto
    finally show ?thesis using False by simp
  qed (use that in simp)
  show ?thesis using m [of "t - ?n"] m [of "t - ?n'"] n t n' assms(3) by (auto simp: nblocks_def split: if_splits)
qed

lemma FindBlock_loop_finds:
  assumes "0 < nblocks dev" "int (length (blockInfo dev)) = nblocks dev"
    and "yaffs_GetBlockInfo dev t = Some ti" "blockState ti = YAFFS_BLOCK_STATE_EMPTY" "(t - next_finder dev) mod nblocks dev < int n"
  shows "\<exists>b bi f. FindBlockForAllocation_loop n dev =
      Some (b, (set_block_info (dev\<lparr>allocationBlockFinder := f\<rparr>) b
                  (bi\<lparr>blockState := YAFFS_BLOCK_STATE_ALLOCATING, bi_sequenceNumber := dev_sequenceNumber dev + 1\<rparr>))
                 \<lparr>dev_sequenceNumber := dev_sequenceNumber dev + 1, nErasedBlocks := nErasedBlocks dev - 1\<rparr>) \<and>
    yaffs_GetBlockInfo dev b = Some bi \<and> blockState bi = YAFFS_BLOCK_STATE_EMPTY"
  using assms
proof (induction n arbitrary: dev)
  case 0
  then have False using pos_mod_sign [of "nblocks dev" "t - next_finder dev"] by linarith
  then show ?case ..
next
  case (Suc n)
  let ?f = "next_finder dev" and ?dev = "dev\<lparr>allocationBlockFinder := next_finder dev\<rparr>"
  have "valid_block dev ?f" using Suc.prems(1) by (auto simp: valid_block_def next_finder_def Let_def nblocks_def)
  then obtain bi where bi: "yaffs_GetBlockInfo dev ?f = Some bi" using valid_block_info [OF Suc.prems(2)] by blast
  have same: "yaffs_GetBlockInfo ?dev = yaffs_GetBlockInfo dev" "nblocks ?dev = nblocks dev"
    by (rule GetBlockInfo_cong, simp_all add: nblocks_def)
  have unf: "FindBlockForAllocation_loop (Suc n) dev =
      (if blockState bi = YAFFS_BLOCK_STATE_EMPTY
       then Some (?f, (set_block_info ?dev ?f (bi\<lparr>blockState := YAFFS_BLOCK_STATE_ALLOCATING, bi_sequenceNumber := dev_sequenceNumber dev + 1\<rparr>))
                 \<lparr>dev_sequenceNumber := dev_sequenceNumber dev + 1, nErasedBlocks := nErasedBlocks dev - 1\<rparr>)
       else FindBlockForAllocation_loop n ?dev)"
    using bi same(1) by (simp add: next_finder_def Let_def)
  show ?case
  proof (cases "blockState bi = YAFFS_BLOCK_STATE_EMPTY")
    case True
    then show ?thesis unfolding unf using bi by (intro exI [of _ ?f] exI [of _ bi]) simp
  next
    case False
    then have "t \<noteq> ?f" using bi Suc.prems(3,4) by auto
    moreover have "valid_block dev t" using valid_block_info [OF Suc.prems(2)] Suc.prems(3) by blast
    ultimately have "(t - next_finder ?dev) mod nblocks dev + 1 = (t - next_finder dev) mod nblocks dev"
      by (intro next_finder_step [OF Suc.prems(1)])
    then have "(t - next_finder ?dev) mod nblocks dev < int n" using Suc.prems(5) by linarith
    then obtain b bi' f where IH: "FindBlockForAllocation_loop n ?dev =
        Some (b, (set_block_info (?dev\<lparr>allocationBlockFinder := f\<rparr>) b
                  (bi'\<lparr>blockState := YAFFS_BLOCK_STATE_ALLOCATING, bi_sequenceNumber := dev_sequenceNumber ?dev + 1\<rparr>))
                 \<lparr>dev_sequenceNumber := dev_sequenceNumber ?dev + 1, nErasedBlocks := nErasedBlocks ?dev - 1\<rparr>)"
      "yaffs_GetBlockInfo ?dev b = Some bi'" "blockState bi' = YAFFS_BLOCK_STATE_EMPTY"
    proof -
      have "0 < nblocks ?dev" "int (length (blockInfo ?dev)) = nblocks ?dev" "yaffs_GetBlockInfo ?dev t = Some ti"
        "(t - next_finder ?dev) mod nblocks ?dev < int n"
        using \<open>(t - next_finder ?dev) mod nblocks dev < int n\<close> Suc.prems(1-3) same by simp_all
      from Suc.IH [OF this(1-3) Suc.prems(4) this(4)] that show thesis by blast
    qed
    show ?thesis unfolding unf using IH False same(1) by (intro exI [of _ b] exI [of _ bi'] exI [of _ f]) simp
  qed
qed

lemma erased_exists:
  assumes "0 < erased_count (blockInfo dev)" "int (length (blockInfo dev)) = nblocks dev"
  obtains t ti where "yaffs_GetBlockInfo dev t = Some ti" "blockState ti = YAFFS_BLOCK_STATE_EMPTY"
proof -
  have "\<exists>b \<in> set (blockInfo dev). blockState b = YAFFS_BLOCK_STATE_EMPTY"
  proof (rule ccontr)
    assume "\<not> ?thesis"
    then have "map (\<lambda>b. of_bool (blockState b = YAFFS_BLOCK_STATE_EMPTY)) (blockInfo dev) = map (\<lambda>_. 0 :: int) (blockInfo dev)"
      by (intro map_cong) auto
    then have "erased_count (blockInfo dev) = 0" unfolding erased_count_def by (simp only: sum_list_0)
    with assms(1) show False by simp
  qed
  then obtain i where "i < length (blockInfo dev)" "blockState (blockInfo dev ! i) = YAFFS_BLOCK_STATE_EMPTY"
    by (auto simp: in_set_conv_nth)
  then show thesis
    by (intro that [of "internalStartBlock dev + int i" "blockInfo dev ! i"]) (simp_all add: yaffs_GetBlockInfo_def block_index_def)
qed

lemma FindBlockForAllocation_finds:
  assumes "block_inv dev" "0 < nErasedBlocks dev"
  obtains b bi f where "yaffs_FindBlockForAllocation dev =
      Some (b, (set_block_info (dev\<lparr>allocationBlockFinder := f\<rparr>) b
                  (bi\<lparr>blockState := YAFFS_BLOCK_STATE_ALLOCATING, bi_sequenceNumber := dev_sequenceNumber dev + 1\<rparr>))
                 \<lparr>dev_sequenceNumber := dev_sequenceNumber dev + 1, nErasedBlocks := nErasedBlocks dev - 1\<rparr>)"
    "yaffs_GetBlockInfo dev b = Some bi" "blockState bi = YAFFS_BLOCK_STATE_EMPTY"
proof -
  have inv: "0 < nblocks dev" "int (length (blockInfo dev)) = nblocks dev" "nErasedBlocks dev = erased_count (blockInfo dev)"
    using assms(1) by (auto simp: block_inv_off_def wf_bitmap_def)
  obtain t ti where t: "yaffs_GetBlockInfo dev t = Some ti" "blockState ti = YAFFS_BLOCK_STATE_EMPTY"
    using erased_exists [OF _ inv(2)] assms(2) inv(3) by metis
  have "(t - next_finder dev) mod nblocks dev < int (nat (nblocks dev))" using inv(1) by simp
  moreover have "yaffs_FindBlockForAllocation dev = FindBlockForAllocation_loop (nat (nblocks dev)) dev"
    using assms(2) by (simp add: yaffs_FindBlockForAllocation_def nblocks_def)
  ultimately show thesis using FindBlock_loop_finds [OF inv(1,2) t] that by metis
qed

text \<open>Taking an erased block for allocation keeps the invariant, with its page counter reset.\<close>

lemma free_of_block_cases:
  "free_of_block n (bi\<lparr>blockState := st\<rparr>) =
     (if st \<in> {YAFFS_BLOCK_STATE_EMPTY, YAFFS_BLOCK_STATE_ALLOCATING, YAFFS_BLOCK_STATE_COLLECTING, YAFFS_BLOCK_STATE_FULL}
      then n - pagesInUse bi + softDeletions bi else 0)"
  by (simp add: free_of_block_def)

lemma block_inv_step:
  assumes inv: "block_inv_off k dev" and old: "yaffs_GetBlockInfo dev blk = Some bi"
    and layout: "wf_bitmap dev'" "padding_clear dev'" "internalStartBlock dev' = internalStartBlock dev"
      "internalEndBlock dev' = internalEndBlock dev" "nChunksPerBlock dev' = nChunksPerBlock dev"
    and table: "blockInfo dev' = blockInfo (set_block_info dev blk bi')"
    and bits: "\<And>c. valid_block dev c \<Longrightarrow> chunks_in_use dev' c = (if c = blk then U else chunks_in_use dev c)"
    and counts: "nErasedBlocks dev' = nErasedBlocks dev - of_bool (blockState bi = YAFFS_BLOCK_STATE_EMPTY) +
        of_bool (blockState bi' = YAFFS_BLOCK_STATE_EMPTY)"
      "nFreeChunks dev' = nFreeChunks dev - free_of_block (nChunksPerBlock dev) bi + free_of_block (nChunksPerBlock dev) bi' + k' - k"
    and ok: "0 \<le> softDeletions bi'" "softDeletions bi' \<le> pagesInUse bi'" "pagesInUse bi' = int (card U)"
      "blockState bi' \<in> {YAFFS_BLOCK_STATE_EMPTY, YAFFS_BLOCK_STATE_CHECKPOINT} \<Longrightarrow> pagesInUse bi' = 0"
      "blockState bi' = YAFFS_BLOCK_STATE_ALLOCATING \<Longrightarrow> blk = allocationBlock dev'"
    and others: "\<And>c ci. c \<noteq> blk \<Longrightarrow> yaffs_GetBlockInfo dev c = Some ci \<Longrightarrow> blockState ci = YAFFS_BLOCK_STATE_ALLOCATING \<Longrightarrow>
      c = allocationBlock dev'"
    and alloc: "alloc_ok dev'"
  shows "block_inv_off k' dev'"
proof -
  note I = block_invD [OF inv]
  have "yaffs_GetBlockInfo dev' = yaffs_GetBlockInfo (set_block_info dev blk bi')"
    by (rule GetBlockInfo_cong) (simp_all add: table layout)
  then have g: "yaffs_GetBlockInfo dev' c = (if c = blk then Some bi' else yaffs_GetBlockInfo dev c)" for c
    by (simp add: get_set_block_info old)
  have vb: "valid_block dev c" if "yaffs_GetBlockInfo dev c = Some ci" for c ci
    using valid_block_info [OF I(5)] that by blast
  have "block_ok dev' c ci" if c: "yaffs_GetBlockInfo dev' c = Some ci" for c ci
  proof (cases "c = blk")
    case True
    then show ?thesis using c g ok bits [OF vb [OF old]] by (auto simp: block_ok_def)
  next
    case False
    then have d: "yaffs_GetBlockInfo dev c = Some ci" using c g by simp
    show ?thesis using I(6) [OF d] bits [OF vb [OF d]] others [OF False d] False by (auto simp: block_ok_def)
  qed
  moreover have "int (length (blockInfo dev')) = nblocks dev'" using I(5) by (simp add: table nblocks_def layout)
  moreover have "nErasedBlocks dev' = erased_count (blockInfo dev')"
    unfolding table counts_set_block_info(1) [OF old] counts I(7) by simp
  moreover have "nFreeChunks dev' = free_sum (nChunksPerBlock dev') (blockInfo dev') + k'"
    unfolding table layout counts_set_block_info(2) [OF old] counts I(8) by simp
  ultimately show ?thesis using layout I(3,4) alloc by (intro block_invI) simp_all
qed

lemma no_other_allocating:
  assumes "block_inv_off k dev" "allocationBlock dev < 0" "yaffs_GetBlockInfo dev c = Some ci"
  shows "blockState ci \<noteq> YAFFS_BLOCK_STATE_ALLOCATING"
proof
  assume "blockState ci = YAFFS_BLOCK_STATE_ALLOCATING"
  then have "c = allocationBlock dev" using block_invD(6) [OF assms(1,3)] by (simp add: block_ok_def)
  then have "c < internalStartBlock dev" using assms(2) block_invD(4) [OF assms(1)] by simp
  then show False using assms(3) by (auto simp: yaffs_GetBlockInfo_def block_index_def Let_def)
qed

lemma take_block_inv:
  assumes "block_inv dev" "allocationBlock dev < 0" "yaffs_GetBlockInfo dev b = Some bi" "blockState bi = YAFFS_BLOCK_STATE_EMPTY"
  shows "block_inv ((set_block_info (dev\<lparr>allocationBlockFinder := f\<rparr>) b
       (bi\<lparr>blockState := YAFFS_BLOCK_STATE_ALLOCATING, bi_sequenceNumber := q\<rparr>))
      \<lparr>dev_sequenceNumber := q, nErasedBlocks := nErasedBlocks dev - 1, allocationBlock := b, allocationPage := 0\<rparr>)"
    (is "block_inv ?dev'")
proof -
  let ?bi = "bi\<lparr>blockState := YAFFS_BLOCK_STATE_ALLOCATING, bi_sequenceNumber := q\<rparr>"
  note I = block_invD [OF assms(1)]
  have bv: "bits_view ?dev' = bits_view dev" by (simp add: bits_view_def)
  have table: "blockInfo ?dev' = blockInfo (set_block_info dev b ?bi)"
    by (simp add: set_block_info_def block_index_def split: option.splits)
  have bi: "pagesInUse bi = 0" "softDeletions bi = 0" "chunks_in_use dev b = {}"
    using I(6) [OF assms(3)] assms(4) by (auto simp: block_ok_def)
  have "yaffs_GetBlockInfo ?dev' = yaffs_GetBlockInfo (set_block_info dev b ?bi)"
    by (rule GetBlockInfo_cong) (simp_all add: table del: yaffs_Device.select_defs)
  then have al: "alloc_ok ?dev'"
    using I(1) bi by (simp add: alloc_ok_def bits_view_cong [OF bv] wf_bitmap_def get_set_block_info assms(3))
  show ?thesis
    by (rule block_inv_step [OF assms(1,3) _ _ _ _ _ table _ _ _ _ _ _ _ _ _ al, where U = "{}"])
      (use I(1,2) bi assms(4) no_other_allocating [OF assms(1,2)] in
        \<open>auto simp: bits_view_cong [OF bv] free_of_block_def\<close>)
qed

subsection \<open>Allocating a chunk\<close>

text \<open>The second half of \<open>yaffs_AllocateChunk\<close>: taking the next page of the allocation block.\<close>

definition alloc_page :: "'n yaffs_Device \<Rightarrow> (int \<times> int \<times> 'n yaffs_Device) option" where
  "alloc_page dev =
     do { let blk = allocationBlock dev;
          bi \<leftarrow> yaffs_GetBlockInfo dev blk;
          let retVal = blk * nChunksPerBlock dev + uint (allocationPage dev);
          let bi = bi\<lparr>pagesInUse := int10 (pagesInUse bi + 1)\<rparr>;
          dev \<leftarrow> yaffs_SetChunkBit (set_block_info dev blk bi) blk (uint (allocationPage dev));
          let dev = dev\<lparr>allocationPage := allocationPage dev + 1, nFreeChunks := nFreeChunks dev - 1\<rparr>;
          let dev = (if uint (allocationPage dev) \<ge> nChunksPerBlock dev
                     then (set_block_info dev blk (bi\<lparr>blockState := YAFFS_BLOCK_STATE_FULL\<rparr>))\<lparr>allocationBlock := -1\<rparr>
                     else dev);
          Some (retVal, blk, dev) }"

lemma AllocateChunk_page:
  "yaffs_AllocateChunk dev useReserve =
     do { dev \<leftarrow> (if allocationBlock dev < 0 then do {
                    (b, dev) \<leftarrow> yaffs_FindBlockForAllocation dev;
                    Some (dev\<lparr>allocationBlock := b, allocationPage := 0\<rparr>) }
                 else Some dev);
          if \<not> useReserve \<and> \<not> yaffs_CheckSpaceForAllocation dev then Some (-1, -1, dev)
          else if allocationBlock dev \<ge> 0 then alloc_page dev
          else Some (-1, -1, dev) }"
  unfolding yaffs_AllocateChunk_def alloc_page_def ..

lemma blockInfo_set_twice [simp]:
  "blockInfo (set_block_info (set_block_info dev b x) b y) = blockInfo (set_block_info dev b y)"
  by (simp add: set_block_info_def block_index_def split: option.splits)

lemma blockInfo_set_cong:
  "blockInfo dev' = blockInfo dev \<Longrightarrow> internalStartBlock dev' = internalStartBlock dev \<Longrightarrow>
    blockInfo (set_block_info dev' b x) = blockInfo (set_block_info dev b x)"
  by (simp add: set_block_info_def block_index_def split: option.splits)

lemma wf_set_block_info [simp]:
  "wf_bitmap (set_block_info dev b bi) = wf_bitmap dev" "padding_clear (set_block_info dev b bi) = padding_clear dev"
  "chunks_in_use (set_block_info dev b bi) = chunks_in_use dev" "valid_chunk (set_block_info dev b bi) = valid_chunk dev"
  "valid_block (set_block_info dev b bi) = valid_block dev"
  by (rule bits_view_cong, simp)+

lemma uint_succ: "uint (x :: u32) < 2 ^ 32 - 1 \<Longrightarrow> uint (x + 1) = uint x + 1"
  by (simp add: uint_plus_if')

lemma alloc_page_ok:
  assumes inv: "block_inv dev" and nn: "0 \<le> allocationBlock dev"
  defines "blk \<equiv> allocationBlock dev" and "page \<equiv> uint (allocationPage dev)"
  obtains dev' where "alloc_page dev = Some (blk * nChunksPerBlock dev + page, blk, dev')" "block_inv dev'"
    "valid_chunk dev (blk, page)" "nat page \<notin> chunks_in_use dev blk"
    "\<And>c. valid_block dev c \<Longrightarrow> chunks_in_use dev' c = (if c = blk then insert (nat page) (chunks_in_use dev c) else chunks_in_use dev c)"
    "nFreeChunks dev' = nFreeChunks dev - 1" "nChunksPerBlock dev' = nChunksPerBlock dev"
proof -
  note I = block_invD [OF inv]
  let ?n = "nChunksPerBlock dev"
  obtain bi where bi: "yaffs_GetBlockInfo dev blk = Some bi" "blockState bi = YAFFS_BLOCK_STATE_ALLOCATING"
    and page: "page < ?n" and fresh: "\<forall>c \<in> chunks_in_use dev blk. int c < page"
    using I(9) nn by (auto simp: alloc_ok_def blk_def page_def)
  have p0: "0 \<le> page" by (simp add: page_def)
  have vb: "valid_block dev blk" using valid_block_info [OF I(5)] bi(1) by blast
  with page p0 have vc: "valid_chunk dev (blk, page)" by (simp add: valid_chunk_def)
  have notin: "nat page \<notin> chunks_in_use dev blk"
  proof
    assume "nat page \<in> chunks_in_use dev blk"
    then have "int (nat page) < page" using fresh by blast
    then show False using p0 by simp
  qed
  note ok = I(6) [OF bi(1)]
  have used: "pagesInUse bi = int (card (chunks_in_use dev blk))" "0 \<le> softDeletions bi" "softDeletions bi \<le> pagesInUse bi"
    using ok by (simp_all add: block_ok_def)
  have "card (chunks_in_use dev blk) \<le> card {..<nat page}" using fresh by (intro card_mono) auto
  then have le: "pagesInUse bi \<le> page" using used p0 by simp
  let ?bi1 = "bi\<lparr>pagesInUse := pagesInUse bi + 1\<rparr>"
  have i10: "int10 (pagesInUse bi + 1) = pagesInUse bi + 1" using used le page I(3) by (intro int10_id) auto
  let ?d1 = "set_block_info dev blk ?bi1"
  obtain bs where bs: "yaffs_SetChunkBit ?d1 blk page = Some (?d1\<lparr>chunkBits := bs\<rparr>)" "length bs = length (chunkBits ?d1)"
    "padding_clear (?d1\<lparr>chunkBits := bs\<rparr>)"
    "\<And>b. valid_block dev b \<Longrightarrow> chunks_in_use (?d1\<lparr>chunkBits := bs\<rparr>) b =
       (if b = blk then insert (nat page) (chunks_in_use dev b) else chunks_in_use dev b)"
    by (rule SetChunkBit_in_use [of ?d1 blk page]) (use I(1,2) vc in simp_all)
  let ?d2 = "?d1\<lparr>chunkBits := bs\<rparr>"
  let ?d3 = "?d2\<lparr>allocationPage := allocationPage dev + 1, nFreeChunks := nFreeChunks dev - 1\<rparr>"
  let ?full = "?n \<le> uint (allocationPage dev + 1)"
  let ?dev' = "if ?full then (set_block_info ?d3 blk (?bi1\<lparr>blockState := YAFFS_BLOCK_STATE_FULL\<rparr>))\<lparr>allocationBlock := -1\<rparr> else ?d3"
  let ?bi' = "if ?full then ?bi1\<lparr>blockState := YAFFS_BLOCK_STATE_FULL\<rparr> else ?bi1"
  have next_page: "uint (allocationPage dev + 1) = page + 1"
    using uint_succ [of "allocationPage dev"] page I(3) by (simp add: page_def)
  have run: "alloc_page dev = Some (blk * ?n + page, blk, ?dev')"
    unfolding alloc_page_def Let_def blk_def [symmetric] page_def [symmetric] bi(1) Option.bind.simps i10 bs(1) by simp
  have bv2: "bits_view ?d3 = bits_view ?d2" "bits_view ?dev' = bits_view ?d2" by (simp_all add: bits_view_def)
  have wf2: "wf_bitmap ?d2" using I(1) bs(2) by simp
  have use: "chunks_in_use ?dev' c = (if c = blk then insert (nat page) (chunks_in_use dev blk) else chunks_in_use dev c)"
    if "valid_block dev c" for c
    unfolding bits_view_cong [OF bv2(2)] using bs(4) [OF that] by simp
  have t2: "blockInfo ?d3 = blockInfo (set_block_info dev blk ?bi1)" by simp
  have table: "blockInfo ?dev' = blockInfo (set_block_info dev blk ?bi')"
  proof (cases ?full)
    case True
    have "blockInfo (set_block_info ?d3 blk (?bi1\<lparr>blockState := YAFFS_BLOCK_STATE_FULL\<rparr>)) =
        blockInfo (set_block_info ?d1 blk (?bi1\<lparr>blockState := YAFFS_BLOCK_STATE_FULL\<rparr>))"
      by (rule blockInfo_set_cong) simp_all
    with True show ?thesis by simp
  qed (simp add: t2)
  have "yaffs_GetBlockInfo ?dev' = yaffs_GetBlockInfo (set_block_info dev blk ?bi')"
    by (rule GetBlockInfo_cong [OF table]) simp
  then have g: "yaffs_GetBlockInfo ?dev' c = (if c = blk then Some ?bi' else yaffs_GetBlockInfo dev c)" for c
    by (simp add: get_set_block_info bi(1))
  have al: "alloc_ok ?dev'"
  proof (cases ?full)
    case False
    have "allocationBlock ?dev' = blk" "uint (allocationPage ?dev') = page + 1" "nChunksPerBlock ?dev' = ?n"
      using False next_page by (simp_all add: blk_def)
    moreover have "page + 1 < ?n" using False next_page by simp
    moreover have "\<forall>c \<in> chunks_in_use ?dev' blk. int c < page + 1" using use [OF vb] fresh p0 by fastforce
    ultimately show ?thesis using g [of blk] False bi(2) unfolding alloc_ok_def by auto
  qed (simp add: alloc_ok_def)
  have "block_inv ?dev'"
  proof (rule block_inv_step [OF inv bi(1) _ _ _ _ _ table _ _ _ _ _ _ _ _ _ al, where U = "insert (nat page) (chunks_in_use dev blk)"])
    show "wf_bitmap ?dev'" "padding_clear ?dev'" using wf2 bs(3) unfolding bits_view_cong [OF bv2(2)] by blast+
    show "c = allocationBlock ?dev'" if "c \<noteq> blk" "yaffs_GetBlockInfo dev c = Some ci" "blockState ci = YAFFS_BLOCK_STATE_ALLOCATING" for c ci
      using I(6) [OF that(2)] that by (simp add: block_ok_def blk_def)
  qed (use use used bi(2) notin in \<open>auto simp: free_of_block_def blk_def split: if_splits\<close>)
  moreover have "nFreeChunks ?dev' = nFreeChunks dev - 1" "nChunksPerBlock ?dev' = ?n" by simp_all
  ultimately show thesis using that [OF run _ vc notin] use by presburger
qed

end
