(* ===== verification/BlockOps.thy ===== *)
theory BlockOps
  imports BlockInv
begin

section \<open>The block operations keep the invariant\<close>

text \<open>
  Each operation of the block manager is total on a well-formed device and keeps \<open>block_inv\<close>:
  allocation, soft deletion, deletion with the erasure or retirement it may trigger, and the
  invalidation of a checkpoint.
\<close>

subsection \<open>Counting free chunks\<close>

lemma CountFreeChunks_loop_eq:
  assumes "\<And>b. b \<in> set bs \<Longrightarrow> \<exists>bi. yaffs_GetBlockInfo dev b = Some bi"
  shows "CountFreeChunks_loop bs dev n =
    Some (n + sum_list (map (\<lambda>b. free_of_block (nChunksPerBlock dev) (the (yaffs_GetBlockInfo dev b))) bs))"
  using assms by (induction bs arbitrary: n) (fastforce simp: add.assoc)+

lemma blocks_as_list:
  assumes "int (length (blockInfo dev)) = nblocks dev"
  shows "map (\<lambda>b. the (yaffs_GetBlockInfo dev b)) [internalStartBlock dev..internalEndBlock dev] = blockInfo dev"
proof (rule nth_equalityI)
  show len: "length (map (\<lambda>b. the (yaffs_GetBlockInfo dev b)) [internalStartBlock dev..internalEndBlock dev]) = length (blockInfo dev)"
    using assms by (simp add: nblocks_def)
  fix i assume "i < length (map (\<lambda>b. the (yaffs_GetBlockInfo dev b)) [internalStartBlock dev..internalEndBlock dev])"
  then have "i < length (blockInfo dev)" "int i < internalEndBlock dev - internalStartBlock dev + 1"
    using len assms by (simp_all add: nblocks_def)
  then show "map (\<lambda>b. the (yaffs_GetBlockInfo dev b)) [internalStartBlock dev..internalEndBlock dev] ! i = blockInfo dev ! i"
    by (simp add: nth_upto yaffs_GetBlockInfo_def block_index_def)
qed

lemma CountFreeChunks_eq:
  assumes "int (length (blockInfo dev)) = nblocks dev"
  shows "yaffs_CountFreeChunks dev = Some (free_sum (nChunksPerBlock dev) (blockInfo dev))"
proof -
  have ex: "\<exists>bi. yaffs_GetBlockInfo dev b = Some bi" if "b \<in> set [internalStartBlock dev..internalEndBlock dev]" for b
    using that valid_block_info [OF assms, of b] by (simp add: valid_block_def)
  have "yaffs_CountFreeChunks dev = Some (sum_list (map (free_of_block (nChunksPerBlock dev))
      (map (\<lambda>b. the (yaffs_GetBlockInfo dev b)) [internalStartBlock dev..internalEndBlock dev])))"
    unfolding yaffs_CountFreeChunks_def by (subst CountFreeChunks_loop_eq, erule ex) (simp add: comp_def)
  then show ?thesis by (simp only: blocks_as_list [OF assms] free_sum_def)
qed

subsection \<open>Allocation\<close>

text \<open>When there is no allocation block, an erased one is taken if there is one.\<close>

lemma take_erased_block:
  assumes inv: "block_inv dev" and neg: "allocationBlock dev < 0" and e: "0 < nErasedBlocks dev"
  obtains b d where "\<And>useReserve. yaffs_AllocateChunk dev useReserve =
      (if \<not> useReserve \<and> \<not> yaffs_CheckSpaceForAllocation dev then Some (-1, -1, d) else alloc_page d)"
    "block_inv d" "allocationBlock d = b" "0 \<le> b" "allocationPage d = 0" "bits_view d = bits_view dev" "nFreeChunks d = nFreeChunks dev"
proof -
  obtain b bi f where f: "yaffs_FindBlockForAllocation dev =
      Some (b, (set_block_info (dev\<lparr>allocationBlockFinder := f\<rparr>) b
                  (bi\<lparr>blockState := YAFFS_BLOCK_STATE_ALLOCATING, bi_sequenceNumber := dev_sequenceNumber dev + 1\<rparr>))
                 \<lparr>dev_sequenceNumber := dev_sequenceNumber dev + 1, nErasedBlocks := nErasedBlocks dev - 1\<rparr>)"
    "yaffs_GetBlockInfo dev b = Some bi" "blockState bi = YAFFS_BLOCK_STATE_EMPTY"
    using FindBlockForAllocation_finds [OF inv e] by metis
  let ?d = "(set_block_info (dev\<lparr>allocationBlockFinder := f\<rparr>) b
       (bi\<lparr>blockState := YAFFS_BLOCK_STATE_ALLOCATING, bi_sequenceNumber := dev_sequenceNumber dev + 1\<rparr>))
      \<lparr>dev_sequenceNumber := dev_sequenceNumber dev + 1, nErasedBlocks := nErasedBlocks dev - 1, allocationBlock := b, allocationPage := 0\<rparr>"
  have bv: "bits_view ?d = bits_view dev" by (simp add: bits_view_def)
  have inv': "block_inv ?d" by (rule take_block_inv [OF inv neg f(2,3)])
  have "valid_block dev b" using valid_block_info [OF block_invD(5) [OF inv]] f(2) by blast
  then have nn: "0 \<le> b" using block_invD(4) [OF inv] by (simp add: valid_block_def)
  have sp: "yaffs_CheckSpaceForAllocation ?d = yaffs_CheckSpaceForAllocation dev" by (simp add: yaffs_CheckSpaceForAllocation_def)
  have "yaffs_AllocateChunk dev u =
      (if \<not> u \<and> \<not> yaffs_CheckSpaceForAllocation dev then Some (-1, -1, ?d) else alloc_page ?d)" for u
    unfolding AllocateChunk_page using neg f(1) nn sp by simp
  then show thesis using that [of ?d b] inv' nn bv by simp
qed

lemma AllocateChunk_ok:
  assumes inv: "block_inv dev" and blk: "0 \<le> allocationBlock dev \<or> 0 < nErasedBlocks dev"
    and space: "useReserve \<or> yaffs_CheckSpaceForAllocation dev"
  obtains chunk blk page dev' where "yaffs_AllocateChunk dev useReserve = Some (chunk, blk, dev')"
    "chunk = blk * nChunksPerBlock dev + page" "valid_chunk dev (blk, page)" "nat page \<notin> chunks_in_use dev blk" "block_inv dev'"
    "\<And>c. valid_block dev c \<Longrightarrow> chunks_in_use dev' c = (if c = blk then insert (nat page) (chunks_in_use dev c) else chunks_in_use dev c)"
    "nFreeChunks dev' = nFreeChunks dev - 1"
proof (cases "0 \<le> allocationBlock dev")
  case True
  have run: "yaffs_AllocateChunk dev useReserve = alloc_page dev"
    unfolding AllocateChunk_page using True space by auto
  show thesis
    by (rule alloc_page_ok [OF inv True], rule that) (use run in \<open>simp_all only: simp_thms\<close>)
next
  case False
  then have neg: "allocationBlock dev < 0" by simp
  obtain b d where d: "\<And>useReserve. yaffs_AllocateChunk dev useReserve =
      (if \<not> useReserve \<and> \<not> yaffs_CheckSpaceForAllocation dev then Some (-1, -1, d) else alloc_page d)"
    "block_inv d" "allocationBlock d = b" "0 \<le> b" "allocationPage d = 0" "bits_view d = bits_view dev" "nFreeChunks d = nFreeChunks dev"
    using take_erased_block [OF inv neg] blk neg by (metis not_less)
  then have run: "yaffs_AllocateChunk dev useReserve = alloc_page d" using space by auto
  have nc: "nChunksPerBlock d = nChunksPerBlock dev" using d(6) by (simp add: bits_view_def)
  have nn: "0 \<le> allocationBlock d" using d(3,4) by simp
  show thesis
    by (rule alloc_page_ok [OF d(2) nn], unfold d(3,5,7) nc bits_view_cong [OF d(6)], rule that [of "b * nChunksPerBlock dev + 0" b _ 0])
      (use run in \<open>simp_all only: simp_thms unsigned_0\<close>)
qed

lemma AllocateChunk_inv:
  assumes inv: "block_inv dev"
  shows "\<exists>chunk blk dev'. yaffs_AllocateChunk dev useReserve = Some (chunk, blk, dev') \<and> block_inv dev'"
proof -
  consider "0 \<le> allocationBlock dev" | "allocationBlock dev < 0" "0 < nErasedBlocks dev" | "allocationBlock dev < 0" "nErasedBlocks dev \<le> 0"
    by linarith
  then show ?thesis
  proof cases
    case 1
    obtain d where "alloc_page dev = Some (allocationBlock dev * nChunksPerBlock dev + uint (allocationPage dev), allocationBlock dev, d)" "block_inv d"
      using alloc_page_ok [OF inv 1] by metis
    then show ?thesis using 1 inv by (simp add: AllocateChunk_page)
  next
    case 2
    obtain b d where d: "\<And>useReserve. yaffs_AllocateChunk dev useReserve =
        (if \<not> useReserve \<and> \<not> yaffs_CheckSpaceForAllocation dev then Some (-1, -1, d) else alloc_page d)"
      "block_inv d" "allocationBlock d = b" "0 \<le> b" using take_erased_block [OF inv 2] by metis
    then have "0 \<le> allocationBlock d" by simp
    then obtain e where "alloc_page d = Some (allocationBlock d * nChunksPerBlock d + uint (allocationPage d), allocationBlock d, e)" "block_inv e"
      using alloc_page_ok [OF d(2)] by metis
    then show ?thesis using d(1,2) by simp
  next
    case 3
    let ?d = "dev\<lparr>allocationBlock := -1, allocationPage := 0\<rparr>"
    have v: "bits_view ?d = bits_view dev" by (simp add: bits_view_def)
    have g: "yaffs_GetBlockInfo ?d = yaffs_GetBlockInfo dev" by (rule GetBlockInfo_cong) simp_all
    have "block_ok ?d c ci" if "yaffs_GetBlockInfo dev c = Some ci" for c ci
      using block_invD(6) [OF inv that] no_other_allocating [OF inv 3(1) that] by (auto simp: block_ok_def bits_view_cong [OF v])
    then have "block_inv ?d"
      by (intro block_invI) (simp_all add: bits_view_cong [OF v] g block_invD [OF inv] alloc_ok_def)
    then show ?thesis using 3 by (simp add: AllocateChunk_page yaffs_FindBlockForAllocation_def)
  qed
qed

subsection \<open>Soft deletion\<close>

lemma block_index_of_chunk:
  assumes "valid_chunk dev (blk, page)" "0 < internalStartBlock dev"
  shows "cdiv (blk * nChunksPerBlock dev + page) (nChunksPerBlock dev) = blk"
    "cmod (blk * nChunksPerBlock dev + page) (nChunksPerBlock dev) = page" "0 < blk * nChunksPerBlock dev + page"
proof -
  have p: "0 \<le> page" "page < nChunksPerBlock dev" "0 < blk" using assms by (auto simp: valid_chunk_def valid_block_def)
  then have "0 < blk * nChunksPerBlock dev" by simp
  then show "0 < blk * nChunksPerBlock dev + page" using p by linarith
  then show "cdiv (blk * nChunksPerBlock dev + page) (nChunksPerBlock dev) = blk"
    "cmod (blk * nChunksPerBlock dev + page) (nChunksPerBlock dev) = page"
    using p by (simp_all add: cdiv_def cmod_def)
qed

lemma int10_small: "0 \<le> x \<Longrightarrow> x < 512 \<Longrightarrow> int10 x = x"
  by (simp add: int10_def signed_take_bit_int_eq_self)

lemma in_use_bounds:
  assumes "wf_bitmap dev" "valid_block dev blk"
  shows "finite (chunks_in_use dev blk)" "int (card (chunks_in_use dev blk)) \<le> nChunksPerBlock dev"
proof -
  have sub: "chunks_in_use dev blk \<subseteq> {..<nat (nChunksPerBlock dev)}"
    unfolding in_use_bitmap [OF assms] by auto
  then show "finite (chunks_in_use dev blk)" by (rule finite_subset) simp
  have "card (chunks_in_use dev blk) \<le> nat (nChunksPerBlock dev)" using card_mono [OF _ sub] by simp
  then show "int (card (chunks_in_use dev blk)) \<le> nChunksPerBlock dev" using assms(1) by (auto simp: wf_bitmap_def)
qed

lemma SoftDeleteChunk_ok:
  assumes inv: "block_inv dev" and c: "valid_chunk dev (blk, page)" and bi: "yaffs_GetBlockInfo dev blk = Some bi"
    and st: "blockState bi \<in> {YAFFS_BLOCK_STATE_ALLOCATING, YAFFS_BLOCK_STATE_FULL, YAFFS_BLOCK_STATE_COLLECTING}"
    and live: "softDeletions bi < pagesInUse bi"
  shows "\<exists>dev'. yaffs_SoftDeleteChunk dev (blk * nChunksPerBlock dev + page) = Some dev' \<and> block_inv dev' \<and>
    nFreeChunks dev' = nFreeChunks dev + 1"
proof -
  note I = block_invD [OF inv]
  have vb: "valid_block dev blk" using c by (simp add: valid_chunk_def)
  have ok: "block_ok dev blk bi" by (rule I(6) [OF bi])
  then have b: "0 \<le> softDeletions bi" "softDeletions bi + 1 < 512" "int10 (softDeletions bi + 1) = softDeletions bi + 1"
    using live in_use_bounds(2) [OF I(1) vb] I(3) by (auto simp: block_ok_def int10_small)
  let ?bi = "bi\<lparr>softDeletions := softDeletions bi + 1\<rparr>"
  let ?dev = "(set_block_info dev blk ?bi)\<lparr>nFreeChunks := nFreeChunks dev + 1\<rparr>"
  have bv: "bits_view ?dev = bits_view dev" by (simp add: bits_view_def)
  have g: "yaffs_GetBlockInfo ?dev = yaffs_GetBlockInfo (set_block_info dev blk ?bi)" by (rule GetBlockInfo_cong) simp_all
  have "alloc_ok ?dev"
    using I(9) bi by (auto simp: alloc_ok_def bits_view_cong [OF bv] g get_set_block_info)
  then have "block_inv ?dev"
    by (intro block_inv_step [OF inv bi, where U = "chunks_in_use dev blk" and bi' = ?bi])
      (use I(1,2) I(6) b st ok live in \<open>auto simp: bits_view_cong [OF bv] free_of_block_def block_ok_def\<close>)
  then show ?thesis
    using bi b by (simp add: yaffs_SoftDeleteChunk_def block_index_of_chunk [OF c I(4)])
qed

subsection \<open>Invalidating the checkpoint\<close>

text \<open>What an operation on other blocks leaves alone.\<close>

definition nand_ok :: "'n yaffs_Device \<Rightarrow> bool" where
  "nand_ok dev \<longleftrightarrow> eraseBlockInNAND dev \<noteq> None \<and> markNANDBlockBad dev \<noteq> None"

definition frame :: "'n yaffs_Device \<Rightarrow> 'n yaffs_Device \<Rightarrow> bool" where
  "frame dev dev' \<longleftrightarrow> bits_view dev' = bits_view dev \<and> nand_ok dev' = nand_ok dev \<and>
     allocationBlock dev' = allocationBlock dev \<and> allocationPage dev' = allocationPage dev \<and>
     (\<forall>c ci. yaffs_GetBlockInfo dev c = Some ci \<longrightarrow> blockState ci \<noteq> YAFFS_BLOCK_STATE_CHECKPOINT \<longrightarrow>
        yaffs_GetBlockInfo dev' c = Some ci)"

lemma frame_refl: "frame dev dev"
  by (simp add: frame_def)

lemma frame_trans: "frame a b \<Longrightarrow> frame b c \<Longrightarrow> frame a c"
  by (simp add: frame_def)

lemma frame_upd:
  assumes "bits_view dev' = bits_view dev" "blockInfo dev' = blockInfo dev" "eraseBlockInNAND dev' = eraseBlockInNAND dev"
    "markNANDBlockBad dev' = markNANDBlockBad dev" "allocationBlock dev' = allocationBlock dev" "allocationPage dev' = allocationPage dev"
  shows "frame dev dev'"
proof -
  have "yaffs_GetBlockInfo dev' = yaffs_GetBlockInfo dev" by (rule GetBlockInfo_cong) (use assms in \<open>simp_all add: bits_view_def\<close>)
  then show ?thesis using assms by (simp add: frame_def nand_ok_def)
qed

lemma frame_alloc:
  assumes "frame dev dev'" "alloc_ok dev" shows "alloc_ok dev'"
proof -
  have v: "bits_view dev' = bits_view dev" using assms(1) by (simp add: frame_def)
  then have "nChunksPerBlock dev' = nChunksPerBlock dev" by (simp add: bits_view_def)
  then show ?thesis using assms by (auto simp: frame_def alloc_ok_def bits_view_cong [OF v])
qed

lemma set_block_info_nand [simp]:
  "eraseBlockInNAND (set_block_info dev b bi) = eraseBlockInNAND dev" "markNANDBlockBad (set_block_info dev b bi) = markNANDBlockBad dev"
  "isYaffs2 (set_block_info dev b bi) = isYaffs2 dev" "blockOffset (set_block_info dev b bi) = blockOffset dev"
  by (simp_all add: set_block_info_def split: option.splits)

lemma set_block_info_generic [simp]:
  "set_block_info (dev\<lparr>genericDevice := n\<rparr>) b bi = (set_block_info dev b bi)\<lparr>genericDevice := n\<rparr>"
  by (simp add: set_block_info_def block_index_def split: option.splits)

text \<open>One entry of the block table changes its state, and nothing else the invariant is about.\<close>

lemma table_step:
  assumes inv: "block_inv_off k dev" and bi: "yaffs_GetBlockInfo dev i = Some bi" "blockState bi \<noteq> YAFFS_BLOCK_STATE_ALLOCATING"
    and bv: "bits_view dev' = bits_view dev" and table: "blockInfo dev' = blockInfo (set_block_info dev i bi')"
    and new: "blockState bi' \<noteq> YAFFS_BLOCK_STATE_ALLOCATING" "pagesInUse bi' = pagesInUse bi" "softDeletions bi' = softDeletions bi"
      "blockState bi' \<in> {YAFFS_BLOCK_STATE_EMPTY, YAFFS_BLOCK_STATE_CHECKPOINT} \<Longrightarrow> pagesInUse bi = 0"
    and counts: "nErasedBlocks dev' = nErasedBlocks dev - of_bool (blockState bi = YAFFS_BLOCK_STATE_EMPTY) +
        of_bool (blockState bi' = YAFFS_BLOCK_STATE_EMPTY)"
      "nFreeChunks dev' = nFreeChunks dev - free_of_block (nChunksPerBlock dev) bi + free_of_block (nChunksPerBlock dev) bi' + k' - k"
    and rest: "allocationBlock dev' = allocationBlock dev" "allocationPage dev' = allocationPage dev"
  shows "block_inv_off k' dev'" "yaffs_GetBlockInfo dev' c = (if c = i then Some bi' else yaffs_GetBlockInfo dev c)"
proof -
  note I = block_invD [OF inv]
  have ok: "block_ok dev i bi" by (rule I(6) [OF bi(1)])
  have l: "internalStartBlock dev' = internalStartBlock dev" "internalEndBlock dev' = internalEndBlock dev"
    "nChunksPerBlock dev' = nChunksPerBlock dev" using bv by (simp_all add: bits_view_def)
  have "yaffs_GetBlockInfo dev' = yaffs_GetBlockInfo (set_block_info dev i bi')" by (rule GetBlockInfo_cong) (simp_all add: table l)
  then have g: "yaffs_GetBlockInfo dev' c = (if c = i then Some bi' else yaffs_GetBlockInfo dev c)" for c
    by (simp add: get_set_block_info bi(1))
  then show "yaffs_GetBlockInfo dev' c = (if c = i then Some bi' else yaffs_GetBlockInfo dev c)" .
  have "alloc_ok dev'" using I(9) bi by (auto simp: alloc_ok_def bits_view_cong [OF bv] rest l g)
  then show "block_inv_off k' dev'"
    by (intro block_inv_step [OF inv bi(1) _ _ l table, where U = "chunks_in_use dev i"])
      (use I(1,2) I(6) ok new counts rest in \<open>auto simp: bits_view_cong [OF bv] block_ok_def\<close>)
qed

text \<open>A checkpoint block becomes erased or dead.\<close>

lemma checkpoint_block_step:
  assumes inv: "block_inv_off k dev" and bi: "yaffs_GetBlockInfo dev i = Some bi" "blockState bi = YAFFS_BLOCK_STATE_CHECKPOINT"
    and st: "st = YAFFS_BLOCK_STATE_EMPTY \<and> e = 1 \<and> fr = nChunksPerBlock dev \<or> st = YAFFS_BLOCK_STATE_DEAD \<and> e = 0 \<and> fr = 0"
    and bv: "bits_view dev' = bits_view dev" and table: "blockInfo dev' = blockInfo (set_block_info dev i (bi\<lparr>blockState := st\<rparr>))"
    and rest: "nErasedBlocks dev' = nErasedBlocks dev + e" "nFreeChunks dev' = nFreeChunks dev + fr"
      "allocationBlock dev' = allocationBlock dev" "allocationPage dev' = allocationPage dev" "nand_ok dev' = nand_ok dev"
  shows "block_inv_off k dev' \<and> frame dev dev'"
proof -
  have "pagesInUse bi = 0" "softDeletions bi = 0" using block_invD(6) [OF inv bi(1)] bi(2) by (auto simp: block_ok_def)
  then have t: "block_inv_off k dev'" "\<And>c. yaffs_GetBlockInfo dev' c = (if c = i then Some (bi\<lparr>blockState := st\<rparr>) else yaffs_GetBlockInfo dev c)"
    by (rule_tac [!] table_step [OF inv bi(1) _ bv table]) (use bi(2) st rest in \<open>auto simp: free_of_block_def\<close>)
  then show ?thesis using bi bv rest by (auto simp: frame_def)
qed

lemma CheckpointErase_loop_ok:
  assumes "block_inv_off k dev" "nand_ok dev" "\<And>i. i \<in> set is \<Longrightarrow> valid_block dev i"
  shows "\<exists>dev'. CheckpointErase_loop is dev = Some dev' \<and> block_inv_off k dev' \<and> frame dev dev'"
  using assms
proof (induction "is" arbitrary: dev)
  case Nil
  then show ?case by (simp add: frame_refl)
next
  case (Cons i "is")
  obtain bi where bi: "yaffs_GetBlockInfo dev i = Some bi"
    using Cons.prems(3) valid_block_info [OF block_invD(5) [OF Cons.prems(1)]] by auto
  have *: "\<exists>dev2. CheckpointErase_loop is dev1 = Some dev2 \<and> block_inv_off k dev2 \<and> frame dev dev2"
    if 1: "block_inv_off k dev1 \<and> frame dev dev1" for dev1
  proof -
    have "nand_ok dev1" "valid_block dev1 = valid_block dev"
      using 1 Cons.prems(2) bits_view_cong(5) [of dev1 dev] by (simp_all add: frame_def)
    then show ?thesis using Cons.IH [of dev1] Cons.prems(3) 1 frame_trans [of dev dev1] by auto
  qed
  show ?case
  proof (cases "blockState bi = YAFFS_BLOCK_STATE_CHECKPOINT")
    case True
    obtain f g where fg: "eraseBlockInNAND dev = Some f" "markNANDBlockBad dev = Some g" using Cons.prems(2) by (auto simp: nand_ok_def)
    obtain r n where r: "f (genericDevice dev) (i - blockOffset dev) = (r, n)" by fastforce
    let ?e = "\<lambda>st. set_block_info dev i (bi\<lparr>blockState := st\<rparr>)"
    show ?thesis
    proof (cases "r \<noteq> 0")
      case ok: True
      let ?d = "(?e YAFFS_BLOCK_STATE_EMPTY)\<lparr>genericDevice := n, nErasedBlocks := nErasedBlocks dev + 1,
          nFreeChunks := nFreeChunks dev + nChunksPerBlock dev\<rparr>"
      have "block_inv_off k ?d \<and> frame dev ?d"
        by (rule checkpoint_block_step [OF Cons.prems(1) bi True, of YAFFS_BLOCK_STATE_EMPTY 1 "nChunksPerBlock dev"])
          (simp_all add: bits_view_def nand_ok_def)
      from * [OF this] show ?thesis using True bi fg r ok by simp
    next
      case bad: False
      let ?d = "(?e YAFFS_BLOCK_STATE_DEAD)\<lparr>genericDevice := snd (g n i)\<rparr>"
      have "block_inv_off k ?d \<and> frame dev ?d"
        by (rule checkpoint_block_step [OF Cons.prems(1) bi True, of YAFFS_BLOCK_STATE_DEAD 0 0])
          (simp_all add: bits_view_def nand_ok_def)
      from * [OF this] show ?thesis using True bi fg r bad by simp
    qed
  next
    case False
    then show ?thesis using * [of dev] Cons.prems(1) bi by (simp add: frame_refl)
  qed
qed

lemma InvalidateCheckpoint_ok:
  assumes "block_inv_off k dev" "nand_ok dev"
  shows "\<exists>dev'. yaffs_InvalidateCheckpoint dev = Some dev' \<and> block_inv_off k dev' \<and> frame dev dev'"
proof -
  have upd: "block_inv_off k b \<and> frame a b" if "block_inv_off k a" "inv_view b = inv_view a" "eraseBlockInNAND b = eraseBlockInNAND a"
    "markNANDBlockBad b = markNANDBlockBad a" for a b :: "'a yaffs_Device"
    using that block_inv_cong [OF that(2)] frame_upd [of b a] by (simp add: inv_view_def)
  let ?a = "dev\<lparr>isCheckpointed := False\<rparr>"
  have a: "block_inv_off k ?a \<and> frame dev ?a" by (rule upd [OF assms(1)]) (simp_all add: inv_view_def bits_view_def)
  then have "nand_ok ?a" using assms(2) by (simp add: frame_def)
  moreover have "valid_block ?a i" if "i \<in> set [internalStartBlock ?a..internalEndBlock ?a]" for i
    using that by (simp add: valid_block_def)
  ultimately obtain b where b: "CheckpointErase_loop [internalStartBlock ?a..internalEndBlock ?a] ?a = Some b"
    "block_inv_off k b" "frame ?a b"
    using CheckpointErase_loop_ok a by blast
  have c: "block_inv_off k (b\<lparr>blocksInCheckpoint := 0\<rparr>) \<and> frame b (b\<lparr>blocksInCheckpoint := 0\<rparr>)"
    by (rule upd [OF b(2)]) (simp_all add: inv_view_def bits_view_def)
  have d: "frame dev (b\<lparr>blocksInCheckpoint := 0\<rparr>)" using frame_trans [OF frame_trans] a b(3) c by blast
  have "yaffs_CheckpointInvalidateStream ?a = Some (0, ?a) \<or> yaffs_CheckpointInvalidateStream ?a = Some (1, b\<lparr>blocksInCheckpoint := 0\<rparr>)"
    using \<open>nand_ok ?a\<close> b(1) by (simp add: yaffs_CheckpointInvalidateStream_def yaffs_CheckpointErase_def nand_ok_def)
  then obtain r e where e: "yaffs_CheckpointInvalidateStream ?a = Some (r, e)" "block_inv_off k e" "frame dev e"
    using a c d by blast
  have "block_inv_off k (e\<lparr>superBlockDirty := True\<rparr>) \<and> frame e (e\<lparr>superBlockDirty := True\<rparr>)"
    by (rule upd [OF e(2)]) (simp_all add: inv_view_def bits_view_def)
  then have "block_inv_off k (e\<lparr>superBlockDirty := True\<rparr>) \<and> frame dev (e\<lparr>superBlockDirty := True\<rparr>)" using frame_trans e(3) by blast
  then show ?thesis using e assms(1) frame_refl [of dev] by (simp add: yaffs_InvalidateCheckpoint_def)
qed

subsection \<open>Erasing or retiring a dirty block\<close>

lemma block_inv_offset:
  assumes "block_inv_off k d" shows "block_inv_off (f - nFreeChunks d + k) (d\<lparr>nFreeChunks := f\<rparr>)"
proof -
  note I = block_invD [OF assms]
  have v: "bits_view (d\<lparr>nFreeChunks := f\<rparr>) = bits_view d" by (simp add: bits_view_def)
  have g: "yaffs_GetBlockInfo (d\<lparr>nFreeChunks := f\<rparr>) = yaffs_GetBlockInfo d" by (rule GetBlockInfo_cong) simp_all
  have "block_ok (d\<lparr>nFreeChunks := f\<rparr>) = block_ok d" "alloc_ok (d\<lparr>nFreeChunks := f\<rparr>) = alloc_ok d"
    by (simp_all add: fun_eq_iff bits_view_cong [OF v] g block_ok_def alloc_ok_def)
  then show ?thesis by (intro block_invI) (simp_all add: bits_view_cong [OF v] g I)
qed

lemma no_bits_zero:
  assumes "\<And>m. \<not> bitmap row m" shows "row = replicate (length row) 0"
proof (rule nth_equalityI)
  fix i assume i: "i < length row"
  have "\<not> bit (row ! i) m" if "m < 8" for m
    using assms [of "8 * i + m"] that i by (simp add: bitmap_def)
  then have "row ! i = 0" by (intro bit_word_eqI) simp
  then show "row ! i = replicate (length row) 0 ! i" using i by simp
qed simp

text \<open>Clearing the bits of a block that has no chunk in use changes nothing.\<close>

lemma ClearChunkBits_unused:
  assumes "wf_bitmap dev" "padding_clear dev" "valid_block dev blk" "chunks_in_use dev blk = {}"
  shows "yaffs_ClearChunkBits dev blk = Some dev"
proof -
  obtain row where row: "block_row dev blk = Some row" "int (length row) = chunkBitmapStride dev"
    using block_row_eq [OF assms(1,3)] by metis
  let ?i = "yaffs_BlockBits dev blk" and ?s = "chunkBitmapStride dev"
  have "\<not> bitmap row m" for m using chunks_in_use_row [OF assms(1-3) row(1)] assms(4) by blast
  from no_bits_zero [OF this] have r: "row = replicate (nat ?s) 0" using row(2) by (metis nat_int)
  have g: "0 \<le> ?i" "0 \<le> ?s" "?i + ?s \<le> int (length (chunkBits dev))" "row = take (nat ?s) (drop (nat ?i) (chunkBits dev))"
    using row(1) by (auto simp: block_row_def Let_def split: if_splits)
  have "take (nat ?i) (chunkBits dev) @ row @ drop (nat (?i + ?s)) (chunkBits dev) = chunkBits dev"
    using g by (simp add: nat_add_distrib add.commute flip: drop_drop)
  then show ?thesis using g r by (simp add: yaffs_ClearChunkBits_def Let_def)
qed

lemma RetireBlock_ok:
  assumes inv: "block_inv_off k dev" and n: "nand_ok dev" and bi: "yaffs_GetBlockInfo dev blk = Some bi" "blockState bi = YAFFS_BLOCK_STATE_DIRTY"
  shows "\<exists>dev' bi'. yaffs_RetireBlock dev blk = Some dev' \<and> block_inv_off k dev' \<and> bits_view dev' = bits_view dev \<and>
    yaffs_GetBlockInfo dev' blk = Some bi' \<and> blockState bi' = YAFFS_BLOCK_STATE_DEAD"
proof -
  obtain a where a: "yaffs_InvalidateCheckpoint dev = Some a" "block_inv_off k a" "frame dev a"
    using InvalidateCheckpoint_ok [OF inv n] by blast
  obtain f where f: "markNANDBlockBad a = Some f" using a(3) n by (auto simp: frame_def nand_ok_def)
  let ?b = "a\<lparr>genericDevice := snd (f (genericDevice a) (blk - blockOffset a))\<rparr>"
  have b: "yaffs_GetBlockInfo ?b blk = Some bi" "bits_view ?b = bits_view dev"
    using a(3) bi by (auto simp: frame_def bits_view_def yaffs_GetBlockInfo_def block_index_def)
  have g: "yaffs_GetBlockInfo a blk = Some bi" using a(3) bi by (auto simp: frame_def)
  let ?bi = "bi\<lparr>blockState := YAFFS_BLOCK_STATE_DEAD, gcPrioritise := False, needsRetiring := False\<rparr>"
  let ?c = "(set_block_info ?b blk ?bi)\<lparr>nRetiredBlocks := nRetiredBlocks ?b + 1\<rparr>"
  have run: "yaffs_RetireBlock dev blk = Some ?c"
    using a(1) f b(1) by (simp add: yaffs_RetireBlock_def yaffs_MarkBlockBad_def Let_def case_prod_unfold)
  have "bits_view ?c = bits_view a" "blockInfo ?c = blockInfo (set_block_info a blk ?bi)" by (simp_all add: bits_view_def)
  note t = table_step [OF a(2) g _ this]
  have "block_inv_off k ?c" by (rule t) (use bi(2) in \<open>simp_all add: free_of_block_def\<close>)
  moreover have "yaffs_GetBlockInfo ?c blk = Some ?bi"
    by (subst t(2) [where k' = k]) (use bi(2) in \<open>simp_all add: free_of_block_def\<close>)
  ultimately show ?thesis using run b(2) by (intro exI [of _ ?c] exI [of _ ?bi]) (simp add: bits_view_def)
qed

text \<open>
  A block whose chunks have all been deleted is erased, or retired when the erasure fails or errors were
  seen on it; either way the free-chunk counter follows the block table again.
\<close>

lemma BlockBecameDirty_ok:
  assumes inv: "block_inv dev" and n: "nand_ok dev" and cfg: "\<not> cfg_verify_erase cfg" and bi: "yaffs_GetBlockInfo dev blk = Some bi"
    and st: "blockState bi \<in> {YAFFS_BLOCK_STATE_FULL, YAFFS_BLOCK_STATE_COLLECTING}" and empty: "pagesInUse bi = 0"
  shows "\<exists>dev' bi'. yaffs_BlockBecameDirty cfg dev blk = Some dev' \<and> block_inv dev' \<and> bits_view dev' = bits_view dev \<and>
    yaffs_GetBlockInfo dev' blk = Some bi' \<and> blockState bi' \<in> {YAFFS_BLOCK_STATE_EMPTY, YAFFS_BLOCK_STATE_DEAD}"
proof -
  note I = block_invD [OF inv]
  let ?n = "nChunksPerBlock dev" and ?bi = "bi\<lparr>blockState := YAFFS_BLOCK_STATE_DIRTY\<rparr>"
  have z: "softDeletions bi = 0" "chunks_in_use dev blk = {}"
    using I(6) [OF bi] empty finite_subset in_use_bounds(1) [OF I(1)] valid_block_info [OF I(5)] bi by (auto simp: block_ok_def)
  let ?a = "set_block_info dev blk ?bi"
  note t = table_step [OF inv bi, of ?a ?bi ?n]
  have a: "block_inv_off ?n ?a" by (rule t) (use st empty z in \<open>auto simp: free_of_block_def\<close>)
  have ga: "yaffs_GetBlockInfo ?a blk = Some ?bi" using bi by (simp add: get_set_block_info)
  have na: "nand_ok ?a" using n by (simp add: nand_ok_def)
  have retire: "\<exists>dev' bi'. yaffs_RetireBlock (d\<lparr>nFreeChunks := nFreeChunks d - nChunksPerBlock d\<rparr>) blk = Some dev' \<and> block_inv dev' \<and>
      bits_view dev' = bits_view dev \<and> yaffs_GetBlockInfo dev' blk = Some bi' \<and> blockState bi' \<in> {YAFFS_BLOCK_STATE_EMPTY, YAFFS_BLOCK_STATE_DEAD}"
    if d: "block_inv_off ?n d" "frame ?a d" for d
  proof -
    let ?d = "d\<lparr>nFreeChunks := nFreeChunks d - nChunksPerBlock d\<rparr>"
    have v: "bits_view ?d = bits_view d" "bits_view d = bits_view dev" using d(2) by (simp_all add: bits_view_def frame_def)
    then have np: "nChunksPerBlock d = ?n" by (simp add: bits_view_def)
    have g: "yaffs_GetBlockInfo ?d = yaffs_GetBlockInfo d" by (rule GetBlockInfo_cong) simp_all
    have "block_inv ?d" using block_inv_offset [OF d(1), of "nFreeChunks d - nChunksPerBlock d"] by (simp add: np)
    moreover have "nand_ok ?d" "yaffs_GetBlockInfo ?d blk = Some ?bi" using d(2) na ga g by (auto simp: frame_def nand_ok_def)
    ultimately show ?thesis using RetireBlock_ok [of 0 ?d blk ?bi] v by auto
  qed
  show ?thesis
  proof (cases "needsRetiring bi")
    case True
    then show ?thesis using retire [OF a frame_refl] bi by (simp add: yaffs_BlockBecameDirty_def)
  next
    case False
    obtain b where b: "yaffs_InvalidateCheckpoint ?a = Some b" "block_inv_off ?n b" "frame ?a b"
      using InvalidateCheckpoint_ok [OF a na] by blast
    obtain f where f: "eraseBlockInNAND b = Some f" using b(3) na by (auto simp: frame_def nand_ok_def)
    obtain r m where r: "f (genericDevice b) (blk - blockOffset b) = (r, m)" by fastforce
    let ?c = "b\<lparr>nBlockErasures := nBlockErasures b + 1, genericDevice := m\<rparr>"
    have vb: "bits_view b = bits_view dev" using b(3) by (simp add: frame_def)
    then have np: "nChunksPerBlock b = ?n" by (simp add: bits_view_def)
    show ?thesis
    proof (cases "r = 0")
      case True
      let ?d = "?c\<lparr>nErasureFailures := nErasureFailures b + 1\<rparr>"
      have "block_inv_off ?n ?d" using b(2) block_inv_cong [of ?d b] by (simp add: inv_view_def bits_view_def)
      moreover have "frame ?a ?d" by (rule frame_trans [OF b(3) frame_upd]) (simp_all add: bits_view_def)
      ultimately show ?thesis using retire [of ?d] bi b(1) f r False True by (simp add: yaffs_BlockBecameDirty_def yaffs_EraseBlockInNAND_def)
    next
      case ok: False
      have gb: "yaffs_GetBlockInfo b blk = Some ?bi" "yaffs_GetBlockInfo ?c blk = Some ?bi"
        using b(3) ga by (auto simp: frame_def yaffs_GetBlockInfo_def block_index_def)
      let ?new = "?bi\<lparr>blockState := YAFFS_BLOCK_STATE_EMPTY, pagesInUse := 0, softDeletions := 0,
           hasShrinkHeader := False, skipErasedCheck := True, gcPrioritise := False\<rparr>"
      let ?e = "(set_block_info ?c blk ?new)\<lparr>nErasedBlocks := nErasedBlocks b + 1\<rparr>"
      have tb: "bits_view ?e = bits_view b" "blockInfo ?e = blockInfo (set_block_info b blk ?new)"
        by (simp_all add: bits_view_def set_block_info_def block_index_def split: option.splits)
      note t = table_step [OF b(2) gb(1) _ tb]
      have inv': "block_inv ?e" by (rule t) (use empty z np in \<open>simp_all add: free_of_block_def\<close>)
      have g': "yaffs_GetBlockInfo ?e blk = Some ?new" by (subst t(2) [where k' = 0]) (use empty z np in \<open>simp_all add: free_of_block_def\<close>)
      have v: "bits_view ?e = bits_view dev" using tb(1) vb by simp
      have "yaffs_ClearChunkBits ?e blk = Some ?e"
        by (rule ClearChunkBits_unused [OF block_invD(1,2) [OF inv']])
          (use z(2) valid_block_info [OF I(5)] bi in \<open>simp_all only: bits_view_cong [OF v], blast\<close>)
      then have "yaffs_BlockBecameDirty cfg dev blk = Some ?e"
        using bi b(1) f r False ok gb(2) cfg by (simp add: yaffs_BlockBecameDirty_def yaffs_EraseBlockInNAND_def)
      then show ?thesis using inv' g' v by auto
    qed
  qed
qed

subsection \<open>Deleting a chunk\<close>

lemma DeleteChunk_ok:
  assumes inv: "block_inv dev" and n: "nand_ok dev" "isYaffs2 dev" and cfg: "\<not> cfg_verify_erase cfg"
    and c: "valid_chunk dev (blk, page)" "nat page \<in> chunks_in_use dev blk" and bi: "yaffs_GetBlockInfo dev blk = Some bi"
    and st: "blockState bi \<in> {YAFFS_BLOCK_STATE_ALLOCATING, YAFFS_BLOCK_STATE_FULL, YAFFS_BLOCK_STATE_COLLECTING}"
    and live: "softDeletions bi < pagesInUse bi"
  shows "\<exists>dev'. yaffs_DeleteChunk cfg dev (blk * nChunksPerBlock dev + page) mark = Some dev' \<and> block_inv dev' \<and>
    (\<forall>b. valid_block dev b \<longrightarrow> chunks_in_use dev' b = (if b = blk then chunks_in_use dev b - {nat page} else chunks_in_use dev b))"
proof -
  note I = block_invD [OF inv]
  have vb: "valid_block dev blk" using c(1) by (simp add: valid_chunk_def)
  let ?U = "chunks_in_use dev blk - {nat page}" and ?bi = "bi\<lparr>pagesInUse := pagesInUse bi - 1\<rparr>"
  let ?a = "dev\<lparr>nDeletions := nDeletions dev + 1, nUnmarkedDeletions := nUnmarkedDeletions dev + 1, nFreeChunks := nFreeChunks dev + 1\<rparr>"
  have va: "bits_view ?a = bits_view dev" by (simp add: bits_view_def)
  have ok: "block_ok dev blk bi" by (rule I(6) [OF bi])
  then have b: "int10 (pagesInUse bi - 1) = pagesInUse bi - 1" and card: "int (card ?U) = pagesInUse bi - 1"
    using live in_use_bounds [OF I(1) vb] I(3) c(2) by (auto simp: block_ok_def int10_small)
  obtain bs where bs: "yaffs_ClearChunkBit ?a blk page = Some (?a\<lparr>chunkBits := bs\<rparr>)" "length bs = length (chunkBits ?a)"
    "padding_clear (?a\<lparr>chunkBits := bs\<rparr>)"
    "\<And>b. valid_block ?a b \<Longrightarrow> chunks_in_use (?a\<lparr>chunkBits := bs\<rparr>) b = (if b = blk then chunks_in_use ?a b - {nat page} else chunks_in_use ?a b)"
    using ClearChunkBit_in_use [of ?a blk page] I(1,2) c(1) unfolding bits_view_cong [OF va] by blast
  let ?b = "set_block_info (?a\<lparr>chunkBits := bs\<rparr>) blk ?bi"
  have use: "chunks_in_use ?b b = (if b = blk then ?U else chunks_in_use dev b)" if "valid_block dev b" for b
    using bs(4) that by (simp add: bits_view_cong [OF va])
  have wf: "wf_bitmap ?b" "padding_clear ?b" using bs(2,3) I(1) by (simp_all add: wf_bitmap_def nblocks_def)
  have table: "blockInfo ?b = blockInfo (set_block_info dev blk ?bi)" by (rule blockInfo_set_cong) simp_all
  have "yaffs_GetBlockInfo ?b = yaffs_GetBlockInfo (set_block_info dev blk ?bi)" by (rule GetBlockInfo_cong) (simp_all add: table)
  then have g: "yaffs_GetBlockInfo ?b c = (if c = blk then Some ?bi else yaffs_GetBlockInfo dev c)" for c by (simp add: get_set_block_info bi)
  have al: "alloc_ok ?b"
    using I(9) bi valid_block_info [OF I(5), of "allocationBlock dev"] use by (auto simp: alloc_ok_def g split: if_splits)
  have inv': "block_inv ?b"
    by (rule block_inv_step [OF inv bi wf _ _ _ table use _ _ _ _ _ _ _ _ al])
      (use ok live card st I(6) in \<open>auto simp: block_ok_def free_of_block_def\<close>)
  have run: "yaffs_DeleteChunk cfg dev (blk * nChunksPerBlock dev + page) mark =
      (if pagesInUse ?bi = 0 \<and> \<not> hasShrinkHeader bi \<and> blockState bi \<noteq> YAFFS_BLOCK_STATE_ALLOCATING
       then yaffs_BlockBecameDirty cfg ?b blk else Some ?b)"
  proof -
    define ch where "ch = blk * nChunksPerBlock dev + page"
    have ch: "cdiv ch (nChunksPerBlock dev) = blk" "cmod ch (nChunksPerBlock dev) = page" "\<not> ch \<le> 0"
      using block_index_of_chunk [OF c(1) I(4)] by (simp_all only: ch_def not_le)
    let ?d = "dev\<lparr>nDeletions := nDeletions dev + 1\<rparr>"
    have v: "bits_view ?d = bits_view dev" by (simp add: bits_view_def)
    obtain x where x: "yaffs_CheckChunkBit ?d blk page = Some x"
      using CheckChunkBit_eq [of ?d blk page] c(1) I(1) by (simp add: bits_view_cong [OF v])
    have g: "yaffs_GetBlockInfo ?d blk = Some bi" using bi GetBlockInfo_cong [of ?d dev] by simp
    show ?thesis unfolding ch_def [symmetric] yaffs_DeleteChunk_def
      using ch g x st b bs(1) n(2) by (auto simp del: cdiv_nonneg cmod_nonneg)
  qed
  show ?thesis
  proof (cases "pagesInUse ?bi = 0 \<and> \<not> hasShrinkHeader bi \<and> blockState bi \<noteq> YAFFS_BLOCK_STATE_ALLOCATING")
    case True
    have "nand_ok ?b" using n(1) by (simp add: nand_ok_def)
    moreover have "yaffs_GetBlockInfo ?b blk = Some ?bi" by (simp add: g)
    ultimately obtain d where d: "yaffs_BlockBecameDirty cfg ?b blk = Some d" "block_inv d" "bits_view d = bits_view ?b"
      using BlockBecameDirty_ok [OF inv' _ cfg, of blk ?bi] st True by auto
    then show ?thesis using run True use by (simp add: bits_view_cong [OF d(3)])
  next
    case False
    then show ?thesis using run inv' use by auto
  qed
qed

subsection \<open>Runs of the block manager\<close>

text \<open>
  One call of a block operation, at a moment the file system makes it: allocation at any time, soft
  deletion of a chunk that is not yet soft-deleted, deletion of a chunk in use, invalidation of the
  checkpoint.  The device is a YAFFS2 one with its erase and mark-bad functions in place.
\<close>

inductive block_op :: "yaffs_Config \<Rightarrow> 'n yaffs_Device \<Rightarrow> 'n yaffs_Device \<Rightarrow> bool" for cfg where
  allocate: "yaffs_AllocateChunk dev useReserve = Some (chunk, blk, dev') \<Longrightarrow> block_op cfg dev dev'"
| soft_delete: "yaffs_SoftDeleteChunk dev (blk * nChunksPerBlock dev + page) = Some dev' \<Longrightarrow> valid_chunk dev (blk, page) \<Longrightarrow>
     yaffs_GetBlockInfo dev blk = Some bi \<Longrightarrow>
     blockState bi \<in> {YAFFS_BLOCK_STATE_ALLOCATING, YAFFS_BLOCK_STATE_FULL, YAFFS_BLOCK_STATE_COLLECTING} \<Longrightarrow>
     softDeletions bi < pagesInUse bi \<Longrightarrow> block_op cfg dev dev'"
| delete: "yaffs_DeleteChunk cfg dev (blk * nChunksPerBlock dev + page) mark = Some dev' \<Longrightarrow> nand_ok dev \<Longrightarrow> isYaffs2 dev \<Longrightarrow>
     valid_chunk dev (blk, page) \<Longrightarrow> nat page \<in> chunks_in_use dev blk \<Longrightarrow> yaffs_GetBlockInfo dev blk = Some bi \<Longrightarrow>
     blockState bi \<in> {YAFFS_BLOCK_STATE_ALLOCATING, YAFFS_BLOCK_STATE_FULL, YAFFS_BLOCK_STATE_COLLECTING} \<Longrightarrow>
     softDeletions bi < pagesInUse bi \<Longrightarrow> block_op cfg dev dev'"
| invalidate: "yaffs_InvalidateCheckpoint dev = Some dev' \<Longrightarrow> nand_ok dev \<Longrightarrow> block_op cfg dev dev'"

inductive_cases block_opE: "block_op cfg dev dev'"

lemma block_op_inv: "block_op cfg dev dev' \<Longrightarrow> \<not> cfg_verify_erase cfg \<Longrightarrow> block_inv dev \<Longrightarrow> block_inv dev'"
proof (induction rule: block_op.induct)
  case (allocate dev useReserve chunk blk dev')
  then show ?case using AllocateChunk_inv [of dev useReserve] by auto
next
  case (soft_delete dev blk page dev' bi)
  then show ?case using SoftDeleteChunk_ok [of dev blk page bi] by auto
next
  case (delete dev blk page mark dev' bi)
  then show ?case using DeleteChunk_ok [of dev cfg blk page bi mark] by auto
next
  case (invalidate dev dev')
  then show ?case using InvalidateCheckpoint_ok [of 0 dev] by auto
qed

inductive block_run :: "yaffs_Config \<Rightarrow> 'n yaffs_Device \<Rightarrow> 'n yaffs_Device \<Rightarrow> bool" for cfg where
  stop: "block_run cfg dev dev"
| step: "block_run cfg dev dev' \<Longrightarrow> block_op cfg dev' dev'' \<Longrightarrow> block_run cfg dev dev''"

lemma block_run_inv: "block_run cfg dev dev' \<Longrightarrow> \<not> cfg_verify_erase cfg \<Longrightarrow> block_inv dev \<Longrightarrow> block_inv dev'"
  by (induction rule: block_run.induct) (auto intro: block_op_inv)

subsection \<open>Properties\<close>

text \<open>A small device: three erased blocks of 12 chunks.\<close>

definition sample_blocks :: "'n yaffs_Device \<Rightarrow> 'n yaffs_Device" where
  "sample_blocks dev = dev\<lparr>nChunksPerBlock := 12, chunkBitmapStride := 2, internalStartBlock := 1, internalEndBlock := 3,
     chunkBits := replicate 6 0, blockInfo := replicate 3 (zero_block_info\<lparr>blockState := YAFFS_BLOCK_STATE_EMPTY\<rparr>),
     nErasedBlocks := 3, nFreeChunks := 36, allocationBlock := -1, nReservedBlocks := 1, nCheckpointReservedBlocks := 0,
     blocksInCheckpoint := 0, isYaffs2 := True\<rparr>"

lemma sample_blocks_inv: "block_inv (sample_blocks dev)"
proof -
  let ?d = "sample_blocks dev"
  have no: "\<not> bitmap (replicate 6 (0 :: u8)) m" for m by (simp add: bitmap_def)
  have wf: "wf_bitmap ?d" by (simp add: wf_bitmap_def nblocks_def sample_blocks_def)
  have empty: "chunks_in_use ?d b = {}" if "valid_block ?d b" for b
    unfolding in_use_bitmap [OF wf that] using no by (simp add: sample_blocks_def)
  have len: "int (length (blockInfo ?d)) = nblocks ?d" by (simp add: nblocks_def sample_blocks_def)
  have "block_ok ?d b bi" if g: "yaffs_GetBlockInfo ?d b = Some bi" for b bi
  proof -
    have "bi = zero_block_info\<lparr>blockState := YAFFS_BLOCK_STATE_EMPTY\<rparr>"
      using g by (auto simp: yaffs_GetBlockInfo_def block_index_def sample_blocks_def Let_def split: if_splits)
    moreover have "valid_block ?d b" using valid_block_info [OF len] g by blast
    ultimately show ?thesis using empty by (simp add: block_ok_def zero_block_info_def)
  qed
  then show ?thesis
    using wf len no
    by (intro block_invI) (simp_all add: padding_clear_def sample_blocks_def erased_count_def free_sum_def free_of_block_def
        zero_block_info_def alloc_ok_def sum_list_replicate)
qed

text \<open>
  C1. \<open>yaffs_AllocateChunk\<close> with space and a block to write to returns a chunk that is not in use, marks it
  and only it as used, decrements the count of free chunks, and keeps the invariant of the block tables.
\<close>

theorem AllocateChunk_fresh:
  assumes "block_inv dev" and "0 \<le> allocationBlock dev \<or> 0 < nErasedBlocks dev" and "useReserve \<or> yaffs_CheckSpaceForAllocation dev"
  shows "\<exists>blk page dev'. yaffs_AllocateChunk dev useReserve = Some (blk * nChunksPerBlock dev + page, blk, dev') \<and>
    valid_chunk dev (blk, page) \<and> nat page \<notin> chunks_in_use dev blk \<and> block_inv dev' \<and> nFreeChunks dev' = nFreeChunks dev - 1 \<and>
    (\<forall>c. valid_block dev c \<longrightarrow> chunks_in_use dev' c = (if c = blk then insert (nat page) (chunks_in_use dev c) else chunks_in_use dev c))"
  by (rule AllocateChunk_ok [OF assms]) blast

theorem AllocateChunk_fresh_witness:
  "\<forall>dev :: unit yaffs_Device. \<exists>blk page dev'. yaffs_AllocateChunk (sample_blocks dev) False = Some (blk * nChunksPerBlock (sample_blocks dev) + page, blk, dev') \<and>
    nFreeChunks dev' = 35"
proof
  fix dev :: "unit yaffs_Device"
  have "yaffs_CheckSpaceForAllocation (sample_blocks dev)" "0 < nErasedBlocks (sample_blocks dev)" "nFreeChunks (sample_blocks dev) = 36"
    by (simp_all add: yaffs_CheckSpaceForAllocation_def sample_blocks_def)
  then show "\<exists>blk page dev'. yaffs_AllocateChunk (sample_blocks dev) False = Some (blk * nChunksPerBlock (sample_blocks dev) + page, blk, dev') \<and>
    nFreeChunks dev' = 35" using AllocateChunk_fresh [OF sample_blocks_inv, of dev False] by fastforce
qed

text \<open>
  C4. After any run of allocations, soft deletions, deletions (with the erasures and retirements they
  cause) and checkpoint invalidations, recounting the free chunks of all blocks, as the code's own
  consistency check does, gives the counter the operations maintain, and the count of erased blocks is right.
\<close>

theorem block_run_counters:
  assumes "block_run cfg dev dev'" and "block_inv dev" and "\<not> cfg_verify_erase cfg"
  shows "yaffs_CountFreeChunks dev' = Some (nFreeChunks dev') \<and> nErasedBlocks dev' = erased_count (blockInfo dev')"
proof -
  note I = block_invD [OF block_run_inv [OF assms(1,3,2)]]
  show ?thesis using CountFreeChunks_eq [OF I(5)] I(7,8) by simp
qed

theorem block_run_counters_witness:
  "\<forall>(cfg :: yaffs_Config) (dev :: unit yaffs_Device). \<exists>dev'. block_run (cfg\<lparr>cfg_verify_erase := False\<rparr>) (sample_blocks dev) dev' \<and> yaffs_CountFreeChunks dev' = Some 35"
proof (intro allI)
  fix cfg :: yaffs_Config and dev :: "unit yaffs_Device"
  let ?cfg = "cfg\<lparr>cfg_verify_erase := False\<rparr>" and ?d = "sample_blocks dev"
  have e: "0 < nErasedBlocks ?d" "nFreeChunks ?d = 36" by (simp_all add: sample_blocks_def)
  obtain chunk blk dev' where a: "yaffs_AllocateChunk ?d True = Some (chunk, blk, dev')" "nFreeChunks dev' = 36 - 1"
    by (rule AllocateChunk_ok [OF sample_blocks_inv disjI2 [OF e(1)] disjI1 [OF TrueI]], rule that, assumption, simp only: e(2))
  have r: "block_run ?cfg ?d dev'" by (rule block_run.step [OF block_run.stop block_op.allocate [OF a(1)]])
  then have "yaffs_CountFreeChunks dev' = Some 35" using block_run_counters [OF r sample_blocks_inv] a(2) by simp
  with r show "\<exists>dev'. block_run ?cfg ?d dev' \<and> yaffs_CountFreeChunks dev' = Some 35" by blast
qed

end
