(* ===== verification/Qsort.thy ===== *)
theory Qsort
  imports Prelude "HOL-Library.Multiset"
begin

section \<open>Sorting\<close>

text \<open>
  \<^verbatim>\<open>yaffs_qsort.c\<close>, the Bentley-McIlroy quicksort with three-way partitioning that orders the blocks
  before a scan, and the comparison function \<^verbatim>\<open>ybicmp\<close> it is called with.  The array is a list of
  elements, a pointer is an index into it, and the byte-wise exchange of \<open>es\<close> bytes is the exchange of
  two elements.  The comparison function is a parameter with the C convention (negative, zero, positive).
\<close>

definition swap_at :: "'a list \<Rightarrow> nat \<Rightarrow> nat \<Rightarrow> 'a list" where
  "swap_at xs i j = xs[i := xs ! j, j := xs ! i]"

primrec vecswap :: "'a list \<Rightarrow> nat \<Rightarrow> nat \<Rightarrow> nat \<Rightarrow> 'a list" where
  "vecswap xs i j 0 = xs"
| "vecswap xs i j (Suc n) = vecswap (swap_at xs i j) (Suc i) (Suc j) n"

definition med3 :: "('a \<Rightarrow> 'a \<Rightarrow> int) \<Rightarrow> 'a list \<Rightarrow> nat \<Rightarrow> nat \<Rightarrow> nat \<Rightarrow> nat" where
  "med3 cmp xs a b c =
     (if cmp (xs ! a) (xs ! b) < 0
      then (if cmp (xs ! b) (xs ! c) < 0 then b else if cmp (xs ! a) (xs ! c) < 0 then c else a)
      else (if cmp (xs ! b) (xs ! c) > 0 then b else if cmp (xs ! a) (xs ! c) < 0 then a else c))"

fun insert_loop :: "('a \<Rightarrow> 'a \<Rightarrow> int) \<Rightarrow> 'a list \<Rightarrow> nat \<Rightarrow> nat \<Rightarrow> 'a list" where
  "insert_loop cmp xs a pl =
     (if pl > a \<and> cmp (xs ! (pl - 1)) (xs ! pl) > 0 then insert_loop cmp (swap_at xs pl (pl - 1)) a (pl - 1) else xs)"

function insertion_loop :: "('a \<Rightarrow> 'a \<Rightarrow> int) \<Rightarrow> 'a list \<Rightarrow> nat \<Rightarrow> nat \<Rightarrow> nat \<Rightarrow> 'a list" where
  "insertion_loop cmp xs a pn pm =
     (if pm < pn then insertion_loop cmp (insert_loop cmp xs a pm) a pn (pm + 1) else xs)"
  by pat_completeness auto
termination by (relation "measure (\<lambda>(_, _, _, pn, pm). pn - pm)") auto

definition choose_pivot :: "('a \<Rightarrow> 'a \<Rightarrow> int) \<Rightarrow> 'a list \<Rightarrow> nat \<Rightarrow> nat \<Rightarrow> nat" where
  "choose_pivot cmp xs a n =
     (let pm = a + n div 2
      in if n > 7 then
           (let pl = a; pn = a + (n - 1);
                (pl, pm, pn) =
                  (if n > 40 then
                     (let d = n div 8
                      in (med3 cmp xs pl (pl + d) (pl + 2 * d), med3 cmp xs (pm - d) pm (pm + d), med3 cmp xs (pn - 2 * d) (pn - d) pn))
                   else (pl, pm, pn))
            in med3 cmp xs pl pm pn)
         else pm)"

text \<open>
  The two inner loops of the partitioning; the state is the array, the two pointers and the flag \<open>swap_cnt\<close>.
  The downward pointers \<^verbatim>\<open>pc\<close> and \<^verbatim>\<open>pd\<close> are given by the index after the element they point to, which
  keeps them natural numbers: \<^verbatim>\<open>pb <= pc\<close> is \<open>pb < qc\<close>.
\<close>

function part_left :: "('a \<Rightarrow> 'a \<Rightarrow> int) \<Rightarrow> nat \<Rightarrow> nat \<Rightarrow> 'a list \<Rightarrow> nat \<Rightarrow> nat \<Rightarrow> bool \<Rightarrow> 'a list \<times> nat \<times> nat \<times> bool" where
  "part_left cmp a qc xs pa pb cnt =
     (if pb < qc \<and> cmp (xs ! pb) (xs ! a) \<le> 0 then
        if cmp (xs ! pb) (xs ! a) = 0 then part_left cmp a qc (swap_at xs pa pb) (pa + 1) (pb + 1) True
        else part_left cmp a qc xs pa (pb + 1) cnt
      else (xs, pa, pb, cnt))"
  by pat_completeness auto
termination by (relation "measure (\<lambda>(_, _, qc, _, _, pb, _). qc - pb)") auto

function part_right :: "('a \<Rightarrow> 'a \<Rightarrow> int) \<Rightarrow> nat \<Rightarrow> nat \<Rightarrow> 'a list \<Rightarrow> nat \<Rightarrow> nat \<Rightarrow> bool \<Rightarrow> 'a list \<times> nat \<times> nat \<times> bool" where
  "part_right cmp a pb xs qc qd cnt =
     (if pb < qc \<and> cmp (xs ! (qc - 1)) (xs ! a) \<ge> 0 then
        if cmp (xs ! (qc - 1)) (xs ! a) = 0 then part_right cmp a pb (swap_at xs (qc - 1) (qd - 1)) (qc - 1) (qd - 1) True
        else part_right cmp a pb xs (qc - 1) qd cnt
      else (xs, qc, qd, cnt))"
  by pat_completeness auto
termination by (relation "measure (\<lambda>(_, _, pb, _, qc, _, _). qc - pb)") auto

declare insert_loop.simps [simp del] insertion_loop.simps [simp del] part_left.simps [simp del] part_right.simps [simp del]

text \<open>What the pointers do, whatever the elements are.\<close>

lemma part_left_ptrs:
  "part_left cmp a qc xs pa pb cnt = (ys, pa', pb', cnt') \<Longrightarrow> pa \<le> pb \<Longrightarrow> pa \<le> pa' \<and> pa' \<le> pb' \<and> pb' \<le> max pb qc"
  "part_left cmp a qc xs pa pb cnt = (ys, pa', pb', cnt') \<Longrightarrow> pb \<le> pb'"
proof (induction cmp a qc xs pa pb cnt rule: part_left.induct)
  case (1 cmp a qc xs pa pb cnt)
  { case 1
    then show ?case using "1.IH"(1,3) by (subst (asm) part_left.simps) (auto split: if_splits)
  next
    case 2
    then show ?case using "1.IH"(2,4) by (subst (asm) part_left.simps) (auto split: if_splits)
  }
qed

lemma part_right_ptrs:
  "part_right cmp a pb xs qc qd cnt = (ys, qc', qd', cnt') \<Longrightarrow> qc \<le> qd \<Longrightarrow> qc' \<le> qd' \<and> qd' \<le> qd \<and> min pb qc \<le> qc'"
  "part_right cmp a pb xs qc qd cnt = (ys, qc', qd', cnt') \<Longrightarrow> qc' \<le> qc"
proof (induction cmp a pb xs qc qd cnt rule: part_right.induct)
  case (1 cmp a pb xs qc qd cnt)
  { case 1
    then show ?case using "1.IH"(1,3) by (subst (asm) part_right.simps, cases qc; cases qd) (auto split: if_splits)
  next
    case 2
    then show ?case using "1.IH"(2,4) by (subst (asm) part_right.simps, cases qc; cases qd) (auto split: if_splits)
  }
qed

function part_loop :: "('a \<Rightarrow> 'a \<Rightarrow> int) \<Rightarrow> nat \<Rightarrow> 'a list \<Rightarrow> nat \<Rightarrow> nat \<Rightarrow> nat \<Rightarrow> nat \<Rightarrow> bool \<Rightarrow>
    'a list \<times> nat \<times> nat \<times> nat \<times> nat \<times> bool" where
  "part_loop cmp a xs pa pb qc qd cnt =
     (case part_left cmp a qc xs pa pb cnt of (xs, pa, pb, cnt) \<Rightarrow>
      case part_right cmp a pb xs qc qd cnt of (xs, qc, qd, cnt) \<Rightarrow>
        if \<not> pb < qc then (xs, pa, pb, qc, qd, cnt)
        else part_loop cmp a (swap_at xs pb (qc - 1)) pa (pb + 1) (qc - 1) qd True)"
  by pat_completeness auto
termination by (relation "measure (\<lambda>(_, _, _, _, pb, qc, _, _). qc - pb)")
  (auto dest!: part_left_ptrs(2) [OF sym] part_right_ptrs(2) [OF sym])

declare part_loop.simps [simp del]

lemma part_loop_ptrs:
  "part_loop cmp a xs pa pb qc qd cnt = (ys, pa', pb', qc', qd', cnt') \<Longrightarrow> pa \<le> pb \<Longrightarrow> qc \<le> qd \<Longrightarrow> pb \<le> e \<Longrightarrow> qd \<le> e \<Longrightarrow>
     s \<le> pb \<Longrightarrow> s \<le> qc \<Longrightarrow> pa \<le> pa' \<and> pa' \<le> pb' \<and> pb' \<le> e \<and> s \<le> qc' \<and> qc' \<le> qd' \<and> qd' \<le> e"
proof (induction cmp a xs pa pb qc qd cnt rule: part_loop.induct)
  case (1 cmp a xs pa pb qc qd cnt)
  obtain xs1 pa1 pb1 cnt1 where l: "part_left cmp a qc xs pa pb cnt = (xs1, pa1, pb1, cnt1)" by (metis prod_cases4)
  obtain xs2 qc2 qd2 cnt2 where r: "part_right cmp a pb1 xs1 qc qd cnt1 = (xs2, qc2, qd2, cnt2)" by (metis prod_cases4)
  have "pa \<le> pa1 \<and> pa1 \<le> pb1 \<and> pb1 \<le> max pb qc" "pb \<le> pb1" using part_left_ptrs [OF l] "1.prems" by auto
  moreover have "qc2 \<le> qd2 \<and> qd2 \<le> qd \<and> min pb1 qc \<le> qc2" "qc2 \<le> qc" using part_right_ptrs [OF r] "1.prems" by auto
  ultimately show ?case
    using "1.prems" "1.IH" [OF l [symmetric] refl refl r [symmetric] refl refl]
    by (subst (asm) (1) part_loop.simps, cases qc2) (auto simp: l r max_def min_def split: if_splits)
qed

text \<open>
  The whole routine.  The jump back to the label \<^verbatim>\<open>loop\<close> for the right part is the second recursive call.
\<close>

definition partition_range :: "('a \<Rightarrow> 'a \<Rightarrow> int) \<Rightarrow> 'a list \<Rightarrow> nat \<Rightarrow> nat \<Rightarrow> 'a list \<times> nat \<times> nat \<times> nat \<times> nat \<times> bool" where
  "partition_range cmp xs a n = part_loop cmp a (swap_at xs a (choose_pivot cmp xs a n)) (a + 1) (a + 1) (a + n) (a + n) False"

definition join_parts :: "'a list \<Rightarrow> nat \<Rightarrow> nat \<Rightarrow> nat \<Rightarrow> nat \<Rightarrow> nat \<Rightarrow> nat \<Rightarrow> 'a list" where
  "join_parts xs a pn pa pb qc qd =
     (let r = min (pa - a) (pb - pa);
          xs = vecswap xs a (pb - r) r;
          r = min (qd - qc) (pn - qd)
      in vecswap xs pb (pn - r) r)"

lemma partition_range_ptrs:
  assumes "partition_range cmp xs a n = (ys, pa, pb, qc, qd, cnt)" "7 \<le> n"
  shows "a < pa \<and> pa \<le> pb \<and> pb \<le> a + n \<and> a < qc \<and> qc \<le> qd \<and> qd \<le> a + n"
  using part_loop_ptrs [OF assms(1) [unfolded partition_range_def], of "a + n" "a + 1"] assms(2) by auto

function yaffs_qsort :: "('a \<Rightarrow> 'a \<Rightarrow> int) \<Rightarrow> 'a list \<Rightarrow> nat \<Rightarrow> nat \<Rightarrow> 'a list" where
  "yaffs_qsort cmp xs a n =
     (if n < 7 then insertion_loop cmp xs a (a + n) (a + 1)
      else case partition_range cmp xs a n of (xs, pa, pb, qc, qd, swap_cnt) \<Rightarrow>
        if \<not> swap_cnt then insertion_loop cmp xs a (a + n) (a + 1)
        else
          (let xs = join_parts xs a (a + n) pa pb qc qd;
               xs = (if pb - pa > 1 then yaffs_qsort cmp xs a (pb - pa) else xs)
           in if qd - qc > 1 then yaffs_qsort cmp xs (a + n - (qd - qc)) (qd - qc) else xs))"
  by pat_completeness auto
termination by (relation "measure (\<lambda>(_, _, _, n). n)") (auto dest!: partition_range_ptrs [OF sym])

declare yaffs_qsort.simps [simp del]

subsection \<open>Permuting a range\<close>

definition perm_in :: "'a list \<Rightarrow> 'a list \<Rightarrow> nat \<Rightarrow> nat \<Rightarrow> bool" where
  "perm_in xs ys l h \<longleftrightarrow> mset ys = mset xs \<and> (\<forall>i. i < l \<or> h \<le> i \<longrightarrow> i < length xs \<longrightarrow> ys ! i = xs ! i)"

lemma perm_in_refl [simp]: "perm_in xs xs l h"
  by (simp add: perm_in_def)

lemma perm_in_length: "perm_in xs ys l h \<Longrightarrow> length ys = length xs"
  by (metis perm_in_def size_mset)

lemma perm_in_trans: "perm_in xs ys l h \<Longrightarrow> perm_in ys zs l h \<Longrightarrow> perm_in xs zs l h"
  using perm_in_length [of xs ys l h] by (simp add: perm_in_def)

lemma perm_in_mono: "perm_in xs ys l h \<Longrightarrow> l' \<le> l \<Longrightarrow> h \<le> h' \<Longrightarrow> perm_in xs ys l' h'"
  by (auto simp: perm_in_def)

lemma perm_in_nth: "perm_in xs ys l h \<Longrightarrow> i < l \<or> h \<le> i \<Longrightarrow> i < length xs \<Longrightarrow> ys ! i = xs ! i"
  by (auto simp: perm_in_def)

lemma length_swap_at [simp]: "length (swap_at xs i j) = length xs"
  by (simp add: swap_at_def)

lemma nth_swap_at:
  "i < length xs \<Longrightarrow> j < length xs \<Longrightarrow> swap_at xs i j ! k = (if k = i then xs ! j else if k = j then xs ! i else xs ! k)"
  by (auto simp: swap_at_def nth_list_update)

lemma perm_in_swap: "l \<le> i \<Longrightarrow> i < h \<Longrightarrow> l \<le> j \<Longrightarrow> j < h \<Longrightarrow> h \<le> length xs \<Longrightarrow> perm_in xs (swap_at xs i j) l h"
  by (auto simp: perm_in_def nth_swap_at) (simp add: swap_at_def mset_swap)

text \<open>What holds of all elements of a range still does after a permutation of it.\<close>

lemma perm_in_all:
  assumes "perm_in xs ys l h" "l \<le> h" "h \<le> length xs" "\<And>i. l \<le> i \<Longrightarrow> i < h \<Longrightarrow> P (xs ! i)" "l \<le> k" "k < h"
  shows "P (ys ! k)"
proof -
  let ?s = "\<lambda>zs. take (h - l) (drop l zs)"
  have len: "length ys = length xs" by (rule perm_in_length [OF assms(1)])
  have split: "zs = take l zs @ ?s zs @ drop h zs" for zs :: "'a list"
    by (metis append_take_drop_id assms(2) drop_drop le_add_diff_inverse2)
  have "take l ys = take l xs" "drop h ys = drop h xs"
    using assms(1-3) len by (auto intro!: nth_equalityI simp: perm_in_def)
  moreover have "mset ys = mset xs" using assms(1) by (simp add: perm_in_def)
  ultimately have "mset (?s ys) = mset (?s xs)"
    using split [of ys] split [of xs] by (metis add_left_cancel add_right_cancel mset_append)
  then have "set (?s ys) = set (?s xs)" by (rule mset_eq_setD)
  moreover have "?s ys ! (k - l) = ys ! k" "k - l < length (?s ys)" using assms len by auto
  ultimately have "ys ! k \<in> set (?s xs)" by (metis nth_mem)
  then show ?thesis using assms(2-4) by (auto simp: in_set_conv_nth less_diff_conv) (metis add.commute le_add1)
qed

subsection \<open>Every step permutes its range\<close>

lemma perm_vecswap:
  "l \<le> i \<Longrightarrow> i + n \<le> h \<Longrightarrow> l \<le> j \<Longrightarrow> j + n \<le> h \<Longrightarrow> h \<le> length xs \<Longrightarrow> perm_in xs (vecswap xs i j n) l h"
proof (induction n arbitrary: xs i j)
  case (Suc n)
  have "perm_in xs (swap_at xs i j) l h" using Suc.prems by (intro perm_in_swap) auto
  moreover have "perm_in (swap_at xs i j) (vecswap (swap_at xs i j) (Suc i) (Suc j) n) l h" using Suc.prems by (intro Suc.IH) auto
  ultimately show ?case by (auto intro: perm_in_trans)
qed simp

lemma vecswap_nth:
  "i + n \<le> j \<Longrightarrow> j + n \<le> length xs \<Longrightarrow> k < length xs \<Longrightarrow> vecswap xs i j n ! k =
     (if i \<le> k \<and> k < i + n then xs ! (k - i + j) else if j \<le> k \<and> k < j + n then xs ! (k - j + i) else xs ! k)"
proof (induction n arbitrary: xs i j)
  case (Suc n)
  have "vecswap (swap_at xs i j) (Suc i) (Suc j) n ! k =
    (if Suc i \<le> k \<and> k < Suc i + n then swap_at xs i j ! (k - Suc i + Suc j)
     else if Suc j \<le> k \<and> k < Suc j + n then swap_at xs i j ! (k - Suc j + Suc i) else swap_at xs i j ! k)"
    using Suc.prems by (intro Suc.IH) auto
  then show ?case using Suc.prems by (auto simp: nth_swap_at Suc_le_eq Suc_diff_Suc)
qed auto

lemma perm_insert_loop: "pl < h \<Longrightarrow> a \<le> pl \<Longrightarrow> h \<le> length xs \<Longrightarrow> perm_in xs (insert_loop cmp xs a pl) a h"
proof (induction cmp xs a pl rule: insert_loop.induct)
  case (1 cmp xs a pl)
  show ?case
  proof (cases "pl > a \<and> cmp (xs ! (pl - 1)) (xs ! pl) > 0")
    case True
    have "perm_in xs (swap_at xs pl (pl - 1)) a h" using True "1.prems" by (intro perm_in_swap) auto
    moreover have "perm_in (swap_at xs pl (pl - 1)) (insert_loop cmp (swap_at xs pl (pl - 1)) a (pl - 1)) a h"
      using True "1.prems" by (intro "1.IH") auto
    ultimately show ?thesis using True by (subst insert_loop.simps) (auto intro: perm_in_trans)
  qed (subst insert_loop.simps, auto)
qed

lemma perm_insertion_loop: "a \<le> pm \<Longrightarrow> pn \<le> length xs \<Longrightarrow> perm_in xs (insertion_loop cmp xs a pn pm) a pn"
proof (induction cmp xs a pn pm rule: insertion_loop.induct)
  case (1 cmp xs a pn pm)
  show ?case
  proof (cases "pm < pn")
    case True
    have p: "perm_in xs (insert_loop cmp xs a pm) a pn" using True "1.prems" by (intro perm_insert_loop) auto
    moreover have "perm_in (insert_loop cmp xs a pm) (insertion_loop cmp (insert_loop cmp xs a pm) a pn (pm + 1)) a pn"
      using True "1.prems" perm_in_length [OF p] by (intro "1.IH") auto
    ultimately show ?thesis using True by (subst insertion_loop.simps) (auto intro: perm_in_trans)
  qed (subst insertion_loop.simps, simp)
qed

lemma med3_in: "P i \<Longrightarrow> P j \<Longrightarrow> P k \<Longrightarrow> P (med3 cmp xs i j k)"
  by (simp add: med3_def)

lemma choose_pivot_in:
  assumes "7 \<le> n"
  shows "a \<le> choose_pivot cmp xs a n \<and> choose_pivot cmp xs a n < a + n"
proof -
  have d: "2 * (n div 8) < n" "n div 8 \<le> n div 2" "n div 2 + n div 8 < n" using assms by linarith+
  show ?thesis unfolding choose_pivot_def Let_def
    by (auto split: if_splits intro!: med3_in [where P = "\<lambda>i. a \<le> i \<and> i < a + n", THEN conjunct1]
          med3_in [where P = "\<lambda>i. a \<le> i \<and> i < a + n", THEN conjunct2] med3_in [where P = "\<lambda>i. a \<le> i \<and> i < a + n"])
      (use d assms in linarith)+
qed

subsection \<open>The partitioning\<close>

definition part_inv :: "('a \<Rightarrow> 'a \<Rightarrow> int) \<Rightarrow> 'a \<Rightarrow> nat \<Rightarrow> nat \<Rightarrow> 'a list \<Rightarrow> nat \<Rightarrow> nat \<Rightarrow> nat \<Rightarrow> nat \<Rightarrow> bool" where
  "part_inv cmp v a e xs pa pb qc qd \<longleftrightarrow> a < pa \<and> pa \<le> pb \<and> pb \<le> qc \<and> qc \<le> qd \<and> qd \<le> e \<and> e \<le> length xs \<and> xs ! a = v \<and>
     (\<forall>i. a \<le> i \<and> i < pa \<longrightarrow> cmp (xs ! i) v = 0) \<and> (\<forall>i. pa \<le> i \<and> i < pb \<longrightarrow> cmp (xs ! i) v < 0) \<and>
     (\<forall>i. qc \<le> i \<and> i < qd \<longrightarrow> cmp (xs ! i) v > 0) \<and> (\<forall>i. qd \<le> i \<and> i < e \<longrightarrow> cmp (xs ! i) v = 0)"

lemma part_left_inv:
  assumes "part_left cmp a qc xs pa pb cnt = (ys, pa', pb', cnt')" "part_inv cmp v a e xs pa pb qc qd"
  shows "part_inv cmp v a e ys pa' pb' qc qd \<and> perm_in xs ys a e \<and> (pb' < qc \<longrightarrow> cmp (ys ! pb') v > 0)"
  using assms
proof (induction cmp a qc xs pa pb cnt rule: part_left.induct)
  case (1 cmp a qc xs pa pb cnt)
  note I = "1.prems"(2) [unfolded part_inv_def]
  show ?case
  proof (cases "pb < qc \<and> cmp (xs ! pb) (xs ! a) \<le> 0")
    case True
    show ?thesis
    proof (cases "cmp (xs ! pb) (xs ! a) = 0")
      case eq: True
      have "part_inv cmp v a e (swap_at xs pa pb) (pa + 1) (pb + 1) qc qd"
        using I True eq by (auto simp: part_inv_def nth_swap_at less_Suc_eq)
      moreover have "perm_in xs (swap_at xs pa pb) a e" using I True by (intro perm_in_swap) auto
      ultimately show ?thesis using "1.IH"(1) [OF True eq] "1.prems"(1) True eq
        by (subst (asm) (2) part_left.simps) (auto intro: perm_in_trans)
    next
      case lt: False
      have "part_inv cmp v a e xs pa (pb + 1) qc qd"
        using I True lt by (auto simp: part_inv_def less_Suc_eq)
      then show ?thesis using "1.IH"(2) [OF True lt] "1.prems"(1) True lt by (subst (asm) (2) part_left.simps) auto
    qed
  next
    case False
    then show ?thesis using "1.prems" I by (subst (asm) part_left.simps) (auto simp: not_le)
  qed
qed

lemma part_right_inv:
  assumes "part_right cmp a pb xs qc qd cnt = (ys, qc', qd', cnt')" "part_inv cmp v a e xs pa pb qc qd"
  shows "part_inv cmp v a e ys pa pb qc' qd' \<and> perm_in xs ys a e \<and> (pb < qc' \<longrightarrow> cmp (ys ! (qc' - 1)) v < 0) \<and> (\<forall>i < qc'. ys ! i = xs ! i)"
  using assms
proof (induction cmp a pb xs qc qd cnt rule: part_right.induct)
  case (1 cmp a pb xs qc qd cnt)
  note I = "1.prems"(2) [unfolded part_inv_def]
  show ?case
  proof (cases "pb < qc \<and> cmp (xs ! (qc - 1)) (xs ! a) \<ge> 0")
    case True
    then obtain k m where k: "qc = Suc k" "qd = Suc m" using I by (cases qc; cases qd) auto
    show ?thesis
    proof (cases "cmp (xs ! (qc - 1)) (xs ! a) = 0")
      case eq: True
      have "part_inv cmp v a e (swap_at xs (qc - 1) (qd - 1)) pa pb (qc - 1) (qd - 1)"
        using I True eq k by (auto simp: part_inv_def nth_swap_at le_less_Suc_eq)
      moreover have "perm_in xs (swap_at xs (qc - 1) (qd - 1)) a e" using I True k by (intro perm_in_swap) auto
      moreover have run: "part_right cmp a pb (swap_at xs (qc - 1) (qd - 1)) (qc - 1) (qd - 1) True = (ys, qc', qd', cnt')"
        using "1.prems"(1) True eq by (subst (asm) part_right.simps) simp
      moreover have "swap_at xs (qc - 1) (qd - 1) ! i = xs ! i" if "i < qc'" for i
        using part_right_ptrs(2) [OF run] that I k by (simp add: nth_swap_at)
      ultimately show ?thesis using "1.IH"(1) [OF True eq run] by (auto intro: perm_in_trans)
    next
      case gt: False
      have "part_inv cmp v a e xs pa pb (qc - 1) qd"
      proof -
        have "cmp (xs ! i) v > 0" if "k \<le> i" "i < qd" for i using I True gt k that by (cases "i = k") auto
        then show ?thesis using I True k by (auto simp: part_inv_def)
      qed
      then show ?thesis using "1.IH"(2) [OF True gt] "1.prems"(1) True gt by (subst (asm) (2) part_right.simps) auto
    qed
  next
    case False
    then show ?thesis using "1.prems" I by (subst (asm) part_right.simps) (auto simp: not_le)
  qed
qed

lemma part_loop_inv:
  assumes "part_loop cmp a xs pa pb qc qd cnt = (ys, pa', pb', qc', qd', cnt')" "part_inv cmp v a e xs pa pb qc qd"
  shows "part_inv cmp v a e ys pa' pb' qc' qd' \<and> perm_in xs ys a e \<and> pb' = qc'"
  using assms
proof (induction cmp a xs pa pb qc qd cnt rule: part_loop.induct)
  case (1 cmp a xs pa pb qc qd cnt)
  obtain xs1 pa1 pb1 cnt1 where l: "part_left cmp a qc xs pa pb cnt = (xs1, pa1, pb1, cnt1)" by (metis prod_cases4)
  obtain xs2 qc2 qd2 cnt2 where r: "part_right cmp a pb1 xs1 qc qd cnt1 = (xs2, qc2, qd2, cnt2)" by (metis prod_cases4)
  note L = part_left_inv [OF l "1.prems"(2)]
  note R = part_right_inv [OF r conjunct1 [OF L]]
  note I = conjunct1 [OF R, unfolded part_inv_def]
  have p: "perm_in xs xs2 a e" using L R by (blast intro: perm_in_trans)
  show ?case
  proof (cases "pb1 < qc2")
    case False
    then have "part_loop cmp a xs pa pb qc qd cnt = (xs2, pa1, pb1, qc2, qd2, cnt2)" by (subst part_loop.simps) (simp add: l r)
    then show ?thesis using "1.prems"(1) False R p I by auto
  next
    case True
    then obtain k where k: "qc2 = Suc k" by (cases qc2) auto
    have "cmp (xs2 ! pb1) v > 0" "cmp (xs2 ! k) v < 0" using True L R k part_right_ptrs(2) [OF r] by auto
    then have ne: "pb1 < k" using True k by (metis less_asym less_Suc_eq)
    have "part_inv cmp v a e (swap_at xs2 pb1 k) pa1 (pb1 + 1) k qd2"
    proof -
      have "cmp (swap_at xs2 pb1 k ! i) v > 0" if "k \<le> i" "i < qd2" for i
        using that I k ne \<open>cmp (xs2 ! pb1) v > 0\<close> by (cases "i = k") (auto simp: nth_swap_at)
      then show ?thesis using I k ne \<open>cmp (xs2 ! k) v < 0\<close> by (auto simp: part_inv_def nth_swap_at less_Suc_eq)
    qed
    moreover have "perm_in xs2 (swap_at xs2 pb1 k) a e" using I k ne by (intro perm_in_swap) auto
    moreover have "part_loop cmp a (swap_at xs2 pb1 k) pa1 (pb1 + 1) k qd2 True = (ys, pa', pb', qc', qd', cnt')"
      using "1.prems"(1) True k by (subst (asm) part_loop.simps) (simp add: l r)
    ultimately show ?thesis
      using "1.IH" [OF l [symmetric] refl refl r [symmetric] refl refl] True k p by (auto intro: perm_in_trans)
  qed
qed

text \<open>Moving the elements equal to the pivot to the middle.\<close>

lemma join_parts_inv:
  assumes "part_inv cmp v a e xs pa pb qc qd" "pb = qc" "zs = join_parts xs a e pa pb qc qd"
  shows "perm_in xs zs a e" and "\<And>i. a \<le> i \<Longrightarrow> i < a + (pb - pa) \<Longrightarrow> cmp (zs ! i) v < 0"
    and "\<And>i. a + (pb - pa) \<le> i \<Longrightarrow> i < e - (qd - qc) \<Longrightarrow> cmp (zs ! i) v = 0"
    and "\<And>i. e - (qd - qc) \<le> i \<Longrightarrow> i < e \<Longrightarrow> cmp (zs ! i) v > 0"
proof -
  note I = assms(1) [unfolded part_inv_def] assms(2)
  let ?r = "min (pa - a) (pb - pa)" and ?q = "min (qd - qc) (e - qd)"
  let ?ys = "vecswap xs a (pb - ?r) ?r"
  have zs: "zs = vecswap ?ys pb (e - ?q) ?q" by (simp add: assms(3) join_parts_def Let_def)
  have p: "perm_in xs ?ys a e" using I by (intro perm_vecswap) auto
  have ly: "length ?ys = length xs" by (rule perm_in_length [OF p])
  have o: "a < pa" "pa \<le> pb" "pb = qc" "qc \<le> qd" "qd \<le> e" "e \<le> length xs" using I by simp_all
  have q: "a \<le> pb" "pb + ?q \<le> e" "a \<le> e - ?q" "e - ?q + ?q \<le> e" "pb + ?q \<le> e - ?q" using o by linarith+
  have "perm_in ?ys zs a e" unfolding zs by (rule perm_vecswap [OF q(1-4)]) (use o ly in linarith)
  with p show "perm_in xs zs a e" by (rule perm_in_trans)
  have y: "?ys ! i = (if a \<le> i \<and> i < a + ?r then xs ! (i - a + (pb - ?r)) else if pb - ?r \<le> i \<and> i < pb - ?r + ?r
      then xs ! (i - (pb - ?r) + a) else xs ! i)" if "i < e" for i
    using I that by (intro vecswap_nth) auto
  have z: "zs ! i = (if pb \<le> i \<and> i < pb + ?q then ?ys ! (i - pb + (e - ?q)) else if e - ?q \<le> i \<and> i < e - ?q + ?q
      then ?ys ! (i - (e - ?q) + pb) else ?ys ! i)" if "i < e" for i
    unfolding zs by (rule vecswap_nth [OF q(5)]) (use o q(4) that ly in linarith)+
  have A: "\<And>i. a \<le> i \<Longrightarrow> i < pa \<Longrightarrow> cmp (xs ! i) v = 0" and B: "\<And>i. pa \<le> i \<Longrightarrow> i < pb \<Longrightarrow> cmp (xs ! i) v < 0"
    and C: "\<And>i. qc \<le> i \<Longrightarrow> i < qd \<Longrightarrow> cmp (xs ! i) v > 0" and D: "\<And>i. qd \<le> i \<Longrightarrow> i < e \<Longrightarrow> cmp (xs ! i) v = 0"
    using I by auto
  have y1: "cmp (?ys ! i) v < 0" if i: "a \<le> i" "i < a + (pb - pa)" for i
  proof (cases "i < a + ?r")
    case True
    then have "?ys ! i = xs ! (i - a + (pb - ?r))" using i o y [of i] by simp
    moreover have "pa \<le> i - a + (pb - ?r)" "i - a + (pb - ?r) < pb" using True i o by linarith+
    ultimately show ?thesis using B by metis
  next
    case False
    then have "?r = pa - a" "\<not> pb - ?r \<le> i" using i o by linarith+
    then show ?thesis using False i o y [of i] B [of i] by auto
  qed
  have y2: "cmp (?ys ! i) v = 0" if i: "a + (pb - pa) \<le> i" "i < pb" for i
  proof (cases "pb - ?r \<le> i")
    case True
    have "\<not> i < a + ?r" "i < pb - ?r + ?r" "i < e" using True i o by linarith+
    then have "?ys ! i = xs ! (i - (pb - ?r) + a)" using True y [of i] by simp
    moreover have "a \<le> i - (pb - ?r) + a" "i - (pb - ?r) + a < pa" using True i o by linarith+
    ultimately show ?thesis using A by metis
  next
    case False
    then have "?r = pb - pa" "i < pa" using i o by linarith+
    then show ?thesis using False i o y [of i] A [of i] by auto
  qed
  have y3: "?ys ! i = xs ! i" if i: "pb \<le> i" "i < e" for i
  proof -
    have "\<not> i < a + ?r" "\<not> i < pb - ?r + ?r" using i o by linarith+
    then show ?thesis using y [of i] i(2) by simp
  qed
  show "cmp (zs ! i) v < 0" if i: "a \<le> i" "i < a + (pb - pa)" for i
  proof -
    have "\<not> pb \<le> i" "\<not> e - ?q \<le> i" "i < e" using i o q(5) by linarith+
    then show ?thesis using z [of i] y1 [of i] i by simp
  qed
  show "cmp (zs ! i) v = 0" if i: "a + (pb - pa) \<le> i" "i < e - (qd - qc)" for i
  proof -
    consider "i < pb" | "pb \<le> i" "i < pb + ?q" | "pb + ?q \<le> i" by linarith
    then show ?thesis
    proof cases
      case 1
      then have n: "\<not> e - ?q \<le> i" "\<not> pb \<le> i" "i < e" using o q(5) by linarith+
      have "zs ! i = ?ys ! i" using z [OF n(3)] by (simp only: n simp_thms if_False)
      then show ?thesis using y2 [OF i(1) 1] by simp
    next
      case 2
      have "pb \<le> i - pb + (e - ?q)" "qd \<le> i - pb + (e - ?q)" "i - pb + (e - ?q) < e" "i < e" using 2 o q(5) by linarith+
      then show ?thesis using 2 z [of i] y3 [of "i - pb + (e - ?q)"] D [of "i - pb + (e - ?q)"] by (simp only: simp_thms if_True)
    next
      case 3
      then have n: "\<not> e - ?q \<le> i" "\<not> i < pb + ?q" "i < e" and b: "pb \<le> i" "qd \<le> i" using i o by linarith+
      have "zs ! i = ?ys ! i" using z [OF n(3)] by (simp only: n simp_thms if_False)
      then show ?thesis using y3 [OF b(1) n(3)] D [OF b(2) n(3)] by simp
    qed
  qed
  show "cmp (zs ! i) v > 0" if i: "e - (qd - qc) \<le> i" "i < e" for i
  proof (cases "e - ?q \<le> i")
    case True
    let ?k = "i - (e - ?q) + pb"
    have n: "\<not> i < pb + ?q" "i < e - ?q + ?q" and k: "pb \<le> ?k" "qc \<le> ?k" "?k < qd" "?k < e" using True i o q(5) by linarith+
    have "zs ! i = ?ys ! ?k" using z [OF i(2)] by (simp only: n True simp_thms if_False if_True)
    then show ?thesis using y3 [OF k(1,4)] C [OF k(2,3)] by simp
  next
    case False
    then have n: "\<not> i < pb + ?q" and b: "pb \<le> i" "qc \<le> i" "i < qd" using i o by linarith+
    have "zs ! i = ?ys ! i" using z [OF i(2)] by (simp only: n False simp_thms if_False)
    then show ?thesis using y3 [OF b(1) i(2)] C [OF b(2,3)] by simp
  qed
qed

subsection \<open>Sorting\<close>

definition sorted_in :: "('a \<Rightarrow> 'a \<Rightarrow> int) \<Rightarrow> 'a list \<Rightarrow> nat \<Rightarrow> nat \<Rightarrow> bool" where
  "sorted_in cmp xs l h \<longleftrightarrow> (\<forall>i j. l \<le> i \<and> i < j \<and> j < h \<longrightarrow> cmp (xs ! i) (xs ! j) \<le> 0)"

text \<open>
  The contract of the comparison function, on the elements it is used on: the sign of the result changes
  when the arguments are exchanged, and \<open>\<le>\<close> is transitive.
\<close>

locale comparator =
  fixes cmp :: "'a \<Rightarrow> 'a \<Rightarrow> int" and S :: "'a set"
  assumes antisymmetric: "x \<in> S \<Longrightarrow> y \<in> S \<Longrightarrow> cmp x y < 0 \<longleftrightarrow> 0 < cmp y x"
    and transitive: "x \<in> S \<Longrightarrow> y \<in> S \<Longrightarrow> z \<in> S \<Longrightarrow> cmp x y \<le> 0 \<Longrightarrow> cmp y z \<le> 0 \<Longrightarrow> cmp x z \<le> 0"
begin

lemma reflexive: "x \<in> S \<Longrightarrow> cmp x x = 0"
  using antisymmetric [of x x] by linarith

lemma total: "x \<in> S \<Longrightarrow> y \<in> S \<Longrightarrow> 0 \<le> cmp x y \<longleftrightarrow> cmp y x \<le> 0"
  using antisymmetric [of x y] antisymmetric [of y x] by linarith

lemma insert_loop_sorted:
  assumes "set xs \<subseteq> S" "a \<le> pl" "pl \<le> pm" "pm < length xs"
    and "\<And>i j. a \<le> i \<Longrightarrow> i < j \<Longrightarrow> j \<le> pm \<Longrightarrow> i \<noteq> pl \<Longrightarrow> j \<noteq> pl \<Longrightarrow> cmp (xs ! i) (xs ! j) \<le> 0"
    and "\<And>j. pl < j \<Longrightarrow> j \<le> pm \<Longrightarrow> cmp (xs ! pl) (xs ! j) \<le> 0"
  shows "sorted_in cmp (insert_loop cmp xs a pl) a (pm + 1)"
  using assms
proof (induction pl arbitrary: xs)
  case 0
  have "cmp (xs ! i) (xs ! j) \<le> 0" if "i < j" "j \<le> pm" for i j
    using 0 that by (cases "i = 0") auto
  then show ?case by (subst insert_loop.simps) (simp add: sorted_in_def)
next
  case (Suc k)
  have S: "xs ! i \<in> S" if "i \<le> pm" for i using Suc.prems(1,4) that by auto
  show ?case
  proof (cases "Suc k > a \<and> cmp (xs ! k) (xs ! Suc k) > 0")
    case True
    let ?ys = "swap_at xs (Suc k) k"
    have n: "?ys ! i = (if i = Suc k then xs ! k else if i = k then xs ! Suc k else xs ! i)" if "i \<le> pm" for i
      using Suc.prems(3,4) that by (simp add: nth_swap_at)
    have "sorted_in cmp (insert_loop cmp ?ys a k) a (pm + 1)"
    proof (rule Suc.IH)
      show "set ?ys \<subseteq> S" "a \<le> k" "k \<le> pm" "pm < length ?ys"
        using Suc.prems(1,3,4) True by (auto simp: swap_at_def set_swap)
      show "cmp (?ys ! i) (?ys ! j) \<le> 0" if "a \<le> i" "i < j" "j \<le> pm" "i \<noteq> k" "j \<noteq> k" for i j
        using that n [of i] n [of j] Suc.prems(5) [of i j] Suc.prems(5) [of k j] Suc.prems(5) [of i k] True by auto
      show "cmp (?ys ! k) (?ys ! j) \<le> 0" if "k < j" "j \<le> pm" for j
        using that n [of k] n [of j] Suc.prems(6) [of j] total [OF S S, of k "Suc k"] True Suc.prems(3) by (auto simp: Suc_lessI)
    qed
    then show ?thesis using True by (subst insert_loop.simps) simp
  next
    case False
    have "cmp (xs ! i) (xs ! Suc k) \<le> 0" if "a \<le> i" "i < Suc k" for i
    proof (cases "i = k")
      case False
      then have "cmp (xs ! i) (xs ! k) \<le> 0" using Suc.prems(3,5) that by auto
      then show ?thesis using transitive [OF S S S, of i k "Suc k"] \<open>\<not> (Suc k > a \<and> _)\<close> that Suc.prems(3) by auto
    qed (use False that in auto)
    then have "sorted_in cmp xs a (pm + 1)" using Suc.prems(5,6) by (auto simp: sorted_in_def) (metis less_Suc_eq_le)
    then show ?thesis using False by (subst insert_loop.simps) auto
  qed
qed

lemma insertion_loop_sorted:
  "set xs \<subseteq> S \<Longrightarrow> a < pm \<Longrightarrow> pn \<le> length xs \<Longrightarrow> sorted_in cmp xs a pm \<Longrightarrow> sorted_in cmp (insertion_loop cmp xs a pn pm) a pn"
proof (induction "pn - pm" arbitrary: xs pm)
  case 0
  then show ?case by (subst insertion_loop.simps) (auto simp: sorted_in_def)
next
  case (Suc k)
  then have lt: "pm < pn" by simp
  let ?ys = "insert_loop cmp xs a pm"
  have p: "perm_in xs ?ys a pn" using lt Suc.prems by (intro perm_insert_loop) auto
  have "set ?ys = set xs" using p by (metis perm_in_def set_mset_mset)
  moreover have "sorted_in cmp ?ys a (pm + 1)"
    using lt Suc.prems by (intro insert_loop_sorted) (auto simp: sorted_in_def)
  ultimately show ?case
    using Suc.hyps(1) [of "pm + 1" ?ys] Suc.hyps(2) Suc.prems perm_in_length [OF p] lt by (subst insertion_loop.simps) simp
qed

lemma perm_set: "perm_in xs ys l h \<Longrightarrow> set ys = set xs"
  by (metis perm_in_def set_mset_mset)

text \<open>Three sorted runs, below, equal to and above the pivot.\<close>

lemma sorted_in_join:
  assumes "set xs \<subseteq> S" "v \<in> S" "e \<le> length xs" "l \<le> m" "m \<le> e"
    and "sorted_in cmp xs a l" "sorted_in cmp xs m e"
    and lt: "\<And>i. a \<le> i \<Longrightarrow> i < l \<Longrightarrow> cmp (xs ! i) v < 0" and eq: "\<And>i. l \<le> i \<Longrightarrow> i < m \<Longrightarrow> cmp (xs ! i) v = 0"
    and gt: "\<And>i. m \<le> i \<Longrightarrow> i < e \<Longrightarrow> cmp (xs ! i) v > 0"
  shows "sorted_in cmp xs a e"
proof -
  have S: "xs ! i \<in> S" if "i < e" for i using assms(1,3) that by auto
  have "cmp (xs ! i) (xs ! j) \<le> 0" if ij: "a \<le> i" "i < j" "j < e" for i j
  proof -
    consider "j < l" | "m \<le> i" | "i < m" "l \<le> j" by linarith
    then show ?thesis
    proof cases
      case 3
      have "cmp (xs ! i) v \<le> 0" using lt [of i] eq [of i] 3 ij by (cases "i < l") auto
      moreover have "cmp v (xs ! j) \<le> 0" using gt [of j] eq [of j] 3 ij total [OF S assms(2), of j] by (cases "j < m") auto
      ultimately show ?thesis using transitive [OF S assms(2) S, of i j] ij by simp
    qed (use assms(6,7) ij in \<open>auto simp: sorted_in_def\<close>)
  qed
  then show ?thesis by (simp add: sorted_in_def)
qed

lemma sorted_in_cong: "sorted_in cmp xs l h \<Longrightarrow> (\<And>i. l \<le> i \<Longrightarrow> i < h \<Longrightarrow> ys ! i = xs ! i) \<Longrightarrow> sorted_in cmp ys l h"
  by (simp add: sorted_in_def)

lemma qsort_sorts:
  "set xs \<subseteq> S \<Longrightarrow> a + n \<le> length xs \<Longrightarrow>
     perm_in xs (yaffs_qsort cmp xs a n) a (a + n) \<and> sorted_in cmp (yaffs_qsort cmp xs a n) a (a + n)"
proof (induction n arbitrary: xs a rule: less_induct)
  case (less n)
  have insertion: "perm_in ys (insertion_loop cmp ys a (a + n) (a + 1)) a (a + n) \<and> sorted_in cmp (insertion_loop cmp ys a (a + n) (a + 1)) a (a + n)"
    if "set ys \<subseteq> S" "length ys = length xs" for ys
    using perm_insertion_loop [of a "a + 1" "a + n" ys cmp] insertion_loop_sorted [of ys a "a + 1" "a + n"] that less.prems
    by (simp add: sorted_in_def)
  show ?case
  proof (cases "n < 7")
    case True
    then show ?thesis using insertion [of xs] less.prems by (simp add: yaffs_qsort.simps [of cmp xs])
  next
    case False
    let ?e = "a + n" and ?x0 = "swap_at xs a (choose_pivot cmp xs a n)"
    obtain ys pa pb qc qd cnt where p: "partition_range cmp xs a n = (ys, pa, pb, qc, qd, cnt)" by (metis prod_cases6)
    have pv: "a \<le> choose_pivot cmp xs a n" "choose_pivot cmp xs a n < ?e" using choose_pivot_in [of n a cmp xs] False by auto
    have p0: "perm_in xs ?x0 a ?e" using pv less.prems(2) by (intro perm_in_swap) auto
    have S0: "set ?x0 \<subseteq> S" using perm_set [OF p0] less.prems(1) by simp
    let ?v = "?x0 ! a"
    have v: "?v \<in> S" using S0 pv less.prems(2) by (simp add: subset_iff)
    have "part_inv cmp ?v a ?e ?x0 (a + 1) (a + 1) ?e ?e"
      using False less.prems(2) reflexive [OF v] by (auto simp: part_inv_def le_less_Suc_eq)
    from part_loop_inv [OF p [unfolded partition_range_def] this]
    have P: "part_inv cmp ?v a ?e ys pa pb qc qd" "perm_in ?x0 ys a ?e" "pb = qc" by auto
    have p1: "perm_in xs ys a ?e" using perm_in_trans [OF p0 P(2)] .
    have S1: "set ys \<subseteq> S" using perm_set [OF p1] less.prems(1) by simp
    show ?thesis
    proof (cases cnt)
      case cnt: False
      have "yaffs_qsort cmp xs a n = insertion_loop cmp ys a ?e (a + 1)" using False p cnt by (subst yaffs_qsort.simps) simp
      then show ?thesis using insertion [OF S1] perm_in_length [OF p1] perm_in_trans [OF p1] by simp
    next
      case cnt: True
      define zs where "zs = join_parts ys a ?e pa pb qc qd"
      note J = join_parts_inv [OF P(1,3) zs_def]
      note ptrs = partition_range_ptrs [OF p] False
      let ?l = "pb - pa" and ?r = "qd - qc"
      have lr: "?l < n" "?r < n" "a + ?l \<le> ?e - ?r" using ptrs P(3) by linarith+
      have p2: "perm_in xs zs a ?e" using perm_in_trans [OF p1 J(1)] .
      have lz: "length zs = length xs" using perm_in_length [OF p2] .
      define us where "us = (if ?l > 1 then yaffs_qsort cmp zs a ?l else zs)"
      have u: "perm_in zs us a (a + ?l) \<and> sorted_in cmp us a (a + ?l)"
        using less.IH [OF lr(1), of zs a] perm_set [OF p2] less.prems lz lr by (auto simp: us_def sorted_in_def)
      have lu: "length us = length xs" using perm_in_length [of zs us] u lz by auto
      define ws where "ws = (if ?r > 1 then yaffs_qsort cmp us (?e - ?r) ?r else us)"
      have Su: "set us \<subseteq> S" using perm_set [of zs us] u perm_set [OF p2] less.prems(1) by auto
      have er: "?e - ?r + ?r = ?e" using lr by simp
      have w: "perm_in us ws (?e - ?r) ?e \<and> sorted_in cmp ws (?e - ?r) ?e"
        using less.IH [OF lr(2), of us "?e - ?r"] Su less.prems(2) lu er by (auto simp: ws_def sorted_in_def)
      have run: "yaffs_qsort cmp xs a n = ws" unfolding ws_def us_def zs_def using False p cnt by (subst yaffs_qsort.simps) simp
      have pw: "perm_in xs ws a ?e"
        using perm_in_trans [OF p2 perm_in_trans] perm_in_mono [of zs us a "a + ?l" a ?e] perm_in_mono [of us ws "?e - ?r" ?e a ?e] u w lr
        by (metis le_add1 le_trans order_refl diff_le_self)
      have wu: "ws ! i = us ! i" if "i < ?e - ?r" for i using perm_in_nth [of us ws "?e - ?r" ?e i] w that lu less.prems(2) by simp
      have uz: "us ! i = zs ! i" if "a + ?l \<le> i" "i < ?e" for i using perm_in_nth [of zs us a "a + ?l" i] u that lz less.prems(2) by simp
      have "sorted_in cmp ws a ?e"
      proof (rule sorted_in_join [OF _ v])
        show "set ws \<subseteq> S" "?e \<le> length ws" using perm_set [OF pw] perm_in_length [OF pw] less.prems by simp_all
        show "a + ?l \<le> ?e - ?r" "?e - ?r \<le> ?e" "sorted_in cmp ws (?e - ?r) ?e" using lr w by simp_all
        show "sorted_in cmp ws a (a + ?l)" by (rule sorted_in_cong [OF conjunct2 [OF u]]) (use wu lr in simp)
        show "cmp (ws ! i) ?v < 0" if "a \<le> i" "i < a + ?l" for i
          using perm_in_all [of zs us a "a + ?l" "\<lambda>x. cmp x ?v < 0" i] u J(2) that wu [of i] lz lr less.prems(2) by simp
        show "cmp (ws ! i) ?v = 0" if "a + ?l \<le> i" "i < ?e - ?r" for i
          using J(3) [OF that] wu [of i] uz [of i] that lr by simp
        show "0 < cmp (ws ! i) ?v" if "?e - ?r \<le> i" "i < ?e" for i
          using perm_in_all [of us ws "?e - ?r" ?e "\<lambda>x. cmp x ?v > 0" i] w J(4) uz that lr lu less.prems(2) by simp
      qed
      then show ?thesis using run pw by simp
    qed
  qed
qed

end

subsection \<open>The block index\<close>

text \<open>
  The entries the scan sorts, with C ints; the difference of two ints wraps around to 32 bits, as it does
  on the machines the code runs on.
\<close>

record yaffs_BlockIndex =
  bx_seq :: int
  bx_block :: int

definition ybicmp :: "yaffs_BlockIndex \<Rightarrow> yaffs_BlockIndex \<Rightarrow> int" where
  "ybicmp a b =
     (if bx_seq a = bx_seq b then signed_take_bit 31 (bx_block a - bx_block b) else signed_take_bit 31 (bx_seq a - bx_seq b))"

definition index_range :: "yaffs_BlockIndex set" where
  "index_range = {b. 0 \<le> bx_seq b \<and> bx_seq b < 2 ^ 31 \<and> 0 \<le> bx_block b \<and> bx_block b < 2 ^ 31}"

lemma wrap_diff: "0 \<le> x \<Longrightarrow> x < 2 ^ 31 \<Longrightarrow> 0 \<le> y \<Longrightarrow> y < 2 ^ 31 \<Longrightarrow> signed_take_bit 31 (x - y) = (x - y :: int)"
  by (simp add: signed_take_bit_int_eq_self)

lemma ybicmp_eq:
  "a \<in> index_range \<Longrightarrow> b \<in> index_range \<Longrightarrow>
     ybicmp a b = (if bx_seq a = bx_seq b then bx_block a - bx_block b else bx_seq a - bx_seq b)"
  by (simp only: ybicmp_def index_range_def mem_Collect_eq wrap_diff)

interpretation scan_order: comparator ybicmp index_range
  by unfold_locales (auto simp: ybicmp_eq split: if_splits)

lemma ybicmp_le:
  "a \<in> index_range \<Longrightarrow> b \<in> index_range \<Longrightarrow>
     ybicmp a b \<le> 0 \<longleftrightarrow> bx_seq a < bx_seq b \<or> bx_seq a = bx_seq b \<and> bx_block a \<le> bx_block b"
  by (auto simp: ybicmp_eq)

lemma qsort_index:
  assumes "set xs \<subseteq> index_range"
  shows "mset (yaffs_qsort ybicmp xs 0 (length xs)) = mset xs \<and>
    sorted_wrt (\<lambda>a b. bx_seq a < bx_seq b \<or> bx_seq a = bx_seq b \<and> bx_block a \<le> bx_block b) (yaffs_qsort ybicmp xs 0 (length xs))"
proof -
  let ?ys = "yaffs_qsort ybicmp xs 0 (length xs)"
  have p: "perm_in xs ?ys 0 (length xs)" and s: "sorted_in ybicmp ?ys 0 (length xs)"
    using scan_order.qsort_sorts [OF assms, of 0 "length xs"] by simp_all
  have len: "length ?ys = length xs" by (rule perm_in_length [OF p])
  have "?ys ! i \<in> index_range" if "i < length xs" for i
    using scan_order.perm_set [OF p] assms that len by (metis nth_mem subsetD)
  then have "sorted_wrt (\<lambda>a b. bx_seq a < bx_seq b \<or> bx_seq a = bx_seq b \<and> bx_block a \<le> bx_block b) ?ys"
    using s len ybicmp_le by (simp add: sorted_wrt_iff_nth_less sorted_in_def)
  then show ?thesis using p by (simp add: perm_in_def)
qed

subsection \<open>Properties\<close>

text \<open>
  C9. \<open>yaffs_qsort\<close> with \<open>ybicmp\<close> puts the blocks to scan in the order of their sequence numbers, and of
  their block numbers where these are equal; nothing is lost or duplicated.
\<close>

theorem qsort_orders_blocks:
  assumes "set xs \<subseteq> index_range"
  shows "mset (yaffs_qsort ybicmp xs 0 (length xs)) = mset xs \<and>
    sorted_wrt (\<lambda>a b. bx_seq a < bx_seq b \<or> bx_seq a = bx_seq b \<and> bx_block a \<le> bx_block b) (yaffs_qsort ybicmp xs 0 (length xs))"
  using assms by (rule qsort_index)

theorem qsort_orders_blocks_witness:
  "sorted_wrt (\<lambda>a b. bx_seq a < bx_seq b \<or> bx_seq a = bx_seq b \<and> bx_block a \<le> bx_block b)
     (yaffs_qsort ybicmp [\<lparr>bx_seq = 4098, bx_block = 7\<rparr>, \<lparr>bx_seq = 4097, bx_block = 9\<rparr>, \<lparr>bx_seq = 4098, bx_block = 2\<rparr>] 0 3)"
  using qsort_orders_blocks [of "[\<lparr>bx_seq = 4098, bx_block = 7\<rparr>, \<lparr>bx_seq = 4097, bx_block = 9\<rparr>, \<lparr>bx_seq = 4098, bx_block = 2\<rparr>]"]
  by (simp add: index_range_def numeral_3_eq_3)

lemma sint_cases: "sint (w :: u32) = (if uint w < 2 ^ 31 then uint w else uint w - 2 ^ 32)"
proof -
  have b: "0 \<le> uint w" "uint w < 2 ^ 32" using uint_bounded [of w] by simp_all
  have "sint w = (uint w + 2 ^ 31) mod 2 ^ 32 - 2 ^ 31"
    by (simp add: sint_uint signed_take_bit_eq_take_bit_shift take_bit_eq_mod)
  also have "\<dots> = (if uint w < 2 ^ 31 then uint w else uint w - 2 ^ 32)"
  proof (cases "uint w < 2 ^ 31")
    case True
    then have "(uint w + 2 ^ 31) mod 2 ^ 32 = uint w + 2 ^ 31" using b by (intro mod_pos_pos_trivial) simp_all
    then show ?thesis using True by simp
  next
    case False
    have "(uint w + 2 ^ 31) mod 2 ^ 32 = (uint w + 2 ^ 31 - 2 ^ 32) mod 2 ^ 32" by (simp only: minus_mod_self2)
    also have "\<dots> = uint w + 2 ^ 31 - 2 ^ 32" using False b by (intro mod_pos_pos_trivial) simp_all
    finally show ?thesis using False by simp
  qed
  finally show ?thesis .
qed

end
