(* ===== verification/Tnodes.thy ===== *)
theory Tnodes
  imports Blocks
begin

section \<open>The tnode tree\<close>

text \<open>
  The look-up tree of a file (the tnode part of \<^verbatim>\<open>yaffs_guts.c\<close>): it maps the number of a chunk in the file
  to the chunk on the NAND.  A tnode is either an array of eight pointers or, on level 0, an array of
  sixteen entries of \<open>tnodeWidth\<close> bits packed into 32-bit words.  Pointers have 32 bits, as on the
  boards this kernel is built for.  A tnode has one owner, so the tree is a datatype; the free list is
  known by its length.  Following a level-0 tnode as pointers, or an access out of range, is \<open>None\<close>.
\<close>

datatype yaffs_Tnode = Level0 "u32 list" | Internal "yaffs_Tnode option list"

record yaffs_FileStructure =
  fileSize :: u32
  scannedFileSize :: u32
  shrinkSize :: u32
  topLevel :: int
  top_tnode :: "yaffs_Tnode option"

abbreviation (input) "YAFFS_NTNODES_LEVEL0 \<equiv> (16 :: nat)"
abbreviation (input) "YAFFS_TNODES_LEVEL0_BITS \<equiv> (4 :: nat)"
abbreviation (input) "YAFFS_TNODES_LEVEL0_MASK \<equiv> (0xf :: u32)"
abbreviation (input) "YAFFS_NTNODES_INTERNAL \<equiv> (8 :: nat)"
abbreviation (input) "YAFFS_TNODES_INTERNAL_BITS \<equiv> (3 :: nat)"
abbreviation (input) "YAFFS_TNODES_INTERNAL_MASK \<equiv> (0x7 :: u32)"
abbreviation (input) "YAFFS_TNODES_MAX_LEVEL \<equiv> (6 :: int)"
abbreviation (input) "YAFFS_MAX_CHUNK_ID \<equiv> (0xFFFFF :: u32)"
abbreviation (input) "YAFFS_ALLOCATION_NTNODES \<equiv> (100 :: int)"

subsection \<open>Allocation of tnodes\<close>

definition yaffs_CreateTnodes :: "'n yaffs_Device \<Rightarrow> int \<Rightarrow> int \<times> 'n yaffs_Device" where
  "yaffs_CreateTnodes dev nTnodes =
     (if nTnodes < 1 then (YAFFS_OK, dev)
      else
        (let (newTnodes, dev) = YMALLOC dev
         in if newTnodes = 0 then (YAFFS_FAIL, dev)
            else
              (let dev = dev\<lparr>freeTnodes := freeTnodes dev + nat nTnodes, nFreeTnodes := nFreeTnodes dev + nTnodes,
                             nTnodesCreated := nTnodesCreated dev + nTnodes\<rparr>;
                   (tnl, dev) = YMALLOC dev
               in if tnl = 0 then (YAFFS_FAIL, dev)
                  else (YAFFS_OK, dev\<lparr>allocatedTnodeList := newTnodes # allocatedTnodeList dev\<rparr>))))"

definition yaffs_GetTnodeRaw :: "'n yaffs_Device \<Rightarrow> bool \<times> 'n yaffs_Device" where
  "yaffs_GetTnodeRaw dev =
     (let dev = (if freeTnodes dev = 0 then snd (yaffs_CreateTnodes dev YAFFS_ALLOCATION_NTNODES) else dev)
      in if freeTnodes dev \<noteq> 0 then (True, dev\<lparr>freeTnodes := freeTnodes dev - 1, nFreeTnodes := nFreeTnodes dev - 1\<rparr>)
         else (False, dev))"

text \<open>
  A tnode from the free list is cleared before it is used: seen as pointers it has no children, seen as a
  level-0 tnode it has only zero entries.
\<close>

definition empty_internal :: yaffs_Tnode where
  "empty_internal = Internal (replicate YAFFS_NTNODES_INTERNAL None)"

definition empty_level0 :: "'n yaffs_Device \<Rightarrow> yaffs_Tnode" where
  "empty_level0 dev = Level0 (replicate (unat (tnodeWidth dev) * YAFFS_NTNODES_LEVEL0 div 32) 0)"

definition yaffs_GetTnode :: "'n yaffs_Device \<Rightarrow> yaffs_Tnode \<Rightarrow> yaffs_Tnode option \<times> 'n yaffs_Device" where
  "yaffs_GetTnode dev cleared = (let (ok, dev) = yaffs_GetTnodeRaw dev in (if ok then Some cleared else None, dev))"

definition yaffs_FreeTnode :: "'n yaffs_Device \<Rightarrow> yaffs_Tnode option \<Rightarrow> 'n yaffs_Device" where
  "yaffs_FreeTnode dev tn =
     (case tn of None \<Rightarrow> dev | Some _ \<Rightarrow> dev\<lparr>freeTnodes := freeTnodes dev + 1, nFreeTnodes := nFreeTnodes dev + 1\<rparr>)"

definition yaffs_DeinitialiseTnodes :: "'n yaffs_Device \<Rightarrow> 'n yaffs_Device" where
  "yaffs_DeinitialiseTnodes dev = dev\<lparr>allocatedTnodeList := [], freeTnodes := 0, nFreeTnodes := 0\<rparr>"

definition yaffs_InitialiseTnodes :: "'n yaffs_Device \<Rightarrow> 'n yaffs_Device" where
  "yaffs_InitialiseTnodes dev = dev\<lparr>allocatedTnodeList := [], freeTnodes := 0, nFreeTnodes := 0, nTnodesCreated := 0\<rparr>"

subsection \<open>The entries of a level-0 tnode\<close>

definition yaffs_PutLevel0Tnode :: "'n yaffs_Device \<Rightarrow> u32 list \<Rightarrow> u32 \<Rightarrow> u32 \<Rightarrow> u32 list option" where
  "yaffs_PutLevel0Tnode dev m pos val =
     (let pos = pos AND YAFFS_TNODES_LEVEL0_MASK;
          val = drop_bit (unat (chunkGroupBits dev)) val;
          bitInMap = pos * tnodeWidth dev;
          wordInMap = unat (bitInMap div 32);
          bitInWord = unat (bitInMap AND 31);
          mask = push_bit bitInWord (tnodeMask dev)
      in if \<not> wordInMap < length m then None
         else
           (let m = m[wordInMap := m ! wordInMap AND NOT mask OR (mask AND push_bit bitInWord val)]
            in if unat (tnodeWidth dev) > 32 - bitInWord then
                 (let bitInWord = 32 - bitInWord;
                      wordInMap = wordInMap + 1;
                      mask = drop_bit bitInWord (tnodeMask dev)
                  in if \<not> wordInMap < length m then None
                     else Some (m[wordInMap := m ! wordInMap AND NOT mask OR (mask AND drop_bit bitInWord val)]))
               else Some m))"

definition yaffs_GetChunkGroupBase :: "'n yaffs_Device \<Rightarrow> u32 list \<Rightarrow> u32 \<Rightarrow> u32 option" where
  "yaffs_GetChunkGroupBase dev m pos =
     (let pos = pos AND YAFFS_TNODES_LEVEL0_MASK;
          bitInMap = pos * tnodeWidth dev;
          wordInMap = unat (bitInMap div 32);
          bitInWord = unat (bitInMap AND 31)
      in if \<not> wordInMap < length m then None
         else do {
           let val = drop_bit bitInWord (m ! wordInMap);
           val \<leftarrow> (if unat (tnodeWidth dev) > 32 - bitInWord then
                    (if \<not> wordInMap + 1 < length m then None
                     else Some (val OR push_bit (32 - bitInWord) (m ! (wordInMap + 1))))
                  else Some val);
           Some (push_bit (unat (chunkGroupBits dev)) (val AND tnodeMask dev)) })"

subsection \<open>Finding and adding level-0 tnodes\<close>

function tallness_loop :: "u32 \<Rightarrow> int \<Rightarrow> int" where
  "tallness_loop x n = (if x \<noteq> 0 then tallness_loop (drop_bit YAFFS_TNODES_INTERNAL_BITS x) (n + 1) else n)"
  by pat_completeness auto
termination
  by (relation "measure (\<lambda>(x, _). unat x)") (auto simp: drop_bit_eq_div unat_div unat_gt_0)

definition requiredTallness :: "u32 \<Rightarrow> int" where
  "requiredTallness cid = tallness_loop (drop_bit YAFFS_TNODES_LEVEL0_BITS cid) 0"

definition child_index :: "nat \<Rightarrow> u32 \<Rightarrow> nat" where
  "child_index level cid =
     unat (drop_bit (YAFFS_TNODES_LEVEL0_BITS + (level - 1) * YAFFS_TNODES_INTERNAL_BITS) cid AND YAFFS_TNODES_INTERNAL_MASK)"

fun find_loop :: "nat \<Rightarrow> u32 \<Rightarrow> yaffs_Tnode option \<Rightarrow> yaffs_Tnode option option" where
  "find_loop 0 cid tn = Some tn"
| "find_loop (Suc l) cid None = Some None"
| "find_loop (Suc l) cid (Some (Internal ch)) =
     (if child_index (Suc l) cid < length ch then find_loop l cid (ch ! child_index (Suc l) cid) else None)"
| "find_loop (Suc l) cid (Some (Level0 m)) = None"

definition yaffs_FindLevel0Tnode :: "yaffs_FileStructure \<Rightarrow> u32 \<Rightarrow> yaffs_Tnode option option" where
  "yaffs_FindLevel0Tnode fStruct cid =
     (if topLevel fStruct < 0 \<or> topLevel fStruct > YAFFS_TNODES_MAX_LEVEL then Some None
      else if cid > YAFFS_MAX_CHUNK_ID then Some None
      else if requiredTallness cid > topLevel fStruct then Some None
      else find_loop (nat (topLevel fStruct)) cid (top_tnode fStruct))"

primrec grow_loop :: "nat \<Rightarrow> 'n yaffs_Device \<Rightarrow> yaffs_Tnode option \<Rightarrow> yaffs_Tnode option \<times> 'n yaffs_Device" where
  "grow_loop 0 dev t = (t, dev)"
| "grow_loop (Suc n) dev t =
     (let (tn, dev) = yaffs_GetTnode dev empty_internal
      in grow_loop n dev (if tn \<noteq> None then Some (Internal (t # replicate (YAFFS_NTNODES_INTERNAL - 1) None)) else t))"

text \<open>
  The walk down the tree.  The result is the level-0 tnode that is reached (what the C function returns a
  pointer to) and the tree with the tnodes that were added on the way.
\<close>

fun add_loop :: "nat \<Rightarrow> u32 \<Rightarrow> yaffs_Tnode option \<Rightarrow> 'n yaffs_Device \<Rightarrow> yaffs_Tnode option \<Rightarrow>
    (yaffs_Tnode option \<times> yaffs_Tnode option \<times> 'n yaffs_Device) option" where
  "add_loop 0 cid passedTn dev tn = Some (tn, tn, dev)"
| "add_loop (Suc l) cid passedTn dev None = Some (None, None, dev)"
| "add_loop (Suc l) cid passedTn dev (Some (Internal ch)) =
     (let x = child_index (Suc l) cid
      in if \<not> x < length ch then None
         else do {
           let (child, dev) =
             (if l > 0 then (if ch ! x = None then yaffs_GetTnode dev empty_internal else (ch ! x, dev))
              else case passedTn of
                Some p \<Rightarrow> (Some p, yaffs_FreeTnode dev (ch ! x))
              | None \<Rightarrow> (if ch ! x = None then yaffs_GetTnode dev (empty_level0 dev) else (ch ! x, dev)));
           (r, child, dev) \<leftarrow> add_loop l cid passedTn dev child;
           Some (r, Some (Internal (ch[x := child])), dev) })"
| "add_loop (Suc l) cid passedTn dev (Some (Level0 m)) = None"

definition yaffs_AddOrFindLevel0Tnode ::
  "'n yaffs_Device \<Rightarrow> yaffs_FileStructure \<Rightarrow> u32 \<Rightarrow> yaffs_Tnode option \<Rightarrow>
     (yaffs_Tnode option \<times> yaffs_FileStructure \<times> 'n yaffs_Device) option" where
  "yaffs_AddOrFindLevel0Tnode dev fStruct cid passedTn =
     (if topLevel fStruct < 0 \<or> topLevel fStruct > YAFFS_TNODES_MAX_LEVEL then Some (None, fStruct, dev)
      else if cid > YAFFS_MAX_CHUNK_ID then Some (None, fStruct, dev)
      else do {
        let required = requiredTallness cid;
        let (fStruct, dev) =
          (if required > topLevel fStruct then
             (let (t, dev) = grow_loop (nat (required - topLevel fStruct)) dev (top_tnode fStruct)
              in (fStruct\<lparr>top_tnode := t, topLevel := required\<rparr>, dev))
           else (fStruct, dev));
        if topLevel fStruct > 0 then do {
          (r, t, dev) \<leftarrow> add_loop (nat (topLevel fStruct)) cid passedTn dev (top_tnode fStruct);
          Some (r, fStruct\<lparr>top_tnode := t\<rparr>, dev) }
        else
          (case passedTn of
             None \<Rightarrow> Some (top_tnode fStruct, fStruct, dev)
           | Some p \<Rightarrow> if top_tnode fStruct = None then None
                       else Some (Some p, fStruct\<lparr>top_tnode := Some p\<rparr>, yaffs_FreeTnode dev passedTn)) })"

text \<open>A store through the pointer that the two functions return: the level-0 tnode of a chunk is replaced.\<close>

fun set_level0_loop :: "nat \<Rightarrow> u32 \<Rightarrow> yaffs_Tnode option \<Rightarrow> yaffs_Tnode \<Rightarrow> yaffs_Tnode option" where
  "set_level0_loop 0 cid tn leaf = Some leaf"
| "set_level0_loop (Suc l) cid (Some (Internal ch)) leaf =
     Some (Internal (ch[child_index (Suc l) cid := set_level0_loop l cid (ch ! child_index (Suc l) cid) leaf]))"
| "set_level0_loop (Suc l) cid tn leaf = tn"

definition set_level0 :: "yaffs_FileStructure \<Rightarrow> u32 \<Rightarrow> yaffs_Tnode \<Rightarrow> yaffs_FileStructure" where
  "set_level0 fStruct cid leaf =
     fStruct\<lparr>top_tnode := set_level0_loop (nat (topLevel fStruct)) cid (top_tnode fStruct) leaf\<rparr>"

subsection \<open>Deleting the chunks of a file\<close>

text \<open>The body of a loop \<^verbatim>\<open>for (i = n - 1; i >= 0; i--)\<close>, run on a state.\<close>

primrec down_loop :: "(nat \<Rightarrow> 's \<Rightarrow> 's option) \<Rightarrow> nat \<Rightarrow> 's \<Rightarrow> 's option" where
  "down_loop body 0 s = Some s"
| "down_loop body (Suc i) s = do { s \<leftarrow> body i s; down_loop body i s }"

text \<open>The chunks of a group are searched until one carries the wanted tags; the tags read last are given back.\<close>

primrec FindChunkInGroup_loop :: "yaffs_Config \<Rightarrow> nat \<Rightarrow> 'n yaffs_Device \<Rightarrow> int \<Rightarrow> yaffs_ExtendedTags \<Rightarrow> int \<Rightarrow> int \<Rightarrow>
    (int \<times> yaffs_ExtendedTags \<times> 'n yaffs_Device) option" where
  "FindChunkInGroup_loop cfg 0 dev theChunk tags objId chunkInInode = Some (-1, tags, dev)"
| "FindChunkInGroup_loop cfg (Suc n) dev theChunk tags objId chunkInInode =
     (if theChunk = 0 then Some (-1, tags, dev)
      else do {
        b \<leftarrow> yaffs_CheckChunkBit dev (cdiv theChunk (nChunksPerBlock dev)) (cmod theChunk (nChunksPerBlock dev));
        if b \<noteq> 0 then do {
          (_, _, tags, dev) \<leftarrow> yaffs_ReadChunkWithTagsFromNAND cfg dev theChunk False tags;
          if yaffs_TagsMatch tags (of_int objId) (of_int chunkInInode) then Some (theChunk, tags, dev)
          else FindChunkInGroup_loop cfg n dev (theChunk + 1) tags objId chunkInInode }
        else FindChunkInGroup_loop cfg n dev (theChunk + 1) tags objId chunkInInode })"

definition yaffs_FindChunkInGroup :: "yaffs_Config \<Rightarrow> 'n yaffs_Device \<Rightarrow> int \<Rightarrow> yaffs_ExtendedTags \<Rightarrow> int \<Rightarrow> int \<Rightarrow>
    (int \<times> yaffs_ExtendedTags \<times> 'n yaffs_Device) option" where
  "yaffs_FindChunkInGroup cfg dev theChunk tags objId chunkInInode =
     FindChunkInGroup_loop cfg (unat (chunkGroupSize dev)) dev theChunk tags objId chunkInInode"

text \<open>
  Deletion of a whole tree, from the last chunk back.  \<open>in_id\<close> is the id of the file; its count of data
  chunks, the limit (none for a NULL pointer) and the device are the state.  A leaf loop that hits the
  limit stops after the current entry; the result is 1 when the loop variable has passed 0.
\<close>

definition delete_entry :: "yaffs_Config \<Rightarrow> int \<Rightarrow> int \<Rightarrow> nat \<Rightarrow>
    nat option \<times> u32 list \<times> int \<times> int option \<times> 'n yaffs_Device \<Rightarrow> (nat option \<times> u32 list \<times> int \<times> int option \<times> 'n yaffs_Device) option" where
  "delete_entry cfg in_id off i = (\<lambda>(hit, m, nDataChunks, limit, dev).
     if hit \<noteq> None then Some (hit, m, nDataChunks, limit, dev)
     else do {
       theChunk \<leftarrow> yaffs_GetChunkGroupBase dev m (of_nat i);
       if theChunk \<noteq> 0 then do {
         (foundChunk, _, dev) \<leftarrow> yaffs_FindChunkInGroup cfg dev (sint theChunk) (cfg_unset_tags cfg) in_id (off * 2 ^ YAFFS_TNODES_LEVEL0_BITS + int i);
         (hit, nDataChunks, limit, dev) \<leftarrow>
           (if foundChunk > 0 then do {
              dev \<leftarrow> yaffs_DeleteChunk cfg dev foundChunk True;
              let limit = map_option (\<lambda>l. l - 1) limit;
              Some (case limit of Some l \<Rightarrow> if l \<le> 0 then Some i else None | None \<Rightarrow> None, nDataChunks - 1, limit, dev) }
            else Some (None, nDataChunks, limit, dev));
         m \<leftarrow> yaffs_PutLevel0Tnode dev m (of_nat i) 0;
         Some (hit, m, nDataChunks, limit, dev) }
       else Some (None, m, nDataChunks, limit, dev) })"

definition delete_child ::
  "(int \<Rightarrow> yaffs_Tnode option \<Rightarrow> int \<Rightarrow> int option \<Rightarrow> 'n yaffs_Device \<Rightarrow> (bool \<times> yaffs_Tnode option \<times> int \<times> int option \<times> 'n yaffs_Device) option) \<Rightarrow>
   int \<Rightarrow> nat \<Rightarrow> bool \<times> yaffs_Tnode option list \<times> int \<times> int option \<times> 'n yaffs_Device \<Rightarrow>
     (bool \<times> yaffs_Tnode option list \<times> int \<times> int option \<times> 'n yaffs_Device) option" where
  "delete_child worker off i = (\<lambda>(allDone, ch, nDataChunks, limit, dev).
     if \<not> allDone then Some (allDone, ch, nDataChunks, limit, dev)
     else if \<not> i < length ch then None
     else if ch ! i = None then Some (allDone, ch, nDataChunks, limit, dev)
     else do {
       (allDone, c, nDataChunks, limit, dev) \<leftarrow>
         (if (case limit of Some l \<Rightarrow> l < 0 | None \<Rightarrow> False) then Some (False, ch ! i, nDataChunks, limit, dev)
          else worker (off * 2 ^ YAFFS_TNODES_INTERNAL_BITS + int i) (ch ! i) nDataChunks limit dev);
       Some (if allDone then (allDone, ch[i := None], nDataChunks, limit, yaffs_FreeTnode dev c)
             else (allDone, ch[i := c], nDataChunks, limit, dev)) })"

primrec yaffs_DeleteWorker :: "yaffs_Config \<Rightarrow> int \<Rightarrow> nat \<Rightarrow> int \<Rightarrow> yaffs_Tnode option \<Rightarrow> int \<Rightarrow> int option \<Rightarrow> 'n yaffs_Device \<Rightarrow>
    (bool \<times> yaffs_Tnode option \<times> int \<times> int option \<times> 'n yaffs_Device) option" where
  "yaffs_DeleteWorker cfg in_id 0 = (\<lambda>off tn nDataChunks limit dev.
     case tn of
       None \<Rightarrow> Some (True, tn, nDataChunks, limit, dev)
     | Some (Internal ch) \<Rightarrow> None
     | Some (Level0 m) \<Rightarrow> do {
         (hit, m, nDataChunks, limit, dev) \<leftarrow> down_loop (delete_entry cfg in_id off) YAFFS_NTNODES_LEVEL0 (None, m, nDataChunks, limit, dev);
         Some (hit = None \<or> hit = Some 0, Some (Level0 m), nDataChunks, limit, dev) })"
| "yaffs_DeleteWorker cfg in_id (Suc level) = (\<lambda>off tn nDataChunks limit dev.
     case tn of
       None \<Rightarrow> Some (True, tn, nDataChunks, limit, dev)
     | Some (Level0 m) \<Rightarrow> None
     | Some (Internal ch) \<Rightarrow> do {
         (allDone, ch, nDataChunks, limit, dev) \<leftarrow>
           down_loop (delete_child (yaffs_DeleteWorker cfg in_id level) off) YAFFS_NTNODES_INTERNAL (True, ch, nDataChunks, limit, dev);
         Some (allDone, Some (Internal ch), nDataChunks, limit, dev) })"

definition soft_delete_entry :: "nat \<Rightarrow> u32 list \<times> 'n yaffs_Device \<Rightarrow> (u32 list \<times> 'n yaffs_Device) option" where
  "soft_delete_entry i = (\<lambda>(m, dev). do {
     theChunk \<leftarrow> yaffs_GetChunkGroupBase dev m (of_nat i);
     if theChunk \<noteq> 0 then do {
       dev \<leftarrow> yaffs_SoftDeleteChunk dev (sint theChunk);
       m \<leftarrow> yaffs_PutLevel0Tnode dev m (of_nat i) 0;
       Some (m, dev) }
     else Some (m, dev) })"

definition soft_delete_child ::
  "(yaffs_Tnode option \<Rightarrow> 'n yaffs_Device \<Rightarrow> (yaffs_Tnode option \<times> 'n yaffs_Device) option) \<Rightarrow> nat \<Rightarrow>
     yaffs_Tnode option list \<times> 'n yaffs_Device \<Rightarrow> (yaffs_Tnode option list \<times> 'n yaffs_Device) option" where
  "soft_delete_child worker i = (\<lambda>(ch, dev).
     if \<not> i < length ch then None
     else if ch ! i = None then Some (ch, dev)
     else do {
       (c, dev) \<leftarrow> worker (ch ! i) dev;
       Some (ch[i := None], yaffs_FreeTnode dev c) })"

text \<open>It always reports that it is done, so the result flag is left out.\<close>

primrec yaffs_SoftDeleteWorker :: "nat \<Rightarrow> yaffs_Tnode option \<Rightarrow> 'n yaffs_Device \<Rightarrow> (yaffs_Tnode option \<times> 'n yaffs_Device) option" where
  "yaffs_SoftDeleteWorker 0 = (\<lambda>tn dev.
     case tn of
       None \<Rightarrow> Some (tn, dev)
     | Some (Internal ch) \<Rightarrow> None
     | Some (Level0 m) \<Rightarrow> do {
         (m, dev) \<leftarrow> down_loop soft_delete_entry YAFFS_NTNODES_LEVEL0 (m, dev);
         Some (Some (Level0 m), dev) })"
| "yaffs_SoftDeleteWorker (Suc level) = (\<lambda>tn dev.
     case tn of
       None \<Rightarrow> Some (tn, dev)
     | Some (Level0 m) \<Rightarrow> None
     | Some (Internal ch) \<Rightarrow> do {
         (ch, dev) \<leftarrow> down_loop (soft_delete_child (yaffs_SoftDeleteWorker level)) YAFFS_NTNODES_INTERNAL (ch, dev);
         Some (Some (Internal ch), dev) })"

subsection \<open>Pruning\<close>

primrec prune_children :: "(yaffs_Tnode option \<Rightarrow> bool \<Rightarrow> 'n yaffs_Device \<Rightarrow> (yaffs_Tnode option \<times> 'n yaffs_Device) option) \<Rightarrow> bool \<Rightarrow>
    yaffs_Tnode option list \<Rightarrow> 'n yaffs_Device \<Rightarrow> (yaffs_Tnode option list \<times> 'n yaffs_Device) option" where
  "prune_children worker del0 [] dev = Some ([], dev)"
| "prune_children worker del0 (c # cs) dev =
     do { (c, dev) \<leftarrow> (if c \<noteq> None then worker c del0 dev else Some (None, dev));
          (cs, dev) \<leftarrow> prune_children worker True cs dev;
          Some (c # cs, dev) }"

text \<open>
  On level 0 the loop looks at the tnode as eight pointers: with 32-bit pointers these are its first eight
  words.
\<close>

primrec yaffs_PruneWorker :: "nat \<Rightarrow> yaffs_Tnode option \<Rightarrow> bool \<Rightarrow> 'n yaffs_Device \<Rightarrow> (yaffs_Tnode option \<times> 'n yaffs_Device) option" where
  "yaffs_PruneWorker 0 = (\<lambda>tn del0 dev.
     case tn of
       None \<Rightarrow> Some (tn, dev)
     | Some (Internal ch) \<Rightarrow> None
     | Some (Level0 m) \<Rightarrow>
         if length m < YAFFS_NTNODES_INTERNAL then None
         else if list_all (\<lambda>w. w = 0) (take YAFFS_NTNODES_INTERNAL m) \<and> del0 then Some (None, yaffs_FreeTnode dev tn)
         else Some (tn, dev))"
| "yaffs_PruneWorker (Suc level) = (\<lambda>tn del0 dev.
     case tn of
       None \<Rightarrow> Some (tn, dev)
     | Some (Level0 m) \<Rightarrow> None
     | Some (Internal ch) \<Rightarrow>
         if length ch \<noteq> YAFFS_NTNODES_INTERNAL then None
         else do {
           (ch, dev) \<leftarrow> prune_children (yaffs_PruneWorker level) del0 ch dev;
           if list_all (\<lambda>c. c = None) ch \<and> del0 then Some (None, yaffs_FreeTnode dev (Some (Internal ch)))
           else Some (Some (Internal ch), dev) })"

primrec shorten_loop :: "nat \<Rightarrow> yaffs_Tnode option \<Rightarrow> 'n yaffs_Device \<Rightarrow> (nat \<times> yaffs_Tnode option \<times> 'n yaffs_Device) option" where
  "shorten_loop 0 t dev = Some (0, t, dev)"
| "shorten_loop (Suc level) t dev =
     (case t of
        Some (Internal ch) \<Rightarrow>
          if length ch \<noteq> YAFFS_NTNODES_INTERNAL then None
          else if list_all (\<lambda>c. c = None) (tl ch) then shorten_loop level (hd ch) (yaffs_FreeTnode dev t)
          else Some (Suc level, t, dev)
      | _ \<Rightarrow> None)"

definition yaffs_PruneFileStructure :: "'n yaffs_Device \<Rightarrow> yaffs_FileStructure \<Rightarrow> (yaffs_FileStructure \<times> 'n yaffs_Device) option" where
  "yaffs_PruneFileStructure dev fStruct =
     (if topLevel fStruct > 0 then do {
        (t, dev) \<leftarrow> yaffs_PruneWorker (nat (topLevel fStruct)) (top_tnode fStruct) False dev;
        (l, t, dev) \<leftarrow> shorten_loop (nat (topLevel fStruct)) t dev;
        Some (fStruct\<lparr>top_tnode := t, topLevel := int l\<rparr>, dev) }
      else Some (fStruct, dev))"

end
