(* ===== verification/TnodeMap.thy ===== *)
theory TnodeMap
  imports Tnodes
begin

section \<open>The tnode tree is a map\<close>

text \<open>
  The packed entries of a level-0 tnode, read as a sequence of bits, and the tree, read as a map from
  chunk numbers to NAND chunks.
\<close>

subsection \<open>Packed entries\<close>

definition width :: "'n yaffs_Device \<Rightarrow> nat" where
  "width dev = unat (tnodeWidth dev)"

definition wf_width :: "'n yaffs_Device \<Rightarrow> bool" where
  "wf_width dev \<longleftrightarrow> 16 \<le> width dev \<and> width dev \<le> 32 \<and> even (width dev) \<and> tnodeMask dev = mask (width dev)"

definition wf_level0 :: "'n yaffs_Device \<Rightarrow> u32 list \<Rightarrow> bool" where
  "wf_level0 dev m \<longleftrightarrow> length m = width dev div 2"

definition slot :: "u32 \<Rightarrow> nat" where
  "slot pos = unat (pos AND 0xf)"

definition word_bit :: "u32 list \<Rightarrow> nat \<Rightarrow> bool" where
  "word_bit m n \<longleftrightarrow> bit (m ! (n div 32)) (n mod 32)"

lemma unat_and_mask: "unat (x AND mask n) = unat x mod 2 ^ n" for x :: u32
  by (simp only: take_bit_eq_mask [symmetric] unsigned_take_bit_eq) (simp add: take_bit_eq_mod)

lemma unat_and_15: "unat (x AND 0xf) = unat x mod 16" and unat_and_31: "unat (x AND 31) = unat x mod 32"
  and unat_and_7: "unat (x AND 7) = unat x mod 8" for x :: u32
  using unat_and_mask [of x 4] unat_and_mask [of x 5] unat_and_mask [of x 3] by (simp_all add: mask_eq_exp_minus_1)

lemma slot_less: "slot pos < 16"
  by (simp add: slot_def unat_and_15)

lemma bit_in_map:
  assumes "wf_width dev"
  shows "unat ((pos AND 0xf) * tnodeWidth dev div 32) = slot pos * width dev div 32"
    "unat ((pos AND 0xf) * tnodeWidth dev AND 31) = slot pos * width dev mod 32"
proof -
  have "slot pos * width dev \<le> 15 * 32" using slot_less [of pos] assms by (intro mult_mono) (auto simp: wf_width_def)
  then have u: "unat ((pos AND 0xf) * tnodeWidth dev) = slot pos * width dev"
    by (simp add: slot_def width_def unat_mult_lem [THEN iffD1])
  then show "unat ((pos AND 0xf) * tnodeWidth dev div 32) = slot pos * width dev div 32" by (simp add: unat_div)
  show "unat ((pos AND 0xf) * tnodeWidth dev AND 31) = slot pos * width dev mod 32" by (simp only: unat_and_31 u)
qed

text \<open>Where the bit \<open>k\<close> after bit \<open>n\<close> is.\<close>

lemma word_split: "n + k = 32 * (n div 32) + (n mod 32 + k)" for n k :: nat
  by (simp only: add.assoc [symmetric] mult_div_mod_eq)

lemma word_low: "n mod 32 + k < 32 \<Longrightarrow> (n + k) div 32 = n div 32 \<and> (n + k) mod 32 = n mod 32 + k" for n k :: nat
  by (simp only: word_split [of n k] div_mult_self4 mod_mult_self4) simp

lemma word_high:
  fixes n k :: nat
  assumes "\<not> n mod 32 + k < 32" "k < 32"
  shows "(n + k) div 32 = n div 32 + 1 \<and> (n + k) mod 32 = k - (32 - n mod 32) \<and> 32 - n mod 32 \<le> k"
proof -
  define x where "x = k - (32 - n mod 32)"
  have r: "n mod 32 < 32" by simp
  then have x: "n mod 32 + k = 32 + x" "x < 32" "32 - n mod 32 \<le> k" using assms by (simp_all add: x_def)
  have "n + k = 32 * (n div 32 + 1) + x" using word_split [of n k] x(1) by (simp only: distrib_left mult_1_right add.assoc)
  then have "(n + k) div 32 = n div 32 + 1" "(n + k) mod 32 = x" using x(2) by (simp_all only: div_mult_self4 mod_mult_self4) simp_all
  with x show ?thesis by (simp add: x_def)
qed

lemma word_next: "n + w \<le> 32 * l \<Longrightarrow> w > 32 - n mod 32 \<Longrightarrow> n div 32 + 1 < l" for n w l :: nat
  using mult_div_mod_eq [of 32 n] mod_less_divisor [of 32 n] by linarith

lemma word_in: "n + w \<le> 32 * l \<Longrightarrow> 0 < w \<Longrightarrow> n div 32 < l" for n w l :: nat
  using mult_div_mod_eq [of 32 n] by linarith

lemma slot_in_range:
  assumes "wf_width dev" "wf_level0 dev m"
  shows "slot pos * width dev div 32 < length m"
    and "width dev > 32 - slot pos * width dev mod 32 \<Longrightarrow> slot pos * width dev div 32 + 1 < length m"
proof -
  let ?B = "slot pos * width dev"
  have w: "16 \<le> width dev" "32 * length m = 16 * width dev" using assms by (auto simp: wf_width_def wf_level0_def)
  have "?B + width dev \<le> 16 * width dev" using slot_less [of pos] by (metis Suc_leI add.commute mult.commute mult_Suc mult_le_mono2)
  then have *: "?B + width dev \<le> 32 * length m" by (simp only: w(2))
  show "?B div 32 < length m" by (rule word_in [OF *]) (use w in simp)
  show "width dev > 32 - ?B mod 32 \<Longrightarrow> ?B div 32 + 1 < length m" by (rule word_next [OF *])
qed

lemma GetChunkGroupBase_bits:
  assumes "wf_width dev" "wf_level0 dev m"
  shows "\<exists>v. yaffs_GetChunkGroupBase dev m pos = Some (push_bit (unat (chunkGroupBits dev)) v) \<and>
    (\<forall>k < 32. bit v k \<longleftrightarrow> k < width dev \<and> word_bit m (slot pos * width dev + k))"
proof -
  let ?B = "slot pos * width dev"
  let ?W = "?B div 32" and ?b = "?B mod 32"
  have w: "width dev \<le> 32" "tnodeMask dev = mask (width dev)" using assms(1) by (auto simp: wf_width_def)
  have B: "?B = 32 * ?W + ?b" "?b < 32" by simp_all
  define v where "v = (drop_bit ?b (m ! ?W) OR (if width dev > 32 - ?b then push_bit (32 - ?b) (m ! (?W + 1)) else 0)) AND tnodeMask dev"
  have "yaffs_GetChunkGroupBase dev m pos = Some (push_bit (unat (chunkGroupBits dev)) v)"
    using slot_in_range [OF assms, of pos]
    by (simp add: yaffs_GetChunkGroupBase_def v_def Let_def bit_in_map [OF assms(1)] flip: width_def)
  moreover have "bit v k \<longleftrightarrow> k < width dev \<and> word_bit m (?B + k)" if "k < 32" for k
  proof (cases "?b + k < 32")
    case True
    then show ?thesis using True w that word_low [OF True]
      by (auto simp: v_def bit_and_iff bit_or_iff bit_drop_bit_eq bit_push_bit_iff bit_mask_iff word_bit_def add.commute)
  next
    case False
    then have "\<not> bit (m ! ?W) (?b + k)" by (auto dest: bit_imp_le_length)
    then show ?thesis using False w that B(2) word_high [OF False that]
      by (auto simp: v_def bit_and_iff bit_or_iff bit_drop_bit_eq bit_push_bit_iff bit_mask_iff word_bit_def add.commute)
  qed
  ultimately show ?thesis by blast
qed

lemma bit_merge: "bit (a AND NOT k OR (k AND v)) r \<longleftrightarrow> (if bit k r then bit v r else bit a r)" if "r < 32" for a k v :: u32
  using that by (auto simp: bit_or_iff bit_and_iff bit_not_iff)

lemma next_word_pos: "s + b = 32 \<Longrightarrow> n = 32 * (q + 1) + r \<Longrightarrow> m = 32 * q + b \<Longrightarrow> n = m + (s + r)" for s b n q r m :: nat
  by presburger

lemma PutLevel0Tnode_bits:
  assumes "wf_width dev" "wf_level0 dev m"
  defines "g \<equiv> unat (chunkGroupBits dev)"
  shows "\<exists>m'. yaffs_PutLevel0Tnode dev m pos val = Some m' \<and> wf_level0 dev m' \<and>
    (\<forall>n. n div 32 < length m \<longrightarrow> (word_bit m' n \<longleftrightarrow>
       (if slot pos * width dev \<le> n \<and> n < slot pos * width dev + width dev
        then bit (drop_bit g val) (n - slot pos * width dev) else word_bit m n)))"
proof -
  let ?B = "slot pos * width dev" and ?v = "drop_bit g val"
  let ?W = "?B div 32" and ?b = "?B mod 32"
  have w: "width dev \<le> 32" "tnodeMask dev = mask (width dev)" using assms(1) by (auto simp: wf_width_def)
  have B: "?B = 32 * ?W + ?b" "?b < 32" by simp_all
  define s where "s = 32 - ?b"
  define k1 where "k1 = push_bit ?b (tnodeMask dev)"
  define k2 where "k2 = drop_bit s (tnodeMask dev)"
  define m1 where "m1 = m[?W := m ! ?W AND NOT k1 OR (k1 AND push_bit ?b ?v)]"
  define m2 where "m2 = (if width dev > s then m1[?W + 1 := m1 ! (?W + 1) AND NOT k2 OR (k2 AND drop_bit s ?v)] else m1)"
  have run: "yaffs_PutLevel0Tnode dev m pos val = Some m2"
    using slot_in_range [OF assms(1,2), of pos]
    by (simp add: yaffs_PutLevel0Tnode_def m2_def m1_def k1_def k2_def g_def s_def Let_def bit_in_map [OF assms(1)] flip: width_def)
  have len: "length m2 = length m" by (simp add: m2_def m1_def)
  have k1: "bit k1 r \<longleftrightarrow> ?b \<le> r \<and> r < ?b + width dev" if "r < 32" for r
    using that w by (auto simp: k1_def bit_push_bit_iff bit_mask_iff)
  have k2: "bit k2 r \<longleftrightarrow> r + s < width dev" for r
    using w by (auto simp: k2_def bit_drop_bit_eq bit_mask_iff add.commute)
  have "word_bit m2 n \<longleftrightarrow> (if ?B \<le> n \<and> n < ?B + width dev then bit ?v (n - ?B) else word_bit m n)" if n: "n div 32 < length m" for n
  proof -
    let ?q = "n div 32" and ?r = "n mod 32"
    have r: "?r < 32" "n = 32 * ?q + ?r" by simp_all
    consider "?q = ?W" | "?q = ?W + 1" | "?q < ?W" | "?q > ?W + 1" by linarith
    then show ?thesis
    proof cases
      case 1
      have "m2 ! ?q = m ! ?W AND NOT k1 OR (k1 AND push_bit ?b ?v)" using 1 n by (simp add: m2_def m1_def)
      moreover have "?B \<le> n \<longleftrightarrow> ?b \<le> ?r" "n < ?B + width dev \<longleftrightarrow> ?r < ?b + width dev" "n - ?B = ?r - ?b"
        using 1 B(1) r(2) by linarith+
      ultimately show ?thesis using 1 k1 r(1) by (auto simp: word_bit_def bit_merge bit_push_bit_iff)
    next
      case 2
      have "?B \<le> n" "n < ?B + width dev \<longleftrightarrow> ?r + s < width dev" "n - ?B = s + ?r"
      proof -
        have "s + ?b = 32" using B(2) by (simp add: s_def)
        moreover have "n = 32 * (?W + 1) + ?r" using r(2) by (simp only: 2)
        ultimately have "n = ?B + (s + ?r)" using B(1) by (rule next_word_pos)
        then show "?B \<le> n" "n < ?B + width dev \<longleftrightarrow> ?r + s < width dev" "n - ?B = s + ?r" by linarith+
      qed
      moreover have "m2 ! ?q = (if width dev > s then m ! ?q AND NOT k2 OR (k2 AND drop_bit s ?v) else m ! ?q)"
        using 2 n by (simp add: m2_def m1_def)
      ultimately show ?thesis using k2 [of ?r] bit_merge [OF r(1)] unfolding word_bit_def by (simp add: bit_drop_bit_eq del: drop_bit_drop_bit)
    next
      case 3
      then have "\<not> ?B \<le> n" using B(1) r by linarith
      then show ?thesis using 3 by (simp add: word_bit_def m2_def m1_def)
    next
      case 4
      then have "\<not> n < ?B + width dev" using B r(2) w(1) by linarith
      then show ?thesis using 4 by (simp add: word_bit_def m2_def m1_def)
    qed
  qed
  with run len assms(2) show ?thesis by (auto simp: wf_level0_def)
qed

text \<open>Reading after writing: the entry that was written has the new value, every other one its old value.\<close>

lemma Get_Put_level0:
  assumes "wf_width dev" "wf_level0 dev m"
  shows "\<exists>m'. yaffs_PutLevel0Tnode dev m pos val = Some m' \<and> wf_level0 dev m' \<and>
    (\<forall>pos'. yaffs_GetChunkGroupBase dev m' pos' =
      (if slot pos' = slot pos
       then Some (push_bit (unat (chunkGroupBits dev)) (take_bit (width dev) (drop_bit (unat (chunkGroupBits dev)) val)))
       else yaffs_GetChunkGroupBase dev m pos'))"
proof -
  let ?g = "unat (chunkGroupBits dev)" and ?w = "width dev"
  obtain m' where m': "yaffs_PutLevel0Tnode dev m pos val = Some m'" "wf_level0 dev m'"
    and bits: "\<And>n. n div 32 < length m \<Longrightarrow> word_bit m' n \<longleftrightarrow>
       (if slot pos * ?w \<le> n \<and> n < slot pos * ?w + ?w then bit (drop_bit ?g val) (n - slot pos * ?w) else word_bit m n)"
    using PutLevel0Tnode_bits [OF assms] by metis
  have w: "16 \<le> ?w" "?w \<le> 32" "32 * length m = 16 * ?w" using assms by (auto simp: wf_width_def wf_level0_def)
  have "yaffs_GetChunkGroupBase dev m' pos' =
      (if slot pos' = slot pos then Some (push_bit ?g (take_bit ?w (drop_bit ?g val))) else yaffs_GetChunkGroupBase dev m pos')" for pos'
  proof -
    let ?B = "slot pos' * ?w"
    obtain v v' where v: "yaffs_GetChunkGroupBase dev m pos' = Some (push_bit ?g v)" "\<forall>k < 32. bit v k \<longleftrightarrow> k < ?w \<and> word_bit m (?B + k)"
      and v': "yaffs_GetChunkGroupBase dev m' pos' = Some (push_bit ?g v')" "\<forall>k < 32. bit v' k \<longleftrightarrow> k < ?w \<and> word_bit m' (?B + k)"
      using GetChunkGroupBase_bits [OF assms(1)] assms(2) m'(2) by metis
    have le: "?B + ?w \<le> 16 * ?w" using slot_less [of pos'] by (metis Suc_leI add.commute mult.commute mult_Suc mult_le_mono2)
    have ind: "(?B + k) div 32 < length m" if "k < ?w" for k
    proof -
      have "?B + k < length m * 32" using le that w(3) by linarith
      then show ?thesis by (rule less_mult_imp_div_less)
    qed
    have rng: "slot pos * ?w \<le> ?B + k \<and> ?B + k < slot pos * ?w + ?w \<longleftrightarrow> slot pos' = slot pos" if "k < ?w" for k
    proof
      assume a: "slot pos * ?w \<le> ?B + k \<and> ?B + k < slot pos * ?w + ?w"
      have "(?B + k) div ?w = slot pos'" using that by simp
      moreover have "(?B + k) div ?w = slot pos" using a by (intro div_nat_eqI) (auto simp: mult.commute)
      ultimately show "slot pos' = slot pos" by simp
    qed (use that in simp)
    have b': "bit v' k \<longleftrightarrow> k < ?w \<and> (if slot pos' = slot pos then bit (drop_bit ?g val) k else bit v k)" if "k < 32" for k
      using v(2) v'(2) that bits [OF ind, of k] rng [of k] by (cases "slot pos' = slot pos") auto
    show ?thesis
    proof (cases "slot pos' = slot pos")
      case True
      have "v' = take_bit ?w (drop_bit ?g val)" by (rule bit_word_eqI) (use b' True in \<open>auto simp: bit_take_bit_iff\<close>)
      then show ?thesis using True v'(1) by simp
    next
      case False
      have "v' = v" by (rule bit_word_eqI) (use b' False v(2) in auto)
      then show ?thesis using False v(1) v'(1) by simp
    qed
  qed
  with m' show ?thesis by blast
qed

subsection \<open>Well-formed trees\<close>

fun wf_tnode :: "'n yaffs_Device \<Rightarrow> nat \<Rightarrow> yaffs_Tnode \<Rightarrow> bool" where
  "wf_tnode dev 0 (Level0 m) \<longleftrightarrow> wf_level0 dev m"
| "wf_tnode dev (Suc l) (Internal ch) \<longleftrightarrow> length ch = 8 \<and> (\<forall>c \<in> set ch. case c of None \<Rightarrow> True | Some t \<Rightarrow> wf_tnode dev l t)"
| "wf_tnode dev _ _ \<longleftrightarrow> False"

definition wf_tree :: "'n yaffs_Device \<Rightarrow> nat \<Rightarrow> yaffs_Tnode option \<Rightarrow> bool" where
  "wf_tree dev l t \<longleftrightarrow> (case t of None \<Rightarrow> True | Some t \<Rightarrow> wf_tnode dev l t)"

lemma wf_tree_simps [simp]:
  "wf_tree dev l None" "wf_tree dev 0 (Some (Level0 m)) \<longleftrightarrow> wf_level0 dev m" "\<not> wf_tree dev 0 (Some (Internal ch))"
  "\<not> wf_tree dev (Suc l) (Some (Level0 m))"
  "wf_tree dev (Suc l) (Some (Internal ch)) \<longleftrightarrow> length ch = 8 \<and> (\<forall>c \<in> set ch. wf_tree dev l c)"
  by (auto simp: wf_tree_def split: option.splits)

text \<open>A tree of a level greater than zero: nothing, or eight well-formed subtrees.\<close>

lemma wf_tree_SucE:
  assumes "wf_tree dev (Suc l) t"
  obtains "t = None" | ch where "t = Some (Internal ch)" "length ch = 8" "\<And>i. i < 8 \<Longrightarrow> wf_tree dev l (ch ! i)"
proof (cases t)
  case None
  then show thesis using that by simp
next
  case (Some x)
  then obtain ch where "t = Some (Internal ch)" using assms by (cases x) simp_all
  then show thesis using assms by (intro that(2) [of ch]) simp_all
qed

lemma child_index_less [simp]: "child_index l cid < 8"
  by (simp add: child_index_def unat_and_7)

definition same_path :: "nat \<Rightarrow> u32 \<Rightarrow> u32 \<Rightarrow> bool" where
  "same_path l c d \<longleftrightarrow> (\<forall>j. 0 < j \<and> j \<le> l \<longrightarrow> child_index j c = child_index j d)"

lemma same_path_0 [simp]: "same_path 0 c d"
  by (simp add: same_path_def)

lemma same_path_Suc [simp]: "same_path (Suc l) c d \<longleftrightarrow> child_index (Suc l) c = child_index (Suc l) d \<and> same_path l c d"
  by (auto simp: same_path_def le_Suc_eq)

lemma find_loop_None [simp]: "find_loop l cid None = Some None"
  by (cases l) simp_all

lemma find_loop_wf:
  assumes "wf_tree dev l t"
  obtains "find_loop l cid t = Some None" | m where "find_loop l cid t = Some (Some (Level0 m))" "wf_level0 dev m"
  using assms
proof (induction l arbitrary: t thesis)
  case 0
  show ?case
  proof (cases t)
    case (Some x)
    then show ?thesis using 0 by (cases x) auto
  qed (use 0 in simp)
next
  case (Suc l)
  from Suc.prems(3) show ?case
  proof (cases rule: wf_tree_SucE)
    case 1
    then show ?thesis using Suc.prems(1) by simp
  next
    case (2 ch)
    show ?thesis by (rule Suc.IH [of "ch ! child_index (Suc l) cid"]) (use 2 Suc.prems(1,2) in auto)
  qed
qed

subsection \<open>Which chunks a tree can hold\<close>

lemma drop_zero_iff: "drop_bit n c = 0 \<longleftrightarrow> (\<forall>k \<ge> n. \<not> bit c k)" for c :: u32
proof
  assume "drop_bit n c = 0"
  then have "\<not> bit (drop_bit n c) (k - n)" for k by simp
  then show "\<forall>k \<ge> n. \<not> bit c k" by (metis bit_drop_bit_eq comp_apply le_add_diff_inverse)
next
  assume "\<forall>k \<ge> n. \<not> bit c k"
  then show "drop_bit n c = 0" by (intro bit_word_eqI) (simp add: bit_drop_bit_eq)
qed

lemma tallness_loop_le: "tallness_loop x n \<le> n + int l \<longleftrightarrow> drop_bit (3 * l) x = 0"
proof (induction l arbitrary: x n)
  case 0
  have "n + 1 \<le> tallness_loop y (n + 1)" for y n
  proof (induction y n rule: tallness_loop.induct)
    case (1 x n)
    then show ?case by (subst tallness_loop.simps) (auto split: if_splits)
  qed
  then have "n < tallness_loop x n" if "x \<noteq> 0" using that by (subst tallness_loop.simps) (auto simp: less_le_trans [of n "n + 1"])
  moreover have "tallness_loop 0 n = n" by (subst tallness_loop.simps) simp
  ultimately show ?case by (cases "x = 0") auto
next
  case (Suc l)
  show ?case
  proof (cases "x = 0")
    case True
    then show ?thesis by (subst tallness_loop.simps) simp
  next
    case False
    then have "tallness_loop x n = tallness_loop (drop_bit 3 x) (n + 1)" by (subst tallness_loop.simps) simp
    then show ?thesis using Suc.IH [of "drop_bit 3 x" "n + 1"] by (simp add: algebra_simps)
  qed
qed

lemma requiredTallness_le: "requiredTallness cid \<le> int l \<longleftrightarrow> drop_bit (4 + 3 * l) cid = 0"
  using tallness_loop_le [of "drop_bit 4 cid" 0 l] by (simp add: requiredTallness_def add.commute)

text \<open>Two chunk numbers that fit a tree, follow the same path and use the same slot are equal.\<close>

lemma same_path_bits:
  assumes "same_path l c d" "n < 3 * l"
  shows "bit c (4 + n) \<longleftrightarrow> bit d (4 + n)"
proof -
  let ?j = "n div 3 + 1"
  have "?j \<le> l" using assms(2) by (simp add: Suc_le_eq less_mult_imp_div_less mult.commute)
  then have "child_index ?j c = child_index ?j d" using assms(1) by (simp add: same_path_def)
  then have "drop_bit (4 + 3 * (n div 3)) c AND 7 = drop_bit (4 + 3 * (n div 3)) d AND 7"
    by (simp add: child_index_def mult.commute unsigned_word_eqI)
  then have "bit (drop_bit (4 + 3 * (n div 3)) c AND mask 3) (n mod 3) = bit (drop_bit (4 + 3 * (n div 3)) d AND mask 3) (n mod 3)"
    by (simp add: mask_eq_exp_minus_1)
  moreover have "n mod 3 < 32" using mod_less_divisor [of 3 n] by linarith
  ultimately show ?thesis by (simp add: bit_and_iff bit_mask_iff bit_drop_bit_eq add.assoc)
qed

lemma same_chunk:
  assumes "same_path l c d" "slot c = slot d" "drop_bit (4 + 3 * l) c = 0" "drop_bit (4 + 3 * l) d = 0"
  shows "c = d"
proof (rule bit_word_eqI)
  fix n assume "n < LENGTH(32)"
  have "c AND mask 4 = d AND mask 4" using assms(2) by (simp add: slot_def mask_eq_exp_minus_1 unsigned_word_eqI)
  then have "bit (c AND mask 4) n = bit (d AND mask 4) n" by simp
  then have low: "bit c n = bit d n" if "n < 4" using that by (simp add: bit_and_iff bit_mask_iff)
  consider "n < 4" | k where "n = 4 + k" "k < 3 * l" | "4 + 3 * l \<le> n" by (metis add_less_cancel_left le_add_diff_inverse not_less)
  then show "bit c n = bit d n"
  proof cases
    case 2
    then show ?thesis using same_path_bits [OF assms(1)] by simp
  next
    case 3
    then show ?thesis using assms(3,4) by (simp add: drop_zero_iff)
  qed (rule low)
qed

lemma child_index_top:
  assumes "drop_bit (4 + 3 * Suc l) c = 0"
  shows "child_index (Suc l) c = 0 \<longleftrightarrow> drop_bit (4 + 3 * l) c = 0"
proof -
  have "drop_bit (4 + 3 * l) c AND mask 3 = drop_bit (4 + 3 * l) c"
  proof (rule bit_word_eqI)
    fix n assume "n < LENGTH(32)"
    then show "bit (drop_bit (4 + 3 * l) c AND mask 3) n = bit (drop_bit (4 + 3 * l) c) n"
      using assms by (cases "n < 3") (simp_all add: bit_and_iff bit_mask_iff bit_drop_bit_eq drop_zero_iff)
  qed
  then have "child_index (Suc l) c = unat (drop_bit (4 + 3 * l) c)" by (simp add: child_index_def mask_eq_exp_minus_1 mult.commute)
  then show ?thesis by (simp add: unat_eq_zero)
qed

subsection \<open>Allocation\<close>

text \<open>What the tnode operations read of the device, apart from the free list.\<close>

definition tn_view :: "'n yaffs_Device \<Rightarrow> u32 \<times> u32 \<times> u16 \<times> (nat \<Rightarrow> nat)" where
  "tn_view dev = (tnodeWidth dev, tnodeMask dev, chunkGroupBits dev, ymalloc_result dev)"

definition mem_ok :: "'n yaffs_Device \<Rightarrow> bool" where
  "mem_ok dev \<longleftrightarrow> (\<forall>n. ymalloc_result dev n \<noteq> 0)"

lemma wf_tnode_cong: "width dev' = width dev \<Longrightarrow> wf_tnode dev' l t = wf_tnode dev l t"
  by (induction dev' l t rule: wf_tnode.induct) (auto simp: wf_level0_def split: option.splits)

lemma tn_view_cong:
  assumes "tn_view dev' = tn_view dev"
  shows "width dev' = width dev" "wf_width dev' = wf_width dev" "wf_level0 dev' = wf_level0 dev" "wf_tree dev' = wf_tree dev"
    "mem_ok dev' = mem_ok dev" "yaffs_GetChunkGroupBase dev' = yaffs_GetChunkGroupBase dev" "empty_level0 dev' = empty_level0 dev"
    "yaffs_PutLevel0Tnode dev' = yaffs_PutLevel0Tnode dev" "chunkGroupBits dev' = chunkGroupBits dev"
proof -
  have *: "tnodeWidth dev' = tnodeWidth dev" "tnodeMask dev' = tnodeMask dev" "chunkGroupBits dev' = chunkGroupBits dev"
    "ymalloc_result dev' = ymalloc_result dev" using assms by (simp_all add: tn_view_def)
  show w: "width dev' = width dev" by (simp add: width_def *)
  then show "wf_width dev' = wf_width dev" "wf_level0 dev' = wf_level0 dev" by (simp_all add: wf_width_def wf_level0_def fun_eq_iff *)
  show "wf_tree dev' = wf_tree dev" using wf_tnode_cong [OF w] by (simp add: wf_tree_def fun_eq_iff split: option.splits)
  show "mem_ok dev' = mem_ok dev" "yaffs_GetChunkGroupBase dev' = yaffs_GetChunkGroupBase dev" "empty_level0 dev' = empty_level0 dev"
    "yaffs_PutLevel0Tnode dev' = yaffs_PutLevel0Tnode dev" "chunkGroupBits dev' = chunkGroupBits dev"
    by (simp_all only: mem_ok_def yaffs_GetChunkGroupBase_def yaffs_PutLevel0Tnode_def empty_level0_def fun_eq_iff * simp_thms)
qed

lemma GetTnode_ok:
  assumes "mem_ok dev"
  obtains dev' where "yaffs_GetTnode dev t = (Some t, dev')" "tn_view dev' = tn_view dev"
proof -
  let ?a = "if freeTnodes dev = 0 then snd (yaffs_CreateTnodes dev 100) else dev"
  have "freeTnodes ?a \<noteq> 0" "tn_view ?a = tn_view dev"
    using assms [unfolded mem_ok_def, rule_format, of "ymalloc_count dev"]
    by (auto simp: yaffs_CreateTnodes_def YMALLOC_def tn_view_def Let_def)
  then show thesis using that [of "?a\<lparr>freeTnodes := freeTnodes ?a - 1, nFreeTnodes := nFreeTnodes ?a - 1\<rparr>"]
    by (simp add: yaffs_GetTnode_def yaffs_GetTnodeRaw_def Let_def tn_view_def)
qed

subsection \<open>Growing the tree\<close>

lemma grow_step:
  "wf_tree dev l t \<Longrightarrow> wf_tree dev (Suc l) (Some (Internal (t # replicate 7 None)))"
  "drop_bit (4 + 3 * Suc l) cid = 0 \<Longrightarrow> find_loop (Suc l) cid (Some (Internal (t # replicate 7 None))) =
     (if drop_bit (4 + 3 * l) cid = 0 then find_loop l cid t else Some None)"
proof -
  show "wf_tree dev l t \<Longrightarrow> wf_tree dev (Suc l) (Some (Internal (t # replicate 7 None)))" by auto
  assume "drop_bit (4 + 3 * Suc l) cid = 0"
  note top = child_index_top [OF this]
  have "(t # replicate 7 None) ! child_index (Suc l) cid = (if child_index (Suc l) cid = 0 then t else None)"
    using child_index_less [of "Suc l" cid] by (cases "child_index (Suc l) cid") (simp_all del: child_index_less)
  then show "find_loop (Suc l) cid (Some (Internal (t # replicate 7 None))) =
     (if drop_bit (4 + 3 * l) cid = 0 then find_loop l cid t else Some None)" using top by simp
qed

lemma grow_loop_ok:
  assumes "mem_ok dev" "wf_tree dev l t" "t \<noteq> None"
  obtains t' dev' where "grow_loop n dev t = (t', dev')" "tn_view dev' = tn_view dev" "wf_tree dev (l + n) t'" "t' \<noteq> None"
    "\<And>cid. drop_bit (4 + 3 * (l + n)) cid = 0 \<Longrightarrow>
       find_loop (l + n) cid t' = (if drop_bit (4 + 3 * l) cid = 0 then find_loop l cid t else Some None)"
  using assms
proof (induction n arbitrary: dev l t thesis)
  case 0
  then show ?case by simp
next
  case (Suc n)
  obtain a where a: "yaffs_GetTnode dev empty_internal = (Some empty_internal, a)" "tn_view a = tn_view dev"
    using GetTnode_ok [OF Suc.prems(2)] by metis
  let ?t = "Some (Internal (t # replicate 7 None))"
  have pre: "mem_ok a" "wf_tree a (Suc l) ?t"
    using Suc.prems(2) grow_step(1) [OF Suc.prems(3)] by (simp_all only: tn_view_cong [OF a(2)])
  obtain t' dev' where IH: "grow_loop n a ?t = (t', dev')" "tn_view dev' = tn_view a" "wf_tree a (Suc l + n) t'" "t' \<noteq> None"
    "\<And>cid. drop_bit (4 + 3 * (Suc l + n)) cid = 0 \<Longrightarrow>
       find_loop (Suc l + n) cid t' = (if drop_bit (4 + 3 * Suc l) cid = 0 then find_loop (Suc l) cid ?t else Some None)"
    using Suc.IH [OF _ pre] by (metis option.distinct(1))
  have mono: "drop_bit (4 + 3 * Suc l) cid = 0" if "drop_bit (4 + 3 * l) cid = 0" for cid :: u32
    using that by (simp add: drop_zero_iff)
  show ?case
  proof (rule Suc.prems(1))
    show "grow_loop (Suc n) dev t = (t', dev')" using a(1) IH(1) by simp
    show "tn_view dev' = tn_view dev" "t' \<noteq> None" using IH(2,4) a(2) by simp_all
    show "wf_tree dev (l + Suc n) t'" using IH(3) by (simp add: tn_view_cong [OF a(2)])
    show "find_loop (l + Suc n) cid t' = (if drop_bit (4 + 3 * l) cid = 0 then find_loop l cid t else Some None)"
      if "drop_bit (4 + 3 * (l + Suc n)) cid = 0" for cid
      using IH(5) [of cid] that grow_step(2) [of l cid t] mono [of cid] by (simp del: find_loop.simps)
  qed
qed

subsection \<open>Adding and replacing a level-0 tnode\<close>

lemma wf_empty [simp]: "wf_tree dev (Suc l) (Some empty_internal)" "find_loop (Suc l) cid (Some empty_internal) = Some None"
  by (simp_all add: empty_internal_def)

lemma wf_empty0: "wf_width dev \<Longrightarrow> wf_tree dev 0 (Some (empty_level0 dev))"
  by (auto simp: empty_level0_def wf_level0_def wf_width_def simp flip: width_def elim!: evenE)

text \<open>The child that \<open>add_loop\<close> goes on with.\<close>

definition next_child :: "nat \<Rightarrow> 'n yaffs_Device \<Rightarrow> yaffs_Tnode option \<Rightarrow> yaffs_Tnode option \<times> 'n yaffs_Device" where
  "next_child l dev c =
     (if c \<noteq> None then (c, dev) else if l > 0 then yaffs_GetTnode dev empty_internal else yaffs_GetTnode dev (empty_level0 dev))"

lemma next_child_ok:
  assumes "mem_ok dev" "wf_width dev" "wf_tree dev l c"
  obtains x dev' where "next_child l dev c = (Some x, dev')" "tn_view dev' = tn_view dev" "wf_tree dev l (Some x)"
    "c = Some x \<or> c = None \<and> x = (if l = 0 then empty_level0 dev else empty_internal)"
proof (cases c)
  case None
  let ?x = "if l = 0 then empty_level0 dev else empty_internal"
  obtain dev' where g: "yaffs_GetTnode dev ?x = (Some ?x, dev')" "tn_view dev' = tn_view dev" by (rule GetTnode_ok [OF assms(1)])
  have "next_child l dev c = (Some ?x, dev')" using None g(1) by (auto simp: next_child_def)
  moreover have "wf_tree dev l (Some ?x)" using wf_empty0 [OF assms(2)] by (cases l) auto
  ultimately show thesis using g(2) None that by blast
qed (use assms that in \<open>auto simp: next_child_def\<close>)

lemma add_loop_Internal:
  "length ch = 8 \<Longrightarrow> add_loop (Suc l) cid None dev (Some (Internal ch)) =
     (let x = child_index (Suc l) cid; (child, dev) = next_child l dev (ch ! x)
      in do { (r, child, dev) \<leftarrow> add_loop l cid None dev child; Some (r, Some (Internal (ch[x := child])), dev) })"
  by (simp add: next_child_def Let_def)

lemma find_loop_update:
  assumes "length ch = 8"
  shows "find_loop (Suc l) d (Some (Internal (ch[child_index (Suc l) cid := c]))) =
    (if child_index (Suc l) cid = child_index (Suc l) d then find_loop l d c else find_loop (Suc l) d (Some (Internal ch)))"
  using assms by simp

lemma wf_tree_update:
  "wf_tree dev (Suc l) (Some (Internal ch)) \<Longrightarrow> wf_tree dev l c \<Longrightarrow> wf_tree dev (Suc l) (Some (Internal (ch[i := c])))"
  by (auto dest: set_update_subset_insert [THEN subsetD])

lemma add_loop_ok:
  assumes "mem_ok dev" "wf_width dev" "wf_tree dev l (Some x)"
  shows "\<exists>m t' dev'. add_loop l cid None dev (Some x) = Some (Some (Level0 m), t', dev') \<and> tn_view dev' = tn_view dev \<and>
    wf_tree dev l t' \<and> t' \<noteq> None \<and> wf_level0 dev m \<and>
    (\<forall>d. find_loop l d t' = (if same_path l cid d then Some (Some (Level0 m)) else find_loop l d (Some x))) \<and>
    (find_loop l cid (Some x) = Some (Some (Level0 m)) \<or> find_loop l cid (Some x) = Some None \<and> Level0 m = empty_level0 dev)"
  using assms
proof (induction l arbitrary: dev x)
  case 0
  then show ?case by (cases x) auto
next
  case (Suc l)
  from Suc.prems(3) obtain ch where x: "x = Internal ch" "length ch = 8" "\<And>i. i < 8 \<Longrightarrow> wf_tree dev l (ch ! i)"
    by (rule wf_tree_SucE) auto
  let ?i = "child_index (Suc l) cid"
  obtain c a where c: "next_child l dev (ch ! ?i) = (Some c, a)" "tn_view a = tn_view dev" "wf_tree dev l (Some c)"
    "ch ! ?i = Some c \<or> ch ! ?i = None \<and> c = (if l = 0 then empty_level0 dev else empty_internal)"
    by (rule next_child_ok [OF Suc.prems(1,2) x(3) [OF child_index_less]])
  have pre: "mem_ok a" "wf_width a" "wf_tree a l (Some c)" using Suc.prems(1,2) c(3) by (simp_all only: tn_view_cong [OF c(2)])
  from Suc.IH [OF pre] obtain m t' dev' where
    IH: "add_loop l cid None a (Some c) = Some (Some (Level0 m), t', dev')" "tn_view dev' = tn_view a" "wf_tree dev l t'" "wf_level0 dev m"
      "\<And>d. find_loop l d t' = (if same_path l cid d then Some (Some (Level0 m)) else find_loop l d (Some c))"
      "find_loop l cid (Some c) = Some (Some (Level0 m)) \<or> find_loop l cid (Some c) = Some None \<and> Level0 m = empty_level0 dev"
    unfolding tn_view_cong [OF c(2)] by blast
  let ?t = "Some (Internal (ch[?i := t']))"
  have run: "add_loop (Suc l) cid None dev (Some x) = Some (Some (Level0 m), ?t, dev')"
    unfolding x(1) add_loop_Internal [OF x(2)] using c(1) IH(1) by simp
  have wf: "wf_tree dev (Suc l) ?t" using wf_tree_update [OF _ IH(3)] Suc.prems(3) x(1) by simp
  have sub: "find_loop l d (Some c) = find_loop l d (ch ! ?i)" if "\<not> same_path l cid d" for d
    using c(4) that by (cases l) auto
  have all: "find_loop (Suc l) d ?t = (if same_path (Suc l) cid d then Some (Some (Level0 m)) else find_loop (Suc l) d (Some x))" for d
    using IH(5) [of d] sub [of d] x(2) unfolding find_loop_update [OF x(2)] x(1) by (auto simp del: list_update.simps)
  have last: "find_loop (Suc l) cid (Some x) = Some (Some (Level0 m)) \<or> find_loop (Suc l) cid (Some x) = Some None \<and> Level0 m = empty_level0 dev"
    using c(4) IH(6) x(1,2) by (cases l) auto
  show ?case using run IH(2,4) c(2) wf all last by (intro exI [of _ m] exI [of _ ?t] exI [of _ dev']) auto
qed

lemma set_level0_loop_ok:
  assumes "wf_tree dev l t" "find_loop l cid t = Some (Some y)" "wf_level0 dev m"
  shows "wf_tree dev l (set_level0_loop l cid t (Level0 m)) \<and> set_level0_loop l cid t (Level0 m) \<noteq> None \<and>
    (\<forall>d. find_loop l d (set_level0_loop l cid t (Level0 m)) = (if same_path l cid d then Some (Some (Level0 m)) else find_loop l d t))"
  using assms
proof (induction l arbitrary: t)
  case 0
  then show ?case by simp
next
  case (Suc l)
  from Suc.prems(1) Suc.prems(2) obtain ch where t: "t = Some (Internal ch)" "length ch = 8" "\<And>i. i < 8 \<Longrightarrow> wf_tree dev l (ch ! i)"
    by (cases rule: wf_tree_SucE) auto
  let ?i = "child_index (Suc l) cid" and ?c = "set_level0_loop l cid (ch ! child_index (Suc l) cid) (Level0 m)"
  have IH: "wf_tree dev l ?c" "\<And>d. find_loop l d ?c = (if same_path l cid d then Some (Some (Level0 m)) else find_loop l d (ch ! ?i))"
    using Suc.IH [OF t(3) [OF child_index_less] _ Suc.prems(3)] Suc.prems(2) t(1,2) by auto
  have set: "set_level0_loop (Suc l) cid t (Level0 m) = Some (Internal (ch[?i := ?c]))" by (simp add: t(1))
  have "wf_tree dev (Suc l) (Some (Internal (ch[?i := ?c])))" using wf_tree_update [OF _ IH(1)] Suc.prems(1) t(1) by simp
  moreover have "find_loop (Suc l) d (Some (Internal (ch[?i := ?c]))) = (if same_path (Suc l) cid d then Some (Some (Level0 m)) else find_loop (Suc l) d t)" for d
    using IH(2) [of d] t(2) unfolding find_loop_update [OF t(2)] t(1) by auto
  ultimately show ?case unfolding set by blast
qed

subsection \<open>The map of a file\<close>

definition wf_file :: "'n yaffs_Device \<Rightarrow> yaffs_FileStructure \<Rightarrow> bool" where
  "wf_file dev fs \<longleftrightarrow> 0 \<le> topLevel fs \<and> topLevel fs \<le> 6 \<and> wf_tree dev (nat (topLevel fs)) (top_tnode fs) \<and> top_tnode fs \<noteq> None"

definition entry_of :: "'n yaffs_Device \<Rightarrow> yaffs_Tnode option option \<Rightarrow> u32 \<Rightarrow> u32" where
  "entry_of dev r cid = (case r of Some (Some (Level0 m)) \<Rightarrow> the (yaffs_GetChunkGroupBase dev m cid) | _ \<Rightarrow> 0)"

definition chunk_of :: "'n yaffs_Device \<Rightarrow> yaffs_FileStructure \<Rightarrow> u32 \<Rightarrow> u32" where
  "chunk_of dev fs cid = entry_of dev (yaffs_FindLevel0Tnode fs cid) cid"

text \<open>Entering a chunk, as \<open>yaffs_PutChunkIntoFile\<close> does: find or add the level-0 tnode and write the entry.\<close>

definition map_chunk :: "'n yaffs_Device \<times> yaffs_FileStructure \<Rightarrow> u32 \<Rightarrow> u32 \<Rightarrow> ('n yaffs_Device \<times> yaffs_FileStructure) option" where
  "map_chunk s cid val =
     do { (tn, fs, dev) \<leftarrow> yaffs_AddOrFindLevel0Tnode (fst s) (snd s) cid None;
          m \<leftarrow> (case tn of Some (Level0 m) \<Rightarrow> Some m | _ \<Rightarrow> None);
          m \<leftarrow> yaffs_PutLevel0Tnode dev m cid val;
          Some (dev, set_level0 fs cid (Level0 m)) }"

definition group_of :: "'n yaffs_Device \<Rightarrow> u32 \<Rightarrow> u32" where
  "group_of dev val = push_bit (unat (chunkGroupBits dev)) (take_bit (width dev) (drop_bit (unat (chunkGroupBits dev)) val))"

lemma Find_eq:
  assumes "0 \<le> topLevel fs" "topLevel fs \<le> 6"
  shows "yaffs_FindLevel0Tnode fs d =
    (if d \<le> 0xFFFFF \<and> drop_bit (4 + 3 * nat (topLevel fs)) d = 0 then find_loop (nat (topLevel fs)) d (top_tnode fs) else Some None)"
  using assms requiredTallness_le [of d "nat (topLevel fs)"] by (auto simp: yaffs_FindLevel0Tnode_def)

lemma chunk_id_tallness: "cid \<le> 0xFFFFF \<Longrightarrow> requiredTallness cid \<le> 6"
proof -
  assume "cid \<le> 0xFFFFF"
  then have "unat cid < 2 ^ 22" by (simp add: word_le_nat_alt)
  then have "unat (cid div 2 ^ 22) = 0" by (simp add: unat_div)
  then have "drop_bit (4 + 3 * 6) cid = 0" by (simp add: drop_bit_eq_div unat_eq_zero)
  then show ?thesis using requiredTallness_le [of cid 6] by simp
qed

lemma same_path_find: "same_path l c d \<Longrightarrow> find_loop l c t = find_loop l d t"
proof (induction l arbitrary: t)
  case (Suc l)
  show ?case
  proof (cases t)
    case (Some x)
    then show ?thesis using Suc by (cases x) auto
  qed simp
qed simp

lemma empty_entry:
  assumes "wf_width dev" "Level0 m = empty_level0 dev"
  shows "yaffs_GetChunkGroupBase dev m d = Some 0"
proof -
  have m: "m = replicate (width dev div 2) 0" "wf_level0 dev m"
    using assms wf_empty0 [OF assms(1)] by (auto simp: empty_level0_def wf_width_def simp flip: width_def elim!: evenE)
  then have z: "\<not> word_bit m n" if "n div 32 < width dev div 2" for n using that by (simp add: word_bit_def)
  obtain v where v: "yaffs_GetChunkGroupBase dev m d = Some (push_bit (unat (chunkGroupBits dev)) v)"
    "\<forall>k < 32. bit v k \<longleftrightarrow> k < width dev \<and> word_bit m (slot d * width dev + k)"
    using GetChunkGroupBase_bits [OF assms(1) m(2)] by metis
  have "\<not> word_bit m (slot d * width dev + k)" if "k < width dev" for k
  proof (rule z)
    have "slot d * width dev + width dev \<le> 16 * width dev"
      using slot_less [of d] by (metis Suc_leI add.commute mult.commute mult_Suc mult_le_mono2)
    then have "slot d * width dev + k < 16 * width dev" using that by linarith
    moreover have "16 * width dev = width dev div 2 * 32" using assms(1) by (auto simp: wf_width_def elim!: evenE)
    ultimately have "slot d * width dev + k < width dev div 2 * 32" by metis
    then show "(slot d * width dev + k) div 32 < width dev div 2" by (rule less_mult_imp_div_less)
  qed
  then have "v = 0" using v(2) by (intro bit_word_eqI) simp
  then show ?thesis using v(1) by simp
qed

lemma Find_grown:
  assumes "wf_file dev fs" "mem_ok dev" "required > topLevel fs" "required \<le> 6"
  obtains t a where "grow_loop (nat (required - topLevel fs)) dev (top_tnode fs) = (t, a)" "tn_view a = tn_view dev"
    "wf_file dev (fs\<lparr>top_tnode := t, topLevel := required\<rparr>)"
    "\<And>d. yaffs_FindLevel0Tnode (fs\<lparr>top_tnode := t, topLevel := required\<rparr>) d = yaffs_FindLevel0Tnode fs d"
proof -
  let ?l = "nat (topLevel fs)" and ?n = "nat (required - topLevel fs)"
  have f: "0 \<le> topLevel fs" "topLevel fs \<le> 6" "wf_tree dev ?l (top_tnode fs)" "top_tnode fs \<noteq> None" using assms(1) by (auto simp: wf_file_def)
  have L: "?l + ?n = nat required" "0 \<le> required" using assms(3) f(1) by auto
  obtain t a where g: "grow_loop ?n dev (top_tnode fs) = (t, a)" "tn_view a = tn_view dev" "wf_tree dev (nat required) t" "t \<noteq> None"
    "\<And>d. drop_bit (4 + 3 * nat required) d = 0 \<Longrightarrow>
       find_loop (nat required) d t = (if drop_bit (4 + 3 * ?l) d = 0 then find_loop ?l d (top_tnode fs) else Some None)"
    using grow_loop_ok [OF assms(2) f(3,4), of ?n, unfolded L(1)] by metis
  let ?fs = "fs\<lparr>top_tnode := t, topLevel := required\<rparr>"
  have mono: "drop_bit (4 + 3 * nat required) d = 0" if "drop_bit (4 + 3 * ?l) d = 0" for d :: u32
    using that assms(3) f(1) by (simp add: drop_zero_iff)
  have "yaffs_FindLevel0Tnode ?fs d = yaffs_FindLevel0Tnode fs d" for d
    using Find_eq [of ?fs d] Find_eq [OF f(1,2), of d] g(5) [of d] mono [of d] L(2) assms(4) by auto
  with g L assms(4) show thesis by (intro that [of t a]) (auto simp: wf_file_def)
qed

lemma AddOrFind_ok:
  assumes "wf_file dev fs" "mem_ok dev" "wf_width dev" "cid \<le> 0xFFFFF"
  obtains m fs' dev' where "yaffs_AddOrFindLevel0Tnode dev fs cid None = Some (Some (Level0 m), fs', dev')" "tn_view dev' = tn_view dev"
    "wf_file dev fs'" "wf_level0 dev m" "drop_bit (4 + 3 * nat (topLevel fs')) cid = 0"
    "\<And>d. d \<le> 0xFFFFF \<Longrightarrow> drop_bit (4 + 3 * nat (topLevel fs')) d = 0 \<Longrightarrow> yaffs_FindLevel0Tnode fs' d =
       (if same_path (nat (topLevel fs')) cid d then Some (Some (Level0 m)) else yaffs_FindLevel0Tnode fs d)"
    "\<And>d. \<not> (d \<le> 0xFFFFF \<and> drop_bit (4 + 3 * nat (topLevel fs')) d = 0) \<Longrightarrow> yaffs_FindLevel0Tnode fs d = Some None"
    "\<And>d. d \<le> 0xFFFFF \<Longrightarrow> drop_bit (4 + 3 * nat (topLevel fs')) d = 0 \<Longrightarrow> same_path (nat (topLevel fs')) cid d \<Longrightarrow>
       yaffs_FindLevel0Tnode fs d = yaffs_FindLevel0Tnode fs cid"
    "yaffs_FindLevel0Tnode fs cid = Some (Some (Level0 m)) \<or> yaffs_FindLevel0Tnode fs cid = Some None \<and> Level0 m = empty_level0 dev"
proof -
  let ?r = "requiredTallness cid"
  obtain fs1 a where g: "(if ?r > topLevel fs then (let (t, dev) = grow_loop (nat (?r - topLevel fs)) dev (top_tnode fs)
        in (fs\<lparr>top_tnode := t, topLevel := ?r\<rparr>, dev)) else (fs, dev)) = (fs1, a)"
    "tn_view a = tn_view dev" "wf_file dev fs1" "\<And>d. yaffs_FindLevel0Tnode fs1 d = yaffs_FindLevel0Tnode fs d" "?r \<le> topLevel fs1"
  proof (cases "?r > topLevel fs")
    case True
    obtain t a where "grow_loop (nat (?r - topLevel fs)) dev (top_tnode fs) = (t, a)" "tn_view a = tn_view dev"
      "wf_file dev (fs\<lparr>top_tnode := t, topLevel := ?r\<rparr>)" "\<And>d. yaffs_FindLevel0Tnode (fs\<lparr>top_tnode := t, topLevel := ?r\<rparr>) d = yaffs_FindLevel0Tnode fs d"
      using Find_grown [OF assms(1,2) True chunk_id_tallness [OF assms(4)]] by blast
    then show thesis using True by (intro that [of "fs\<lparr>top_tnode := t, topLevel := ?r\<rparr>" a]) simp_all
  next
    case False
    then show thesis using that [of fs dev] assms(1) by simp
  qed
  let ?l = "nat (topLevel fs1)"
  have f: "0 \<le> topLevel fs1" "topLevel fs1 \<le> 6" "wf_tree dev ?l (top_tnode fs1)" "top_tnode fs1 \<noteq> None" using g(3) by (auto simp: wf_file_def)
  then obtain x where x: "top_tnode fs1 = Some x" by auto
  have fits: "drop_bit (4 + 3 * ?l) cid = 0" using g(5) requiredTallness_le [of cid ?l] f(1) by simp
  have pre: "mem_ok a" "wf_width a" "wf_tree a ?l (Some x)" using assms(2,3) f(3) x by (simp_all add: tn_view_cong [OF g(2)])
  from add_loop_ok [OF pre, of cid] obtain m t dev' where
    A: "add_loop ?l cid None a (Some x) = Some (Some (Level0 m), t, dev')" "tn_view dev' = tn_view a" "wf_tree dev ?l t" "t \<noteq> None"
      "wf_level0 dev m" "\<And>d. find_loop ?l d t = (if same_path ?l cid d then Some (Some (Level0 m)) else find_loop ?l d (Some x))"
      "find_loop ?l cid (Some x) = Some (Some (Level0 m)) \<or> find_loop ?l cid (Some x) = Some None \<and> Level0 m = empty_level0 dev"
    unfolding tn_view_cong [OF g(2)] by blast
  let ?fs = "fs1\<lparr>top_tnode := t\<rparr>"
  have "yaffs_AddOrFindLevel0Tnode dev fs cid None = Some (Some (Level0 m), ?fs, dev')"
  proof (cases "topLevel fs1 > 0")
    case True
    then show ?thesis using assms(1,4) g(1) A(1) x unfolding yaffs_AddOrFindLevel0Tnode_def Let_def by (simp add: wf_file_def not_less)
  next
    case False
    then have "topLevel fs1 = 0" using f(1) by simp
    moreover from this have "top_tnode fs1 = Some (Level0 m)" "t = Some (Level0 m)" "dev' = a" "?fs = fs1" using A(1) x by auto
    ultimately show ?thesis using assms(1,4) g(1) unfolding yaffs_AddOrFindLevel0Tnode_def Let_def by (simp add: wf_file_def not_less)
  qed
  moreover have F: "yaffs_FindLevel0Tnode fs d = (if d \<le> 0xFFFFF \<and> drop_bit (4 + 3 * ?l) d = 0 then find_loop ?l d (Some x) else Some None)" for d
    using Find_eq [OF f(1,2)] g(4) x by simp
  moreover have "yaffs_FindLevel0Tnode ?fs d = (if d \<le> 0xFFFFF \<and> drop_bit (4 + 3 * ?l) d = 0 then find_loop ?l d t else Some None)" for d
    using Find_eq [of ?fs d] f(1,2) by simp
  moreover have "yaffs_FindLevel0Tnode fs d = yaffs_FindLevel0Tnode fs cid"
    if "d \<le> 0xFFFFF" "drop_bit (4 + 3 * ?l) d = 0" "same_path ?l cid d" for d
    unfolding F using that assms(4) fits same_path_find [OF that(3), of "Some x"] by simp
  ultimately show thesis using A f fits g(2) assms(4)
    by (intro that [of m ?fs dev']) (auto simp: wf_file_def)
qed

lemma map_chunk_ok:
  assumes "wf_file dev fs" "mem_ok dev" "wf_width dev" "cid \<le> 0xFFFFF"
  shows "\<exists>dev' fs'. map_chunk (dev, fs) cid val = Some (dev', fs') \<and> tn_view dev' = tn_view dev \<and> wf_file dev fs' \<and>
    chunk_of dev fs' = (chunk_of dev fs)(cid := group_of dev val)"
proof -
  obtain m fs1 dev' where A: "yaffs_AddOrFindLevel0Tnode dev fs cid None = Some (Some (Level0 m), fs1, dev')" "tn_view dev' = tn_view dev"
    "wf_file dev fs1" "wf_level0 dev m" "drop_bit (4 + 3 * nat (topLevel fs1)) cid = 0"
    "\<And>d. d \<le> 0xFFFFF \<Longrightarrow> drop_bit (4 + 3 * nat (topLevel fs1)) d = 0 \<Longrightarrow> yaffs_FindLevel0Tnode fs1 d =
       (if same_path (nat (topLevel fs1)) cid d then Some (Some (Level0 m)) else yaffs_FindLevel0Tnode fs d)"
    "\<And>d. \<not> (d \<le> 0xFFFFF \<and> drop_bit (4 + 3 * nat (topLevel fs1)) d = 0) \<Longrightarrow> yaffs_FindLevel0Tnode fs d = Some None"
    "\<And>d. d \<le> 0xFFFFF \<Longrightarrow> drop_bit (4 + 3 * nat (topLevel fs1)) d = 0 \<Longrightarrow> same_path (nat (topLevel fs1)) cid d \<Longrightarrow>
       yaffs_FindLevel0Tnode fs d = yaffs_FindLevel0Tnode fs cid"
    "yaffs_FindLevel0Tnode fs cid = Some (Some (Level0 m)) \<or> yaffs_FindLevel0Tnode fs cid = Some None \<and> Level0 m = empty_level0 dev"
    using AddOrFind_ok [OF assms] by blast
  obtain m' where P: "yaffs_PutLevel0Tnode dev m cid val = Some m'" "wf_level0 dev m'"
    "\<And>d. yaffs_GetChunkGroupBase dev m' d = (if slot d = slot cid then Some (group_of dev val) else yaffs_GetChunkGroupBase dev m d)"
    using Get_Put_level0 [OF assms(3) A(4), of cid val] unfolding group_of_def by blast
  let ?l = "nat (topLevel fs1)" and ?fs = "set_level0 fs1 cid (Level0 m')"
  have f: "0 \<le> topLevel fs1" "topLevel fs1 \<le> 6" "wf_tree dev ?l (top_tnode fs1)" using A(3) by (auto simp: wf_file_def)
  have fc: "find_loop ?l cid (top_tnode fs1) = Some (Some (Level0 m))"
    using A(6) [OF assms(4) A(5)] Find_eq [OF f(1,2), of cid] assms(4) A(5) by (simp add: same_path_def)
  note S = set_level0_loop_ok [OF f(3) fc P(2)]
  have wf: "wf_file dev ?fs" using S f by (simp add: wf_file_def set_level0_def)
  have F: "yaffs_FindLevel0Tnode ?fs d = (if d \<le> 0xFFFFF \<and> drop_bit (4 + 3 * ?l) d = 0
      then if same_path ?l cid d then Some (Some (Level0 m')) else yaffs_FindLevel0Tnode fs d else Some None)" for d
    using Find_eq [of ?fs d] Find_eq [OF f(1,2), of d] f(1,2) S A(6) [of d] by (auto simp: set_level0_def)
  have "chunk_of dev ?fs d = ((chunk_of dev fs)(cid := group_of dev val)) d" for d
  proof (cases "d \<le> 0xFFFFF \<and> drop_bit (4 + 3 * ?l) d = 0")
    case in_tree: True
    show ?thesis
    proof (cases "same_path ?l cid d")
      case True
      then have "chunk_of dev ?fs d = the (yaffs_GetChunkGroupBase dev m' d)" using F [of d] in_tree by (simp add: chunk_of_def entry_of_def)
      moreover have "chunk_of dev fs d = the (yaffs_GetChunkGroupBase dev m d)"
      proof -
        have "yaffs_FindLevel0Tnode fs d = yaffs_FindLevel0Tnode fs cid"
          using A(8) in_tree True by blast
        then show ?thesis using A(9) empty_entry [OF assms(3), of m d] by (auto simp: chunk_of_def entry_of_def)
      qed
      moreover have "slot d = slot cid \<longleftrightarrow> d = cid" using same_chunk [OF True _ A(5)] in_tree by auto
      ultimately show ?thesis using P(3) [of d] by simp
    next
      case False
      then show ?thesis using F [of d] in_tree by (auto simp: chunk_of_def same_path_def)
    qed
  next
    case False
    then show ?thesis using F [of d] A(5) A(7) [of d] assms(4) by (auto simp: chunk_of_def entry_of_def)
  qed
  then show ?thesis using A(1,2) P(1) wf by (auto simp: map_chunk_def tn_view_cong(8) [OF A(2)])
qed

subsection \<open>The interface\<close>

text \<open>
  What the file operations rely on: the structure is a map, entering a chunk is a map update and always
  succeeds for a valid chunk number.
\<close>

locale chunk_map =
  fixes wf :: "'s \<Rightarrow> bool" and valid :: "'k \<Rightarrow> bool" and lookup :: "'s \<Rightarrow> 'k \<Rightarrow> 'v" and put :: "'s \<Rightarrow> 'k \<Rightarrow> 'v \<Rightarrow> 's option"
    and norm :: "'s \<Rightarrow> 'v \<Rightarrow> 'v"
  assumes put_law: "wf s \<Longrightarrow> valid k \<Longrightarrow> \<exists>s'. put s k v = Some s' \<and> wf s' \<and> norm s' = norm s \<and> lookup s' = (lookup s)(k := norm s v)"
begin

primrec puts :: "'s \<Rightarrow> ('k \<times> 'v) list \<Rightarrow> 's option" where
  "puts s [] = Some s"
| "puts s (e # es) = Option.bind (put s (fst e) (snd e)) (\<lambda>s. puts s es)"

lemma puts_law:
  "wf s \<Longrightarrow> \<forall>e \<in> set es. valid (fst e) \<Longrightarrow>
     \<exists>s'. puts s es = Some s' \<and> wf s' \<and> norm s' = norm s \<and> lookup s' = foldl (\<lambda>m e. m(fst e := norm s (snd e))) (lookup s) es"
proof (induction es arbitrary: s)
  case (Cons e es)
  obtain s1 where s1: "put s (fst e) (snd e) = Some s1" "wf s1" "norm s1 = norm s" "lookup s1 = (lookup s)(fst e := norm s (snd e))"
    using put_law [OF Cons.prems(1)] Cons.prems(2) by fastforce
  from Cons.IH [OF s1(2)] Cons.prems(2) s1 show ?case by auto
qed simp

lemma put_commute:
  assumes "wf s" "valid k" "valid l" "k \<noteq> l" "put s k v = Some s1" "put s1 l w = Some s2" "put s l w = Some t1" "put t1 k v = Some t2"
  shows "lookup s2 = lookup t2"
proof -
  have "wf s1" "norm s1 = norm s" "lookup s1 = (lookup s)(k := norm s v)" using put_law [OF assms(1,2), of v] assms(5) by auto
  moreover have "wf t1" "norm t1 = norm s" "lookup t1 = (lookup s)(l := norm s w)" using put_law [OF assms(1,3), of w] assms(7) by auto
  ultimately show ?thesis using put_law [of s1 l w] put_law [of t1 k v] assms by (auto simp: fun_upd_twist)
qed

end

interpretation tnodes: chunk_map "\<lambda>(dev, fs). wf_file dev fs \<and> mem_ok dev \<and> wf_width dev" "\<lambda>cid. cid \<le> 0xFFFFF"
  "\<lambda>(dev, fs). chunk_of dev fs" map_chunk "\<lambda>(dev, fs). group_of dev"
proof unfold_locales
  fix s :: "'a yaffs_Device \<times> yaffs_FileStructure" and k :: u32 and v :: u32
  obtain dev fs where s: "s = (dev, fs)" by fastforce
  assume "case s of (dev, fs) \<Rightarrow> wf_file dev fs \<and> mem_ok dev \<and> wf_width dev" and k: "k \<le> 0xFFFFF"
  then have w: "wf_file dev fs" "mem_ok dev" "wf_width dev" by (simp_all add: s)
  obtain dev' fs' where m: "map_chunk (dev, fs) k v = Some (dev', fs')" "tn_view dev' = tn_view dev" "wf_file dev fs'"
    "chunk_of dev fs' = (chunk_of dev fs)(k := group_of dev v)"
    using map_chunk_ok [OF w k] by blast
  have c: "group_of dev' = group_of dev" "chunk_of dev' = chunk_of dev" "wf_file dev' fs' = wf_file dev fs'" "mem_ok dev' = mem_ok dev" "wf_width dev' = wf_width dev"
    by (simp_all only: fun_eq_iff group_of_def chunk_of_def entry_of_def wf_file_def tn_view_cong [OF m(2)] simp_thms)
  then show "\<exists>s'. map_chunk s k v = Some s' \<and> (case s' of (dev, fs) \<Rightarrow> wf_file dev fs \<and> mem_ok dev \<and> wf_width dev) \<and>
     (case s' of (dev, fs) \<Rightarrow> group_of dev) = (case s of (dev, fs) \<Rightarrow> group_of dev) \<and>
     (case s' of (dev, fs) \<Rightarrow> chunk_of dev fs) = (case s of (dev, fs) \<Rightarrow> chunk_of dev fs)(k := (case s of (dev, fs) \<Rightarrow> group_of dev) v)"
    using m w by (simp add: s)
qed

subsection \<open>Properties\<close>

text \<open>A device with 20-bit tnode entries and an empty file, for the concrete instances.\<close>

definition sample_wide :: "unit yaffs_Device \<Rightarrow> unit yaffs_Device" where
  "sample_wide dev = dev\<lparr>tnodeWidth := 20, tnodeMask := 0xFFFFF, chunkGroupBits := 0, ymalloc_result := (\<lambda>n. n + 1)\<rparr>"

definition sample_file :: "unit yaffs_Device \<Rightarrow> yaffs_FileStructure" where
  "sample_file dev = \<lparr>fileSize = 0, scannedFileSize = 0, shrinkSize = 0, topLevel = 0, top_tnode = Some (empty_level0 (sample_wide dev))\<rparr>"

lemma sample_wide_ok: "wf_width (sample_wide dev)" "mem_ok (sample_wide dev)" "wf_file (sample_wide dev) (sample_file dev)"
proof -
  show w: "wf_width (sample_wide dev)" by (simp add: wf_width_def width_def sample_wide_def mask_eq_exp_minus_1)
  show "mem_ok (sample_wide dev)" by (simp add: mem_ok_def sample_wide_def)
  show "wf_file (sample_wide dev) (sample_file dev)" using wf_empty0 [OF w] by (simp add: wf_file_def sample_file_def)
qed

text \<open>
  An entry written into a level-0 tnode is read back, cut to the width of an entry and to the start of
  its chunk group, and no other entry changes, although entries straddle word boundaries.
\<close>

theorem Level0_put_get:
  assumes "wf_width dev" and "wf_level0 dev m"
  shows "\<exists>m'. yaffs_PutLevel0Tnode dev m pos val = Some m' \<and> wf_level0 dev m' \<and>
    (\<forall>pos'. yaffs_GetChunkGroupBase dev m' pos' = (if slot pos' = slot pos then Some (group_of dev val) else yaffs_GetChunkGroupBase dev m pos'))"
  unfolding group_of_def by (rule Get_Put_level0 [OF assms])

theorem Level0_put_get_witness:
  "\<forall>dev. \<exists>m'. yaffs_PutLevel0Tnode (sample_wide dev) (replicate 10 0) 1 0x12345 = Some m' \<and>
     yaffs_GetChunkGroupBase (sample_wide dev) m' 1 = Some 0x12345"
proof
  fix dev
  have "wf_level0 (sample_wide dev) (replicate 10 0)" by (simp add: wf_level0_def width_def sample_wide_def)
  moreover have "group_of (sample_wide dev) 0x12345 = 0x12345" by (simp add: group_of_def width_def sample_wide_def)
  ultimately show "\<exists>m'. yaffs_PutLevel0Tnode (sample_wide dev) (replicate 10 0) 1 0x12345 = Some m' \<and>
     yaffs_GetChunkGroupBase (sample_wide dev) m' 1 = Some 0x12345"
    using Level0_put_get [OF sample_wide_ok(1), of dev "replicate 10 0" 1 "0x12345"] by metis
qed

text \<open>
  C2. The tnode tree implements a map from the chunk numbers of a file to NAND chunks: whatever sequence of
  chunks is entered, in any order, every one is accepted, the tree grows as needed, and looking a chunk up
  finds what was entered last.
\<close>

theorem tnode_tree_refines_map:
  assumes "wf_file dev fs" and "mem_ok dev" and "wf_width dev" and "\<forall>e \<in> set es. fst e \<le> 0xFFFFF"
  shows "\<exists>dev' fs'. tnodes.puts (dev, fs) es = Some (dev', fs') \<and> wf_file dev' fs' \<and>
    chunk_of dev' fs' = foldl (\<lambda>m e. m(fst e := group_of dev (snd e))) (chunk_of dev fs) es"
  using tnodes.puts_law [of "(dev, fs)" es] assms by auto

theorem tnode_tree_refines_map_witness:
  "\<forall>dev. \<exists>dev' fs'. tnodes.puts (sample_wide dev, sample_file dev) [(70000, 5), (1, 6), (70000, 7)] = Some (dev', fs') \<and>
     chunk_of dev' fs' 70000 = 7 \<and> chunk_of dev' fs' 1 = 6"
proof
  fix dev
  have "group_of (sample_wide dev) 7 = 7" "group_of (sample_wide dev) 6 = 6" by (simp_all add: group_of_def width_def sample_wide_def)
  then show "\<exists>dev' fs'. tnodes.puts (sample_wide dev, sample_file dev) [(70000, 5), (1, 6), (70000, 7)] = Some (dev', fs') \<and>
     chunk_of dev' fs' 70000 = 7 \<and> chunk_of dev' fs' 1 = 6"
    using tnode_tree_refines_map [OF sample_wide_ok(3,2,1), of "[(70000, 5), (1, 6), (70000, 7)]" dev] by fastforce
qed

end
