(* ===== verification/TnodePrune.thy ===== *)
theory TnodePrune
  imports TnodeMap
begin

section \<open>Pruning\<close>

text \<open>
  \<open>yaffs_PruneFileStructure\<close> removes the tnodes that hold no chunk and lowers the tree.  With 16-bit
  entries no chunk gets lost; with wider ones the test for an empty level-0 tnode misses the entries
  beyond the first eight words.
\<close>

text \<open>The leftmost branch of a tree always exists: a file starts with one level-0 tnode, and the tree grows above it.\<close>

fun spine :: "nat \<Rightarrow> yaffs_Tnode option \<Rightarrow> bool" where
  "spine 0 t \<longleftrightarrow> t \<noteq> None"
| "spine (Suc l) (Some (Internal (c # cs))) \<longleftrightarrow> spine l c"
| "spine (Suc l) _ \<longleftrightarrow> False"

lemma spine_not_None: "spine l t \<Longrightarrow> t \<noteq> None"
  by (cases l; cases t) auto

text \<open>Two trees with the same entries.\<close>

definition same_entries :: "'n yaffs_Device \<Rightarrow> nat \<Rightarrow> yaffs_Tnode option \<Rightarrow> yaffs_Tnode option \<Rightarrow> bool" where
  "same_entries dev l t t' \<longleftrightarrow> (\<forall>d. entry_of dev (find_loop l d t') d = entry_of dev (find_loop l d t) d)"

lemma same_entries_refl [simp]: "same_entries dev l t t"
  by (simp add: same_entries_def)

lemma entry_of_None [simp]: "entry_of dev (Some None) d = 0"
  by (simp add: entry_of_def)

lemma tn_view_FreeTnode [simp]: "tn_view (yaffs_FreeTnode dev t) = tn_view dev"
  by (simp add: yaffs_FreeTnode_def tn_view_def split: option.splits)

lemma same_entries_cong:
  assumes "tn_view dev' = tn_view dev" shows "same_entries dev' l t t' = same_entries dev l t t'"
  by (simp only: same_entries_def entry_of_def tn_view_cong(6) [OF assms])

subsection \<open>The worker\<close>

definition prunes :: "'n yaffs_Device \<Rightarrow> nat \<Rightarrow> yaffs_Tnode option \<Rightarrow> bool \<Rightarrow> yaffs_Tnode option \<Rightarrow> 'n yaffs_Device \<Rightarrow> bool" where
  "prunes dev l t del0 t' dev' \<longleftrightarrow> tn_view dev' = tn_view dev \<and> wf_tree dev l t' \<and> same_entries dev l t t' \<and>
     (\<not> del0 \<longrightarrow> spine l t \<longrightarrow> spine l t')"

lemma prune_children_ok:
  fixes dev :: "'n yaffs_Device"
  assumes worker: "\<And>dev c del0. tn_view dev = v \<Longrightarrow> wf_tree dev l c \<Longrightarrow> \<exists>c' dev'. worker c del0 dev = Some (c', dev') \<and> prunes dev l c del0 c' dev'"
    and "tn_view dev = v" "\<And>c. c \<in> set cs \<Longrightarrow> wf_tree dev l c"
  shows "\<exists>cs' dev'. prune_children worker del0 cs dev = Some (cs', dev') \<and> length cs' = length cs \<and> tn_view dev' = v \<and>
    (\<forall>i < length cs. \<exists>(a :: 'n yaffs_Device) b. prunes a l (cs ! i) (i \<noteq> 0 \<or> del0) (cs' ! i) b \<and> tn_view a = v)"
  using assms(2,3)
proof (induction cs arbitrary: dev del0)
  case Nil
  then show ?case by simp
next
  case (Cons c cs)
  obtain c' a where c: "(if c \<noteq> None then worker c del0 dev else Some (None, dev)) = Some (c', a)" "prunes dev l c del0 c' a"
  proof (cases "c = None")
    case True
    have "\<not> spine l None" using spine_not_None by blast
    then show thesis using True that [of None dev] by (simp add: prunes_def)
  next
    case False
    then show thesis using worker [OF Cons.prems(1), of c del0] Cons.prems(2) that by auto
  qed
  then have va: "tn_view a = v" using Cons.prems(1) by (simp add: prunes_def)
  have wf: "wf_tree a l x" if "x \<in> set cs" for x
    using Cons.prems that tn_view_cong(4) [of a dev] va by simp
  have "\<exists>cs' b. prune_children worker True cs a = Some (cs', b) \<and> length cs' = length cs \<and> tn_view b = v \<and>
      (\<forall>i < length cs. \<exists>(a :: 'n yaffs_Device) b. prunes a l (cs ! i) (i \<noteq> 0 \<or> True) (cs' ! i) b \<and> tn_view a = v)"
    by (rule Cons.IH [OF va]) (rule wf)
  then obtain cs' b where
    cs: "prune_children worker True cs a = Some (cs', b)" "length cs' = length cs" "tn_view b = v"
      "\<forall>i < length cs. \<exists>(a :: 'n yaffs_Device) b. prunes a l (cs ! i) True (cs' ! i) b \<and> tn_view a = v"
    unfolding simp_thms by blast
  have "\<exists>(x :: 'n yaffs_Device) y. prunes x l ((c # cs) ! i) (i \<noteq> 0 \<or> del0) ((c' # cs') ! i) y \<and> tn_view x = v" if "i < length (c # cs)" for i
    using that c(2) cs(4) Cons.prems(1) by (cases i) auto
  moreover have "prune_children worker del0 (c # cs) dev = Some (c' # cs', b)" using c(1) cs(1) by simp
  ultimately show ?case using cs(2,3) by (metis length_Cons)
qed

lemma narrow_empty:
  assumes "width dev = 16" "wf_width dev" "wf_level0 dev m" "list_all (\<lambda>w. w = 0) (take 8 m)"
  shows "yaffs_GetChunkGroupBase dev m d = Some 0"
proof -
  have "length m = 8" using assms(1,3) by (simp add: wf_level0_def)
  then have "m = replicate 8 0" using assms(4) by (simp add: list_all_iff) (metis replicate_eqI)
  then have "Level0 m = empty_level0 dev" using assms(1) by (simp add: empty_level0_def width_def)
  then show ?thesis by (rule empty_entry [OF assms(2)])
qed

lemma PruneWorker_ok:
  fixes dev :: "'n yaffs_Device"
  assumes "width dev = 16" "wf_width dev" "wf_tree dev l t"
  shows "\<exists>t' dev'. yaffs_PruneWorker l t del0 dev = Some (t', dev') \<and> prunes dev l t del0 t' dev'"
  using assms
proof (induction l arbitrary: t del0 dev)
  case 0
  show ?case
  proof (cases t)
    case (Some x)
    then obtain m where x: "x = Level0 m" "wf_level0 dev m" using "0.prems"(3) by (cases x) auto
    then have len: "length m = 8" using "0.prems"(1) by (simp add: wf_level0_def)
    show ?thesis
    proof (cases "list_all (\<lambda>w. w = 0) (take 8 m) \<and> del0")
      case True
      then have "same_entries dev 0 t None"
        using narrow_empty [OF "0.prems"(1,2) x(2)] Some x(1) by (simp add: same_entries_def entry_of_def)
      then show ?thesis using True Some x(1) len by (simp add: prunes_def)
    next
      case False
      then show ?thesis using Some x len by (auto simp: prunes_def)
    qed
  qed (simp add: prunes_def)
next
  case (Suc l)
  from Suc.prems(3) show ?case
  proof (cases rule: wf_tree_SucE)
    case 1
    then show ?thesis by (simp add: prunes_def)
  next
    case (2 ch)
    have w: "width a = 16" "wf_width a" if "tn_view a = tn_view dev" for a :: "'n yaffs_Device"
      using Suc.prems(1,2) by (simp_all only: tn_view_cong(1,2) [OF that])
    obtain ch' a where ch: "prune_children (yaffs_PruneWorker l) del0 ch dev = Some (ch', a)" "length ch' = 8" "tn_view a = tn_view dev"
      and each: "\<forall>i < length ch. \<exists>(x :: 'n yaffs_Device) y. prunes x l (ch ! i) (i \<noteq> 0 \<or> del0) (ch' ! i) y \<and> tn_view x = tn_view dev"
      using prune_children_ok [of "tn_view dev" l "yaffs_PruneWorker l" dev ch del0] Suc.IH w Suc.prems(3) 2(1,2) by auto
    have child: "wf_tree dev l (ch' ! i)" "same_entries dev l (ch ! i) (ch' ! i)" "i = 0 \<and> \<not> del0 \<longrightarrow> spine l (ch ! i) \<longrightarrow> spine l (ch' ! i)" if i: "i < 8" for i
    proof -
      have "i < length ch" using i 2(2) by simp
      with each obtain x y :: "'n yaffs_Device" where p: "prunes x l (ch ! i) (i \<noteq> 0 \<or> del0) (ch' ! i) y" "tn_view x = tn_view dev" by blast
      then show "wf_tree dev l (ch' ! i)" "same_entries dev l (ch ! i) (ch' ! i)" "i = 0 \<and> \<not> del0 \<longrightarrow> spine l (ch ! i) \<longrightarrow> spine l (ch' ! i)"
        by (simp_all add: prunes_def tn_view_cong(4) [OF p(2)] same_entries_cong [OF p(2)])
    qed
    have wf: "wf_tree dev (Suc l) (Some (Internal ch'))" using child(1) ch(2) by (auto simp: in_set_conv_nth)
    have eq: "same_entries dev (Suc l) t (Some (Internal ch'))" using child(2) 2(1,2) ch(2) by (simp add: same_entries_def)
    have sp: "spine (Suc l) (Some (Internal ch'))" if "spine (Suc l) t" "\<not> del0"
      using child(3) [of 0] that 2(1,2) ch(2) by (cases ch; cases ch') auto
    show ?thesis
    proof (cases "list_all (\<lambda>c. c = None) ch' \<and> del0")
      case True
      then have "ch' ! i = None" if "i < 8" for i using that ch(2) by (simp add: list_all_length)
      then have "same_entries dev (Suc l) t None" using eq ch(2) by (simp add: same_entries_def)
      then show ?thesis using True 2(1,2) ch by (simp add: prunes_def)
    next
      case False
      then show ?thesis using 2(1,2) ch wf eq sp by (auto simp: prunes_def)
    qed
  qed
qed

subsection \<open>Lowering the tree\<close>

lemma shorten_loop_ok:
  assumes "wf_tree dev l t" "spine l t"
  shows "\<exists>l' t' dev'. shorten_loop l t dev = Some (l', t', dev') \<and> tn_view dev' = tn_view dev \<and> l' \<le> l \<and> wf_tree dev l' t' \<and> spine l' t' \<and>
    (\<forall>d. drop_bit (4 + 3 * l) d = 0 \<longrightarrow> find_loop l d t = (if drop_bit (4 + 3 * l') d = 0 then find_loop l' d t' else Some None))"
  using assms
proof (induction l arbitrary: t dev)
  case 0
  then show ?case by simp
next
  case (Suc l)
  from Suc.prems(1) spine_not_None [OF Suc.prems(2)] obtain ch where t: "t = Some (Internal ch)" "length ch = 8" "\<And>i. i < 8 \<Longrightarrow> wf_tree dev l (ch ! i)"
    by (cases rule: wf_tree_SucE) auto
  from t(2) obtain c cs where ch: "ch = c # cs" "length cs = 7" by (cases ch) auto
  show ?case
  proof (cases "list_all (\<lambda>c. c = None) cs")
    case True
    then have cs: "cs = replicate 7 None" using ch(2) by (intro replicate_eqI) (auto simp: list_all_iff)
    let ?a = "yaffs_FreeTnode dev t"
    have wa: "wf_tree ?a = wf_tree dev" by (rule tn_view_cong(4)) simp
    have pre: "wf_tree ?a l c" "spine l c" unfolding wa using t(3) [of 0] Suc.prems(2) t(1) ch(1) by simp_all
    obtain l' t' dev' where IH: "shorten_loop l c ?a = Some (l', t', dev')" "tn_view dev' = tn_view ?a" "l' \<le> l" "wf_tree ?a l' t'" "spine l' t'"
      "\<forall>d. drop_bit (4 + 3 * l) d = 0 \<longrightarrow> find_loop l d c = (if drop_bit (4 + 3 * l') d = 0 then find_loop l' d t' else Some None)"
      using Suc.IH [OF pre] by blast
    have "find_loop (Suc l) d t = (if drop_bit (4 + 3 * l') d = 0 then find_loop l' d t' else Some None)"
      if d: "drop_bit (4 + 3 * Suc l) d = 0" for d
    proof -
      have "drop_bit (4 + 3 * l) d = 0" if "drop_bit (4 + 3 * l') d = 0" using that IH(3) by (simp add: drop_zero_iff)
      then show ?thesis using grow_step(2) [OF d, of c] IH(6) unfolding t(1) ch(1) cs by (simp del: find_loop.simps)
    qed
    moreover have "shorten_loop (Suc l) t dev = Some (l', t', dev')" using IH(1) True t(1,2) ch(1) by simp
    moreover have "tn_view dev' = tn_view dev" "l' \<le> Suc l" using IH(2,3) by simp_all
    moreover have "wf_tree dev l' t'" using IH(4) unfolding wa .
    ultimately show ?thesis using IH(5) by (intro exI [of _ l'] exI [of _ t'] exI [of _ dev'] conjI allI impI)
  next
    case False
    then show ?thesis using t(1,2) ch(1) Suc.prems by simp
  qed
qed

subsection \<open>Properties\<close>

text \<open>
  C27. Pruning a file with 16-bit tnode entries always succeeds, keeps the tree well formed and never makes
  it taller, and every look-up finds what it found before.
\<close>

theorem prune_keeps_chunks:
  assumes "wf_width dev" and "width dev = 16" and "wf_file dev fs" and "spine (nat (topLevel fs)) (top_tnode fs)"
  shows "\<exists>fs' dev'. yaffs_PruneFileStructure dev fs = Some (fs', dev') \<and> wf_file dev fs' \<and> topLevel fs' \<le> topLevel fs \<and>
    chunk_of dev fs' = chunk_of dev fs"
proof (cases "topLevel fs > 0")
  case True
  let ?l = "nat (topLevel fs)"
  have f: "0 \<le> topLevel fs" "topLevel fs \<le> 6" "wf_tree dev ?l (top_tnode fs)" using assms(3) by (auto simp: wf_file_def)
  obtain t a where p: "yaffs_PruneWorker ?l (top_tnode fs) False dev = Some (t, a)" "prunes dev ?l (top_tnode fs) False t a"
    using PruneWorker_ok [OF assms(2,1) f(3)] by blast
  have va: "tn_view a = tn_view dev" "wf_tree dev ?l t" "same_entries dev ?l (top_tnode fs) t" "spine ?l t" using p(2) assms(4) by (auto simp: prunes_def)
  have "wf_tree a ?l t" using va(2) by (simp only: tn_view_cong(4) [OF va(1)])
  from shorten_loop_ok [OF this va(4)] obtain l' t' dev' where
    s: "shorten_loop ?l t a = Some (l', t', dev')" "l' \<le> ?l" "wf_tree dev l' t'" "spine l' t'"
      "\<And>d. drop_bit (4 + 3 * ?l) d = 0 \<Longrightarrow> find_loop ?l d t = (if drop_bit (4 + 3 * l') d = 0 then find_loop l' d t' else Some None)"
    unfolding tn_view_cong(4) [OF va(1)] by blast
  let ?fs = "fs\<lparr>top_tnode := t', topLevel := int l'\<rparr>"
  have "chunk_of dev ?fs d = chunk_of dev fs d" for d
  proof -
    have "drop_bit (4 + 3 * ?l) d = 0" if "drop_bit (4 + 3 * l') d = 0" using that s(2) by (simp add: drop_zero_iff)
    then have "yaffs_FindLevel0Tnode ?fs d = (if d \<le> 0xFFFFF \<and> drop_bit (4 + 3 * ?l) d = 0 then find_loop ?l d t else Some None)"
      using Find_eq [of ?fs d] s(2,5) f(2) by auto
    then show ?thesis using Find_eq [OF f(1,2), of d] va(3) by (simp add: chunk_of_def same_entries_def)
  qed
  moreover have "wf_file dev ?fs" using s(2-4) f(2) spine_not_None by (auto simp: wf_file_def)
  ultimately show ?thesis using True p(1) s(1,2) by (auto simp: yaffs_PruneFileStructure_def)
next
  case False
  then show ?thesis using assms(3) by (simp add: yaffs_PruneFileStructure_def)
qed

definition sample_narrow :: "unit yaffs_Device \<Rightarrow> unit yaffs_Device" where
  "sample_narrow dev = dev\<lparr>tnodeWidth := 16, tnodeMask := 0xFFFF, chunkGroupBits := 0\<rparr>"

definition sample_tall :: yaffs_FileStructure where
  "sample_tall = \<lparr>fileSize = 0, scannedFileSize = 0, shrinkSize = 0, topLevel = 1,
     top_tnode = Some (Internal [Some (Level0 [7, 0, 0, 0, 0, 0, 0, 0]), Some (Level0 (replicate 8 0)), None, None, None, None, None, None])\<rparr>"

theorem prune_keeps_chunks_witness:
  "\<forall>dev. \<exists>fs' dev'. yaffs_PruneFileStructure (sample_narrow dev) sample_tall = Some (fs', dev') \<and> topLevel fs' \<le> 1 \<and>
     chunk_of (sample_narrow dev) fs' = chunk_of (sample_narrow dev) sample_tall"
proof
  fix dev
  have w: "width (sample_narrow dev) = 16" by (simp add: width_def sample_narrow_def)
  then have "wf_width (sample_narrow dev)" "wf_file (sample_narrow dev) sample_tall" "spine (nat (topLevel sample_tall)) (top_tnode sample_tall)"
    by (simp_all add: wf_width_def wf_file_def wf_level0_def sample_tall_def sample_narrow_def mask_eq_exp_minus_1)
  from prune_keeps_chunks [OF this(1) w this(2,3)] show "\<exists>fs' dev'. yaffs_PruneFileStructure (sample_narrow dev) sample_tall = Some (fs', dev') \<and>
     topLevel fs' \<le> 1 \<and> chunk_of (sample_narrow dev) fs' = chunk_of (sample_narrow dev) sample_tall" by (auto simp: sample_tall_def)
qed

text \<open>A file on a device with 20-bit entries whose only chunk is the last one of the second level-0 tnode, and an unused first tnode.\<close>

definition sample_sparse :: yaffs_FileStructure where
  "sample_sparse = \<lparr>fileSize = 0, scannedFileSize = 0, shrinkSize = 0, topLevel = 1,
     top_tnode = Some (Internal [Some (Level0 (replicate 10 0)), Some (Level0 [0, 0, 0, 0, 0, 0, 0, 0, 0, 0x5000]), None, None, None, None, None, None])\<rparr>"

text \<open>
  C33. With tnode entries wider than 16 bits pruning loses chunks: only the first eight words of a level-0
  tnode are looked at, so a tnode whose chunks lie beyond them is freed.  Here chunk 31 of the file is in
  NAND chunk 5 before the pruning and nowhere after it.
\<close>

theorem prune_loses_wide_entry:
  "\<forall>dev. wf_file (sample_wide dev) sample_sparse \<and> chunk_of (sample_wide dev) sample_sparse 31 = 5 \<and>
     (\<exists>fs' dev'. yaffs_PruneFileStructure (sample_wide dev) sample_sparse = Some (fs', dev') \<and> chunk_of (sample_wide dev) fs' 31 = 0)"
proof
  fix dev
  let ?d = "sample_wide dev"
  have t: "requiredTallness 31 = 1" by (simp add: requiredTallness_def tallness_loop.simps)
  have i: "child_index (Suc 0) 31 = 1" by (simp add: child_index_def)
  have "wf_file ?d sample_sparse" by (simp add: wf_file_def sample_sparse_def wf_level0_def width_def sample_wide_def)
  moreover have "chunk_of ?d sample_sparse 31 = 5"
    by (simp add: chunk_of_def entry_of_def yaffs_FindLevel0Tnode_def t i sample_sparse_def yaffs_GetChunkGroupBase_def sample_wide_def Let_def)
  moreover have "yaffs_PruneFileStructure ?d sample_sparse =
      Some (sample_sparse\<lparr>top_tnode := Some (Level0 (replicate 10 0)), topLevel := 0\<rparr>,
            yaffs_FreeTnode (yaffs_FreeTnode ?d (Some empty_internal)) (Some empty_internal))"
    by (simp add: yaffs_PruneFileStructure_def sample_sparse_def numeral_eq_Suc yaffs_FreeTnode_def)
  moreover have "chunk_of ?d (sample_sparse\<lparr>top_tnode := Some (Level0 (replicate 10 0)), topLevel := 0\<rparr>) 31 = 0"
    by (simp add: chunk_of_def entry_of_def yaffs_FindLevel0Tnode_def t)
  ultimately show "wf_file ?d sample_sparse \<and> chunk_of ?d sample_sparse 31 = 5 \<and>
     (\<exists>fs' dev'. yaffs_PruneFileStructure ?d sample_sparse = Some (fs', dev') \<and> chunk_of ?d fs' 31 = 0)" by blast
qed

end
