(* ===== verification/WriteLoop.thy ===== *)
theory WriteLoop
  imports BlockOps
begin

section \<open>Writing a chunk: the retry loop ends\<close>

text \<open>
  \<open>yaffs_WriteNewChunkWithTagsToNAND\<close> keeps allocating chunks until one is written or the number of attempts
  is used up.  A chunk of a block that is marked for collection is given back without counting an attempt,
  so the number of attempts alone does not bound the loop: the pages that such blocks still have to
  offer do (\<open>skip_pages\<close>).
\<close>

subsection \<open>What the operations leave alone\<close>

definition io_view :: "'n yaffs_Device \<Rightarrow> _" where
  "io_view dev = (isYaffs2 dev, eraseBlockInNAND dev, markNANDBlockBad dev, readChunkWithTagsFromNAND dev,
     writeChunkWithTagsToNAND dev, nDataBytesPerChunk dev, tempBuffer dev, chunkOffset dev, nChunksPerBlock dev)"

lemma io_view_set_block_info [simp]: "io_view (set_block_info dev b bi) = io_view dev"
  by (simp add: io_view_def set_block_info_def split: option.splits)

lemma io_view_upd [simp]:
  "io_view (dev\<lparr>genericDevice := n\<rparr>) = io_view dev" "io_view (dev\<lparr>nErasedBlocks := i\<rparr>) = io_view dev"
  "io_view (dev\<lparr>nFreeChunks := i\<rparr>) = io_view dev" "io_view (dev\<lparr>allocationBlock := i\<rparr>) = io_view dev"
  "io_view (dev\<lparr>allocationPage := p\<rparr>) = io_view dev" "io_view (dev\<lparr>chunkBits := bs\<rparr>) = io_view dev"
  "io_view (dev\<lparr>allocationBlockFinder := i\<rparr>) = io_view dev" "io_view (dev\<lparr>dev_sequenceNumber := q\<rparr>) = io_view dev"
  "io_view (dev\<lparr>isCheckpointed := b\<rparr>) = io_view dev" "io_view (dev\<lparr>blocksInCheckpoint := i\<rparr>) = io_view dev"
  "io_view (dev\<lparr>superBlockDirty := b\<rparr>) = io_view dev" "io_view (dev\<lparr>nDeletions := i\<rparr>) = io_view dev"
  "io_view (dev\<lparr>nUnmarkedDeletions := i\<rparr>) = io_view dev" "io_view (dev\<lparr>nBlockErasures := i\<rparr>) = io_view dev"
  "io_view (dev\<lparr>nErasureFailures := i\<rparr>) = io_view dev" "io_view (dev\<lparr>nRetiredBlocks := i\<rparr>) = io_view dev"
  "io_view (dev\<lparr>hasPendingPrioritisedGCs := b\<rparr>) = io_view dev" "io_view (dev\<lparr>nRetriedWrites := i\<rparr>) = io_view dev"
  by (simp_all add: io_view_def)

named_theorems io "operations that keep the driver and the working buffers"

lemmas bind_Some = bind_eq_Some_conv

lemma ChunkBit_io [io]:
  "yaffs_SetChunkBit dev b c = Some dev' \<Longrightarrow> io_view dev' = io_view dev"
  "yaffs_ClearChunkBit dev b c = Some dev' \<Longrightarrow> io_view dev' = io_view dev"
  "yaffs_ClearChunkBits dev b = Some dev' \<Longrightarrow> io_view dev' = io_view dev"
  by (auto simp: yaffs_SetChunkBit_def yaffs_ClearChunkBit_def yaffs_ClearChunkBits_def Let_def bind_Some split: if_splits)

lemma CheckpointErase_loop_io: "CheckpointErase_loop is dev = Some dev' \<Longrightarrow> io_view dev' = io_view dev"
proof (induction "is" arbitrary: dev)
  case (Cons i "is")
  from Cons.prems show ?case
    by (auto simp: bind_Some Let_def case_prod_beta split: if_splits dest!: Cons.IH)
qed simp

lemma InvalidateCheckpoint_io [io]: "yaffs_InvalidateCheckpoint dev = Some dev' \<Longrightarrow> io_view dev' = io_view dev"
  by (auto simp: yaffs_InvalidateCheckpoint_def yaffs_CheckpointInvalidateStream_def yaffs_CheckpointErase_def bind_Some
      split: if_splits dest!: CheckpointErase_loop_io)

lemma RetireBlock_io [io]:
  assumes "yaffs_RetireBlock dev b = Some dev'" "markNANDBlockBad dev \<noteq> None"
  shows "io_view dev' = io_view dev"
proof -
  obtain a where a: "yaffs_InvalidateCheckpoint dev = Some a" using assms(1) by (auto simp: yaffs_RetireBlock_def bind_Some)
  then have "markNANDBlockBad a \<noteq> None" using InvalidateCheckpoint_io [OF a] assms(2) by (simp add: io_view_def)
  with assms(1) a show ?thesis
    using InvalidateCheckpoint_io [OF a] by (auto simp: yaffs_RetireBlock_def bind_Some yaffs_MarkBlockBad_def Let_def split: prod.splits)
qed

text \<open>What the first half of \<open>yaffs_BlockBecameDirty\<close> does: the block is dirty, and erased if it may be.\<close>

definition try_erase :: "'n yaffs_Device \<Rightarrow> int \<Rightarrow> bool \<Rightarrow> (bool \<times> 'n yaffs_Device) option" where
  "try_erase dev blockNo retire =
     (if \<not> retire then do {
        dev \<leftarrow> yaffs_InvalidateCheckpoint dev;
        (r, dev) \<leftarrow> yaffs_EraseBlockInNAND dev blockNo;
        Some (r \<noteq> 0, if r = 0 then dev\<lparr>nErasureFailures := nErasureFailures dev + 1\<rparr> else dev) }
      else Some (False, dev))"

lemma BlockBecameDirty_cases:
  assumes "yaffs_BlockBecameDirty cfg dev b = Some dev'" "\<not> cfg_verify_erase cfg"
  obtains bi d where "yaffs_GetBlockInfo dev b = Some bi"
      "try_erase (set_block_info dev b (bi\<lparr>blockState := YAFFS_BLOCK_STATE_DIRTY\<rparr>)) b (needsRetiring bi) = Some (False, d)"
      "yaffs_RetireBlock (d\<lparr>nFreeChunks := nFreeChunks d - nChunksPerBlock d\<rparr>) b = Some dev'"
  | bi d ci where "yaffs_GetBlockInfo dev b = Some bi"
      "try_erase (set_block_info dev b (bi\<lparr>blockState := YAFFS_BLOCK_STATE_DIRTY\<rparr>)) b (needsRetiring bi) = Some (True, d)"
      "yaffs_GetBlockInfo d b = Some ci"
      "yaffs_ClearChunkBits ((set_block_info d b (ci\<lparr>blockState := YAFFS_BLOCK_STATE_EMPTY, pagesInUse := 0, softDeletions := 0,
          hasShrinkHeader := False, skipErasedCheck := True, gcPrioritise := False\<rparr>))\<lparr>nErasedBlocks := nErasedBlocks d + 1\<rparr>) b = Some dev'"
proof -
  obtain bi where bi: "yaffs_GetBlockInfo dev b = Some bi"
    using assms(1) by (auto simp: yaffs_BlockBecameDirty_def bind_Some)
  let ?d = "set_block_info dev b (bi\<lparr>blockState := YAFFS_BLOCK_STATE_DIRTY\<rparr>)"
  note run = assms(1) [unfolded yaffs_BlockBecameDirty_def Let_def bi Option.bind.simps try_erase_def [symmetric]]
  obtain e d where e: "try_erase ?d b (needsRetiring bi) = Some (e, d)" using run by (cases "try_erase ?d b (needsRetiring bi)") auto
  show thesis
  proof (cases e)
    case True
    from run [unfolded e] assms(2) True obtain ci where ci: "yaffs_GetBlockInfo d b = Some ci" by (cases "yaffs_GetBlockInfo d b") simp_all
    show thesis by (rule that(2) [OF bi _ ci]) (use run [unfolded e] e True assms(2) ci in simp_all)
  next
    case False
    show thesis by (rule that(1) [OF bi]) (use run [unfolded e] assms(2) e False in simp_all)
  qed
qed

lemma try_erase_io [io]: "try_erase dev b r = Some (e, dev') \<Longrightarrow> io_view dev' = io_view dev"
  by (cases "yaffs_InvalidateCheckpoint dev"; cases "eraseBlockInNAND (the (yaffs_InvalidateCheckpoint dev))")
    (auto simp: try_erase_def yaffs_EraseBlockInNAND_def Let_def case_prod_beta split: if_splits dest: InvalidateCheckpoint_io)

lemma BlockBecameDirty_io [io]:
  assumes run: "yaffs_BlockBecameDirty cfg dev b = Some dev'" and m: "markNANDBlockBad dev \<noteq> None" and cfg: "\<not> cfg_verify_erase cfg"
  shows "io_view dev' = io_view dev"
  using run cfg
proof (cases rule: BlockBecameDirty_cases)
  case (1 bi d)
  have d: "io_view d = io_view dev" using try_erase_io [OF 1(2)] by simp
  then have "markNANDBlockBad (d\<lparr>nFreeChunks := nFreeChunks d - nChunksPerBlock d\<rparr>) \<noteq> None" using m by (simp add: io_view_def)
  from RetireBlock_io [OF 1(3) this] d show ?thesis by simp
next
  case (2 bi d ci)
  then show ?thesis using try_erase_io [OF 2(2)] ChunkBit_io(3) [OF 2(4)] by simp
qed

text \<open>What deleting a chunk amounts to on a YAFFS2 device.\<close>

lemma DeleteChunk_cases:
  assumes "yaffs_DeleteChunk cfg dev c mark = Some dev'" "isYaffs2 dev"
  defines "b \<equiv> cdiv c (nChunksPerBlock dev)" and "p \<equiv> cmod c (nChunksPerBlock dev)"
    and "d \<equiv> dev\<lparr>nDeletions := nDeletions dev + 1, nUnmarkedDeletions := nUnmarkedDeletions dev + 1\<rparr>"
  obtains "dev' = dev" | "dev' = d"
  | bi e where "yaffs_GetBlockInfo dev b = Some bi" "yaffs_ClearChunkBit (d\<lparr>nFreeChunks := nFreeChunks dev + 1\<rparr>) b p = Some e"
      "dev' = set_block_info e b (bi\<lparr>pagesInUse := int10 (pagesInUse bi - 1)\<rparr>)"
  | bi e where "yaffs_GetBlockInfo dev b = Some bi" "yaffs_ClearChunkBit (d\<lparr>nFreeChunks := nFreeChunks dev + 1\<rparr>) b p = Some e"
      "blockState bi \<noteq> YAFFS_BLOCK_STATE_ALLOCATING"
      "yaffs_BlockBecameDirty cfg (set_block_info e b (bi\<lparr>pagesInUse := int10 (pagesInUse bi - 1)\<rparr>)) b = Some dev'"
proof (cases "c \<le> 0")
  case True
  then show thesis using assms(1) that(1) by (simp add: yaffs_DeleteChunk_def)
next
  case False
  define st where "st = {YAFFS_BLOCK_STATE_ALLOCATING, YAFFS_BLOCK_STATE_FULL, YAFFS_BLOCK_STATE_NEEDS_SCANNING, YAFFS_BLOCK_STATE_COLLECTING}"
  have g: "yaffs_GetBlockInfo (dev\<lparr>nDeletions := nDeletions dev + 1\<rparr>) = yaffs_GetBlockInfo dev" by (rule GetBlockInfo_cong) simp_all
  obtain bi where bi: "yaffs_GetBlockInfo dev b = Some bi" and run: "(if blockState bi \<in> st then do {
          dev \<leftarrow> yaffs_ClearChunkBit (d\<lparr>nFreeChunks := nFreeChunks dev + 1\<rparr>) b p;
          let bi = bi\<lparr>pagesInUse := int10 (pagesInUse bi - 1)\<rparr>;
          let dev = set_block_info dev b bi;
          if pagesInUse bi = 0 \<and> \<not> hasShrinkHeader bi \<and> blockState bi \<noteq> YAFFS_BLOCK_STATE_ALLOCATING \<and>
             blockState bi \<noteq> YAFFS_BLOCK_STATE_NEEDS_SCANNING
          then yaffs_BlockBecameDirty cfg dev b else Some dev } else Some d) = Some dev'"
    using assms(1) False unfolding yaffs_DeleteChunk_def Let_def st_def [symmetric] b_def p_def d_def g
    by (cases "yaffs_GetBlockInfo dev (cdiv c (nChunksPerBlock dev))")
      (simp_all add: assms(2) bind_Some del: cdiv_nonneg cmod_nonneg cong: if_cong)
  show thesis
  proof (cases "blockState bi \<in> st")
    case True
    with run obtain e where e: "yaffs_ClearChunkBit (d\<lparr>nFreeChunks := nFreeChunks dev + 1\<rparr>) b p = Some e"
      by (cases "yaffs_ClearChunkBit (d\<lparr>nFreeChunks := nFreeChunks dev + 1\<rparr>) b p") simp_all
    show thesis
      using run True e by (auto simp: Let_def split: if_splits intro: that(3) [OF bi e] that(4) [OF bi e])
  next
    case False
    then show thesis using run that(2) by simp
  qed
qed

lemma DeleteChunk_io [io]:
  assumes run: "yaffs_DeleteChunk cfg dev c mark = Some dev'" and m: "markNANDBlockBad dev \<noteq> None" "isYaffs2 dev" and cfg: "\<not> cfg_verify_erase cfg"
  shows "io_view dev' = io_view dev"
  using run m(2)
proof (cases rule: DeleteChunk_cases)
  case (4 bi e)
  from ChunkBit_io(2) [OF 4(2)] have ev: "io_view e = io_view dev" by simp
  then have "markNANDBlockBad e \<noteq> None" using m(1) by (simp add: io_view_def)
  then show ?thesis using BlockBecameDirty_io [OF 4(4) _ cfg] ev by simp
qed (auto dest: ChunkBit_io(2))

lemma FindBlock_loop_io: "FindBlockForAllocation_loop n dev = Some (b, dev') \<Longrightarrow> io_view dev' = io_view dev"
proof (induction n arbitrary: dev)
  case (Suc n)
  from Suc.prems show ?case by (auto simp: bind_Some Let_def split: if_splits dest!: Suc.IH)
qed simp

lemma alloc_page_io: "alloc_page dev = Some (c, b, dev') \<Longrightarrow> io_view dev' = io_view dev"
  by (auto simp: alloc_page_def bind_Some Let_def split: if_splits dest!: ChunkBit_io(1))

lemma AllocateChunk_io [io]: "yaffs_AllocateChunk dev u = Some (c, b, dev') \<Longrightarrow> io_view dev' = io_view dev"
  by (auto simp: AllocateChunk_page bind_Some yaffs_FindBlockForAllocation_def split: if_splits dest!: alloc_page_io FindBlock_loop_io)

lemma HandleChunkError_io [io]: "yaffs_HandleChunkError dev b = Some dev' \<Longrightarrow> io_view dev' = io_view dev"
  by (auto simp: yaffs_HandleChunkError_def bind_Some Let_def split: if_splits)

subsection \<open>Blocks whose pages will be skipped\<close>

text \<open>The blocks marked for collection that may still become the allocation block.\<close>

definition waits :: "yaffs_BlockInfo \<Rightarrow> bool" where
  "waits bi \<longleftrightarrow> gcPrioritise bi \<and> blockState bi \<in> {YAFFS_BLOCK_STATE_EMPTY, YAFFS_BLOCK_STATE_CHECKPOINT}"

definition waiting :: "'n yaffs_Device \<Rightarrow> int" where
  "waiting dev = sum_list (map (\<lambda>b. of_bool (waits b)) (blockInfo dev))"

definition pages_left :: "'n yaffs_Device \<Rightarrow> int" where
  "pages_left dev = (if allocationBlock dev < 0 then 0 else nChunksPerBlock dev - uint (allocationPage dev))"

lemma waiting_nonneg: "0 \<le> waiting dev"
  unfolding waiting_def by (rule sum_list_nonneg) auto

lemma waiting_set:
  assumes "yaffs_GetBlockInfo dev b = Some bi"
  shows "waiting (set_block_info dev b bi') = waiting dev - of_bool (waits bi) + of_bool (waits bi')"
proof -
  obtain i where i: "block_index dev b = Some i" "i < length (blockInfo dev)" "blockInfo dev ! i = bi"
    using assms by (rule GetBlockInfo_SomeD)
  then show ?thesis by (simp add: waiting_def set_block_info_def sum_list_update_int)
qed

text \<open>An operation that gives the loop no new pages to skip.\<close>

definition calm :: "'n yaffs_Device \<Rightarrow> 'n yaffs_Device \<Rightarrow> bool" where
  "calm dev dev' \<longleftrightarrow> waiting dev' \<le> waiting dev \<and> nChunksPerBlock dev' = nChunksPerBlock dev \<and>
     allocationBlock dev' = allocationBlock dev \<and> allocationPage dev' = allocationPage dev"

lemma calm_refl: "calm dev dev"
  by (simp add: calm_def)

lemma calm_trans: "calm a b \<Longrightarrow> calm b c \<Longrightarrow> calm a c"
  by (simp add: calm_def)

lemma calmI:
  "blockInfo dev' = blockInfo dev \<Longrightarrow> nChunksPerBlock dev' = nChunksPerBlock dev \<Longrightarrow> allocationBlock dev' = allocationBlock dev \<Longrightarrow>
    allocationPage dev' = allocationPage dev \<Longrightarrow> calm dev dev'"
  by (simp add: calm_def waiting_def)

lemma calm_set:
  assumes "yaffs_GetBlockInfo dev b = Some bi" "waits bi' \<Longrightarrow> waits bi"
  shows "calm dev (set_block_info dev b bi')"
  using assms by (auto simp: calm_def waiting_set)

lemma CheckpointErase_loop_calm: "CheckpointErase_loop is dev = Some dev' \<Longrightarrow> calm dev dev'"
proof (induction "is" arbitrary: dev)
  case (Cons i "is")
  then obtain bi where bi: "yaffs_GetBlockInfo dev i = Some bi" by (cases "yaffs_GetBlockInfo dev i") simp_all
  show ?case
  proof (cases "blockState bi = YAFFS_BLOCK_STATE_CHECKPOINT")
    case True
    have set: "calm dev (set_block_info dev i (bi\<lparr>blockState := st\<rparr>))" for st
      by (rule calm_set [OF bi]) (use True in \<open>simp add: waits_def\<close>)
    obtain f where f: "eraseBlockInNAND dev = Some f" using Cons.prems True bi by (cases "eraseBlockInNAND dev") simp_all
    obtain r n where rn: "f (genericDevice dev) (i - blockOffset dev) = (r, n)" by fastforce
    obtain d st where "CheckpointErase_loop is d = Some dev'" "calm (set_block_info dev i (bi\<lparr>blockState := st\<rparr>)) d"
    proof (cases "r = 0")
      case False
      then have "CheckpointErase_loop is ((set_block_info (dev\<lparr>genericDevice := n\<rparr>) i (bi\<lparr>blockState := YAFFS_BLOCK_STATE_EMPTY\<rparr>))
          \<lparr>nErasedBlocks := nErasedBlocks dev + 1, nFreeChunks := nFreeChunks dev + nChunksPerBlock dev\<rparr>) = Some dev'"
        using Cons.prems True bi f rn by simp
      then show thesis by (rule that) (rule calmI; simp)
    next
      case r: True
      obtain g where "markNANDBlockBad dev = Some g" using Cons.prems True bi f rn r by (cases "markNANDBlockBad dev") simp_all
      then have "CheckpointErase_loop is (set_block_info (dev\<lparr>genericDevice := snd (g n i)\<rparr>) i (bi\<lparr>blockState := YAFFS_BLOCK_STATE_DEAD\<rparr>)) = Some dev'"
        using Cons.prems True bi f rn r by simp
      then show thesis by (rule that) (rule calmI; simp)
    qed
    then show ?thesis using set Cons.IH calm_trans by meson
  qed (use Cons bi in simp)
qed (simp add: calm_refl)

lemma InvalidateCheckpoint_calm:
  assumes "yaffs_InvalidateCheckpoint dev = Some dev'" shows "calm dev dev'"
proof (cases "isCheckpointed dev \<or> blocksInCheckpoint dev > 0")
  case True
  let ?d = "dev\<lparr>isCheckpointed := False\<rparr>"
  obtain r d where d: "yaffs_CheckpointInvalidateStream ?d = Some (r, d)"
    "dev' = (if superBlock d \<and> markSuperBlockDirty d then d\<lparr>superBlockDirty := True\<rparr> else d)"
    using assms True by (auto simp: yaffs_InvalidateCheckpoint_def bind_Some)
  have "calm dev ?d" "calm d dev'" by (rule calmI; simp add: d(2))+
  moreover have "calm ?d d"
  proof (cases "d = ?d")
    case False
    then obtain e where e: "CheckpointErase_loop [internalStartBlock ?d..internalEndBlock ?d] ?d = Some e" "d = e\<lparr>blocksInCheckpoint := 0\<rparr>"
      using d(1) by (auto simp: yaffs_CheckpointInvalidateStream_def yaffs_CheckpointErase_def bind_Some split: if_splits)
    have "calm e d" by (rule calmI) (simp_all add: e(2))
    with CheckpointErase_loop_calm [OF e(1)] show ?thesis by (rule calm_trans)
  qed (simp add: calm_refl)
  ultimately show ?thesis by (blast intro: calm_trans)
qed (use assms in \<open>simp add: yaffs_InvalidateCheckpoint_def calm_refl\<close>)

lemma try_erase_calm:
  assumes "try_erase dev b r = Some (e, dev')" shows "calm dev dev'"
proof (cases r)
  case False
  then obtain d where d: "yaffs_InvalidateCheckpoint dev = Some d"
    using assms by (cases "yaffs_InvalidateCheckpoint dev") (simp_all add: try_erase_def)
  have "calm d dev'"
    using assms False d by (cases "eraseBlockInNAND d")
      (auto simp: try_erase_def yaffs_EraseBlockInNAND_def Let_def case_prod_beta intro!: calmI split: if_splits)
  with InvalidateCheckpoint_calm [OF d] show ?thesis by (blast intro: calm_trans)
qed (use assms in \<open>simp add: try_erase_def calm_refl\<close>)

lemma RetireBlock_calm:
  assumes "yaffs_RetireBlock dev b = Some dev'" "markNANDBlockBad dev \<noteq> None" shows "calm dev dev'"
proof -
  obtain d where d: "yaffs_InvalidateCheckpoint dev = Some d" using assms(1) by (auto simp: yaffs_RetireBlock_def bind_Some)
  then have m: "markNANDBlockBad d \<noteq> None" using InvalidateCheckpoint_io [OF d] assms(2) by (simp add: io_view_def)
  then obtain n bi where e: "yaffs_GetBlockInfo (d\<lparr>genericDevice := n\<rparr>) b = Some bi" and "dev' = (set_block_info (d\<lparr>genericDevice := n\<rparr>) b
      (bi\<lparr>blockState := YAFFS_BLOCK_STATE_DEAD, gcPrioritise := False, needsRetiring := False\<rparr>))\<lparr>nRetiredBlocks := nRetiredBlocks d + 1\<rparr>"
    using assms(1) d by (auto simp: yaffs_RetireBlock_def bind_Some yaffs_MarkBlockBad_def Let_def case_prod_beta simp del: set_block_info_generic)
  then have "calm (set_block_info (d\<lparr>genericDevice := n\<rparr>) b
      (bi\<lparr>blockState := YAFFS_BLOCK_STATE_DEAD, gcPrioritise := False, needsRetiring := False\<rparr>)) dev'" by (intro calmI) simp_all
  moreover have "calm d (d\<lparr>genericDevice := n\<rparr>)" by (rule calmI) simp_all
  moreover note calm_set [OF e, of "bi\<lparr>blockState := YAFFS_BLOCK_STATE_DEAD, gcPrioritise := False, needsRetiring := False\<rparr>"]
    InvalidateCheckpoint_calm [OF d]
  ultimately show ?thesis by (simp add: waits_def calm_def)
qed

lemma ChunkBit_calm:
  "yaffs_ClearChunkBit dev b c = Some dev' \<Longrightarrow> calm dev dev' \<and> blockInfo dev' = blockInfo dev \<and> internalStartBlock dev' = internalStartBlock dev"
  "yaffs_ClearChunkBits dev b = Some dev' \<Longrightarrow> calm dev dev' \<and> blockInfo dev' = blockInfo dev \<and> internalStartBlock dev' = internalStartBlock dev"
  by (auto simp: yaffs_ClearChunkBit_def yaffs_ClearChunkBits_def Let_def bind_Some intro!: calmI split: if_splits)

lemma BlockBecameDirty_calm:
  assumes run: "yaffs_BlockBecameDirty cfg dev b = Some dev'" and m: "markNANDBlockBad dev \<noteq> None" and cfg: "\<not> cfg_verify_erase cfg"
  shows "calm dev dev'"
  using run cfg
proof (cases rule: BlockBecameDirty_cases)
  case (1 bi d)
  let ?e = "d\<lparr>nFreeChunks := nFreeChunks d - nChunksPerBlock d\<rparr>"
  have "io_view ?e = io_view dev" using try_erase_io [OF 1(2)] by simp
  then have "markNANDBlockBad ?e \<noteq> None" using m by (simp add: io_view_def)
  note RetireBlock_calm [OF 1(3) this]
  moreover have "calm d ?e" by (rule calmI) simp_all
  moreover note try_erase_calm [OF 1(2)] calm_set [OF 1(1), of "bi\<lparr>blockState := YAFFS_BLOCK_STATE_DIRTY\<rparr>"]
  ultimately show ?thesis by (simp add: waits_def calm_def)
next
  case (2 bi d ci)
  note try_erase_calm [OF 2(2)] calm_set [OF 2(1), of "bi\<lparr>blockState := YAFFS_BLOCK_STATE_DIRTY\<rparr>"]
  moreover have "calm d (set_block_info d b (ci\<lparr>blockState := YAFFS_BLOCK_STATE_EMPTY, pagesInUse := 0, softDeletions := 0,
          hasShrinkHeader := False, skipErasedCheck := True, gcPrioritise := False\<rparr>))" (is "calm d ?s")
    by (rule calm_set [OF 2(3)]) (simp add: waits_def)
  moreover have "calm ?s (?s\<lparr>nErasedBlocks := nErasedBlocks d + 1\<rparr>)" by (rule calmI) simp_all
  ultimately show ?thesis using ChunkBit_calm(2) [OF 2(4)] by (simp add: waits_def calm_def waiting_def)
qed

lemma DeleteChunk_calm:
  assumes run: "yaffs_DeleteChunk cfg dev c mark = Some dev'" and m: "markNANDBlockBad dev \<noteq> None" "isYaffs2 dev" and cfg: "\<not> cfg_verify_erase cfg"
  shows "calm dev dev'"
  using run m(2)
proof (cases rule: DeleteChunk_cases)
  case (3 bi e)
  have e: "calm dev e" "blockInfo e = blockInfo dev" "internalStartBlock e = internalStartBlock dev"
    using ChunkBit_calm(1) [OF 3(2)] by (auto simp: calm_def waiting_def)
  have "yaffs_GetBlockInfo e (cdiv c (nChunksPerBlock dev)) = Some bi" using 3(1) GetBlockInfo_cong [OF e(2,3)] by simp
  then have "calm e dev'" unfolding 3(3) by (rule calm_set) (simp add: waits_def)
  with e(1) show ?thesis by (rule calm_trans)
next
  case (4 bi e)
  have e: "calm dev e" "blockInfo e = blockInfo dev" "internalStartBlock e = internalStartBlock dev"
    using ChunkBit_calm(1) [OF 4(2)] by (auto simp: calm_def waiting_def)
  have "yaffs_GetBlockInfo e (cdiv c (nChunksPerBlock dev)) = Some bi" using 4(1) GetBlockInfo_cong [OF e(2,3)] by simp
  then have "calm e (set_block_info e (cdiv c (nChunksPerBlock dev)) (bi\<lparr>pagesInUse := int10 (pagesInUse bi - 1)\<rparr>))"
    by (rule calm_set) (simp add: waits_def)
  moreover have "markNANDBlockBad e \<noteq> None" using ChunkBit_io(2) [OF 4(2)] m(1) by (simp add: io_view_def)
  ultimately show ?thesis using BlockBecameDirty_calm [OF 4(4) _ cfg] e(1) by (auto intro: calm_trans)
qed (auto intro: calmI)

subsection \<open>Allocation makes progress\<close>

text \<open>What the write loop needs of a chunk that was allocated for it.\<close>

definition fresh_chunk :: "'n yaffs_Device \<Rightarrow> int \<Rightarrow> int \<Rightarrow> yaffs_BlockInfo \<Rightarrow> bool" where
  "fresh_chunk dev blk page bi \<longleftrightarrow> valid_chunk dev (blk, page) \<and> nat page \<in> chunks_in_use dev blk \<and> yaffs_GetBlockInfo dev blk = Some bi \<and>
     blockState bi \<in> {YAFFS_BLOCK_STATE_ALLOCATING, YAFFS_BLOCK_STATE_FULL} \<and> softDeletions bi < pagesInUse bi"

lemma alloc_page_block:
  assumes "alloc_page dev = Some (c, b, dev')"
  obtains bi where "b = allocationBlock dev" "yaffs_GetBlockInfo dev b = Some bi"
    "blockInfo dev' = blockInfo (set_block_info dev b (bi\<lparr>pagesInUse := int10 (pagesInUse bi + 1),
        blockState := (if nChunksPerBlock dev \<le> uint (allocationPage dev + 1) then YAFFS_BLOCK_STATE_FULL else blockState bi)\<rparr>))"
    "internalStartBlock dev' = internalStartBlock dev" "nChunksPerBlock dev' = nChunksPerBlock dev" "allocationPage dev' = allocationPage dev + 1"
    "allocationBlock dev' = (if nChunksPerBlock dev \<le> uint (allocationPage dev + 1) then -1 else allocationBlock dev)"
proof -
  let ?b = "allocationBlock dev"
  obtain bi where bi: "yaffs_GetBlockInfo dev ?b = Some bi" using assms by (cases "yaffs_GetBlockInfo dev ?b") (simp_all add: alloc_page_def)
  let ?s = "set_block_info dev ?b (bi\<lparr>pagesInUse := int10 (pagesInUse bi + 1)\<rparr>)"
  obtain d where d: "yaffs_SetChunkBit ?s ?b (uint (allocationPage dev)) = Some d"
    using assms bi by (cases "yaffs_SetChunkBit ?s ?b (uint (allocationPage dev))") (simp_all add: alloc_page_def Let_def)
  then obtain bs where bs: "d = ?s\<lparr>chunkBits := bs\<rparr>" by (auto simp: yaffs_SetChunkBit_def Let_def bind_Some split: if_splits)
  let ?full = "nChunksPerBlock dev \<le> uint (allocationPage dev + 1)"
  define e where "e = d\<lparr>allocationPage := allocationPage dev + 1, nFreeChunks := nFreeChunks dev - 1\<rparr>"
  have dev': "dev' = (if ?full then (set_block_info e ?b (bi\<lparr>pagesInUse := int10 (pagesInUse bi + 1), blockState := YAFFS_BLOCK_STATE_FULL\<rparr>))
      \<lparr>allocationBlock := -1\<rparr> else e)" and b: "b = ?b"
    using assms bi d unfolding e_def by (auto simp: alloc_page_def Let_def bs)
  have e: "blockInfo e = blockInfo ?s" "internalStartBlock e = internalStartBlock dev" "nChunksPerBlock e = nChunksPerBlock dev"
    "allocationPage e = allocationPage dev + 1" "allocationBlock e = ?b"
    by (simp_all add: e_def bs)
  have "blockInfo (set_block_info e ?b x) = blockInfo (set_block_info dev ?b x)" for x
    using blockInfo_set_cong [of e ?s ?b x] e(1,2) by simp
  then show thesis using that [OF b] bi e unfolding b dev' by (cases ?full) simp_all
qed

lemma alloc_page_progress:
  assumes inv: "block_inv dev" and nn: "0 \<le> allocationBlock dev" and run: "alloc_page dev = Some (chunk, blk, dev')"
  obtains page bi where "chunk = blk * nChunksPerBlock dev + page" "fresh_chunk dev' blk page bi" "block_inv dev'"
    "waiting dev' = waiting dev" "0 \<le> pages_left dev'" "pages_left dev' < pages_left dev" "nChunksPerBlock dev' = nChunksPerBlock dev"
    "\<exists>bi0. yaffs_GetBlockInfo dev blk = Some bi0 \<and> gcPrioritise bi0 = gcPrioritise bi"
proof -
  define page where "page = uint (allocationPage dev)"
  obtain d where d: "alloc_page dev = Some (allocationBlock dev * nChunksPerBlock dev + page, allocationBlock dev, d)" "block_inv d"
    "valid_chunk dev (allocationBlock dev, page)" "nat page \<notin> chunks_in_use dev (allocationBlock dev)"
    "\<And>c. valid_block dev c \<Longrightarrow> chunks_in_use d c = (if c = allocationBlock dev then insert (nat page) (chunks_in_use dev c) else chunks_in_use dev c)"
    unfolding page_def using alloc_page_ok [OF inv nn] by metis
  have eq: "d = dev'" "blk = allocationBlock dev" "chunk = blk * nChunksPerBlock dev + page" using d(1) run by simp_all
  obtain bi0 where b0: "yaffs_GetBlockInfo dev blk = Some bi0" "blockState bi0 = YAFFS_BLOCK_STATE_ALLOCATING" "page < nChunksPerBlock dev"
    using block_invD(9) [OF inv] nn by (auto simp: alloc_ok_def eq page_def)
  let ?full = "nChunksPerBlock dev \<le> uint (allocationPage dev + 1)"
  define bi where "bi = bi0\<lparr>pagesInUse := int10 (pagesInUse bi0 + 1), blockState := (if ?full then YAFFS_BLOCK_STATE_FULL else blockState bi0)\<rparr>"
  have t: "blockInfo dev' = blockInfo (set_block_info dev blk bi)" "internalStartBlock dev' = internalStartBlock dev"
    "nChunksPerBlock dev' = nChunksPerBlock dev" "allocationPage dev' = allocationPage dev + 1"
    "allocationBlock dev' = (if ?full then -1 else allocationBlock dev)"
    using alloc_page_block [OF run] b0(1) unfolding bi_def by (metis option.inject)+
  have "yaffs_GetBlockInfo dev' = yaffs_GetBlockInfo (set_block_info dev blk bi)" by (rule GetBlockInfo_cong) (simp_all add: t)
  then have g: "yaffs_GetBlockInfo dev' blk = Some bi" by (simp add: get_set_block_info b0(1))
  have st: "blockState bi \<in> {YAFFS_BLOCK_STATE_ALLOCATING, YAFFS_BLOCK_STATE_FULL}" "gcPrioritise bi = gcPrioritise bi0" "softDeletions bi = softDeletions bi0"
    using b0(2) by (simp_all add: bi_def)
  have vb: "valid_block dev blk" using d(3) by (simp add: valid_chunk_def eq)
  have use: "chunks_in_use dev' blk = insert (nat page) (chunks_in_use dev blk)" using d(5) [OF vb] by (simp add: eq)
  have "pagesInUse bi = int (card (chunks_in_use dev' blk))" "pagesInUse bi0 = int (card (chunks_in_use dev blk))" "softDeletions bi0 \<le> pagesInUse bi0"
    using block_invD(6) [OF d(2) [unfolded eq(1)] g] block_invD(6) [OF inv b0(1)] by (simp_all add: block_ok_def)
  moreover have "card (chunks_in_use dev' blk) = Suc (card (chunks_in_use dev blk))" unfolding use using d(4) by (simp add: eq)
  ultimately have live: "softDeletions bi < pagesInUse bi" using st(3) by simp
  have "valid_block dev' blk" using valid_block_info [OF block_invD(5) [OF d(2) [unfolded eq(1)]]] g by blast
  then have "valid_chunk dev' (blk, page)" using d(3) t(3) by (simp add: valid_chunk_def)
  then have fresh: "fresh_chunk dev' blk page bi" using use g st(1) live by (simp add: fresh_chunk_def)
  have "waiting dev' = waiting (set_block_info dev blk bi)" using t(1) by (simp add: waiting_def)
  then have w: "waiting dev' = waiting dev" using waiting_set [OF b0(1), of bi] b0(2) st(1) by (auto simp: waits_def)
  have "uint (allocationPage dev + 1) = page + 1"
    using uint_succ [of "allocationPage dev"] b0(3) block_invD(3) [OF inv] by (simp add: page_def)
  then have "0 \<le> pages_left dev'" "pages_left dev' < pages_left dev" using nn b0(3) by (auto simp: pages_left_def t page_def [symmetric])
  then show thesis using that [OF eq(3) fresh _ w] d(2) eq(1) t(3) b0(1) st(2) by simp
qed

lemma AllocateChunk_progress:
  assumes inv: "block_inv dev" and run: "yaffs_AllocateChunk dev u = Some (chunk, blk, dev')" and pos: "0 \<le> chunk"
  obtains page bi where "chunk = blk * nChunksPerBlock dev' + page" "fresh_chunk dev' blk page bi" "block_inv dev'" "0 \<le> pages_left dev'"
    "gcPrioritise bi \<Longrightarrow> waiting dev' < waiting dev \<or> waiting dev' = waiting dev \<and> pages_left dev' < pages_left dev"
proof (cases "0 \<le> allocationBlock dev")
  case True
  then have "alloc_page dev = Some (chunk, blk, dev')" using run pos unfolding AllocateChunk_page by (auto split: if_splits)
  from alloc_page_progress [OF inv True this] show thesis by (metis that)
next
  case False
  then have neg: "allocationBlock dev < 0" by simp
  have "0 < nErasedBlocks dev" using run pos neg unfolding AllocateChunk_page yaffs_FindBlockForAllocation_def by (auto split: if_splits)
  then obtain b bi f where f: "yaffs_FindBlockForAllocation dev =
      Some (b, (set_block_info (dev\<lparr>allocationBlockFinder := f\<rparr>) b
                  (bi\<lparr>blockState := YAFFS_BLOCK_STATE_ALLOCATING, bi_sequenceNumber := dev_sequenceNumber dev + 1\<rparr>))
                 \<lparr>dev_sequenceNumber := dev_sequenceNumber dev + 1, nErasedBlocks := nErasedBlocks dev - 1\<rparr>)"
    "yaffs_GetBlockInfo dev b = Some bi" "blockState bi = YAFFS_BLOCK_STATE_EMPTY"
    using FindBlockForAllocation_finds [OF inv] by metis
  let ?bi = "bi\<lparr>blockState := YAFFS_BLOCK_STATE_ALLOCATING, bi_sequenceNumber := dev_sequenceNumber dev + 1\<rparr>"
  define d where "d = (set_block_info (dev\<lparr>allocationBlockFinder := f\<rparr>) b ?bi)
      \<lparr>dev_sequenceNumber := dev_sequenceNumber dev + 1, nErasedBlocks := nErasedBlocks dev - 1, allocationBlock := b, allocationPage := 0\<rparr>"
  have d: "block_inv d" unfolding d_def by (rule take_block_inv [OF inv neg f(2,3)])
  have tbl: "blockInfo d = blockInfo (set_block_info dev b ?bi)" "internalStartBlock d = internalStartBlock dev" "allocationBlock d = b"
    using blockInfo_set_cong [of "dev\<lparr>allocationBlockFinder := f\<rparr>" dev b ?bi] by (simp_all add: d_def)
  have "valid_block dev b" using valid_block_info [OF block_invD(5) [OF inv]] f(2) by blast
  then have nn: "0 \<le> allocationBlock d" using block_invD(4) [OF inv] by (simp add: valid_block_def tbl)
  have "alloc_page d = Some (chunk, blk, dev')"
    using run pos neg f(1) nn unfolding AllocateChunk_page by (auto simp: d_def split: if_splits)
  then obtain page ci where P: "chunk = blk * nChunksPerBlock d + page" "fresh_chunk dev' blk page ci" "block_inv dev'"
    "waiting dev' = waiting d" "0 \<le> pages_left dev'" "nChunksPerBlock dev' = nChunksPerBlock d"
    "\<exists>bi0. yaffs_GetBlockInfo d blk = Some bi0 \<and> gcPrioritise bi0 = gcPrioritise ci" and blk: "blk = allocationBlock d"
    using alloc_page_progress [OF d nn] alloc_page_block by metis
  have "yaffs_GetBlockInfo d = yaffs_GetBlockInfo (set_block_info dev b ?bi)" by (rule GetBlockInfo_cong [OF tbl(1)]) (simp add: tbl)
  then have "gcPrioritise ci = gcPrioritise bi" using P(7) f(2) by (auto simp: blk tbl get_set_block_info)
  moreover have "waiting d = waiting (set_block_info dev b ?bi)" by (simp add: waiting_def tbl)
  ultimately have "waiting dev' < waiting dev" if "gcPrioritise ci"
    using waiting_set [OF f(2), of ?bi] P(4) that f(3) by (simp add: waits_def)
  then show thesis using that [OF _ P(2,3,5)] P(1,6) by simp
qed

subsection \<open>One attempt\<close>

text \<open>Changing the flags of a block does not touch what the invariant is about.\<close>

definition same_counts :: "yaffs_BlockInfo \<Rightarrow> yaffs_BlockInfo \<Rightarrow> bool" where
  "same_counts bi bi' \<longleftrightarrow> blockState bi' = blockState bi \<and> pagesInUse bi' = pagesInUse bi \<and> softDeletions bi' = softDeletions bi"

lemma flags_step:
  assumes inv: "block_inv dev" and bi: "yaffs_GetBlockInfo dev b = Some bi" "same_counts bi bi'"
  shows "block_inv (set_block_info dev b bi')"
proof -
  let ?d = "set_block_info dev b bi'"
  note I = block_invD [OF inv]
  have al: "alloc_ok ?d" using I(9) bi by (auto simp: alloc_ok_def get_set_block_info same_counts_def)
  have ok: "block_ok dev b bi" by (rule I(6) [OF bi(1)])
  show ?thesis
  proof (rule block_inv_step [OF inv bi(1), where U = "chunks_in_use dev b" and bi' = bi'])
    show "pagesInUse bi' = 0" if "blockState bi' \<in> {YAFFS_BLOCK_STATE_EMPTY, YAFFS_BLOCK_STATE_CHECKPOINT}"
      using ok bi(2) that by (auto simp: block_ok_def same_counts_def)
    show "c = allocationBlock ?d" if "yaffs_GetBlockInfo dev c = Some ci" "blockState ci = YAFFS_BLOCK_STATE_ALLOCATING" for c ci
      using I(6) [OF that(1)] that(2) by (simp add: block_ok_def)
  qed (use I(1,2) al ok bi in \<open>simp_all add: free_of_block_def block_ok_def same_counts_def\<close>)
qed

lemma fresh_flags:
  assumes "fresh_chunk dev blk page bi" "same_counts bi bi'"
  shows "fresh_chunk (set_block_info dev blk bi') blk page bi'"
  using assms by (auto simp: fresh_chunk_def get_set_block_info same_counts_def)

lemma fresh_inv_cong:
  assumes "inv_view dev' = inv_view dev"
  shows "fresh_chunk dev' blk page bi = fresh_chunk dev blk page bi" "block_inv dev' = block_inv dev"
proof -
  have v: "bits_view dev' = bits_view dev" "blockInfo dev' = blockInfo dev" "internalStartBlock dev' = internalStartBlock dev"
    using assms by (simp_all add: inv_view_def bits_view_def)
  show "fresh_chunk dev' blk page bi = fresh_chunk dev blk page bi"
    by (simp only: fresh_chunk_def bits_view_cong [OF v(1)] GetBlockInfo_cong [OF v(2,3)])
  show "block_inv dev' = block_inv dev" by (rule block_inv_cong [OF assms])
qed

text \<open>What the writer keeps while it works on a chunk.\<close>

definition writing :: "'n yaffs_Device \<Rightarrow> int \<Rightarrow> int \<Rightarrow> 'n yaffs_Device \<Rightarrow> bool" where
  "writing dev blk page dev' \<longleftrightarrow> block_inv dev' \<and> (\<exists>bi. fresh_chunk dev' blk page bi) \<and> nChunksPerBlock dev' = nChunksPerBlock dev"

lemma writing_upd:
  assumes "writing dev blk page d" "inv_view d' = inv_view d" shows "writing dev blk page d'"
  using assms fresh_inv_cong [OF assms(2)] by (auto simp: writing_def inv_view_def bits_view_def)

lemma writing_set:
  assumes "writing dev blk page d" "yaffs_GetBlockInfo d blk = Some bi" "same_counts bi bi'"
  shows "writing dev blk page (set_block_info d blk bi')"
proof -
  obtain ci where c: "fresh_chunk d blk page ci" using assms(1) by (auto simp: writing_def)
  then have "ci = bi" using assms(2) by (simp add: fresh_chunk_def)
  then show ?thesis using assms flags_step [OF _ assms(2,3)] fresh_flags [OF c] by (auto simp: writing_def)
qed

lemma writing_block: "writing dev blk page d \<Longrightarrow> \<exists>bi. yaffs_GetBlockInfo d blk = Some bi"
  by (auto simp: writing_def fresh_chunk_def)

lemma HandleChunkError_writing:
  assumes w: "writing dev blk page d"
  shows "\<exists>d'. yaffs_HandleChunkError d blk = Some d' \<and> writing dev blk page d' \<and> io_view d' = io_view d"
proof -
  obtain bi where bi: "yaffs_GetBlockInfo d blk = Some bi" using writing_block [OF w] by blast
  show ?thesis
  proof (cases "gcPrioritise bi")
    case False
    let ?s = "chunkErrorStrikes bi + 1"
    define ci where "ci = (if ?s > 3 then bi\<lparr>gcPrioritise := True, chunkErrorStrikes := ?s, needsRetiring := True\<rparr>
        else bi\<lparr>gcPrioritise := True, chunkErrorStrikes := ?s\<rparr>)"
    have "same_counts bi ci" by (simp add: same_counts_def ci_def)
    from writing_set [OF w bi this]
    have "writing dev blk page ((set_block_info d blk ci)\<lparr>hasPendingPrioritisedGCs := True\<rparr>)"
      by (rule writing_upd) (simp add: inv_view_def bits_view_def)
    moreover have "yaffs_HandleChunkError d blk = Some ((set_block_info d blk ci)\<lparr>hasPendingPrioritisedGCs := True\<rparr>)"
      using bi False by (simp add: yaffs_HandleChunkError_def Let_def ci_def)
    ultimately show ?thesis by simp
  qed (use bi w in \<open>simp add: yaffs_HandleChunkError_def\<close>)
qed

text \<open>The driver's functions are there, a page that is read has the chunk's size, and no working buffer is in use.\<close>

definition reads_pages :: "'n yaffs_Device \<Rightarrow> bool" where
  "reads_pages dev \<longleftrightarrow> (\<exists>f. readChunkWithTagsFromNAND dev = Some f \<and>
     (\<forall>n c. nat (nDataBytesPerChunk dev) \<le> length (fst (snd (f n c True)))))"

definition io_ok :: "'n yaffs_Device \<Rightarrow> bool" where
  "io_ok dev \<longleftrightarrow> isYaffs2 dev \<and> nand_ok dev \<and> writeChunkWithTagsToNAND dev \<noteq> None \<and> reads_pages dev \<and> wf_pool dev \<and> held dev = {}"

lemma io_ok_cong:
  assumes "io_view dev' = io_view dev" shows "io_ok dev' = io_ok dev"
  using assms by (simp add: io_view_def io_ok_def nand_ok_def reads_pages_def wf_pool_def held_def)

lemma pool_nonempty: "wf_pool dev \<Longrightarrow> pool dev \<noteq> {}"
  by (auto simp: wf_pool_def pool_def YAFFS_N_TEMP_BUFFERS_def)

lemma cdiv_fresh:
  assumes "block_inv d" "fresh_chunk d blk page bi"
  shows "cdiv (blk * nChunksPerBlock d + page) (nChunksPerBlock d) = blk"
  using block_index_of_chunk(1) [OF _ block_invD(4) [OF assms(1)]] assms(2) by (simp add: fresh_chunk_def)

lemma Read_writing:
  assumes w: "writing dev blk page d" and f: "readChunkWithTagsFromNAND d = Some f"
  shows "\<exists>r tags n d'. yaffs_ReadChunkWithTagsFromNAND cfg d (blk * nChunksPerBlock d + page) want t0 =
      Some (r, fst (snd (f n (blk * nChunksPerBlock d + page - chunkOffset d) want)), tags, d') \<and>
    writing dev blk page d' \<and> io_view d' = io_view d"
proof -
  let ?c = "blk * nChunksPerBlock d + page"
  obtain r x tags m where q: "f (genericDevice d) (?c - chunkOffset d) want = (r, x, tags, m)" by (metis prod_cases4)
  let ?e = "d\<lparr>genericDevice := m\<rparr>"
  have e: "writing dev blk page ?e" by (rule writing_upd [OF w]) (simp add: inv_view_def bits_view_def)
  have c: "cdiv ?c (nChunksPerBlock d) = blk" using w cdiv_fresh unfolding writing_def by blast
  obtain d' where d': "(if eccResult tags > YAFFS_ECC_RESULT_NO_ERROR then yaffs_HandleChunkError ?e blk else Some ?e) = Some d'"
    "writing dev blk page d'" "io_view d' = io_view ?e"
    using HandleChunkError_writing [OF e] e by (cases "eccResult tags > YAFFS_ECC_RESULT_NO_ERROR") auto
  have "yaffs_ReadChunkWithTagsFromNAND cfg d ?c want t0 = Some (r, x, tags, d')"
    using d'(1) by (cases "eccResult tags > YAFFS_ECC_RESULT_NO_ERROR") (simp_all add: yaffs_ReadChunkWithTagsFromNAND_def Let_def f q c)
  moreover have "x = fst (snd (f (genericDevice d) (?c - chunkOffset d) want))" by (simp add: q)
  ultimately show ?thesis using d'(2,3) by auto
qed

lemma temp_views:
  "writing dev blk page (snd (yaffs_GetTempBuffer d l)) = writing dev blk page d"
  "writing dev blk page (yaffs_ReleaseTempBuffer d b) = writing dev blk page d"
proof -
  have "inv_view (snd (yaffs_GetTempBuffer d l)) = inv_view d" "inv_view (yaffs_ReleaseTempBuffer d b) = inv_view d"
    by (auto simp: yaffs_GetTempBuffer_def yaffs_ReleaseTempBuffer_def YMALLOC_def Let_def inv_view_def bits_view_def split: option.splits)
  then show "writing dev blk page (snd (yaffs_GetTempBuffer d l)) = writing dev blk page d"
    "writing dev blk page (yaffs_ReleaseTempBuffer d b) = writing dev blk page d"
    using writing_upd by metis+
qed

lemma io_ok_temp:
  assumes "isYaffs2 dev' = isYaffs2 dev" "eraseBlockInNAND dev' = eraseBlockInNAND dev" "markNANDBlockBad dev' = markNANDBlockBad dev"
    "readChunkWithTagsFromNAND dev' = readChunkWithTagsFromNAND dev" "writeChunkWithTagsToNAND dev' = writeChunkWithTagsToNAND dev"
    "nDataBytesPerChunk dev' = nDataBytesPerChunk dev" "wf_pool dev'" "held dev' = {}" "io_ok dev"
  shows "io_ok dev'"
  using assms by (simp add: io_ok_def nand_ok_def reads_pages_def)

lemma temp_fields:
  fixes dev :: "'n yaffs_Device"
  defines "F \<equiv> \<lambda>dev :: 'n yaffs_Device. (isYaffs2 dev, eraseBlockInNAND dev, markNANDBlockBad dev, readChunkWithTagsFromNAND dev,
    writeChunkWithTagsToNAND dev, nDataBytesPerChunk dev, nChunksPerBlock dev, chunkOffset dev)"
  shows "F (snd (yaffs_GetTempBuffer dev l)) = F dev" "F (yaffs_ReleaseTempBuffer dev b) = F dev"
  by (auto simp: F_def yaffs_GetTempBuffer_def yaffs_ReleaseTempBuffer_def YMALLOC_def Let_def split: option.splits)

lemma CheckChunkErased_writing:
  assumes w: "writing dev blk page d" and io: "io_ok d"
  shows "\<exists>r d'. yaffs_CheckChunkErased cfg d (blk * nChunksPerBlock d + page) = Some (r, d') \<and> writing dev blk page d' \<and> io_ok d'"
proof -
  let ?c = "blk * nChunksPerBlock d + page"
  obtain b e where e: "yaffs_GetTempBuffer d (1 + int 895) = (b, e)" by fastforce
  have pool: "wf_pool d" "held d \<noteq> pool d" "held d = {}" using io pool_nonempty by (auto simp: io_ok_def)
  have b: "b \<in> pool d" "wf_pool e" "pool e = pool d" "held e = {b}"
    using temp.get_law [OF pool(1,2), of 895] e pool(3) by auto
  have "b \<noteq> 0" using b(1) pool(1) by (auto simp: wf_pool_def pool_def)
  have fe: "isYaffs2 e = isYaffs2 d" "eraseBlockInNAND e = eraseBlockInNAND d" "markNANDBlockBad e = markNANDBlockBad d"
    "readChunkWithTagsFromNAND e = readChunkWithTagsFromNAND d" "writeChunkWithTagsToNAND e = writeChunkWithTagsToNAND d"
    "nDataBytesPerChunk e = nDataBytesPerChunk d" "nChunksPerBlock e = nChunksPerBlock d"
    using temp_fields(1) [of d "1 + int 895"] e by auto
  obtain f where f: "readChunkWithTagsFromNAND e = Some f" "\<And>n c. nat (nDataBytesPerChunk e) \<le> length (fst (snd (f n c True)))"
    using io fe by (auto simp: io_ok_def reads_pages_def)
  have we: "writing dev blk page e" using temp_views(1) [of dev blk page d "1 + int 895"] e w by simp
  obtain r tags n g where g: "yaffs_ReadChunkWithTagsFromNAND cfg e ?c True (cfg_unset_tags cfg) =
      Some (r, fst (snd (f n (?c - chunkOffset e) True)), tags, g)" "writing dev blk page g" "io_view g = io_view e"
    using Read_writing [OF we f(1), of cfg True "cfg_unset_tags cfg"] fe(7) by auto
  let ?h = "yaffs_ReleaseTempBuffer g b"
  have bytes: "nDataBytesPerChunk g = nDataBytesPerChunk e" using g(3) by (simp add: io_view_def)
  have run: "\<exists>r. yaffs_CheckChunkErased cfg d ?c = Some (r, ?h)"
    using e \<open>b \<noteq> 0\<close> g(1) f(2) [of n "?c - chunkOffset e"] by (simp add: yaffs_CheckChunkErased_def Let_def yaffs_CheckFF_def bytes)
  have tb: "tempBuffer g = tempBuffer e" using g(3) by (simp add: io_view_def)
  then have "wf_pool g" "b \<in> pool g" "held g = {b}" using b by (simp_all add: wf_pool_def pool_def held_def)
  then have "wf_pool ?h" "held ?h = {}" using temp.release_law [of g b] by auto
  moreover have "isYaffs2 ?h = isYaffs2 d" "eraseBlockInNAND ?h = eraseBlockInNAND d" "markNANDBlockBad ?h = markNANDBlockBad d"
    "readChunkWithTagsFromNAND ?h = readChunkWithTagsFromNAND d" "writeChunkWithTagsToNAND ?h = writeChunkWithTagsToNAND d"
    "nDataBytesPerChunk ?h = nDataBytesPerChunk d"
    using temp_fields(2) [of g b] g(3) fe by (auto simp: io_view_def)
  ultimately have "io_ok ?h" using io by (intro io_ok_temp [of ?h d]) simp_all
  then show ?thesis using run g(2) temp_views(2) [of dev blk page g b] by auto
qed

text \<open>Giving a chunk back.\<close>

lemma Delete_writing:
  assumes w: "writing dev blk page d" and io: "io_ok d" and cfg: "\<not> cfg_verify_erase cfg"
  shows "\<exists>d'. yaffs_DeleteChunk cfg d (blk * nChunksPerBlock d + page) mark = Some d' \<and> block_inv d' \<and> io_ok d' \<and> calm d d'"
proof -
  obtain bi where fr: "fresh_chunk d blk page bi" "block_inv d" using w by (auto simp: writing_def)
  have n: "nand_ok d" "isYaffs2 d" using io by (simp_all add: io_ok_def)
  have m: "markNANDBlockBad d \<noteq> None" using n(1) by (simp add: nand_ok_def)
  have f: "valid_chunk d (blk, page)" "nat page \<in> chunks_in_use d blk" "yaffs_GetBlockInfo d blk = Some bi"
    "blockState bi \<in> {YAFFS_BLOCK_STATE_ALLOCATING, YAFFS_BLOCK_STATE_FULL, YAFFS_BLOCK_STATE_COLLECTING}" "softDeletions bi < pagesInUse bi"
    using fr(1) by (auto simp: fresh_chunk_def)
  obtain d' where d': "yaffs_DeleteChunk cfg d (blk * nChunksPerBlock d + page) mark = Some d'" "block_inv d'"
    using DeleteChunk_ok [OF fr(2) n cfg f] by blast
  then show ?thesis
    using io_ok_cong [OF DeleteChunk_io [OF d'(1) m n(2) cfg]] io DeleteChunk_calm [OF d'(1) m n(2) cfg] by blast
qed

text \<open>The order in which an unsuccessful attempt makes progress.\<close>

definition progress :: "int \<Rightarrow> 'n yaffs_Device \<Rightarrow> int \<Rightarrow> 'n yaffs_Device \<Rightarrow> bool" where
  "progress attempts dev attempts' dev' \<longleftrightarrow> attempts' = attempts + 1 \<or>
     attempts' = attempts \<and> (waiting dev' < waiting dev \<or> waiting dev' = waiting dev \<and> 0 \<le> pages_left dev' \<and> pages_left dev' < pages_left dev)"

definition attempt_ok :: "int \<Rightarrow> 'n yaffs_Device \<Rightarrow> (int \<times> bool \<times> bool \<times> int \<times> yaffs_ExtendedTags \<times> 'n yaffs_Device) option \<Rightarrow> bool" where
  "attempt_ok attempts dev res \<longleftrightarrow> (case res of None \<Rightarrow> False | Some (chunk, ok, leave, attempts', tags', dev') \<Rightarrow>
     block_inv dev' \<and> io_ok dev' \<and> attempts' \<le> attempts + 1 \<and> (leave \<or> progress attempts dev attempts' dev'))"

definition erased_check :: "yaffs_Config \<Rightarrow> int \<Rightarrow> int \<Rightarrow> yaffs_BlockInfo \<Rightarrow> 'n yaffs_Device \<Rightarrow> (int \<times> bool \<times> 'n yaffs_Device) option" where
  "erased_check cfg blk chunk bi dev =
     (if \<not> skipErasedCheck bi then do {
        (e, dev) \<leftarrow> yaffs_CheckChunkErased cfg dev chunk;
        if e \<noteq> YAFFS_OK then Some (e, False, dev)
        else do { bi \<leftarrow> yaffs_GetBlockInfo dev blk;
                  Some (e, True, set_block_info dev blk (bi\<lparr>skipErasedCheck := True\<rparr>)) } }
      else Some (0, True, dev))"

lemma erased_check_ok:
  assumes w: "writing dev blk page d" and io: "io_ok d"
  shows "\<exists>e go d'. erased_check cfg blk (blk * nChunksPerBlock d + page) bi d = Some (e, go, d') \<and> writing dev blk page d' \<and> io_ok d'"
proof (cases "skipErasedCheck bi")
  case False
  obtain r e where e: "yaffs_CheckChunkErased cfg d (blk * nChunksPerBlock d + page) = Some (r, e)" "writing dev blk page e" "io_ok e"
    using CheckChunkErased_writing [OF w io] by blast
  obtain ci where ci: "yaffs_GetBlockInfo e blk = Some ci" using writing_block [OF e(2)] by blast
  have "writing dev blk page (set_block_info e blk (ci\<lparr>skipErasedCheck := True\<rparr>))"
    by (rule writing_set [OF e(2) ci]) (simp add: same_counts_def)
  moreover have "io_ok (set_block_info e blk (ci\<lparr>skipErasedCheck := True\<rparr>))"
    using e(3) io_ok_cong [OF io_view_set_block_info] by blast
  ultimately show ?thesis using False e ci by (cases "r = 1") (auto simp: erased_check_def)
qed (use w io in \<open>auto simp: erased_check_def\<close>)

text \<open>The part of an attempt that follows the check of the page.\<close>

lemma write_page_ok:
  assumes w: "writing dev blk page d" and io: "io_ok d" and cfg: "\<not> cfg_verify_erase cfg"
  defines "chunk \<equiv> blk * nChunksPerBlock d + page"
  shows "attempt_ok attempts dev0
    (do { (writeOk, tags, dev) \<leftarrow> yaffs_WriteChunkWithTagsToNAND cfg d chunk (Some data) tags;
          if writeOk \<noteq> YAFFS_OK then do {
            dev \<leftarrow> yaffs_HandleWriteChunkError cfg dev chunk e;
            Some (chunk, False, False, attempts + 1, tags, dev) }
          else Some (chunk, True, False, attempts + 1, tags, dev) })"
proof -
  obtain f where f: "writeChunkWithTagsToNAND d = Some f" using io by (auto simp: io_ok_def)
  obtain r n where rn: "f (genericDevice d) (chunk - chunkOffset d) (Some data)
      (tags\<lparr>sequenceNumber := dev_sequenceNumber d, chunkUsed := 1\<rparr>) = (r, n)" by fastforce
  let ?t = "tags\<lparr>sequenceNumber := dev_sequenceNumber d, chunkUsed := 1\<rparr>"
  let ?d = "d\<lparr>genericDevice := n\<rparr>"
  have run: "yaffs_WriteChunkWithTagsToNAND cfg d chunk (Some data) tags = Some (r, ?t, ?d)"
    using f rn by (simp add: yaffs_WriteChunkWithTagsToNAND_def Let_def)
  have wd: "writing dev blk page ?d" by (rule writing_upd [OF w]) (simp add: inv_view_def bits_view_def)
  have iod: "io_ok ?d" by (rule io_ok_cong [OF io_view_upd(1), THEN iffD2, OF io])
  obtain g where g: "yaffs_HandleChunkError ?d blk = Some g" "writing dev blk page g" "io_view g = io_view ?d"
    using HandleChunkError_writing [OF wd] by blast
  obtain bi where bi: "yaffs_GetBlockInfo g blk = Some bi" using writing_block [OF g(2)] by blast
  define h where "h = (if e \<noteq> 0 then set_block_info g blk (bi\<lparr>needsRetiring := True\<rparr>) else g)"
  have h: "writing dev blk page h" "io_ok h"
  proof -
    show "writing dev blk page h"
      unfolding h_def using g(2) writing_set [OF g(2) bi, of "bi\<lparr>needsRetiring := True\<rparr>"] by (simp add: same_counts_def)
    have "io_view h = io_view ?d" using g(3) by (simp add: h_def)
    then show "io_ok h" using iod io_ok_cong by blast
  qed
  have n: "nChunksPerBlock h = nChunksPerBlock d" "nChunksPerBlock ?d = nChunksPerBlock d" using h(1) w by (simp_all add: writing_def)
  obtain k where k: "yaffs_DeleteChunk cfg h chunk True = Some k" "block_inv k" "io_ok k"
    using Delete_writing [OF h cfg, of True] unfolding n(1) chunk_def [symmetric] by blast
  have "cdiv chunk (nChunksPerBlock d) = blk" unfolding chunk_def using w cdiv_fresh unfolding writing_def by blast
  then have err: "yaffs_HandleWriteChunkError cfg ?d chunk e = Some k"
    using g(1) bi k(1) unfolding yaffs_HandleWriteChunkError_def Let_def n(2) by (simp add: h_def split: if_splits)
  have "block_inv ?d" using wd by (simp add: writing_def)
  then show ?thesis
    unfolding run using err k(2,3) iod by (simp add: attempt_ok_def progress_def)
qed

lemma write_attempt_ok:
  assumes inv: "block_inv dev" and io: "io_ok dev" and cfg: "\<not> cfg_verify_erase cfg"
  shows "attempt_ok attempts dev (write_attempt cfg data u attempts tags dev)"
proof -
  obtain chunk blk a where a: "yaffs_AllocateChunk dev u = Some (chunk, blk, a)" "block_inv a" using AllocateChunk_inv [OF inv] by blast
  have ioa: "io_ok a" using io_ok_cong [OF AllocateChunk_io [OF a(1)]] io by simp
  show ?thesis
  proof (cases "chunk < 0")
    case True
    then show ?thesis using a ioa by (simp add: write_attempt_def attempt_ok_def)
  next
    case False
    then obtain page bi where P: "chunk = blk * nChunksPerBlock a + page" "fresh_chunk a blk page bi" "0 \<le> pages_left a"
      "gcPrioritise bi \<Longrightarrow> waiting a < waiting dev \<or> waiting a = waiting dev \<and> pages_left a < pages_left dev"
      using AllocateChunk_progress [OF inv a(1)] by (metis not_less)
    have wa: "writing a blk page a" using a(2) P(2) by (auto simp: writing_def)
    have bi: "yaffs_GetBlockInfo a blk = Some bi" using P(2) by (simp add: fresh_chunk_def)
    show ?thesis
    proof (cases "gcPrioritise bi")
      case True
      obtain d where d: "yaffs_DeleteChunk cfg a chunk True = Some d" "block_inv d" "io_ok d" "calm a d"
        using Delete_writing [OF wa ioa cfg] P(1) by blast
      have "pages_left d = pages_left a" "waiting d \<le> waiting a" using d(4) by (simp_all add: calm_def pages_left_def)
      then have "progress attempts dev attempts d" using P(3) P(4) [OF True] by (auto simp: progress_def)
      then show ?thesis using a(1) False bi True d by (simp add: write_attempt_def attempt_ok_def)
    next
      case prio: False
      define ci where "ci = (if cfg_always_check_erased cfg then bi\<lparr>skipErasedCheck := False\<rparr> else bi)"
      define b where "b = set_block_info a blk ci"
      have wb: "writing a blk page b" unfolding b_def by (rule writing_set [OF wa bi]) (simp add: same_counts_def ci_def)
      have iob: "io_ok b" unfolding b_def using ioa io_ok_cong [OF io_view_set_block_info] by blast
      have n: "nChunksPerBlock d = nChunksPerBlock a" if "writing a blk page d" for d using that by (simp add: writing_def)
      obtain e go d where d: "erased_check cfg blk chunk ci b = Some (e, go, d)" "writing a blk page d" "io_ok d"
        using erased_check_ok [OF wb iob] n [OF wb] P(1) by metis
      have run: "write_attempt cfg data u attempts tags dev = (if \<not> go then Some (chunk, False, False, attempts + 1, tags, d) else
          do { (writeOk, tags, dev) \<leftarrow> yaffs_WriteChunkWithTagsToNAND cfg d chunk (Some data) tags;
               if writeOk \<noteq> YAFFS_OK then do {
                 dev \<leftarrow> yaffs_HandleWriteChunkError cfg dev chunk e;
                 Some (chunk, False, False, attempts + 1, tags, dev) }
               else Some (chunk, True, False, attempts + 1, tags, dev) })"
        using d(1) False prio unfolding write_attempt_def a(1) Let_def Option.bind.simps case_prod_conv bi ci_def [symmetric] b_def [symmetric]
          erased_check_def [symmetric] by simp
      show ?thesis
      proof (cases go)
        case True
        have c: "chunk = blk * nChunksPerBlock d + page" using n [OF d(2)] P(1) by simp
        show ?thesis unfolding run using write_page_ok [OF d(2,3) cfg, folded c] True by simp
      qed (use d(2,3) in \<open>simp add: run attempt_ok_def progress_def writing_def\<close>)
    qed
  qed
qed

subsection \<open>The loop\<close>

lemma write_loop_returns:
  assumes "block_inv dev" "io_ok dev" "\<not> cfg_verify_erase cfg"
  shows "\<exists>chunk attempts' tags' dev'. write_loop cfg data u attempts tags dev = Some (chunk, attempts', tags', dev') \<and>
    block_inv dev' \<and> io_ok dev' \<and> attempts' \<le> max (attempts + 1) (cfg_wr_attempts cfg)"
  using assms
proof (induction "(attempts, dev)" arbitrary: attempts tags dev
    rule: wf_induct_rule [OF wf_measures [of "[\<lambda>(a, d). nat (cfg_wr_attempts cfg - a), \<lambda>(a, d). nat (waiting d), \<lambda>(a, d). nat (pages_left d)]"]])
  case (1 attempts dev)
  obtain chunk ok leave a' tags' dev' where w: "write_attempt cfg data u attempts tags dev = Some (chunk, ok, leave, a', tags', dev')"
    "block_inv dev'" "io_ok dev'" "leave \<or> progress attempts dev a' dev'" "a' \<le> attempts + 1"
    using write_attempt_ok [OF 1(2-4), of attempts data u tags] by (auto simp: attempt_ok_def split: option.splits)
  show ?case
  proof (cases "leave \<or> ok \<or> \<not> a' < cfg_wr_attempts cfg")
    case True
    then have "write_loop cfg data u attempts tags dev = Some (chunk, a', tags', dev')"
      using w(1) by (subst write_loop.simps) simp
    then show ?thesis using w(2,3,5) by auto
  next
    case False
    then have p: "progress attempts dev a' dev'" and a: "a' < cfg_wr_attempts cfg" using w(4) by simp_all
    have run: "write_loop cfg data u attempts tags dev = write_loop cfg data u a' tags' dev'"
      using w(1) False by (subst write_loop.simps) simp
    have "((a', dev'), attempts, dev) \<in> measures [\<lambda>(a, d). nat (cfg_wr_attempts cfg - a), \<lambda>(a, d). nat (waiting d), \<lambda>(a, d). nat (pages_left d)]"
      using p a waiting_nonneg [of dev'] by (auto simp: progress_def)
    from 1(1) [OF this w(2,3) 1(4)] show ?thesis unfolding run using p a by (fastforce simp: progress_def)
  qed
qed

subsection \<open>Writing to a flash without errors\<close>

definition no_prio :: "'n yaffs_Device \<Rightarrow> bool" where
  "no_prio dev \<longleftrightarrow> (\<forall>bi \<in> set (blockInfo dev). \<not> gcPrioritise bi)"

lemma no_prio_set:
  assumes "no_prio dev" "blockInfo dev' = blockInfo (set_block_info dev b bi)" "\<not> gcPrioritise bi"
  shows "no_prio dev'"
  using assms set_update_subset_insert [of "blockInfo dev" _ bi]
  by (fastforce simp: no_prio_def set_block_info_def split: option.splits)

lemma no_prio_block: "no_prio dev \<Longrightarrow> yaffs_GetBlockInfo dev b = Some bi \<Longrightarrow> \<not> gcPrioritise bi"
  using block_index_less by (fastforce simp: no_prio_def yaffs_GetBlockInfo_def)

lemma alloc_page_no_prio:
  assumes "no_prio dev" "alloc_page dev = Some (c, b, dev')" shows "no_prio dev'"
  using assms(2)
proof (rule alloc_page_block)
  fix bi
  assume "yaffs_GetBlockInfo dev b = Some bi" and t: "blockInfo dev' = blockInfo (set_block_info dev b (bi\<lparr>pagesInUse := int10 (pagesInUse bi + 1),
        blockState := (if nChunksPerBlock dev \<le> uint (allocationPage dev + 1) then YAFFS_BLOCK_STATE_FULL else blockState bi)\<rparr>))"
  then have "\<not> gcPrioritise bi" using no_prio_block [OF assms(1)] by blast
  then show ?thesis by (intro no_prio_set [OF assms(1) t]) simp
qed

lemma AllocateChunk_no_prio:
  assumes inv: "block_inv dev" and p: "no_prio dev" and run: "yaffs_AllocateChunk dev u = Some (chunk, blk, dev')" "0 \<le> chunk"
  shows "no_prio dev'"
proof (cases "0 \<le> allocationBlock dev")
  case True
  then have "alloc_page dev = Some (chunk, blk, dev')" using run unfolding AllocateChunk_page by (auto split: if_splits)
  then show ?thesis by (rule alloc_page_no_prio [OF p])
next
  case False
  then have "0 < nErasedBlocks dev" using run unfolding AllocateChunk_page yaffs_FindBlockForAllocation_def by (auto split: if_splits)
  then obtain b bi f where f: "yaffs_FindBlockForAllocation dev =
      Some (b, (set_block_info (dev\<lparr>allocationBlockFinder := f\<rparr>) b
                  (bi\<lparr>blockState := YAFFS_BLOCK_STATE_ALLOCATING, bi_sequenceNumber := dev_sequenceNumber dev + 1\<rparr>))
                 \<lparr>dev_sequenceNumber := dev_sequenceNumber dev + 1, nErasedBlocks := nErasedBlocks dev - 1\<rparr>)"
    "yaffs_GetBlockInfo dev b = Some bi"
    using FindBlockForAllocation_finds [OF inv] by metis
  let ?bi = "bi\<lparr>blockState := YAFFS_BLOCK_STATE_ALLOCATING, bi_sequenceNumber := dev_sequenceNumber dev + 1\<rparr>"
  define d where "d = (set_block_info (dev\<lparr>allocationBlockFinder := f\<rparr>) b ?bi)
      \<lparr>dev_sequenceNumber := dev_sequenceNumber dev + 1, nErasedBlocks := nErasedBlocks dev - 1, allocationBlock := b, allocationPage := 0\<rparr>"
  have "blockInfo d = blockInfo (set_block_info dev b ?bi)"
    using blockInfo_set_cong [of "dev\<lparr>allocationBlockFinder := f\<rparr>" dev b ?bi] by (simp add: d_def)
  then have "no_prio d" by (rule no_prio_set [OF p]) (use no_prio_block [OF p f(2)] in simp)
  moreover have "alloc_page d = Some (chunk, blk, dev')"
    using run False f(1) unfolding AllocateChunk_page by (auto simp: d_def split: if_splits)
  ultimately show ?thesis by (rule alloc_page_no_prio)
qed

text \<open>A driver that writes every page and reads allocated pages as erased.\<close>

definition clean_reads :: "'n yaffs_Device \<Rightarrow> bool" where
  "clean_reads dev \<longleftrightarrow> (\<exists>f. readChunkWithTagsFromNAND dev = Some f \<and>
     (\<forall>n c. \<exists>r m t. f n c True = (r, replicate (nat (nDataBytesPerChunk dev)) 0xFF, t, m) \<and> chunkUsed t = 0 \<and> eccResult t \<le> YAFFS_ECC_RESULT_NO_ERROR))"

lemma CheckChunkErased_clean:
  assumes c: "clean_reads d" and run: "yaffs_CheckChunkErased cfg d chunk = Some (e, d')"
  shows "e = YAFFS_OK"
proof -
  obtain b g where g: "yaffs_GetTempBuffer d 896 = (b, g)" by fastforce
  have fe: "readChunkWithTagsFromNAND g = readChunkWithTagsFromNAND d" "nDataBytesPerChunk g = nDataBytesPerChunk d"
    using temp_fields(1) [of d 896] g by auto
  obtain f where f: "readChunkWithTagsFromNAND g = Some f"
    "\<And>n c. \<exists>r m t. f n c True = (r, replicate (nat (nDataBytesPerChunk d)) 0xFF, t, m) \<and> chunkUsed t = 0 \<and> eccResult t \<le> YAFFS_ECC_RESULT_NO_ERROR"
    using c fe by (auto simp: clean_reads_def)
  obtain r m t where q: "f (genericDevice g) (chunk - chunkOffset g) True = (r, replicate (nat (nDataBytesPerChunk d)) 0xFF, t, m)"
    "chunkUsed t = 0" "\<not> eccResult t > YAFFS_ECC_RESULT_NO_ERROR"
    using f(2) [of "genericDevice g" "chunk - chunkOffset g"] by (auto simp: not_less)
  have "b \<noteq> 0" using run g by (auto simp: yaffs_CheckChunkErased_def Let_def bind_Some split: if_splits)
  then show ?thesis
    using run g f(1) q fe by (simp add: yaffs_CheckChunkErased_def yaffs_ReadChunkWithTagsFromNAND_def yaffs_CheckFF_def Let_def list_all_iff)
qed

lemma CheckChunkErased_fields:
  assumes run: "yaffs_CheckChunkErased cfg d chunk = Some (e, d')" and r: "readChunkWithTagsFromNAND d \<noteq> None"
  shows "chunkOffset d' = chunkOffset d" "writeChunkWithTagsToNAND d' = writeChunkWithTagsToNAND d"
proof -
  obtain b g where g: "yaffs_GetTempBuffer d 896 = (b, g)" by fastforce
  have fe: "readChunkWithTagsFromNAND g = readChunkWithTagsFromNAND d" "chunkOffset g = chunkOffset d" "writeChunkWithTagsToNAND g = writeChunkWithTagsToNAND d"
    using temp_fields(1) [of d 896] g by auto
  obtain r x t h where h: "yaffs_ReadChunkWithTagsFromNAND cfg g chunk (b \<noteq> 0) (cfg_unset_tags cfg) = Some (r, x, t, h)"
    "d' = yaffs_ReleaseTempBuffer h b" using run g by (auto simp: yaffs_CheckChunkErased_def Let_def bind_Some)
  have "io_view h = io_view g"
    using h(1) r fe(1) by (auto simp: yaffs_ReadChunkWithTagsFromNAND_def Let_def bind_Some case_prod_beta split: if_splits dest: HandleChunkError_io)
  then show "chunkOffset d' = chunkOffset d" "writeChunkWithTagsToNAND d' = writeChunkWithTagsToNAND d"
    using temp_fields(2) [of h b] fe h(2) by (auto simp: io_view_def)
qed

lemma erased_check_clean:
  assumes run: "erased_check cfg blk chunk bi d = Some (e, go, d')" and c: "clean_reads d"
  shows "go" "chunkOffset d' = chunkOffset d" "writeChunkWithTagsToNAND d' = writeChunkWithTagsToNAND d"
proof -
  have r: "readChunkWithTagsFromNAND d \<noteq> None" using c by (auto simp: clean_reads_def)
  have *: "go \<and> chunkOffset d' = chunkOffset d \<and> writeChunkWithTagsToNAND d' = writeChunkWithTagsToNAND d"
  proof (cases "skipErasedCheck bi")
    case False
    then obtain r g where g: "yaffs_CheckChunkErased cfg d chunk = Some (r, g)" using run by (auto simp: erased_check_def bind_Some)
    then obtain ci where "go" "d' = set_block_info g blk ci"
      using False run CheckChunkErased_clean [OF c g] by (auto simp: erased_check_def bind_Some)
    moreover have "io_view (set_block_info g blk ci) = io_view g" by simp
    ultimately show ?thesis using CheckChunkErased_fields [OF g r] by (simp add: io_view_def)
  qed (use run in \<open>auto simp: erased_check_def\<close>)
  then show "go" "chunkOffset d' = chunkOffset d" "writeChunkWithTagsToNAND d' = writeChunkWithTagsToNAND d" by blast+
qed

subsection \<open>Properties\<close>

text \<open>
  C6. Writing a new chunk returns: on a YAFFS2 device with a consistent block table, whatever the driver
  answers to writes, reads and erasures, the retry loop ends and leaves a consistent block table with no
  working buffer in use.
\<close>

theorem WriteNewChunk_returns:
  assumes "block_inv dev" and "io_ok dev" and "\<not> cfg_verify_erase cfg"
  shows "\<exists>chunk tags' dev'. yaffs_WriteNewChunkWithTagsToNAND cfg dev data tags useReserve = Some (chunk, tags', dev') \<and>
    block_inv dev' \<and> io_ok dev'"
proof -
  have n: "nand_ok dev" using assms(2) by (simp add: io_ok_def)
  obtain d where d: "yaffs_InvalidateCheckpoint dev = Some d" "block_inv d" using InvalidateCheckpoint_ok [OF assms(1) n] by blast
  have "io_ok d" using io_ok_cong [OF InvalidateCheckpoint_io [OF d(1)]] assms(2) by simp
  then obtain chunk a t e where e: "write_loop cfg data useReserve 0 tags d = Some (chunk, a, t, e)" "block_inv e" "io_ok e"
    using write_loop_returns [OF d(2) _ assms(3)] by blast
  let ?f = "e\<lparr>nRetriedWrites := nRetriedWrites e + (a - 1)\<rparr>"
  have "block_inv ?f" using e(2) by (rule block_inv_cong [THEN iffD2, rotated]) (simp add: inv_view_def bits_view_def)
  moreover have "io_ok ?f" using e(3) by (rule io_ok_cong [THEN iffD2, rotated]) simp
  ultimately show ?thesis using d(1) e by (auto simp: yaffs_WriteNewChunkWithTagsToNAND_def)
qed


text \<open>The sample device with a driver that answers writes and erasures with \<open>r\<close>; the failing one has \<open>r = 0\<close>.\<close>

definition driven_device :: "int \<Rightarrow> unit yaffs_Device \<Rightarrow> unit yaffs_Device" where
  "driven_device r dev = (sample_blocks dev)\<lparr>eraseBlockInNAND := Some (\<lambda>n b. (r, n)), markNANDBlockBad := Some (\<lambda>n b. (1, n)),
     writeChunkWithTagsToNAND := Some (\<lambda>n c d t. (r, n)),
     readChunkWithTagsFromNAND := Some (\<lambda>n c w. (1, replicate 512 0xFF, yaffs_InitialiseTags, n)), nDataBytesPerChunk := 512,
     tempBuffer := map (\<lambda>i. \<lparr>tb_buffer = i, tb_line = 0, tb_maxLine = 0\<rparr>) [1, 2, 3, 4], isCheckpointed := False\<rparr>"

lemma driven_device_ok: "block_inv (driven_device r dev)" "io_ok (driven_device r dev)"
proof -
  have "inv_view (driven_device r dev) = inv_view (sample_blocks dev)" by (simp add: driven_device_def inv_view_def bits_view_def)
  from block_inv_cong [OF this] show "block_inv (driven_device r dev)" using sample_blocks_inv by blast
  show "io_ok (driven_device r dev)"
    by (auto simp: io_ok_def driven_device_def nand_ok_def reads_pages_def wf_pool_def held_def sample_blocks_def YAFFS_N_TEMP_BUFFERS_def)
qed

theorem WriteNewChunk_returns_witness:
  "\<forall>cfg (dev :: unit yaffs_Device) data tags. \<exists>chunk tags' dev'.
     yaffs_WriteNewChunkWithTagsToNAND (cfg\<lparr>cfg_verify_erase := False\<rparr>) (driven_device 0 dev) data tags False = Some (chunk, tags', dev') \<and> block_inv dev'"
proof (intro allI)
  fix cfg :: yaffs_Config and dev :: "unit yaffs_Device" and data :: "u8 list" and tags :: yaffs_ExtendedTags
  have "\<not> cfg_verify_erase (cfg\<lparr>cfg_verify_erase := False\<rparr>)" by simp
  from WriteNewChunk_returns [OF driven_device_ok this]
  show "\<exists>chunk tags' dev'. yaffs_WriteNewChunkWithTagsToNAND (cfg\<lparr>cfg_verify_erase := False\<rparr>) (driven_device 0 dev) data tags False =
      Some (chunk, tags', dev') \<and> block_inv dev'" by blast
qed


end
