(* ===== verification/Objects.thy ===== *)
theory Objects
  imports Tnodes
begin

section \<open>Objects\<close>

text \<open>
  The objects of the file system (files, directories, symbolic links, hard links, special files) and the
  hash table that finds them by number: the object part of \<^verbatim>\<open>yaffs_guts.c\<close>.  The state is the device
  together with a store of objects: a pointer to an object is its address (addresses are counted in
  objects, so the array that one allocation returns is a range of them).  C's doubly linked lists are
  lists of addresses; whether an object is in some list (\<^verbatim>\<open>!list_empty(&obj->hashLink)\<close>) is a flag of
  the object.  The union \<open>variant\<close> is a datatype: using the wrong member is undefined, so \<open>None\<close>.
  \<^verbatim>\<open>removeObjectCallback\<close> is NULL in the kernel.
\<close>

type_synonym yaffs_addr = nat

datatype yaffs_ObjectVariant =
    NoVariant
  | FileVariant yaffs_FileStructure
  | DirectoryVariant (children: "yaffs_addr list")
  | SymLinkVariant (link_alias: "u8 list option")
  | HardLinkVariant (equivalentObject: "yaffs_addr option") (equivalentObjectId: u32)

record yaffs_Object =
  deleted :: bool
  softDeleted :: bool
  unlinked :: bool
  fake :: bool
  renameAllowed :: bool
  unlinkAllowed :: bool
  dirty :: bool
  valid :: bool
  lazyLoaded :: bool
  deferedFree :: bool
  serial :: u8
  name_sum :: u16
  hash_linked :: bool
  hardLinks :: "yaffs_addr list"
  parent :: "yaffs_addr option"
  sibling_linked :: bool
  obj_chunkId :: int
  nDataChunks :: int
  obj_objectId :: u32
  yst_mode :: u32
  shortName :: "u8 list"
  yst_uid :: u32
  yst_gid :: u32
  yst_atime :: u32
  yst_mtime :: u32
  yst_ctime :: u32
  yst_rdev :: u32
  myInode :: bool
  variantType :: u32
  variant :: yaffs_ObjectVariant

text \<open>\<^verbatim>\<open>memset(tn, 0, sizeof(yaffs_Object))\<close>\<close>

definition zero_object :: yaffs_Object where
  "zero_object = \<lparr>deleted = False, softDeleted = False, unlinked = False, fake = False, renameAllowed = False,
     unlinkAllowed = False, dirty = False, valid = False, lazyLoaded = False, deferedFree = False, serial = 0,
     name_sum = 0, hash_linked = False, hardLinks = [], parent = None, sibling_linked = False, obj_chunkId = 0,
     nDataChunks = 0, obj_objectId = 0, yst_mode = 0, shortName = [], yst_uid = 0, yst_gid = 0, yst_atime = 0,
     yst_mtime = 0, yst_ctime = 0, yst_rdev = 0, myInode = False, variantType = 0, variant = NoVariant\<rparr>"

record yaffs_ObjectBucket =
  bucket_list :: "yaffs_addr list"
  bucket_count :: int

text \<open>
  \<open>bucket_x\<close> is the static variable of \<open>yaffs_FindNiceObjectBucket\<close>, \<open>current_time\<close> what
  \<^verbatim>\<open>Y_CURRENT_TIME\<close> gives.
\<close>

record 'n yaffs_State =
  the_dev :: "'n yaffs_Device"
  objs :: "yaffs_addr \<Rightarrow> yaffs_Object option"
  freeObjects :: "yaffs_addr list"
  objectBucket :: "yaffs_ObjectBucket list"
  rootDir :: "yaffs_addr option"
  lostNFoundDir :: "yaffs_addr option"
  unlinkedDir :: "yaffs_addr option"
  deletedDir :: "yaffs_addr option"
  unlinkedDeletion :: "yaffs_addr option"
  gcCleanupList :: "u32 list"
  bucket_x :: int
  current_time :: u32

abbreviation (input) "YAFFS_NOBJECT_BUCKETS \<equiv> (256 :: nat)"
abbreviation (input) "YAFFS_ALLOCATION_NOBJECTS \<equiv> (100 :: int)"
abbreviation (input) "YAFFS_MAX_NAME_LENGTH \<equiv> (255 :: nat)"
abbreviation (input) "YAFFS_MAX_ALIAS_LENGTH \<equiv> (159 :: nat)"
abbreviation (input) "YAFFS_SHORT_NAME_LENGTH \<equiv> (15 :: nat)"
abbreviation (input) "YAFFS_OBJECT_TYPE_UNKNOWN \<equiv> (0 :: u32)"

definition set_obj :: "'n yaffs_State \<Rightarrow> yaffs_addr \<Rightarrow> yaffs_Object \<Rightarrow> 'n yaffs_State" where
  "set_obj fs a ob = fs\<lparr>objs := (objs fs)(a := Some ob)\<rparr>"

text \<open>An update of the object behind a pointer.\<close>

definition upd_obj :: "(yaffs_Object \<Rightarrow> yaffs_Object) \<Rightarrow> yaffs_addr \<Rightarrow> 'n yaffs_State \<Rightarrow> 'n yaffs_State option" where
  "upd_obj f a fs = do { ob \<leftarrow> objs fs a; Some (set_obj fs a (f ob)) }"

subsection \<open>Names\<close>

text \<open>A name is the bytes before the terminating zero; the sum takes at most its first 126 characters.\<close>

primrec CalcNameSum_loop :: "u8 list \<Rightarrow> u16 \<Rightarrow> u16 \<Rightarrow> u16" where
  "CalcNameSum_loop [] i acc = acc"
| "CalcNameSum_loop (b # bs) i acc =
     (if b \<noteq> 0 \<and> i < of_nat (YAFFS_MAX_NAME_LENGTH div 2) then CalcNameSum_loop bs (i + 1) (acc + ucast b * i) else acc)"

definition yaffs_CalcNameSum :: "u8 list option \<Rightarrow> u16" where
  "yaffs_CalcNameSum name = (case name of None \<Rightarrow> 0 | Some bname \<Rightarrow> CalcNameSum_loop bname 1 0)"

definition yaffs_SetObjectName :: "yaffs_Object \<Rightarrow> u8 list option \<Rightarrow> yaffs_Object" where
  "yaffs_SetObjectName ob name =
     ob\<lparr>shortName := (case name of Some n \<Rightarrow> if length n \<le> YAFFS_SHORT_NAME_LENGTH then n else [] | None \<Rightarrow> []),
        name_sum := yaffs_CalcNameSum name\<rparr>"

subsection \<open>Directories\<close>

text \<open>\<^verbatim>\<open>list_del_init(&obj->siblings)\<close>: the object leaves the directory it is in.\<close>

definition drop_child :: "yaffs_addr \<Rightarrow> yaffs_Object \<Rightarrow> yaffs_Object" where
  "drop_child a ob = (case variant ob of DirectoryVariant ch \<Rightarrow> ob\<lparr>variant := DirectoryVariant (removeAll a ch)\<rparr> | _ \<Rightarrow> ob)"

definition del_siblings :: "yaffs_addr \<Rightarrow> 'n yaffs_State \<Rightarrow> 'n yaffs_State option" where
  "del_siblings a fs = upd_obj (\<lambda>ob. ob\<lparr>sibling_linked := False\<rparr>) a (fs\<lparr>objs := (\<lambda>x. map_option (drop_child a) (objs fs x))\<rparr>)"

definition yaffs_RemoveObjectFromDirectory :: "yaffs_addr \<Rightarrow> 'n yaffs_State \<Rightarrow> 'n yaffs_State option" where
  "yaffs_RemoveObjectFromDirectory obj fs = do { fs \<leftarrow> del_siblings obj fs; upd_obj (\<lambda>ob. ob\<lparr>parent := None\<rparr>) obj fs }"

text \<open>\<^verbatim>\<open>list_add(&obj->siblings, &directory->variant.directoryVariant.children)\<close>\<close>

definition add_child :: "yaffs_addr \<Rightarrow> yaffs_addr \<Rightarrow> 'n yaffs_State \<Rightarrow> 'n yaffs_State option" where
  "add_child directory obj fs =
     do { d \<leftarrow> objs fs directory;
          case variant d of
            DirectoryVariant ch \<Rightarrow>
              upd_obj (\<lambda>ob. ob\<lparr>sibling_linked := True\<rparr>) obj (set_obj fs directory (d\<lparr>variant := DirectoryVariant (obj # ch)\<rparr>))
          | _ \<Rightarrow> None }"

definition yaffs_AddObjectToDirectory :: "yaffs_addr option \<Rightarrow> yaffs_addr \<Rightarrow> 'n yaffs_State \<Rightarrow> 'n yaffs_State option" where
  "yaffs_AddObjectToDirectory directory obj fs =
     do { dir \<leftarrow> directory;
          ob \<leftarrow> objs fs obj;
          fs \<leftarrow> (if sibling_linked ob then yaffs_RemoveObjectFromDirectory obj fs else Some fs);
          fs \<leftarrow> add_child dir obj fs;
          fs \<leftarrow> upd_obj (\<lambda>ob. ob\<lparr>parent := Some dir\<rparr>) obj fs;
          if directory = unlinkedDir fs \<or> directory = deletedDir fs then
            upd_obj (\<lambda>ob. ob\<lparr>unlinked := True, renameAllowed := False\<rparr>) obj
              (fs\<lparr>the_dev := (the_dev fs)\<lparr>nUnlinkedFiles := nUnlinkedFiles (the_dev fs) + 1\<rparr>\<rparr>)
          else Some fs }"

subsection \<open>Allocation of objects\<close>

definition yaffs_CreateFreeObjects :: "int \<Rightarrow> 'n yaffs_State \<Rightarrow> int \<times> 'n yaffs_State" where
  "yaffs_CreateFreeObjects nObjects fs =
     (if nObjects < 1 then (YAFFS_OK, fs)
      else
        (let (newObjects, dev) = YMALLOC (the_dev fs);
             (lst, dev) = YMALLOC dev
         in if newObjects = 0 \<or> lst = 0 then (YAFFS_FAIL, fs\<lparr>the_dev := dev\<rparr>)
            else
              (YAFFS_OK, fs\<lparr>freeObjects := [newObjects..<newObjects + nat nObjects] @ freeObjects fs,
                 the_dev := dev\<lparr>nFreeObjects := nFreeObjects dev + nObjects, nObjectsCreated := nObjectsCreated dev + nObjects,
                                allocatedObjectList := newObjects # allocatedObjectList dev\<rparr>\<rparr>)))"

definition yaffs_AllocateEmptyObject :: "'n yaffs_State \<Rightarrow> (yaffs_addr option \<times> 'n yaffs_State) option" where
  "yaffs_AllocateEmptyObject fs =
     (let fs = (if freeObjects fs = [] then snd (yaffs_CreateFreeObjects YAFFS_ALLOCATION_NOBJECTS fs) else fs)
      in case freeObjects fs of
           [] \<Rightarrow> Some (None, fs)
         | tn # rest \<Rightarrow>
             (let fs = set_obj (fs\<lparr>freeObjects := rest, the_dev := (the_dev fs)\<lparr>nFreeObjects := nFreeObjects (the_dev fs) - 1\<rparr>\<rparr>) tn
                         (zero_object\<lparr>obj_chunkId := -1, variantType := YAFFS_OBJECT_TYPE_UNKNOWN\<rparr>)
              in do { fs \<leftarrow> (if lostNFoundDir fs \<noteq> None then yaffs_AddObjectToDirectory (lostNFoundDir fs) tn fs else Some fs);
                      Some (Some tn, fs) }))"

subsection \<open>The hash table\<close>

text \<open>\<^verbatim>\<open>abs\<close> of the most negative integer is left as it is by the processors this runs on.\<close>

definition yaffs_HashFunction :: "u32 \<Rightarrow> nat" where
  "yaffs_HashFunction n = nat (\<bar>sint n\<bar> mod int YAFFS_NOBJECT_BUCKETS)"

definition upd_bucket :: "(yaffs_ObjectBucket \<Rightarrow> yaffs_ObjectBucket) \<Rightarrow> nat \<Rightarrow> 'n yaffs_State \<Rightarrow> 'n yaffs_State option" where
  "upd_bucket f b fs =
     (if b < length (objectBucket fs) then Some (fs\<lparr>objectBucket := (objectBucket fs)[b := f (objectBucket fs ! b)]\<rparr>) else None)"

definition yaffs_HashObject :: "yaffs_addr \<Rightarrow> 'n yaffs_State \<Rightarrow> 'n yaffs_State option" where
  "yaffs_HashObject a fs =
     do { ob \<leftarrow> objs fs a;
          upd_bucket (\<lambda>bk. \<lparr>bucket_list = a # bucket_list bk, bucket_count = bucket_count bk + 1\<rparr>) (yaffs_HashFunction (obj_objectId ob))
            (set_obj fs a (ob\<lparr>hash_linked := True\<rparr>)) }"

text \<open>\<^verbatim>\<open>list_del_init\<close> takes the object out of whichever list it is in; the count is that of its number's bucket.\<close>

definition yaffs_UnhashObject :: "yaffs_addr \<Rightarrow> 'n yaffs_State \<Rightarrow> 'n yaffs_State option" where
  "yaffs_UnhashObject a fs =
     do { ob \<leftarrow> objs fs a;
          if hash_linked ob then
            upd_bucket (\<lambda>bk. bk\<lparr>bucket_count := bucket_count bk - 1\<rparr>) (yaffs_HashFunction (obj_objectId ob))
              ((set_obj fs a (ob\<lparr>hash_linked := False\<rparr>))
                 \<lparr>objectBucket := map (\<lambda>bk. bk\<lparr>bucket_list := removeAll a (bucket_list bk)\<rparr>) (objectBucket fs)\<rparr>)
          else Some fs }"

text \<open>An object that an inode still uses is only marked.\<close>

definition yaffs_FreeObject :: "yaffs_addr \<Rightarrow> 'n yaffs_State \<Rightarrow> 'n yaffs_State option" where
  "yaffs_FreeObject tn fs =
     do { ob \<leftarrow> objs fs tn;
          if myInode ob then Some (set_obj fs tn (ob\<lparr>deferedFree := True\<rparr>))
          else do {
            fs \<leftarrow> yaffs_UnhashObject tn fs;
            Some (fs\<lparr>freeObjects := tn # freeObjects fs, the_dev := (the_dev fs)\<lparr>nFreeObjects := nFreeObjects (the_dev fs) + 1\<rparr>\<rparr>) } }"

definition yaffs_HandleDeferedFree :: "yaffs_addr \<Rightarrow> 'n yaffs_State \<Rightarrow> 'n yaffs_State option" where
  "yaffs_HandleDeferedFree a fs = do { ob \<leftarrow> objs fs a; if deferedFree ob then yaffs_FreeObject a fs else Some fs }"

definition yaffs_DeinitialiseObjects :: "'n yaffs_State \<Rightarrow> 'n yaffs_State" where
  "yaffs_DeinitialiseObjects fs =
     fs\<lparr>objs := (\<lambda>_. None), freeObjects := [], the_dev := (the_dev fs)\<lparr>allocatedObjectList := [], nFreeObjects := 0\<rparr>\<rparr>"

definition yaffs_InitialiseObjects :: "'n yaffs_State \<Rightarrow> 'n yaffs_State" where
  "yaffs_InitialiseObjects fs =
     fs\<lparr>freeObjects := [], the_dev := (the_dev fs)\<lparr>allocatedObjectList := [], nFreeObjects := 0\<rparr>,
        objectBucket := replicate YAFFS_NOBJECT_BUCKETS \<lparr>bucket_list = [], bucket_count = 0\<rparr>\<rparr>"

primrec nice_loop :: "int \<Rightarrow> nat \<Rightarrow> yaffs_ObjectBucket list \<Rightarrow> int \<Rightarrow> int \<Rightarrow> int \<Rightarrow> (int \<times> int \<times> int) option" where
  "nice_loop stop 0 bks x l lowest = Some (x, l, lowest)"
| "nice_loop stop (Suc n) bks x l lowest =
     (if lowest > stop then
        (let x = cmod (x + 1) (int YAFFS_NOBJECT_BUCKETS)
         in if 0 \<le> x \<and> x < int (length bks) then
              if bucket_count (bks ! nat x) < lowest then nice_loop stop n bks x x (bucket_count (bks ! nat x))
              else nice_loop stop n bks x l lowest
            else None)
      else Some (x, l, lowest))"

definition yaffs_FindNiceObjectBucket :: "'n yaffs_State \<Rightarrow> (int \<times> 'n yaffs_State) option" where
  "yaffs_FindNiceObjectBucket fs =
     do { (x, l, lowest) \<leftarrow> nice_loop 0 10 (objectBucket fs) (bucket_x fs) 999 999999;
          (x, l, lowest) \<leftarrow> nice_loop 3 10 (objectBucket fs) x l lowest;
          Some (l, fs\<lparr>bucket_x := x\<rparr>) }"

text \<open>The search for a number that no object of the bucket has; it need not end.\<close>

partial_function (option) new_number_loop :: "u32 list \<Rightarrow> u32 \<Rightarrow> u32 option" where
  "new_number_loop ids n =
     (let n = n + of_nat YAFFS_NOBJECT_BUCKETS in if n \<in> set ids then new_number_loop ids n else Some n)"

definition bucket_ids :: "'n yaffs_State \<Rightarrow> int \<Rightarrow> u32 list option" where
  "bucket_ids fs b =
     (if 0 \<le> b \<and> b < int (length (objectBucket fs)) then
        those (map (\<lambda>a. map_option obj_objectId (objs fs a)) (bucket_list (objectBucket fs ! nat b)))
      else None)"

definition yaffs_CreateNewObjectNumber :: "'n yaffs_State \<Rightarrow> (u32 \<times> 'n yaffs_State) option" where
  "yaffs_CreateNewObjectNumber fs =
     do { (bucket, fs) \<leftarrow> yaffs_FindNiceObjectBucket fs;
          ids \<leftarrow> bucket_ids fs bucket;
          n \<leftarrow> new_number_loop ids (word_of_int bucket);
          Some (n, fs) }"

primrec find_number_loop :: "yaffs_addr list \<Rightarrow> u32 \<Rightarrow> (yaffs_addr \<Rightarrow> yaffs_Object option) \<Rightarrow> yaffs_addr option option" where
  "find_number_loop [] number st = Some None"
| "find_number_loop (a # as) number st =
     do { ob \<leftarrow> st a;
          if obj_objectId ob = number then Some (if deferedFree ob then None else Some a) else find_number_loop as number st }"

definition yaffs_FindObjectByNumber :: "'n yaffs_State \<Rightarrow> u32 \<Rightarrow> yaffs_addr option option" where
  "yaffs_FindObjectByNumber fs number =
     (let b = yaffs_HashFunction number
      in if b < length (objectBucket fs) then find_number_loop (bucket_list (objectBucket fs ! b)) number (objs fs) else None)"

subsection \<open>Creating objects\<close>

definition new_file_structure :: "yaffs_Tnode option \<Rightarrow> yaffs_FileStructure" where
  "new_file_structure tn = \<lparr>fileSize = 0, scannedFileSize = 0, shrinkSize = 0xFFFFFFFF, topLevel = 0, top_tnode = tn\<rparr>"

text \<open>\<open>tn\<close> is the tnode a file starts with.\<close>

definition initial_variant :: "u32 \<Rightarrow> yaffs_Tnode option \<Rightarrow> yaffs_ObjectVariant" where
  "initial_variant type tn =
     (if type = YAFFS_OBJECT_TYPE_FILE then FileVariant (new_file_structure tn)
      else if type = YAFFS_OBJECT_TYPE_DIRECTORY then DirectoryVariant []
      else if type = YAFFS_OBJECT_TYPE_SYMLINK then SymLinkVariant None
      else if type = YAFFS_OBJECT_TYPE_HARDLINK then HardLinkVariant None 0
      else NoVariant)"

definition yaffs_CreateNewObject :: "int \<Rightarrow> u32 \<Rightarrow> 'n yaffs_State \<Rightarrow> (yaffs_addr option \<times> 'n yaffs_State) option" where
  "yaffs_CreateNewObject number type fs =
     do { (number, fs) \<leftarrow> (if number < 0 then yaffs_CreateNewObjectNumber fs else Some (word_of_int number, fs));
          (theObject, fs) \<leftarrow> yaffs_AllocateEmptyObject fs;
          case theObject of
            None \<Rightarrow> Some (None, fs)
          | Some a \<Rightarrow>
              (let (tn, fs) = (if type = YAFFS_OBJECT_TYPE_FILE then
                                 (let (tn, dev) = yaffs_GetTnode (the_dev fs) (empty_level0 (the_dev fs)) in (tn, fs\<lparr>the_dev := dev\<rparr>))
                               else (None, fs))
               in if type = YAFFS_OBJECT_TYPE_FILE \<and> tn = None then do { fs \<leftarrow> yaffs_FreeObject a fs; Some (None, fs) }
                  else do {
                    fs \<leftarrow> upd_obj (\<lambda>ob. ob\<lparr>fake := False, renameAllowed := True, unlinkAllowed := True, obj_objectId := number\<rparr>) a fs;
                    fs \<leftarrow> yaffs_HashObject a fs;
                    fs \<leftarrow> upd_obj (\<lambda>ob. ob\<lparr>variantType := type, yst_atime := current_time fs, yst_mtime := current_time fs,
                                            yst_ctime := current_time fs, variant := initial_variant type tn\<rparr>) a fs;
                    Some (Some a, fs) }) }"

definition yaffs_FindOrCreateObjectByNumber :: "int \<Rightarrow> u32 \<Rightarrow> 'n yaffs_State \<Rightarrow> (yaffs_addr option \<times> 'n yaffs_State) option" where
  "yaffs_FindOrCreateObjectByNumber number type fs =
     do { theObject \<leftarrow> (if number > 0 then yaffs_FindObjectByNumber fs (word_of_int number) else Some None);
          if theObject \<noteq> None then Some (theObject, fs) else yaffs_CreateNewObject number type fs }"

definition yaffs_CreateFakeDirectory :: "int \<Rightarrow> u32 \<Rightarrow> 'n yaffs_State \<Rightarrow> (yaffs_addr option \<times> 'n yaffs_State) option" where
  "yaffs_CreateFakeDirectory number mode fs =
     do { (obj, fs) \<leftarrow> yaffs_CreateNewObject number YAFFS_OBJECT_TYPE_DIRECTORY fs;
          case obj of
            None \<Rightarrow> Some (None, fs)
          | Some a \<Rightarrow> do {
              fs \<leftarrow> upd_obj (\<lambda>ob. ob\<lparr>fake := True, renameAllowed := False, unlinkAllowed := False, deleted := False,
                                       unlinked := False, yst_mode := mode, obj_chunkId := 0\<rparr>) a fs;
              Some (Some a, fs) } }"

abbreviation (input) "S_IFDIR \<equiv> (0x4000 :: u32)"
abbreviation (input) "YAFFS_ROOT_MODE \<equiv> (0x1B6 :: u32)"
abbreviation (input) "YAFFS_LOSTNFOUND_MODE \<equiv> (0x1B6 :: u32)"

definition yaffs_CreateInitialDirectories :: "'n yaffs_State \<Rightarrow> (int \<times> 'n yaffs_State) option" where
  "yaffs_CreateInitialDirectories fs =
     do { let fs = fs\<lparr>lostNFoundDir := None, rootDir := None, unlinkedDir := None, deletedDir := None\<rparr>;
          (d, fs) \<leftarrow> yaffs_CreateFakeDirectory (uint YAFFS_OBJECTID_UNLINKED) S_IFDIR fs;
          let fs = fs\<lparr>unlinkedDir := d\<rparr>;
          (d, fs) \<leftarrow> yaffs_CreateFakeDirectory (uint YAFFS_OBJECTID_DELETED) S_IFDIR fs;
          let fs = fs\<lparr>deletedDir := d\<rparr>;
          (d, fs) \<leftarrow> yaffs_CreateFakeDirectory (uint YAFFS_OBJECTID_ROOT) (YAFFS_ROOT_MODE OR S_IFDIR) fs;
          let fs = fs\<lparr>rootDir := d\<rparr>;
          (d, fs) \<leftarrow> yaffs_CreateFakeDirectory (uint YAFFS_OBJECTID_LOSTNFOUND) (YAFFS_LOSTNFOUND_MODE OR S_IFDIR) fs;
          let fs = fs\<lparr>lostNFoundDir := d\<rparr>;
          if lostNFoundDir fs \<noteq> None \<and> rootDir fs \<noteq> None \<and> unlinkedDir fs \<noteq> None \<and> deletedDir fs \<noteq> None then do {
            l \<leftarrow> lostNFoundDir fs;
            fs \<leftarrow> yaffs_AddObjectToDirectory (rootDir fs) l fs;
            Some (YAFFS_OK, fs) }
          else Some (YAFFS_FAIL, fs) }"

end
