(* ===== verification/ObjectHash.thy ===== *)
theory ObjectHash
  imports Objects
begin

section \<open>The object table is a map\<close>

text \<open>
  The hash table of objects implements a map from object numbers to objects: hashing and unhashing an
  object are insertion and removal, and a look-up gives the object of a number unless it is only kept
  for its inode.  New object numbers are unused, and the search for one ends.
\<close>

subsection \<open>The invariant\<close>

definition id_of :: "'n yaffs_State \<Rightarrow> yaffs_addr \<Rightarrow> u32 option" where
  "id_of fs a = map_option obj_objectId (objs fs a)"

definition bucket :: "'n yaffs_State \<Rightarrow> nat \<Rightarrow> yaffs_addr list" where
  "bucket fs b = bucket_list (objectBucket fs ! b)"

definition bucket_ok :: "'n yaffs_State \<Rightarrow> nat \<Rightarrow> bool" where
  "bucket_ok fs b \<longleftrightarrow> bucket_count (objectBucket fs ! b) = int (length (bucket fs b)) \<and> distinct (map (id_of fs) (bucket fs b)) \<and>
     (\<forall>a \<in> set (bucket fs b). \<exists>ob. objs fs a = Some ob \<and> hash_linked ob \<and> yaffs_HashFunction (obj_objectId ob) = b)"

definition hash_inv :: "'n yaffs_State \<Rightarrow> bool" where
  "hash_inv fs \<longleftrightarrow> length (objectBucket fs) = YAFFS_NOBJECT_BUCKETS \<and> (\<forall>b < YAFFS_NOBJECT_BUCKETS. bucket_ok fs b) \<and>
     (\<forall>a ob. objs fs a = Some ob \<longrightarrow> hash_linked ob \<longrightarrow> a \<in> set (bucket fs (yaffs_HashFunction (obj_objectId ob))))"

text \<open>The map the table stands for.\<close>

definition table :: "'n yaffs_State \<Rightarrow> u32 \<Rightarrow> yaffs_addr option" where
  "table fs n = List.find (\<lambda>a. id_of fs a = Some n) (bucket fs (yaffs_HashFunction n))"

lemma yaffs_HashFunction_less [simp]: "yaffs_HashFunction n < YAFFS_NOBJECT_BUCKETS"
  by (simp add: yaffs_HashFunction_def nat_less_iff)

lemma hash_invD:
  assumes "hash_inv fs"
  shows "length (objectBucket fs) = YAFFS_NOBJECT_BUCKETS" "\<And>b. b < YAFFS_NOBJECT_BUCKETS \<Longrightarrow> bucket_ok fs b"
    "\<And>a ob. objs fs a = Some ob \<Longrightarrow> hash_linked ob \<Longrightarrow> a \<in> set (bucket fs (yaffs_HashFunction (obj_objectId ob)))"
  using assms by (auto simp: hash_inv_def)

lemma find_distinct:
  assumes "distinct (map f xs)" "a \<in> set xs" "f a = y" shows "List.find (\<lambda>x. f x = y) xs = Some a"
  using assms by (induction xs) auto

lemma find_map_None: "List.find (\<lambda>x. f x = y) xs = None \<longleftrightarrow> y \<notin> f ` set xs"
  by (auto simp: find_None_iff)

lemma table_Some:
  assumes "hash_inv fs"
  shows "table fs n = Some a \<longleftrightarrow> (\<exists>ob. objs fs a = Some ob \<and> hash_linked ob \<and> obj_objectId ob = n)"
proof
  let ?b = "yaffs_HashFunction n"
  note ok = hash_invD(2) [OF assms, of ?b, simplified]
  {
    assume "table fs n = Some a"
    then have "a \<in> set (bucket fs ?b)" "id_of fs a = Some n" by (auto simp: table_def find_Some_iff)
    then show "\<exists>ob. objs fs a = Some ob \<and> hash_linked ob \<and> obj_objectId ob = n"
      using ok by (auto simp: bucket_ok_def id_of_def)
  next
    assume "\<exists>ob. objs fs a = Some ob \<and> hash_linked ob \<and> obj_objectId ob = n"
    then obtain ob where ob: "objs fs a = Some ob" "hash_linked ob" "obj_objectId ob = n" by blast
    have "a \<in> set (bucket fs ?b)" using hash_invD(3) [OF assms ob(1,2)] ob(3) by simp
    then show "table fs n = Some a" unfolding table_def
      by (rule find_distinct [rotated]) (use ob in \<open>simp add: id_of_def\<close>, use ok in \<open>simp add: bucket_ok_def\<close>)
  }
qed

lemma find_number_loop_eq:
  assumes "\<forall>a \<in> set as. \<exists>ob. st a = Some ob"
  shows "find_number_loop as n st = Some (case List.find (\<lambda>a. map_option obj_objectId (st a) = Some n) as of
     None \<Rightarrow> None | Some a \<Rightarrow> if deferedFree (the (st a)) then None else Some a)"
  using assms by (induction as) (auto split: option.splits)

lemma FindObjectByNumber_table:
  assumes "hash_inv fs"
  shows "yaffs_FindObjectByNumber fs n = Some (case table fs n of
     None \<Rightarrow> None | Some a \<Rightarrow> if deferedFree (the (objs fs a)) then None else Some a)"
proof -
  have "\<forall>a \<in> set (bucket fs (yaffs_HashFunction n)). \<exists>ob. objs fs a = Some ob"
    using hash_invD(2) [OF assms, of "yaffs_HashFunction n"] by (auto simp: bucket_ok_def)
  then show ?thesis
    using hash_invD(1) [OF assms]
    by (simp add: yaffs_FindObjectByNumber_def Let_def find_number_loop_eq table_def id_of_def bucket_def)
qed

subsection \<open>Hashing and unhashing\<close>

lemma table_eqI:
  assumes "hash_inv fs" "\<And>n a. m n = Some a \<longleftrightarrow> (\<exists>ob. objs fs a = Some ob \<and> hash_linked ob \<and> obj_objectId ob = n)"
  shows "table fs = m"
proof
  fix n
  have "\<And>a. table fs n = Some a \<longleftrightarrow> m n = Some a" using table_Some [OF assms(1)] assms(2) by blast
  then show "table fs n = m n" by (metis option.exhaust)
qed

lemma HashObject_law:
  assumes inv: "hash_inv fs" and ob: "objs fs a = Some ob" "\<not> hash_linked ob" and free: "table fs (obj_objectId ob) = None"
  shows "\<exists>fs'. yaffs_HashObject a fs = Some fs' \<and> hash_inv fs' \<and> table fs' = (table fs)(obj_objectId ob \<mapsto> a) \<and>
    objs fs' = (objs fs)(a \<mapsto> ob\<lparr>hash_linked := True\<rparr>)"
proof -
  let ?n = "obj_objectId ob" and ?b = "yaffs_HashFunction (obj_objectId ob)"
  note len = hash_invD(1) [OF inv]
  define fs' where "fs' = (set_obj fs a (ob\<lparr>hash_linked := True\<rparr>))\<lparr>objectBucket := (objectBucket fs)
    [?b := \<lparr>bucket_list = a # bucket fs ?b, bucket_count = bucket_count (objectBucket fs ! ?b) + 1\<rparr>]\<rparr>"
  have run: "yaffs_HashObject a fs = Some fs'"
    using ob len by (simp add: yaffs_HashObject_def upd_bucket_def fs'_def bucket_def set_obj_def)
  have o: "objs fs' = (objs fs)(a \<mapsto> ob\<lparr>hash_linked := True\<rparr>)" by (simp add: fs'_def set_obj_def)
  have ids: "id_of fs' = id_of fs" using ob by (auto simp: id_of_def o)
  have bk: "bucket fs' b = (if b = ?b then a # bucket fs b else bucket fs b)" if "b < 256" for b
    using that len by (simp add: fs'_def bucket_def)
  have cnt: "bucket_count (objectBucket fs' ! b) = (if b = ?b then bucket_count (objectBucket fs ! b) + 1 else bucket_count (objectBucket fs ! b))"
    if "b < 256" for b using that len by (simp add: fs'_def)
  have "bucket_ok fs' b" if b: "b < 256" for b
  proof -
    have "Some ?n \<notin> id_of fs ` set (bucket fs ?b)" using free by (simp add: table_def find_map_None)
    then show ?thesis
      using hash_invD(2) [OF inv, of b] b ob by (auto simp: bucket_ok_def bk cnt ids o id_of_def)
  qed
  moreover have "x \<in> set (bucket fs' (yaffs_HashFunction (obj_objectId ob')))" if "objs fs' x = Some ob'" "hash_linked ob'" for x ob'
    using that hash_invD(3) [OF inv, of x ob'] by (auto simp: o bk split: if_splits)
  ultimately have inv': "hash_inv fs'" using len by (simp add: hash_inv_def fs'_def)
  have unused: "obj_objectId ob' \<noteq> ?n" if "objs fs x = Some ob'" "hash_linked ob'" for x ob'
    using that free table_Some [OF inv, of ?n x] by auto
  have "table fs' = (table fs)(?n \<mapsto> a)"
    by (rule table_eqI [OF inv']) (use unused table_Some [OF inv] ob in \<open>auto simp: o split: if_splits\<close>)
  with run inv' o show ?thesis by blast
qed

lemma UnhashObject_law:
  assumes inv: "hash_inv fs" and ob: "objs fs a = Some ob" "hash_linked ob"
  shows "\<exists>fs'. yaffs_UnhashObject a fs = Some fs' \<and> hash_inv fs' \<and> table fs' = (table fs)(obj_objectId ob := None) \<and>
    objs fs' = (objs fs)(a \<mapsto> ob\<lparr>hash_linked := False\<rparr>)"
proof -
  let ?n = "obj_objectId ob" and ?b = "yaffs_HashFunction (obj_objectId ob)"
  note len = hash_invD(1) [OF inv]
  define bks where "bks = map (\<lambda>bk. bk\<lparr>bucket_list := removeAll a (bucket_list bk)\<rparr>) (objectBucket fs)"
  define fs' where "fs' = (set_obj fs a (ob\<lparr>hash_linked := False\<rparr>))\<lparr>objectBucket := bks[?b := (bks ! ?b)\<lparr>bucket_count := bucket_count (bks ! ?b) - 1\<rparr>]\<rparr>"
  have run: "yaffs_UnhashObject a fs = Some fs'"
    using ob len by (simp add: yaffs_UnhashObject_def upd_bucket_def fs'_def bks_def set_obj_def)
  have o: "objs fs' = (objs fs)(a \<mapsto> ob\<lparr>hash_linked := False\<rparr>)" by (simp add: fs'_def set_obj_def)
  have ids: "id_of fs' = id_of fs" using ob by (auto simp: id_of_def o)
  have bk: "bucket fs' b = removeAll a (bucket fs b)" if "b < 256" for b
    using that len by (simp add: fs'_def bks_def bucket_def nth_list_update)
  have cnt: "bucket_count (objectBucket fs' ! b) = (if b = ?b then bucket_count (objectBucket fs ! b) - 1 else bucket_count (objectBucket fs ! b))"
    if "b < 256" for b using that len by (simp add: fs'_def bks_def)
  have here: "a \<in> set (bucket fs ?b)" by (rule hash_invD(3) [OF inv ob])
  have only: "a \<in> set (bucket fs b) \<longleftrightarrow> b = ?b" if "b < 256" for b
    using hash_invD(2) [OF inv that] here ob by (auto simp: bucket_ok_def)
  have "bucket_ok fs' b" if b: "b < 256" for b
  proof -
    have ok: "bucket_ok fs b" by (rule hash_invD(2) [OF inv b])
    then have d: "distinct (bucket fs b)" by (simp add: bucket_ok_def distinct_map)
    have "distinct (map (id_of fs) (removeAll a (bucket fs b)))"
      using ok by (simp add: bucket_ok_def distinct_map inj_on_def distinct_removeAll)
    moreover have "int (length (removeAll a (bucket fs b))) = (if b = ?b then int (length (bucket fs b)) - 1 else int (length (bucket fs b)))"
    proof (cases "b = ?b")
      case True
      then obtain k where k: "length (bucket fs b) = Suc k" using here by (metis length_pos_if_in_set gr0_conv_Suc)
      show ?thesis using d only [OF b] True k by (simp flip: distinct_remove1_removeAll add: length_remove1)
    qed (use only [OF b] in simp)
    ultimately show ?thesis
      using ok b by (auto simp: bucket_ok_def bk cnt ids o)
  qed
  moreover have "x \<in> set (bucket fs' (yaffs_HashFunction (obj_objectId ob')))" if "objs fs' x = Some ob'" "hash_linked ob'" for x ob'
    using that hash_invD(3) [OF inv, of x ob'] by (auto simp: o bk split: if_splits)
  ultimately have inv': "hash_inv fs'" using len by (simp add: hash_inv_def fs'_def bks_def)
  have "table fs ?n = Some a" using table_Some [OF inv] ob by blast
  then have same: "x = a" if "objs fs x = Some ob'" "hash_linked ob'" "obj_objectId ob' = ?n" for x ob'
    using that table_Some [OF inv, of ?n x] by auto
  have "table fs' = (table fs)(?n := None)"
    by (rule table_eqI [OF inv']) (use table_Some [OF inv] same ob(1) in \<open>auto simp: o split: if_splits\<close>)
  with run inv' o show ?thesis by blast
qed

subsection \<open>The interface\<close>

text \<open>
  What the rest of the file system relies on: a table of objects by number.  \<open>entry\<close> is the number of an
  object and whether it is in the table.
\<close>

locale object_table =
  fixes wf :: "'s \<Rightarrow> bool" and tab :: "'s \<Rightarrow> 'k \<Rightarrow> 'a option" and entry :: "'s \<Rightarrow> 'a \<Rightarrow> ('k \<times> bool) option"
    and add :: "'a \<Rightarrow> 's \<Rightarrow> 's option" and del :: "'a \<Rightarrow> 's \<Rightarrow> 's option"
  assumes tab_entry: "wf s \<Longrightarrow> tab s k = Some a \<longleftrightarrow> entry s a = Some (k, True)"
    and add_law: "wf s \<Longrightarrow> entry s a = Some (k, False) \<Longrightarrow> tab s k = None \<Longrightarrow>
      \<exists>s'. add a s = Some s' \<and> wf s' \<and> tab s' = (tab s)(k \<mapsto> a) \<and> entry s' = (entry s)(a \<mapsto> (k, True))"
    and del_law: "wf s \<Longrightarrow> entry s a = Some (k, True) \<Longrightarrow>
      \<exists>s'. del a s = Some s' \<and> wf s' \<and> tab s' = (tab s)(k := None) \<and> entry s' = (entry s)(a \<mapsto> (k, False))"
begin

text \<open>Entering a list of objects with different unused numbers gives the table of them all.\<close>

primrec adds :: "'a list \<Rightarrow> 's \<Rightarrow> 's option" where
  "adds [] s = Some s"
| "adds (a # as) s = Option.bind (add a s) (adds as)"

lemma adds_law:
  assumes "wf s" "list_all2 (\<lambda>a k. entry s a = Some (k, False)) as ks" "distinct ks" "distinct as" "\<forall>k \<in> set ks. tab s k = None"
  shows "\<exists>s'. adds as s = Some s' \<and> wf s' \<and> tab s' = (tab s)(ks [\<mapsto>] as) \<and> entry s' = (entry s)(as [\<mapsto>] map (\<lambda>k. (k, True)) ks)"
  using assms
proof (induction as arbitrary: s ks)
  case (Cons a as)
  obtain k ks' where ks: "ks = k # ks'" using Cons.prems(2) by (auto simp: list_all2_Cons1)
  obtain t where t: "add a s = Some t" "wf t" "tab t = (tab s)(k \<mapsto> a)" "entry t = (entry s)(a \<mapsto> (k, True))"
    using add_law [OF Cons.prems(1), of a k] Cons.prems ks by auto
  have "list_all2 (\<lambda>a k. entry t a = Some (k, False)) as ks'"
  proof -
    have "list_all2 (\<lambda>a k. entry s a = Some (k, False)) as ks'" using Cons.prems(2) ks by simp
    then show ?thesis by (rule list.rel_mono_strong) (use Cons.prems(4) t(4) in auto)
  qed
  moreover have "\<forall>k \<in> set ks'. tab t k = None" using Cons.prems ks t(3) by auto
  ultimately obtain u where "adds as t = Some u" "wf u" "tab u = (tab t)(ks' [\<mapsto>] as)" "entry u = (entry t)(as [\<mapsto>] map (\<lambda>k. (k, True)) ks')"
    using Cons.IH [OF t(2), of ks'] Cons.prems ks by auto
  then show ?case using t ks by simp
qed simp

text \<open>Removing an object that was just entered restores the table.\<close>

lemma add_del:
  assumes "wf s" "entry s a = Some (k, False)" "tab s k = None"
  shows "\<exists>s'. Option.bind (add a s) (del a) = Some s' \<and> wf s' \<and> tab s' = tab s"
proof -
  obtain t where t: "add a s = Some t" "wf t" "tab t = (tab s)(k \<mapsto> a)" "entry t = (entry s)(a \<mapsto> (k, True))"
    using add_law [OF assms] by blast
  then obtain u where "del a t = Some u" "wf u" "tab u = (tab t)(k := None)" using del_law [OF t(2), of a k] by auto
  moreover have "(tab t)(k := None) = tab s" using t(3) assms(3) by auto
  ultimately show ?thesis using t(1) by simp
qed

end

definition hash_entry :: "'n yaffs_State \<Rightarrow> yaffs_addr \<Rightarrow> (u32 \<times> bool) option" where
  "hash_entry fs a = map_option (\<lambda>ob. (obj_objectId ob, hash_linked ob)) (objs fs a)"

interpretation hash: object_table hash_inv table hash_entry yaffs_HashObject yaffs_UnhashObject
proof (unfold_locales, goal_cases)
  case (1 fs n a)
  then show ?case by (auto simp: table_Some hash_entry_def)
next
  case (2 fs a n)
  then obtain ob where "objs fs a = Some ob" "\<not> hash_linked ob" "obj_objectId ob = n" by (auto simp: hash_entry_def)
  with HashObject_law [OF 2(1), of a ob] 2(3) show ?case by (force simp: hash_entry_def)
next
  case (3 fs a n)
  then obtain ob where "objs fs a = Some ob" "hash_linked ob" "obj_objectId ob = n" by (auto simp: hash_entry_def)
  with UnhashObject_law [OF 3(1), of a ob] show ?case by (force simp: hash_entry_def)
qed

subsection \<open>New object numbers\<close>

lemma nice_loop_range:
  assumes "length bks = YAFFS_NOBJECT_BUCKETS" "0 \<le> x" "x < int YAFFS_NOBJECT_BUCKETS" "0 \<le> l \<and> l < 256 \<or> (\<forall>bk \<in> set bks. bucket_count bk < lowest) \<and> stop < lowest"
    "0 < n"
  shows "\<exists>x' l' lowest'. nice_loop stop n bks x l lowest = Some (x', l', lowest') \<and> 0 \<le> x' \<and> x' < 256 \<and> 0 \<le> l' \<and> l' < 256"
  using assms
proof (induction n arbitrary: x l lowest)
  case (Suc n)
  let ?x = "(x + 1) mod 256"
  have x: "0 \<le> ?x" "?x < 256" by simp_all
  have x1: "0 \<le> x + 1" using Suc.prems by simp
  show ?case
  proof (cases "lowest > stop")
    case True
    have step: "\<exists>x' l' lowest'. nice_loop stop n bks ?x l'' low = Some (x', l', lowest') \<and> 0 \<le> x' \<and> x' < 256 \<and> 0 \<le> l' \<and> l' < 256"
      if "0 \<le> l''" "l'' < 256" for l'' low
    proof (cases n)
      case 0
      then show ?thesis using that x by simp
    next
      case (Suc m)
      then show ?thesis using Suc.IH [of ?x l'' low] Suc.prems(1) that x by simp
    qed
    show ?thesis
    proof (cases "bucket_count (bks ! nat ?x) < lowest")
      case True
      then show ?thesis using step [of ?x "bucket_count (bks ! nat ?x)"] x x1 Suc.prems(1) \<open>lowest > stop\<close> by (simp add: Let_def)
    next
      case False
      moreover have "bks ! nat ?x \<in> set bks" using x Suc.prems(1) by simp
      ultimately have "0 \<le> l" "l < 256" using Suc.prems(4) by auto
      then show ?thesis using step [of l lowest] False x x1 Suc.prems(1) \<open>lowest > stop\<close> by (simp add: Let_def)
    qed
  next
    case False
    then show ?thesis using Suc.prems by auto
  qed
qed simp

text \<open>The candidates of the search, and the first of them that is free.\<close>

definition candidate :: "nat \<Rightarrow> nat \<Rightarrow> u32" where
  "candidate b k = of_nat (b + YAFFS_NOBJECT_BUCKETS * k)"

lemma candidate_step: "candidate b k + of_nat YAFFS_NOBJECT_BUCKETS = candidate b (Suc k)"
  by (simp add: candidate_def algebra_simps)

lemma new_number_loop_first:
  assumes "\<forall>j < k. candidate b (Suc i + j) \<in> set ids" "candidate b (Suc i + k) \<notin> set ids"
  shows "new_number_loop ids (candidate b i) = Some (candidate b (Suc i + k))"
  using assms
proof (induction k arbitrary: i)
  case 0
  then show ?case by (subst new_number_loop.simps) (simp only: Let_def candidate_step, simp)
next
  case (Suc k)
  have "candidate b (Suc i) \<in> set ids" using Suc.prems(1) by (metis add_0_right zero_less_Suc)
  moreover have "new_number_loop ids (candidate b (Suc i)) = Some (candidate b (Suc (Suc i) + k))"
    by (rule Suc.IH) (use Suc.prems in \<open>auto dest: spec [where x = "Suc _"]\<close>)
  ultimately show ?case by (subst new_number_loop.simps) (simp only: Let_def candidate_step, simp)
qed

lemma unat_candidate:
  assumes "b < YAFFS_NOBJECT_BUCKETS" "k < 2 ^ 23"
  shows "unat (candidate b k) = b + 256 * k" "sint (candidate b k) = int b + 256 * int k" "yaffs_HashFunction (candidate b k) = b"
proof -
  have less: "b + 256 * k < 2 ^ 31" using assms by simp
  then show u: "unat (candidate b k) = b + 256 * k" unfolding candidate_def by (subst unat_word_of_nat) simp_all
  have "sint (of_nat m :: u32) = signed_take_bit 31 (int m)" for m by (simp add: signed_of_nat)
  then have "sint (candidate b k) = signed_take_bit 31 (int (b + 256 * k))" unfolding candidate_def .
  also have "\<dots> = int (b + 256 * k)" by (rule signed_take_bit_int_eq_self) (use less in simp_all)
  finally show s: "sint (candidate b k) = int b + 256 * int k" by simp
  have "(int b + 256 * int k) mod 256 = int b" using assms(1) by simp
  then show "yaffs_HashFunction (candidate b k) = b" unfolding yaffs_HashFunction_def s by simp
qed

lemma free_candidate:
  assumes "b < YAFFS_NOBJECT_BUCKETS" "length ids < N" "N < 2 ^ 23"
  obtains k where "k < N" "\<forall>j < k. candidate b (Suc j) \<in> set ids" "candidate b (Suc k) \<notin> set ids"
proof -
  have inj: "inj_on (\<lambda>k. candidate b (Suc k)) {..<N}"
  proof (rule inj_onI)
    fix j k assume jk: "j \<in> {..<N}" "k \<in> {..<N}" and eq: "candidate b (Suc j) = candidate b (Suc k)"
    then have less: "Suc j < 2 ^ 23" "Suc k < 2 ^ 23" using assms(3) unfolding lessThan_iff by linarith+
    from eq have "b + 256 * Suc j = b + 256 * Suc k"
      unfolding unat_candidate(1) [OF assms(1) less(1), symmetric] unat_candidate(1) [OF assms(1) less(2), symmetric] by simp
    then show "j = k" by simp
  qed
  have "\<exists>k < N. candidate b (Suc k) \<notin> set ids"
  proof (rule ccontr)
    assume "\<not> ?thesis"
    then have "(\<lambda>k. candidate b (Suc k)) ` {..<N} \<subseteq> set ids" by auto
    from card_mono [OF _ this] have "N \<le> card (set ids)" using card_image [OF inj] by simp
    then show False using assms(2) card_length [of ids] by linarith
  qed
  then obtain k0 where k0: "k0 < N" "candidate b (Suc k0) \<notin> set ids" by blast
  define k where "k = (LEAST k. candidate b (Suc k) \<notin> set ids)"
  have "candidate b (Suc k) \<notin> set ids" unfolding k_def by (rule LeastI, rule k0(2))
  moreover have "k \<le> k0" unfolding k_def by (rule Least_le, rule k0(2))
  moreover have "\<forall>j < k. candidate b (Suc j) \<in> set ids" unfolding k_def using not_less_Least by blast
  ultimately show thesis using that k0(1) by (meson le_less_trans)
qed

lemma those_map_Some:
  "\<forall>a \<in> set as. \<exists>v. f a = Some v \<Longrightarrow> those (map f as) = Some (map (\<lambda>a. the (f a)) as)"
  by (induction as) auto

lemma FindNiceObjectBucket_ok:
  assumes "length (objectBucket fs) = YAFFS_NOBJECT_BUCKETS" "0 \<le> bucket_x fs" "bucket_x fs < 256"
    "\<forall>bk \<in> set (objectBucket fs). bucket_count bk < 999999"
  shows "\<exists>l x. yaffs_FindNiceObjectBucket fs = Some (l, fs\<lparr>bucket_x := x\<rparr>) \<and> 0 \<le> l \<and> l < 256 \<and> 0 \<le> x \<and> x < 256"
proof -
  obtain x l low where 1: "nice_loop 0 10 (objectBucket fs) (bucket_x fs) 999 999999 = Some (x, l, low)" "0 \<le> x" "x < 256" "0 \<le> l" "l < 256"
    using nice_loop_range [of "objectBucket fs" "bucket_x fs" 999 999999 0 10] assms by auto
  obtain x' l' low' where 2: "nice_loop 3 10 (objectBucket fs) x l low = Some (x', l', low')" "0 \<le> x'" "x' < 256" "0 \<le> l'" "l' < 256"
    using nice_loop_range [of "objectBucket fs" x l low 3 10] assms(1) 1 by auto
  show ?thesis using 1 2 by (auto simp: yaffs_FindNiceObjectBucket_def)
qed

lemma CreateNewObjectNumber_ok:
  assumes inv: "hash_inv fs" and x: "0 \<le> bucket_x fs" "bucket_x fs < 256" and small: "\<forall>bk \<in> set (objectBucket fs). bucket_count bk < 999999"
  shows "\<exists>n y. yaffs_CreateNewObjectNumber fs = Some (n, fs\<lparr>bucket_x := y\<rparr>) \<and> table fs n = None \<and> 256 \<le> sint n \<and> 0 \<le> y \<and> y < 256"
proof -
  note len = hash_invD(1) [OF inv]
  obtain l y where l: "yaffs_FindNiceObjectBucket fs = Some (l, fs\<lparr>bucket_x := y\<rparr>)" "0 \<le> l" "l < 256" "0 \<le> y" "y < 256"
    using FindNiceObjectBucket_ok [OF len x small] by blast
  define b where "b = nat l"
  have b: "b < YAFFS_NOBJECT_BUCKETS" "l = int b" using l by (simp_all add: b_def)
  note ok = hash_invD(2) [OF inv b(1)]
  define ids where "ids = map (\<lambda>a. the (id_of fs a)) (bucket fs b)"
  have "\<forall>a \<in> set (bucket fs b). \<exists>v. id_of fs a = Some v" using ok by (auto simp: bucket_ok_def id_of_def)
  from those_map_Some [OF this] have run_ids: "bucket_ids (fs\<lparr>bucket_x := y\<rparr>) l = Some ids"
    using b len by (simp add: bucket_ids_def ids_def bucket_def id_of_def)
  have "bucket_count (objectBucket fs ! b) < 999999" using small b len by simp
  then have short: "length ids < 999999" using ok by (simp add: ids_def bucket_ok_def)
  obtain k where k: "k < 999999" "\<forall>j < k. candidate b (Suc j) \<in> set ids" "candidate b (Suc k) \<notin> set ids"
    using free_candidate [OF b(1) short] by auto
  then have loop: "new_number_loop ids (candidate b 0) = Some (candidate b (Suc k))"
    using new_number_loop_first [of k b 0 ids] by simp
  have k23: "Suc k < 2 ^ 23" using k(1) by simp
  note C = unat_candidate [OF b(1) k23]
  have start: "word_of_int l = candidate b 0" by (simp add: candidate_def b(2))
  have run: "yaffs_CreateNewObjectNumber fs = Some (candidate b (Suc k), fs\<lparr>bucket_x := y\<rparr>)"
    using l(1) run_ids loop by (simp add: yaffs_CreateNewObjectNumber_def start)
  have "table fs (candidate b (Suc k)) = None"
  proof (rule ccontr)
    assume "table fs (candidate b (Suc k)) \<noteq> None"
    then obtain a where "a \<in> set (bucket fs b)" "id_of fs a = Some (candidate b (Suc k))"
      by (auto simp: table_def C(3) find_Some_iff) (metis nth_mem)
    then have "candidate b (Suc k) \<in> set ids" unfolding ids_def by force
    then show False using k(3) by simp
  qed
  then show ?thesis using run C(2) l(4,5) by auto
qed

subsection \<open>Properties\<close>

lemma InitialiseObjects_inv: "hash_inv (yaffs_InitialiseObjects (fs\<lparr>objs := \<lambda>_. None\<rparr>))"
  by (simp add: hash_inv_def bucket_ok_def bucket_def yaffs_InitialiseObjects_def)

text \<open>
  C11. The hash table of objects implements a map: entering objects with different unused numbers adds exactly
  them, and every look-up by number then answers from that map, leaving out objects that are only kept for
  their inode.
\<close>

theorem object_hash_refines_map:
  assumes "hash_inv fs" and "list_all2 (\<lambda>a n. hash_entry fs a = Some (n, False)) as ns" and "distinct ns" and "distinct as"
    and "\<forall>n \<in> set ns. table fs n = None"
  shows "\<exists>fs'. hash.adds as fs = Some fs' \<and> hash_inv fs' \<and> (\<forall>n. yaffs_FindObjectByNumber fs' n =
    Some (case ((table fs)(ns [\<mapsto>] as)) n of None \<Rightarrow> None | Some a \<Rightarrow> if deferedFree (the (objs fs' a)) then None else Some a))"
proof -
  obtain fs' where "hash.adds as fs = Some fs'" "hash_inv fs'" "table fs' = (table fs)(ns [\<mapsto>] as)"
    using hash.adds_law [OF assms] by blast
  then show ?thesis using FindObjectByNumber_table [of fs'] by auto
qed

text \<open>Two objects in an empty table.\<close>

definition sample_state :: "'n yaffs_State \<Rightarrow> 'n yaffs_State" where
  "sample_state fs = (yaffs_InitialiseObjects (fs\<lparr>objs := \<lambda>_. None\<rparr>))
     \<lparr>objs := [10 \<mapsto> zero_object\<lparr>obj_objectId := 300\<rparr>, 11 \<mapsto> zero_object\<lparr>obj_objectId := 556\<rparr>], bucket_x := 0\<rparr>"

lemma sample_state_inv: "hash_inv (sample_state fs)" "table (sample_state fs) n = None"
proof -
  show "hash_inv (sample_state fs)"
    by (simp add: hash_inv_def bucket_ok_def bucket_def yaffs_InitialiseObjects_def sample_state_def zero_object_def)
  show "table (sample_state fs) n = None"
    using yaffs_HashFunction_less [of n]
    by (simp add: table_def bucket_def yaffs_InitialiseObjects_def sample_state_def del: yaffs_HashFunction_less)
qed

theorem object_hash_refines_map_witness:
  "\<forall>fs :: unit yaffs_State. \<exists>fs'. hash.adds [10, 11] (sample_state fs) = Some fs' \<and> (\<exists>r. yaffs_FindObjectByNumber fs' 556 = Some r)"
proof
  fix fs :: "unit yaffs_State"
  have "list_all2 (\<lambda>a n. hash_entry (sample_state fs) a = Some (n, False)) [10, 11] [300, 556]" "distinct [300, 556 :: u32]" "distinct [10, 11 :: nat]"
    "\<forall>n \<in> set [300, 556]. table (sample_state fs) n = None"
    by (simp_all add: sample_state_inv(2)) (simp_all add: hash_entry_def sample_state_def zero_object_def)
  from object_hash_refines_map [OF sample_state_inv(1) this]
  show "\<exists>fs'. hash.adds [10, 11] (sample_state fs) = Some fs' \<and> (\<exists>r. yaffs_FindObjectByNumber fs' 556 = Some r)" by blast
qed

text \<open>
  C12. A new object number is found: the search ends, and the number is positive, above the reserved ones, and
  belongs to no object of the table.
\<close>

theorem CreateNewObjectNumber_fresh:
  assumes "hash_inv fs" and "0 \<le> bucket_x fs" and "bucket_x fs < 256" and "\<forall>bk \<in> set (objectBucket fs). bucket_count bk < 999999"
  shows "\<exists>n y. yaffs_CreateNewObjectNumber fs = Some (n, fs\<lparr>bucket_x := y\<rparr>) \<and> table fs n = None \<and> 256 \<le> sint n \<and> 0 \<le> y \<and> y < 256"
  by (rule CreateNewObjectNumber_ok [OF assms])

theorem CreateNewObjectNumber_fresh_witness:
  "\<forall>fs :: unit yaffs_State. \<exists>n y. yaffs_CreateNewObjectNumber (sample_state fs) = Some (n, (sample_state fs)\<lparr>bucket_x := y\<rparr>) \<and> 256 \<le> sint n"
proof
  fix fs :: "unit yaffs_State"
  have "0 \<le> bucket_x (sample_state fs)" "bucket_x (sample_state fs) < 256" "\<forall>bk \<in> set (objectBucket (sample_state fs)). bucket_count bk < 999999"
    by (simp_all add: sample_state_def yaffs_InitialiseObjects_def)
  from CreateNewObjectNumber_fresh [OF sample_state_inv(1) this]
  show "\<exists>n y. yaffs_CreateNewObjectNumber (sample_state fs) = Some (n, (sample_state fs)\<lparr>bucket_x := y\<rparr>) \<and> 256 \<le> sint n" by blast
qed

text \<open>
  C34. When no tnode is left, creating a file fails, but the object is put on the free list while it is still a
  child of the lost+found directory: the list of children then runs through freed memory.
\<close>

theorem CreateNewObject_frees_linked_object:
  assumes free: "freeObjects fs = a # rest" and dir: "lostNFoundDir fs = Some l" "objs fs l = Some ld" "variant ld = DirectoryVariant ch" "l \<noteq> a"
    and other: "unlinkedDir fs \<noteq> Some l" "deletedDir fs \<noteq> Some l"
    and full: "freeTnodes (the_dev fs) = 0" "ymalloc_result (the_dev fs) (ymalloc_count (the_dev fs)) = 0" and number: "0 \<le> number"
  shows "\<exists>fs' ld'. yaffs_CreateNewObject number YAFFS_OBJECT_TYPE_FILE fs = Some (None, fs') \<and> freeObjects fs' = a # rest \<and>
    objs fs' l = Some ld' \<and> variant ld' = DirectoryVariant (a # ch)"
  using assms
  by (simp add: yaffs_CreateNewObject_def yaffs_AllocateEmptyObject_def Let_def set_obj_def yaffs_AddObjectToDirectory_def zero_object_def
      add_child_def upd_obj_def yaffs_GetTnode_def yaffs_GetTnodeRaw_def yaffs_CreateTnodes_def YMALLOC_def yaffs_FreeObject_def yaffs_UnhashObject_def)

theorem CreateNewObject_frees_linked_object_witness:
  "\<forall>(fs :: unit yaffs_State) (dev :: unit yaffs_Device). \<exists>fs'. yaffs_CreateNewObject 300 YAFFS_OBJECT_TYPE_FILE
     (fs\<lparr>freeObjects := [5], lostNFoundDir := Some 2, unlinkedDir := Some 3, deletedDir := Some 4,
         objs := [2 \<mapsto> zero_object\<lparr>variantType := YAFFS_OBJECT_TYPE_DIRECTORY, variant := DirectoryVariant []\<rparr>],
         the_dev := dev\<lparr>freeTnodes := 0, ymalloc_result := \<lambda>_. 0\<rparr>\<rparr>) = Some (None, fs') \<and> freeObjects fs' = [5]"
proof (intro allI)
  fix fs :: "unit yaffs_State" and dev :: "unit yaffs_Device"
  define s where "s = fs\<lparr>freeObjects := [5], lostNFoundDir := Some 2, unlinkedDir := Some 3, deletedDir := Some 4,
         objs := [2 \<mapsto> zero_object\<lparr>variantType := YAFFS_OBJECT_TYPE_DIRECTORY, variant := DirectoryVariant []\<rparr>],
         the_dev := dev\<lparr>freeTnodes := 0, ymalloc_result := \<lambda>_. 0\<rparr>\<rparr>"
  have "\<exists>fs'. yaffs_CreateNewObject 300 YAFFS_OBJECT_TYPE_FILE s = Some (None, fs') \<and> freeObjects fs' = [5]"
    using CreateNewObject_frees_linked_object [of s 5 "[]" 2 "zero_object\<lparr>variantType := YAFFS_OBJECT_TYPE_DIRECTORY, variant := DirectoryVariant []\<rparr>" "[]" 300]
    by (auto simp: s_def)
  then show "\<exists>fs'. yaffs_CreateNewObject 300 YAFFS_OBJECT_TYPE_FILE
     (fs\<lparr>freeObjects := [5], lostNFoundDir := Some 2, unlinkedDir := Some 3, deletedDir := Some 4,
         objs := [2 \<mapsto> zero_object\<lparr>variantType := YAFFS_OBJECT_TYPE_DIRECTORY, variant := DirectoryVariant []\<rparr>],
         the_dev := dev\<lparr>freeTnodes := 0, ymalloc_result := \<lambda>_. 0\<rparr>\<rparr>) = Some (None, fs') \<and> freeObjects fs' = [5]" unfolding s_def .
qed

end
