(* ===== verification/Headers.thy ===== *)
theory Headers
  imports ObjectHash
begin

section \<open>Object headers, names and directories\<close>

text \<open>
  Chunk 0 of an object holds its header (\<^verbatim>\<open>yaffs_ObjectHeader\<close>): 512 bytes, laid out as the 32-bit ABI
  does, in the byte order of the machine (\<open>cfg_big_endian\<close>).  A header is read through a pointer into the
  page buffer, so the accessors work on the bytes of the page.  Strings are the bytes before the
  terminating zero.  \<open>gc\<close> is the call of \<open>yaffs_CheckGarbageCollection\<close> that \<open>yaffs_UpdateObjectHeader\<close> starts
  with; the collector itself, which ends in these functions, passes one that does nothing.
\<close>

subsection \<open>The layout\<close>

record yaffs_ObjectHeader =
  oh_type :: u32
  oh_parentObjectId :: u32
  oh_sum :: "u8 list"
  oh_name :: "u8 list"
  oh_pad :: "u8 list"
  oh_yst_mode :: u32
  oh_yst_uid :: u32
  oh_yst_gid :: u32
  oh_yst_atime :: u32
  oh_yst_mtime :: u32
  oh_yst_ctime :: u32
  oh_fileSize :: u32
  oh_equivalentObjectId :: u32
  oh_alias :: "u8 list"
  oh_yst_rdev :: u32
  oh_roomToGrow :: "u8 list"
  oh_shadowsObject :: u32
  oh_isShrink :: u32

definition header_bytes :: "bool \<Rightarrow> yaffs_ObjectHeader \<Rightarrow> u8 list" where
  "header_bytes be oh =
     u32_bytes be (oh_type oh) @ u32_bytes be (oh_parentObjectId oh) @ oh_sum oh @ oh_name oh @ oh_pad oh @
     u32_bytes be (oh_yst_mode oh) @ u32_bytes be (oh_yst_uid oh) @ u32_bytes be (oh_yst_gid oh) @
     u32_bytes be (oh_yst_atime oh) @ u32_bytes be (oh_yst_mtime oh) @ u32_bytes be (oh_yst_ctime oh) @
     u32_bytes be (oh_fileSize oh) @ u32_bytes be (oh_equivalentObjectId oh) @ oh_alias oh @ u32_bytes be (oh_yst_rdev oh) @
     oh_roomToGrow oh @ u32_bytes be (oh_shadowsObject oh) @ u32_bytes be (oh_isShrink oh)"

text \<open>The field of a header at a byte offset of the page.\<close>

definition oh_u32 :: "bool \<Rightarrow> u8 list \<Rightarrow> nat \<Rightarrow> u32" where
  "oh_u32 be page off = bytes_u32 be (take 4 (drop off page))"

definition oh_string :: "u8 list \<Rightarrow> nat \<Rightarrow> u8 list option" where
  "oh_string page off = (if 0 \<in> set (drop off page) then Some (takeWhile (\<lambda>b. b \<noteq> 0) (drop off page)) else None)"

abbreviation (input) "OH_name \<equiv> (10 :: nat)"
abbreviation (input) "OH_yst_mode \<equiv> (268 :: nat)"
abbreviation (input) "OH_yst_uid \<equiv> (272 :: nat)"
abbreviation (input) "OH_yst_gid \<equiv> (276 :: nat)"
abbreviation (input) "OH_yst_atime \<equiv> (280 :: nat)"
abbreviation (input) "OH_yst_mtime \<equiv> (284 :: nat)"
abbreviation (input) "OH_yst_ctime \<equiv> (288 :: nat)"
abbreviation (input) "OH_alias \<equiv> (300 :: nat)"
abbreviation (input) "OH_yst_rdev \<equiv> (460 :: nat)"
abbreviation (input) "OH_shadowsObject \<equiv> (504 :: nat)"
abbreviation (input) "OH_isShrink \<equiv> (508 :: nat)"

definition strncpy :: "u8 list \<Rightarrow> nat \<Rightarrow> u8 list" where
  "strncpy s n = take n s @ replicate (n - length s) 0"

subsection \<open>Loading the details of an object\<close>

definition yaffs_CloneString :: "u8 list option \<Rightarrow> 'n yaffs_Device \<Rightarrow> u8 list option \<times> 'n yaffs_Device" where
  "yaffs_CloneString str dev =
     (case str of
        Some s \<Rightarrow> if s \<noteq> [] then (let (p, dev) = YMALLOC dev in (if p \<noteq> 0 then Some s else None, dev)) else (None, dev)
      | None \<Rightarrow> (None, dev))"

text \<open>What is taken from the page of the header.\<close>

definition load_details :: "bool \<Rightarrow> u8 list \<Rightarrow> yaffs_Object \<Rightarrow> yaffs_Object option" where
  "load_details be page ob =
     do { name \<leftarrow> oh_string page OH_name;
          Some (yaffs_SetObjectName
            (ob\<lparr>yst_mode := oh_u32 be page OH_yst_mode, yst_uid := oh_u32 be page OH_yst_uid, yst_gid := oh_u32 be page OH_yst_gid,
                yst_atime := oh_u32 be page OH_yst_atime, yst_mtime := oh_u32 be page OH_yst_mtime,
                yst_ctime := oh_u32 be page OH_yst_ctime, yst_rdev := oh_u32 be page OH_yst_rdev\<rparr>) (Some name)) }"

definition yaffs_CheckObjectDetailsLoaded :: "yaffs_Config \<Rightarrow> yaffs_addr \<Rightarrow> 'n yaffs_State \<Rightarrow> 'n yaffs_State option" where
  "yaffs_CheckObjectDetailsLoaded cfg a fs =
     do { ob \<leftarrow> objs fs a;
          if \<not> lazyLoaded ob then Some fs
          else do {
            let ob = ob\<lparr>lazyLoaded := False\<rparr>;
            let (buf, dev) = yaffs_GetTempBuffer (the_dev fs) 5890;
            if buf = 0 then None
            else do {
              (_, page, _, dev) \<leftarrow> yaffs_ReadChunkWithTagsFromNAND cfg dev (obj_chunkId ob) True (cfg_unset_tags cfg);
              ob \<leftarrow> load_details (cfg_big_endian cfg) page ob;
              (ob, dev) \<leftarrow>
                (if variantType ob = YAFFS_OBJECT_TYPE_SYMLINK then do {
                   s \<leftarrow> oh_string page OH_alias;
                   let (al, dev) = yaffs_CloneString (Some s) dev;
                   Some (ob\<lparr>variant := SymLinkVariant al\<rparr>, dev) }
                 else Some (ob, dev));
              Some (set_obj (fs\<lparr>the_dev := yaffs_ReleaseTempBuffer dev buf\<rparr>) a ob) } } }"

definition yaffs_GetEquivalentObject :: "yaffs_Config \<Rightarrow> yaffs_addr \<Rightarrow> 'n yaffs_State \<Rightarrow> (yaffs_addr \<times> 'n yaffs_State) option" where
  "yaffs_GetEquivalentObject cfg a fs =
     do { ob \<leftarrow> objs fs a;
          if variantType ob = YAFFS_OBJECT_TYPE_HARDLINK then
            (case variant ob of
               HardLinkVariant (Some e) _ \<Rightarrow> do { fs \<leftarrow> yaffs_CheckObjectDetailsLoaded cfg e fs; Some (e, fs) }
             | _ \<Rightarrow> None)
          else Some (a, fs) }"

subsection \<open>Names\<close>

fun decimal :: "nat \<Rightarrow> u8 list" where
  "decimal n = (if n < 10 then [of_nat (48 + n)] else decimal (n div 10) @ [of_nat (48 + n mod 10)])"

declare decimal.simps [simp del]

text \<open>The strings \<^verbatim>\<open>"lost+found"\<close> and \<^verbatim>\<open>"obj%d"\<close>.\<close>

definition LOSTNFOUND_NAME :: "u8 list" where
  "LOSTNFOUND_NAME = [108, 111, 115, 116, 43, 102, 111, 117, 110, 100]"

definition made_up_name :: "u32 \<Rightarrow> u8 list" where
  "made_up_name n = [111, 98, 106] @ (if sint n < 0 then 45 # decimal (nat (- sint n)) else decimal (nat (sint n)))"

definition yaffs_GetObjectName :: "yaffs_Config \<Rightarrow> yaffs_addr \<Rightarrow> nat \<Rightarrow> 'n yaffs_State \<Rightarrow> (u8 list \<times> 'n yaffs_State) option" where
  "yaffs_GetObjectName cfg a buffSize fs =
     do { fs \<leftarrow> yaffs_CheckObjectDetailsLoaded cfg a fs;
          ob \<leftarrow> objs fs a;
          if obj_objectId ob = YAFFS_OBJECTID_LOSTNFOUND then Some (take (buffSize - 1) LOSTNFOUND_NAME, fs)
          else if obj_chunkId ob \<le> 0 then Some (take (buffSize - 1) (made_up_name (obj_objectId ob)), fs)
          else if shortName ob \<noteq> [] then Some (shortName ob, fs)
          else do {
            let (buf, dev) = yaffs_GetTempBuffer (the_dev fs) 6784;
            if buf = 0 then None
            else do {
              (_, page, _, dev) \<leftarrow> yaffs_ReadChunkWithTagsFromNAND cfg dev (obj_chunkId ob) True (cfg_unset_tags cfg);
              Some (take (buffSize - 1) (takeWhile (\<lambda>b. b \<noteq> 0) (drop OH_name page)), fs\<lparr>the_dev := yaffs_ReleaseTempBuffer dev buf\<rparr>) } } }"

primrec find_name_loop :: "yaffs_Config \<Rightarrow> u8 list \<Rightarrow> yaffs_addr list \<Rightarrow> 'n yaffs_State \<Rightarrow> (yaffs_addr option \<times> 'n yaffs_State) option" where
  "find_name_loop cfg name [] fs = Some (None, fs)"
| "find_name_loop cfg name (l # ls) fs =
     do { fs \<leftarrow> yaffs_CheckObjectDetailsLoaded cfg l fs;
          ob \<leftarrow> objs fs l;
          if obj_objectId ob = YAFFS_OBJECTID_LOSTNFOUND then
            (if name = LOSTNFOUND_NAME then Some (Some l, fs) else find_name_loop cfg name ls fs)
          else if name_sum ob = yaffs_CalcNameSum (Some name) \<or> obj_chunkId ob \<le> 0 then do {
            (buffer, fs) \<leftarrow> yaffs_GetObjectName cfg l YAFFS_MAX_NAME_LENGTH fs;
            if take YAFFS_MAX_NAME_LENGTH name = take YAFFS_MAX_NAME_LENGTH buffer then Some (Some l, fs)
            else find_name_loop cfg name ls fs }
          else find_name_loop cfg name ls fs }"

definition yaffs_FindObjectByName :: "yaffs_Config \<Rightarrow> yaffs_addr \<Rightarrow> u8 list option \<Rightarrow> 'n yaffs_State \<Rightarrow> (yaffs_addr option \<times> 'n yaffs_State) option" where
  "yaffs_FindObjectByName cfg directory name fs =
     (case name of
        None \<Rightarrow> Some (None, fs)
      | Some name \<Rightarrow> do {
          d \<leftarrow> objs fs directory;
          case variant d of DirectoryVariant ch \<Rightarrow> find_name_loop cfg name ch fs | _ \<Rightarrow> None })"

subsection \<open>The cached chunks of an object\<close>

definition yaffs_ObjectHasCachedWriteData :: "yaffs_addr \<Rightarrow> 'n yaffs_Device \<Rightarrow> bool" where
  "yaffs_ObjectHasCachedWriteData a dev \<longleftrightarrow>
     list_ex (\<lambda>c. cc_object c = Some a \<and> cc_dirty c) (take (nat (nShortOpCaches dev)) (srCache dev))"

definition yaffs_InvalidateWholeChunkCache :: "yaffs_addr \<Rightarrow> 'n yaffs_Device \<Rightarrow> 'n yaffs_Device" where
  "yaffs_InvalidateWholeChunkCache a dev =
     (if nShortOpCaches dev > 0 then
        dev\<lparr>srCache := map (\<lambda>c. if cc_object c = Some a then c\<lparr>cc_object := None\<rparr> else c) (take (nat (nShortOpCaches dev)) (srCache dev)) @
                       drop (nat (nShortOpCaches dev)) (srCache dev)\<rparr>
      else dev)"

subsection \<open>Writing the header\<close>

text \<open>
  The page that is written: \<open>parentId\<close> is the number of the parent, \<open>oldName\<close> the name field of the
  previous header.  The fields that the code does not set are left \<^verbatim>\<open>0xFF\<close>.
\<close>

definition new_header :: "yaffs_Object \<Rightarrow> u32 \<Rightarrow> u8 list option \<Rightarrow> u8 list option \<Rightarrow> bool \<Rightarrow> u32 \<Rightarrow> yaffs_ObjectHeader option" where
  "new_header ob parentId name oldName isShrink shadows =
     do { let nm = (case name of
                      Some n \<Rightarrow> if n \<noteq> [] then Some (strncpy n YAFFS_MAX_NAME_LENGTH @ [0]) else None
                    | None \<Rightarrow> None);
          let nm = (case nm of
                      Some f \<Rightarrow> f
                    | None \<Rightarrow> (case oldName of Some f \<Rightarrow> f | None \<Rightarrow> replicate (YAFFS_MAX_NAME_LENGTH + 1) 0));
          let oh = \<lparr>oh_type = variantType ob, oh_parentObjectId = parentId, oh_sum = [0xFF, 0xFF], oh_name = nm, oh_pad = [0xFF, 0xFF],
                    oh_yst_mode = yst_mode ob, oh_yst_uid = yst_uid ob, oh_yst_gid = yst_gid ob, oh_yst_atime = yst_atime ob,
                    oh_yst_mtime = yst_mtime ob, oh_yst_ctime = yst_ctime ob, oh_fileSize = 0xFFFFFFFF,
                    oh_equivalentObjectId = 0xFFFFFFFF, oh_alias = replicate (YAFFS_MAX_ALIAS_LENGTH + 1) 0xFF,
                    oh_yst_rdev = yst_rdev ob, oh_roomToGrow = replicate 40 0xFF, oh_shadowsObject = shadows,
                    oh_isShrink = of_bool isShrink\<rparr>;
          if variantType ob = YAFFS_OBJECT_TYPE_FILE then
            (case variant ob of
               FileVariant f \<Rightarrow>
                 Some (oh\<lparr>oh_fileSize := (if parentId = YAFFS_OBJECTID_DELETED \<or> parentId = YAFFS_OBJECTID_UNLINKED then 0 else fileSize f)\<rparr>)
             | _ \<Rightarrow> None)
          else if variantType ob = YAFFS_OBJECT_TYPE_HARDLINK then
            (case variant ob of HardLinkVariant _ e \<Rightarrow> Some (oh\<lparr>oh_equivalentObjectId := e\<rparr>) | _ \<Rightarrow> None)
          else if variantType ob = YAFFS_OBJECT_TYPE_SYMLINK then
            (case variant ob of
               SymLinkVariant (Some s) \<Rightarrow> Some (oh\<lparr>oh_alias := strncpy s YAFFS_MAX_ALIAS_LENGTH @ [0]\<rparr>)
             | _ \<Rightarrow> None)
          else Some oh }"

definition header_tags :: "yaffs_Object \<Rightarrow> yaffs_ObjectHeader \<Rightarrow> yaffs_ExtendedTags" where
  "header_tags ob oh = yaffs_InitialiseTags
     \<lparr>chunkId := 0, objectId := obj_objectId ob, serialNumber := ucast (serial ob), extraHeaderInfoAvailable := 1,
      extraParentObjectId := oh_parentObjectId oh, extraFileLength := oh_fileSize oh, extraIsShrinkHeader := oh_isShrink oh,
      extraEquivalentObjectId := oh_equivalentObjectId oh, extraShadows := (if sint (oh_shadowsObject oh) > 0 then 1 else 0),
      extraObjectType := variantType ob\<rparr>"

definition header_page :: "bool \<Rightarrow> nat \<Rightarrow> yaffs_ObjectHeader \<Rightarrow> u8 list" where
  "header_page be nBytes oh = header_bytes be oh @ replicate (nBytes - 512) 0xFF"

text \<open>The number of the parent, 0 when there is none.\<close>

definition parent_number :: "'n yaffs_State \<Rightarrow> yaffs_Object \<Rightarrow> u32 option" where
  "parent_number fs ob = (case parent ob of None \<Rightarrow> Some 0 | Some p \<Rightarrow> map_option obj_objectId (objs fs p))"

definition yaffs_UpdateObjectHeader ::
  "('n yaffs_State \<Rightarrow> 'n yaffs_State option) \<Rightarrow> yaffs_Config \<Rightarrow> yaffs_addr \<Rightarrow> u8 list option \<Rightarrow> bool \<Rightarrow> bool \<Rightarrow> u32 \<Rightarrow>
     'n yaffs_State \<Rightarrow> (int \<times> 'n yaffs_State) option" where
  "yaffs_UpdateObjectHeader gc cfg a name force isShrink shadows fs =
     do { ob \<leftarrow> objs fs a;
          if fake ob \<and> \<not> force then Some (0, fs)
          else do {
            fs \<leftarrow> gc fs;
            fs \<leftarrow> yaffs_CheckObjectDetailsLoaded cfg a fs;
            let (buf, dev) = yaffs_GetTempBuffer (the_dev fs) 3614;
            ob \<leftarrow> objs fs a;
            let prevChunkId = obj_chunkId ob;
            if buf = 0 then None
            else do {
              (oldName, dev) \<leftarrow>
                (if prevChunkId \<ge> 0 then do {
                   (_, page, _, dev) \<leftarrow> yaffs_ReadChunkWithTagsFromNAND cfg dev prevChunkId True (cfg_unset_tags cfg);
                   Some (Some (take (YAFFS_MAX_NAME_LENGTH + 1) (drop OH_name page)), dev) }
                 else Some (None, dev));
              parentId \<leftarrow> parent_number fs ob;
              oh \<leftarrow> new_header ob parentId name oldName isShrink shadows;
              let ob = ob\<lparr>serial := serial ob + 1\<rparr>;
              let fs = set_obj fs a ob;
              (newChunkId, _, dev) \<leftarrow> yaffs_WriteNewChunkWithTagsToNAND cfg dev
                 (header_page (cfg_big_endian cfg) (nat (nDataBytesPerChunk dev)) oh) (header_tags ob oh) (prevChunkId \<ge> 0);
              (fs, dev) \<leftarrow>
                (if newChunkId \<ge> 0 then do {
                   dev \<leftarrow> (if prevChunkId \<ge> 0 then yaffs_DeleteChunk cfg dev prevChunkId True else Some dev);
                   let ob = ob\<lparr>obj_chunkId := newChunkId\<rparr>;
                   let ob = (if yaffs_ObjectHasCachedWriteData a dev then ob else ob\<lparr>dirty := False\<rparr>);
                   dev \<leftarrow> (if isShrink then do {
                             let blk = cdiv newChunkId (nChunksPerBlock dev);
                             bi \<leftarrow> yaffs_GetBlockInfo dev blk;
                             Some (set_block_info dev blk (bi\<lparr>hasShrinkHeader := True\<rparr>)) }
                           else Some dev);
                   Some (set_obj fs a ob, dev) }
                 else Some (fs, dev));
              Some (newChunkId, fs\<lparr>the_dev := yaffs_ReleaseTempBuffer dev buf\<rparr>) } } }"

subsection \<open>Moving and deleting objects\<close>

definition yaffs_ChangeObjectName ::
  "('n yaffs_State \<Rightarrow> 'n yaffs_State option) \<Rightarrow> yaffs_Config \<Rightarrow> yaffs_addr \<Rightarrow> yaffs_addr option \<Rightarrow> u8 list option \<Rightarrow> bool \<Rightarrow> u32 \<Rightarrow>
     'n yaffs_State \<Rightarrow> (int \<times> 'n yaffs_State) option" where
  "yaffs_ChangeObjectName gc cfg a newDir newName force shadows fs =
     do { ob \<leftarrow> objs fs a;
          dir \<leftarrow> (if newDir = None then parent ob else newDir);
          d \<leftarrow> objs fs dir;
          let unlinkOp = (if isYaffs2 (the_dev fs) then Some dir = unlinkedDir fs
                          else Some dir = unlinkedDir fs \<and> variantType ob = YAFFS_OBJECT_TYPE_FILE);
          let deleteOp = (Some dir = deletedDir fs);
          (existingTarget, fs) \<leftarrow> yaffs_FindObjectByName cfg dir newName fs;
          if (unlinkOp \<or> deleteOp \<or> force \<or> sint shadows > 0 \<or> existingTarget = None) \<and> variantType d = YAFFS_OBJECT_TYPE_DIRECTORY then do {
            fs \<leftarrow> upd_obj (\<lambda>ob. (yaffs_SetObjectName ob newName)\<lparr>dirty := True\<rparr>) a fs;
            fs \<leftarrow> yaffs_AddObjectToDirectory (Some dir) a fs;
            fs \<leftarrow> (if unlinkOp then upd_obj (\<lambda>ob. ob\<lparr>unlinked := True\<rparr>) a fs else Some fs);
            (r, fs) \<leftarrow> yaffs_UpdateObjectHeader gc cfg a newName False deleteOp shadows fs;
            Some (if r \<ge> 0 then YAFFS_OK else YAFFS_FAIL, fs) }
          else Some (YAFFS_FAIL, fs) }"

text \<open>The name \<^verbatim>\<open>"deleted"\<close>.\<close>

definition deleted_name :: "u8 list" where
  "deleted_name = [100, 101, 108, 101, 116, 101, 100]"

definition yaffs_DoGenericObjectDeletion ::
  "('n yaffs_State \<Rightarrow> 'n yaffs_State option) \<Rightarrow> yaffs_Config \<Rightarrow> yaffs_addr \<Rightarrow> 'n yaffs_State \<Rightarrow> (int \<times> 'n yaffs_State) option" where
  "yaffs_DoGenericObjectDeletion gc cfg a fs =
     do { let fs = fs\<lparr>the_dev := yaffs_InvalidateWholeChunkCache a (the_dev fs)\<rparr>;
          ob \<leftarrow> objs fs a;
          fs \<leftarrow> (if isYaffs2 (the_dev fs) \<and> parent ob \<noteq> deletedDir fs
                 then map_option snd (yaffs_ChangeObjectName gc cfg a (deletedDir fs) (Some deleted_name) False 0 fs)
                 else Some fs);
          fs \<leftarrow> yaffs_RemoveObjectFromDirectory a fs;
          ob \<leftarrow> objs fs a;
          dev \<leftarrow> yaffs_DeleteChunk cfg (the_dev fs) (obj_chunkId ob) True;
          fs \<leftarrow> upd_obj (\<lambda>ob. ob\<lparr>obj_chunkId := -1\<rparr>) a (fs\<lparr>the_dev := dev\<rparr>);
          fs \<leftarrow> yaffs_FreeObject a fs;
          Some (YAFFS_OK, fs) }"

end
