(* ===== verification/Files.thy ===== *)
theory Files
  imports Headers
begin

section \<open>File data and garbage collection\<close>

text \<open>
  The chunks of a file (\<open>yaffs_FindChunkInFile\<close> to \<open>yaffs_WriteChunkDataToObject\<close>) and the garbage
  collector (\<open>yaffs_GarbageCollectBlock\<close>, \<open>yaffs_CheckGarbageCollection\<close>) of \<^verbatim>\<open>yaffs_guts.c\<close>.  The
  functions that only trace (\<^verbatim>\<open>yaffs_Verify...\<close>) are left out, except where they read the flash.
  \<^verbatim>\<open>yaffs_CheckFileSanity\<close> is empty in this configuration.
\<close>

definition file_of :: "yaffs_Object \<Rightarrow> yaffs_FileStructure option" where
  "file_of ob = (case variant ob of FileVariant f \<Rightarrow> Some f | _ \<Rightarrow> None)"

subsection \<open>The chunks of a file\<close>

text \<open>The search returns the chunk (or -1), the tags read last, and the state.\<close>

definition yaffs_FindChunkInFile ::
  "yaffs_Config \<Rightarrow> yaffs_addr \<Rightarrow> int \<Rightarrow> yaffs_ExtendedTags \<Rightarrow> 'n yaffs_State \<Rightarrow> (int \<times> yaffs_ExtendedTags \<times> 'n yaffs_State) option" where
  "yaffs_FindChunkInFile cfg a chunkInInode tags fs =
     do { ob \<leftarrow> objs fs a;
          f \<leftarrow> file_of ob;
          tn \<leftarrow> yaffs_FindLevel0Tnode f (word_of_int chunkInInode);
          case tn of
            None \<Rightarrow> Some (-1, tags, fs)
          | Some (Internal _) \<Rightarrow> None
          | Some (Level0 m) \<Rightarrow> do {
              theChunk \<leftarrow> yaffs_GetChunkGroupBase (the_dev fs) m (word_of_int chunkInInode);
              (r, tags, dev) \<leftarrow> yaffs_FindChunkInGroup cfg (the_dev fs) (sint theChunk) tags (sint (obj_objectId ob)) chunkInInode;
              Some (r, tags, fs\<lparr>the_dev := dev\<rparr>) } }"

text \<open>A store through the pointer to the level-0 tnode of a chunk.\<close>

definition put_level0 :: "yaffs_addr \<Rightarrow> int \<Rightarrow> u32 \<Rightarrow> 'n yaffs_State \<Rightarrow> 'n yaffs_State option" where
  "put_level0 a chunkInInode val fs =
     do { ob \<leftarrow> objs fs a;
          f \<leftarrow> file_of ob;
          tn \<leftarrow> yaffs_FindLevel0Tnode f (word_of_int chunkInInode);
          case tn of
            Some (Level0 m) \<Rightarrow> do {
              m \<leftarrow> yaffs_PutLevel0Tnode (the_dev fs) m (word_of_int chunkInInode) val;
              Some (set_obj fs a (ob\<lparr>variant := FileVariant (set_level0 f (word_of_int chunkInInode) (Level0 m))\<rparr>)) }
          | _ \<Rightarrow> None }"

definition yaffs_FindAndDeleteChunkInFile :: "yaffs_Config \<Rightarrow> yaffs_addr \<Rightarrow> int \<Rightarrow> 'n yaffs_State \<Rightarrow> (int \<times> 'n yaffs_State) option" where
  "yaffs_FindAndDeleteChunkInFile cfg a chunkInInode fs =
     do { (r, _, fs) \<leftarrow> yaffs_FindChunkInFile cfg a chunkInInode (cfg_unset_tags cfg) fs;
          fs \<leftarrow> (if r \<noteq> -1 then put_level0 a chunkInInode 0 fs else Some fs);
          Some (r, fs) }"

text \<open>
  \<open>resolve_duplicate\<close> is the part that runs while scanning: the result says whether the new chunk is to be
  entered.
\<close>

definition resolve_duplicate ::
  "yaffs_Config \<Rightarrow> yaffs_addr \<Rightarrow> int \<Rightarrow> int \<Rightarrow> int \<Rightarrow> int \<Rightarrow> 'n yaffs_State \<Rightarrow> (bool \<times> int \<times> 'n yaffs_State) option" where
  "resolve_duplicate cfg a chunkInInode chunkInNAND inScan existingChunk fs =
     do { (existingChunk, newTags, existingTags, fs) \<leftarrow>
            (if inScan > 0 then do {
               (_, _, newTags, dev) \<leftarrow> yaffs_ReadChunkWithTagsFromNAND cfg (the_dev fs) chunkInNAND False (cfg_unset_tags cfg);
               (r, existingTags, fs) \<leftarrow> yaffs_FindChunkInFile cfg a chunkInInode (cfg_unset_tags cfg) (fs\<lparr>the_dev := dev\<rparr>);
               Some (r, newTags, existingTags, fs) }
             else Some (existingChunk, cfg_unset_tags cfg, cfg_unset_tags cfg, fs));
          if inScan > 0 \<and> (isYaffs2 (the_dev fs) \<or> existingChunk \<le> 0 \<or> (serialNumber existingTags + 1) AND 3 = serialNumber newTags) then do {
            dev \<leftarrow> yaffs_DeleteChunk cfg (the_dev fs) existingChunk True;
            Some (True, existingChunk, fs\<lparr>the_dev := dev\<rparr>) }
          else do {
            dev \<leftarrow> yaffs_DeleteChunk cfg (the_dev fs) chunkInNAND True;
            Some (False, existingChunk, fs\<lparr>the_dev := dev\<rparr>) } }"

definition yaffs_PutChunkIntoFile :: "yaffs_Config \<Rightarrow> yaffs_addr \<Rightarrow> int \<Rightarrow> int \<Rightarrow> int \<Rightarrow> 'n yaffs_State \<Rightarrow> (int \<times> 'n yaffs_State) option" where
  "yaffs_PutChunkIntoFile cfg a chunkInInode chunkInNAND inScan fs =
     do { ob \<leftarrow> objs fs a;
          if variantType ob \<noteq> YAFFS_OBJECT_TYPE_FILE then do {
            dev \<leftarrow> yaffs_DeleteChunk cfg (the_dev fs) chunkInNAND True;
            Some (YAFFS_OK, fs\<lparr>the_dev := dev\<rparr>) }
          else do {
            f \<leftarrow> file_of ob;
            (tn, f, dev) \<leftarrow> yaffs_AddOrFindLevel0Tnode (the_dev fs) f (word_of_int chunkInInode) None;
            let fs = set_obj (fs\<lparr>the_dev := dev\<rparr>) a (ob\<lparr>variant := FileVariant f\<rparr>);
            case tn of
              None \<Rightarrow> Some (YAFFS_FAIL, fs)
            | Some (Internal _) \<Rightarrow> None
            | Some (Level0 m) \<Rightarrow> do {
                base \<leftarrow> yaffs_GetChunkGroupBase dev m (word_of_int chunkInInode);
                let existingChunk = sint base;
                (enter, existingChunk, fs) \<leftarrow>
                  (if inScan \<noteq> 0 \<and> existingChunk \<noteq> 0 then resolve_duplicate cfg a chunkInInode chunkInNAND inScan existingChunk fs
                   else Some (True, existingChunk, fs));
                if \<not> enter then Some (YAFFS_OK, fs)
                else do {
                  fs \<leftarrow> (if existingChunk = 0 then upd_obj (\<lambda>ob. ob\<lparr>nDataChunks := nDataChunks ob + 1\<rparr>) a fs else Some fs);
                  fs \<leftarrow> put_level0 a chunkInInode (word_of_int chunkInNAND) fs;
                  Some (YAFFS_OK, fs) } } } }"

definition yaffs_ReadChunkDataFromObject :: "yaffs_Config \<Rightarrow> yaffs_addr \<Rightarrow> int \<Rightarrow> 'n yaffs_State \<Rightarrow> (int \<times> u8 list \<times> 'n yaffs_State) option" where
  "yaffs_ReadChunkDataFromObject cfg a chunkInInode fs =
     do { (chunkInNAND, _, fs) \<leftarrow> yaffs_FindChunkInFile cfg a chunkInInode (cfg_unset_tags cfg) fs;
          if chunkInNAND \<ge> 0 then do {
            (r, data, _, dev) \<leftarrow> yaffs_ReadChunkWithTagsFromNAND cfg (the_dev fs) chunkInNAND True (cfg_unset_tags cfg);
            Some (r, data, fs\<lparr>the_dev := dev\<rparr>) }
          else Some (0, replicate (nat (nDataBytesPerChunk (the_dev fs))) 0, fs) }"

text \<open>\<open>gc\<close> is the call of the garbage collector.\<close>

definition yaffs_WriteChunkDataToObject ::
  "('n yaffs_State \<Rightarrow> 'n yaffs_State option) \<Rightarrow> yaffs_Config \<Rightarrow> yaffs_addr \<Rightarrow> int \<Rightarrow> u8 list \<Rightarrow> int \<Rightarrow> bool \<Rightarrow>
     'n yaffs_State \<Rightarrow> (int \<times> 'n yaffs_State) option" where
  "yaffs_WriteChunkDataToObject gc cfg a chunkInInode buffer nBytes useReserve fs =
     do { fs \<leftarrow> gc fs;
          (prevChunkId, prevTags, fs) \<leftarrow> yaffs_FindChunkInFile cfg a chunkInInode (cfg_unset_tags cfg) fs;
          ob \<leftarrow> objs fs a;
          let newTags = yaffs_InitialiseTags\<lparr>chunkId := word_of_int chunkInInode, objectId := obj_objectId ob,
                serialNumber := (if prevChunkId \<ge> 0 then serialNumber prevTags + 1 else 1), byteCount := word_of_int nBytes\<rparr>;
          (newChunkId, _, dev) \<leftarrow> yaffs_WriteNewChunkWithTagsToNAND cfg (the_dev fs) buffer newTags useReserve;
          let fs = fs\<lparr>the_dev := dev\<rparr>;
          if newChunkId \<ge> 0 then do {
            (_, fs) \<leftarrow> yaffs_PutChunkIntoFile cfg a chunkInInode newChunkId 0 fs;
            dev \<leftarrow> (if prevChunkId \<ge> 0 then yaffs_DeleteChunk cfg (the_dev fs) prevChunkId True else Some (the_dev fs));
            Some (newChunkId, fs\<lparr>the_dev := dev\<rparr>) }
          else Some (newChunkId, fs) }"

subsection \<open>Garbage collection\<close>

text \<open>The header of a copied object: \<^verbatim>\<open>oh->isShrink = 0; oh->shadowsObject = -1\<close> in the page.\<close>

definition clear_shrink :: "u8 list \<Rightarrow> u8 list" where
  "clear_shrink page = take OH_shadowsObject page @ replicate 4 0xFF @ replicate 4 0 @ drop 512 page"

text \<open>The check that the page belongs where it says, when verification is on: it only reads.\<close>

definition gc_verify :: "yaffs_Config \<Rightarrow> yaffs_addr \<Rightarrow> yaffs_ExtendedTags \<Rightarrow> 'n yaffs_State \<Rightarrow> 'n yaffs_State option" where
  "gc_verify cfg a tags fs =
     do { ob \<leftarrow> objs fs a;
          if chunkId tags = 0 \<or> softDeleted ob then Some fs
          else map_option (snd \<circ> snd) (yaffs_FindChunkInFile cfg a (sint (chunkId tags)) (cfg_unset_tags cfg) fs) }"

text \<open>Copying a page in use away; \<open>cleanups\<close> is the number of objects to delete so far.\<close>

definition gc_copy :: "yaffs_Config \<Rightarrow> yaffs_addr \<Rightarrow> u8 list \<Rightarrow> yaffs_ExtendedTags \<Rightarrow> 'n yaffs_State \<Rightarrow> 'n yaffs_State option" where
  "gc_copy cfg a page tags fs =
     do { let tags = tags\<lparr>serialNumber := serialNumber tags + 1\<rparr>;
          let dev = (the_dev fs)\<lparr>nGCCopies := nGCCopies (the_dev fs) + 1\<rparr>;
          let (page, tags) = (if chunkId tags = 0 then (clear_shrink page, tags\<lparr>extraShadows := 0, extraIsShrinkHeader := 0\<rparr>) else (page, tags));
          (newChunk, tags, dev) \<leftarrow> yaffs_WriteNewChunkWithTagsToNAND cfg dev page tags True;
          let fs = fs\<lparr>the_dev := dev\<rparr>;
          if newChunk < 0 then Some fs
          else if chunkId tags = 0 then upd_obj (\<lambda>ob. ob\<lparr>obj_chunkId := newChunk, serial := ucast (serialNumber tags)\<rparr>) a fs
          else map_option snd (yaffs_PutChunkIntoFile cfg a (sint (chunkId tags)) newChunk 0 fs) }"

definition gc_page :: "yaffs_Config \<Rightarrow> int \<Rightarrow> nat \<times> 'n yaffs_State \<Rightarrow> (nat \<times> 'n yaffs_State) option" where
  "gc_page cfg oldChunk = (\<lambda>(cleanups, fs).
     do { (_, page, tags, dev) \<leftarrow> yaffs_ReadChunkWithTagsFromNAND cfg (the_dev fs) oldChunk True yaffs_InitialiseTags;
          let fs = fs\<lparr>the_dev := dev\<rparr>;
          obj \<leftarrow> yaffs_FindObjectByNumber fs (objectId tags);
          (markNAND, cleanups, fs) \<leftarrow>
            (case obj of
               None \<Rightarrow> Some (True, cleanups, fs)
             | Some a \<Rightarrow> do {
                 fs \<leftarrow> (if cfg_verify cfg then gc_verify cfg a tags fs else Some fs);
                 ob \<leftarrow> objs fs a;
                 if deleted ob \<and> chunkId tags \<noteq> 0 then do {
                   let ob = ob\<lparr>nDataChunks := nDataChunks ob - 1\<rparr>;
                   let fs = set_obj fs a ob;
                   if nDataChunks ob \<le> 0 then
                     (if cleanups < length (gcCleanupList fs)
                      then Some (False, cleanups + 1, fs\<lparr>gcCleanupList := (gcCleanupList fs)[cleanups := objectId tags]\<rparr>) else None)
                   else Some (False, cleanups, fs) }
                 else do { fs \<leftarrow> gc_copy cfg a page tags fs; Some (True, cleanups, fs) } });
          dev \<leftarrow> yaffs_DeleteChunk cfg (the_dev fs) oldChunk markNAND;
          Some (cleanups, fs\<lparr>the_dev := dev\<rparr>) })"

primrec gc_loop :: "yaffs_Config \<Rightarrow> int \<Rightarrow> nat \<Rightarrow> int \<Rightarrow> nat \<times> 'n yaffs_State \<Rightarrow> (nat \<times> 'n yaffs_State) option" where
  "gc_loop cfg block 0 chunkInBlock s = Some s"
| "gc_loop cfg block (Suc n) chunkInBlock s =
     do { some \<leftarrow> yaffs_StillSomeChunkBits (the_dev (snd s)) block;
          if some = 0 then Some s
          else do {
            b \<leftarrow> yaffs_CheckChunkBit (the_dev (snd s)) block chunkInBlock;
            s \<leftarrow> (if b \<noteq> 0 then gc_page cfg (block * nChunksPerBlock (the_dev (snd s)) + chunkInBlock) s else Some s);
            gc_loop cfg block n (chunkInBlock + 1) s } }"

text \<open>While a block is collected the collector does not start again.\<close>

definition gc_running :: "'n yaffs_State \<Rightarrow> 'n yaffs_State option" where
  "gc_running fs = Some fs"

primrec gc_cleanup :: "yaffs_Config \<Rightarrow> u32 list \<Rightarrow> 'n yaffs_State \<Rightarrow> 'n yaffs_State option" where
  "gc_cleanup cfg [] fs = Some fs"
| "gc_cleanup cfg (i # is) fs =
     do { obj \<leftarrow> yaffs_FindObjectByNumber fs i;
          fs \<leftarrow> (case obj of
                  None \<Rightarrow> Some fs
                | Some a \<Rightarrow> do {
                    ob \<leftarrow> objs fs a;
                    f \<leftarrow> file_of ob;
                    let dev = yaffs_FreeTnode (the_dev fs) (top_tnode f);
                    let fs = set_obj (fs\<lparr>the_dev := dev\<rparr>) a (ob\<lparr>variant := FileVariant (f\<lparr>top_tnode := None\<rparr>)\<rparr>);
                    (_, fs) \<leftarrow> yaffs_DoGenericObjectDeletion gc_running cfg a fs;
                    Some (fs\<lparr>the_dev := (the_dev fs)\<lparr>nDeletedFiles := nDeletedFiles (the_dev fs) - 1\<rparr>\<rparr>) });
          gc_cleanup cfg is fs }"

definition yaffs_GarbageCollectBlock :: "yaffs_Config \<Rightarrow> int \<Rightarrow> 'n yaffs_State \<Rightarrow> (int \<times> 'n yaffs_State) option" where
  "yaffs_GarbageCollectBlock cfg block fs =
     do { let dev = the_dev fs;
          bi \<leftarrow> yaffs_GetBlockInfo dev block;
          let isCheckpointBlock = (blockState bi = YAFFS_BLOCK_STATE_CHECKPOINT);
          let dev = (set_block_info dev block (bi\<lparr>blockState := YAFFS_BLOCK_STATE_COLLECTING, hasShrinkHeader := False\<rparr>))
                      \<lparr>nFreeChunks := nFreeChunks dev - softDeletions bi, isDoingGC := True\<rparr>;
          some \<leftarrow> yaffs_StillSomeChunkBits dev block;
          fs \<leftarrow> (if isCheckpointBlock \<or> some = 0 then do {
                  dev \<leftarrow> yaffs_BlockBecameDirty cfg dev block;
                  Some (fs\<lparr>the_dev := dev\<rparr>) }
                else do {
                  let (buf, dev) = yaffs_GetTempBuffer dev 2935;
                  (cleanups, fs) \<leftarrow> (if buf = 0 then None else gc_loop cfg block (nat (nChunksPerBlock dev)) 0 (0, fs\<lparr>the_dev := dev\<rparr>));
                  let fs = fs\<lparr>the_dev := yaffs_ReleaseTempBuffer (the_dev fs) buf\<rparr>;
                  gc_cleanup cfg (take cleanups (gcCleanupList fs)) fs });
          Some (YAFFS_OK, fs\<lparr>the_dev := (the_dev fs)\<lparr>isDoingGC := False\<rparr>\<rparr>) }"

text \<open>One turn of the loop of \<open>yaffs_CheckGarbageCollection\<close>: the block that was chosen, whether it was urgent, and the result.\<close>

definition gc_turn :: "yaffs_Config \<Rightarrow> int \<Rightarrow> 'n yaffs_State \<Rightarrow> (int \<times> bool \<times> int \<times> 'n yaffs_State) option" where
  "gc_turn cfg gcOk fs =
     do { let dev = the_dev fs;
          let checkpointBlockAdjust = nCheckpointReservedBlocks dev - blocksInCheckpoint dev;
          let checkpointBlockAdjust = (if checkpointBlockAdjust < 0 then 0 else checkpointBlockAdjust);
          let aggressive = (nErasedBlocks dev < nReservedBlocks dev + checkpointBlockAdjust + 2);
          (block, dev) \<leftarrow> yaffs_FindBlockForGarbageCollection dev aggressive;
          (gcOk, fs) \<leftarrow>
            (if block > 0 then
               (let dev = dev\<lparr>garbageCollections := garbageCollections dev + 1\<rparr>;
                    dev = (if \<not> aggressive then dev\<lparr>passiveGarbageCollections := passiveGarbageCollections dev + 1\<rparr> else dev)
                in yaffs_GarbageCollectBlock cfg block (fs\<lparr>the_dev := dev\<rparr>))
             else Some (gcOk, fs\<lparr>the_dev := dev\<rparr>));
          Some (block, aggressive, gcOk, fs) }"

definition yaffs_CheckGarbageCollection :: "yaffs_Config \<Rightarrow> 'n yaffs_State \<Rightarrow> (int \<times> 'n yaffs_State) option" where
  "yaffs_CheckGarbageCollection cfg fs =
     (if isDoingGC (the_dev fs) then Some (YAFFS_OK, fs)
      else do {
        (block, aggressive, gcOk, fs) \<leftarrow> gc_turn cfg YAFFS_OK fs;
        if nErasedBlocks (the_dev fs) < nReservedBlocks (the_dev fs) \<and> block > 0 then do {
          (block, aggressive, gcOk, fs) \<leftarrow> gc_turn cfg gcOk fs;
          Some (if aggressive then gcOk else YAFFS_OK, fs) }
        else Some (if aggressive then gcOk else YAFFS_OK, fs) })"

definition check_gc :: "yaffs_Config \<Rightarrow> 'n yaffs_State \<Rightarrow> 'n yaffs_State option" where
  "check_gc cfg fs = map_option snd (yaffs_CheckGarbageCollection cfg fs)"

end
