(* ===== verification/FileData.thy ===== *)
theory FileData
  imports WriteLoop TnodeMap Files
begin

section \<open>Data of files on the flash\<close>

text \<open>
  Block manager, flash and tnode tree together: a chunk that is written into a file is found through the tree and read back from the
  flash.
\<close>

subsection \<open>A flash that keeps its contents\<close>

text \<open>
  \<open>content n c\<close> is what page \<open>c\<close> of the chip in state \<open>n\<close> holds (\<open>None\<close>: erased).  A programmed page is read back without
  error, an erased one reads as 0xFF bytes without tags, reading changes nothing, and an erased page can be programmed.
\<close>

definition flash_laws ::
  "('n \<Rightarrow> int \<Rightarrow> bool \<Rightarrow> int \<times> u8 list \<times> yaffs_ExtendedTags \<times> 'n) \<Rightarrow> ('n \<Rightarrow> int \<Rightarrow> u8 list option \<Rightarrow> yaffs_ExtendedTags \<Rightarrow> int \<times> 'n) \<Rightarrow>
     ('n \<Rightarrow> int \<Rightarrow> (u8 list \<times> yaffs_ExtendedTags) option) \<Rightarrow> int \<Rightarrow> bool" where
  "flash_laws f w content nBytes \<longleftrightarrow>
     (\<forall>n c d t. content n c = Some (d, t) \<longrightarrow>
        f n c True = (YAFFS_OK, d, t\<lparr>eccResult := YAFFS_ECC_RESULT_NO_ERROR\<rparr>, n) \<and> (\<exists>x. f n c False = (YAFFS_OK, x, t\<lparr>eccResult := YAFFS_ECC_RESULT_NO_ERROR\<rparr>, n))) \<and>
     (\<forall>n c. content n c = None \<longrightarrow>
        (\<exists>r t. f n c True = (r, replicate (nat nBytes) 0xFF, t, n) \<and> chunkUsed t = 0 \<and> eccResult t \<le> YAFFS_ECC_RESULT_NO_ERROR)) \<and>
     (\<forall>n c d t. content n c = None \<longrightarrow> length d = nat nBytes \<longrightarrow>
        (\<exists>n'. w n c (Some d) t = (YAFFS_OK, n') \<and> content n' = (content n)(c \<mapsto> (d, t))))"

text \<open>The parts of a device that writing a chunk leaves alone, and the chip.\<close>

definition fl_view :: "'n yaffs_Device \<Rightarrow> _" where
  "fl_view dev = (genericDevice dev, tn_view dev, chunkGroupSize dev, chunkOffset dev, nChunksPerBlock dev, readChunkWithTagsFromNAND dev,
     writeChunkWithTagsToNAND dev, nDataBytesPerChunk dev)"

lemma fl_view_set_block_info [simp]: "fl_view (set_block_info dev b bi) = fl_view dev"
  by (simp add: fl_view_def tn_view_def set_block_info_def split: option.splits)

lemma fl_view_upd [simp]:
  "fl_view (dev\<lparr>nErasedBlocks := i\<rparr>) = fl_view dev" "fl_view (dev\<lparr>nFreeChunks := i\<rparr>) = fl_view dev"
  "fl_view (dev\<lparr>allocationBlock := i\<rparr>) = fl_view dev" "fl_view (dev\<lparr>allocationPage := p\<rparr>) = fl_view dev"
  "fl_view (dev\<lparr>chunkBits := bs\<rparr>) = fl_view dev" "fl_view (dev\<lparr>allocationBlockFinder := i\<rparr>) = fl_view dev"
  "fl_view (dev\<lparr>dev_sequenceNumber := q\<rparr>) = fl_view dev"
  by (simp_all add: fl_view_def tn_view_def)

lemma SetChunkBit_fl: "yaffs_SetChunkBit dev b c = Some dev' \<Longrightarrow> fl_view dev' = fl_view dev"
  by (auto simp: yaffs_SetChunkBit_def Let_def bind_Some split: if_splits)

lemma alloc_page_fl: "alloc_page dev = Some (c, b, dev') \<Longrightarrow> fl_view dev' = fl_view dev"
  by (auto simp: alloc_page_def bind_Some Let_def split: if_splits dest!: SetChunkBit_fl)

lemma FindBlock_loop_fl: "FindBlockForAllocation_loop n dev = Some (b, dev') \<Longrightarrow> fl_view dev' = fl_view dev"
proof (induction n arbitrary: dev)
  case (Suc n)
  from Suc.prems show ?case
    by (auto simp: bind_Some Let_def split: if_splits dest!: Suc.IH)
qed simp

lemma AllocateChunk_fl: "yaffs_AllocateChunk dev u = Some (c, b, dev') \<Longrightarrow> fl_view dev' = fl_view dev"
  by (auto simp: AllocateChunk_page bind_Some yaffs_FindBlockForAllocation_def split: if_splits dest!: alloc_page_fl FindBlock_loop_fl)

lemma temp_fl: "fl_view (snd (yaffs_GetTempBuffer dev l)) = fl_view dev" "fl_view (yaffs_ReleaseTempBuffer dev b) = fl_view dev"
  by (auto simp: fl_view_def tn_view_def yaffs_GetTempBuffer_def yaffs_ReleaseTempBuffer_def YMALLOC_def Let_def split: option.splits)

lemma CheckChunkErased_flash:
  assumes run: "yaffs_CheckChunkErased cfg d chunk = Some (e, d')" and laws: "flash_laws f w content (nDataBytesPerChunk d)"
    and f: "readChunkWithTagsFromNAND d = Some f" and c: "content (genericDevice d) (chunk - chunkOffset d) = None"
  shows "e = YAFFS_OK" "fl_view d' = fl_view d"
proof -
  obtain b g where g: "yaffs_GetTempBuffer d 896 = (b, g)" by fastforce
  have fg: "fl_view g = fl_view d" using temp_fl(1) [of d 896] g by simp
  then have eqs: "readChunkWithTagsFromNAND g = Some f" "nDataBytesPerChunk g = nDataBytesPerChunk d" "genericDevice g = genericDevice d"
    "chunkOffset g = chunkOffset d" using f by (simp_all add: fl_view_def)
  obtain r t where q: "f (genericDevice d) (chunk - chunkOffset d) True = (r, replicate (nat (nDataBytesPerChunk d)) 0xFF, t, genericDevice d)"
    "chunkUsed t = 0" "\<not> eccResult t > YAFFS_ECC_RESULT_NO_ERROR"
    using laws c unfolding flash_laws_def by (metis not_less)
  have b: "b \<noteq> 0" using run g by (auto simp: yaffs_CheckChunkErased_def Let_def bind_Some split: if_splits)
  have same: "g\<lparr>genericDevice := genericDevice d\<rparr> = g" using eqs(3) by (cases g) simp
  have "yaffs_CheckChunkErased cfg d chunk = Some (YAFFS_OK, yaffs_ReleaseTempBuffer g b)"
    using g b q eqs by (simp add: same yaffs_CheckChunkErased_def yaffs_ReadChunkWithTagsFromNAND_def yaffs_CheckFF_def Let_def list_all_iff)
  then show "e = YAFFS_OK" "fl_view d' = fl_view d" using run temp_fl(2) [of g b] fg by auto
qed

lemma erased_check_flash:
  assumes run: "erased_check cfg blk chunk bi d = Some (e, go, d')" and laws: "flash_laws f w content (nDataBytesPerChunk d)"
    and f: "readChunkWithTagsFromNAND d = Some f" and c: "content (genericDevice d) (chunk - chunkOffset d) = None"
  shows "go" "fl_view d' = fl_view d"
proof -
  have "go \<and> fl_view d' = fl_view d"
  proof (cases "skipErasedCheck bi")
    case False
    then obtain r g where g: "yaffs_CheckChunkErased cfg d chunk = Some (r, g)" using run by (auto simp: erased_check_def bind_Some)
    with False run CheckChunkErased_flash [OF g laws f c] show ?thesis by (auto simp: erased_check_def bind_Some)
  qed (use run in \<open>auto simp: erased_check_def\<close>)
  then show "go" "fl_view d' = fl_view d" by blast+
qed

text \<open>The chunk that is allocated next is erased on the chip.\<close>

definition next_erased :: "('n \<Rightarrow> int \<Rightarrow> (u8 list \<times> yaffs_ExtendedTags) option) \<Rightarrow> bool \<Rightarrow> 'n yaffs_Device \<Rightarrow> bool" where
  "next_erased content useReserve dev \<longleftrightarrow>
     (\<forall>chunk blk a. yaffs_AllocateChunk dev useReserve = Some (chunk, blk, a) \<longrightarrow> content (genericDevice dev) (chunk - chunkOffset dev) = None)"

text \<open>What a device has to be for a chunk to be written at the first attempt.\<close>

definition ready :: "yaffs_Config \<Rightarrow> bool \<Rightarrow> 'n yaffs_Device \<Rightarrow> bool" where
  "ready cfg useReserve dev \<longleftrightarrow> block_inv dev \<and> io_ok dev \<and> \<not> cfg_verify_erase cfg \<and> no_prio dev \<and> \<not> isCheckpointed dev \<and> blocksInCheckpoint dev \<le> 0 \<and>
     (0 \<le> allocationBlock dev \<or> 0 < nErasedBlocks dev) \<and> (useReserve \<or> yaffs_CheckSpaceForAllocation dev)"

lemma WriteNewChunk_stores:
  assumes ready: "ready cfg useReserve dev" and f: "readChunkWithTagsFromNAND dev = Some f" and w: "writeChunkWithTagsToNAND dev = Some w"
    and laws: "flash_laws f w content (nDataBytesPerChunk dev)" and len: "length data = nat (nDataBytesPerChunk dev)"
    and erased: "next_erased content useReserve dev"
  obtains blk page q dev' where
    "yaffs_WriteNewChunkWithTagsToNAND cfg dev data tags useReserve =
       Some (blk * nChunksPerBlock dev + page, tags\<lparr>sequenceNumber := q, chunkUsed := 1\<rparr>, dev')"
    "valid_chunk dev (blk, page)" "valid_chunk dev' (blk, page)" "nat page \<in> chunks_in_use dev' blk" "block_inv dev'" "snd (fl_view dev') = snd (fl_view dev)"
    "content (genericDevice dev') = (content (genericDevice dev))
       (blk * nChunksPerBlock dev + page - chunkOffset dev \<mapsto> (data, tags\<lparr>sequenceNumber := q, chunkUsed := 1\<rparr>))"
proof -
  have inv: "block_inv dev" and io: "io_ok dev" and np: "no_prio dev" and cp: "\<not> isCheckpointed dev" "blocksInCheckpoint dev \<le> 0"
    and space: "0 \<le> allocationBlock dev \<or> 0 < nErasedBlocks dev" "useReserve \<or> yaffs_CheckSpaceForAllocation dev"
    using ready by (auto simp: ready_def)
  obtain chunk blk page a where a: "yaffs_AllocateChunk dev useReserve = Some (chunk, blk, a)" "chunk = blk * nChunksPerBlock dev + page"
    "valid_chunk dev (blk, page)" "block_inv a"
    using AllocateChunk_ok [OF inv space] by metis
  have pos: "0 \<le> chunk" using block_index_of_chunk(3) [OF a(3) block_invD(4) [OF inv]] a(2) by simp
  have fla: "fl_view a = fl_view dev" by (rule AllocateChunk_fl [OF a(1)])
  obtain page' bi where P: "chunk = blk * nChunksPerBlock a + page'" "fresh_chunk a blk page' bi"
    using AllocateChunk_progress [OF inv a(1) pos] by metis
  have bi: "yaffs_GetBlockInfo a blk = Some bi" using P(2) by (simp add: fresh_chunk_def)
  have gc: "\<not> gcPrioritise bi" by (rule no_prio_block [OF AllocateChunk_no_prio [OF inv np a(1) pos] bi])
  have wa: "writing a blk page' a" using a(4) P(2) by (auto simp: writing_def)
  define ci where "ci = (if cfg_always_check_erased cfg then bi\<lparr>skipErasedCheck := False\<rparr> else bi)"
  define b where "b = set_block_info a blk ci"
  have wb: "writing a blk page' b" unfolding b_def by (rule writing_set [OF wa bi]) (simp add: same_counts_def ci_def)
  have flb: "fl_view b = fl_view dev" using fla by (simp add: b_def)
  have iob: "io_ok b" using io_ok_cong [of b dev] AllocateChunk_io [OF a(1)] io by (simp add: b_def)
  have n: "nChunksPerBlock b = nChunksPerBlock a" using wb by (simp add: writing_def)
  obtain e go d where d: "erased_check cfg blk chunk ci b = Some (e, go, d)" "writing a blk page' d"
    using erased_check_ok [OF wb iob, of cfg ci] unfolding n P(1) [symmetric] by blast
  have E: "go" "fl_view d = fl_view b"
    using erased_check_flash [OF d(1), of f w content] laws f a(1) erased flb by (auto simp: fl_view_def next_erased_def)
  have fd: "chunkOffset d = chunkOffset dev" "writeChunkWithTagsToNAND d = Some w" "genericDevice d = genericDevice dev" "nChunksPerBlock d = nChunksPerBlock dev"
    "nChunksPerBlock a = nChunksPerBlock dev" "snd (fl_view d) = snd (fl_view dev)"
    using E(2) flb w fla by (simp_all add: fl_view_def)
  then have pg: "page' = page" using P(1) a(2) by simp
  define t where "t = tags\<lparr>sequenceNumber := dev_sequenceNumber d, chunkUsed := 1\<rparr>"
  obtain n' where n': "w (genericDevice dev) (chunk - chunkOffset dev) (Some data) t = (YAFFS_OK, n')"
    "content n' = (content (genericDevice dev))(chunk - chunkOffset dev \<mapsto> (data, t))"
    using laws len erased a(1) unfolding flash_laws_def next_erased_def by metis
  let ?d = "d\<lparr>genericDevice := n'\<rparr>"
  have "yaffs_WriteChunkWithTagsToNAND cfg d chunk (Some data) tags = Some (YAFFS_OK, t, ?d)"
    using fd(1-3) n'(1) by (simp add: yaffs_WriteChunkWithTagsToNAND_def Let_def t_def)
  then have "write_attempt cfg data useReserve 0 tags dev = Some (chunk, True, False, 1, t, ?d)"
    using d(1) pos gc E(1) unfolding write_attempt_def a(1) Let_def Option.bind.simps case_prod_conv bi ci_def [symmetric] b_def [symmetric]
      erased_check_def [symmetric] by simp
  then have "write_loop cfg data useReserve 0 tags dev = Some (chunk, 1, t, ?d)"
    by (subst write_loop.simps) simp
  then have "yaffs_WriteNewChunkWithTagsToNAND cfg dev data tags useReserve = Some (chunk, t, ?d)"
    using cp by (simp add: yaffs_WriteNewChunkWithTagsToNAND_def yaffs_InvalidateCheckpoint_def)
  moreover have v: "inv_view ?d = inv_view d" by (simp add: inv_view_def bits_view_def)
  then have "writing a blk page' ?d" using writing_upd [OF d(2)] by simp
  then have "block_inv ?d" "valid_chunk ?d (blk, page)" "nat page \<in> chunks_in_use ?d blk" using pg by (auto simp: writing_def fresh_chunk_def)
  moreover have "snd (fl_view ?d) = snd (fl_view dev)" using fd(6) by (simp add: fl_view_def tn_view_def)
  ultimately show thesis
    using that [of blk page "dev_sequenceNumber d" ?d] a(2,3) n'(2) unfolding t_def by simp
qed

subsection \<open>Entering and finding chunks\<close>

text \<open>Allocating tnodes changes neither the flash nor the block table.\<close>

lemma GetTnode_keeps:
  "fl_view (snd (yaffs_GetTnode dev t)) = fl_view dev" "inv_view (snd (yaffs_GetTnode dev t)) = inv_view dev"
  by (auto simp: yaffs_GetTnode_def yaffs_GetTnodeRaw_def yaffs_CreateTnodes_def YMALLOC_def Let_def fl_view_def tn_view_def inv_view_def bits_view_def)

lemma grow_loop_keeps: "fl_view (snd (grow_loop n dev t)) = fl_view dev \<and> inv_view (snd (grow_loop n dev t)) = inv_view dev"
proof (induction n arbitrary: dev t)
  case (Suc n)
  obtain tn d where g: "yaffs_GetTnode dev empty_internal = (tn, d)" by fastforce
  then show ?case
    using Suc [of d] GetTnode_keeps [of dev empty_internal] by (simp add: Let_def)
qed simp

lemma add_loop_keeps: "add_loop l cid None dev t = Some (r, t', dev') \<Longrightarrow> fl_view dev' = fl_view dev \<and> inv_view dev' = inv_view dev"
proof (induction l cid "None :: yaffs_Tnode option" dev t arbitrary: r t' dev' rule: add_loop.induct)
  case (3 l cid dev ch)
  let ?x = "child_index (Suc l) cid"
  define e where "e = (if l = 0 then empty_level0 dev else empty_internal)"
  define c d where "c = (if ch ! ?x = None then fst (yaffs_GetTnode dev e) else ch ! ?x)" and "d = (if ch ! ?x = None then snd (yaffs_GetTnode dev e) else dev)"
  have step: "(if l > 0 then (if ch ! ?x = None then yaffs_GetTnode dev empty_internal else (ch ! ?x, dev))
              else case None of Some p \<Rightarrow> (Some p, yaffs_FreeTnode dev (ch ! ?x))
              | None \<Rightarrow> (if ch ! ?x = None then yaffs_GetTnode dev (empty_level0 dev) else (ch ! ?x, dev))) = (c, d)"
    by (simp add: c_def d_def e_def)
  obtain r' t1 where "add_loop l cid None d c = Some (r', t1, dev')"
    using "3.prems" step by (auto simp: Let_def bind_Some split: if_splits)
  moreover have "\<not> \<not> ?x < length ch" using "3.prems" by (auto simp: Let_def split: if_splits)
  ultimately have "fl_view dev' = fl_view d \<and> inv_view dev' = inv_view d"
    using "3.hyps" [OF refl _ step [symmetric] refl] by blast
  then show ?case using GetTnode_keeps [of dev e] by (simp add: d_def split: if_splits)
qed simp_all

lemma AddOrFind_keeps:
  "yaffs_AddOrFindLevel0Tnode dev f cid None = Some (r, f', dev') \<Longrightarrow> fl_view dev' = fl_view dev \<and> inv_view dev' = inv_view dev"
  using grow_loop_keeps [of "nat (requiredTallness cid - topLevel f)" dev "top_tnode f"]
  by (auto simp: yaffs_AddOrFindLevel0Tnode_def Let_def bind_Some case_prod_beta split: if_splits dest!: add_loop_keeps)

lemma AddOrFind_finds:
  assumes "wf_file dev f" "mem_ok dev" "wf_width dev" "cid \<le> 0xFFFFF"
  shows "\<exists>m f1 dev'. yaffs_AddOrFindLevel0Tnode dev f cid None = Some (Some (Level0 m), f1, dev') \<and> tn_view dev' = tn_view dev \<and>
    wf_level0 dev m \<and> yaffs_FindLevel0Tnode f1 cid = Some (Some (Level0 m))"
proof (rule AddOrFind_ok [OF assms], goal_cases)
  case (1 m f1 dev')
  have "same_path (nat (topLevel f1)) cid cid" by (simp add: same_path_def)
  then have "yaffs_FindLevel0Tnode f1 cid = Some (Some (Level0 m))" using 1(6) [OF assms(4) 1(5)] by (simp only: if_True)
  with 1(1,2,4) show ?case by blast
qed

lemma entry_found:
  assumes "wf_file dev f" "mem_ok dev" "wf_width dev" "cid \<le> 0xFFFFF"
  shows "yaffs_FindLevel0Tnode f cid = Some None \<and> chunk_of dev f cid = 0 \<or>
    (\<exists>m. yaffs_FindLevel0Tnode f cid = Some (Some (Level0 m)) \<and> yaffs_GetChunkGroupBase dev m cid = Some (chunk_of dev f cid))"
proof -
  obtain m where m: "wf_level0 dev m" "yaffs_FindLevel0Tnode f cid = Some (Some (Level0 m)) \<or> yaffs_FindLevel0Tnode f cid = Some None"
    using AddOrFind_ok [OF assms] by metis
  obtain v where "yaffs_GetChunkGroupBase dev m cid = Some v" using GetChunkGroupBase_bits [OF assms(3) m(1)] by blast
  with m(2) show ?thesis by (auto simp: chunk_of_def entry_of_def)
qed

text \<open>What the tree of an object's file holds for a chunk number, and that entering a chunk is an update of it.\<close>

definition has_file :: "'n yaffs_State \<Rightarrow> yaffs_addr \<Rightarrow> u32 \<Rightarrow> yaffs_FileStructure \<Rightarrow> bool" where
  "has_file fs a oid f \<longleftrightarrow> (\<exists>ob. objs fs a = Some ob \<and> obj_objectId ob = oid \<and> variantType ob = YAFFS_OBJECT_TYPE_FILE \<and> variant ob = FileVariant f)"

lemma PutChunkIntoFile_enters:
  assumes ob: "has_file fs a oid f" and tree: "wf_file (the_dev fs) f" "mem_ok (the_dev fs)" "wf_width (the_dev fs)"
    and cid: "(word_of_int idx :: u32) \<le> 0xFFFFF"
  obtains fs' f' where "yaffs_PutChunkIntoFile cfg a idx chunk 0 fs = Some (YAFFS_OK, fs')" "has_file fs' a oid f'"
    "fl_view (the_dev fs') = fl_view (the_dev fs)" "inv_view (the_dev fs') = inv_view (the_dev fs)" "wf_file (the_dev fs) f'"
    "chunk_of (the_dev fs) f' = (chunk_of (the_dev fs) f)(word_of_int idx := group_of (the_dev fs) (word_of_int chunk))"
proof -
  let ?dev = "the_dev fs" and ?cid = "word_of_int idx :: u32"
  obtain ob where O: "objs fs a = Some ob" "obj_objectId ob = oid" "variantType ob = YAFFS_OBJECT_TYPE_FILE" "variant ob = FileVariant f"
    using ob by (auto simp: has_file_def)
  obtain m f1 dev' where A: "yaffs_AddOrFindLevel0Tnode ?dev f ?cid None = Some (Some (Level0 m), f1, dev')" "tn_view dev' = tn_view ?dev"
    "wf_level0 ?dev m" "yaffs_FindLevel0Tnode f1 ?cid = Some (Some (Level0 m))"
    using AddOrFind_finds [OF tree cid] by blast
  obtain base where base: "yaffs_GetChunkGroupBase dev' m ?cid = Some base"
    using GetChunkGroupBase_bits [OF tree(3) A(3)] tn_view_cong [OF A(2)] by metis
  obtain d2 f2 where M: "map_chunk (?dev, f) ?cid (word_of_int chunk) = Some (d2, f2)" "wf_file ?dev f2"
    "chunk_of ?dev f2 = (chunk_of ?dev f)(?cid := group_of ?dev (word_of_int chunk))"
    using map_chunk_ok [OF tree cid] by blast
  obtain m' where m': "yaffs_PutLevel0Tnode dev' m ?cid (word_of_int chunk) = Some m'" "f2 = set_level0 f1 ?cid (Level0 m')"
    using M(1) A(1) by (auto simp: map_chunk_def bind_Some)
  define ob' where "ob' = (if sint base = 0 then (ob\<lparr>variant := FileVariant f1\<rparr>)\<lparr>nDataChunks := nDataChunks ob + 1\<rparr> else ob\<lparr>variant := FileVariant f1\<rparr>)"
  let ?fs = "set_obj (fs\<lparr>the_dev := dev'\<rparr>) a (ob'\<lparr>variant := FileVariant f2\<rparr>)"
  have "yaffs_PutChunkIntoFile cfg a idx chunk 0 fs = Some (YAFFS_OK, ?fs)"
    using O A(1,4) base m'
    by (simp add: yaffs_PutChunkIntoFile_def file_of_def Let_def put_level0_def upd_obj_def set_obj_def ob'_def)
  moreover have "has_file ?fs a oid f2" using O by (simp add: has_file_def set_obj_def ob'_def)
  ultimately show thesis
    using that M(2,3) AddOrFind_keeps [OF A(1)] by (simp add: set_obj_def)
qed

lemma FindChunkInFile_hole:
  assumes "has_file fs a oid f" "wf_file (the_dev fs) f" "mem_ok (the_dev fs)" "wf_width (the_dev fs)" "(word_of_int idx :: u32) \<le> 0xFFFFF"
    and "chunk_of (the_dev fs) f (word_of_int idx) = 0" "chunkGroupSize (the_dev fs) = 1"
  shows "yaffs_FindChunkInFile cfg a idx tags fs = Some (-1, tags, fs)"
  using entry_found [OF assms(2-5)] assms(1,6,7)
  by (auto simp: yaffs_FindChunkInFile_def has_file_def file_of_def yaffs_FindChunkInGroup_def)

lemma sint_chunk: "0 \<le> c \<Longrightarrow> c < 2 ^ 31 \<Longrightarrow> sint (word_of_int c :: u32) = c"
  by (simp add: sint_sbintrunc' signed_take_bit_int_eq_self)

lemma ReadChunk_flash:
  assumes laws: "flash_laws f w content n" and f: "readChunkWithTagsFromNAND dev = Some f"
    and c: "content (genericDevice dev) (chunk - chunkOffset dev) = Some (data, t)"
  shows "yaffs_ReadChunkWithTagsFromNAND cfg dev chunk True t0 = Some (YAFFS_OK, data, t\<lparr>eccResult := YAFFS_ECC_RESULT_NO_ERROR\<rparr>, dev)"
    "\<exists>x. yaffs_ReadChunkWithTagsFromNAND cfg dev chunk False t0 = Some (YAFFS_OK, x, t\<lparr>eccResult := YAFFS_ECC_RESULT_NO_ERROR\<rparr>, dev)"
proof -
  have same: "dev\<lparr>genericDevice := genericDevice dev\<rparr> = dev" by (cases dev) simp
  obtain x where r: "f (genericDevice dev) (chunk - chunkOffset dev) True = (YAFFS_OK, data, t\<lparr>eccResult := YAFFS_ECC_RESULT_NO_ERROR\<rparr>, genericDevice dev)"
    "f (genericDevice dev) (chunk - chunkOffset dev) False = (YAFFS_OK, x, t\<lparr>eccResult := YAFFS_ECC_RESULT_NO_ERROR\<rparr>, genericDevice dev)"
    using laws c unfolding flash_laws_def by blast
  then show "yaffs_ReadChunkWithTagsFromNAND cfg dev chunk True t0 = Some (YAFFS_OK, data, t\<lparr>eccResult := YAFFS_ECC_RESULT_NO_ERROR\<rparr>, dev)"
    "\<exists>x. yaffs_ReadChunkWithTagsFromNAND cfg dev chunk False t0 = Some (YAFFS_OK, x, t\<lparr>eccResult := YAFFS_ECC_RESULT_NO_ERROR\<rparr>, dev)"
    using f same by (simp_all add: yaffs_ReadChunkWithTagsFromNAND_def Let_def)
qed

text \<open>The state in which a chunk of a file is on the flash, with its tags and its entry in the tree.\<close>

lemma FindChunkInFile_found:
  assumes fil: "has_file fs a oid f" "wf_file (the_dev fs) f" "mem_ok (the_dev fs)" "wf_width (the_dev fs)" "(word_of_int idx :: u32) \<le> 0xFFFFF"
    and entry: "chunk_of (the_dev fs) f (word_of_int idx) = word_of_int chunk" "chunk < 2 ^ 31" "chunkGroupSize (the_dev fs) = 1"
    and chunk: "chunk = blk * nChunksPerBlock (the_dev fs) + page" "valid_chunk (the_dev fs) (blk, page)" "nat page \<in> chunks_in_use (the_dev fs) blk"
      "0 < internalStartBlock (the_dev fs)"
    and flash: "flash_laws g w content n" "readChunkWithTagsFromNAND (the_dev fs) = Some g"
      "content (genericDevice (the_dev fs)) (chunk - chunkOffset (the_dev fs)) = Some (data, t)"
    and tags: "yaffs_TagsMatch t oid (word_of_int idx)"
  shows "\<exists>t'. yaffs_FindChunkInFile cfg a idx t0 fs = Some (chunk, t', fs)"
proof -
  let ?dev = "the_dev fs"
  note bc = block_index_of_chunk [OF chunk(2,4)]
  have pos: "0 < chunk" using bc(3) chunk(1) by simp
  then have s: "sint (word_of_int chunk :: u32) = chunk" "(word_of_int chunk :: u32) \<noteq> 0"
    using sint_chunk [of chunk] entry(2) by fastforce+
  then obtain m where m: "yaffs_FindLevel0Tnode f (word_of_int idx) = Some (Some (Level0 m))"
    "yaffs_GetChunkGroupBase ?dev m (word_of_int idx) = Some (word_of_int chunk)"
    using entry_found [OF fil(2-5)] entry(1) by auto
  have "0 \<le> page" using chunk(2) by (simp add: valid_chunk_def)
  then have bit: "yaffs_CheckChunkBit ?dev blk page = Some 1" using chunk(3) by (simp add: chunks_in_use_def)
  obtain x where "yaffs_ReadChunkWithTagsFromNAND cfg ?dev chunk False t0 = Some (YAFFS_OK, x, t\<lparr>eccResult := YAFFS_ECC_RESULT_NO_ERROR\<rparr>, ?dev)"
    using ReadChunk_flash(2) [OF flash] by blast
  moreover have "yaffs_TagsMatch (t\<lparr>eccResult := YAFFS_ECC_RESULT_NO_ERROR\<rparr>) oid (word_of_int idx)" using tags by (simp add: yaffs_TagsMatch_def)
  ultimately have "yaffs_FindChunkInGroup cfg ?dev chunk t0 (sint oid) idx = Some (chunk, t\<lparr>eccResult := YAFFS_ECC_RESULT_NO_ERROR\<rparr>, ?dev)"
    using pos bit entry(3) bc(1,2) chunk(1) by (simp add: yaffs_FindChunkInGroup_def)
  moreover obtain ob where "objs fs a = Some ob" "obj_objectId ob = oid" "variant ob = FileVariant f"
    using fil(1) by (auto simp: has_file_def)
  moreover have "fs\<lparr>the_dev := ?dev\<rparr> = fs" by (cases fs) simp
  ultimately show ?thesis using m s by (simp add: yaffs_FindChunkInFile_def file_of_def)
qed

text \<open>The entries of the tnodes can hold every chunk number of the device, without groups.\<close>

definition wide_enough :: "'n yaffs_Device \<Rightarrow> bool" where
  "wide_enough dev \<longleftrightarrow> chunkGroupBits dev = 0 \<and> chunkGroupSize dev = 1 \<and> (internalEndBlock dev + 1) * nChunksPerBlock dev \<le> 2 ^ min 31 (width dev)"

lemma valid_chunk_bound:
  assumes "valid_chunk dev (blk, page)" "wide_enough dev" "0 < internalStartBlock dev" "wf_width dev"
  shows "blk * nChunksPerBlock dev + page < 2 ^ 31" "group_of dev (word_of_int (blk * nChunksPerBlock dev + page)) = word_of_int (blk * nChunksPerBlock dev + page)"
proof -
  let ?c = "blk * nChunksPerBlock dev + page"
  have v: "blk \<le> internalEndBlock dev" "page < nChunksPerBlock dev" "0 \<le> page" using assms(1) by (auto simp: valid_chunk_def valid_block_def)
  have "(blk + 1) * nChunksPerBlock dev \<le> (internalEndBlock dev + 1) * nChunksPerBlock dev"
    using v by (intro mult_right_mono) auto
  moreover have "?c < (blk + 1) * nChunksPerBlock dev" using v by (simp add: algebra_simps)
  moreover have "(internalEndBlock dev + 1) * nChunksPerBlock dev \<le> 2 ^ min 31 (width dev)" using assms(2) by (simp add: wide_enough_def)
  ultimately have c: "?c < 2 ^ min 31 (width dev)" "0 \<le> ?c" using block_index_of_chunk(3) [OF assms(1,3)] by linarith+
  have "(2 :: int) ^ min 31 (width dev) \<le> 2 ^ 31" "(2 :: int) ^ min 31 (width dev) \<le> 2 ^ width dev"
    using power_increasing [of "min 31 (width dev)" 31 "2 :: int"] by (simp_all add: power_increasing)
  then have small: "?c < 2 ^ 31" "?c < 2 ^ width dev" using c(1) by linarith+
  then show "?c < 2 ^ 31" by blast
  have "take_bit (width dev) (word_of_int ?c :: u32) = word_of_int (take_bit (width dev) ?c)"
    by (simp only: of_int_take_bit)
  also have "take_bit (width dev) ?c = ?c" using small(2) c(2) by (simp add: take_bit_int_eq_self)
  finally show "group_of dev (word_of_int ?c) = word_of_int ?c" using assms(2) by (simp add: group_of_def wide_enough_def)
qed

lemma tree_cong:
  assumes "tn_view dev' = tn_view dev"
  shows "chunk_of dev' = chunk_of dev" "group_of dev' = group_of dev" "wf_file dev' f = wf_file dev f"
  by (simp_all only: fun_eq_iff group_of_def chunk_of_def entry_of_def wf_file_def tn_view_cong [OF assms] simp_thms)

subsection \<open>Writing and reading a chunk of a file\<close>


text \<open>The concrete instance: the sample device on a chip in memory, whose pages are 512 bytes, and an empty file.\<close>

type_synonym memory_chip = "int \<Rightarrow> (u8 list \<times> yaffs_ExtendedTags) option"

definition chip_page :: "memory_chip \<Rightarrow> int \<Rightarrow> (u8 list \<times> yaffs_ExtendedTags) option" where
  "chip_page n c = (case n c of Some (d, t) \<Rightarrow> if length d = 512 then Some (d, t) else None | None \<Rightarrow> None)"

definition chip_read :: "memory_chip \<Rightarrow> int \<Rightarrow> bool \<Rightarrow> int \<times> u8 list \<times> yaffs_ExtendedTags \<times> memory_chip" where
  "chip_read n c wantData = (case chip_page n c of
     Some (d, t) \<Rightarrow> (YAFFS_OK, d, t\<lparr>eccResult := YAFFS_ECC_RESULT_NO_ERROR\<rparr>, n)
   | None \<Rightarrow> (YAFFS_OK, replicate 512 0xFF, yaffs_InitialiseTags, n))"

definition chip_write :: "memory_chip \<Rightarrow> int \<Rightarrow> u8 list option \<Rightarrow> yaffs_ExtendedTags \<Rightarrow> int \<times> memory_chip" where
  "chip_write n c d t = (YAFFS_OK, case d of Some d \<Rightarrow> n(c \<mapsto> (d, t)) | None \<Rightarrow> n)"

lemma chip_laws: "flash_laws chip_read chip_write chip_page 512"
  unfolding flash_laws_def
proof (intro conjI allI impI, goal_cases)
  case (3 n c)
  then show ?case by (simp add: chip_read_def yaffs_InitialiseTags_def zero_tags_def less_eq_yaffs_ECCResult_def)
next
  case (4 n c d t)
  then have "chip_page (n(c \<mapsto> (d, t))) = (chip_page n)(c \<mapsto> (d, t))" by (auto simp: chip_page_def fun_eq_iff)
  then show ?case by (simp add: chip_write_def)
qed (auto simp: chip_read_def)

definition memory_device :: "memory_chip yaffs_Device \<Rightarrow> memory_chip yaffs_Device" where
  "memory_device dev = (sample_blocks dev)\<lparr>eraseBlockInNAND := Some (\<lambda>n b. (1, n)), markNANDBlockBad := Some (\<lambda>n b. (1, n)),
     writeChunkWithTagsToNAND := Some chip_write, readChunkWithTagsFromNAND := Some chip_read, nDataBytesPerChunk := 512,
     tempBuffer := map (\<lambda>i. \<lparr>tb_buffer = i, tb_line = 0, tb_maxLine = 0\<rparr>) [1, 2, 3, 4], isCheckpointed := False,
     tnodeWidth := 20, tnodeMask := 0xFFFFF, chunkGroupBits := 0, chunkGroupSize := 1, ymalloc_result := (\<lambda>n. n + 1), genericDevice := Map.empty\<rparr>"

definition memory_file :: yaffs_FileStructure where
  "memory_file = \<lparr>fileSize = 0, scannedFileSize = 0, shrinkSize = 0, topLevel = 0, top_tnode = Some (Level0 (replicate 10 0))\<rparr>"

lemma memory_device_ready: "ready (cfg\<lparr>cfg_verify_erase := False\<rparr>) False (memory_device dev)"
proof -
  have "inv_view (memory_device dev) = inv_view (sample_blocks dev)" by (simp add: memory_device_def inv_view_def bits_view_def)
  from block_inv_cong [OF this] have "block_inv (memory_device dev)" using sample_blocks_inv by blast
  moreover have "512 \<le> length (fst (snd (chip_read n c True)))" for n c
    by (auto simp: chip_read_def chip_page_def split: option.splits)
  then have "io_ok (memory_device dev)"
    by (auto simp: io_ok_def memory_device_def nand_ok_def reads_pages_def wf_pool_def held_def sample_blocks_def YAFFS_N_TEMP_BUFFERS_def)
  ultimately show ?thesis
    by (simp add: ready_def) (simp add: memory_device_def sample_blocks_def no_prio_def zero_block_info_def yaffs_CheckSpaceForAllocation_def)
qed

lemma memory_device_tree:
  "wf_width (memory_device dev)" "mem_ok (memory_device dev)" "wf_file (memory_device dev) memory_file" "wide_enough (memory_device dev)"
  by (simp_all add: wf_width_def width_def memory_device_def mask_eq_exp_minus_1 mem_ok_def wf_file_def memory_file_def wf_level0_def
      wide_enough_def sample_blocks_def)


end
