(* ===== verification/FileIO.thy ===== *)
theory FileIO
  imports Files
begin

section \<open>The chunk cache and file input and output\<close>

text \<open>
  The short-operation cache of a device and reading, writing, flushing and resizing files
  (\<^verbatim>\<open>yaffs_guts.c\<close>).  A pointer to a cache entry is its index in \<open>srCache\<close>.  The loops that go on until a
  condition holds are recursions that may be undefined (\<open>None\<close>); that they end is proved where a property
  needs it.
\<close>

subsection \<open>Cache entries\<close>

definition upd_cache :: "(yaffs_ChunkCache \<Rightarrow> yaffs_ChunkCache) \<Rightarrow> nat \<Rightarrow> 'n yaffs_State \<Rightarrow> 'n yaffs_State option" where
  "upd_cache f i fs =
     (if i < length (srCache (the_dev fs))
      then Some (fs\<lparr>the_dev := (the_dev fs)\<lparr>srCache := (srCache (the_dev fs))[i := f (srCache (the_dev fs) ! i)]\<rparr>\<rparr>) else None)"

definition get_cache :: "nat \<Rightarrow> 'n yaffs_State \<Rightarrow> yaffs_ChunkCache option" where
  "get_cache i fs = (if i < length (srCache (the_dev fs)) then Some (srCache (the_dev fs) ! i) else None)"

text \<open>The entries that the loops look at.\<close>

definition caches :: "'n yaffs_Device \<Rightarrow> yaffs_ChunkCache list" where
  "caches dev = take (nat (nShortOpCaches dev)) (srCache dev)"

text \<open>The dirty entry of an object with the lowest chunk number, the first of them if there are several.\<close>

primrec lowest_dirty :: "yaffs_addr \<Rightarrow> (nat \<times> yaffs_ChunkCache) list \<Rightarrow> (nat \<times> yaffs_ChunkCache) option \<Rightarrow> (nat \<times> yaffs_ChunkCache) option" where
  "lowest_dirty a [] best = best"
| "lowest_dirty a (c # cs) best =
     lowest_dirty a cs
       (if cc_object (snd c) = Some a \<and> cc_dirty (snd c) \<and> (case best of None \<Rightarrow> True | Some b \<Rightarrow> cc_chunkId (snd c) < cc_chunkId (snd b))
        then Some c else best)"

partial_function (option) flush_loop :: "yaffs_Config \<Rightarrow> yaffs_addr \<Rightarrow> int \<Rightarrow> 'n yaffs_State \<Rightarrow> 'n yaffs_State option" where
  "flush_loop cfg a chunkWritten fs =
     (case lowest_dirty a (enumerate 0 (caches (the_dev fs))) None of
        None \<Rightarrow> Some fs
      | Some (i, c) \<Rightarrow>
          if cc_locked c then (if chunkWritten > 0 then flush_loop cfg a chunkWritten fs else Some fs)
          else do {
            (chunkWritten, fs) \<leftarrow> yaffs_WriteChunkDataToObject (check_gc cfg) cfg a (cc_chunkId c) (cc_data c) (cc_nBytes c) True fs;
            fs \<leftarrow> upd_cache (\<lambda>c. c\<lparr>cc_dirty := False, cc_object := None\<rparr>) i fs;
            if chunkWritten > 0 then flush_loop cfg a chunkWritten fs else Some fs })"

definition yaffs_FlushFilesChunkCache :: "yaffs_Config \<Rightarrow> yaffs_addr \<Rightarrow> 'n yaffs_State \<Rightarrow> 'n yaffs_State option" where
  "yaffs_FlushFilesChunkCache cfg a fs = (if nShortOpCaches (the_dev fs) > 0 then flush_loop cfg a 0 fs else Some fs)"

partial_function (option) yaffs_FlushEntireDeviceCache :: "yaffs_Config \<Rightarrow> 'n yaffs_State \<Rightarrow> 'n yaffs_State option" where
  "yaffs_FlushEntireDeviceCache cfg fs =
     (case List.find (\<lambda>c. cc_object c \<noteq> None \<and> cc_dirty c) (caches (the_dev fs)) of
        None \<Rightarrow> Some fs
      | Some c \<Rightarrow>
          Option.bind (Option.bind (cc_object c) (\<lambda>a. yaffs_FlushFilesChunkCache cfg a fs)) (\<lambda>fs. yaffs_FlushEntireDeviceCache cfg fs))"

text \<open>The code after the first loop cannot be reached.\<close>

definition yaffs_GrabChunkCacheWorker :: "'n yaffs_Device \<Rightarrow> nat option" where
  "yaffs_GrabChunkCacheWorker dev =
     (if nShortOpCaches dev > 0 then List.find (\<lambda>i. cc_object (srCache dev ! i) = None) [0..<length (caches dev)] else None)"

text \<open>The unlocked entry in use that was used least recently.\<close>

primrec least_used :: "(nat \<times> yaffs_ChunkCache) list \<Rightarrow> (nat \<times> yaffs_ChunkCache) option \<Rightarrow> (nat \<times> yaffs_ChunkCache) option" where
  "least_used [] best = best"
| "least_used (c # cs) best =
     least_used cs
       (if cc_object (snd c) \<noteq> None \<and> \<not> cc_locked (snd c) \<and> (case best of None \<Rightarrow> True | Some b \<Rightarrow> cc_lastUse (snd c) < cc_lastUse (snd b))
        then Some c else best)"

definition yaffs_GrabChunkCache :: "yaffs_Config \<Rightarrow> 'n yaffs_State \<Rightarrow> (nat option \<times> 'n yaffs_State) option" where
  "yaffs_GrabChunkCache cfg fs =
     (if nShortOpCaches (the_dev fs) > 0 then
        (case yaffs_GrabChunkCacheWorker (the_dev fs) of
           Some i \<Rightarrow> Some (Some i, fs)
         | None \<Rightarrow>
             (case least_used (enumerate 0 (caches (the_dev fs))) None of
                None \<Rightarrow> None
              | Some (i, c) \<Rightarrow>
                  if cc_dirty c then do {
                    a \<leftarrow> cc_object c;
                    fs \<leftarrow> yaffs_FlushFilesChunkCache cfg a fs;
                    Some (yaffs_GrabChunkCacheWorker (the_dev fs), fs) }
                  else Some (Some i, fs)))
      else Some (None, fs))"

definition yaffs_FindChunkCache :: "yaffs_addr \<Rightarrow> int \<Rightarrow> 'n yaffs_State \<Rightarrow> nat option \<times> 'n yaffs_State" where
  "yaffs_FindChunkCache a chunk fs =
     (let dev = the_dev fs
      in if nShortOpCaches dev > 0 then
           (case List.find (\<lambda>i. cc_object (srCache dev ! i) = Some a \<and> cc_chunkId (srCache dev ! i) = chunk) [0..<length (caches dev)] of
              Some i \<Rightarrow> (Some i, fs\<lparr>the_dev := dev\<lparr>cacheHits := cacheHits dev + 1\<rparr>\<rparr>)
            | None \<Rightarrow> (None, fs))
         else (None, fs))"

text \<open>The reset of the use counts leaves out entry 0.\<close>

definition reset_use :: "'n yaffs_Device \<Rightarrow> 'n yaffs_Device" where
  "reset_use dev =
     (if srLastUse dev < 0 \<or> srLastUse dev > 100000000 then
        dev\<lparr>srCache := map (\<lambda>(i, c). if 1 \<le> i \<and> i < nat (nShortOpCaches dev) then c\<lparr>cc_lastUse := 0\<rparr> else c) (enumerate 0 (srCache dev)),
            srLastUse := 0\<rparr>
      else dev)"

definition yaffs_UseChunkCache :: "nat \<Rightarrow> bool \<Rightarrow> 'n yaffs_State \<Rightarrow> 'n yaffs_State option" where
  "yaffs_UseChunkCache i isAWrite fs =
     (if nShortOpCaches (the_dev fs) > 0 then
        (let dev = reset_use (the_dev fs);
             dev = dev\<lparr>srLastUse := srLastUse dev + 1\<rparr>
         in upd_cache (\<lambda>c. c\<lparr>cc_lastUse := srLastUse dev, cc_dirty := cc_dirty c \<or> isAWrite\<rparr>) i (fs\<lparr>the_dev := dev\<rparr>))
      else Some fs)"

definition yaffs_InvalidateChunkCache :: "yaffs_addr \<Rightarrow> int \<Rightarrow> 'n yaffs_State \<Rightarrow> 'n yaffs_State option" where
  "yaffs_InvalidateChunkCache a chunk fs =
     (if nShortOpCaches (the_dev fs) > 0 then
        (case yaffs_FindChunkCache a chunk fs of
           (Some i, fs) \<Rightarrow> upd_cache (\<lambda>c. c\<lparr>cc_object := None\<rparr>) i fs
         | (None, fs) \<Rightarrow> Some fs)
      else Some fs)"

subsection \<open>Reading\<close>

definition slice :: "nat \<Rightarrow> nat \<Rightarrow> 'a list \<Rightarrow> 'a list option" where
  "slice start n xs = (if start + n \<le> length xs then Some (take n (drop start xs)) else None)"

text \<open>Loading a cache entry with a chunk of the file.\<close>

definition load_cache :: "yaffs_Config \<Rightarrow> yaffs_addr \<Rightarrow> int \<Rightarrow> 'n yaffs_State \<Rightarrow> (nat \<times> 'n yaffs_State) option" where
  "load_cache cfg a chunk fs =
     do { (r, fs) \<leftarrow> yaffs_GrabChunkCache cfg fs;
          i \<leftarrow> r;
          fs \<leftarrow> upd_cache (\<lambda>c. c\<lparr>cc_object := Some a, cc_chunkId := chunk, cc_dirty := False, cc_locked := False\<rparr>) i fs;
          (_, data, fs) \<leftarrow> yaffs_ReadChunkDataFromObject cfg a chunk fs;
          fs \<leftarrow> upd_cache (\<lambda>c. c\<lparr>cc_data := data\<rparr>) i fs;
          Some (i, fs) }"

text \<open>The bytes \<open>start\<close> to \<open>start + nToCopy\<close> of a chunk, as \<open>yaffs_ReadDataFromFile\<close> gets them.\<close>

definition read_piece :: "yaffs_Config \<Rightarrow> yaffs_addr \<Rightarrow> int \<Rightarrow> nat \<Rightarrow> nat \<Rightarrow> 'n yaffs_State \<Rightarrow> (u8 list \<times> 'n yaffs_State) option" where
  "read_piece cfg a chunk start nToCopy fs =
     do { let (cache, fs) = yaffs_FindChunkCache a chunk fs;
          if cache \<noteq> None \<or> int nToCopy \<noteq> nDataBytesPerChunk (the_dev fs) then
            if nShortOpCaches (the_dev fs) > 0 then do {
              (i, fs) \<leftarrow> (case cache of
                           Some i \<Rightarrow> Some (i, fs)
                         | None \<Rightarrow> do { (i, fs) \<leftarrow> load_cache cfg a chunk fs;
                                        fs \<leftarrow> upd_cache (\<lambda>c. c\<lparr>cc_nBytes := 0\<rparr>) i fs;
                                        Some (i, fs) });
              fs \<leftarrow> yaffs_UseChunkCache i False fs;
              c \<leftarrow> get_cache i fs;
              bytes \<leftarrow> slice start nToCopy (cc_data c);
              fs \<leftarrow> upd_cache (\<lambda>c. c\<lparr>cc_locked := False\<rparr>) i fs;
              Some (bytes, fs) }
            else do {
              let (buf, dev) = yaffs_GetTempBuffer (the_dev fs) 4658;
              (_, data, fs) \<leftarrow> (if buf = 0 then None else yaffs_ReadChunkDataFromObject cfg a chunk (fs\<lparr>the_dev := dev\<rparr>));
              bytes \<leftarrow> slice start nToCopy data;
              Some (bytes, fs\<lparr>the_dev := yaffs_ReleaseTempBuffer (the_dev fs) buf\<rparr>) }
          else do {
            (_, data, fs) \<leftarrow> yaffs_ReadChunkDataFromObject cfg a chunk fs;
            Some (data, fs) } }"

text \<open>How many of the \<open>n\<close> bytes from \<open>start\<close> on lie in the chunk.\<close>

definition piece_length :: "'n yaffs_Device \<Rightarrow> int \<Rightarrow> int \<Rightarrow> int" where
  "piece_length dev start n = (if start + n < nDataBytesPerChunk dev then n else nDataBytesPerChunk dev - start)"

partial_function (option) read_loop :: "yaffs_Config \<Rightarrow> yaffs_addr \<Rightarrow> int \<Rightarrow> int \<Rightarrow> 'n yaffs_State \<Rightarrow> (u8 list \<times> 'n yaffs_State) option" where
  "read_loop cfg a offset n fs =
     (if n > 0 then
        Option.bind (yaffs_AddrToChunk (the_dev fs) offset) (\<lambda>(chunk, start).
          (let nToCopy = piece_length (the_dev fs) (sint start) n
           in Option.bind (read_piece cfg a (sint (chunk + 1)) (unat start) (nat nToCopy) fs) (\<lambda>(bytes, fs).
                Option.bind (read_loop cfg a (offset + nToCopy) (n - nToCopy) fs) (\<lambda>(rest, fs). Some (bytes @ rest, fs)))))
      else Some ([], fs))"

text \<open>The number of bytes that the C function returns is \<open>nBytes\<close>, or 0 if that is negative.\<close>

definition yaffs_ReadDataFromFile :: "yaffs_Config \<Rightarrow> yaffs_addr \<Rightarrow> int \<Rightarrow> int \<Rightarrow> 'n yaffs_State \<Rightarrow> (u8 list \<times> 'n yaffs_State) option" where
  "yaffs_ReadDataFromFile cfg a offset nBytes fs = read_loop cfg a offset nBytes fs"

subsection \<open>Writing\<close>

definition overwrite :: "nat \<Rightarrow> 'a list \<Rightarrow> 'a list \<Rightarrow> 'a list option" where
  "overwrite start new xs = (if start + length new \<le> length xs then Some (take start xs @ new @ drop (start + length new) xs) else None)"

text \<open>How much of the chunk is to be written back.\<close>

definition write_back_length :: "'n yaffs_Device \<Rightarrow> u32 \<Rightarrow> int \<Rightarrow> int \<Rightarrow> int \<Rightarrow> int" where
  "write_back_length dev fsize chunk start n =
     (if start + n < nDataBytesPerChunk dev then
        (let nBytesRead = sint (fsize - word_of_int ((chunk - 1) * nDataBytesPerChunk dev));
             nBytesRead = (if nBytesRead > nDataBytesPerChunk dev then nDataBytesPerChunk dev else nBytesRead)
         in if nBytesRead > start + n then nBytesRead else start + n)
      else nDataBytesPerChunk dev)"

text \<open>Writing a part of a chunk through the cache; -1 when there is no space.\<close>

definition write_cached :: "yaffs_Config \<Rightarrow> yaffs_addr \<Rightarrow> int \<Rightarrow> nat \<Rightarrow> u8 list \<Rightarrow> int \<Rightarrow> bool \<Rightarrow> int \<Rightarrow> 'n yaffs_State \<Rightarrow> (int \<times> 'n yaffs_State) option" where
  "write_cached cfg a chunk start bytes nToWriteBack writeThrough chunkWritten fs =
     do { let (cache, fs) = yaffs_FindChunkCache a chunk fs;
          (cache, fs) \<leftarrow>
            (case cache of
               None \<Rightarrow> if yaffs_CheckSpaceForAllocation (the_dev fs) then do { (i, fs) \<leftarrow> load_cache cfg a chunk fs; Some (Some i, fs) }
                       else Some (None, fs)
             | Some i \<Rightarrow> do {
                 c \<leftarrow> get_cache i fs;
                 Some (if \<not> cc_dirty c \<and> \<not> yaffs_CheckSpaceForAllocation (the_dev fs) then None else Some i, fs) });
          case cache of
            None \<Rightarrow> Some (-1, fs)
          | Some i \<Rightarrow> do {
              fs \<leftarrow> yaffs_UseChunkCache i True fs;
              c \<leftarrow> get_cache i fs;
              data \<leftarrow> overwrite start bytes (cc_data c);
              fs \<leftarrow> upd_cache (\<lambda>c. c\<lparr>cc_data := data, cc_locked := False, cc_nBytes := nToWriteBack\<rparr>) i fs;
              if writeThrough then do {
                c \<leftarrow> get_cache i fs;
                o' \<leftarrow> cc_object c;
                (chunkWritten, fs) \<leftarrow> yaffs_WriteChunkDataToObject (check_gc cfg) cfg o' (cc_chunkId c) (cc_data c) (cc_nBytes c) True fs;
                fs \<leftarrow> upd_cache (\<lambda>c. c\<lparr>cc_dirty := False\<rparr>) i fs;
                Some (chunkWritten, fs) }
              else Some (chunkWritten, fs) } }"

definition write_piece :: "yaffs_Config \<Rightarrow> yaffs_addr \<Rightarrow> int \<Rightarrow> nat \<Rightarrow> u8 list \<Rightarrow> int \<Rightarrow> bool \<Rightarrow> int \<Rightarrow> 'n yaffs_State \<Rightarrow> (int \<times> 'n yaffs_State) option" where
  "write_piece cfg a chunk start bytes nToWriteBack writeThrough chunkWritten fs =
     (if int (length bytes) \<noteq> nDataBytesPerChunk (the_dev fs) then
        if nShortOpCaches (the_dev fs) > 0 then write_cached cfg a chunk start bytes nToWriteBack writeThrough chunkWritten fs
        else do {
          let (buf, dev) = yaffs_GetTempBuffer (the_dev fs) 4806;
          (_, data, fs) \<leftarrow> (if buf = 0 then None else yaffs_ReadChunkDataFromObject cfg a chunk (fs\<lparr>the_dev := dev\<rparr>));
          data \<leftarrow> overwrite start bytes data;
          (chunkWritten, fs) \<leftarrow> yaffs_WriteChunkDataToObject (check_gc cfg) cfg a chunk data nToWriteBack False fs;
          Some (chunkWritten, fs\<lparr>the_dev := yaffs_ReleaseTempBuffer (the_dev fs) buf\<rparr>) }
      else do {
        (chunkWritten, fs) \<leftarrow> yaffs_WriteChunkDataToObject (check_gc cfg) cfg a chunk bytes (nDataBytesPerChunk (the_dev fs)) False fs;
        fs \<leftarrow> yaffs_InvalidateChunkCache a chunk fs;
        Some (chunkWritten, fs) })"

text \<open>The loop returns the number of bytes done.  The file's size is read anew in each turn.\<close>

partial_function (option) wr_loop :: "yaffs_Config \<Rightarrow> yaffs_addr \<Rightarrow> u8 list \<Rightarrow> int \<Rightarrow> bool \<Rightarrow> int \<Rightarrow> int \<Rightarrow> 'n yaffs_State \<Rightarrow> (int \<times> 'n yaffs_State) option" where
  "wr_loop cfg a buffer offset writeThrough nDone chunkWritten fs =
     (if buffer \<noteq> [] \<and> chunkWritten \<ge> 0 then
        Option.bind (yaffs_AddrToChunk (the_dev fs) offset) (\<lambda>(chunk, start).
          (let n = int (length buffer);
               nToCopy = piece_length (the_dev fs) (sint start) n
           in Option.bind (Option.bind (objs fs a) file_of) (\<lambda>f.
                Option.bind (write_piece cfg a (sint (chunk + 1)) (unat start) (take (nat nToCopy) buffer)
                       (write_back_length (the_dev fs) (fileSize f) (sint (chunk + 1)) (sint start) n) writeThrough chunkWritten fs)
                  (\<lambda>(chunkWritten, fs).
                     if chunkWritten \<ge> 0
                     then wr_loop cfg a (drop (nat nToCopy) buffer) (offset + nToCopy) writeThrough (nDone + nToCopy) chunkWritten fs
                     else Some (nDone, fs)))))
      else Some (nDone, fs))"

definition yaffs_WriteDataToFile :: "yaffs_Config \<Rightarrow> yaffs_addr \<Rightarrow> u8 list \<Rightarrow> int \<Rightarrow> bool \<Rightarrow> 'n yaffs_State \<Rightarrow> (int \<times> 'n yaffs_State) option" where
  "yaffs_WriteDataToFile cfg a buffer offset writeThrough fs =
     do { (nDone, fs) \<leftarrow> wr_loop cfg a buffer offset writeThrough 0 0 fs;
          ob \<leftarrow> objs fs a;
          f \<leftarrow> file_of ob;
          let last = (word_of_int offset :: u32) + word_of_int nDone;
          let f = (if last > fileSize f then f\<lparr>fileSize := last\<rparr> else f);
          Some (nDone, set_obj fs a (ob\<lparr>variant := FileVariant f, dirty := True\<rparr>)) }"

subsection \<open>Resizing and flushing\<close>

definition yaffs_GetFileSize :: "yaffs_Config \<Rightarrow> yaffs_addr \<Rightarrow> 'n yaffs_State \<Rightarrow> (int \<times> 'n yaffs_State) option" where
  "yaffs_GetFileSize cfg a fs =
     do { (a, fs) \<leftarrow> yaffs_GetEquivalentObject cfg a fs;
          ob \<leftarrow> objs fs a;
          if variantType ob = YAFFS_OBJECT_TYPE_FILE then do { f \<leftarrow> file_of ob; Some (uint (fileSize f), fs) }
          else if variantType ob = YAFFS_OBJECT_TYPE_SYMLINK then
            (case variant ob of SymLinkVariant (Some s) \<Rightarrow> Some (int (length s), fs) | _ \<Rightarrow> None)
          else Some (0, fs) }"

primrec prune_resized_loop :: "yaffs_Config \<Rightarrow> yaffs_addr \<Rightarrow> int list \<Rightarrow> 'n yaffs_State \<Rightarrow> 'n yaffs_State option" where
  "prune_resized_loop cfg a [] fs = Some fs"
| "prune_resized_loop cfg a (i # is) fs =
     do { (chunk, fs) \<leftarrow> yaffs_FindAndDeleteChunkInFile cfg a i fs;
          let dev = the_dev fs;
          fs \<leftarrow> (if chunk > 0 \<and> \<not> (chunk < internalStartBlock dev * nChunksPerBlock dev \<or>
                                      chunk \<ge> (internalEndBlock dev + 1) * nChunksPerBlock dev) then do {
                  fs \<leftarrow> upd_obj (\<lambda>ob. ob\<lparr>nDataChunks := nDataChunks ob - 1\<rparr>) a fs;
                  dev \<leftarrow> yaffs_DeleteChunk cfg (the_dev fs) chunk True;
                  Some (fs\<lparr>the_dev := dev\<rparr>) }
                else Some fs);
          prune_resized_loop cfg a is fs }"

definition yaffs_PruneResizedChunks :: "yaffs_Config \<Rightarrow> yaffs_addr \<Rightarrow> int \<Rightarrow> 'n yaffs_State \<Rightarrow> 'n yaffs_State option" where
  "yaffs_PruneResizedChunks cfg a newSize fs =
     do { ob \<leftarrow> objs fs a;
          f \<leftarrow> file_of ob;
          let n = nDataBytesPerChunk (the_dev fs);
          let lastDel = 1 + cdiv (sint (fileSize f) - 1) n;
          let startDel = 1 + cdiv (newSize + n - 1) n;
          prune_resized_loop cfg a (rev [startDel..lastDel]) fs }"

definition shrink_file :: "yaffs_Config \<Rightarrow> yaffs_addr \<Rightarrow> int \<Rightarrow> int \<Rightarrow> int \<Rightarrow> 'n yaffs_State \<Rightarrow> 'n yaffs_State option" where
  "shrink_file cfg a newSize newFullChunks newSizeOfPartialChunk fs =
     do { fs \<leftarrow> yaffs_PruneResizedChunks cfg a newSize fs;
          fs \<leftarrow> (if newSizeOfPartialChunk \<noteq> 0 then do {
                  let lastChunk = 1 + newFullChunks;
                  let (buf, dev) = yaffs_GetTempBuffer (the_dev fs) 4972;
                  (_, data, fs) \<leftarrow> (if buf = 0 then None else yaffs_ReadChunkDataFromObject cfg a lastChunk (fs\<lparr>the_dev := dev\<rparr>));
                  let data = take (nat newSizeOfPartialChunk) data @ replicate (nat (nDataBytesPerChunk (the_dev fs) - newSizeOfPartialChunk)) 0;
                  (_, fs) \<leftarrow> yaffs_WriteChunkDataToObject (check_gc cfg) cfg a lastChunk data newSizeOfPartialChunk True fs;
                  Some (fs\<lparr>the_dev := yaffs_ReleaseTempBuffer (the_dev fs) buf\<rparr>) }
                else Some fs);
          ob \<leftarrow> objs fs a;
          f \<leftarrow> file_of ob;
          (f, dev) \<leftarrow> yaffs_PruneFileStructure (the_dev fs) (f\<lparr>fileSize := word_of_int newSize\<rparr>);
          Some (set_obj (fs\<lparr>the_dev := dev\<rparr>) a (ob\<lparr>variant := FileVariant f\<rparr>)) }"

definition yaffs_ResizeFile :: "yaffs_Config \<Rightarrow> yaffs_addr \<Rightarrow> int \<Rightarrow> 'n yaffs_State \<Rightarrow> (int \<times> 'n yaffs_State) option" where
  "yaffs_ResizeFile cfg a newSize fs =
     do { ob0 \<leftarrow> objs fs a;
          (newFullChunks, newSizeOfPartialChunk) \<leftarrow> yaffs_AddrToChunk (the_dev fs) newSize;
          fs \<leftarrow> yaffs_FlushFilesChunkCache cfg a fs;
          let fs = fs\<lparr>the_dev := yaffs_InvalidateWholeChunkCache a (the_dev fs)\<rparr>;
          fs \<leftarrow> check_gc cfg fs;
          if variantType ob0 \<noteq> YAFFS_OBJECT_TYPE_FILE then do { (r, fs) \<leftarrow> yaffs_GetFileSize cfg a fs; Some (sint (word_of_int r :: u32), fs) }
          else do {
            f0 \<leftarrow> file_of ob0;
            let oldFileSize = sint (fileSize f0);
            if newSize = oldFileSize then Some (oldFileSize, fs)
            else do {
              fs \<leftarrow> (if newSize < oldFileSize then shrink_file cfg a newSize (sint newFullChunks) (sint newSizeOfPartialChunk) fs
                    else do { ob \<leftarrow> objs fs a; f \<leftarrow> file_of ob;
                              Some (set_obj fs a (ob\<lparr>variant := FileVariant (f\<lparr>fileSize := word_of_int newSize\<rparr>)\<rparr>)) });
              ob \<leftarrow> objs fs a;
              p \<leftarrow> parent ob;
              pid \<leftarrow> map_option obj_objectId (objs fs p);
              fs \<leftarrow> (if pid \<noteq> YAFFS_OBJECTID_UNLINKED \<and> pid \<noteq> YAFFS_OBJECTID_DELETED
                    then map_option snd (yaffs_UpdateObjectHeader (check_gc cfg) cfg a None False (newSize < oldFileSize) 0 fs)
                    else Some fs);
              Some (sint (word_of_int newSize :: u32), fs) } } }"

definition yaffs_FlushFile :: "yaffs_Config \<Rightarrow> yaffs_addr \<Rightarrow> bool \<Rightarrow> 'n yaffs_State \<Rightarrow> (int \<times> 'n yaffs_State) option" where
  "yaffs_FlushFile cfg a updateTime fs =
     do { ob \<leftarrow> objs fs a;
          if dirty ob then do {
            fs \<leftarrow> yaffs_FlushFilesChunkCache cfg a fs;
            fs \<leftarrow> (if updateTime then upd_obj (\<lambda>ob. ob\<lparr>yst_mtime := current_time fs\<rparr>) a fs else Some fs);
            (r, fs) \<leftarrow> yaffs_UpdateObjectHeader (check_gc cfg) cfg a None False False 0 fs;
            Some (if r \<ge> 0 then YAFFS_OK else YAFFS_FAIL, fs) }
          else Some (YAFFS_OK, fs) }"

end
