(* ===== verification/Namespace.thy ===== *)
theory Namespace
  imports FileIO
begin

section \<open>Creating, linking, renaming and deleting objects\<close>

text \<open>
  The operations on names that the file system offers (\<^verbatim>\<open>yaffs_guts.c\<close>): creation of files, directories,
  links and special files, deletion and unlinking, renaming, attributes.  \<open>hardLinks\<close> of an object lists the
  hard links to it, the most recent first.  Using memory after it was freed is undefined, so freeing the text
  of a symbolic link leaves the link without one.
\<close>

subsection \<open>Deletion\<close>

definition free_top :: "yaffs_addr \<Rightarrow> 'n yaffs_State \<Rightarrow> 'n yaffs_State option" where
  "free_top a fs =
     do { ob \<leftarrow> objs fs a;
          f \<leftarrow> file_of ob;
          Some (set_obj (fs\<lparr>the_dev := yaffs_FreeTnode (the_dev fs) (top_tnode f)\<rparr>) a (ob\<lparr>variant := FileVariant (f\<lparr>top_tnode := None\<rparr>)\<rparr>)) }"

definition yaffs_SoftDeleteFile :: "yaffs_Config \<Rightarrow> yaffs_addr \<Rightarrow> 'n yaffs_State \<Rightarrow> 'n yaffs_State option" where
  "yaffs_SoftDeleteFile cfg a fs =
     do { ob \<leftarrow> objs fs a;
          if deleted ob \<and> variantType ob = YAFFS_OBJECT_TYPE_FILE \<and> \<not> softDeleted ob then
            (if nDataChunks ob \<le> 0 then do {
               fs \<leftarrow> free_top a fs;
               map_option snd (yaffs_DoGenericObjectDeletion (check_gc cfg) cfg a fs) }
             else do {
               f \<leftarrow> file_of ob;
               (tn, dev) \<leftarrow> yaffs_SoftDeleteWorker (nat (topLevel f)) (top_tnode f) (the_dev fs);
               Some (set_obj (fs\<lparr>the_dev := dev\<rparr>) a (ob\<lparr>variant := FileVariant (f\<lparr>top_tnode := tn\<rparr>), softDeleted := True\<rparr>)) })
          else Some fs }"

text \<open>The name \<^verbatim>\<open>"unlinked"\<close>.\<close>

definition unlinked_name :: "u8 list" where
  "unlinked_name = [117, 110, 108, 105, 110, 107, 101, 100]"

text \<open>The object is marked as deleted and its chunks are given up.\<close>

definition mark_deleted :: "yaffs_Config \<Rightarrow> yaffs_addr \<Rightarrow> 'n yaffs_State \<Rightarrow> 'n yaffs_State option" where
  "mark_deleted cfg a fs =
     do { fs \<leftarrow> upd_obj (\<lambda>ob. ob\<lparr>deleted := True\<rparr>) a fs;
          yaffs_SoftDeleteFile cfg a (fs\<lparr>the_dev := (the_dev fs)\<lparr>nDeletedFiles := nDeletedFiles (the_dev fs) + 1\<rparr>\<rparr>) }"

definition yaffs_UnlinkFile :: "yaffs_Config \<Rightarrow> yaffs_addr \<Rightarrow> 'n yaffs_State \<Rightarrow> (int \<times> 'n yaffs_State) option" where
  "yaffs_UnlinkFile cfg a fs =
     do { ob \<leftarrow> objs fs a;
          if \<not> myInode ob then do {
            (retVal, fs) \<leftarrow> yaffs_ChangeObjectName (check_gc cfg) cfg a (deletedDir fs) (Some deleted_name) False 0 fs;
            fs \<leftarrow> mark_deleted cfg a fs;
            Some (retVal, fs) }
          else yaffs_ChangeObjectName (check_gc cfg) cfg a (unlinkedDir fs) (Some unlinked_name) False 0 fs }"

definition yaffs_DeleteFile :: "yaffs_Config \<Rightarrow> yaffs_addr \<Rightarrow> 'n yaffs_State \<Rightarrow> (int \<times> 'n yaffs_State) option" where
  "yaffs_DeleteFile cfg a fs =
     do { ob \<leftarrow> objs fs a;
          if nDataChunks ob > 0 then do {
            (retVal, fs) \<leftarrow> (if \<not> unlinked ob then yaffs_UnlinkFile cfg a fs else Some (YAFFS_OK, fs));
            ob \<leftarrow> objs fs a;
            fs \<leftarrow> (if retVal = YAFFS_OK \<and> unlinked ob \<and> \<not> deleted ob then mark_deleted cfg a fs else Some fs);
            ob \<leftarrow> objs fs a;
            Some (if deleted ob then YAFFS_OK else YAFFS_FAIL, fs) }
          else do {
            fs \<leftarrow> free_top a fs;
            (_, fs) \<leftarrow> yaffs_DoGenericObjectDeletion (check_gc cfg) cfg a fs;
            Some (YAFFS_OK, fs) } }"

definition yaffs_DeleteDirectory :: "yaffs_Config \<Rightarrow> yaffs_addr \<Rightarrow> 'n yaffs_State \<Rightarrow> (int \<times> 'n yaffs_State) option" where
  "yaffs_DeleteDirectory cfg a fs =
     do { ob \<leftarrow> objs fs a;
          case variant ob of
            DirectoryVariant ch \<Rightarrow> if ch = [] then yaffs_DoGenericObjectDeletion (check_gc cfg) cfg a fs else Some (YAFFS_FAIL, fs)
          | _ \<Rightarrow> None }"

definition yaffs_DeleteSymLink :: "yaffs_Config \<Rightarrow> yaffs_addr \<Rightarrow> 'n yaffs_State \<Rightarrow> (int \<times> 'n yaffs_State) option" where
  "yaffs_DeleteSymLink cfg a fs =
     do { fs \<leftarrow> upd_obj (\<lambda>ob. ob\<lparr>variant := SymLinkVariant None\<rparr>) a fs;
          yaffs_DoGenericObjectDeletion (check_gc cfg) cfg a fs }"

text \<open>\<^verbatim>\<open>list_del(&in->hardLinks)\<close>\<close>

definition del_hardlink :: "yaffs_addr \<Rightarrow> 'n yaffs_State \<Rightarrow> 'n yaffs_State" where
  "del_hardlink a fs = fs\<lparr>objs := (\<lambda>x. map_option (\<lambda>ob. ob\<lparr>hardLinks := removeAll a (hardLinks ob)\<rparr>) (objs fs x))\<rparr>"

definition yaffs_DeleteHardLink :: "yaffs_Config \<Rightarrow> yaffs_addr \<Rightarrow> 'n yaffs_State \<Rightarrow> (int \<times> 'n yaffs_State) option" where
  "yaffs_DeleteHardLink cfg a fs = yaffs_DoGenericObjectDeletion (check_gc cfg) cfg a (del_hardlink a fs)"

definition yaffs_DestroyObject :: "yaffs_Config \<Rightarrow> yaffs_addr \<Rightarrow> 'n yaffs_State \<Rightarrow> 'n yaffs_State option" where
  "yaffs_DestroyObject cfg a fs =
     do { ob \<leftarrow> objs fs a;
          if variantType ob = YAFFS_OBJECT_TYPE_FILE then map_option snd (yaffs_DeleteFile cfg a fs)
          else if variantType ob = YAFFS_OBJECT_TYPE_DIRECTORY then map_option snd (yaffs_DeleteDirectory cfg a fs)
          else if variantType ob = YAFFS_OBJECT_TYPE_SYMLINK then map_option snd (yaffs_DeleteSymLink cfg a fs)
          else if variantType ob = YAFFS_OBJECT_TYPE_HARDLINK then map_option snd (yaffs_DeleteHardLink cfg a fs)
          else if variantType ob = YAFFS_OBJECT_TYPE_SPECIAL then map_option snd (yaffs_DoGenericObjectDeletion (check_gc cfg) cfg a fs)
          else Some fs }"

subsection \<open>Unlinking\<close>

text \<open>An object with hard links takes the place of the most recent one.\<close>

definition replace_hardlink :: "yaffs_Config \<Rightarrow> yaffs_addr \<Rightarrow> yaffs_addr \<Rightarrow> 'n yaffs_State \<Rightarrow> (int \<times> 'n yaffs_State) option" where
  "replace_hardlink cfg a hl fs =
     do { fs \<leftarrow> del_siblings hl (del_hardlink hl fs);
          (name, fs) \<leftarrow> yaffs_GetObjectName cfg hl (YAFFS_MAX_NAME_LENGTH + 1) fs;
          h \<leftarrow> objs fs hl;
          (retVal, fs) \<leftarrow> yaffs_ChangeObjectName (check_gc cfg) cfg a (parent h) (Some name) False 0 fs;
          if retVal = YAFFS_OK then yaffs_DoGenericObjectDeletion (check_gc cfg) cfg hl fs
          else Some (retVal, fs) }"

definition yaffs_UnlinkWorker :: "yaffs_Config \<Rightarrow> yaffs_addr \<Rightarrow> 'n yaffs_State \<Rightarrow> (int \<times> 'n yaffs_State) option" where
  "yaffs_UnlinkWorker cfg a fs =
     do { ob \<leftarrow> objs fs a;
          if variantType ob = YAFFS_OBJECT_TYPE_HARDLINK then yaffs_DeleteHardLink cfg a fs
          else
            (case hardLinks ob of
               hl # _ \<Rightarrow> replace_hardlink cfg a hl fs
             | [] \<Rightarrow>
                 if variantType ob = YAFFS_OBJECT_TYPE_FILE then yaffs_UnlinkFile cfg a fs
                 else if variantType ob = YAFFS_OBJECT_TYPE_DIRECTORY then yaffs_DeleteDirectory cfg a fs
                 else if variantType ob = YAFFS_OBJECT_TYPE_SYMLINK then yaffs_DeleteSymLink cfg a fs
                 else if variantType ob = YAFFS_OBJECT_TYPE_SPECIAL then yaffs_DoGenericObjectDeletion (check_gc cfg) cfg a fs
                 else Some (YAFFS_FAIL, fs)) }"

definition yaffs_UnlinkObject :: "yaffs_Config \<Rightarrow> yaffs_addr option \<Rightarrow> 'n yaffs_State \<Rightarrow> (int \<times> 'n yaffs_State) option" where
  "yaffs_UnlinkObject cfg obj fs =
     (case obj of
        None \<Rightarrow> Some (YAFFS_FAIL, fs)
      | Some a \<Rightarrow> do { ob \<leftarrow> objs fs a; if unlinkAllowed ob then yaffs_UnlinkWorker cfg a fs else Some (YAFFS_FAIL, fs) })"

definition yaffs_Unlink :: "yaffs_Config \<Rightarrow> yaffs_addr \<Rightarrow> u8 list option \<Rightarrow> 'n yaffs_State \<Rightarrow> (int \<times> 'n yaffs_State) option" where
  "yaffs_Unlink cfg dir name fs =
     do { (obj, fs) \<leftarrow> yaffs_FindObjectByName cfg dir name fs; yaffs_UnlinkObject cfg obj fs }"

subsection \<open>Creation\<close>

text \<open>The variant of a new object, and the entry of a hard link in the list of its equivalent object.\<close>

definition mknod_variant :: "u32 \<Rightarrow> yaffs_addr \<Rightarrow> yaffs_addr option \<Rightarrow> u8 list option \<Rightarrow> 'n yaffs_State \<Rightarrow> 'n yaffs_State option" where
  "mknod_variant type a equivalent str fs =
     (if type = YAFFS_OBJECT_TYPE_SYMLINK then upd_obj (\<lambda>ob. ob\<lparr>variant := SymLinkVariant str\<rparr>) a fs
      else if type = YAFFS_OBJECT_TYPE_HARDLINK then do {
        e \<leftarrow> equivalent;
        eo \<leftarrow> objs fs e;
        fs \<leftarrow> upd_obj (\<lambda>ob. ob\<lparr>variant := HardLinkVariant equivalent (obj_objectId eo)\<rparr>) a fs;
        upd_obj (\<lambda>ob. ob\<lparr>hardLinks := a # hardLinks ob\<rparr>) e fs }
      else Some fs)"

definition yaffs_MknodObject ::
  "yaffs_Config \<Rightarrow> u32 \<Rightarrow> yaffs_addr \<Rightarrow> u8 list option \<Rightarrow> u32 \<Rightarrow> u32 \<Rightarrow> u32 \<Rightarrow> yaffs_addr option \<Rightarrow> u8 list option \<Rightarrow> u32 \<Rightarrow>
     'n yaffs_State \<Rightarrow> (yaffs_addr option \<times> 'n yaffs_State) option" where
  "yaffs_MknodObject cfg type dir name mode uid gid equivalent aliasString rdev fs =
     do { (existing, fs) \<leftarrow> yaffs_FindObjectByName cfg dir name fs;
          if existing \<noteq> None then Some (None, fs)
          else do {
            (obj, fs) \<leftarrow> yaffs_CreateNewObject (-1) type fs;
            let (str, fs) = (if type = YAFFS_OBJECT_TYPE_SYMLINK
                             then (let (str, dev) = yaffs_CloneString aliasString (the_dev fs) in (str, fs\<lparr>the_dev := dev\<rparr>))
                             else (None, fs));
            if type = YAFFS_OBJECT_TYPE_SYMLINK \<and> str = None then do {
              a \<leftarrow> obj;
              fs \<leftarrow> yaffs_FreeObject a fs;
              Some (None, fs) }
            else
              (case obj of
                 None \<Rightarrow> Some (None, fs)
               | Some a \<Rightarrow> do {
                   fs \<leftarrow> upd_obj (\<lambda>ob. (yaffs_SetObjectName (ob\<lparr>obj_chunkId := -1, valid := True, variantType := type, yst_mode := mode,
                            yst_atime := current_time fs, yst_mtime := current_time fs, yst_ctime := current_time fs, yst_rdev := rdev,
                            yst_uid := uid, yst_gid := gid, nDataChunks := 0\<rparr>) name)\<lparr>dirty := True\<rparr>) a fs;
                   fs \<leftarrow> yaffs_AddObjectToDirectory (Some dir) a fs;
                   fs \<leftarrow> mknod_variant type a equivalent str fs;
                   (r, fs) \<leftarrow> yaffs_UpdateObjectHeader (check_gc cfg) cfg a name False False 0 fs;
                   if r < 0 then do { fs \<leftarrow> yaffs_DestroyObject cfg a fs; Some (None, fs) }
                   else Some (Some a, fs) }) } }"

definition yaffs_MknodFile :: "yaffs_Config \<Rightarrow> yaffs_addr \<Rightarrow> u8 list option \<Rightarrow> u32 \<Rightarrow> u32 \<Rightarrow> u32 \<Rightarrow> 'n yaffs_State \<Rightarrow> (yaffs_addr option \<times> 'n yaffs_State) option" where
  "yaffs_MknodFile cfg dir name mode uid gid fs = yaffs_MknodObject cfg YAFFS_OBJECT_TYPE_FILE dir name mode uid gid None None 0 fs"

definition yaffs_MknodDirectory :: "yaffs_Config \<Rightarrow> yaffs_addr \<Rightarrow> u8 list option \<Rightarrow> u32 \<Rightarrow> u32 \<Rightarrow> u32 \<Rightarrow> 'n yaffs_State \<Rightarrow> (yaffs_addr option \<times> 'n yaffs_State) option" where
  "yaffs_MknodDirectory cfg dir name mode uid gid fs =
     yaffs_MknodObject cfg YAFFS_OBJECT_TYPE_DIRECTORY dir name mode uid gid None None 0 fs"

definition yaffs_MknodSpecial :: "yaffs_Config \<Rightarrow> yaffs_addr \<Rightarrow> u8 list option \<Rightarrow> u32 \<Rightarrow> u32 \<Rightarrow> u32 \<Rightarrow> u32 \<Rightarrow> 'n yaffs_State \<Rightarrow> (yaffs_addr option \<times> 'n yaffs_State) option" where
  "yaffs_MknodSpecial cfg dir name mode uid gid rdev fs =
     yaffs_MknodObject cfg YAFFS_OBJECT_TYPE_SPECIAL dir name mode uid gid None None rdev fs"

definition yaffs_MknodSymLink ::
  "yaffs_Config \<Rightarrow> yaffs_addr \<Rightarrow> u8 list option \<Rightarrow> u32 \<Rightarrow> u32 \<Rightarrow> u32 \<Rightarrow> u8 list option \<Rightarrow> 'n yaffs_State \<Rightarrow> (yaffs_addr option \<times> 'n yaffs_State) option" where
  "yaffs_MknodSymLink cfg dir name mode uid gid aliasString fs =
     yaffs_MknodObject cfg YAFFS_OBJECT_TYPE_SYMLINK dir name mode uid gid None aliasString 0 fs"

definition yaffs_Link :: "yaffs_Config \<Rightarrow> yaffs_addr \<Rightarrow> u8 list option \<Rightarrow> yaffs_addr \<Rightarrow> 'n yaffs_State \<Rightarrow> (yaffs_addr option \<times> 'n yaffs_State) option" where
  "yaffs_Link cfg dir name equivalent fs =
     do { (e, fs) \<leftarrow> yaffs_GetEquivalentObject cfg equivalent fs;
          (r, fs) \<leftarrow> yaffs_MknodObject cfg YAFFS_OBJECT_TYPE_HARDLINK dir name 0 0 0 (Some e) None 0 fs;
          Some (if r \<noteq> None then Some e else None, fs) }"

subsection \<open>Renaming\<close>

text \<open>The target of a renaming that is replaced.\<close>

definition nuke_target :: "yaffs_Config \<Rightarrow> yaffs_addr \<Rightarrow> yaffs_addr option \<Rightarrow> u8 list \<Rightarrow> yaffs_addr \<Rightarrow> 'n yaffs_State \<Rightarrow> 'n yaffs_State option" where
  "nuke_target cfg a newDir newName target fs =
     do { t \<leftarrow> objs fs target;
          (_, fs) \<leftarrow> yaffs_ChangeObjectName (check_gc cfg) cfg a newDir (Some newName) False (obj_objectId t) fs;
          (_, fs) \<leftarrow> yaffs_UnlinkObject cfg (Some target) fs;
          Some fs }"

definition nonempty_directory :: "yaffs_Object \<Rightarrow> bool option" where
  "nonempty_directory ob =
     (if variantType ob = YAFFS_OBJECT_TYPE_DIRECTORY
      then (case variant ob of DirectoryVariant ch \<Rightarrow> Some (ch \<noteq> []) | _ \<Rightarrow> None) else Some False)"

definition yaffs_RenameObject :: "yaffs_Config \<Rightarrow> yaffs_addr \<Rightarrow> u8 list \<Rightarrow> yaffs_addr \<Rightarrow> u8 list \<Rightarrow> 'n yaffs_State \<Rightarrow> (int \<times> 'n yaffs_State) option" where
  "yaffs_RenameObject cfg oldDir oldName newDir newName fs =
     do { (obj, fs) \<leftarrow> yaffs_FindObjectByName cfg oldDir (Some oldName) fs;
          a \<leftarrow> obj;
          ob \<leftarrow> objs fs a;
          if variantType ob = YAFFS_OBJECT_TYPE_SYMLINK \<and> length newName > YAFFS_MAX_ALIAS_LENGTH then Some (YAFFS_FAIL, fs)
          else if variantType ob \<noteq> YAFFS_OBJECT_TYPE_SYMLINK \<and> length newName > YAFFS_MAX_NAME_LENGTH then Some (YAFFS_FAIL, fs)
          else if renameAllowed ob then do {
            (existingTarget, fs) \<leftarrow> yaffs_FindObjectByName cfg newDir (Some newName) fs;
            busy \<leftarrow> (case existingTarget of None \<Rightarrow> Some False | Some t \<Rightarrow> do { tob \<leftarrow> objs fs t; nonempty_directory tob });
            if busy then Some (YAFFS_FAIL, fs)
            else do {
              fs \<leftarrow> (case existingTarget of
                      None \<Rightarrow> Some fs
                    | Some t \<Rightarrow> if t \<noteq> a then nuke_target cfg a (Some newDir) newName t fs else Some fs);
              yaffs_ChangeObjectName (check_gc cfg) cfg a (Some newDir) (Some newName) True 0 fs } }
          else Some (YAFFS_FAIL, fs) }"

subsection \<open>Attributes\<close>

definition yaffs_GetObjectFileLength :: "yaffs_Config \<Rightarrow> yaffs_addr \<Rightarrow> 'n yaffs_State \<Rightarrow> (int \<times> 'n yaffs_State) option" where
  "yaffs_GetObjectFileLength cfg a fs =
     do { (a, fs) \<leftarrow> yaffs_GetEquivalentObject cfg a fs;
          ob \<leftarrow> objs fs a;
          if variantType ob = YAFFS_OBJECT_TYPE_FILE then do { f \<leftarrow> file_of ob; Some (sint (fileSize f), fs) }
          else if variantType ob = YAFFS_OBJECT_TYPE_SYMLINK then
            (case variant ob of SymLinkVariant (Some s) \<Rightarrow> Some (int (length s), fs) | _ \<Rightarrow> None)
          else Some (nDataBytesPerChunk (the_dev fs), fs) }"

definition yaffs_GetObjectLinkCount :: "yaffs_Object \<Rightarrow> int" where
  "yaffs_GetObjectLinkCount ob = (if \<not> unlinked ob then 1 else 0) + int (length (hardLinks ob))"

definition yaffs_GetObjectInode :: "yaffs_Config \<Rightarrow> yaffs_addr \<Rightarrow> 'n yaffs_State \<Rightarrow> (int \<times> 'n yaffs_State) option" where
  "yaffs_GetObjectInode cfg a fs =
     do { (a, fs) \<leftarrow> yaffs_GetEquivalentObject cfg a fs; ob \<leftarrow> objs fs a; Some (sint (obj_objectId ob), fs) }"

abbreviation (input) "S_IFMT \<equiv> (0xF000 :: u32)"
abbreviation (input) "S_IFIFO \<equiv> (0x1000 :: u32)"
abbreviation (input) "S_IFCHR \<equiv> (0x2000 :: u32)"
abbreviation (input) "S_IFBLK \<equiv> (0x6000 :: u32)"
abbreviation (input) "S_IFSOCK \<equiv> (0xC000 :: u32)"
abbreviation (input) "DT_FIFO \<equiv> (1 :: nat)"
abbreviation (input) "DT_CHR \<equiv> (2 :: nat)"
abbreviation (input) "DT_DIR \<equiv> (4 :: nat)"
abbreviation (input) "DT_BLK \<equiv> (6 :: nat)"
abbreviation (input) "DT_REG \<equiv> (8 :: nat)"
abbreviation (input) "DT_LNK \<equiv> (10 :: nat)"
abbreviation (input) "DT_SOCK \<equiv> (12 :: nat)"

definition object_type_code :: "yaffs_Object \<Rightarrow> nat" where
  "object_type_code ob =
     (if variantType ob = YAFFS_OBJECT_TYPE_FILE then DT_REG
      else if variantType ob = YAFFS_OBJECT_TYPE_DIRECTORY then DT_DIR
      else if variantType ob = YAFFS_OBJECT_TYPE_SYMLINK then DT_LNK
      else if variantType ob = YAFFS_OBJECT_TYPE_HARDLINK then DT_REG
      else if variantType ob = YAFFS_OBJECT_TYPE_SPECIAL then
        (let m = yst_mode ob AND S_IFMT
         in if m = S_IFIFO then DT_FIFO else if m = S_IFCHR then DT_CHR else if m = S_IFBLK then DT_BLK
            else if m = S_IFSOCK then DT_SOCK else DT_REG)
      else DT_REG)"

definition yaffs_GetObjectType :: "yaffs_Config \<Rightarrow> yaffs_addr \<Rightarrow> 'n yaffs_State \<Rightarrow> (nat \<times> 'n yaffs_State) option" where
  "yaffs_GetObjectType cfg a fs =
     do { (a, fs) \<leftarrow> yaffs_GetEquivalentObject cfg a fs; ob \<leftarrow> objs fs a; Some (object_type_code ob, fs) }"

definition yaffs_GetSymlinkAlias :: "yaffs_Config \<Rightarrow> yaffs_addr \<Rightarrow> 'n yaffs_State \<Rightarrow> (u8 list option \<times> 'n yaffs_State) option" where
  "yaffs_GetSymlinkAlias cfg a fs =
     do { (a, fs) \<leftarrow> yaffs_GetEquivalentObject cfg a fs;
          ob \<leftarrow> objs fs a;
          s \<leftarrow> (if variantType ob = YAFFS_OBJECT_TYPE_SYMLINK
                then (case variant ob of SymLinkVariant s \<Rightarrow> Some s | _ \<Rightarrow> None) else Some (Some []));
          let (s, dev) = yaffs_CloneString s (the_dev fs);
          Some (s, fs\<lparr>the_dev := dev\<rparr>) }"

text \<open>\<^verbatim>\<open>struct iattr\<close>; the times are in seconds.\<close>

record iattr =
  ia_valid :: u32
  ia_mode :: u32
  ia_uid :: u32
  ia_gid :: u32
  ia_size :: int
  ia_atime :: u32
  ia_mtime :: u32
  ia_ctime :: u32

abbreviation (input) "ATTR_MODE \<equiv> (0 :: nat)"
abbreviation (input) "ATTR_UID \<equiv> (1 :: nat)"
abbreviation (input) "ATTR_GID \<equiv> (2 :: nat)"
abbreviation (input) "ATTR_SIZE \<equiv> (3 :: nat)"
abbreviation (input) "ATTR_ATIME \<equiv> (4 :: nat)"
abbreviation (input) "ATTR_MTIME \<equiv> (5 :: nat)"
abbreviation (input) "ATTR_CTIME \<equiv> (6 :: nat)"

definition set_attributes :: "iattr \<Rightarrow> yaffs_Object \<Rightarrow> yaffs_Object" where
  "set_attributes attr ob =
     (let has = bit (ia_valid attr);
          ob = (if has ATTR_MODE then ob\<lparr>yst_mode := ia_mode attr\<rparr> else ob);
          ob = (if has ATTR_UID then ob\<lparr>yst_uid := ia_uid attr\<rparr> else ob);
          ob = (if has ATTR_GID then ob\<lparr>yst_gid := ia_gid attr\<rparr> else ob);
          ob = (if has ATTR_ATIME then ob\<lparr>yst_atime := ia_atime attr\<rparr> else ob);
          ob = (if has ATTR_CTIME then ob\<lparr>yst_ctime := ia_ctime attr\<rparr> else ob)
      in if has ATTR_MTIME then ob\<lparr>yst_mtime := ia_mtime attr\<rparr> else ob)"

definition yaffs_SetAttributes :: "yaffs_Config \<Rightarrow> yaffs_addr \<Rightarrow> iattr \<Rightarrow> 'n yaffs_State \<Rightarrow> (int \<times> 'n yaffs_State) option" where
  "yaffs_SetAttributes cfg a attr fs =
     do { fs \<leftarrow> upd_obj (set_attributes attr) a fs;
          fs \<leftarrow> (if bit (ia_valid attr) ATTR_SIZE then map_option snd (yaffs_ResizeFile cfg a (ia_size attr) fs) else Some fs);
          (_, fs) \<leftarrow> yaffs_UpdateObjectHeader (check_gc cfg) cfg a None True False 0 fs;
          Some (YAFFS_OK, fs) }"

definition yaffs_GetAttributes :: "yaffs_Config \<Rightarrow> yaffs_addr \<Rightarrow> 'n yaffs_State \<Rightarrow> (iattr \<times> 'n yaffs_State) option" where
  "yaffs_GetAttributes cfg a fs =
     do { ob \<leftarrow> objs fs a;
          (n, fs) \<leftarrow> yaffs_GetFileSize cfg a fs;
          Some (\<lparr>ia_valid = 0x7F, ia_mode = yst_mode ob, ia_uid = yst_uid ob, ia_gid = yst_gid ob, ia_size = n,
                 ia_atime = yst_atime ob, ia_mtime = yst_mtime ob, ia_ctime = yst_ctime ob\<rparr>, fs) }"

end
