(* ===== verification/Scan.thy ===== *)
theory Scan
  imports Namespace Qsort
begin

section \<open>Scanning the flash\<close>

text \<open>
  Rebuilding the state from the flash when it is mounted: \<open>yaffs_Scan\<close> (YAFFS1, forwards) and
  \<open>yaffs_ScanBackwards\<close> (YAFFS2) of \<^verbatim>\<open>yaffs_guts.c\<close>.  The variables that live through the loops are the fields of
  a record.  The list of hard links to fix up is threaded through the objects' own link; entering an object
  that is already on it, or deleting one, destroys the list and is undefined.  Branches of \<open>yaffs_Scan\<close> for
  YAFFS2 cannot be reached, since it returns at once on such a device.
\<close>

record 'n scan_locals =
  sc_fs :: "'n yaffs_State"
  sc_state :: yaffs_BlockState
  sc_found :: bool
  sc_failed :: bool
  sc_hard :: "yaffs_addr list"
  sc_tags :: yaffs_ExtendedTags
  sc_buf :: nat

definition upd_bi :: "(yaffs_BlockInfo \<Rightarrow> yaffs_BlockInfo) \<Rightarrow> int \<Rightarrow> 'n yaffs_State \<Rightarrow> 'n yaffs_State option" where
  "upd_bi f blk fs =
     do { bi \<leftarrow> yaffs_GetBlockInfo (the_dev fs) blk; Some (fs\<lparr>the_dev := set_block_info (the_dev fs) blk (f bi)\<rparr>) }"

abbreviation (input) "OH_type \<equiv> (0 :: nat)"
abbreviation (input) "OH_parentObjectId \<equiv> (4 :: nat)"
abbreviation (input) "OH_fileSize \<equiv> (292 :: nat)"
abbreviation (input) "OH_equivalentObjectId \<equiv> (296 :: nat)"
abbreviation (input) "YAFFS_LOWEST_SEQUENCE_NUMBER \<equiv> (0x1000 :: int)"
abbreviation (input) "YAFFS_HIGHEST_SEQUENCE_NUMBER \<equiv> (0xEFFFFF00 :: int)"

subsection \<open>Steps that both scans share\<close>

text \<open>A store to \<^verbatim>\<open>shrinkSize\<close> overwrites nothing that the other members of the union hold.\<close>

definition zero_shrinkSize :: "yaffs_Object \<Rightarrow> yaffs_Object" where
  "zero_shrinkSize ob = (case variant ob of FileVariant f \<Rightarrow> ob\<lparr>variant := FileVariant (f\<lparr>shrinkSize := 0\<rparr>)\<rparr> | _ \<Rightarrow> ob)"

definition yaffs_HandleShadowedObject :: "u32 \<Rightarrow> bool \<Rightarrow> 'n yaffs_State \<Rightarrow> 'n yaffs_State option" where
  "yaffs_HandleShadowedObject objId backwardScanning fs =
     do { found \<leftarrow> (if backwardScanning then yaffs_FindObjectByNumber fs objId else Some None);
          if found \<noteq> None then Some fs
          else do {
            (obj, fs) \<leftarrow> yaffs_FindOrCreateObjectByNumber (sint objId) YAFFS_OBJECT_TYPE_FILE fs;
            a \<leftarrow> obj;
            fs \<leftarrow> yaffs_AddObjectToDirectory (unlinkedDir fs) a fs;
            upd_obj (\<lambda>ob. (zero_shrinkSize ob)\<lparr>valid := True\<rparr>) a fs } }"

primrec yaffs_HardlinkFixup :: "yaffs_addr list \<Rightarrow> 'n yaffs_State \<Rightarrow> 'n yaffs_State option" where
  "yaffs_HardlinkFixup [] fs = Some fs"
| "yaffs_HardlinkFixup (hl # hls) fs =
     do { h \<leftarrow> objs fs hl;
          case variant h of
            HardLinkVariant _ n \<Rightarrow> do {
              e \<leftarrow> yaffs_FindObjectByNumber fs n;
              let fs = set_obj fs hl (h\<lparr>variant := HardLinkVariant e n\<rparr>);
              fs \<leftarrow> (case e of Some a \<Rightarrow> upd_obj (\<lambda>ob. ob\<lparr>hardLinks := hl # hardLinks ob\<rparr>) a fs | None \<Rightarrow> Some fs);
              yaffs_HardlinkFixup hls fs }
          | _ \<Rightarrow> None }"

definition push_hard :: "yaffs_addr \<Rightarrow> yaffs_addr list \<Rightarrow> yaffs_addr list option" where
  "push_hard a hard = (if a \<in> set hard then None else Some (a # hard))"

definition set_equivalent :: "u32 \<Rightarrow> yaffs_Object \<Rightarrow> yaffs_Object" where
  "set_equivalent n ob =
     ob\<lparr>variant := HardLinkVariant (case variant ob of HardLinkVariant e _ \<Rightarrow> e | _ \<Rightarrow> None) n\<rparr>"

text \<open>A chunk in use.\<close>

definition scan_use_chunk :: "int \<Rightarrow> int \<Rightarrow> 'n yaffs_State \<Rightarrow> 'n yaffs_State option" where
  "scan_use_chunk blk c fs =
     do { dev \<leftarrow> yaffs_SetChunkBit (the_dev fs) blk c;
          upd_bi (\<lambda>bi. bi\<lparr>pagesInUse := int10 (pagesInUse bi + 1)\<rparr>) blk (fs\<lparr>the_dev := dev\<rparr>) }"

definition load_stat :: "bool \<Rightarrow> u8 list \<Rightarrow> yaffs_Object \<Rightarrow> yaffs_Object" where
  "load_stat be page ob =
     ob\<lparr>variantType := oh_u32 be page OH_type, yst_mode := oh_u32 be page OH_yst_mode, yst_uid := oh_u32 be page OH_yst_uid,
        yst_gid := oh_u32 be page OH_yst_gid, yst_atime := oh_u32 be page OH_yst_atime, yst_mtime := oh_u32 be page OH_yst_mtime,
        yst_ctime := oh_u32 be page OH_yst_ctime, yst_rdev := oh_u32 be page OH_yst_rdev\<rparr>"

text \<open>The directory that a scanned object goes to.\<close>

definition scan_parent :: "u32 \<Rightarrow> 'n yaffs_State \<Rightarrow> (yaffs_addr option \<times> 'n yaffs_State) option" where
  "scan_parent parentId fs =
     do { (p, fs) \<leftarrow> yaffs_FindOrCreateObjectByNumber (sint parentId) YAFFS_OBJECT_TYPE_DIRECTORY fs;
          a \<leftarrow> p;
          ob \<leftarrow> objs fs a;
          if variantType ob = YAFFS_OBJECT_TYPE_UNKNOWN then
            Some (p, set_obj fs a (ob\<lparr>variantType := YAFFS_OBJECT_TYPE_DIRECTORY, variant := DirectoryVariant []\<rparr>))
          else if variantType ob \<noteq> YAFFS_OBJECT_TYPE_DIRECTORY then Some (lostNFoundDir fs, fs)
          else Some (p, fs) }"

text \<open>The name and the place of a scanned object.\<close>

definition scan_symlink :: "u8 list \<Rightarrow> yaffs_addr \<Rightarrow> 'n yaffs_State \<Rightarrow> (bool \<times> 'n yaffs_State) option" where
  "scan_symlink page a fs =
     do { s \<leftarrow> oh_string page OH_alias;
          let (al, dev) = yaffs_CloneString (Some s) (the_dev fs);
          fs \<leftarrow> upd_obj (\<lambda>ob. ob\<lparr>variant := SymLinkVariant al\<rparr>) a (fs\<lparr>the_dev := dev\<rparr>);
          Some (al = None, fs) }"

text \<open>Deleting an object during the forward scan.\<close>

definition scan_destroy :: "yaffs_Config \<Rightarrow> yaffs_addr list \<Rightarrow> yaffs_addr \<Rightarrow> 'n yaffs_State \<Rightarrow> 'n yaffs_State option" where
  "scan_destroy cfg hard a fs = (if a \<in> set hard then None else yaffs_DestroyObject cfg a fs)"

text \<open>The end of a block.\<close>

definition scan_block_end :: "yaffs_Config \<Rightarrow> int \<Rightarrow> 'n scan_locals \<Rightarrow> 'n scan_locals option" where
  "scan_block_end cfg blk sc =
     do { let state = (if sc_state sc = YAFFS_BLOCK_STATE_NEEDS_SCANNING then YAFFS_BLOCK_STATE_FULL else sc_state sc);
          fs \<leftarrow> upd_bi (\<lambda>bi. bi\<lparr>blockState := state\<rparr>) blk (sc_fs sc);
          bi \<leftarrow> yaffs_GetBlockInfo (the_dev fs) blk;
          dev \<leftarrow> (if pagesInUse bi = 0 \<and> \<not> hasShrinkHeader bi \<and> blockState bi = YAFFS_BLOCK_STATE_FULL
                  then yaffs_BlockBecameDirty cfg (the_dev fs) blk else Some (the_dev fs));
          Some (sc\<lparr>sc_fs := fs\<lparr>the_dev := dev\<rparr>\<rparr>) }"

text \<open>Deleting the children of a directory; the next child is found before the deletion.\<close>

definition successor_of :: "yaffs_addr \<Rightarrow> yaffs_addr list \<Rightarrow> yaffs_addr option option" where
  "successor_of a ch = (case dropWhile (\<lambda>x. x \<noteq> a) ch of [] \<Rightarrow> None | _ # rest \<Rightarrow> Some (case rest of [] \<Rightarrow> None | b # _ \<Rightarrow> Some b))"

definition children_of :: "yaffs_addr option \<Rightarrow> 'n yaffs_State \<Rightarrow> yaffs_addr list option" where
  "children_of d fs =
     do { a \<leftarrow> d; ob \<leftarrow> objs fs a; case variant ob of DirectoryVariant ch \<Rightarrow> Some ch | _ \<Rightarrow> None }"

partial_function (option) destroy_from :: "yaffs_Config \<Rightarrow> yaffs_addr option \<Rightarrow> yaffs_addr option \<Rightarrow> 'n yaffs_State \<Rightarrow> 'n yaffs_State option" where
  "destroy_from cfg d cur fs =
     (case cur of
        None \<Rightarrow> Some fs
      | Some a \<Rightarrow>
          Option.bind (Option.bind (children_of d fs) (successor_of a)) (\<lambda>n.
            Option.bind (yaffs_DestroyObject cfg a fs) (\<lambda>fs. destroy_from cfg d n fs)))"

definition destroy_children :: "yaffs_Config \<Rightarrow> yaffs_addr option \<Rightarrow> 'n yaffs_State \<Rightarrow> 'n yaffs_State option" where
  "destroy_children cfg d fs =
     do { ch \<leftarrow> children_of d fs; destroy_from cfg d (case ch of [] \<Rightarrow> None | a # _ \<Rightarrow> Some a) fs }"

subsection \<open>The forward scan (YAFFS1)\<close>

definition scan_query_block :: "yaffs_Config \<Rightarrow> int \<Rightarrow> 'n yaffs_State \<Rightarrow> 'n yaffs_State option" where
  "scan_query_block cfg blk fs =
     do { dev \<leftarrow> yaffs_ClearChunkBits (the_dev fs) blk;
          fs \<leftarrow> upd_bi (\<lambda>bi. bi\<lparr>pagesInUse := 0, softDeletions := 0\<rparr>) blk (fs\<lparr>the_dev := dev\<rparr>);
          (_, state, seq, dev) \<leftarrow> yaffs_QueryInitialBlockState cfg (the_dev fs) blk;
          fs \<leftarrow> upd_bi (\<lambda>bi. bi\<lparr>blockState := state, bi_sequenceNumber := seq\<rparr>) blk (fs\<lparr>the_dev := dev\<rparr>);
          let dev = the_dev fs;
          Some (if state = YAFFS_BLOCK_STATE_EMPTY
                then fs\<lparr>the_dev := dev\<lparr>nErasedBlocks := nErasedBlocks dev + 1, nFreeChunks := nFreeChunks dev + nChunksPerBlock dev\<rparr>\<rparr>
                else fs) }"

text \<open>The end of the file as far as a data chunk shows it.\<close>

definition chunk_end :: "'n yaffs_Device \<Rightarrow> yaffs_ExtendedTags \<Rightarrow> u32" where
  "chunk_end dev tags = (chunkId tags - 1) * word_of_int (nDataBytesPerChunk dev) + byteCount tags"

definition scan_grow :: "bool \<Rightarrow> u32 \<Rightarrow> yaffs_Object \<Rightarrow> yaffs_Object option" where
  "scan_grow setSize endpos ob =
     (if variantType ob = YAFFS_OBJECT_TYPE_FILE then do {
        f \<leftarrow> file_of ob;
        Some (if scannedFileSize f < endpos
              then ob\<lparr>variant := FileVariant (f\<lparr>scannedFileSize := endpos, fileSize := (if setSize then endpos else fileSize f)\<rparr>)\<rparr>
              else ob) }
      else Some ob)"

definition scan_data :: "yaffs_Config \<Rightarrow> int \<Rightarrow> int \<Rightarrow> 'n scan_locals \<Rightarrow> 'n scan_locals option" where
  "scan_data cfg blk c sc =
     do { let tags = sc_tags sc;
          let chunk = blk * nChunksPerBlock (the_dev (sc_fs sc)) + c;
          fs \<leftarrow> scan_use_chunk blk c (sc_fs sc);
          (obj, fs) \<leftarrow> yaffs_FindOrCreateObjectByNumber (sint (objectId tags)) YAFFS_OBJECT_TYPE_FILE fs;
          case obj of
            None \<Rightarrow> Some (sc\<lparr>sc_fs := fs, sc_failed := True\<rparr>)
          | Some a \<Rightarrow> do {
              (r, fs) \<leftarrow> yaffs_PutChunkIntoFile cfg a (sint (chunkId tags)) chunk 1 fs;
              ob \<leftarrow> objs fs a;
              ob \<leftarrow> scan_grow (\<not> useHeaderFileSize (the_dev fs)) (chunk_end (the_dev fs) tags) ob;
              Some (sc\<lparr>sc_fs := set_obj fs a ob, sc_failed := (r = 0)\<rparr>) } }"

definition scan_unused :: "int \<Rightarrow> int \<Rightarrow> 'n scan_locals \<Rightarrow> 'n scan_locals" where
  "scan_unused blk c sc =
     (let fs = sc_fs sc; dev = the_dev fs;
          (state, dev) =
            (if c = 0 then (YAFFS_BLOCK_STATE_EMPTY, dev\<lparr>nErasedBlocks := nErasedBlocks dev + 1\<rparr>)
             else (YAFFS_BLOCK_STATE_ALLOCATING, dev\<lparr>allocationBlock := blk, allocationPage := word_of_int c, allocationBlockFinder := blk\<rparr>));
          dev = dev\<lparr>nFreeChunks := nFreeChunks dev + (nChunksPerBlock dev - c)\<rparr>
      in sc\<lparr>sc_fs := fs\<lparr>the_dev := dev\<rparr>, sc_state := state\<rparr>)"

text \<open>Two headers with the same number: whichever is older is deleted.\<close>

definition scan_duplicate :: "yaffs_Config \<Rightarrow> yaffs_ExtendedTags \<Rightarrow> int \<Rightarrow> yaffs_addr \<Rightarrow> 'n yaffs_State \<Rightarrow> 'n yaffs_State option" where
  "scan_duplicate cfg tags chunk a fs =
     do { ob \<leftarrow> objs fs a;
          if valid ob then
            (if (ucast (serial ob) + 1) AND 3 = serialNumber tags then do {
               dev \<leftarrow> yaffs_DeleteChunk cfg (the_dev fs) (obj_chunkId ob) True;
               Some (set_obj (fs\<lparr>the_dev := dev\<rparr>) a (ob\<lparr>valid := False\<rparr>)) }
             else do {
               dev \<leftarrow> yaffs_DeleteChunk cfg (the_dev fs) chunk True;
               Some (fs\<lparr>the_dev := dev\<rparr>) })
          else Some fs }"

text \<open>What depends on the type of the scanned object.\<close>

definition scan_variant :: "yaffs_Config \<Rightarrow> u8 list \<Rightarrow> yaffs_addr \<Rightarrow> 'n scan_locals \<Rightarrow> 'n scan_locals option" where
  "scan_variant cfg page a sc =
     do { let fs = sc_fs sc;
          let be = cfg_big_endian cfg;
          ob \<leftarrow> objs fs a;
          if variantType ob = YAFFS_OBJECT_TYPE_FILE then
            (if useHeaderFileSize (the_dev fs) then do {
               f \<leftarrow> file_of ob;
               Some (sc\<lparr>sc_fs := set_obj fs a (ob\<lparr>variant := FileVariant (f\<lparr>fileSize := oh_u32 be page OH_fileSize\<rparr>)\<rparr>)\<rparr>) }
             else Some sc)
          else if variantType ob = YAFFS_OBJECT_TYPE_HARDLINK then do {
            hard \<leftarrow> push_hard a (sc_hard sc);
            Some (sc\<lparr>sc_fs := set_obj fs a (set_equivalent (oh_u32 be page OH_equivalentObjectId) ob), sc_hard := hard\<rparr>) }
          else if variantType ob = YAFFS_OBJECT_TYPE_SYMLINK then do {
            (failed, fs) \<leftarrow> scan_symlink page a fs;
            Some (sc\<lparr>sc_fs := fs, sc_failed := sc_failed sc \<or> failed\<rparr>) }
          else Some sc }"

definition scan_load :: "yaffs_Config \<Rightarrow> int \<Rightarrow> int \<Rightarrow> u8 list \<Rightarrow> yaffs_addr \<Rightarrow> 'n scan_locals \<Rightarrow> 'n scan_locals option" where
  "scan_load cfg blk chunk page a sc =
     do { let be = cfg_big_endian cfg;
          name \<leftarrow> oh_string page OH_name;
          fs \<leftarrow> upd_obj (\<lambda>ob. (yaffs_SetObjectName (load_stat be page (ob\<lparr>valid := True, obj_chunkId := chunk\<rparr>)) (Some name))\<lparr>dirty := False\<rparr>) a (sc_fs sc);
          (p, fs) \<leftarrow> scan_parent (oh_u32 be page OH_parentObjectId) fs;
          fs \<leftarrow> yaffs_AddObjectToDirectory p a fs;
          sc \<leftarrow> scan_variant cfg page a (sc\<lparr>sc_fs := fs\<rparr>);
          if p = deletedDir (sc_fs sc) then do {
            fs \<leftarrow> scan_destroy cfg (sc_hard sc) a (sc_fs sc);
            fs \<leftarrow> upd_bi (\<lambda>bi. bi\<lparr>hasShrinkHeader := True\<rparr>) blk fs;
            Some (sc\<lparr>sc_fs := fs\<rparr>) }
          else Some sc }"

definition scan_header :: "yaffs_Config \<Rightarrow> int \<Rightarrow> int \<Rightarrow> 'n scan_locals \<Rightarrow> 'n scan_locals option" where
  "scan_header cfg blk c sc =
     do { let tags = sc_tags sc;
          let be = cfg_big_endian cfg;
          let chunk = blk * nChunksPerBlock (the_dev (sc_fs sc)) + c;
          fs \<leftarrow> scan_use_chunk blk c (sc_fs sc);
          (_, page, _, dev) \<leftarrow> (if sc_buf sc = 0 then None else yaffs_ReadChunkWithTagsFromNAND cfg (the_dev fs) chunk True (cfg_unset_tags cfg));
          let fs = fs\<lparr>the_dev := dev\<rparr>;
          old \<leftarrow> yaffs_FindObjectByNumber fs (objectId tags);
          fs \<leftarrow> (case old of
                  None \<Rightarrow> Some fs
                | Some a \<Rightarrow> do {
                    ob \<leftarrow> objs fs a;
                    if variantType ob \<noteq> oh_u32 be page OH_type then scan_destroy cfg (sc_hard sc) a fs else Some fs });
          (obj, fs) \<leftarrow> yaffs_FindOrCreateObjectByNumber (sint (objectId tags)) (oh_u32 be page OH_type) fs;
          case obj of
            None \<Rightarrow> Some (sc\<lparr>sc_fs := fs, sc_failed := True\<rparr>)
          | Some a \<Rightarrow> do {
              fs \<leftarrow> (if sint (oh_u32 be page OH_shadowsObject) > 0
                    then yaffs_HandleShadowedObject (oh_u32 be page OH_shadowsObject) False fs else Some fs);
              fs \<leftarrow> scan_duplicate cfg tags chunk a fs;
              ob \<leftarrow> objs fs a;
              if \<not> valid ob \<and> (objectId tags = YAFFS_OBJECTID_ROOT \<or> objectId tags = YAFFS_OBJECTID_LOSTNFOUND) then
                Some (sc\<lparr>sc_fs := set_obj fs a (load_stat be page (ob\<lparr>valid := True, obj_chunkId := chunk\<rparr>))\<rparr>)
              else if \<not> valid ob then scan_load cfg blk chunk page a (sc\<lparr>sc_fs := fs\<rparr>)
              else Some (sc\<lparr>sc_fs := fs\<rparr>) } }"

definition scan_chunk :: "yaffs_Config \<Rightarrow> int \<Rightarrow> int \<Rightarrow> 'n scan_locals \<Rightarrow> 'n scan_locals option" where
  "scan_chunk cfg blk c sc =
     do { let fs = sc_fs sc;
          let chunk = blk * nChunksPerBlock (the_dev fs) + c;
          (_, _, tags, dev) \<leftarrow> yaffs_ReadChunkWithTagsFromNAND cfg (the_dev fs) chunk False (sc_tags sc);
          let sc = sc\<lparr>sc_fs := fs\<lparr>the_dev := dev\<rparr>, sc_tags := tags\<rparr>;
          if chunkDeleted tags \<noteq> 0 then Some (sc\<lparr>sc_fs := fs\<lparr>the_dev := dev\<lparr>nFreeChunks := nFreeChunks dev + 1\<rparr>\<rparr>\<rparr>)
          else if chunkUsed tags = 0 then Some (scan_unused blk c sc)
          else if chunkId tags > 0 then scan_data cfg blk c sc
          else scan_header cfg blk c sc }"

primrec scan_chunks :: "yaffs_Config \<Rightarrow> int \<Rightarrow> int list \<Rightarrow> 'n scan_locals \<Rightarrow> 'n scan_locals option" where
  "scan_chunks cfg blk [] sc = Some sc"
| "scan_chunks cfg blk (c # cs) sc =
     (if \<not> sc_failed sc \<and> sc_state sc = YAFFS_BLOCK_STATE_NEEDS_SCANNING
      then do { sc \<leftarrow> scan_chunk cfg blk c sc; scan_chunks cfg blk cs sc } else Some sc)"

primrec scan_blocks :: "yaffs_Config \<Rightarrow> int list \<Rightarrow> 'n scan_locals \<Rightarrow> 'n scan_locals option" where
  "scan_blocks cfg [] sc = Some sc"
| "scan_blocks cfg (blk # blks) sc =
     (if \<not> sc_failed sc then do {
        bi \<leftarrow> yaffs_GetBlockInfo (the_dev (sc_fs sc)) blk;
        sc \<leftarrow> scan_chunks cfg blk [0..nChunksPerBlock (the_dev (sc_fs sc)) - 1] (sc\<lparr>sc_state := blockState bi\<rparr>);
        sc \<leftarrow> scan_block_end cfg blk sc;
        scan_blocks cfg blks sc }
      else Some sc)"

definition all_blocks :: "'n yaffs_State \<Rightarrow> int list" where
  "all_blocks fs = [internalStartBlock (the_dev fs)..internalEndBlock (the_dev fs)]"

primrec scan_query_blocks :: "yaffs_Config \<Rightarrow> int list \<Rightarrow> 'n yaffs_State \<Rightarrow> 'n yaffs_State option" where
  "scan_query_blocks cfg [] fs = Some fs"
| "scan_query_blocks cfg (blk # blks) fs = do { fs \<leftarrow> scan_query_block cfg blk fs; scan_query_blocks cfg blks fs }"

definition scan_start :: "yaffs_Config \<Rightarrow> nat \<Rightarrow> 'n yaffs_State \<Rightarrow> 'n scan_locals" where
  "scan_start cfg buf fs = \<lparr>sc_fs = fs, sc_state = YAFFS_BLOCK_STATE_UNKNOWN, sc_found = False, sc_failed = False, sc_hard = [],
                        sc_tags = cfg_unset_tags cfg, sc_buf = buf\<rparr>"

definition yaffs_Scan :: "yaffs_Config \<Rightarrow> 'n yaffs_State \<Rightarrow> (int \<times> 'n yaffs_State) option" where
  "yaffs_Scan cfg fs =
     (if isYaffs2 (the_dev fs) then Some (YAFFS_FAIL, fs)
      else do {
        let (buf, dev) = yaffs_GetTempBuffer (the_dev fs) 5399;
        let fs = fs\<lparr>the_dev := dev\<lparr>dev_sequenceNumber := word_of_int YAFFS_LOWEST_SEQUENCE_NUMBER\<rparr>\<rparr>;
        fs \<leftarrow> scan_query_blocks cfg (all_blocks fs) fs;
        sc \<leftarrow> scan_blocks cfg (all_blocks fs) (scan_start cfg buf fs);
        fs \<leftarrow> yaffs_HardlinkFixup (sc_hard sc) (sc_fs sc);
        fs \<leftarrow> destroy_children cfg (unlinkedDir fs) fs;
        let fs = fs\<lparr>the_dev := yaffs_ReleaseTempBuffer (the_dev fs) buf\<rparr>;
        Some (if sc_failed sc then YAFFS_FAIL else YAFFS_OK, fs) })"

subsection \<open>The backward scan (YAFFS2)\<close>

text \<open>
  A block's state and sequence number.  The sequence number is compared as a signed integer with the lowest
  number and, because of the type of the constant, as an unsigned one with the highest.
\<close>

definition sequence_ok :: "u32 \<Rightarrow> bool" where
  "sequence_ok seq \<longleftrightarrow> sint seq \<ge> YAFFS_LOWEST_SEQUENCE_NUMBER \<and> uint seq < YAFFS_HIGHEST_SEQUENCE_NUMBER"

definition query_block :: "yaffs_Config \<Rightarrow> int \<Rightarrow> yaffs_BlockIndex list \<times> 'n yaffs_State \<Rightarrow> (yaffs_BlockIndex list \<times> 'n yaffs_State) option" where
  "query_block cfg blk = (\<lambda>(idx, fs).
     do { dev \<leftarrow> yaffs_ClearChunkBits (the_dev fs) blk;
          fs \<leftarrow> upd_bi (\<lambda>bi. bi\<lparr>pagesInUse := 0, softDeletions := 0\<rparr>) blk (fs\<lparr>the_dev := dev\<rparr>);
          (_, state, seq, dev) \<leftarrow> yaffs_QueryInitialBlockState cfg (the_dev fs) blk;
          let state = (if seq = YAFFS_SEQUENCE_CHECKPOINT_DATA then YAFFS_BLOCK_STATE_CHECKPOINT else state);
          fs \<leftarrow> upd_bi (\<lambda>bi. bi\<lparr>blockState := state, bi_sequenceNumber := seq\<rparr>) blk (fs\<lparr>the_dev := dev\<rparr>);
          let dev = the_dev fs;
          Some (if state = YAFFS_BLOCK_STATE_CHECKPOINT then (idx, fs\<lparr>the_dev := dev\<lparr>blocksInCheckpoint := blocksInCheckpoint dev + 1\<rparr>\<rparr>)
                else if state = YAFFS_BLOCK_STATE_EMPTY then
                  (idx, fs\<lparr>the_dev := dev\<lparr>nErasedBlocks := nErasedBlocks dev + 1, nFreeChunks := nFreeChunks dev + nChunksPerBlock dev\<rparr>\<rparr>)
                else if state = YAFFS_BLOCK_STATE_NEEDS_SCANNING \<and> sequence_ok seq then
                  (idx @ [\<lparr>bx_seq = sint seq, bx_block = blk\<rparr>],
                   if seq \<ge> dev_sequenceNumber dev then fs\<lparr>the_dev := dev\<lparr>dev_sequenceNumber := seq\<rparr>\<rparr> else fs)
                else (idx, fs)) })"

primrec query_blocks :: "yaffs_Config \<Rightarrow> int list \<Rightarrow> yaffs_BlockIndex list \<times> 'n yaffs_State \<Rightarrow> (yaffs_BlockIndex list \<times> 'n yaffs_State) option" where
  "query_blocks cfg [] s = Some s"
| "query_blocks cfg (blk # blks) s = do { s \<leftarrow> query_block cfg blk s; query_blocks cfg blks s }"

definition back_unused :: "int \<Rightarrow> int \<Rightarrow> 'n scan_locals \<Rightarrow> 'n scan_locals option" where
  "back_unused blk c sc =
     do { bi \<leftarrow> yaffs_GetBlockInfo (the_dev (sc_fs sc)) blk;
          let fs = sc_fs sc; let dev = the_dev fs;
          (state, fs) \<leftarrow>
            (if sc_found sc then Some (sc_state sc, fs)
             else if c = 0 then Some (YAFFS_BLOCK_STATE_EMPTY, fs\<lparr>the_dev := dev\<lparr>nErasedBlocks := nErasedBlocks dev + 1\<rparr>\<rparr>)
             else if dev_sequenceNumber dev = bi_sequenceNumber bi then
               Some (YAFFS_BLOCK_STATE_ALLOCATING,
                     fs\<lparr>the_dev := dev\<lparr>allocationBlock := blk, allocationPage := word_of_int c, allocationBlockFinder := blk\<rparr>\<rparr>)
             else do { fs \<leftarrow> upd_bi (\<lambda>bi. bi\<lparr>needsRetiring := True, gcPrioritise := True\<rparr>) blk fs; Some (sc_state sc, fs) });
          let dev = the_dev fs;
          Some (sc\<lparr>sc_fs := fs\<lparr>the_dev := dev\<lparr>nFreeChunks := nFreeChunks dev + 1\<rparr>\<rparr>, sc_state := state\<rparr>) }"

definition back_data :: "yaffs_Config \<Rightarrow> int \<Rightarrow> int \<Rightarrow> 'n scan_locals \<Rightarrow> 'n scan_locals option" where
  "back_data cfg blk c sc =
     do { let tags = sc_tags sc;
          let chunk = blk * nChunksPerBlock (the_dev (sc_fs sc)) + c;
          let chunkBase = (chunkId tags - 1) * word_of_int (nDataBytesPerChunk (the_dev (sc_fs sc)));
          fs \<leftarrow> scan_use_chunk blk c (sc_fs sc);
          (obj, fs) \<leftarrow> yaffs_FindOrCreateObjectByNumber (sint (objectId tags)) YAFFS_OBJECT_TYPE_FILE fs;
          case obj of
            None \<Rightarrow> Some (sc\<lparr>sc_fs := fs, sc_found := True, sc_failed := True\<rparr>)
          | Some a \<Rightarrow> do {
              ob \<leftarrow> objs fs a;
              wanted \<leftarrow> (if variantType ob = YAFFS_OBJECT_TYPE_FILE then do { f \<leftarrow> file_of ob; Some (chunkBase < shrinkSize f) } else Some False);
              if wanted then do {
                (r, fs) \<leftarrow> yaffs_PutChunkIntoFile cfg a (sint (chunkId tags)) chunk (-1) fs;
                ob \<leftarrow> objs fs a;
                ob \<leftarrow> (if \<not> valid ob then scan_grow True (chunk_end (the_dev fs) tags) ob else Some ob);
                Some (sc\<lparr>sc_fs := set_obj fs a ob, sc_found := True, sc_failed := (r = 0)\<rparr>) }
              else do {
                dev \<leftarrow> yaffs_DeleteChunk cfg (the_dev fs) chunk True;
                Some (sc\<lparr>sc_fs := fs\<lparr>the_dev := dev\<rparr>, sc_found := True\<rparr>) } } }"

text \<open>
  What a header says, from the page if it was read (\<open>oh\<close>) and from the tags otherwise: the file size, the
  parent, the shrink flag and the equivalent object.
\<close>

definition header_says :: "bool \<Rightarrow> u8 list option \<Rightarrow> yaffs_ExtendedTags \<Rightarrow> u32 \<times> u32 \<times> bool \<times> u32" where
  "header_says be oh tags =
     (case oh of
        Some page \<Rightarrow> (oh_u32 be page OH_fileSize, oh_u32 be page OH_parentObjectId, oh_u32 be page OH_isShrink \<noteq> 0, oh_u32 be page OH_equivalentObjectId)
      | None \<Rightarrow> (extraFileLength tags, extraParentObjectId tags, extraIsShrinkHeader tags \<noteq> 0, extraEquivalentObjectId tags))"

definition lower_shrink :: "u32 \<Rightarrow> yaffs_FileStructure \<Rightarrow> yaffs_FileStructure" where
  "lower_shrink fsize f = (if shrinkSize f > fsize then f\<lparr>shrinkSize := fsize\<rparr> else f)"

text \<open>An older header of an object: only what it says about shrinking counts.\<close>

definition back_old_header :: "yaffs_Config \<Rightarrow> int \<Rightarrow> u8 list option \<Rightarrow> yaffs_ExtendedTags \<Rightarrow> yaffs_addr \<Rightarrow> 'n yaffs_State \<Rightarrow> 'n yaffs_State option" where
  "back_old_header cfg blk oh tags a fs =
     do { let be = cfg_big_endian cfg;
          ob \<leftarrow> objs fs a;
          if variantType ob = YAFFS_OBJECT_TYPE_FILE \<and>
             ((case oh of Some page \<Rightarrow> oh_u32 be page OH_type = YAFFS_OBJECT_TYPE_FILE | None \<Rightarrow> False) \<or>
              extraHeaderInfoAvailable tags \<noteq> 0 \<and> extraObjectType tags = YAFFS_OBJECT_TYPE_FILE) then do {
            let (thisSize, parentObjectId, isShrink, _) = header_says be oh tags;
            let gone = (parentObjectId = YAFFS_OBJECTID_DELETED \<or> parentObjectId = YAFFS_OBJECTID_UNLINKED);
            if isShrink \<or> gone then do {
              f \<leftarrow> file_of ob;
              upd_bi (\<lambda>bi. bi\<lparr>hasShrinkHeader := True\<rparr>) blk
                (set_obj fs a (ob\<lparr>variant := FileVariant (lower_shrink (if gone then 0 else thisSize) f)\<rparr>)) }
            else Some fs }
          else Some fs }"

text \<open>The variant of an object from its newest header.\<close>

definition back_variant :: "u8 list option \<Rightarrow> u32 \<Rightarrow> bool \<Rightarrow> u32 \<Rightarrow> bool \<Rightarrow> yaffs_addr \<Rightarrow> 'n scan_locals \<Rightarrow> 'n scan_locals option" where
  "back_variant oh fsize isShrink equivalentId itsUnlinked a sc =
     do { let fs = sc_fs sc;
          ob \<leftarrow> objs fs a;
          if variantType ob = YAFFS_OBJECT_TYPE_FILE then do {
            f \<leftarrow> file_of ob;
            let f = (if scannedFileSize f < fsize then f\<lparr>fileSize := fsize, scannedFileSize := fsize\<rparr> else f);
            let f = (if isShrink then lower_shrink fsize f else f);
            Some (sc\<lparr>sc_fs := set_obj fs a (ob\<lparr>variant := FileVariant f\<rparr>)\<rparr>) }
          else if variantType ob = YAFFS_OBJECT_TYPE_HARDLINK then
            (if \<not> itsUnlinked then do {
               hard \<leftarrow> push_hard a (sc_hard sc);
               Some (sc\<lparr>sc_fs := set_obj fs a (set_equivalent equivalentId ob), sc_hard := hard\<rparr>) }
             else Some sc)
          else if variantType ob = YAFFS_OBJECT_TYPE_SYMLINK then
            (case oh of
               Some page \<Rightarrow> do {
                 (failed, fs) \<leftarrow> scan_symlink page a fs;
                 Some (sc\<lparr>sc_fs := fs, sc_failed := sc_failed sc \<or> failed\<rparr>) }
             | None \<Rightarrow> Some sc)
          else Some sc }"

text \<open>The newest header of an object.\<close>

definition back_load :: "yaffs_Config \<Rightarrow> int \<Rightarrow> int \<Rightarrow> u8 list option \<Rightarrow> yaffs_addr \<Rightarrow> 'n scan_locals \<Rightarrow> 'n scan_locals option" where
  "back_load cfg blk chunk oh a sc =
     do { let be = cfg_big_endian cfg;
          let tags = sc_tags sc;
          let (fsize, parentId, isShrink, equivalentId) = header_says be oh tags;
          fs \<leftarrow> upd_obj (\<lambda>ob. ob\<lparr>valid := True, obj_chunkId := chunk\<rparr>) a (sc_fs sc);
          fs \<leftarrow> (case oh of
                  Some page \<Rightarrow> do {
                    fs \<leftarrow> upd_obj (load_stat be page) a fs;
                    fs \<leftarrow> (if sint (oh_u32 be page OH_shadowsObject) > 0
                          then yaffs_HandleShadowedObject (oh_u32 be page OH_shadowsObject) True fs else Some fs);
                    name \<leftarrow> oh_string page OH_name;
                    upd_obj (\<lambda>ob. yaffs_SetObjectName ob (Some name)) a fs }
                | None \<Rightarrow> upd_obj (\<lambda>ob. ob\<lparr>variantType := extraObjectType tags, lazyLoaded := True\<rparr>) a fs);
          fs \<leftarrow> upd_obj (\<lambda>ob. ob\<lparr>dirty := False\<rparr>) a fs;
          (p, fs) \<leftarrow> scan_parent parentId fs;
          fs \<leftarrow> yaffs_AddObjectToDirectory p a fs;
          let itsUnlinked = (p = deletedDir fs \<or> p = unlinkedDir fs);
          fs \<leftarrow> (if isShrink then upd_bi (\<lambda>bi. bi\<lparr>hasShrinkHeader := True\<rparr>) blk fs else Some fs);
          back_variant oh fsize isShrink equivalentId itsUnlinked a (sc\<lparr>sc_fs := fs\<rparr>) }"

text \<open>The object of a header, and the page if it had to be read.\<close>

definition back_find :: "yaffs_Config \<Rightarrow> int \<Rightarrow> 'n scan_locals \<Rightarrow> 'n yaffs_State \<Rightarrow> (yaffs_addr \<times> u8 list option \<times> 'n yaffs_State) option" where
  "back_find cfg chunk sc fs =
     do { let tags = sc_tags sc;
          (obj, fs) \<leftarrow> (if extraHeaderInfoAvailable tags \<noteq> 0
                        then yaffs_FindOrCreateObjectByNumber (sint (objectId tags)) (extraObjectType tags) fs else Some (None, fs));
          wanted \<leftarrow> (case obj of
                      None \<Rightarrow> Some True
                    | Some a \<Rightarrow> do {
                        ob \<leftarrow> objs fs a;
                        Some (extraShadows tags \<noteq> 0 \<or>
                              \<not> valid ob \<and> (objectId tags = YAFFS_OBJECTID_ROOT \<or> objectId tags = YAFFS_OBJECTID_LOSTNFOUND)) });
          if wanted then do {
            (_, page, _, dev) \<leftarrow> (if sc_buf sc = 0 then None else yaffs_ReadChunkWithTagsFromNAND cfg (the_dev fs) chunk True (cfg_unset_tags cfg));
            let fs = fs\<lparr>the_dev := dev\<rparr>;
            (obj, fs) \<leftarrow> (if obj = None then yaffs_FindOrCreateObjectByNumber (sint (objectId tags)) (oh_u32 (cfg_big_endian cfg) page OH_type) fs
                          else Some (obj, fs));
            a \<leftarrow> obj;
            Some (a, Some page, fs) }
          else do { a \<leftarrow> obj; Some (a, None, fs) } }"

definition back_header :: "yaffs_Config \<Rightarrow> int \<Rightarrow> int \<Rightarrow> 'n scan_locals \<Rightarrow> 'n scan_locals option" where
  "back_header cfg blk c sc =
     do { let tags = sc_tags sc;
          let be = cfg_big_endian cfg;
          let chunk = blk * nChunksPerBlock (the_dev (sc_fs sc)) + c;
          let sc = sc\<lparr>sc_found := True\<rparr>;
          fs \<leftarrow> scan_use_chunk blk c (sc_fs sc);
          (a, oh, fs) \<leftarrow> back_find cfg chunk sc fs;
          ob \<leftarrow> objs fs a;
          if valid ob then do {
            fs \<leftarrow> back_old_header cfg blk oh tags a fs;
            dev \<leftarrow> yaffs_DeleteChunk cfg (the_dev fs) chunk True;
            Some (sc\<lparr>sc_fs := fs\<lparr>the_dev := dev\<rparr>\<rparr>) }
          else if objectId tags = YAFFS_OBJECTID_ROOT \<or> objectId tags = YAFFS_OBJECTID_LOSTNFOUND then
            (let ob = ob\<lparr>valid := True, obj_chunkId := chunk\<rparr>;
                 ob = (case oh of Some page \<Rightarrow> load_stat be page ob | None \<Rightarrow> ob\<lparr>variantType := extraObjectType tags, lazyLoaded := True\<rparr>)
             in Some (sc\<lparr>sc_fs := set_obj fs a ob\<rparr>))
          else back_load cfg blk chunk oh a (sc\<lparr>sc_fs := fs\<rparr>) }"

definition back_chunk :: "yaffs_Config \<Rightarrow> int \<Rightarrow> int \<Rightarrow> 'n scan_locals \<Rightarrow> 'n scan_locals option" where
  "back_chunk cfg blk c sc =
     do { let fs = sc_fs sc;
          let chunk = blk * nChunksPerBlock (the_dev fs) + c;
          (_, _, tags, dev) \<leftarrow> yaffs_ReadChunkWithTagsFromNAND cfg (the_dev fs) chunk False (sc_tags sc);
          let sc = sc\<lparr>sc_fs := fs\<lparr>the_dev := dev\<rparr>, sc_tags := tags\<rparr>;
          if chunkUsed tags = 0 then back_unused blk c sc
          else if chunkId tags > 0 then back_data cfg blk c sc
          else back_header cfg blk c sc }"

primrec back_chunks :: "yaffs_Config \<Rightarrow> int \<Rightarrow> int list \<Rightarrow> 'n scan_locals \<Rightarrow> 'n scan_locals option" where
  "back_chunks cfg blk [] sc = Some sc"
| "back_chunks cfg blk (c # cs) sc =
     (if \<not> sc_failed sc \<and> (sc_state sc = YAFFS_BLOCK_STATE_NEEDS_SCANNING \<or> sc_state sc = YAFFS_BLOCK_STATE_ALLOCATING)
      then do { sc \<leftarrow> back_chunk cfg blk c sc; back_chunks cfg blk cs sc } else Some sc)"

primrec back_blocks :: "yaffs_Config \<Rightarrow> int list \<Rightarrow> 'n scan_locals \<Rightarrow> 'n scan_locals option" where
  "back_blocks cfg [] sc = Some sc"
| "back_blocks cfg (blk # blks) sc =
     (if \<not> sc_failed sc then do {
        bi \<leftarrow> yaffs_GetBlockInfo (the_dev (sc_fs sc)) blk;
        sc \<leftarrow> back_chunks cfg blk (rev [0..nChunksPerBlock (the_dev (sc_fs sc)) - 1]) (sc\<lparr>sc_state := blockState bi, sc_found := False\<rparr>);
        sc \<leftarrow> scan_block_end cfg blk sc;
        back_blocks cfg blks sc }
      else Some sc)"

text \<open>The array of blocks to scan: if there is no memory for it another allocator is tried.\<close>

definition alloc_block_index :: "'n yaffs_Device \<Rightarrow> nat \<times> 'n yaffs_Device" where
  "alloc_block_index dev = (let (p, dev) = YMALLOC dev in if p = 0 then YMALLOC dev else (p, dev))"

definition yaffs_ScanBackwards :: "yaffs_Config \<Rightarrow> 'n yaffs_State \<Rightarrow> (int \<times> 'n yaffs_State) option" where
  "yaffs_ScanBackwards cfg fs =
     (if \<not> isYaffs2 (the_dev fs) then Some (YAFFS_FAIL, fs)
      else do {
        let (p, dev) = alloc_block_index ((the_dev fs)\<lparr>dev_sequenceNumber := word_of_int YAFFS_LOWEST_SEQUENCE_NUMBER\<rparr>);
        if p = 0 then Some (YAFFS_FAIL, fs\<lparr>the_dev := dev\<rparr>)
        else do {
          let (buf, dev) = yaffs_GetTempBuffer (dev\<lparr>blocksInCheckpoint := 0\<rparr>) 5988;
          let fs = fs\<lparr>the_dev := dev\<rparr>;
          (idx, fs) \<leftarrow> query_blocks cfg (all_blocks fs) ([], fs);
          let idx = yaffs_qsort ybicmp idx 0 (length idx);
          sc \<leftarrow> back_blocks cfg (rev (map bx_block idx)) (scan_start cfg buf fs);
          fs \<leftarrow> yaffs_HardlinkFixup (sc_hard sc) (sc_fs sc);
          fs \<leftarrow> destroy_children cfg (unlinkedDir fs) fs;
          fs \<leftarrow> destroy_children cfg (deletedDir fs) fs;
          let fs = fs\<lparr>the_dev := yaffs_ReleaseTempBuffer (the_dev fs) buf\<rparr>;
          Some (if sc_failed sc then YAFFS_FAIL else YAFFS_OK, fs) } })"

end
