(* ===== verification/CheckptData.thy ===== *)
theory CheckptData
  imports Scan
begin

section \<open>Saving and restoring the state\<close>

text \<open>
  The checkpoint of a device, written when it is unmounted and read when it is mounted again: the structures
  of \<^verbatim>\<open>yaffs_guts.h\<close> and the functions \<open>yaffs_WriteCheckpointData\<close>, \<open>yaffs_ReadCheckpointData\<close> and their parts.
  The structures go to the stream as they lie in memory: bit fields are allocated from the least significant
  bit on a little-endian machine and from the most significant bit on a big-endian one.  \<open>unset\<close> is what the
  local structure holds before the code sets its fields.  The functions \<^verbatim>\<open>yaffs_Verify...\<close>, which only trace, are left
  out.
\<close>

subsection \<open>Structures in memory\<close>

definition field_pos :: "bool \<Rightarrow> nat \<Rightarrow> nat \<Rightarrow> nat" where
  "field_pos be off w = (if be then 32 - off - w else off)"

definition put_field :: "bool \<Rightarrow> nat \<Rightarrow> nat \<Rightarrow> u32 \<Rightarrow> u32" where
  "put_field be off w v = push_bit (field_pos be off w) (take_bit w v)"

definition get_field :: "bool \<Rightarrow> nat \<Rightarrow> nat \<Rightarrow> u32 \<Rightarrow> u32" where
  "get_field be off w x = take_bit w (drop_bit (field_pos be off w) x)"

fun bytes_words :: "bool \<Rightarrow> u8 list \<Rightarrow> u32 list" where
  "bytes_words be (a # b # c # d # bs) = bytes_u32 be [a, b, c, d] # bytes_words be bs"
| "bytes_words be _ = []"

definition words_bytes :: "bool \<Rightarrow> u32 list \<Rightarrow> u8 list" where
  "words_bytes be ws = concat (map (u32_bytes be) ws)"

definition block_state_code :: "yaffs_BlockState \<Rightarrow> nat" where
  "block_state_code s =
     (case s of
        YAFFS_BLOCK_STATE_UNKNOWN \<Rightarrow> 0 | YAFFS_BLOCK_STATE_SCANNING \<Rightarrow> 1 | YAFFS_BLOCK_STATE_NEEDS_SCANNING \<Rightarrow> 2
      | YAFFS_BLOCK_STATE_EMPTY \<Rightarrow> 3 | YAFFS_BLOCK_STATE_ALLOCATING \<Rightarrow> 4 | YAFFS_BLOCK_STATE_FULL \<Rightarrow> 5
      | YAFFS_BLOCK_STATE_DIRTY \<Rightarrow> 6 | YAFFS_BLOCK_STATE_CHECKPOINT \<Rightarrow> 7 | YAFFS_BLOCK_STATE_COLLECTING \<Rightarrow> 8
      | YAFFS_BLOCK_STATE_DEAD \<Rightarrow> 9)"

definition block_states :: "yaffs_BlockState list" where
  "block_states = [YAFFS_BLOCK_STATE_UNKNOWN, YAFFS_BLOCK_STATE_SCANNING, YAFFS_BLOCK_STATE_NEEDS_SCANNING, YAFFS_BLOCK_STATE_EMPTY,
     YAFFS_BLOCK_STATE_ALLOCATING, YAFFS_BLOCK_STATE_FULL, YAFFS_BLOCK_STATE_DIRTY, YAFFS_BLOCK_STATE_CHECKPOINT,
     YAFFS_BLOCK_STATE_COLLECTING, YAFFS_BLOCK_STATE_DEAD]"

text \<open>A number that is no block state has no counterpart in the model.\<close>

definition block_state_of :: "nat \<Rightarrow> yaffs_BlockState option" where
  "block_state_of n = (if n < length block_states then Some (block_states ! n) else None)"

definition info_words :: "bool \<Rightarrow> yaffs_BlockInfo \<Rightarrow> u32 list" where
  "info_words be bi =
     [put_field be 0 10 (word_of_int (softDeletions bi)) OR put_field be 10 10 (word_of_int (pagesInUse bi)) OR
      put_field be 20 4 (of_nat (block_state_code (blockState bi))) OR put_field be 24 1 (of_bool (needsRetiring bi)) OR
      put_field be 25 1 (of_bool (skipErasedCheck bi)) OR put_field be 26 1 (of_bool (gcPrioritise bi)) OR
      put_field be 27 3 (ucast (chunkErrorStrikes bi)) OR put_field be 30 1 (of_bool (hasShrinkHeader bi)),
      bi_sequenceNumber bi]"

definition words_info :: "bool \<Rightarrow> u32 \<Rightarrow> u32 \<Rightarrow> yaffs_BlockInfo option" where
  "words_info be w seq =
     do { s \<leftarrow> block_state_of (unat (get_field be 20 4 w));
          Some \<lparr>softDeletions = int10 (uint (get_field be 0 10 w)), pagesInUse = int10 (uint (get_field be 10 10 w)), blockState = s,
                needsRetiring = (get_field be 24 1 w \<noteq> 0), skipErasedCheck = (get_field be 25 1 w \<noteq> 0),
                gcPrioritise = (get_field be 26 1 w \<noteq> 0), chunkErrorStrikes = ucast (get_field be 27 3 w),
                hasShrinkHeader = (get_field be 30 1 w \<noteq> 0), bi_sequenceNumber = seq\<rparr> }"

definition infos_bytes :: "bool \<Rightarrow> yaffs_BlockInfo list \<Rightarrow> u8 list" where
  "infos_bytes be bis = words_bytes be (concat (map (info_words be) bis))"

fun words_infos :: "bool \<Rightarrow> u32 list \<Rightarrow> yaffs_BlockInfo list option" where
  "words_infos be (w # q # ws) = do { bi \<leftarrow> words_info be w q; bis \<leftarrow> words_infos be ws; Some (bi # bis) }"
| "words_infos be _ = Some []"

definition bytes_infos :: "bool \<Rightarrow> u8 list \<Rightarrow> yaffs_BlockInfo list option" where
  "bytes_infos be bs = words_infos be (bytes_words be bs)"

record yaffs_CheckpointObject =
  cpo_structType :: u32
  cpo_objectId :: u32
  cpo_parentId :: u32
  cpo_chunkId :: u32
  cpo_variantType :: u32
  cpo_deleted :: bool
  cpo_softDeleted :: bool
  cpo_unlinked :: bool
  cpo_fake :: bool
  cpo_renameAllowed :: bool
  cpo_unlinkAllowed :: bool
  cpo_bits :: "7 word"
  cpo_serial :: u8
  cpo_pad :: u8
  cpo_nDataChunks :: u32
  cpo_fileSizeOrEquivalentObjectId :: u32

abbreviation (input) "sizeof_CheckpointObject \<equiv> (28 :: nat)"
abbreviation (input) "sizeof_CheckpointDevice \<equiv> (40 :: nat)"
abbreviation (input) "sizeof_CheckpointValidity \<equiv> (16 :: nat)"
abbreviation (input) "sizeof_BlockInfo \<equiv> (8 :: nat)"

text \<open>
  The bit fields take nine bits: eight of the first byte and one of the second, whose other bits
  (\<open>cpo_bits\<close>) are not used.  With the two bytes after them they form one word.
\<close>

definition cpo_word :: "bool \<Rightarrow> yaffs_CheckpointObject \<Rightarrow> u32" where
  "cpo_word be cp =
     put_field be 0 3 (cpo_variantType cp) OR put_field be 3 1 (of_bool (cpo_deleted cp)) OR
     put_field be 4 1 (of_bool (cpo_softDeleted cp)) OR put_field be 5 1 (of_bool (cpo_unlinked cp)) OR
     put_field be 6 1 (of_bool (cpo_fake cp)) OR put_field be 7 1 (of_bool (cpo_renameAllowed cp)) OR
     put_field be 8 1 (of_bool (cpo_unlinkAllowed cp)) OR put_field be 9 7 (ucast (cpo_bits cp)) OR
     put_field be 16 8 (ucast (cpo_serial cp)) OR put_field be 24 8 (ucast (cpo_pad cp))"

definition cpo_bytes :: "bool \<Rightarrow> yaffs_CheckpointObject \<Rightarrow> u8 list" where
  "cpo_bytes be cp = words_bytes be
     [cpo_structType cp, cpo_objectId cp, cpo_parentId cp, cpo_chunkId cp, cpo_word be cp, cpo_nDataChunks cp,
      cpo_fileSizeOrEquivalentObjectId cp]"

definition bytes_cpo :: "bool \<Rightarrow> u8 list \<Rightarrow> yaffs_CheckpointObject option" where
  "bytes_cpo be bs =
     (case bytes_words be bs of
        [st, oid, pid, cid, w, n, fe] \<Rightarrow>
          Some \<lparr>cpo_structType = st, cpo_objectId = oid, cpo_parentId = pid, cpo_chunkId = cid, cpo_variantType = get_field be 0 3 w,
                cpo_deleted = (get_field be 3 1 w \<noteq> 0), cpo_softDeleted = (get_field be 4 1 w \<noteq> 0),
                cpo_unlinked = (get_field be 5 1 w \<noteq> 0), cpo_fake = (get_field be 6 1 w \<noteq> 0),
                cpo_renameAllowed = (get_field be 7 1 w \<noteq> 0), cpo_unlinkAllowed = (get_field be 8 1 w \<noteq> 0),
                cpo_bits = ucast (get_field be 9 7 w), cpo_serial = ucast (get_field be 16 8 w), cpo_pad = ucast (get_field be 24 8 w),
                cpo_nDataChunks = n, cpo_fileSizeOrEquivalentObjectId = fe\<rparr>
      | _ \<Rightarrow> None)"

subsection \<open>The stream\<close>

text \<open>\<^verbatim>\<open>yaffs_CheckpointWrite(dev, data, n) == n\<close> and \<^verbatim>\<open>yaffs_CheckpointRead(dev, data, n) == n\<close>.\<close>

definition cp_write_mem :: "yaffs_Config \<Rightarrow> ('n yaffs_Device \<Rightarrow> u8 list) \<Rightarrow> nat \<Rightarrow> 'n yaffs_State \<Rightarrow> (bool \<times> 'n yaffs_State) option" where
  "cp_write_mem cfg src n fs =
     do { (k, dev) \<leftarrow> yaffs_CheckpointWrite cfg (the_dev fs) src n; Some (k = int n, fs\<lparr>the_dev := dev\<rparr>) }"

definition cp_write :: "yaffs_Config \<Rightarrow> u8 list \<Rightarrow> 'n yaffs_State \<Rightarrow> (bool \<times> 'n yaffs_State) option" where
  "cp_write cfg bs fs = cp_write_mem cfg (\<lambda>_. bs) (length bs) fs"

definition cp_read :: "nat \<Rightarrow> 'n yaffs_State \<Rightarrow> (bool \<times> u8 list \<times> 'n yaffs_State) option" where
  "cp_read n fs =
     do { (k, bs, dev) \<leftarrow> yaffs_CheckpointRead (the_dev fs) n; Some (k = int n, bs, fs\<lparr>the_dev := dev\<rparr>) }"

text \<open>\<^verbatim>\<open>if(ok) ok = f(...)\<close>\<close>

definition if_ok :: "('n yaffs_State \<Rightarrow> (bool \<times> 'n yaffs_State) option) \<Rightarrow> bool \<times> 'n yaffs_State \<Rightarrow> (bool \<times> 'n yaffs_State) option" where
  "if_ok f = (\<lambda>(ok, fs). if ok then f fs else Some (False, fs))"

definition yaffs_WriteCheckpointValidityMarker :: "yaffs_Config \<Rightarrow> bool \<Rightarrow> 'n yaffs_State \<Rightarrow> (bool \<times> 'n yaffs_State) option" where
  "yaffs_WriteCheckpointValidityMarker cfg head fs =
     cp_write cfg (words_bytes (cfg_big_endian cfg) [of_nat sizeof_CheckpointValidity, YAFFS_MAGIC, YAFFS_CHECKPOINT_VERSION, of_bool head]) fs"

definition yaffs_ReadCheckpointValidityMarker :: "yaffs_Config \<Rightarrow> bool \<Rightarrow> 'n yaffs_State \<Rightarrow> (bool \<times> 'n yaffs_State) option" where
  "yaffs_ReadCheckpointValidityMarker cfg head fs =
     do { (ok, bs, fs) \<leftarrow> cp_read sizeof_CheckpointValidity fs;
          Some (ok \<and> bytes_words (cfg_big_endian cfg) bs =
                       [of_nat sizeof_CheckpointValidity, YAFFS_MAGIC, YAFFS_CHECKPOINT_VERSION, of_bool head], fs) }"

subsection \<open>The device\<close>

definition yaffs_DeviceToCheckpointDevice :: "'n yaffs_Device \<Rightarrow> u32 list" where
  "yaffs_DeviceToCheckpointDevice dev =
     [word_of_int (nErasedBlocks dev), word_of_int (allocationBlock dev), allocationPage dev, word_of_int (nFreeChunks dev),
      word_of_int (nDeletedFiles dev), word_of_int (nUnlinkedFiles dev), word_of_int (nBackgroundDeletions dev),
      dev_sequenceNumber dev, oldestDirtySequence dev]"

definition yaffs_CheckpointDeviceToDevice :: "u32 list \<Rightarrow> 'n yaffs_Device \<Rightarrow> 'n yaffs_Device option" where
  "yaffs_CheckpointDeviceToDevice cp dev =
     (case cp of
        [ne, ab, ap, nf, nd, nu, nb, sq, od] \<Rightarrow>
          Some (dev\<lparr>nErasedBlocks := sint ne, allocationBlock := sint ab, allocationPage := ap, nFreeChunks := sint nf,
                    nDeletedFiles := sint nd, nUnlinkedFiles := sint nu, nBackgroundDeletions := sint nb,
                    dev_sequenceNumber := sq, oldestDirtySequence := od\<rparr>)
      | _ \<Rightarrow> None)"

definition n_blocks :: "'n yaffs_Device \<Rightarrow> nat" where
  "n_blocks dev = nat (internalEndBlock dev - internalStartBlock dev + 1)"

definition yaffs_WriteCheckpointDevice :: "yaffs_Config \<Rightarrow> 'n yaffs_State \<Rightarrow> (bool \<times> 'n yaffs_State) option" where
  "yaffs_WriteCheckpointDevice cfg fs =
     do { let be = cfg_big_endian cfg;
          let n = n_blocks (the_dev fs);
          s \<leftarrow> cp_write cfg (words_bytes be (of_nat sizeof_CheckpointDevice # yaffs_DeviceToCheckpointDevice (the_dev fs))) fs;
          s \<leftarrow> if_ok (cp_write_mem cfg (\<lambda>dev. infos_bytes be (blockInfo dev)) (n * sizeof_BlockInfo)) s;
          if_ok (\<lambda>fs. cp_write_mem cfg chunkBits (n * nat (chunkBitmapStride (the_dev fs))) fs) s }"

definition yaffs_ReadCheckpointDevice :: "yaffs_Config \<Rightarrow> 'n yaffs_State \<Rightarrow> (bool \<times> 'n yaffs_State) option" where
  "yaffs_ReadCheckpointDevice cfg fs =
     do { let be = cfg_big_endian cfg;
          let n = n_blocks (the_dev fs);
          (ok, bs, fs) \<leftarrow> cp_read sizeof_CheckpointDevice fs;
          if \<not> ok then Some (False, fs)
          else
            (case bytes_words be bs of
               [] \<Rightarrow> None
             | st # cp \<Rightarrow>
                 if st \<noteq> of_nat sizeof_CheckpointDevice then Some (False, fs)
                 else do {
                   dev \<leftarrow> yaffs_CheckpointDeviceToDevice cp (the_dev fs);
                   (ok, bs, fs) \<leftarrow> (if n \<le> length (blockInfo dev) then cp_read (n * sizeof_BlockInfo) (fs\<lparr>the_dev := dev\<rparr>) else None);
                   bis \<leftarrow> bytes_infos be (bs @ drop (length bs) (infos_bytes be (blockInfo (the_dev fs))));
                   let fs = fs\<lparr>the_dev := (the_dev fs)\<lparr>blockInfo := bis\<rparr>\<rparr>;
                   if \<not> ok then Some (False, fs)
                   else do {
                     let k = n * nat (chunkBitmapStride (the_dev fs));
                     (ok, bs, fs) \<leftarrow> (if k \<le> length (chunkBits (the_dev fs)) then cp_read k fs else None);
                     Some (ok, fs\<lparr>the_dev := (the_dev fs)\<lparr>chunkBits := bs @ drop (length bs) (chunkBits (the_dev fs))\<rparr>\<rparr>) } }) }"

subsection \<open>Objects\<close>

definition yaffs_ObjectToCheckpointObject :: "'n yaffs_State \<Rightarrow> yaffs_Object \<Rightarrow> yaffs_CheckpointObject \<Rightarrow> yaffs_CheckpointObject option" where
  "yaffs_ObjectToCheckpointObject fs ob cp =
     do { pid \<leftarrow> parent_number fs ob;
          let cp = cp\<lparr>cpo_objectId := obj_objectId ob, cpo_parentId := pid, cpo_chunkId := word_of_int (obj_chunkId ob),
                cpo_variantType := take_bit 3 (variantType ob), cpo_deleted := deleted ob, cpo_softDeleted := softDeleted ob,
                cpo_unlinked := unlinked ob, cpo_fake := fake ob, cpo_renameAllowed := renameAllowed ob,
                cpo_unlinkAllowed := unlinkAllowed ob, cpo_serial := serial ob, cpo_nDataChunks := word_of_int (nDataChunks ob)\<rparr>;
          if variantType ob = YAFFS_OBJECT_TYPE_FILE then do {
            f \<leftarrow> file_of ob; Some (cp\<lparr>cpo_fileSizeOrEquivalentObjectId := fileSize f\<rparr>) }
          else if variantType ob = YAFFS_OBJECT_TYPE_HARDLINK then
            (case variant ob of HardLinkVariant _ n \<Rightarrow> Some (cp\<lparr>cpo_fileSizeOrEquivalentObjectId := n\<rparr>) | _ \<Rightarrow> None)
          else Some cp }"

definition cpo_variant :: "yaffs_CheckpointObject \<Rightarrow> yaffs_Object \<Rightarrow> yaffs_Object option" where
  "cpo_variant cp ob =
     (if variantType ob = YAFFS_OBJECT_TYPE_FILE then do {
        f \<leftarrow> file_of ob; Some (ob\<lparr>variant := FileVariant (f\<lparr>fileSize := cpo_fileSizeOrEquivalentObjectId cp\<rparr>)\<rparr>) }
      else if variantType ob = YAFFS_OBJECT_TYPE_HARDLINK then Some (set_equivalent (cpo_fileSizeOrEquivalentObjectId cp) ob)
      else Some ob)"

definition yaffs_CheckpointObjectToObject :: "yaffs_addr \<Rightarrow> yaffs_CheckpointObject \<Rightarrow> 'n yaffs_State \<Rightarrow> 'n yaffs_State option" where
  "yaffs_CheckpointObjectToObject a cp fs =
     do { fs \<leftarrow> upd_obj (\<lambda>ob. ob\<lparr>obj_objectId := cpo_objectId cp\<rparr>) a fs;
          (p, fs) \<leftarrow> (if cpo_parentId cp \<noteq> 0
                      then yaffs_FindOrCreateObjectByNumber (sint (cpo_parentId cp)) YAFFS_OBJECT_TYPE_DIRECTORY fs else Some (None, fs));
          fs \<leftarrow> (if p \<noteq> None then yaffs_AddObjectToDirectory p a fs else Some fs);
          ob \<leftarrow> objs fs a;
          ob \<leftarrow> cpo_variant cp (ob\<lparr>obj_chunkId := sint (cpo_chunkId cp), variantType := cpo_variantType cp, deleted := cpo_deleted cp,
                  softDeleted := cpo_softDeleted cp, unlinked := cpo_unlinked cp, fake := cpo_fake cp, renameAllowed := cpo_renameAllowed cp,
                  unlinkAllowed := cpo_unlinkAllowed cp, serial := cpo_serial cp, nDataChunks := sint (cpo_nDataChunks cp)\<rparr>);
          Some (set_obj fs a (if obj_objectId ob \<ge> of_nat YAFFS_NOBJECT_BUCKETS then ob\<lparr>lazyLoaded := True\<rparr> else ob)) }"

text \<open>The level-0 tnodes of a file, each after the number of its first chunk.\<close>

primrec tnode_children :: "(yaffs_Tnode \<Rightarrow> u32 \<Rightarrow> 'n yaffs_State \<Rightarrow> (bool \<times> 'n yaffs_State) option) \<Rightarrow> yaffs_Tnode option list \<Rightarrow> u32 \<Rightarrow>
    bool \<times> 'n yaffs_State \<Rightarrow> (bool \<times> 'n yaffs_State) option" where
  "tnode_children worker [] off s = Some s"
| "tnode_children worker (c # cs) off s =
     do { s \<leftarrow> (case c of None \<Rightarrow> Some s | Some tn \<Rightarrow> if_ok (worker tn off) s);
          tnode_children worker cs (off + 1) s }"

primrec yaffs_CheckpointTnodeWorker :: "yaffs_Config \<Rightarrow> nat \<Rightarrow> yaffs_Tnode \<Rightarrow> u32 \<Rightarrow> 'n yaffs_State \<Rightarrow> (bool \<times> 'n yaffs_State) option" where
  "yaffs_CheckpointTnodeWorker cfg 0 = (\<lambda>tn off fs.
     case tn of
       Level0 m \<Rightarrow>
         (let n = nat (cdiv (uint (tnodeWidth (the_dev fs) * of_nat YAFFS_NTNODES_LEVEL0)) 8); bs = words_bytes (cfg_big_endian cfg) m
          in do { s \<leftarrow> cp_write cfg (u32_bytes (cfg_big_endian cfg) (push_bit YAFFS_TNODES_LEVEL0_BITS off)) fs;
                  if_ok (\<lambda>fs. if n \<le> length bs then cp_write cfg (take n bs) fs else None) s })
     | Internal _ \<Rightarrow> None)"
| "yaffs_CheckpointTnodeWorker cfg (Suc level) = (\<lambda>tn off fs.
     case tn of
       Internal ch \<Rightarrow> tnode_children (yaffs_CheckpointTnodeWorker cfg level) ch (push_bit YAFFS_TNODES_INTERNAL_BITS off) (True, fs)
     | Level0 _ \<Rightarrow> None)"

definition yaffs_WriteCheckpointTnodes :: "yaffs_Config \<Rightarrow> yaffs_Object \<Rightarrow> 'n yaffs_State \<Rightarrow> (bool \<times> 'n yaffs_State) option" where
  "yaffs_WriteCheckpointTnodes cfg ob fs =
     (if variantType ob = YAFFS_OBJECT_TYPE_FILE then do {
        f \<leftarrow> file_of ob;
        s \<leftarrow> (case top_tnode f of None \<Rightarrow> Some (True, fs) | Some tn \<Rightarrow> yaffs_CheckpointTnodeWorker cfg (nat (topLevel f)) tn 0 fs);
        if_ok (cp_write cfg (u32_bytes (cfg_big_endian cfg) 0xFFFFFFFF)) s }
      else Some (True, fs))"

definition read_base :: "yaffs_Config \<Rightarrow> 'n yaffs_State \<Rightarrow> (bool \<times> u32 \<times> 'n yaffs_State) option" where
  "read_base cfg fs = do { (ok, bs, fs) \<leftarrow> cp_read 4 fs; Some (ok, bytes_u32 (cfg_big_endian cfg) bs, fs) }"

text \<open>One level-0 tnode is read and entered into the tree.\<close>

definition read_tnode :: "yaffs_Config \<Rightarrow> yaffs_addr \<Rightarrow> u32 \<Rightarrow> 'n yaffs_State \<Rightarrow> (bool \<times> 'n yaffs_State) option" where
  "read_tnode cfg a baseChunk fs =
     do { let (tn, dev) = yaffs_GetTnodeRaw (the_dev fs);
          let fs = fs\<lparr>the_dev := dev\<rparr>;
          if tn then do {
            (ok, bs, fs) \<leftarrow> cp_read (nat (cdiv (uint (tnodeWidth dev * of_nat YAFFS_NTNODES_LEVEL0)) 8)) fs;
            if ok then do {
              ob \<leftarrow> objs fs a;
              f \<leftarrow> file_of ob;
              (r, f, dev) \<leftarrow> yaffs_AddOrFindLevel0Tnode (the_dev fs) f baseChunk (Some (Level0 (bytes_words (cfg_big_endian cfg) bs)));
              Some (r \<noteq> None, set_obj (fs\<lparr>the_dev := dev\<rparr>) a (ob\<lparr>variant := FileVariant f\<rparr>)) }
            else Some (False, fs) }
          else Some (False, fs) }"

partial_function (option) read_tnodes_loop :: "yaffs_Config \<Rightarrow> yaffs_addr \<Rightarrow> bool \<Rightarrow> u32 \<Rightarrow> 'n yaffs_State \<Rightarrow> (bool \<times> 'n yaffs_State) option" where
  "read_tnodes_loop cfg a ok baseChunk fs =
     (if ok \<and> NOT baseChunk \<noteq> 0 then
        Option.bind (read_tnode cfg a baseChunk fs) (\<lambda>(ok, fs).
          if ok then Option.bind (read_base cfg fs) (\<lambda>(ok, baseChunk, fs). read_tnodes_loop cfg a ok baseChunk fs)
          else Some (False, fs))
      else Some (ok, fs))"

definition yaffs_ReadCheckpointTnodes :: "yaffs_Config \<Rightarrow> yaffs_addr \<Rightarrow> 'n yaffs_State \<Rightarrow> (bool \<times> 'n yaffs_State) option" where
  "yaffs_ReadCheckpointTnodes cfg a fs = do { (ok, baseChunk, fs) \<leftarrow> read_base cfg fs; read_tnodes_loop cfg a ok baseChunk fs }"

text \<open>The objects of a bucket.  A failure of one of them does not keep the next one from being written.\<close>

primrec write_bucket :: "yaffs_Config \<Rightarrow> yaffs_addr list \<Rightarrow> yaffs_CheckpointObject \<Rightarrow> bool \<Rightarrow> 'n yaffs_State \<Rightarrow>
    (bool \<times> yaffs_CheckpointObject \<times> 'n yaffs_State) option" where
  "write_bucket cfg [] cp ok fs = Some (ok, cp, fs)"
| "write_bucket cfg (a # as) cp ok fs =
     do { ob \<leftarrow> objs fs a;
          if deferedFree ob then write_bucket cfg as cp ok fs
          else do {
            cp \<leftarrow> yaffs_ObjectToCheckpointObject fs ob cp;
            let cp = cp\<lparr>cpo_structType := of_nat sizeof_CheckpointObject\<rparr>;
            s \<leftarrow> cp_write cfg (cpo_bytes (cfg_big_endian cfg) cp) fs;
            (ok, fs) \<leftarrow> if_ok (\<lambda>fs. if variantType ob = YAFFS_OBJECT_TYPE_FILE then yaffs_WriteCheckpointTnodes cfg ob fs else Some (True, fs)) s;
            write_bucket cfg as cp ok fs } }"

primrec write_buckets :: "yaffs_Config \<Rightarrow> yaffs_ObjectBucket list \<Rightarrow> yaffs_CheckpointObject \<Rightarrow> bool \<Rightarrow> 'n yaffs_State \<Rightarrow> (bool \<times> 'n yaffs_State) option" where
  "write_buckets cfg [] cp ok fs = Some (ok, fs)"
| "write_buckets cfg (b # bs) cp ok fs =
     (if ok then do { (ok, cp, fs) \<leftarrow> write_bucket cfg (bucket_list b) cp ok fs; write_buckets cfg bs cp ok fs } else Some (ok, fs))"

text \<open>The record that ends the list: all ones but for the size.\<close>

definition end_record :: "bool \<Rightarrow> u8 list" where
  "end_record be = u32_bytes be (of_nat sizeof_CheckpointObject) @ replicate (sizeof_CheckpointObject - 4) 0xFF"

definition yaffs_WriteCheckpointObjects :: "yaffs_Config \<Rightarrow> yaffs_CheckpointObject \<Rightarrow> 'n yaffs_State \<Rightarrow> (bool \<times> 'n yaffs_State) option" where
  "yaffs_WriteCheckpointObjects cfg unset fs =
     do { s \<leftarrow> write_buckets cfg (objectBucket fs) unset True fs; if_ok (cp_write cfg (end_record (cfg_big_endian cfg))) s }"

text \<open>The object of a record, with its tnodes; hard links are remembered.\<close>

definition read_object :: "yaffs_Config \<Rightarrow> yaffs_CheckpointObject \<Rightarrow> yaffs_addr list \<Rightarrow> 'n yaffs_State \<Rightarrow> (bool \<times> yaffs_addr list \<times> 'n yaffs_State) option" where
  "read_object cfg cp hard fs =
     do { (obj, fs) \<leftarrow> yaffs_FindOrCreateObjectByNumber (sint (cpo_objectId cp)) (cpo_variantType cp) fs;
          case obj of
            None \<Rightarrow> Some (True, hard, fs)
          | Some a \<Rightarrow> do {
              fs \<leftarrow> yaffs_CheckpointObjectToObject a cp fs;
              ob \<leftarrow> objs fs a;
              if variantType ob = YAFFS_OBJECT_TYPE_FILE then do { (ok, fs) \<leftarrow> yaffs_ReadCheckpointTnodes cfg a fs; Some (ok, hard, fs) }
              else if variantType ob = YAFFS_OBJECT_TYPE_HARDLINK then do { hard \<leftarrow> push_hard a hard; Some (True, hard, fs) }
              else Some (True, hard, fs) } }"

partial_function (option) read_objects_loop :: "yaffs_Config \<Rightarrow> yaffs_addr list \<Rightarrow> 'n yaffs_State \<Rightarrow> (bool \<times> yaffs_addr list \<times> 'n yaffs_State) option" where
  "read_objects_loop cfg hard fs =
     Option.bind (cp_read sizeof_CheckpointObject fs) (\<lambda>(ok, bs, fs).
       if \<not> ok then Some (False, hard, fs)
       else Option.bind (bytes_cpo (cfg_big_endian cfg) bs) (\<lambda>cp.
         if cpo_structType cp \<noteq> of_nat sizeof_CheckpointObject then Some (False, hard, fs)
         else if cpo_objectId cp = 0xFFFFFFFF then Some (True, hard, fs)
         else Option.bind (read_object cfg cp hard fs) (\<lambda>(ok, hard, fs).
           if ok then read_objects_loop cfg hard fs else Some (False, hard, fs))))"

definition yaffs_ReadCheckpointObjects :: "yaffs_Config \<Rightarrow> 'n yaffs_State \<Rightarrow> (bool \<times> 'n yaffs_State) option" where
  "yaffs_ReadCheckpointObjects cfg fs =
     do { (ok, hard, fs) \<leftarrow> read_objects_loop cfg [] fs;
          fs \<leftarrow> (if ok then yaffs_HardlinkFixup hard fs else Some fs);
          Some (ok, fs) }"

definition yaffs_WriteCheckpointSum :: "yaffs_Config \<Rightarrow> 'n yaffs_State \<Rightarrow> (bool \<times> 'n yaffs_State) option" where
  "yaffs_WriteCheckpointSum cfg fs = cp_write cfg (u32_bytes (cfg_big_endian cfg) (yaffs_GetCheckpointSum (the_dev fs))) fs"

definition yaffs_ReadCheckpointSum :: "yaffs_Config \<Rightarrow> 'n yaffs_State \<Rightarrow> (bool \<times> 'n yaffs_State) option" where
  "yaffs_ReadCheckpointSum cfg fs =
     do { let sum0 = yaffs_GetCheckpointSum (the_dev fs);
          (ok, bs, fs) \<leftarrow> cp_read 4 fs;
          Some (ok \<and> sum0 = bytes_u32 (cfg_big_endian cfg) bs, fs) }"

subsection \<open>The whole checkpoint\<close>

definition cp_open :: "bool \<Rightarrow> 'n yaffs_State \<Rightarrow> (bool \<times> 'n yaffs_State) option" where
  "cp_open forWriting fs = do { (r, dev) \<leftarrow> yaffs_CheckpointOpen (the_dev fs) forWriting; Some (r \<noteq> 0, fs\<lparr>the_dev := dev\<rparr>) }"

definition cp_close :: "yaffs_Config \<Rightarrow> bool \<times> 'n yaffs_State \<Rightarrow> (bool \<times> 'n yaffs_State) option" where
  "cp_close cfg = (\<lambda>(ok, fs).
     do { (r, dev) \<leftarrow> yaffs_CheckpointClose cfg (the_dev fs);
          let ok = (ok \<and> r \<noteq> 0);
          Some (ok, fs\<lparr>the_dev := dev\<lparr>isCheckpointed := ok\<rparr>\<rparr>) })"

definition yaffs_WriteCheckpointData :: "yaffs_Config \<Rightarrow> yaffs_CheckpointObject \<Rightarrow> 'n yaffs_State \<Rightarrow> (bool \<times> 'n yaffs_State) option" where
  "yaffs_WriteCheckpointData cfg unset fs =
     do { s \<leftarrow> if_ok (cp_open True) (\<not> (skipCheckpointWrite (the_dev fs) \<or> \<not> isYaffs2 (the_dev fs)), fs);
          s \<leftarrow> if_ok (yaffs_WriteCheckpointValidityMarker cfg True) s;
          s \<leftarrow> if_ok (yaffs_WriteCheckpointDevice cfg) s;
          s \<leftarrow> if_ok (yaffs_WriteCheckpointObjects cfg unset) s;
          s \<leftarrow> if_ok (yaffs_WriteCheckpointValidityMarker cfg False) s;
          s \<leftarrow> if_ok (yaffs_WriteCheckpointSum cfg) s;
          cp_close cfg s }"

definition yaffs_ReadCheckpointData :: "yaffs_Config \<Rightarrow> 'n yaffs_State \<Rightarrow> (bool \<times> 'n yaffs_State) option" where
  "yaffs_ReadCheckpointData cfg fs =
     do { s \<leftarrow> if_ok (cp_open False) (\<not> (skipCheckpointRead (the_dev fs) \<or> \<not> isYaffs2 (the_dev fs)), fs);
          s \<leftarrow> if_ok (yaffs_ReadCheckpointValidityMarker cfg True) s;
          s \<leftarrow> if_ok (yaffs_ReadCheckpointDevice cfg) s;
          s \<leftarrow> if_ok (yaffs_ReadCheckpointObjects cfg) s;
          s \<leftarrow> if_ok (yaffs_ReadCheckpointValidityMarker cfg False) s;
          s \<leftarrow> if_ok (yaffs_ReadCheckpointSum cfg) s;
          cp_close cfg s }"

definition yaffs_CheckpointSave :: "yaffs_Config \<Rightarrow> yaffs_CheckpointObject \<Rightarrow> 'n yaffs_State \<Rightarrow> (bool \<times> 'n yaffs_State) option" where
  "yaffs_CheckpointSave cfg unset fs =
     do { fs \<leftarrow> (if \<not> isCheckpointed (the_dev fs) then do {
                  dev \<leftarrow> yaffs_InvalidateCheckpoint (the_dev fs);
                  map_option snd (yaffs_WriteCheckpointData cfg unset (fs\<lparr>the_dev := dev\<rparr>)) }
                else Some fs);
          Some (isCheckpointed (the_dev fs), fs) }"

definition yaffs_CheckpointRestore :: "yaffs_Config \<Rightarrow> 'n yaffs_State \<Rightarrow> (bool \<times> 'n yaffs_State) option" where
  "yaffs_CheckpointRestore cfg fs = yaffs_ReadCheckpointData cfg fs"

end
