(* ===== verification/Mount.thy ===== *)
theory Mount
  imports CheckptData
begin

section \<open>Mounting and unmounting\<close>

text \<open>
  \<open>yaffs_GutsInitialise\<close> and \<open>yaffs_Deinitialise\<close> of \<^verbatim>\<open>yaffs_guts.c\<close>.  \<^verbatim>\<open>yaffs_CheckStructures\<close> compares the
  sizes of structures, which is decided at compile time; it succeeds for the 32-bit layout of the model.  Memory that was
  allocated and not written yet is filled with zeros here; no operation reads it before it is written.
\<close>

abbreviation (input) "YAFFS_MAX_SHORT_OP_CACHES \<equiv> (20 :: int)"

definition zero_cache :: "'n yaffs_Device \<Rightarrow> nat \<Rightarrow> yaffs_ChunkCache" where
  "zero_cache dev buf = \<lparr>cc_object = None, cc_chunkId = 0, cc_lastUse = 0, cc_dirty = False, cc_nBytes = 0, cc_locked = False,
     cc_buffer = buf, cc_data = (if buf = 0 then [] else replicate (nat (nDataBytesPerChunk dev)) 0)\<rparr>"

text \<open>The buffers of the cache entries; the result is the last address allocated.\<close>

primrec alloc_caches :: "nat \<Rightarrow> nat \<Rightarrow> 'n yaffs_Device \<Rightarrow> nat \<times> yaffs_ChunkCache list \<times> 'n yaffs_Device" where
  "alloc_caches 0 buf dev = (buf, [], dev)"
| "alloc_caches (Suc n) buf dev =
     (if buf = 0 then (buf, replicate (Suc n) (zero_cache dev 0), dev)
      else (let (buf, dev) = YMALLOC dev; (r, cs, dev') = alloc_caches n buf dev in (r, zero_cache dev buf # cs, dev')))"

definition guts_caches :: "bool \<times> 'n yaffs_Device \<Rightarrow> bool \<times> 'n yaffs_Device" where
  "guts_caches = (\<lambda>(init_failed, dev).
     if \<not> init_failed \<and> nShortOpCaches dev > 0 then
       (let dev = (if nShortOpCaches dev > YAFFS_MAX_SHORT_OP_CACHES then dev\<lparr>nShortOpCaches := YAFFS_MAX_SHORT_OP_CACHES\<rparr> else dev);
            (p, dev) = YMALLOC dev
        in if p = 0 then (True, dev\<lparr>srCache := [], srLastUse := 0\<rparr>)
           else (let (buf, cs, dev) = alloc_caches (nat (nShortOpCaches dev)) p dev
                 in (buf = 0, dev\<lparr>srCache := cs, srLastUse := 0\<rparr>)))
     else (init_failed, dev))"

definition guts_counters :: "'n yaffs_Device \<Rightarrow> 'n yaffs_Device" where
  "guts_counters dev = dev\<lparr>garbageCollections := 0, passiveGarbageCollections := 0, currentDirtyChecker := 0, nDeletedFiles := 0,
     nBackgroundDeletions := 0, nUnlinkedFiles := 0, eccFixed := 0, eccUnfixed := 0, tagsEccFixed := 0, tagsEccUnfixed := 0,
     nErasureFailures := 0, nErasedBlocks := 0, isDoingGC := False, hasPendingPrioritisedGCs := True\<rparr>"

definition guts_gc_list :: "bool \<times> 'n yaffs_State \<Rightarrow> bool \<times> 'n yaffs_State" where
  "guts_gc_list = (\<lambda>(init_failed, fs).
     if \<not> init_failed then
       (let (p, dev) = YMALLOC (the_dev fs)
        in (p = 0, fs\<lparr>the_dev := dev, gcCleanupList := (if p = 0 then [] else replicate (nat (nChunksPerBlock dev)) 0)\<rparr>))
     else (init_failed, fs))"

text \<open>The tables of blocks, tnodes and objects with the four directories.\<close>

definition guts_tables :: "bool \<times> 'n yaffs_State \<Rightarrow> (bool \<times> 'n yaffs_State) option" where
  "guts_tables = (\<lambda>(init_failed, fs).
     do { let (init_failed, dev) = (if \<not> init_failed then (let (r, dev) = yaffs_InitialiseBlocks (the_dev fs) in (r = 0, dev))
                                    else (init_failed, the_dev fs));
          let fs = yaffs_InitialiseObjects (fs\<lparr>the_dev := yaffs_InitialiseTnodes dev\<rparr>);
          if \<not> init_failed then do { (r, fs) \<leftarrow> yaffs_CreateInitialDirectories fs; Some (r = 0, fs) }
          else Some (init_failed, fs) })"

definition guts_rescan :: "yaffs_Config \<Rightarrow> 'n yaffs_State \<Rightarrow> (bool \<times> 'n yaffs_State) option" where
  "guts_rescan cfg fs =
     do { let fs = yaffs_DeinitialiseObjects (fs\<lparr>the_dev := yaffs_DeinitialiseTnodes (yaffs_DeinitialiseBlocks (the_dev fs))\<rparr>);
          let fs = fs\<lparr>the_dev := (the_dev fs)\<lparr>nErasedBlocks := 0, nFreeChunks := 0, allocationBlock := -1, allocationPage := -1,
                                    nDeletedFiles := 0, nUnlinkedFiles := 0, nBackgroundDeletions := 0, oldestDirtySequence := 0\<rparr>\<rparr>;
          (init_failed, fs) \<leftarrow> guts_tables (False, fs);
          if \<not> init_failed then do { (r, fs) \<leftarrow> yaffs_ScanBackwards cfg fs; Some (r = 0, fs) }
          else Some (init_failed, fs) }"

definition guts_scan :: "yaffs_Config \<Rightarrow> bool \<times> 'n yaffs_State \<Rightarrow> (bool \<times> 'n yaffs_State) option" where
  "guts_scan cfg = (\<lambda>(init_failed, fs).
     if init_failed then Some (init_failed, fs)
     else if isYaffs2 (the_dev fs) then do {
       (ok, fs) \<leftarrow> yaffs_CheckpointRestore cfg fs;
       if ok then Some (False, fs) else guts_rescan cfg fs }
     else do { (r, fs) \<leftarrow> yaffs_Scan cfg fs; Some (r = 0, fs) })"

definition yaffs_Deinitialise :: "'n yaffs_State \<Rightarrow> 'n yaffs_State" where
  "yaffs_Deinitialise fs =
     (if isMounted (the_dev fs) then
        (let fs = yaffs_DeinitialiseObjects (fs\<lparr>the_dev := yaffs_DeinitialiseTnodes (yaffs_DeinitialiseBlocks (the_dev fs))\<rparr>);
             dev = the_dev fs;
             dev = (if nShortOpCaches dev > 0 \<and> srCache dev \<noteq> [] then dev\<lparr>srCache := []\<rparr> else dev)
         in fs\<lparr>gcCleanupList := [], the_dev := dev\<lparr>isMounted := False\<rparr>\<rparr>)
      else fs)"

definition guts_setup :: "yaffs_Config \<Rightarrow> 'n yaffs_State \<Rightarrow> (int \<times> 'n yaffs_State) option" where
  "guts_setup cfg fs =
     do { let (r, dev) = yaffs_InitialiseTempBuffers (guts_counters (the_dev fs));
          let (init_failed, dev) = guts_caches (r = 0, dev\<lparr>srCache := []\<rparr>);
          let (init_failed, fs) = guts_gc_list (init_failed, fs\<lparr>the_dev := dev\<lparr>cacheHits := 0\<rparr>, gcCleanupList := []\<rparr>);
          let fs = (if isYaffs2 (the_dev fs) then fs\<lparr>the_dev := (the_dev fs)\<lparr>useHeaderFileSize := True\<rparr>\<rparr> else fs);
          s \<leftarrow> guts_tables (init_failed, fs);
          (init_failed, fs) \<leftarrow> guts_scan cfg s;
          if init_failed then Some (YAFFS_FAIL, yaffs_Deinitialise fs)
          else Some (YAFFS_OK, fs\<lparr>the_dev := (the_dev fs)\<lparr>nPageReads := 0, nPageWrites := 0, nBlockErasures := 0, nGCCopies := 0,
                                   nRetriedWrites := 0, nRetiredBlocks := 0\<rparr>\<rparr>) }"

definition yaffs_GutsInitialise :: "yaffs_Config \<Rightarrow> 'n yaffs_State \<Rightarrow> (int \<times> 'n yaffs_State) option" where
  "yaffs_GutsInitialise cfg fs =
     do { let dev = guts_block_offsets (the_dev fs);
          if guts_geometry_bad dev then Some (YAFFS_FAIL, fs\<lparr>the_dev := dev\<rparr>)
          else do {
            (r, dev) \<leftarrow> yaffs_InitialiseNAND dev;
            if r \<noteq> YAFFS_OK then Some (YAFFS_FAIL, fs\<lparr>the_dev := dev\<rparr>)
            else if \<not> yaffs_CheckDevFunctions dev then Some (YAFFS_FAIL, fs\<lparr>the_dev := dev\<rparr>)
            else if isMounted dev then Some (YAFFS_FAIL, fs\<lparr>the_dev := dev\<rparr>)
            else do {
              (r, dev) \<leftarrow> guts_tnode_width (guts_chunk_size (dev\<lparr>isMounted := True\<rparr>));
              if r = YAFFS_FAIL then Some (YAFFS_FAIL, fs\<lparr>the_dev := dev\<rparr>)
              else guts_setup cfg (fs\<lparr>the_dev := dev\<rparr>) } } }"

end
