(* ===== verification/HeaderProps.thy ===== *)
theory HeaderProps
  imports Headers
begin

section \<open>Properties of headers and names\<close>

text \<open>
  What is written into the header page of an object can be read back from it, and names of the greatest length are stored
  but cannot be looked up.
\<close>

subsection \<open>The fields of a page\<close>

definition wf_header :: "yaffs_ObjectHeader \<Rightarrow> bool" where
  "wf_header oh \<longleftrightarrow> length (oh_sum oh) = 2 \<and> length (oh_name oh) = YAFFS_MAX_NAME_LENGTH + 1 \<and> length (oh_pad oh) = 2 \<and>
     length (oh_alias oh) = YAFFS_MAX_ALIAS_LENGTH + 1 \<and> length (oh_roomToGrow oh) = 40"

lemma oh_u32_at: "length xs = off \<Longrightarrow> oh_u32 be (xs @ u32_bytes be w @ ys) off = w"
  by (simp add: oh_u32_def)

lemma takeWhile_string: "0 \<notin> set s \<Longrightarrow> takeWhile (\<lambda>b. b \<noteq> 0) (s @ 0 # ys) = (s :: u8 list)"
  by (induction s) auto

lemma oh_string_at:
  "length xs = off \<Longrightarrow> 0 \<notin> set s \<Longrightarrow> oh_string (xs @ s @ 0 # ys) off = Some s"
  by (simp add: oh_string_def takeWhile_string)

lemma strncpy_field: "length s \<le> n \<Longrightarrow> strncpy s n @ [0] = s @ 0 # replicate (n - length s) 0"
  by (simp add: strncpy_def replicate_append_same)

lemma header_page_length: "wf_header oh \<Longrightarrow> length (header_page be n oh) = max 512 n"
  by (simp add: wf_header_def header_page_def header_bytes_def)

lemma header_page_fields:
  assumes "wf_header oh"
  shows "oh_u32 be (header_page be n oh) 0 = oh_type oh" "oh_u32 be (header_page be n oh) 4 = oh_parentObjectId oh"
    "oh_u32 be (header_page be n oh) 268 = oh_yst_mode oh" "oh_u32 be (header_page be n oh) 272 = oh_yst_uid oh"
    "oh_u32 be (header_page be n oh) 276 = oh_yst_gid oh" "oh_u32 be (header_page be n oh) 280 = oh_yst_atime oh"
    "oh_u32 be (header_page be n oh) 284 = oh_yst_mtime oh" "oh_u32 be (header_page be n oh) 288 = oh_yst_ctime oh"
    "oh_u32 be (header_page be n oh) 292 = oh_fileSize oh" "oh_u32 be (header_page be n oh) 296 = oh_equivalentObjectId oh"
    "oh_u32 be (header_page be n oh) 460 = oh_yst_rdev oh" "oh_u32 be (header_page be n oh) 504 = oh_shadowsObject oh"
    "oh_u32 be (header_page be n oh) 508 = oh_isShrink oh"
  using assms by (simp_all add: wf_header_def header_page_def header_bytes_def oh_u32_def)

lemma header_page_name:
  assumes "wf_header oh" and "oh_name oh = s @ 0 # ys" and "0 \<notin> set s"
  shows "oh_string (header_page be n oh) 10 = Some s"
  using assms oh_string_at [of "u32_bytes be (oh_type oh) @ u32_bytes be (oh_parentObjectId oh) @ oh_sum oh" 10 s]
  by (simp add: wf_header_def header_page_def header_bytes_def)

lemma header_page_alias:
  assumes "wf_header oh" and "oh_alias oh = s @ 0 # ys" and "0 \<notin> set s"
  shows "oh_string (header_page be n oh) 300 = Some s"
  using assms by (simp add: wf_header_def header_page_def header_bytes_def oh_string_def takeWhile_string)

lemma new_header_wf:
  assumes "new_header ob pid name old isShrink shadows = Some oh"
    and "name \<noteq> None \<and> name \<noteq> Some [] \<or> (case old of Some f \<Rightarrow> length f = YAFFS_MAX_NAME_LENGTH + 1 | None \<Rightarrow> True)"
  shows "wf_header oh"
proof -
  have "length (strncpy s n) = n" for s :: "u8 list" and n by (simp add: strncpy_def)
  then show ?thesis using assms
    by (auto simp: new_header_def Let_def wf_header_def split: if_splits option.splits yaffs_ObjectVariant.splits)
qed

lemma new_header_fields:
  assumes "new_header ob pid (Some name) old isShrink shadows = Some oh" and "name \<noteq> []"
  shows "oh_type oh = variantType ob" "oh_parentObjectId oh = pid" "oh_name oh = strncpy name YAFFS_MAX_NAME_LENGTH @ [0]"
    "oh_yst_mode oh = yst_mode ob" "oh_yst_uid oh = yst_uid ob" "oh_yst_gid oh = yst_gid ob" "oh_yst_atime oh = yst_atime ob"
    "oh_yst_mtime oh = yst_mtime ob" "oh_yst_ctime oh = yst_ctime ob" "oh_yst_rdev oh = yst_rdev ob"
    "oh_shadowsObject oh = shadows" "oh_isShrink oh = of_bool isShrink"
  using assms by (auto simp: new_header_def Let_def split: if_splits option.splits yaffs_ObjectVariant.splits)

lemma new_header_file:
  assumes "new_header ob pid (Some name) old isShrink shadows = Some oh" and "variantType ob = YAFFS_OBJECT_TYPE_FILE" and "variant ob = FileVariant f"
  shows "oh_fileSize oh = (if pid = YAFFS_OBJECTID_DELETED \<or> pid = YAFFS_OBJECTID_UNLINKED then 0 else fileSize f)"
  using assms by (auto simp: new_header_def Let_def)

lemma new_header_symlink:
  assumes "new_header ob pid (Some name) old isShrink shadows = Some oh" and "variantType ob = YAFFS_OBJECT_TYPE_SYMLINK" and "variant ob = SymLinkVariant (Some s)"
  shows "oh_alias oh = strncpy s YAFFS_MAX_ALIAS_LENGTH @ [0]"
  using assms by (auto simp: new_header_def Let_def)

text \<open>
  C13. A header survives the flash: from the page that is written for an object under a new name, the code that loads an
  object's details restores its mode, owner, times, device number and name; the type, the parent and the shadowing and shrink marks are
  found where the scan looks for them, and so are the size of a file and the text of a symbolic link.
\<close>

theorem header_page_roundtrip:
  assumes "new_header ob pid (Some name) old isShrink shadows = Some oh"
    and "name \<noteq> []" and "length name \<le> YAFFS_MAX_NAME_LENGTH" and "0 \<notin> set name"
  shows "load_details be (header_page be n oh) ob0 =
      Some (yaffs_SetObjectName (ob0\<lparr>yst_mode := yst_mode ob, yst_uid := yst_uid ob, yst_gid := yst_gid ob, yst_atime := yst_atime ob,
              yst_mtime := yst_mtime ob, yst_ctime := yst_ctime ob, yst_rdev := yst_rdev ob\<rparr>) (Some name)) \<and>
    oh_u32 be (header_page be n oh) 0 = variantType ob \<and> oh_u32 be (header_page be n oh) 4 = pid \<and>
    oh_u32 be (header_page be n oh) OH_shadowsObject = shadows \<and> oh_u32 be (header_page be n oh) OH_isShrink = of_bool isShrink \<and>
    (\<forall>f. variantType ob = YAFFS_OBJECT_TYPE_FILE \<and> variant ob = FileVariant f \<and> pid \<noteq> YAFFS_OBJECTID_DELETED \<and> pid \<noteq> YAFFS_OBJECTID_UNLINKED \<longrightarrow>
       oh_u32 be (header_page be n oh) 292 = fileSize f) \<and>
    (\<forall>s. variantType ob = YAFFS_OBJECT_TYPE_SYMLINK \<and> variant ob = SymLinkVariant (Some s) \<and> length s \<le> YAFFS_MAX_ALIAS_LENGTH \<and> 0 \<notin> set s \<longrightarrow>
       oh_string (header_page be n oh) OH_alias = Some s)"
proof -
  have wf: "wf_header oh" using new_header_wf [OF assms(1)] assms(2) by simp
  note F = new_header_fields [OF assms(1,2)] and P = header_page_fields [OF wf]
  have nm: "oh_string (header_page be n oh) 10 = Some name"
    by (rule header_page_name [OF wf _ assms(4)]) (simp only: F strncpy_field [OF assms(3)])
  have "load_details be (header_page be n oh) ob0 =
      Some (yaffs_SetObjectName (ob0\<lparr>yst_mode := yst_mode ob, yst_uid := yst_uid ob, yst_gid := yst_gid ob, yst_atime := yst_atime ob,
              yst_mtime := yst_mtime ob, yst_ctime := yst_ctime ob, yst_rdev := yst_rdev ob\<rparr>) (Some name))"
    by (simp add: load_details_def nm P F)
  moreover have "oh_string (header_page be n oh) 300 = Some s"
    if "variantType ob = YAFFS_OBJECT_TYPE_SYMLINK" "variant ob = SymLinkVariant (Some s)" "length s \<le> YAFFS_MAX_ALIAS_LENGTH" "0 \<notin> set s" for s
    by (rule header_page_alias [OF wf _ that(4)]) (simp only: new_header_symlink [OF assms(1) that(1,2)] strncpy_field [OF that(3)])
  ultimately show ?thesis using new_header_file [OF assms(1)] by (simp add: P F)
qed

definition header_sample :: yaffs_Object where
  "header_sample = zero_object\<lparr>obj_objectId := 300, yst_mode := 0x81A4, yst_mtime := 77, variantType := YAFFS_OBJECT_TYPE_FILE,
     variant := FileVariant ((new_file_structure None)\<lparr>fileSize := 4711\<rparr>)\<rparr>"

theorem header_page_roundtrip_witness:
  "\<exists>oh. new_header header_sample 1 (Some [97, 98]) None False 0 = Some oh \<and>
     load_details True (header_page True 2048 oh) zero_object = Some (yaffs_SetObjectName (zero_object\<lparr>yst_mode := 0x81A4, yst_mtime := 77\<rparr>) (Some [97, 98])) \<and>
     oh_u32 True (header_page True 2048 oh) 292 = 4711"
proof -
  obtain oh where oh: "new_header header_sample 1 (Some [97, 98]) None False 0 = Some oh"
    by (simp add: new_header_def header_sample_def Let_def)
  from header_page_roundtrip [OF oh, of True 2048 zero_object] oh
  show ?thesis by (auto simp: header_sample_def zero_object_def new_file_structure_def)
qed

subsection \<open>Looking up long names\<close>

text \<open>The copy of a short name that an object keeps has at most fifteen characters.\<close>

definition short_names :: "'n yaffs_State \<Rightarrow> bool" where
  "short_names fs \<longleftrightarrow> (\<forall>a ob. objs fs a = Some ob \<longrightarrow> length (shortName ob) \<le> YAFFS_SHORT_NAME_LENGTH)"

lemma short_names_dev [simp]: "short_names (fs\<lparr>the_dev := dev\<rparr>) = short_names fs"
  by (simp add: short_names_def)

lemma short_names_set: "short_names fs \<Longrightarrow> length (shortName ob) \<le> YAFFS_SHORT_NAME_LENGTH \<Longrightarrow> short_names (set_obj fs a ob)"
  by (simp add: short_names_def set_obj_def)

lemma load_details_short: "load_details be page ob = Some ob' \<Longrightarrow> length (shortName ob') \<le> YAFFS_SHORT_NAME_LENGTH"
  by (auto simp: load_details_def yaffs_SetObjectName_def split: bind_splits)

lemma CheckObjectDetailsLoaded_short:
  assumes "yaffs_CheckObjectDetailsLoaded cfg a fs = Some fs'" and "short_names fs"
  shows "short_names fs'"
  using assms unfolding yaffs_CheckObjectDetailsLoaded_def Let_def case_prod_beta
  by (auto simp: bind_eq_Some_conv split: if_splits intro!: short_names_set dest: load_details_short)

lemma GetObjectName_short:
  assumes "yaffs_GetObjectName cfg a buffSize fs = Some (nm, fs')" and "short_names fs" and "YAFFS_SHORT_NAME_LENGTH < buffSize"
  shows "length nm < buffSize \<and> short_names fs'"
proof -
  from assms(1) obtain fs1 ob where 1: "yaffs_CheckObjectDetailsLoaded cfg a fs = Some fs1" "objs fs1 a = Some ob"
    unfolding yaffs_GetObjectName_def by (auto simp: bind_eq_Some_conv)
  have s1: "short_names fs1" by (rule CheckObjectDetailsLoaded_short [OF 1(1) assms(2)])
  then have "length (shortName ob) < buffSize" using 1(2) assms(3) unfolding short_names_def by (metis le_less_trans)
  then show ?thesis using assms(1,3) s1 1 unfolding yaffs_GetObjectName_def Let_def case_prod_beta
    by (auto simp: bind_eq_Some_conv split: if_splits)
qed

lemma find_name_loop_long:
  "find_name_loop cfg name ls fs = Some (r, fs') \<Longrightarrow> short_names fs \<Longrightarrow> YAFFS_MAX_NAME_LENGTH \<le> length name \<Longrightarrow> r = None"
proof (induction ls arbitrary: fs)
  case (Cons l ls)
  from Cons.prems(1) obtain fs1 ob where 1: "yaffs_CheckObjectDetailsLoaded cfg l fs = Some fs1" "objs fs1 l = Some ob"
    by (auto simp: bind_eq_Some_conv)
  have s1: "short_names fs1" by (rule CheckObjectDetailsLoaded_short [OF 1(1) Cons.prems(2)])
  have lf: "name \<noteq> LOSTNFOUND_NAME" using Cons.prems(3) by (auto simp: LOSTNFOUND_NAME_def)
  have go: "find_name_loop cfg name ls fs2 = Some (r, fs') \<Longrightarrow> short_names fs2 \<Longrightarrow> r = None" for fs2
    using Cons.IH Cons.prems(3) by blast
  have neq: "take YAFFS_MAX_NAME_LENGTH name \<noteq> take YAFFS_MAX_NAME_LENGTH nm" if "length nm < YAFFS_MAX_NAME_LENGTH" for nm
  proof
    assume "take YAFFS_MAX_NAME_LENGTH name = take YAFFS_MAX_NAME_LENGTH nm"
    from arg_cong [OF this, of length] show False using that Cons.prems(3) by simp
  qed
  show ?case
  proof (cases "obj_objectId ob \<noteq> YAFFS_OBJECTID_LOSTNFOUND \<and> (name_sum ob = yaffs_CalcNameSum (Some name) \<or> obj_chunkId ob \<le> 0)")
    case False
    then show ?thesis using Cons.prems(1) 1 lf go [OF _ s1] by (auto split: if_splits)
  next
    case True
    with Cons.prems(1) 1 obtain nm fs2 where 2: "yaffs_GetObjectName cfg l YAFFS_MAX_NAME_LENGTH fs1 = Some (nm, fs2)"
      by (auto simp: bind_eq_Some_conv)
    from GetObjectName_short [OF this s1] have "length nm < YAFFS_MAX_NAME_LENGTH" "short_names fs2" by simp_all
    with True Cons.prems(1) 1 2 neq go show ?thesis by simp
  qed
qed simp

text \<open>
  C37. A name of 255 characters is accepted when an object is created or renamed, and is stored, but no look-up finds it: the
  name of each candidate is copied into a buffer for 255 characters with its terminating zero, so that it is cut
  to 254, and then compared over 255.
\<close>

theorem FindObjectByName_misses_longest:
  assumes "yaffs_FindObjectByName cfg dir (Some name) fs = Some (r, fs')" and "length name = YAFFS_MAX_NAME_LENGTH" and "short_names fs"
  shows "r = None"
  using assms find_name_loop_long [OF _ assms(3), of cfg name]
  by (auto simp: yaffs_FindObjectByName_def split: bind_splits yaffs_ObjectVariant.splits)

text \<open>A directory with one file, whose header holds a name of 255 characters.\<close>

definition longest_name :: "u8 list" where
  "longest_name = replicate YAFFS_MAX_NAME_LENGTH 97"

definition name_sample :: "u8 list \<Rightarrow> unit yaffs_State \<Rightarrow> unit yaffs_State" where
  "name_sample page fs = fs\<lparr>objs := [5 \<mapsto> zero_object\<lparr>obj_objectId := 1, variantType := 3, variant := DirectoryVariant [6]\<rparr>,
       6 \<mapsto> (yaffs_SetObjectName (zero_object\<lparr>obj_objectId := 300, obj_chunkId := 70\<rparr>) (Some longest_name))],
     the_dev := (the_dev fs)\<lparr>tempBuffer := map (\<lambda>i. \<lparr>tb_buffer = i, tb_line = 0, tb_maxLine = 0\<rparr>) [1, 2, 3, 4],
       readChunkWithTagsFromNAND := Some (\<lambda>n c w. (1, page, yaffs_InitialiseTags, n))\<rparr>\<rparr>"

lemma name_sample_short: "short_names (name_sample page fs)"
  by (auto simp: short_names_def name_sample_def zero_object_def yaffs_SetObjectName_def)

lemma name_sample_found: "\<exists>r fs'. yaffs_FindObjectByName cfg 5 (Some longest_name) (name_sample page fs) = Some (r, fs')"
  by (simp add: yaffs_FindObjectByName_def name_sample_def zero_object_def yaffs_SetObjectName_def yaffs_CheckObjectDetailsLoaded_def
      yaffs_GetObjectName_def yaffs_GetTempBuffer_def YAFFS_N_TEMP_BUFFERS_def upt_rec longest_name_def Let_def yaffs_ReadChunkWithTagsFromNAND_def
      yaffs_InitialiseTags_def zero_tags_def less_yaffs_ECCResult_def)

theorem FindObjectByName_misses_longest_witness:
  "\<forall>cfg (fs :: unit yaffs_State). \<exists>oh fs'. new_header header_sample 1 (Some longest_name) None False 0 = Some oh \<and>
     oh_string (header_page True 2048 oh) OH_name = Some longest_name \<and>
     yaffs_FindObjectByName cfg 5 (Some longest_name) (name_sample (header_page True 2048 oh) fs) = Some (None, fs')"
proof (intro allI)
  fix cfg and fs :: "unit yaffs_State"
  obtain oh where oh: "new_header header_sample 1 (Some longest_name) None False 0 = Some oh"
    by (simp add: new_header_def header_sample_def Let_def)
  have nm: "longest_name \<noteq> []" "length longest_name = YAFFS_MAX_NAME_LENGTH" "0 \<notin> set longest_name" by (simp_all add: longest_name_def)
  have wf: "wf_header oh" using new_header_wf [OF oh] nm(1) by simp
  have stored: "oh_string (header_page True 2048 oh) OH_name = Some longest_name"
    using nm(2) by (intro header_page_name [OF wf _ nm(3)]) (simp add: new_header_fields [OF oh nm(1)] strncpy_field del: append_same_eq)
  obtain r fs' where r: "yaffs_FindObjectByName cfg 5 (Some longest_name) (name_sample (header_page True 2048 oh) fs) = Some (r, fs')"
    using name_sample_found by blast
  with FindObjectByName_misses_longest [OF r nm(2) name_sample_short] oh stored
  show "\<exists>oh fs'. new_header header_sample 1 (Some longest_name) None False 0 = Some oh \<and>
     oh_string (header_page True 2048 oh) OH_name = Some longest_name \<and>
     yaffs_FindObjectByName cfg 5 (Some longest_name) (name_sample (header_page True 2048 oh) fs) = Some (None, fs')" by blast
qed

end
