(* ===== verification/ScanProps.thy ===== *)
theory ScanProps
  imports Scan
begin

section \<open>The order of the backward scan\<close>

text \<open>
  Which blocks \<open>yaffs_ScanBackwards\<close> looks at, and in which order.  A YAFFS2 device has a driver that tells the state of a
  block (\<open>yaffs_CheckDevFunctions\<close> insists on it).
\<close>

definition scan_entry :: "'n yaffs_Device \<Rightarrow> int \<Rightarrow> yaffs_BlockIndex list" where
  "scan_entry dev b =
     (case yaffs_GetBlockInfo dev b of
        None \<Rightarrow> []
      | Some bi \<Rightarrow> if blockState bi = YAFFS_BLOCK_STATE_NEEDS_SCANNING \<and> sequence_ok (bi_sequenceNumber bi)
                   then [\<lparr>bx_seq = sint (bi_sequenceNumber bi), bx_block = b\<rparr>] else [])"

lemma GetBlockInfo_fields:
  "blockInfo dev' = blockInfo dev \<Longrightarrow> internalStartBlock dev' = internalStartBlock dev \<Longrightarrow> yaffs_GetBlockInfo dev' = yaffs_GetBlockInfo dev"
  by (rule ext) (simp add: yaffs_GetBlockInfo_def block_index_def)

lemma set_block_info_keeps [simp]:
  "queryNANDBlock (set_block_info dev b bi) = queryNANDBlock dev"
  "internalStartBlock (set_block_info dev b bi) = internalStartBlock dev"
  "genericDevice (set_block_info dev b bi) = genericDevice dev"
  by (simp_all add: set_block_info_def split: option.splits)

definition same_but :: "int \<Rightarrow> 'n yaffs_State \<Rightarrow> 'n yaffs_State \<Rightarrow> bool" where
  "same_but b fs fs' \<longleftrightarrow> queryNANDBlock (the_dev fs') = queryNANDBlock (the_dev fs) \<and>
     (\<forall>c. c \<noteq> b \<longrightarrow> yaffs_GetBlockInfo (the_dev fs') c = yaffs_GetBlockInfo (the_dev fs) c)"

lemma same_but_trans: "same_but b fs fs' \<Longrightarrow> same_but b fs' fs'' \<Longrightarrow> same_but b fs fs''"
  by (simp add: same_but_def)

lemma upd_bi_same:
  "upd_bi f b fs = Some fs' \<Longrightarrow> same_but b fs fs' \<and> (\<exists>bi. yaffs_GetBlockInfo (the_dev fs) b = Some bi \<and> yaffs_GetBlockInfo (the_dev fs') b = Some (f bi))"
  by (auto simp: upd_bi_def same_but_def get_set_block_info split: bind_splits)

lemma same_but_dev:
  "queryNANDBlock dev = queryNANDBlock (the_dev fs) \<Longrightarrow> yaffs_GetBlockInfo dev = yaffs_GetBlockInfo (the_dev fs) \<Longrightarrow> same_but b fs (fs\<lparr>the_dev := dev\<rparr>)"
  by (simp add: same_but_def)

lemma ClearChunkBits_keeps:
  "yaffs_ClearChunkBits dev b = Some dev' \<Longrightarrow> queryNANDBlock dev' = queryNANDBlock dev \<and> yaffs_GetBlockInfo dev' = yaffs_GetBlockInfo dev"
  by (auto simp: yaffs_ClearChunkBits_def Let_def split: if_splits intro!: GetBlockInfo_fields)

lemma QueryInitialBlockState_keeps:
  "yaffs_QueryInitialBlockState cfg dev b = Some (r, st, q, dev') \<Longrightarrow> queryNANDBlock dev \<noteq> None \<Longrightarrow>
     queryNANDBlock dev' = queryNANDBlock dev \<and> yaffs_GetBlockInfo dev' = yaffs_GetBlockInfo dev"
  by (auto simp: yaffs_QueryInitialBlockState_def Let_def case_prod_beta split: option.splits intro!: GetBlockInfo_fields)

lemma query_block_entry:
  assumes "query_block cfg b (idx, fs) = Some (idx', fs')" and "queryNANDBlock (the_dev fs) \<noteq> None"
  shows "same_but b fs fs' \<and> idx' = idx @ scan_entry (the_dev fs') b"
proof -
  note Q = assms(1) [unfolded query_block_def Let_def prod.case]
  from Q obtain dev1 where 1: "yaffs_ClearChunkBits (the_dev fs) b = Some dev1"
    by (cases "yaffs_ClearChunkBits (the_dev fs) b") simp_all
  from Q 1 obtain fs1 where 2: "upd_bi (\<lambda>bi. bi\<lparr>pagesInUse := 0, softDeletions := 0\<rparr>) b (fs\<lparr>the_dev := dev1\<rparr>) = Some fs1"
    by (cases "upd_bi (\<lambda>bi. bi\<lparr>pagesInUse := 0, softDeletions := 0\<rparr>) b (fs\<lparr>the_dev := dev1\<rparr>)") simp_all
  from Q 1 2 obtain r st q dev2 where 3: "yaffs_QueryInitialBlockState cfg (the_dev fs1) b = Some (r, st, q, dev2)"
    by (cases "yaffs_QueryInitialBlockState cfg (the_dev fs1) b") auto
  define state where "state = (if q = YAFFS_SEQUENCE_CHECKPOINT_DATA then YAFFS_BLOCK_STATE_CHECKPOINT else st)"
  note R = Q [unfolded 1 2 3 Option.bind.simps prod.case, folded state_def]
  from R obtain fs2 where 4: "upd_bi (\<lambda>bi. bi\<lparr>blockState := state, bi_sequenceNumber := q\<rparr>) b (fs1\<lparr>the_dev := dev2\<rparr>) = Some fs2"
    by (cases "upd_bi (\<lambda>bi. bi\<lparr>blockState := state, bi_sequenceNumber := q\<rparr>) b (fs1\<lparr>the_dev := dev2\<rparr>)") simp_all
  note E = R [unfolded 4 Option.bind.simps option.inject]
  have s1: "same_but b fs (fs\<lparr>the_dev := dev1\<rparr>)" using ClearChunkBits_keeps [OF 1] by (simp add: same_but_dev)
  have s2: "same_but b fs fs1" using same_but_trans [OF s1] upd_bi_same [OF 2] by blast
  then have q: "queryNANDBlock (the_dev fs1) \<noteq> None" using assms(2) by (simp add: same_but_def)
  have s3: "same_but b fs1 (fs1\<lparr>the_dev := dev2\<rparr>)" using QueryInitialBlockState_keeps [OF 3 q] by (simp add: same_but_dev)
  have s4: "same_but b fs fs2" using s2 s3 upd_bi_same [OF 4] same_but_trans by blast
  from upd_bi_same [OF 4] obtain bi where bi: "yaffs_GetBlockInfo (the_dev fs2) b = Some bi" "bi_sequenceNumber bi = q"
    "blockState bi = state" by auto
  have g: "yaffs_GetBlockInfo (the_dev fs') = yaffs_GetBlockInfo (the_dev fs2)" "queryNANDBlock (the_dev fs') = queryNANDBlock (the_dev fs2)"
    using E by (auto split: if_splits intro!: GetBlockInfo_fields)
  have "idx' = idx @ scan_entry (the_dev fs') b" using E bi unfolding scan_entry_def g(1) by (auto split: if_splits)
  then show ?thesis using s4 g by (simp add: same_but_def)
qed

lemma query_blocks_entries:
  "query_blocks cfg bs (idx, fs) = Some (idx', fs') \<Longrightarrow> queryNANDBlock (the_dev fs) \<noteq> None \<Longrightarrow> distinct bs \<Longrightarrow>
     idx' = idx @ concat (map (scan_entry (the_dev fs')) bs) \<and>
     (\<forall>c. c \<notin> set bs \<longrightarrow> yaffs_GetBlockInfo (the_dev fs') c = yaffs_GetBlockInfo (the_dev fs) c)"
proof (induction bs arbitrary: idx fs)
  case (Cons b bs)
  from Cons.prems(1) obtain idx1 fs1 where 1: "query_block cfg b (idx, fs) = Some (idx1, fs1)" "query_blocks cfg bs (idx1, fs1) = Some (idx', fs')"
    by (cases "query_block cfg b (idx, fs)") auto
  note e = query_block_entry [OF 1(1) Cons.prems(2)]
  then have "queryNANDBlock (the_dev fs1) \<noteq> None" using Cons.prems(2) by (simp add: same_but_def)
  from Cons.IH [OF 1(2) this] Cons.prems(3)
  have IH: "idx' = idx1 @ concat (map (scan_entry (the_dev fs')) bs)"
    "\<forall>c. c \<notin> set bs \<longrightarrow> yaffs_GetBlockInfo (the_dev fs') c = yaffs_GetBlockInfo (the_dev fs1) c" by simp_all
  then have "scan_entry (the_dev fs') b = scan_entry (the_dev fs1) b" using Cons.prems(3) by (simp add: scan_entry_def)
  then show ?case using e IH by (auto simp: same_but_def)
qed simp

text \<open>The sequence number of a block that is scanned.\<close>

definition seq_of :: "'n yaffs_State \<Rightarrow> int \<Rightarrow> int" where
  "seq_of fs b = (case yaffs_GetBlockInfo (the_dev fs) b of Some bi \<Rightarrow> uint (bi_sequenceNumber bi) | None \<Rightarrow> 0)"

definition to_scan :: "'n yaffs_State \<Rightarrow> int \<Rightarrow> bool" where
  "to_scan fs b \<longleftrightarrow> (\<exists>bi. yaffs_GetBlockInfo (the_dev fs) b = Some bi \<and> blockState bi = YAFFS_BLOCK_STATE_NEEDS_SCANNING \<and>
     sequence_ok (bi_sequenceNumber bi))"

lemma sequence_ok_sint: "sequence_ok q \<Longrightarrow> sint q = uint q \<and> uint q < 2 ^ 31"
  unfolding sequence_ok_def sint_cases by (auto split: if_splits)

lemma scan_entry_cases:
  "scan_entry (the_dev fs) b = (if to_scan fs b then [\<lparr>bx_seq = seq_of fs b, bx_block = b\<rparr>] else [])"
  by (auto simp: scan_entry_def to_scan_def seq_of_def sequence_ok_sint split: option.splits)

lemma seq_of_range: "to_scan fs b \<Longrightarrow> 0 \<le> seq_of fs b \<and> seq_of fs b < 2 ^ 31"
  by (auto simp: to_scan_def seq_of_def dest: sequence_ok_sint)

lemma scan_index:
  assumes "query_blocks cfg (all_blocks fs) ([], fs) = Some (idx, fs')" and "queryNANDBlock (the_dev fs) \<noteq> None"
  shows "idx = map (\<lambda>b. \<lparr>bx_seq = seq_of fs' b, bx_block = b\<rparr>) (filter (to_scan fs') (all_blocks fs))"
proof -
  have "idx = concat (map (scan_entry (the_dev fs')) (all_blocks fs))"
    using query_blocks_entries [OF assms] by (simp add: all_blocks_def)
  also have "concat (map (scan_entry (the_dev fs')) bs) = map (\<lambda>b. \<lparr>bx_seq = seq_of fs' b, bx_block = b\<rparr>) (filter (to_scan fs') bs)" for bs
    by (induction bs) (simp_all add: scan_entry_cases)
  finally show ?thesis .
qed

lemma index_in_range:
  assumes "0 \<le> internalStartBlock (the_dev fs)" and "internalEndBlock (the_dev fs) < 2 ^ 31"
  shows "set (map (\<lambda>b. \<lparr>bx_seq = seq_of fs' b, bx_block = b\<rparr>) (filter (to_scan fs') (all_blocks fs))) \<subseteq> index_range"
  using assms seq_of_range by (fastforce simp: index_range_def all_blocks_def)



text \<open>A device with one block that holds data under the sequence number \<open>q\<close>.\<close>

definition scan_sample :: "u32 \<Rightarrow> unit yaffs_State \<Rightarrow> unit yaffs_State" where
  "scan_sample q fs = fs\<lparr>the_dev := (the_dev fs)\<lparr>internalStartBlock := 2, internalEndBlock := 2, blockOffset := 0, nChunksPerBlock := 8,
     chunkBitmapStride := 1, chunkBits := [0], blockInfo := [zero_block_info], dev_sequenceNumber := 0x1000,
     queryNANDBlock := Some (\<lambda>n b. (1, YAFFS_BLOCK_STATE_NEEDS_SCANNING, q, n))\<rparr>\<rparr>"

lemma scan_sample_query:
  "\<exists>idx fs'. query_blocks cfg (all_blocks (scan_sample q fs)) ([], scan_sample q fs) = Some (idx, fs') \<and>
     (\<exists>bi. yaffs_GetBlockInfo (the_dev fs') 2 = Some bi \<and> blockState bi =
        (if q = YAFFS_SEQUENCE_CHECKPOINT_DATA then YAFFS_BLOCK_STATE_CHECKPOINT else YAFFS_BLOCK_STATE_NEEDS_SCANNING) \<and> bi_sequenceNumber bi = q)"
  by (simp add: all_blocks_def scan_sample_def upto_rec1 query_block_def yaffs_ClearChunkBits_def yaffs_BlockBits_def Let_def upd_bi_def
      yaffs_GetBlockInfo_def block_index_def set_block_info_def yaffs_QueryInitialBlockState_def nth_list_update)


text \<open>
  C36. A block whose sequence number is \<open>2 ^ 31\<close> or more, but below the highest number the code allows, is left out of the
  scan: as a C int the number is negative, so it fails the comparison with the lowest one.  The data of the block
  is not found when the device is mounted.
\<close>

theorem ScanBackwards_skips_high_sequence:
  assumes "query_blocks cfg (all_blocks fs) ([], fs) = Some (idx, fs')" and "queryNANDBlock (the_dev fs) \<noteq> None"
    and "0 \<le> internalStartBlock (the_dev fs)" and "internalEndBlock (the_dev fs) < 2 ^ 31"
    and "yaffs_GetBlockInfo (the_dev fs') b = Some bi" and "2 ^ 31 \<le> uint (bi_sequenceNumber bi)"
  shows "b \<notin> set (map bx_block (yaffs_qsort ybicmp idx 0 (length idx)))"
proof -
  have skip: "\<not> to_scan fs' b" using assms(5,6) sequence_ok_sint by (fastforce simp: to_scan_def)
  have "b \<notin> set (map bx_block idx)" using skip unfolding scan_index [OF assms(1,2)] by auto
  moreover have "set idx \<subseteq> index_range" using index_in_range [OF assms(3,4)] scan_index [OF assms(1,2)] by simp
  then have "set (yaffs_qsort ybicmp idx 0 (length idx)) = set idx" using qsort_index by (intro mset_eq_setD) blast
  ultimately show ?thesis by simp
qed

theorem ScanBackwards_skips_high_sequence_witness:
  "\<forall>cfg (fs :: unit yaffs_State). \<exists>idx fs'. query_blocks cfg (all_blocks (scan_sample 0x80000000 fs)) ([], scan_sample 0x80000000 fs) = Some (idx, fs') \<and>
     2 \<notin> set (map bx_block (yaffs_qsort ybicmp idx 0 (length idx)))"
proof (intro allI)
  fix cfg and fs :: "unit yaffs_State"
  let ?fs = "scan_sample 0x80000000 fs"
  obtain idx fs' bi where q: "query_blocks cfg (all_blocks ?fs) ([], ?fs) = Some (idx, fs')"
    and bi: "yaffs_GetBlockInfo (the_dev fs') 2 = Some bi" "bi_sequenceNumber bi = 0x80000000"
    using scan_sample_query [of cfg "0x80000000" fs] by blast
  have s: "queryNANDBlock (the_dev ?fs) \<noteq> None" "0 \<le> internalStartBlock (the_dev ?fs)" "internalEndBlock (the_dev ?fs) < 2 ^ 31"
    by (simp_all add: scan_sample_def)
  from bi have "2 ^ 31 \<le> uint (bi_sequenceNumber bi)" by simp
  from ScanBackwards_skips_high_sequence [OF q s bi(1) this] q
  show "\<exists>idx fs'. query_blocks cfg (all_blocks ?fs) ([], ?fs) = Some (idx, fs') \<and>
     2 \<notin> set (map bx_block (yaffs_qsort ybicmp idx 0 (length idx)))" by blast
qed

end
