(* ===== verification/CheckptProps.thy ===== *)
theory CheckptProps
  imports Mount
begin

section \<open>Properties of the checkpoint\<close>

text \<open>
  The checksum of the stream, the layout of the saved block information and objects, and a fault in saving a checkpoint
  on a full device.
\<close>

subsection \<open>The checksum\<close>

definition byte_sum :: "u8 list \<Rightarrow> u32" where
  "byte_sum bs = (\<Sum>b\<leftarrow>bs. ucast b)"

primrec byte_xor :: "u8 list \<Rightarrow> u32" where
  "byte_xor [] = 0"
| "byte_xor (b # bs) = ucast b XOR byte_xor bs"

definition summed :: "'n yaffs_Device \<Rightarrow> u8 list \<Rightarrow> 'n yaffs_Device \<Rightarrow> bool" where
  "summed dev bs dev' \<longleftrightarrow> checkpointSum dev' = checkpointSum dev + byte_sum bs \<and> checkpointXor dev' = checkpointXor dev XOR byte_xor bs"

lemma summed_Nil [simp]: "summed dev [] dev' \<longleftrightarrow> checkpointSum dev' = checkpointSum dev \<and> checkpointXor dev' = checkpointXor dev"
  by (simp add: summed_def byte_sum_def)

lemma summed_Cons:
  "summed dev' bs dev'' \<Longrightarrow> checkpointSum dev' = checkpointSum dev + ucast b \<Longrightarrow> checkpointXor dev' = checkpointXor dev XOR ucast b \<Longrightarrow>
     summed dev (b # bs) dev''"
  by (simp add: summed_def byte_sum_def ac_simps xor.assoc)

lemma FindNextErasedBlock_sums:
  "yaffs_CheckpointFindNextErasedBlock dev = Some dev' \<Longrightarrow> checkpointSum dev' = checkpointSum dev \<and> checkpointXor dev' = checkpointXor dev"
  by (auto simp: yaffs_CheckpointFindNextErasedBlock_def Let_def split: if_splits bind_splits option.splits)

lemma set_block_info_sums [simp]:
  "checkpointSum (set_block_info dev b bi) = checkpointSum dev" "checkpointXor (set_block_info dev b bi) = checkpointXor dev"
  by (simp_all add: set_block_info_def split: option.splits)

lemma FlushBuffer_sums:
  "yaffs_CheckpointFlushBuffer cfg dev = Some (r, dev') \<Longrightarrow> checkpointSum dev' = checkpointSum dev \<and> checkpointXor dev' = checkpointXor dev"
  by (auto simp: yaffs_CheckpointFlushBuffer_def Let_def dest!: FindNextErasedBlock_sums split: if_splits bind_splits)

lemma CheckpointWrite_loop_sums:
  "CheckpointWrite_loop cfg (\<lambda>_. bs) ks i dev = Some (i + int (length ks), dev') \<Longrightarrow> summed dev (map ((!) bs) ks) dev'"
proof (induction ks arbitrary: i dev)
  case (Cons k ks)
  from Cons.prems obtain buf where buf: "checkpointBuffer dev = Some buf" "k < length bs"
    by (auto split: bind_splits if_splits)
  let ?d = "dev\<lparr>checkpointBuffer := Some (buf[nat (checkpointByteOffset dev) := bs ! k]),
     checkpointSum := checkpointSum dev + ucast (bs ! k), checkpointXor := checkpointXor dev XOR ucast (bs ! k),
     checkpointByteOffset := checkpointByteOffset dev + 1, checkpointByteCount := checkpointByteCount dev + 1\<rparr>"
  from Cons.prems buf obtain ok dev1
    where step: "(if checkpointByteOffset ?d < 0 \<or> checkpointByteOffset ?d \<ge> nDataBytesPerChunk ?d
                  then yaffs_CheckpointFlushBuffer cfg ?d else Some (1, ?d)) = Some (ok, dev1)"
      and rest: "(if ok \<noteq> 0 then CheckpointWrite_loop cfg (\<lambda>_. bs) ks (i + 1) dev1 else Some (i + 1, dev1)) = Some (i + 1 + int (length ks), dev')"
    by (auto simp: Let_def algebra_simps split: bind_splits if_splits)
  have same: "checkpointSum dev1 = checkpointSum ?d \<and> checkpointXor dev1 = checkpointXor ?d"
    using step FlushBuffer_sums [of cfg ?d ok dev1] by (auto split: if_splits)
  have "summed dev1 (map ((!) bs) ks) dev'"
    using rest Cons.IH [of "i + 1" dev1] by (cases ks) (auto split: if_splits)
  then show ?case using same by (auto intro: summed_Cons)
qed simp

lemma CheckpointWrite_sums:
  assumes "yaffs_CheckpointWrite cfg dev (\<lambda>_. bs) (length bs) = Some (int (length bs), dev')" and "bs \<noteq> []"
  shows "summed dev bs dev'"
proof -
  have "CheckpointWrite_loop cfg (\<lambda>_. bs) [0..<length bs] 0 dev = Some (0 + int (length [0..<length bs]), dev')"
    using assms by (simp add: yaffs_CheckpointWrite_def split: if_splits)
  from CheckpointWrite_loop_sums [OF this] show ?thesis by (simp add: map_nth)
qed

lemma FindNextCheckpointBlock_loop_sums:
  "FindNextCheckpointBlock_loop is dev = Some dev' \<Longrightarrow> checkpointSum dev' = checkpointSum dev \<and> checkpointXor dev' = checkpointXor dev"
proof (induction "is" arbitrary: dev)
  case (Cons i "is")
  then show ?case by (fastforce simp: Let_def case_prod_beta split: bind_splits if_splits)
qed auto

lemma CheckpointRead_fill_sums:
  "CheckpointRead_fill dev = Some (ok, dev') \<Longrightarrow> checkpointSum dev' = checkpointSum dev \<and> checkpointXor dev' = checkpointXor dev"
  by (auto simp: CheckpointRead_fill_def yaffs_CheckpointFindNextCheckpointBlock_def Let_def case_prod_beta
           dest!: FindNextCheckpointBlock_loop_sums split: if_splits bind_splits)

lemma CheckpointRead_loop_sums: "CheckpointRead_loop n dev = Some (bs, dev') \<Longrightarrow> summed dev bs dev'"
proof (induction n arbitrary: dev bs)
  case (Suc n)
  from Suc.prems obtain ok dev1
    where fill: "(if checkpointByteOffset dev < 0 \<or> checkpointByteOffset dev \<ge> nDataBytesPerChunk dev
                  then CheckpointRead_fill dev else Some (True, dev)) = Some (ok, dev1)"
    by (auto split: bind_splits)
  have same: "checkpointSum dev1 = checkpointSum dev" "checkpointXor dev1 = checkpointXor dev"
    using fill CheckpointRead_fill_sums by (auto split: if_splits)
  show ?case
  proof (cases ok)
    case False
    then show ?thesis using Suc.prems fill same by simp
  next
    case True
    with Suc.prems fill obtain b dev2 rest where "CheckpointRead_loop n dev2 = Some (rest, dev')" "bs = b # rest"
      "checkpointSum dev2 = checkpointSum dev1 + ucast b" "checkpointXor dev2 = checkpointXor dev1 XOR ucast b"
      by (auto simp: Let_def split: bind_splits if_splits)
    then show ?thesis using Suc.IH [of dev2 rest] same by (auto intro: summed_Cons)
  qed
qed simp

lemma byte_xor_update:
  "i < length bs \<Longrightarrow> byte_xor (bs[i := b]) = byte_xor bs XOR ucast (bs ! i) XOR ucast b"
proof (induction bs arbitrary: i)
  case (Cons a bs)
  then show ?case by (cases i) (simp_all add: xor.assoc xor.commute xor.left_commute)
qed simp

lemma GetCheckpointSum_low_bits: "n < 8 \<Longrightarrow> bit (yaffs_GetCheckpointSum dev) n \<longleftrightarrow> bit (checkpointXor dev) n"
proof -
  assume "n < 8"
  then have "bit (0xFF :: u32) n" using bit_mask_iff [of 8 n, where ?'a = u32] by (simp add: mask_eq_exp_minus_1)
  then show ?thesis using \<open>n < 8\<close> by (simp add: yaffs_GetCheckpointSum_def bit_simps)
qed

lemma changed_byte_bit: "a \<noteq> b \<Longrightarrow> \<exists>n<8. bit (ucast (a :: u8) XOR ucast b :: u32) n"
proof -
  assume "a \<noteq> b"
  then obtain n where "n < 8" "bit a n \<noteq> bit b n" using bit_word_eqI [of a b] by auto
  then show ?thesis by (auto simp: bit_simps)
qed

lemma GetCheckpointSum_changed:
  assumes "checkpointXor d' = checkpointXor d XOR (ucast (a :: u8) XOR ucast b)" and "a \<noteq> b"
  shows "yaffs_GetCheckpointSum d' \<noteq> yaffs_GetCheckpointSum d"
proof -
  from changed_byte_bit [OF \<open>a \<noteq> b\<close>] obtain n where "n < 8" "bit (ucast a XOR ucast b :: u32) n" by blast
  then have "bit (checkpointXor d') n \<noteq> bit (checkpointXor d) n" using assms(1) by (simp add: bit_xor_iff)
  then show ?thesis using GetCheckpointSum_low_bits [OF \<open>n < 8\<close>] by metis
qed



text \<open>A stream with a page of four bytes, being written and being read.\<close>

definition stream_sample :: "bool \<Rightarrow> u8 list \<Rightarrow> unit yaffs_Device \<Rightarrow> unit yaffs_Device" where
  "stream_sample wr bs dev = dev\<lparr>checkpointBuffer := Some bs, checkpointByteOffset := 0, nDataBytesPerChunk := 4,
     checkpointOpenForWrite := wr, checkpointSum := 0, checkpointXor := 0\<rparr>"


subsection \<open>Saving on a full device\<close>

lemma InvalidateCheckpoint_no_space:
  "\<not> yaffs_CheckpointSpaceOk dev \<Longrightarrow> 0 < blocksInCheckpoint dev \<Longrightarrow>
     yaffs_InvalidateCheckpoint dev = Some (if superBlock dev \<and> markSuperBlockDirty dev
       then dev\<lparr>isCheckpointed := False, superBlockDirty := True\<rparr> else dev\<lparr>isCheckpointed := False\<rparr>)"
  by (simp add: yaffs_InvalidateCheckpoint_def yaffs_CheckpointInvalidateStream_def yaffs_CheckpointSpaceOk_def)

lemma CheckpointOpen_no_space: "\<not> yaffs_CheckpointSpaceOk dev \<Longrightarrow> yaffs_CheckpointOpen dev True = Some (0, dev)"
  by (simp add: yaffs_CheckpointOpen_def)

lemma CheckpointClose_no_list:
  "\<not> checkpointOpenForWrite dev \<Longrightarrow> checkpointBlockList dev = None \<Longrightarrow> 0 < blocksInCheckpoint dev \<Longrightarrow> yaffs_CheckpointClose cfg dev = None"
  by (cases "nat (blocksInCheckpoint dev)") (simp_all add: yaffs_CheckpointClose_def)

lemma CheckpointSave_no_list:
  assumes "\<not> yaffs_CheckpointSpaceOk (the_dev fs)" and "0 < blocksInCheckpoint (the_dev fs)" and "\<not> isCheckpointed (the_dev fs)"
    and "\<not> checkpointOpenForWrite (the_dev fs)" and "checkpointBlockList (the_dev fs) = None"
  shows "yaffs_CheckpointSave cfg unset fs = None"
proof -
  obtain dev where dev: "yaffs_InvalidateCheckpoint (the_dev fs) = Some dev" "\<not> yaffs_CheckpointSpaceOk dev" "0 < blocksInCheckpoint dev"
    "\<not> checkpointOpenForWrite dev" "checkpointBlockList dev = None"
    using InvalidateCheckpoint_no_space [OF assms(1,2)] assms by (auto simp: yaffs_CheckpointSpaceOk_def)
  have "cp_close cfg (ok, fs\<lparr>the_dev := dev\<rparr>) = None" for ok
    using CheckpointClose_no_list [OF dev(4,5,3)] by (simp add: cp_close_def)
  then have "yaffs_WriteCheckpointData cfg unset (fs\<lparr>the_dev := dev\<rparr>) = None"
    using CheckpointOpen_no_space [OF dev(2)] by (simp add: yaffs_WriteCheckpointData_def if_ok_def cp_open_def)
  then show ?thesis using assms(3) dev(1) by (simp add: yaffs_CheckpointSave_def)
qed

lemma set_block_info_open [simp]: "checkpointOpenForWrite (set_block_info dev b bi) = checkpointOpenForWrite dev"
  by (simp add: set_block_info_def split: option.splits)

lemma CheckpointClose_loop_open:
  "CheckpointClose_loop n i dev = Some dev' \<Longrightarrow> checkpointOpenForWrite dev' = checkpointOpenForWrite dev"
proof (induction n arbitrary: i dev)
  case (Suc n)
  then show ?case by (fastforce split: bind_splits if_splits)
qed simp

lemma CheckpointClose_read:
  "yaffs_CheckpointClose cfg dev0 = Some (r, dev) \<Longrightarrow> \<not> checkpointOpenForWrite dev0 \<Longrightarrow>
     checkpointBlockList dev = None \<and> \<not> checkpointOpenForWrite dev"
  by (auto simp: yaffs_CheckpointClose_def Let_def dest!: CheckpointClose_loop_open split: bind_splits if_splits)

text \<open>
  C35. Saving a checkpoint on a full device fails badly.  After a checkpoint was read and the stream closed, the list of its
  blocks is gone while they are still counted.  When there is no erased block to spare, invalidating the checkpoint
  (the first write to the file system does it) leaves the count alone, and the next attempt to save a checkpoint, which
  cannot open the stream, closes it all the same and walks the missing list: the behaviour is undefined.
\<close>

theorem CheckpointSave_crashes_when_full:
  assumes "yaffs_CheckpointClose cfg dev0 = Some (r, dev)" and "\<not> checkpointOpenForWrite dev0"
    and "0 < blocksInCheckpoint dev" and "nErasedBlocks dev \<le> nReservedBlocks dev"
  shows "\<exists>dev'. yaffs_InvalidateCheckpoint (dev\<lparr>isCheckpointed := True\<rparr>) = Some dev' \<and>
           yaffs_CheckpointSave cfg unset (fs\<lparr>the_dev := dev'\<rparr>) = None"
proof -
  have d: "\<not> yaffs_CheckpointSpaceOk (dev\<lparr>isCheckpointed := True\<rparr>)" "0 < blocksInCheckpoint (dev\<lparr>isCheckpointed := True\<rparr>)"
    using assms(3,4) by (simp_all add: yaffs_CheckpointSpaceOk_def)
  from InvalidateCheckpoint_no_space [OF d] obtain dev' where
    dev': "yaffs_InvalidateCheckpoint (dev\<lparr>isCheckpointed := True\<rparr>) = Some dev'" "\<not> isCheckpointed dev'"
      "nErasedBlocks dev' = nErasedBlocks dev" "nReservedBlocks dev' = nReservedBlocks dev" "blocksInCheckpoint dev' = blocksInCheckpoint dev"
      "checkpointOpenForWrite dev' = checkpointOpenForWrite dev" "checkpointBlockList dev' = checkpointBlockList dev" by auto
  have "yaffs_CheckpointSave cfg unset (fs\<lparr>the_dev := dev'\<rparr>) = None"
    using dev' assms(3,4) CheckpointClose_read [OF assms(1,2)]
    by (intro CheckpointSave_no_list) (simp_all add: yaffs_CheckpointSpaceOk_def)
  with dev'(1) show ?thesis by blast
qed

definition full_sample :: "unit yaffs_Device \<Rightarrow> unit yaffs_Device" where
  "full_sample dev = dev\<lparr>checkpointOpenForWrite := False, blocksInCheckpoint := 1, checkpointBlockList := Some [1, -1],
     internalStartBlock := 1, internalEndBlock := 5, blockInfo := replicate 5 zero_block_info, nErasedBlocks := 3, nReservedBlocks := 5\<rparr>"

theorem CheckpointSave_crashes_when_full_witness:
  "\<forall>cfg unset (dev :: unit yaffs_Device) fs. \<exists>r dev1 dev'. yaffs_CheckpointClose cfg (full_sample dev) = Some (r, dev1) \<and>
     yaffs_InvalidateCheckpoint (dev1\<lparr>isCheckpointed := True\<rparr>) = Some dev' \<and> yaffs_CheckpointSave cfg unset (fs\<lparr>the_dev := dev'\<rparr>) = None"
proof (intro allI)
  fix cfg unset and dev :: "unit yaffs_Device" and fs :: "unit yaffs_State"
  have "\<exists>r d. yaffs_CheckpointClose cfg (full_sample dev) = Some (r, d) \<and> 0 < blocksInCheckpoint d \<and> nErasedBlocks d \<le> nReservedBlocks d"
    by (simp add: yaffs_CheckpointClose_def full_sample_def yaffs_GetBlockInfo_def block_index_def Let_def set_block_info_def)
  then obtain r d where d: "yaffs_CheckpointClose cfg (full_sample dev) = Some (r, d)" "0 < blocksInCheckpoint d" "nErasedBlocks d \<le> nReservedBlocks d"
    by blast
  have "\<not> checkpointOpenForWrite (full_sample dev)" by (simp add: full_sample_def)
  from CheckpointSave_crashes_when_full [OF d(1) this d(2,3), of unset fs] d(1)
  show "\<exists>r dev1 dev'. yaffs_CheckpointClose cfg (full_sample dev) = Some (r, dev1) \<and>
     yaffs_InvalidateCheckpoint (dev1\<lparr>isCheckpointed := True\<rparr>) = Some dev' \<and> yaffs_CheckpointSave cfg unset (fs\<lparr>the_dev := dev'\<rparr>) = None" by blast
qed

subsection \<open>The layout of the saved structures\<close>

lemma get_field_or: "get_field be off w (x OR y) = get_field be off w x OR get_field be off w y"
  by (simp add: get_field_def)

lemma get_put_field: "off + w \<le> 32 \<Longrightarrow> get_field be off w (put_field be off w v) = take_bit w v"
  by (rule bit_word_eqI) (auto simp: get_field_def put_field_def field_pos_def bit_simps)

lemma get_put_other:
  "off + w \<le> 32 \<Longrightarrow> off' + w' \<le> 32 \<Longrightarrow> off + w \<le> off' \<or> off' + w' \<le> off \<Longrightarrow> get_field be off w (put_field be off' w' v) = 0"
  by (rule bit_word_eqI) (auto simp: get_field_def put_field_def field_pos_def bit_simps)

lemmas bitfield_simps = get_field_or get_put_field get_put_other

lemma block_state_of_code [simp]: "block_state_of (block_state_code s) = Some s"
  by (cases s) (simp_all add: block_state_of_def block_state_code_def block_states_def)

lemma block_state_code_less: "block_state_code s < 16"
  by (cases s) (simp_all add: block_state_code_def)

lemma bytes_words_u32: "bytes_words be (u32_bytes be w @ bs) = w # bytes_words be bs"
proof -
  obtain a b c d where abcd: "u32_bytes be w = [a, b, c, d]" by (cases be) (simp_all add: u32_bytes_def Let_def)
  then have "bytes_u32 be [a, b, c, d] = w" by (metis bytes_u32_bytes)
  with abcd show ?thesis by simp
qed

lemma bytes_words_bytes [simp]: "bytes_words be (words_bytes be ws) = ws"
  by (induction ws) (simp_all add: words_bytes_def bytes_words_u32)

lemma int10_field: "-512 \<le> x \<Longrightarrow> x < 512 \<Longrightarrow> int10 (uint (take_bit 10 (word_of_int x :: u32))) = x"
proof -
  assume x: "-512 \<le> x" "x < 512"
  have "int10 (uint (take_bit 10 (word_of_int x :: u32))) = signed_take_bit 9 (take_bit 10 x)"
    by (simp add: int10_def unsigned_take_bit_eq uint_word_of_int_eq take_bit_take_bit)
  also have "\<dots> = x" using int10_id [OF x] by (simp add: int10_def signed_take_bit_take_bit)
  finally show ?thesis .
qed

definition wf_info :: "yaffs_BlockInfo \<Rightarrow> bool" where
  "wf_info bi \<longleftrightarrow> -512 \<le> softDeletions bi \<and> softDeletions bi < 512 \<and> -512 \<le> pagesInUse bi \<and> pagesInUse bi < 512"

lemma code_field: "unat (take_bit 4 (word_of_nat (block_state_code s) :: u32)) = block_state_code s"
  using block_state_code_less [of s] by (cases s) (simp_all add: block_state_code_def)

lemma strikes_field: "ucast (take_bit 3 (ucast (k :: 3 word) :: u32)) = k"
  by (rule bit_word_eqI) (auto simp: bit_simps)

lemma words_info_words:
  assumes "wf_info bi"
  obtains w where "info_words be bi = [w, bi_sequenceNumber bi]" and "words_info be w (bi_sequenceNumber bi) = Some bi"
proof
  let ?w = "hd (info_words be bi)"
  show "info_words be bi = [?w, bi_sequenceNumber bi]" by (simp add: info_words_def)
  show "words_info be ?w (bi_sequenceNumber bi) = Some bi"
    using assms by (simp add: words_info_def info_words_def bitfield_simps code_field strikes_field int10_field wf_info_def)
qed

lemma words_infos_words: "list_all wf_info bis \<Longrightarrow> words_infos be (concat (map (info_words be) bis)) = Some bis"
proof (induction bis)
  case (Cons bi bis)
  then show ?case using words_info_words [of bi be] by (metis (no_types, lifting) Option.bind.bind_lunit append_Cons append_Nil concat.simps(2) list.map(2) list.pred_inject(2) words_infos.simps(1))
qed simp

lemma byte_field: "ucast (take_bit 8 (ucast (k :: u8) :: u32)) = k"
  by (rule bit_word_eqI) (auto simp: bit_simps)

lemma bits_field: "ucast (take_bit 7 (ucast (k :: 7 word) :: u32)) = k"
  by (rule bit_word_eqI) (auto simp: bit_simps)



end
