(* ===== verification/ObjectTypes.thy ===== *)
theory ObjectTypes
  imports Namespace
begin

section \<open>The variant of an object agrees with its type\<close>

text \<open>
  An object is a tagged union: \<open>variantType\<close> says which member of \<open>variant\<close> is in use.  Every operation that creates,
  changes or deletes objects while the file system runs keeps the two in step, so that no operation reads the wrong
  member.
\<close>

definition well_typed :: "yaffs_Object \<Rightarrow> bool" where
  "well_typed ob \<longleftrightarrow>
     (variantType ob = YAFFS_OBJECT_TYPE_FILE \<longrightarrow> (\<exists>f. variant ob = FileVariant f)) \<and>
     (variantType ob = YAFFS_OBJECT_TYPE_DIRECTORY \<longrightarrow> (\<exists>ch. variant ob = DirectoryVariant ch)) \<and>
     (variantType ob = YAFFS_OBJECT_TYPE_SYMLINK \<longrightarrow> (\<exists>s. variant ob = SymLinkVariant s)) \<and>
     (variantType ob = YAFFS_OBJECT_TYPE_HARDLINK \<longrightarrow> (\<exists>e n. variant ob = HardLinkVariant e n))"

definition typed :: "'n yaffs_State \<Rightarrow> bool" where
  "typed fs \<longleftrightarrow> (\<forall>a ob. objs fs a = Some ob \<longrightarrow> well_typed ob)"

lemma typedD: "typed fs \<Longrightarrow> objs fs a = Some ob \<Longrightarrow> well_typed ob"
  by (simp add: typed_def)

lemma typed_objs: "objs fs' = objs fs \<Longrightarrow> typed fs' = typed fs"
  by (simp add: typed_def)

lemma typed_fields [simp]:
  "typed (fs\<lparr>the_dev := d\<rparr>) = typed fs" "typed (fs\<lparr>freeObjects := l\<rparr>) = typed fs" "typed (fs\<lparr>objectBucket := b\<rparr>) = typed fs"
  "typed (fs\<lparr>bucket_x := x\<rparr>) = typed fs" "typed (fs\<lparr>gcCleanupList := g\<rparr>) = typed fs" "typed (fs\<lparr>lostNFoundDir := o1\<rparr>) = typed fs"
  "typed (fs\<lparr>rootDir := o1\<rparr>) = typed fs" "typed (fs\<lparr>unlinkedDir := o1\<rparr>) = typed fs" "typed (fs\<lparr>deletedDir := o1\<rparr>) = typed fs"
  by (simp_all add: typed_def)

text \<open>The part of an object that the invariant is about.\<close>

lemma well_typed_same: "variantType ob' = variantType ob \<Longrightarrow> variant ob' = variant ob \<Longrightarrow> well_typed ob' = well_typed ob"
  by (simp add: well_typed_def)

lemma well_typed_file: "well_typed ob \<Longrightarrow> file_of ob = Some f \<Longrightarrow> well_typed (ob\<lparr>variant := FileVariant f'\<rparr>)"
  by (auto simp: well_typed_def file_of_def split: yaffs_ObjectVariant.splits)

lemma well_typed_fields [simp]:
  "well_typed (yaffs_SetObjectName ob nm) = well_typed ob" "well_typed (ob\<lparr>dirty := b\<rparr>) = well_typed ob" "well_typed (ob\<lparr>serial := s\<rparr>) = well_typed ob"
  "well_typed (ob\<lparr>obj_chunkId := c\<rparr>) = well_typed ob" "well_typed (ob\<lparr>nDataChunks := n\<rparr>) = well_typed ob" "well_typed (ob\<lparr>deleted := b\<rparr>) = well_typed ob"
  "well_typed (ob\<lparr>softDeleted := b\<rparr>) = well_typed ob" "well_typed (ob\<lparr>unlinked := b\<rparr>) = well_typed ob" "well_typed (ob\<lparr>parent := p\<rparr>) = well_typed ob"
  "well_typed (ob\<lparr>sibling_linked := b\<rparr>) = well_typed ob" "well_typed (ob\<lparr>hash_linked := b\<rparr>) = well_typed ob" "well_typed (ob\<lparr>deferedFree := b\<rparr>) = well_typed ob"
  "well_typed (ob\<lparr>hardLinks := l\<rparr>) = well_typed ob" "well_typed (ob\<lparr>renameAllowed := b\<rparr>) = well_typed ob" "well_typed (ob\<lparr>lazyLoaded := b\<rparr>) = well_typed ob"
  "well_typed (ob\<lparr>yst_mtime := t\<rparr>) = well_typed ob" "well_typed (ob\<lparr>fake := b\<rparr>) = well_typed ob" "well_typed (ob\<lparr>unlinkAllowed := b\<rparr>) = well_typed ob"
  "well_typed (ob\<lparr>obj_objectId := i\<rparr>) = well_typed ob" "well_typed (ob\<lparr>yst_mode := m\<rparr>) = well_typed ob" "well_typed (drop_child a ob) = well_typed ob"
  "well_typed (set_attributes attr ob) = well_typed ob"
  by (auto simp: well_typed_def yaffs_SetObjectName_def drop_child_def set_attributes_def Let_def split: yaffs_ObjectVariant.splits)

lemma typed_set [intro]: "typed fs \<Longrightarrow> well_typed ob \<Longrightarrow> typed (set_obj fs a ob)"
  by (simp add: typed_def set_obj_def)

lemma well_typed_if [simp]: "well_typed (if c then ob else ob') = (if c then well_typed ob else well_typed ob')"
  by simp

lemma typed_set_at: "typed fs \<Longrightarrow> objs fs a = Some ob \<Longrightarrow> (well_typed ob \<Longrightarrow> well_typed ob') \<Longrightarrow> typed (set_obj fs a ob')"
  by (auto dest: typedD)

lemma upd_obj_typed:
  "upd_obj f a fs = Some fs' \<Longrightarrow> typed fs \<Longrightarrow> (\<And>ob. objs fs a = Some ob \<Longrightarrow> well_typed ob \<Longrightarrow> well_typed (f ob)) \<Longrightarrow> typed fs'"
  by (auto simp: upd_obj_def bind_eq_Some_conv intro!: typed_set dest: typedD)

subsection \<open>Directories and allocation\<close>

lemma del_siblings_typed: "del_siblings a fs = Some fs' \<Longrightarrow> typed fs \<Longrightarrow> typed fs'"
  unfolding del_siblings_def by (erule upd_obj_typed) (auto simp: typed_def)

lemma RemoveObjectFromDirectory_typed: "yaffs_RemoveObjectFromDirectory a fs = Some fs' \<Longrightarrow> typed fs \<Longrightarrow> typed fs'"
  by (auto simp: yaffs_RemoveObjectFromDirectory_def bind_eq_Some_conv dest!: del_siblings_typed intro: upd_obj_typed)

lemma add_child_typed: "add_child d a fs = Some fs' \<Longrightarrow> typed fs \<Longrightarrow> typed fs'"
proof -
  assume A: "add_child d a fs = Some fs'" and t: "typed fs"
  then obtain ob ch where 1: "objs fs d = Some ob" "variant ob = DirectoryVariant ch"
    and 2: "upd_obj (\<lambda>ob. ob\<lparr>sibling_linked := True\<rparr>) a (set_obj fs d (ob\<lparr>variant := DirectoryVariant (a # ch)\<rparr>)) = Some fs'"
    by (cases "objs fs d"; cases "variant (the (objs fs d))") (simp_all add: add_child_def)
  have "typed (set_obj fs d (ob\<lparr>variant := DirectoryVariant (a # ch)\<rparr>))"
    using t 1 by (auto intro!: typed_set_at simp: well_typed_def)
  from upd_obj_typed [OF 2 this] show ?thesis by simp
qed

lemma AddObjectToDirectory_typed: "yaffs_AddObjectToDirectory d a fs = Some fs' \<Longrightarrow> typed fs \<Longrightarrow> typed fs'"
proof -
  assume A: "yaffs_AddObjectToDirectory d a fs = Some fs'" and t: "typed fs"
  from A obtain dir ob fs1 fs2 fs3 where 1: "objs fs a = Some ob" "(if sibling_linked ob then yaffs_RemoveObjectFromDirectory a fs else Some fs) = Some fs1"
    "add_child dir a fs1 = Some fs2" "upd_obj (\<lambda>ob. ob\<lparr>parent := Some dir\<rparr>) a fs2 = Some fs3"
    and 2: "(if d = unlinkedDir fs3 \<or> d = deletedDir fs3 then
            upd_obj (\<lambda>ob. ob\<lparr>unlinked := True, renameAllowed := False\<rparr>) a
              (fs3\<lparr>the_dev := (the_dev fs3)\<lparr>nUnlinkedFiles := nUnlinkedFiles (the_dev fs3) + 1\<rparr>\<rparr>)
          else Some fs3) = Some fs'"
    unfolding yaffs_AddObjectToDirectory_def by (auto simp: bind_eq_Some_conv)
  have "typed fs1" using 1(2) t RemoveObjectFromDirectory_typed by (auto split: if_splits)
  then have "typed fs2" by (rule add_child_typed [OF 1(3)])
  then have "typed fs3" by (rule upd_obj_typed [OF 1(4)]) simp
  then show ?thesis using 2 by (auto split: if_splits elim!: upd_obj_typed)
qed

lemma well_typed_zero: "well_typed (zero_object\<lparr>obj_chunkId := -1, variantType := YAFFS_OBJECT_TYPE_UNKNOWN\<rparr>)"
  by (simp add: well_typed_def)

lemma CreateFreeObjects_typed: "typed (snd (yaffs_CreateFreeObjects n fs)) = typed fs"
  by (simp add: yaffs_CreateFreeObjects_def Let_def case_prod_beta typed_def)

lemma AllocateEmptyObject_typed: "yaffs_AllocateEmptyObject fs = Some (r, fs') \<Longrightarrow> typed fs \<Longrightarrow> typed fs'"
  unfolding yaffs_AllocateEmptyObject_def Let_def
  by (auto simp: CreateFreeObjects_typed bind_eq_Some_conv well_typed_zero split: list.splits if_splits
           elim!: AddObjectToDirectory_typed intro!: typed_set)

lemma upd_bucket_typed: "upd_bucket f b fs = Some fs' \<Longrightarrow> typed fs' = typed fs"
  by (auto simp: upd_bucket_def split: if_splits)

lemma HashObject_typed: "yaffs_HashObject a fs = Some fs' \<Longrightarrow> typed fs \<Longrightarrow> typed fs'"
  by (auto simp: yaffs_HashObject_def bind_eq_Some_conv dest!: upd_bucket_typed intro: typed_set_at)

lemma UnhashObject_typed: "yaffs_UnhashObject a fs = Some fs' \<Longrightarrow> typed fs \<Longrightarrow> typed fs'"
  by (auto simp: yaffs_UnhashObject_def upd_bucket_def bind_eq_Some_conv intro!: typed_set_at split: if_splits)

lemma FreeObject_typed: "yaffs_FreeObject a fs = Some fs' \<Longrightarrow> typed fs \<Longrightarrow> typed fs'"
  by (auto simp: yaffs_FreeObject_def bind_eq_Some_conv intro: typed_set_at dest: UnhashObject_typed split: if_splits)

lemma CreateNewObjectNumber_typed: "yaffs_CreateNewObjectNumber fs = Some (n, fs') \<Longrightarrow> typed fs' = typed fs"
  by (auto simp: yaffs_CreateNewObjectNumber_def yaffs_FindNiceObjectBucket_def bind_eq_Some_conv)

lemma well_typed_new:
  "type = YAFFS_OBJECT_TYPE_FILE \<longrightarrow> tn \<noteq> None \<Longrightarrow>
     well_typed (ob\<lparr>variantType := type, yst_atime := x, yst_mtime := y, yst_ctime := z, variant := initial_variant type tn\<rparr>)"
  by (auto simp: well_typed_def initial_variant_def)

lemma CreateNewObject_typed:
  assumes "yaffs_CreateNewObject number type fs = Some (r, fs')" and "typed fs"
  shows "typed fs'"
proof -
  from assms(1) obtain n fs1 obj fs2 where
    1: "(if number < 0 then yaffs_CreateNewObjectNumber fs else Some (word_of_int number, fs)) = Some (n, fs1)" "yaffs_AllocateEmptyObject fs1 = Some (obj, fs2)"
    unfolding yaffs_CreateNewObject_def by (auto simp: bind_eq_Some_conv)
  have "typed fs1" using 1(1) assms(2) CreateNewObjectNumber_typed by (auto split: if_splits)
  then have t2: "typed fs2" by (rule AllocateEmptyObject_typed [OF 1(2)])
  show ?thesis
  proof (cases obj)
    case None
    then show ?thesis using assms(1) 1 t2 by (auto simp: yaffs_CreateNewObject_def)
  next
    case (Some a)
    obtain tn fs3 where 3: "(if type = YAFFS_OBJECT_TYPE_FILE then
        (let (tn, dev) = yaffs_GetTnode (the_dev fs2) (empty_level0 (the_dev fs2)) in (tn, fs2\<lparr>the_dev := dev\<rparr>)) else (None, fs2)) = (tn, fs3)"
      by fastforce
    then have t3: "typed fs3" using t2 by (auto simp: Let_def case_prod_beta split: if_splits)
    note C = assms(1) [unfolded yaffs_CreateNewObject_def 1 Option.bind.simps prod.case Some option.case Let_def 3 [unfolded Let_def]]
    show ?thesis
    proof (cases "type = YAFFS_OBJECT_TYPE_FILE \<and> tn = None")
      case True
      then show ?thesis using C t3 FreeObject_typed by (auto simp: bind_eq_Some_conv)
    next
      case False
      note D = C [unfolded if_not_P [OF this]]
      from D obtain fs4 where 4: "upd_obj (\<lambda>ob. ob\<lparr>fake := False, renameAllowed := True, unlinkAllowed := True, obj_objectId := n\<rparr>) a fs3 = Some fs4"
        by (cases "upd_obj (\<lambda>ob. ob\<lparr>fake := False, renameAllowed := True, unlinkAllowed := True, obj_objectId := n\<rparr>) a fs3") simp_all
      from D 4 obtain fs5 where 5: "yaffs_HashObject a fs4 = Some fs5" by (cases "yaffs_HashObject a fs4") simp_all
      have 6: "upd_obj (\<lambda>ob. ob\<lparr>variantType := type, yst_atime := current_time fs5, yst_mtime := current_time fs5,
           yst_ctime := current_time fs5, variant := initial_variant type tn\<rparr>) a fs5 = Some fs'"
        using D 4 5 by (auto simp: bind_eq_Some_conv)
      have "typed fs4" by (rule upd_obj_typed [OF 4 t3]) simp
      then have "typed fs5" by (rule HashObject_typed [OF 5])
      then show ?thesis by (rule upd_obj_typed [OF 6]) (use False well_typed_new in blast)
    qed
  qed
qed

lemma FindOrCreateObjectByNumber_typed: "yaffs_FindOrCreateObjectByNumber number type fs = Some (r, fs') \<Longrightarrow> typed fs \<Longrightarrow> typed fs'"
  by (auto simp: yaffs_FindOrCreateObjectByNumber_def bind_eq_Some_conv dest: CreateNewObject_typed split: if_splits)

subsection \<open>Results\<close>

text \<open>
  \<open>on_result Q m\<close> says that \<open>Q\<close> holds of the result of \<open>m\<close> if there is one.  The rules follow the structure of a definition;
  those of \<open>typed_ops\<close> know what an operation does to the invariant.
\<close>

named_theorems typed_ops

definition on_result :: "('a \<Rightarrow> bool) \<Rightarrow> 'a option \<Rightarrow> bool" where
  "on_result Q m \<longleftrightarrow> (\<forall>x. m = Some x \<longrightarrow> Q x)"

lemma on_result_any: "(\<And>x. m = Some x \<Longrightarrow> Q x) \<Longrightarrow> on_result Q m"
  by (simp add: on_result_def)

lemma on_result_values:
  "on_result Q None" "Q x \<Longrightarrow> on_result Q (Some x)"
  "(c \<Longrightarrow> on_result Q m) \<Longrightarrow> (\<not> c \<Longrightarrow> on_result Q m') \<Longrightarrow> on_result Q (if c then m else m')"
  by (auto simp: on_result_def)

lemma on_result_bind: "on_result (\<lambda>x. on_result Q (f x)) m \<Longrightarrow> on_result Q (Option.bind m f)"
  by (auto simp: on_result_def bind_eq_Some_conv)

lemma on_result_map: "on_result (\<lambda>x. Q (h x)) m \<Longrightarrow> on_result Q (map_option h m)"
  by (auto simp: on_result_def)

lemma on_result_prod: "(\<And>x y. p = (x, y) \<Longrightarrow> on_result Q (g x y)) \<Longrightarrow> on_result Q (case p of (x, y) \<Rightarrow> g x y)"
  by (cases p) simp

lemma on_result_option: "(m = None \<Longrightarrow> on_result Q u) \<Longrightarrow> (\<And>x. m = Some x \<Longrightarrow> on_result Q (v x)) \<Longrightarrow> on_result Q (case m of None \<Rightarrow> u | Some x \<Rightarrow> v x)"
  by (cases m) simp_all

lemma on_result_list: "(xs = [] \<Longrightarrow> on_result Q u) \<Longrightarrow> (\<And>y ys. xs = y # ys \<Longrightarrow> on_result Q (v y ys)) \<Longrightarrow> on_result Q (case xs of [] \<Rightarrow> u | y # ys \<Rightarrow> v y ys)"
  by (cases xs) simp_all

lemma on_result_tnode:
  "(\<And>x. t = Internal x \<Longrightarrow> on_result Q (u x)) \<Longrightarrow> (\<And>x. t = Level0 x \<Longrightarrow> on_result Q (v x)) \<Longrightarrow> on_result Q (case t of Internal x \<Rightarrow> u x | Level0 x \<Rightarrow> v x)"
  by (cases t) simp_all

lemma on_result_variant:
  "(v = NoVariant \<Longrightarrow> on_result Q m1) \<Longrightarrow> (\<And>f. v = FileVariant f \<Longrightarrow> on_result Q (m2 f)) \<Longrightarrow> (\<And>c. v = DirectoryVariant c \<Longrightarrow> on_result Q (m3 c)) \<Longrightarrow>
     (\<And>s. v = SymLinkVariant s \<Longrightarrow> on_result Q (m4 s)) \<Longrightarrow> (\<And>e n. v = HardLinkVariant e n \<Longrightarrow> on_result Q (m5 e n)) \<Longrightarrow>
     on_result Q (case v of NoVariant \<Rightarrow> m1 | FileVariant f \<Rightarrow> m2 f | DirectoryVariant c \<Rightarrow> m3 c | SymLinkVariant s \<Rightarrow> m4 s | HardLinkVariant e n \<Rightarrow> m5 e n)"
  by (cases v) simp_all

declare typed_set [intro!]

lemmas on_result_rules [intro!] = on_result_values on_result_bind on_result_map on_result_prod on_result_option on_result_list on_result_tnode on_result_variant

text \<open>What an operation on the device alone returns does not matter.\<close>

lemmas on_result_device [intro!] =
  on_result_any [where m = "yaffs_ReadChunkWithTagsFromNAND cfg dev c b t" for cfg dev c b t]
  on_result_any [where m = "yaffs_WriteNewChunkWithTagsToNAND cfg dev d t r" for cfg dev d t r]
  on_result_any [where m = "yaffs_DeleteChunk cfg dev c b" for cfg dev c b]
  on_result_any [where m = "yaffs_GetBlockInfo dev b" for dev b]
  on_result_any [where m = "file_of ob" for ob]
  on_result_any [where m = "oh_string p i" for p i]
  on_result_any [where m = "parent_number fs ob" for fs ob]
  on_result_any [where m = "new_header ob p n o1 b s" for ob p n o1 b s]
  on_result_any [where m = "parent ob" for ob]
  on_result_any [where m = "yaffs_FindLevel0Tnode f c" for f c]
  on_result_any [where m = "yaffs_GetChunkGroupBase dev m' c" for dev m' c]
  on_result_any [where m = "yaffs_FindChunkInGroup cfg dev c t i n" for cfg dev c t i n]
  on_result_any [where m = "yaffs_PutLevel0Tnode dev m' c v" for dev m' c v]
  on_result_any [where m = "yaffs_AddOrFindLevel0Tnode dev f c t" for dev f c t]
  on_result_any [where m = "yaffs_PruneFileStructure dev f" for dev f]
  on_result_any [where m = "yaffs_SoftDeleteWorker n t dev" for n t dev]
  on_result_any [where m = "yaffs_FindObjectByNumber fs i" for fs i]
  on_result_any [where m = "yaffs_StillSomeChunkBits dev b" for dev b]
  on_result_any [where m = "yaffs_CheckChunkBit dev b c" for dev b c]
  on_result_any [where m = "yaffs_BlockBecameDirty cfg dev b" for cfg dev b]
  on_result_any [where m = "yaffs_FindBlockForGarbageCollection dev b" for dev b]
  on_result_any [where m = "yaffs_AddrToChunk dev i" for dev i]

lemma on_result_pair: "on_result (\<lambda>(r, fs'). typed fs') m \<Longrightarrow> (\<And>r fs'. typed fs' \<Longrightarrow> Q (r, fs')) \<Longrightarrow> on_result Q m"
  by (auto simp: on_result_def)

lemma on_result_triple: "on_result (\<lambda>(r, s, fs'). typed fs') m \<Longrightarrow> (\<And>r s fs'. typed fs' \<Longrightarrow> Q (r, s, fs')) \<Longrightarrow> on_result Q m"
  by (auto simp: on_result_def)

lemma on_result_state: "on_result typed m \<Longrightarrow> (\<And>fs'. typed fs' \<Longrightarrow> Q fs') \<Longrightarrow> on_result Q m"
  by (auto simp: on_result_def)

lemma on_result_objs [intro!]: "typed fs \<Longrightarrow> (\<And>ob. objs fs a = Some ob \<Longrightarrow> well_typed ob \<Longrightarrow> Q ob) \<Longrightarrow> on_result Q (objs fs a)"
  by (auto simp: on_result_def dest: typedD)

lemma on_result_upd_obj [intro!]:
  "typed fs \<Longrightarrow> (\<And>ob. well_typed ob \<Longrightarrow> well_typed (f ob)) \<Longrightarrow> (\<And>fs'. typed fs' \<Longrightarrow> Q fs') \<Longrightarrow> on_result Q (upd_obj f a fs)"
  by (auto simp: on_result_def dest: upd_obj_typed)

subsection \<open>Headers and names\<close>

lemma load_details_typed: "load_details be page ob = Some ob' \<Longrightarrow> well_typed ob' = well_typed ob"
  by (auto simp: load_details_def bind_eq_Some_conv well_typed_def yaffs_SetObjectName_def)

lemma on_result_load_details [intro!]:
  assumes "well_typed ob" and "\<And>ob'. well_typed ob' \<Longrightarrow> Q ob'"
  shows "on_result Q (load_details be page ob)"
  using assms load_details_typed by (auto simp: on_result_def)

lemma well_typed_symlink [simp]: "variantType ob = YAFFS_OBJECT_TYPE_SYMLINK \<Longrightarrow> well_typed (ob\<lparr>variant := SymLinkVariant s\<rparr>)"
  by (simp add: well_typed_def)

lemma CheckObjectDetailsLoaded_typed: "typed fs \<Longrightarrow> on_result typed (yaffs_CheckObjectDetailsLoaded cfg a fs)"
  unfolding yaffs_CheckObjectDetailsLoaded_def Let_def by auto

lemmas CheckObjectDetailsLoaded_ops [intro!] = CheckObjectDetailsLoaded_typed [THEN on_result_state]

lemma allocation_typed:
  assumes "typed fs"
  shows "on_result typed (yaffs_RemoveObjectFromDirectory a fs)" "on_result typed (yaffs_AddObjectToDirectory d a fs)"
    "on_result typed (yaffs_FreeObject a fs)" "on_result typed (del_siblings a fs)"
  using assms RemoveObjectFromDirectory_typed AddObjectToDirectory_typed FreeObject_typed del_siblings_typed by (auto simp: on_result_def)

lemmas allocation_ops [intro!] = allocation_typed [THEN on_result_state]

lemma GetObjectName_typed: "typed fs \<Longrightarrow> on_result (\<lambda>(r, fs'). typed fs') (yaffs_GetObjectName cfg a n fs)"
  unfolding yaffs_GetObjectName_def Let_def by auto

lemma GetEquivalentObject_typed: "typed fs \<Longrightarrow> on_result (\<lambda>(r, fs'). typed fs') (yaffs_GetEquivalentObject cfg a fs)"
  unfolding yaffs_GetEquivalentObject_def by auto

lemmas name_ops [intro!] = GetObjectName_typed [THEN on_result_pair] GetEquivalentObject_typed [THEN on_result_pair]

lemma find_name_loop_typed: "typed fs \<Longrightarrow> on_result (\<lambda>(r, fs'). typed fs') (find_name_loop cfg name ls fs)"
  by (induction ls arbitrary: fs) auto

lemmas find_name_loop_ops [intro!] = find_name_loop_typed [THEN on_result_pair]

lemma FindObjectByName_typed: "typed fs \<Longrightarrow> on_result (\<lambda>(r, fs'). typed fs') (yaffs_FindObjectByName cfg d name fs)"
  unfolding yaffs_FindObjectByName_def by auto

lemmas FindObjectByName_ops [intro!] = FindObjectByName_typed [THEN on_result_pair]

text \<open>
  The code that writes calls the garbage collector first.  All that matters here is that the collector keeps the types:
  it is an interface with two implementations, the full collector and, while a block is being collected, none.
\<close>

locale typed_collector =
  fixes gc :: "'n yaffs_State \<Rightarrow> 'n yaffs_State option"
  assumes gc_typed: "typed fs \<Longrightarrow> on_result typed (gc fs)"
begin

lemmas gc_ops [intro!] = gc_typed [THEN on_result_state]

lemma UpdateObjectHeader_typed: "typed fs \<Longrightarrow> on_result (\<lambda>(r, fs'). typed fs') (yaffs_UpdateObjectHeader gc cfg a name force isShrink shadows fs)"
  unfolding yaffs_UpdateObjectHeader_def Let_def by auto

lemmas UpdateObjectHeader_ops [intro!] = UpdateObjectHeader_typed [THEN on_result_pair]

lemma ChangeObjectName_typed: "typed fs \<Longrightarrow> on_result (\<lambda>(r, fs'). typed fs') (yaffs_ChangeObjectName gc cfg a newDir newName force shadows fs)"
  unfolding yaffs_ChangeObjectName_def Let_def by auto

lemmas ChangeObjectName_ops [intro!] = ChangeObjectName_typed [THEN on_result_pair]

lemma DoGenericObjectDeletion_typed: "typed fs \<Longrightarrow> on_result (\<lambda>(r, fs'). typed fs') (yaffs_DoGenericObjectDeletion gc cfg a fs)"
  unfolding yaffs_DoGenericObjectDeletion_def Let_def by auto

lemmas DoGenericObjectDeletion_ops [intro!] = DoGenericObjectDeletion_typed [THEN on_result_pair]

end

interpretation no_collector: typed_collector gc_running
  by unfold_locales (auto simp: gc_running_def)

subsection \<open>File chunks and garbage collection\<close>

declare well_typed_file [intro]

lemma FindChunkInFile_typed: "typed fs \<Longrightarrow> on_result (\<lambda>(r, t, fs'). typed fs') (yaffs_FindChunkInFile cfg a c t fs)"
  unfolding yaffs_FindChunkInFile_def by auto

lemma put_level0_typed: "typed fs \<Longrightarrow> on_result typed (put_level0 a c v fs)"
  unfolding put_level0_def by auto

lemmas chunk_ops [intro!] = FindChunkInFile_typed [THEN on_result_triple] put_level0_typed [THEN on_result_state]

lemma FindAndDeleteChunkInFile_typed: "typed fs \<Longrightarrow> on_result (\<lambda>(r, fs'). typed fs') (yaffs_FindAndDeleteChunkInFile cfg a c fs)"
  unfolding yaffs_FindAndDeleteChunkInFile_def by auto

lemma resolve_duplicate_typed: "typed fs \<Longrightarrow> on_result (\<lambda>(r, e, fs'). typed fs') (resolve_duplicate cfg a c n s e fs)"
  unfolding resolve_duplicate_def by auto

lemmas chunk_ops2 [intro!] = FindAndDeleteChunkInFile_typed [THEN on_result_pair] resolve_duplicate_typed [THEN on_result_triple]

lemma PutChunkIntoFile_typed: "typed fs \<Longrightarrow> on_result (\<lambda>(r, fs'). typed fs') (yaffs_PutChunkIntoFile cfg a c n s fs)"
  unfolding yaffs_PutChunkIntoFile_def Let_def by auto

lemma ReadChunkDataFromObject_typed: "typed fs \<Longrightarrow> on_result (\<lambda>(r, d, fs'). typed fs') (yaffs_ReadChunkDataFromObject cfg a c fs)"
  unfolding yaffs_ReadChunkDataFromObject_def by auto

lemmas chunk_ops3 [intro!] = PutChunkIntoFile_typed [THEN on_result_pair] ReadChunkDataFromObject_typed [THEN on_result_triple]

context typed_collector
begin

lemma WriteChunkDataToObject_typed: "typed fs \<Longrightarrow> on_result (\<lambda>(r, fs'). typed fs') (yaffs_WriteChunkDataToObject gc cfg a c d n b fs)"
  unfolding yaffs_WriteChunkDataToObject_def Let_def by auto

lemmas WriteChunkDataToObject_ops [intro!] = WriteChunkDataToObject_typed [THEN on_result_pair]

end

lemma gc_verify_typed: "typed fs \<Longrightarrow> on_result typed (gc_verify cfg a t fs)"
  unfolding gc_verify_def by auto

lemma gc_copy_typed: "typed fs \<Longrightarrow> on_result typed (gc_copy cfg a p t fs)"
  unfolding gc_copy_def Let_def by auto

lemmas gc_copy_ops [intro!] = gc_verify_typed [THEN on_result_state] gc_copy_typed [THEN on_result_state]

lemma gc_page_typed: "typed (snd s) \<Longrightarrow> on_result (\<lambda>(r, fs'). typed fs') (gc_page cfg c s)"
  unfolding gc_page_def Let_def by auto

lemmas gc_page_ops [intro!] = gc_page_typed [THEN on_result_pair]

lemma gc_loop_typed: "typed (snd s) \<Longrightarrow> on_result (\<lambda>(r, fs'). typed fs') (gc_loop cfg b n c s)"
  by (induction n arbitrary: c s) auto

lemma gc_cleanup_typed: "typed fs \<Longrightarrow> on_result typed (gc_cleanup cfg is fs)"
  by (induction "is" arbitrary: fs) (auto simp: Let_def)

lemmas gc_loop_ops [intro!] = gc_loop_typed [THEN on_result_pair] gc_cleanup_typed [THEN on_result_state]

lemma GarbageCollectBlock_typed: "typed fs \<Longrightarrow> on_result (\<lambda>(r, fs'). typed fs') (yaffs_GarbageCollectBlock cfg b fs)"
  unfolding yaffs_GarbageCollectBlock_def Let_def by auto

lemmas GarbageCollectBlock_ops [intro!] = GarbageCollectBlock_typed [THEN on_result_pair]

lemma gc_turn_typed: "typed fs \<Longrightarrow> on_result (\<lambda>(r, s, t, fs'). typed fs') (gc_turn cfg ok fs)"
  unfolding gc_turn_def Let_def by auto

lemma on_result_gc_turn [intro!]: "typed fs \<Longrightarrow> (\<And>r s t fs'. typed fs' \<Longrightarrow> Q (r, s, t, fs')) \<Longrightarrow> on_result Q (gc_turn cfg ok fs)"
  using gc_turn_typed [of fs cfg ok] by (auto simp: on_result_def)

lemma check_gc_typed: "typed fs \<Longrightarrow> on_result typed (check_gc cfg fs)"
  unfolding check_gc_def yaffs_CheckGarbageCollection_def by auto

interpretation collector: typed_collector "check_gc cfg" for cfg
  by unfold_locales (rule check_gc_typed)

subsection \<open>The cache and file data\<close>

lemma on_result_upd_cache [intro!]: "typed fs \<Longrightarrow> (\<And>fs'. typed fs' \<Longrightarrow> Q fs') \<Longrightarrow> on_result Q (upd_cache f i fs)"
  by (simp add: upd_cache_def on_result_def)

lemmas on_result_cache [intro!] = on_result_any [where m = "get_cache i fs" for i fs] on_result_any [where m = "cc_object c" for c]
  on_result_any [where m = "slice i n d" for i n d] on_result_any [where m = "overwrite i n d" for i n d]
  on_result_any [where m = "i :: nat option" for i]

lemma on_result_admissible: "option.admissible (\<lambda>u. \<forall>x. R x \<longrightarrow> on_result Q (u x))"
proof -
  have "(\<lambda>u. \<forall>x. R x \<longrightarrow> on_result Q (u x)) = (\<lambda>u. \<forall>x y. u x = Some y \<longrightarrow> R x \<longrightarrow> Q y)"
    by (auto simp: on_result_def)
  then show ?thesis using option_admissible [of "\<lambda>x y. R x \<longrightarrow> Q y"] by simp
qed

lemma flush_loop_typed: "\<forall>cfg a n fs. typed fs \<longrightarrow> on_result typed (flush_loop cfg a n fs)"
proof (induction rule: flush_loop.fixp_induct)
  case 1
  show ?case using on_result_admissible [of "\<lambda>(((cfg, a), n), fs). typed fs" typed] by (simp add: split_paired_All)
next
  case 2
  show ?case by auto
next
  case (3 self)
  then have [intro!]: "on_result Q (self cfg a n fs)" if "typed fs" "\<And>fs'. typed fs' \<Longrightarrow> Q fs'" for Q cfg a n fs
    using that by (auto simp: on_result_def)
  show ?case by auto
qed

lemma FlushFilesChunkCache_typed: "typed fs \<Longrightarrow> on_result typed (yaffs_FlushFilesChunkCache cfg a fs)"
  unfolding yaffs_FlushFilesChunkCache_def using flush_loop_typed by auto

lemmas FlushFilesChunkCache_ops [intro!] = FlushFilesChunkCache_typed [THEN on_result_state]

lemma FlushEntireDeviceCache_typed: "\<forall>cfg fs. typed fs \<longrightarrow> on_result typed (yaffs_FlushEntireDeviceCache cfg fs)"
proof (induction rule: yaffs_FlushEntireDeviceCache.fixp_induct)
  case 1
  show ?case using on_result_admissible [of "\<lambda>(cfg, fs). typed fs" typed] by (simp add: split_paired_All)
next
  case 2
  show ?case by auto
next
  case (3 self)
  then have [intro!]: "on_result Q (self cfg fs)" if "typed fs" "\<And>fs'. typed fs' \<Longrightarrow> Q fs'" for Q cfg fs
    using that by (auto simp: on_result_def)
  show ?case by auto
qed

lemma GrabChunkCache_typed: "typed fs \<Longrightarrow> on_result (\<lambda>(r, fs'). typed fs') (yaffs_GrabChunkCache cfg fs)"
  unfolding yaffs_GrabChunkCache_def by auto

lemma FindChunkCache_typed [dest]: "yaffs_FindChunkCache a c fs = (r, fs') \<Longrightarrow> typed fs \<Longrightarrow> typed fs'"
  by (auto simp: yaffs_FindChunkCache_def Let_def split: if_splits option.splits)

lemma UseChunkCache_typed: "typed fs \<Longrightarrow> on_result typed (yaffs_UseChunkCache i w fs)"
  unfolding yaffs_UseChunkCache_def Let_def by auto

lemma InvalidateChunkCache_typed: "typed fs \<Longrightarrow> on_result typed (yaffs_InvalidateChunkCache a c fs)"
  unfolding yaffs_InvalidateChunkCache_def by auto

lemmas cache_ops [intro!] = GrabChunkCache_typed [THEN on_result_pair] UseChunkCache_typed [THEN on_result_state] InvalidateChunkCache_typed [THEN on_result_state]

lemma load_cache_typed: "typed fs \<Longrightarrow> on_result (\<lambda>(r, fs'). typed fs') (load_cache cfg a c fs)"
  unfolding load_cache_def by auto

lemmas load_cache_ops [intro!] = load_cache_typed [THEN on_result_pair]

lemma read_piece_typed: "typed fs \<Longrightarrow> on_result (\<lambda>(r, fs'). typed fs') (read_piece cfg a c i n fs)"
  unfolding read_piece_def Let_def by auto

lemma write_cached_typed: "typed fs \<Longrightarrow> on_result (\<lambda>(r, fs'). typed fs') (write_cached cfg a c i b n w k fs)"
  unfolding write_cached_def Let_def by auto

lemmas piece_ops [intro!] = read_piece_typed [THEN on_result_pair] write_cached_typed [THEN on_result_pair]

lemma write_piece_typed: "typed fs \<Longrightarrow> on_result (\<lambda>(r, fs'). typed fs') (write_piece cfg a c i b n w k fs)"
  unfolding write_piece_def Let_def by auto

lemmas write_piece_ops [intro!] = write_piece_typed [THEN on_result_pair]

lemma read_loop_typed: "\<forall>cfg a i n fs. typed fs \<longrightarrow> on_result (\<lambda>(r, fs'). typed fs') (read_loop cfg a i n fs)"
proof (induction rule: read_loop.fixp_induct)
  case 1
  show ?case using on_result_admissible [of "\<lambda>((((cfg, a), i), n), fs). typed fs" "\<lambda>(r, fs'). typed fs'"] by (simp add: split_paired_All)
next
  case 2
  show ?case by auto
next
  case (3 self)
  then have [intro!]: "on_result Q (self cfg a i n fs)" if "typed fs" "\<And>r fs'. typed fs' \<Longrightarrow> Q (r, fs')" for Q cfg a i n fs
    using that by (auto simp: on_result_def)
  show ?case by (auto simp: Let_def)
qed

lemma wr_loop_typed: "\<forall>cfg a d i w n k fs. typed fs \<longrightarrow> on_result (\<lambda>(r, fs'). typed fs') (wr_loop cfg a d i w n k fs)"
proof (induction rule: wr_loop.fixp_induct)
  case 1
  show ?case using on_result_admissible [of "\<lambda>(((((((cfg, a), d), i), w), n), k), fs). typed fs" "\<lambda>(r, fs'). typed fs'"] by (simp add: split_paired_All)
next
  case 2
  show ?case by auto
next
  case (3 self)
  then have [intro!]: "on_result Q (self cfg a d i w n k fs)" if "typed fs" "\<And>r fs'. typed fs' \<Longrightarrow> Q (r, fs')" for Q cfg a d i w n k fs
    using that by (auto simp: on_result_def)
  show ?case by (auto simp: Let_def)
qed

lemmas loop_ops [intro!] = read_loop_typed [rule_format, THEN on_result_pair] wr_loop_typed [rule_format, THEN on_result_pair]
  FlushEntireDeviceCache_typed [rule_format, THEN on_result_state]

lemma well_typed_file_dirty [intro]: "well_typed ob \<Longrightarrow> file_of ob = Some f \<Longrightarrow> well_typed (ob\<lparr>variant := FileVariant f', dirty := b\<rparr>)"
  using well_typed_file [of ob f f'] by (simp add: well_typed_def)

lemma ReadDataFromFile_typed: "typed fs \<Longrightarrow> on_result (\<lambda>(r, fs'). typed fs') (yaffs_ReadDataFromFile cfg a i n fs)"
  unfolding yaffs_ReadDataFromFile_def by auto

lemma WriteDataToFile_typed: "typed fs \<Longrightarrow> on_result (\<lambda>(r, fs'). typed fs') (yaffs_WriteDataToFile cfg a d i w fs)"
  unfolding yaffs_WriteDataToFile_def Let_def by auto

lemma GetFileSize_typed: "typed fs \<Longrightarrow> on_result (\<lambda>(r, fs'). typed fs') (yaffs_GetFileSize cfg a fs)"
  unfolding yaffs_GetFileSize_def by auto

lemma prune_resized_loop_typed: "typed fs \<Longrightarrow> on_result typed (prune_resized_loop cfg a is fs)"
  by (induction "is" arbitrary: fs) (auto simp: Let_def)

lemmas resize_ops [intro!] = prune_resized_loop_typed [THEN on_result_state] GetFileSize_typed [THEN on_result_pair]

lemma PruneResizedChunks_typed: "typed fs \<Longrightarrow> on_result typed (yaffs_PruneResizedChunks cfg a n fs)"
  unfolding yaffs_PruneResizedChunks_def Let_def by auto

lemmas PruneResizedChunks_ops [intro!] = PruneResizedChunks_typed [THEN on_result_state]

lemma shrink_file_typed: "typed fs \<Longrightarrow> on_result typed (shrink_file cfg a n k p fs)"
  unfolding shrink_file_def Let_def by auto

lemmas shrink_file_ops [intro!] = shrink_file_typed [THEN on_result_state] check_gc_typed [THEN on_result_state]

lemma ResizeFile_typed: "typed fs \<Longrightarrow> on_result (\<lambda>(r, fs'). typed fs') (yaffs_ResizeFile cfg a n fs)"
  unfolding yaffs_ResizeFile_def Let_def by auto

lemma FlushFile_typed: "typed fs \<Longrightarrow> on_result (\<lambda>(r, fs'). typed fs') (yaffs_FlushFile cfg a u fs)"
  unfolding yaffs_FlushFile_def by auto

lemmas file_ops [intro!] = ResizeFile_typed [THEN on_result_pair] FlushFile_typed [THEN on_result_pair]

subsection \<open>Deletion\<close>

lemma free_top_typed: "typed fs \<Longrightarrow> on_result typed (free_top a fs)"
  unfolding free_top_def by auto

lemmas free_top_ops [intro!] = free_top_typed [THEN on_result_state]

lemma well_typed_file_deleted [intro]: "well_typed ob \<Longrightarrow> file_of ob = Some f \<Longrightarrow> well_typed (ob\<lparr>variant := FileVariant f', softDeleted := b\<rparr>)"
  using well_typed_file [of ob f f'] by (simp add: well_typed_def)

lemma SoftDeleteFile_typed: "typed fs \<Longrightarrow> on_result typed (yaffs_SoftDeleteFile cfg a fs)"
  unfolding yaffs_SoftDeleteFile_def by auto

lemmas SoftDeleteFile_ops [intro!] = SoftDeleteFile_typed [THEN on_result_state]

lemma mark_deleted_typed: "typed fs \<Longrightarrow> on_result typed (mark_deleted cfg a fs)"
  unfolding mark_deleted_def by auto

lemmas mark_deleted_ops [intro!] = mark_deleted_typed [THEN on_result_state]

lemma UnlinkFile_typed: "typed fs \<Longrightarrow> on_result (\<lambda>(r, fs'). typed fs') (yaffs_UnlinkFile cfg a fs)"
  unfolding yaffs_UnlinkFile_def by auto

lemmas UnlinkFile_ops [intro!] = UnlinkFile_typed [THEN on_result_pair]

lemma DeleteFile_typed: "typed fs \<Longrightarrow> on_result (\<lambda>(r, fs'). typed fs') (yaffs_DeleteFile cfg a fs)"
  unfolding yaffs_DeleteFile_def by auto

lemma DeleteDirectory_typed: "typed fs \<Longrightarrow> on_result (\<lambda>(r, fs'). typed fs') (yaffs_DeleteDirectory cfg a fs)"
  unfolding yaffs_DeleteDirectory_def by auto

lemma DeleteSymLink_typed:
  assumes "typed fs" and "objs fs a = Some ob" and "variantType ob = YAFFS_OBJECT_TYPE_SYMLINK"
  shows "on_result (\<lambda>(r, fs'). typed fs') (yaffs_DeleteSymLink cfg a fs)"
  using assms unfolding yaffs_DeleteSymLink_def upd_obj_def by auto

lemma del_hardlink_typed [simp]: "typed fs \<Longrightarrow> typed (del_hardlink a fs)"
  by (auto simp: typed_def del_hardlink_def)

lemma DeleteHardLink_typed: "typed fs \<Longrightarrow> on_result (\<lambda>(r, fs'). typed fs') (yaffs_DeleteHardLink cfg a fs)"
  unfolding yaffs_DeleteHardLink_def by auto

lemmas delete_ops [intro!] = DeleteFile_typed [THEN on_result_pair] DeleteDirectory_typed [THEN on_result_pair] DeleteHardLink_typed [THEN on_result_pair]
lemmas delete_symlink_ops [intro] = DeleteSymLink_typed [THEN on_result_pair]

lemma DestroyObject_typed: "typed fs \<Longrightarrow> on_result typed (yaffs_DestroyObject cfg a fs)"
  unfolding yaffs_DestroyObject_def by auto

lemma replace_hardlink_typed: "typed fs \<Longrightarrow> on_result (\<lambda>(r, fs'). typed fs') (replace_hardlink cfg a h fs)"
  unfolding replace_hardlink_def by auto

lemmas destroy_ops [intro!] = DestroyObject_typed [THEN on_result_state] replace_hardlink_typed [THEN on_result_pair]

lemma UnlinkWorker_typed: "typed fs \<Longrightarrow> on_result (\<lambda>(r, fs'). typed fs') (yaffs_UnlinkWorker cfg a fs)"
  unfolding yaffs_UnlinkWorker_def by auto

lemmas UnlinkWorker_ops [intro!] = UnlinkWorker_typed [THEN on_result_pair]

lemma UnlinkObject_typed: "typed fs \<Longrightarrow> on_result (\<lambda>(r, fs'). typed fs') (yaffs_UnlinkObject cfg obj fs)"
  unfolding yaffs_UnlinkObject_def by auto

lemmas UnlinkObject_ops [intro!] = UnlinkObject_typed [THEN on_result_pair]

lemma Unlink_typed: "typed fs \<Longrightarrow> on_result (\<lambda>(r, fs'). typed fs') (yaffs_Unlink cfg d n fs)"
  unfolding yaffs_Unlink_def by auto

subsection \<open>Creation, renaming and attributes\<close>

definition has_type :: "'n yaffs_State \<Rightarrow> yaffs_addr \<Rightarrow> u32 \<Rightarrow> bool" where
  "has_type fs a ty \<longleftrightarrow> map_option variantType (objs fs a) = Some ty"

lemma has_type_dev [simp]: "has_type (fs\<lparr>the_dev := d\<rparr>) a ty = has_type fs a ty"
  by (simp add: has_type_def)

lemma has_type_set: "objs fs b = Some y \<Longrightarrow> variantType y' = variantType y \<Longrightarrow> has_type (set_obj fs b y') a ty = has_type fs a ty"
  by (simp add: has_type_def set_obj_def)

lemma has_type_upd: "upd_obj f b fs = Some fs' \<Longrightarrow> (\<And>ob. variantType (f ob) = variantType ob) \<Longrightarrow> has_type fs' a ty = has_type fs a ty"
  by (auto simp: upd_obj_def bind_eq_Some_conv has_type_set)

lemma variantType_drop_child: "variantType (drop_child a ob) = variantType ob"
  by (simp add: drop_child_def split: yaffs_ObjectVariant.split)

lemma has_type_del_siblings: "del_siblings b fs = Some fs' \<Longrightarrow> has_type fs' a ty = has_type fs a ty"
  unfolding del_siblings_def
  by (drule has_type_upd [where a = a and ty = ty]) (simp_all add: has_type_def option.map_comp o_def variantType_drop_child)

lemma has_type_add_child: "add_child d b fs = Some fs' \<Longrightarrow> has_type fs' a ty = has_type fs a ty"
  by (cases "objs fs d"; cases "variant (the (objs fs d))")
    (auto simp: add_child_def has_type_set dest!: has_type_upd [where a = a and ty = ty])

lemma has_type_RemoveObjectFromDirectory: "yaffs_RemoveObjectFromDirectory b fs = Some fs' \<Longrightarrow> has_type fs' a ty = has_type fs a ty"
  unfolding yaffs_RemoveObjectFromDirectory_def
  by (auto simp: bind_eq_Some_conv dest!: has_type_del_siblings [where a = a and ty = ty] has_type_upd [where a = a and ty = ty])

lemma has_type_AddObjectToDirectory: "yaffs_AddObjectToDirectory d b fs = Some fs' \<Longrightarrow> has_type fs' a ty = has_type fs a ty"
  unfolding yaffs_AddObjectToDirectory_def Let_def
  by (auto simp: bind_eq_Some_conv split: if_splits dest!: has_type_RemoveObjectFromDirectory [where a = a and ty = ty]
        has_type_add_child [where a = a and ty = ty] has_type_upd [where a = a and ty = ty])

lemma upd_obj_has_type: "upd_obj f a fs = Some fs' \<Longrightarrow> (\<And>ob. variantType (f ob) = ty) \<Longrightarrow> has_type fs' a ty"
  by (auto simp: upd_obj_def bind_eq_Some_conv has_type_def set_obj_def)

lemma CreateNewObject_has_type: "yaffs_CreateNewObject number type fs = Some (Some a, fs') \<Longrightarrow> has_type fs' a type"
  unfolding yaffs_CreateNewObject_def
  by (auto simp: bind_eq_Some_conv Let_def case_prod_beta split: if_splits option.splits intro: upd_obj_has_type)

lemma on_result_CreateNewObject [intro!]:
  assumes "typed fs" and "\<And>r fs'. typed fs' \<Longrightarrow> \<forall>a. r = Some a \<longrightarrow> has_type fs' a type \<Longrightarrow> Q (r, fs')"
  shows "on_result Q (yaffs_CreateNewObject number type fs)"
proof -
  have "Q (r, fs')" if "yaffs_CreateNewObject number type fs = Some (r, fs')" for r fs'
    by (rule assms(2)) (use that assms(1) CreateNewObject_typed CreateNewObject_has_type in blast)+
  then show ?thesis by (simp add: on_result_def split_paired_All)
qed

lemma mknod_fields_typed:
  assumes "typed fs" and "has_type fs a type" and "\<And>ob. variantType (f ob) = type \<and> variant (f ob) = variant ob"
    and "\<And>fs'. typed fs' \<Longrightarrow> has_type fs' a type \<Longrightarrow> Q fs'"
  shows "on_result Q (upd_obj f a fs)"
proof -
  have "well_typed (f ob)" if "objs fs a = Some ob" for ob
    using that assms(2,3) typedD [OF assms(1) that] by (simp add: has_type_def well_typed_same [of "f ob" ob])
  then have "typed fs'" if "upd_obj f a fs = Some fs'" for fs' by (rule upd_obj_typed [OF that assms(1)])
  then show ?thesis using assms(3,4) upd_obj_has_type [of f a fs _ type] by (simp add: on_result_def)
qed

lemma on_result_AddObject_type:
  assumes "typed fs" and "has_type fs a type" and "\<And>fs'. typed fs' \<Longrightarrow> has_type fs' a type \<Longrightarrow> Q fs'"
  shows "on_result Q (yaffs_AddObjectToDirectory d a fs)"
  unfolding on_result_def using assms AddObjectToDirectory_typed [OF _ assms(1)] has_type_AddObjectToDirectory by blast

lemma well_typed_hardlink [simp]: "variantType ob = YAFFS_OBJECT_TYPE_HARDLINK \<Longrightarrow> well_typed (ob\<lparr>variant := HardLinkVariant e n\<rparr>)"
  by (simp add: well_typed_def)

lemma mknod_variant_typed: "typed fs \<Longrightarrow> has_type fs a type \<Longrightarrow> on_result typed (mknod_variant type a e str fs)"
  unfolding mknod_variant_def by (auto simp: upd_obj_def [of _ a fs] has_type_def)

lemmas mknod_ops = mknod_fields_typed on_result_AddObject_type mknod_variant_typed [THEN on_result_state]

lemma clone_device:
  "(if c then case yaffs_CloneString al (the_dev fs) of (str, dev) \<Rightarrow> (str, fs\<lparr>the_dev := dev\<rparr>) else (None, fs)) = (str, fs') \<Longrightarrow>
     \<exists>d. fs' = fs\<lparr>the_dev := d\<rparr>"
  "(case yaffs_CloneString al (the_dev fs) of (str, dev) \<Rightarrow> (str, fs\<lparr>the_dev := dev\<rparr>)) = (str, fs') \<Longrightarrow> \<exists>d. fs' = fs\<lparr>the_dev := d\<rparr>"
  by (auto simp: case_prod_beta split: if_splits intro: exI [of _ "the_dev fs"])

lemma MknodObject_typed: "typed fs \<Longrightarrow> on_result (\<lambda>(r, fs'). typed fs') (yaffs_MknodObject cfg type d name m u g e al rd fs)"
  unfolding yaffs_MknodObject_def Let_def
  supply on_result_upd_obj [rule del] allocation_ops [rule del]
  by (auto intro!: mknod_ops [where type = type] allocation_ops(3) dest!: clone_device simp: yaffs_SetObjectName_def)

lemmas MknodObject_ops [intro!] = MknodObject_typed [THEN on_result_pair]

lemma Link_typed: "typed fs \<Longrightarrow> on_result (\<lambda>(r, fs'). typed fs') (yaffs_Link cfg d n e fs)"
  unfolding yaffs_Link_def by auto

lemma nuke_target_typed: "typed fs \<Longrightarrow> on_result typed (nuke_target cfg a d n t fs)"
  unfolding nuke_target_def by auto

lemmas nuke_target_ops [intro!] = nuke_target_typed [THEN on_result_state] on_result_any [where m = "nonempty_directory ob" for ob]
  on_result_any [where m = "a :: yaffs_addr option" for a]

lemma RenameObject_typed: "typed fs \<Longrightarrow> on_result (\<lambda>(r, fs'). typed fs') (yaffs_RenameObject cfg d n d' n' fs)"
  unfolding yaffs_RenameObject_def by auto

lemma SetAttributes_typed: "typed fs \<Longrightarrow> on_result (\<lambda>(r, fs'). typed fs') (yaffs_SetAttributes cfg a attr fs)"
  unfolding yaffs_SetAttributes_def by auto

lemma GetAttributes_typed: "typed fs \<Longrightarrow> on_result (\<lambda>(r, fs'). typed fs') (yaffs_GetAttributes cfg a fs)"
  unfolding yaffs_GetAttributes_def by auto

lemma CreateFakeDirectory_typed: "typed fs \<Longrightarrow> on_result (\<lambda>(r, fs'). typed fs') (yaffs_CreateFakeDirectory n m fs)"
  unfolding yaffs_CreateFakeDirectory_def by auto

lemmas CreateFakeDirectory_ops [intro!] = CreateFakeDirectory_typed [THEN on_result_pair]

lemma CreateInitialDirectories_typed: "typed fs \<Longrightarrow> on_result (\<lambda>(r, fs'). typed fs') (yaffs_CreateInitialDirectories fs)"
  unfolding yaffs_CreateInitialDirectories_def Let_def by auto

subsection \<open>A run of the file system\<close>

text \<open>The calls that the file system interface makes after the scan, in any order and with any arguments.\<close>

inductive runtime_step :: "yaffs_Config \<Rightarrow> 'n yaffs_State \<Rightarrow> 'n yaffs_State \<Rightarrow> bool" for cfg where
  Initial: "yaffs_CreateInitialDirectories fs = Some (r, fs') \<Longrightarrow> runtime_step cfg fs fs'"
| Find: "yaffs_FindObjectByName cfg dir name fs = Some (obj, fs') \<Longrightarrow> runtime_step cfg fs fs'"
| Mknod: "yaffs_MknodObject cfg type dir name mode uid gid equivalent alias rdev fs = Some (obj, fs') \<Longrightarrow> runtime_step cfg fs fs'"
| Link: "yaffs_Link cfg dir name equivalent fs = Some (obj, fs') \<Longrightarrow> runtime_step cfg fs fs'"
| Unlink: "yaffs_Unlink cfg dir name fs = Some (r, fs') \<Longrightarrow> runtime_step cfg fs fs'"
| Delete: "yaffs_DeleteFile cfg a fs = Some (r, fs') \<Longrightarrow> runtime_step cfg fs fs'"
| Rename: "yaffs_RenameObject cfg dir name newDir newName fs = Some (r, fs') \<Longrightarrow> runtime_step cfg fs fs'"
| Read: "yaffs_ReadDataFromFile cfg a offset nBytes fs = Some (bytes, fs') \<Longrightarrow> runtime_step cfg fs fs'"
| Write: "yaffs_WriteDataToFile cfg a buffer offset writeThrough fs = Some (nDone, fs') \<Longrightarrow> runtime_step cfg fs fs'"
| Resize: "yaffs_ResizeFile cfg a newSize fs = Some (r, fs') \<Longrightarrow> runtime_step cfg fs fs'"
| Flush: "yaffs_FlushFile cfg a updateTime fs = Some (r, fs') \<Longrightarrow> runtime_step cfg fs fs'"
| FlushAll: "yaffs_FlushEntireDeviceCache cfg fs = Some fs' \<Longrightarrow> runtime_step cfg fs fs'"
| SetAttributes: "yaffs_SetAttributes cfg a attr fs = Some (r, fs') \<Longrightarrow> runtime_step cfg fs fs'"
| GetAttributes: "yaffs_GetAttributes cfg a fs = Some (attr, fs') \<Longrightarrow> runtime_step cfg fs fs'"
| Collect: "yaffs_CheckGarbageCollection cfg fs = Some (r, fs') \<Longrightarrow> runtime_step cfg fs fs'"

lemma CheckGarbageCollection_typed: "typed fs \<Longrightarrow> on_result (\<lambda>(r, fs'). typed fs') (yaffs_CheckGarbageCollection cfg fs)"
  unfolding yaffs_CheckGarbageCollection_def by auto

lemma result_pair: "on_result (\<lambda>(r, fs'). typed fs') m \<Longrightarrow> m = Some (r, fs') \<Longrightarrow> typed fs'"
  by (simp add: on_result_def)

lemma runtime_step_typed: "runtime_step cfg fs fs' \<Longrightarrow> typed fs \<Longrightarrow> typed fs'"
proof (induction rule: runtime_step.induct)
  case (FlushAll fs fs')
  then show ?case using FlushEntireDeviceCache_typed by (fastforce simp: on_result_def)
qed (erule result_pair [rotated], erule CreateInitialDirectories_typed FindObjectByName_typed MknodObject_typed Link_typed Unlink_typed
       DeleteFile_typed RenameObject_typed ReadDataFromFile_typed WriteDataToFile_typed ResizeFile_typed FlushFile_typed
       SetAttributes_typed GetAttributes_typed CheckGarbageCollection_typed)+

text \<open>
  C5. Type safety of the object union: whatever sequence of operations runs, with whatever arguments, results and garbage
  collections in between, every object's \<open>variantType\<close> agrees with the member of the union that is in use.  So a file
  always has its file structure, a directory its list of children, a symbolic link its text and a hard link its target.
\<close>

theorem runtime_keeps_types:
  assumes "(runtime_step cfg)\<^sup>*\<^sup>* fs fs'" and "typed fs"
  shows "typed fs'"
  using assms by (induction rule: rtranclp_induct) (auto dest: runtime_step_typed)

definition empty_state :: "'n yaffs_State \<Rightarrow> 'n yaffs_State" where
  "empty_state fs = yaffs_InitialiseObjects (fs\<lparr>objs := \<lambda>_. None, freeObjects := []\<rparr>)\<lparr>freeObjects := [5, 6, 7, 8]\<rparr>"

lemma empty_state_starts: "\<exists>fs'. yaffs_CreateInitialDirectories (empty_state fs) = Some (YAFFS_OK, fs')"
  by (simp add: empty_state_def yaffs_InitialiseObjects_def yaffs_CreateInitialDirectories_def yaffs_CreateFakeDirectory_def yaffs_CreateNewObject_def
      yaffs_AllocateEmptyObject_def Let_def set_obj_def upd_obj_def yaffs_HashObject_def upd_bucket_def yaffs_HashFunction_def zero_object_def
      initial_variant_def yaffs_AddObjectToDirectory_def add_child_def)

theorem runtime_keeps_types_witness:
  "\<forall>cfg (fs :: unit yaffs_State). \<exists>fs'. yaffs_CreateInitialDirectories (empty_state fs) = Some (YAFFS_OK, fs') \<and> typed fs'"
proof (intro allI)
  fix cfg and fs :: "unit yaffs_State"
  obtain fs' where 1: "yaffs_CreateInitialDirectories (empty_state fs) = Some (YAFFS_OK, fs')"
    using empty_state_starts by blast
  have "typed (empty_state fs)" by (simp add: typed_def empty_state_def yaffs_InitialiseObjects_def)
  with runtime_keeps_types [OF r_into_rtranclp [of "runtime_step cfg", OF Initial [OF 1]]] 1
  show "\<exists>fs'. yaffs_CreateInitialDirectories (empty_state fs) = Some (YAFFS_OK, fs') \<and> typed fs'" by blast
qed

end
