(* ===== verification/MtdIf.thy ===== *)
theory MtdIf
  imports Nand
begin

section \<open>The MTD drivers\<close>

text \<open>
  \<^verbatim>\<open>yaffs_mtdif.c\<close>, \<^verbatim>\<open>yaffs_mtdif1.c\<close> and \<^verbatim>\<open>yaffs_mtdif2.c\<close>: the three sets of functions that a device's function
  pointers are set to, as they are compiled for the kernels of this tree (after 2.6.17).  The MTD layer
  (\<^verbatim>\<open>struct mtd_info\<close>) is the kernel's: its functions are fields of a record and act on the chip's state \<open>mtd_priv\<close>.
  A read with out-of-band bytes is told whether there is a data buffer (\<^verbatim>\<open>datbuf\<close> is not NULL) and returns what the
  data and the out-of-band buffer hold afterwards.  Addresses of type \<^verbatim>\<open>loff_t\<close> are exact,
  products of \<^verbatim>\<open>int\<close>s wrap at 32 bits.
\<close>

datatype mtd_oob_mode = MTD_OOB_PLACE | MTD_OOB_AUTO | MTD_OOB_RAW

record mtd_oob_ops =
  ops_mode :: mtd_oob_mode
  ops_len :: int
  ops_ooblen :: int
  ops_ooboffs :: int
  ops_datbuf :: "u8 list option"
  ops_oobbuf :: "u8 list"

record 'm mtd_info =
  mtd_priv :: 'm
  mtd_read :: "'m \<Rightarrow> int \<Rightarrow> int \<Rightarrow> int \<times> u8 list \<times> 'm"
  mtd_write :: "'m \<Rightarrow> int \<Rightarrow> int \<Rightarrow> u8 list \<Rightarrow> int \<times> 'm"
  mtd_read_oob :: "'m \<Rightarrow> int \<Rightarrow> bool \<Rightarrow> mtd_oob_ops \<Rightarrow> int \<times> u8 list \<times> u8 list \<times> 'm"
  mtd_write_oob :: "'m \<Rightarrow> int \<Rightarrow> mtd_oob_ops \<Rightarrow> int \<times> 'm"
  mtd_erase :: "'m \<Rightarrow> u32 \<Rightarrow> int \<Rightarrow> int \<times> 'm"
  mtd_block_isbad :: "'m \<Rightarrow> int \<Rightarrow> int \<times> 'm"
  mtd_block_markbad :: "'m \<Rightarrow> int \<Rightarrow> int \<times> 'm"
  mtd_oobavail :: int

type_synonym 'm mtd_device = "'m mtd_info yaffs_Device"

abbreviation (input) "EBADMSG \<equiv> (74 :: int)"
abbreviation (input) "EUCLEAN \<equiv> (117 :: int)"

definition int32 :: "int \<Rightarrow> int" where
  "int32 x = signed_take_bit 31 x"

definition set_priv :: "'m mtd_device \<Rightarrow> 'm \<Rightarrow> 'm mtd_device" where
  "set_priv dev m = dev\<lparr>genericDevice := (genericDevice dev)\<lparr>mtd_priv := m\<rparr>\<rparr>"

definition chunk_addr :: "'m mtd_device \<Rightarrow> int \<Rightarrow> int" where
  "chunk_addr dev chunkInNAND = chunkInNAND * nDataBytesPerChunk dev"

definition mtd_result :: "int \<Rightarrow> int" where
  "mtd_result retval = (if retval = 0 then YAFFS_OK else YAFFS_FAIL)"

subsection \<open>YAFFS1 pages with a spare area: \<^verbatim>\<open>yaffs_mtdif.c\<close>\<close>

definition translate_spare2oob :: "yaffs_Spare \<Rightarrow> u8 list" where
  "translate_spare2oob spare =
     [tagByte0 spare, tagByte1 spare, tagByte2 spare, tagByte3 spare, tagByte4 spare,
      (tagByte5 spare AND 0x3F) OR (if blockStatus spare = 0x59 then 0 else 0x80) OR (if pageStatus spare = 0 then 0 else 0x40),
      tagByte6 spare, tagByte7 spare]"

definition translate_oob2spare :: "u8 list \<Rightarrow> yaffs_NANDSpare option" where
  "translate_oob2spare oob =
     (if length oob = 8 then
        Some \<lparr>nspare_spare =
            \<lparr>tagByte0 = oob ! 0, tagByte1 = oob ! 1, tagByte2 = oob ! 2, tagByte3 = oob ! 3,
             pageStatus = (if oob ! 5 AND 0x40 \<noteq> 0 then 0xFF else 0), blockStatus = (if oob ! 5 AND 0x80 \<noteq> 0 then 0xFF else 0x59),
             tagByte4 = oob ! 4, tagByte5 = (if oob ! 5 = 0xFF then 0xFF else oob ! 5 AND 0x3F),
             spare_ecc1 = (0xFF, 0xFF, 0xFF), tagByte6 = oob ! 6, tagByte7 = oob ! 7, spare_ecc2 = (0xFF, 0xFF, 0xFF)\<rparr>,
          eccres1 = 0, eccres2 = 0\<rparr>
      else None)"

text \<open>
  \<open>junk\<close> is what the array \<^verbatim>\<open>spareAsBytes[8]\<close> on the stack holds before it is written.  Without the NAND's ECC
  the driver is asked for \<^verbatim>\<open>YAFFS_BYTES_PER_SPARE\<close> (16) bytes of this array of 8: undefined.
\<close>

definition nandmtd_WriteChunkToNAND :: "'m mtd_device \<Rightarrow> int \<Rightarrow> u8 list option \<Rightarrow> yaffs_Spare option \<Rightarrow> (int \<times> 'm mtd_device) option" where
  "nandmtd_WriteChunkToNAND dev chunkInNAND data spare =
     (let mtd = genericDevice dev;
          addr = chunk_addr dev chunkInNAND
      in case spare of
           None \<Rightarrow>
             (case data of
                None \<Rightarrow> Some (YAFFS_OK, dev)
              | Some d \<Rightarrow>
                  (let (retval, m) = mtd_write mtd (mtd_priv mtd) addr (nDataBytesPerChunk dev) d in Some (mtd_result retval, set_priv dev m)))
         | Some s \<Rightarrow>
             if useNANDECC dev then
               (let ops = \<lparr>ops_mode = MTD_OOB_AUTO, ops_len = (if data \<noteq> None then nDataBytesPerChunk dev else 8), ops_ooblen = 8,
                           ops_ooboffs = 0, ops_datbuf = data, ops_oobbuf = translate_spare2oob s\<rparr>;
                    (retval, m) = mtd_write_oob mtd (mtd_priv mtd) addr ops
                in Some (mtd_result retval, set_priv dev m))
             else None)"

definition nandmtd_ReadChunkFromNAND ::
  "u8 list \<Rightarrow> 'm mtd_device \<Rightarrow> int \<Rightarrow> bool \<Rightarrow> bool \<Rightarrow> (int \<times> u8 list \<times> yaffs_NANDSpare option \<times> 'm mtd_device) option" where
  "nandmtd_ReadChunkFromNAND junk dev chunkInNAND want_data want_spare =
     (let mtd = genericDevice dev;
          addr = chunk_addr dev chunkInNAND
      in if \<not> want_spare then
           (if want_data then
              (let (retval, d, m) = mtd_read mtd (mtd_priv mtd) addr (nDataBytesPerChunk dev) in Some (mtd_result retval, d, None, set_priv dev m))
            else Some (YAFFS_OK, [], None, dev))
         else if useNANDECC dev then
           (let ops = \<lparr>ops_mode = MTD_OOB_AUTO, ops_len = (if want_data then nDataBytesPerChunk dev else 8), ops_ooblen = 8,
                       ops_ooboffs = 0, ops_datbuf = None, ops_oobbuf = junk\<rparr>;
                (retval, d, oob, m) = mtd_read_oob mtd (mtd_priv mtd) addr want_data ops
            in do { spare \<leftarrow> translate_oob2spare oob;
                    Some (mtd_result retval, d, Some spare, set_priv dev m) })
         else None)"

text \<open>The address is cut to 32 bits.\<close>

definition nandmtd_EraseBlockInNAND :: "'m mtd_device \<Rightarrow> int \<Rightarrow> int \<times> 'm mtd_device" where
  "nandmtd_EraseBlockInNAND dev blockNumber =
     (let mtd = genericDevice dev;
          addr = (word_of_int (blockNumber * nDataBytesPerChunk dev * nChunksPerBlock dev) :: u32);
          (retval, m) = mtd_erase mtd (mtd_priv mtd) addr (int32 (nDataBytesPerChunk dev * nChunksPerBlock dev))
      in (mtd_result retval, set_priv dev m))"

definition nandmtd_InitialiseNAND :: "'m mtd_device \<Rightarrow> int" where
  "nandmtd_InitialiseNAND dev = YAFFS_OK"

subsection \<open>Small pages with packed tags: \<^verbatim>\<open>yaffs_mtdif1.c\<close>\<close>

text \<open>
  The first eight bytes of \<^verbatim>\<open>yaffs_PackedTags1\<close> have the layout of \<^verbatim>\<open>yaffs_Tags\<close>; the casts between the two pass
  through these bytes.  \<^verbatim>\<open>CONFIG_YAFFS_9BYTE_TAGS\<close> is not set.
\<close>

definition pt1_tags :: "yaffs_PackedTags1 \<Rightarrow> yaffs_Tags" where
  "pt1_tags pt = \<lparr>tg_chunkId = pt1_chunkId pt, tg_serialNumber = pt1_serialNumber pt, tg_byteCount = pt1_byteCount pt,
     tg_objectId = pt1_objectId pt, tg_ecc = pt1_ecc pt, tg_unusedStuff = ucast (pt1_deleted pt) OR push_bit 1 (ucast (pt1_unusedStuff pt))\<rparr>"

definition tags_pt1 :: "u32 \<Rightarrow> yaffs_Tags \<Rightarrow> yaffs_PackedTags1" where
  "tags_pt1 rest t = \<lparr>pt1_chunkId = tg_chunkId t, pt1_serialNumber = tg_serialNumber t, pt1_byteCount = tg_byteCount t,
     pt1_objectId = tg_objectId t, pt1_ecc = tg_ecc t, pt1_deleted = ucast (tg_unusedStuff t),
     pt1_unusedStuff = ucast (drop_bit 1 (tg_unusedStuff t)), pt1_shouldBeFF = rest\<rparr>"

definition tags_bytes :: "yaffs_Tags \<Rightarrow> u8 list" where
  "tags_bytes t = map (asBytes t) [0..<8]"

definition bytes_tags :: "u8 list \<Rightarrow> yaffs_Tags" where
  "bytes_tags bs = image_tags (foldr (\<lambda>b w. ucast b OR push_bit 8 w) bs 0)"

definition nandmtd1_WriteChunkWithTagsToNAND ::
  "'m mtd_device \<Rightarrow> int \<Rightarrow> u8 list option \<Rightarrow> yaffs_ExtendedTags \<Rightarrow> int \<times> 'm mtd_device" where
  "nandmtd1_WriteChunkWithTagsToNAND dev chunkInNAND data etags =
     (let mtd = genericDevice dev;
          dev = dev\<lparr>nPageWrites := nPageWrites dev + 1\<rparr>;
          pt1 = yaffs_CalcTagsECC (pt1_tags (yaffs_PackTags1 etags));
          pt1 = (if chunkDeleted etags \<noteq> 0
                 then image_tags (- 1)\<lparr>tg_unusedStuff := tg_unusedStuff (image_tags (- 1)) AND NOT 1\<rparr> else pt1);
          ops = \<lparr>ops_mode = MTD_OOB_AUTO, ops_len = (if data \<noteq> None then nDataBytesPerChunk dev else 0), ops_ooblen = 8, ops_ooboffs = 0,
                 ops_datbuf = data, ops_oobbuf = tags_bytes pt1\<rparr>;
          (retval, m) = mtd_write_oob mtd (mtd_priv mtd) (chunk_addr dev chunkInNAND) ops
      in (mtd_result retval, set_priv dev m))"

text \<open>\<^verbatim>\<open>rettags\<close>: the tags that a failed or blank read leaves.\<close>

definition rettags :: "yaffs_ECCResult \<Rightarrow> yaffs_ExtendedTags" where
  "rettags r = zero_tags\<lparr>eccResult := r\<rparr>"

text \<open>
  \<open>junk\<close> is \<^verbatim>\<open>pt1\<close> on the stack before the read, \<open>etags\<close> what the caller's struct holds; no caller passes NULL tags.  The
  result of the check for bad blocks is stored in a field of the tags.
\<close>

definition nandmtd1_ReadChunkWithTagsFromNAND ::
  "u8 list \<Rightarrow> 'm mtd_device \<Rightarrow> int \<Rightarrow> bool \<Rightarrow> yaffs_ExtendedTags \<Rightarrow> (int \<times> u8 list \<times> yaffs_ExtendedTags \<times> 'm mtd_device) option" where
  "nandmtd1_ReadChunkWithTagsFromNAND junk dev chunkInNAND want_data etags =
     (let mtd = genericDevice dev;
          addr = chunk_addr dev chunkInNAND;
          dev = dev\<lparr>nPageReads := nPageReads dev + 1\<rparr>;
          ops = \<lparr>ops_mode = MTD_OOB_AUTO, ops_len = (if want_data then nDataBytesPerChunk dev else 0), ops_ooblen = 8, ops_ooboffs = 0,
                 ops_datbuf = None, ops_oobbuf = junk\<rparr>;
          (retval, data, pt, m) = mtd_read_oob mtd (mtd_priv mtd) addr want_data ops;
          dev = set_priv dev m
      in if retval \<noteq> 0 \<and> retval \<noteq> - EUCLEAN then
           (let dev = (if retval = - EBADMSG then dev\<lparr>eccUnfixed := eccUnfixed dev + 1\<rparr> else dev);
                (bad, m) = mtd_block_isbad mtd m addr
            in Some (YAFFS_FAIL, data, (rettags YAFFS_ECC_RESULT_UNFIXED)\<lparr>blockBad := word_of_int bad\<rparr>, set_priv dev m))
         else do {
           let (eccres, dev) = (if retval = - EUCLEAN then (YAFFS_ECC_RESULT_FIXED, dev\<lparr>eccFixed := eccFixed dev + 1\<rparr>)
                                else (YAFFS_ECC_RESULT_NO_ERROR, dev));
           ff \<leftarrow> yaffs_CheckFF pt 8;
           if ff \<noteq> 0 then Some (YAFFS_OK, data, rettags YAFFS_ECC_RESULT_NO_ERROR, dev)
           else do {
             let tags = bytes_tags (take 8 pt);
             let deleted = (if tg_unusedStuff tags AND 1 = 0 then 1 else 0);
             let (r, tags) = yaffs_CheckECCOnTags (tags\<lparr>tg_unusedStuff := tg_unusedStuff tags OR 1\<rparr>);
             if r \<noteq> 0 \<and> r \<noteq> 1 then
               Some (YAFFS_FAIL, data, rettags YAFFS_ECC_RESULT_UNFIXED, dev\<lparr>tagsEccUnfixed := tagsEccUnfixed dev + 1\<rparr>)
             else do {
               let dev = (if r = 1 then dev\<lparr>tagsEccFixed := tagsEccFixed dev + 1\<rparr> else dev);
               let eccres = (if r = 1 \<and> eccres = YAFFS_ECC_RESULT_NO_ERROR then YAFFS_ECC_RESULT_FIXED else eccres);
               let etags = yaffs_UnpackTags1 etags (tags_pt1 0xFFFFFFFF tags);
               Some (YAFFS_OK, data, etags\<lparr>eccResult := eccres, chunkDeleted := deleted\<rparr>, dev) } } })"

definition nandmtd1_MarkNANDBlockBad :: "'m mtd_device \<Rightarrow> int \<Rightarrow> int \<times> 'm mtd_device" where
  "nandmtd1_MarkNANDBlockBad dev blockNo =
     (let mtd = genericDevice dev;
          blocksize = int32 (nChunksPerBlock dev * nDataBytesPerChunk dev);
          (retval, m) = mtd_block_markbad mtd (mtd_priv mtd) (blocksize * blockNo)
      in (mtd_result retval, set_priv dev m))"

definition nandmtd1_TestPrerequists :: "'m mtd_info \<Rightarrow> int" where
  "nandmtd1_TestPrerequists mtd = (if mtd_oobavail mtd < 8 then YAFFS_FAIL else YAFFS_OK)"

text \<open>State and sequence number are not set when the prerequisites are missing.  \<open>unset\<close> are the tags on the stack.\<close>

definition nandmtd1_QueryNANDBlock ::
  "u8 list \<Rightarrow> yaffs_ExtendedTags \<Rightarrow> 'm mtd_device \<Rightarrow> int \<Rightarrow> (int \<times> (yaffs_BlockState \<times> u32) option \<times> 'm mtd_device) option" where
  "nandmtd1_QueryNANDBlock junk unset dev blockNo =
     (if nandmtd1_TestPrerequists (genericDevice dev) \<noteq> YAFFS_OK then Some (YAFFS_FAIL, None, dev)
      else do {
        (_, _, etags, dev) \<leftarrow> nandmtd1_ReadChunkWithTagsFromNAND junk dev (int32 (blockNo * nChunksPerBlock dev)) False unset;
        Some (YAFFS_OK,
          Some (if blockBad etags \<noteq> 0 then (YAFFS_BLOCK_STATE_DEAD, 0)
                else if chunkUsed etags \<noteq> 0 then (YAFFS_BLOCK_STATE_NEEDS_SCANNING, sequenceNumber etags)
                else (YAFFS_BLOCK_STATE_EMPTY, 0)), dev) })"

subsection \<open>YAFFS2 pages: \<^verbatim>\<open>yaffs_mtdif2.c\<close>\<close>

text \<open>
  The memory image of \<^verbatim>\<open>yaffs_PackedTags2\<close>: the tags, a byte of column parity, three bytes of padding (\<open>pad\<close>), and
  the two line parities.
\<close>

definition packed2_bytes :: "bool \<Rightarrow> u8 list \<Rightarrow> yaffs_PackedTags2 \<Rightarrow> u8 list" where
  "packed2_bytes be pad pt = tagspart_bytes be (pt_t pt) @ [colParity (pt_ecc pt)] @ pad @
     u32_bytes be (lineParity (pt_ecc pt)) @ u32_bytes be (lineParityPrime (pt_ecc pt))"

definition bytes_packed2 :: "bool \<Rightarrow> u8 list \<Rightarrow> yaffs_PackedTags2 option" where
  "bytes_packed2 be bs =
     (if length bs \<ge> 28 then
        Some \<lparr>pt_t = bytes_tagspart be bs,
              pt_ecc = \<lparr>colParity = bs ! 16, lineParity = bytes_u32 be (take 4 (drop 20 bs)), lineParityPrime = bytes_u32 be (take 4 (drop 24 bs))\<rparr>\<rparr>
      else None)"

text \<open>
  \<^verbatim>\<open>BUG()\<close> stops the kernel.  \<open>old\<close> and \<open>pad\<close> are the parts of \<^verbatim>\<open>pt\<close> on the stack that packing leaves alone.
\<close>

definition nandmtd2_WriteChunkWithTagsToNAND ::
  "bool \<Rightarrow> yaffs_ECCOther \<Rightarrow> u8 list \<Rightarrow> 'm mtd_device \<Rightarrow> int \<Rightarrow> u8 list option \<Rightarrow> yaffs_ExtendedTags option \<Rightarrow> (int \<times> 'm mtd_device) option" where
  "nandmtd2_WriteChunkWithTagsToNAND be old pad dev chunkInNAND data tags =
     do { let mtd = genericDevice dev;
          t \<leftarrow> tags;
          pt \<leftarrow> yaffs_PackTags2 be False old t;
          d \<leftarrow> data;
          let ops = \<lparr>ops_mode = MTD_OOB_AUTO, ops_len = nDataBytesPerChunk dev, ops_ooblen = 28, ops_ooboffs = 0,
                     ops_datbuf = Some d, ops_oobbuf = packed2_bytes be pad pt\<rparr>;
          let (retval, m) = mtd_write_oob mtd (mtd_priv mtd) (chunk_addr dev chunkInNAND) ops;
          Some (mtd_result retval, set_priv dev m) }"

definition nandmtd2_ReadChunkWithTagsFromNAND ::
  "bool \<Rightarrow> 'm mtd_device \<Rightarrow> int \<Rightarrow> bool \<Rightarrow> bool \<Rightarrow> (int \<times> u8 list \<times> yaffs_ExtendedTags option \<times> 'm mtd_device) option" where
  "nandmtd2_ReadChunkWithTagsFromNAND be dev chunkInNAND want_data want_tags =
     do { let mtd = genericDevice dev;
          let addr = chunk_addr dev chunkInNAND;
          let (retval, data, dev) =
            (if want_data \<and> \<not> want_tags then
               (let (retval, d, m) = mtd_read mtd (mtd_priv mtd) addr (nDataBytesPerChunk dev) in (retval, d, set_priv dev m))
             else if want_tags then
               (let ops = \<lparr>ops_mode = MTD_OOB_AUTO, ops_len = (if want_data then nDataBytesPerChunk dev else 28), ops_ooblen = 28,
                           ops_ooboffs = 0, ops_datbuf = None, ops_oobbuf = spareBuffer dev\<rparr>;
                    (retval, d, oob, m) = mtd_read_oob mtd (mtd_priv mtd) addr want_data ops
                in (retval, d, (set_priv dev m)\<lparr>spareBuffer := oob\<rparr>))
             else (0, [], dev));
          pt \<leftarrow> bytes_packed2 be (spareBuffer dev);
          tags \<leftarrow> (if want_tags then do {
                    (t, _) \<leftarrow> yaffs_UnpackTags2 be False pt;
                    Some (Some (if retval = - EBADMSG \<and> eccResult t = YAFFS_ECC_RESULT_NO_ERROR
                                then t\<lparr>eccResult := YAFFS_ECC_RESULT_UNFIXED\<rparr> else t)) }
                  else Some None);
          Some (mtd_result retval, data, tags, dev) }"

text \<open>The address of a block, a product of \<^verbatim>\<open>int\<close>s.\<close>

definition block_addr :: "'m mtd_device \<Rightarrow> int \<Rightarrow> int" where
  "block_addr dev blockNo = int32 (int32 (blockNo * nChunksPerBlock dev) * nDataBytesPerChunk dev)"

definition nandmtd2_MarkNANDBlockBad :: "'m mtd_device \<Rightarrow> int \<Rightarrow> int \<times> 'm mtd_device" where
  "nandmtd2_MarkNANDBlockBad dev blockNo =
     (let mtd = genericDevice dev;
          (retval, m) = mtd_block_markbad mtd (mtd_priv mtd) (block_addr dev blockNo)
      in (mtd_result retval, set_priv dev m))"

definition nandmtd2_QueryNANDBlock :: "bool \<Rightarrow> 'm mtd_device \<Rightarrow> int \<Rightarrow> (int \<times> yaffs_BlockState \<times> u32 \<times> 'm mtd_device) option" where
  "nandmtd2_QueryNANDBlock be dev blockNo =
     (let mtd = genericDevice dev;
          (retval, m) = mtd_block_isbad mtd (mtd_priv mtd) (block_addr dev blockNo);
          dev = set_priv dev m
      in if retval \<noteq> 0 then Some (YAFFS_FAIL, YAFFS_BLOCK_STATE_DEAD, 0, dev)
         else do {
           (_, _, t, dev) \<leftarrow> nandmtd2_ReadChunkWithTagsFromNAND be dev (int32 (blockNo * nChunksPerBlock dev)) False True;
           t \<leftarrow> t;
           Some (if chunkUsed t \<noteq> 0 then (YAFFS_OK, YAFFS_BLOCK_STATE_NEEDS_SCANNING, sequenceNumber t, dev)
                 else (YAFFS_OK, YAFFS_BLOCK_STATE_EMPTY, 0, dev)) })"

end
