(* ===== verification/MtdProps.thy ===== *)
theory MtdProps
  imports MtdIf
begin

section \<open>What the MTD drivers keep\<close>

text \<open>
  A page written by a driver and read back: the YAFFS2 driver keeps all of the data and the tags, the YAFFS1 driver of
  \<^verbatim>\<open>yaffs_mtdif.c\<close> keeps the tags only for some object numbers.
\<close>

subsection \<open>Memory images\<close>

lemma bytes_packed2_bytes:
  assumes "length pad = 3"
  shows "bytes_packed2 be (packed2_bytes be pad pt @ rest) = Some pt"
proof -
  have l: "length (tagspart_bytes be (pt_t pt)) = 16" by simp
  have t: "bytes_tagspart be (packed2_bytes be pad pt @ rest) = pt_t pt"
    using bytes_tagspart_bytes [of be "pt_t pt"] by (simp add: bytes_tagspart_def packed2_bytes_def)
  have d: "drop 20 (packed2_bytes be pad pt @ rest) = u32_bytes be (lineParity (pt_ecc pt)) @ u32_bytes be (lineParityPrime (pt_ecc pt)) @ rest"
    "drop 24 (packed2_bytes be pad pt @ rest) = u32_bytes be (lineParityPrime (pt_ecc pt)) @ rest"
    using assms by (simp_all add: packed2_bytes_def)
  have "(packed2_bytes be pad pt @ rest) ! 16 = colParity (pt_ecc pt)" by (simp add: packed2_bytes_def nth_append)
  moreover have "28 \<le> length (packed2_bytes be pad pt @ rest)" using assms by (simp add: packed2_bytes_def)
  ultimately show ?thesis unfolding bytes_packed2_def t d by simp
qed

subsection \<open>YAFFS2 pages\<close>

text \<open>
  What the driver relies on: out-of-band bytes and data that were written without an error are read back at the same
  address, if as many bytes are asked for, and the rest of the buffer is left alone.
\<close>

definition mtd_keeps_oob :: "'m mtd_info \<Rightarrow> bool" where
  "mtd_keeps_oob mtd \<longleftrightarrow>
     (\<forall>s a ops s' data rops. mtd_write_oob mtd s a ops = (0, s') \<and> ops_mode ops = MTD_OOB_AUTO \<and> ops_datbuf ops = Some data \<and>
        ops_mode rops = MTD_OOB_AUTO \<and> ops_len rops = ops_len ops \<and> ops_ooblen rops = ops_ooblen ops \<and> ops_ooboffs rops = ops_ooboffs ops \<and>
        nat (ops_ooblen ops) \<le> length (ops_oobbuf ops) \<and> nat (ops_ooblen ops) \<le> length (ops_oobbuf rops) \<longrightarrow>
        (\<exists>s''. mtd_read_oob mtd s' a True rops =
           (0, data, take (nat (ops_ooblen ops)) (ops_oobbuf ops) @ drop (nat (ops_ooblen ops)) (ops_oobbuf rops), s'')))"

lemma set_priv_fields [simp]:
  "nDataBytesPerChunk (set_priv dev m) = nDataBytesPerChunk dev" "spareBuffer (set_priv dev m) = spareBuffer dev"
  "genericDevice (set_priv dev m) = (genericDevice dev)\<lparr>mtd_priv := m\<rparr>" "chunk_addr (set_priv dev m) c = chunk_addr dev c"
  by (simp_all add: set_priv_def chunk_addr_def)

text \<open>
  C20. A YAFFS2 page through the MTD driver: when the write reports success, reading the page gives back the data and
  all the tags that YAFFS2 keeps, without an error, provided that the MTD layer returns what it stored and the
  spare buffer is large enough for the packed tags.
\<close>

theorem nandmtd2_write_read:
  assumes mtd: "mtd_keeps_oob (genericDevice dev)" and w: "nandmtd2_WriteChunkWithTagsToNAND be old pad dev chunk (Some data) (Some t) = Some (YAFFS_OK, dev')"
    and t: "packable t" "sequenceNumber t \<noteq> 0xFFFFFFFF" and pad: "length pad = 3" and buf: "28 \<le> length (spareBuffer dev)"
  shows "\<exists>dev''. nandmtd2_ReadChunkWithTagsFromNAND be dev' chunk True True =
    Some (YAFFS_OK, data, Some ((kept_tags t)\<lparr>eccResult := YAFFS_ECC_RESULT_NO_ERROR\<rparr>), dev'')"
proof -
  obtain pt where pt: "yaffs_PackTags2 be False old t = Some pt"
    and up: "yaffs_UnpackTags2 be False pt = Some ((kept_tags t)\<lparr>eccResult := YAFFS_ECC_RESULT_NO_ERROR\<rparr>, pt)"
    using unpack_pack_tags2 [OF t] by blast
  let ?m = "genericDevice dev"
  let ?ops = "\<lparr>ops_mode = MTD_OOB_AUTO, ops_len = nDataBytesPerChunk dev, ops_ooblen = 28, ops_ooboffs = 0, ops_datbuf = Some data, ops_oobbuf = packed2_bytes be pad pt\<rparr>"
  let ?rops = "?ops\<lparr>ops_datbuf := None, ops_oobbuf := spareBuffer dev\<rparr>"
  have len: "length (packed2_bytes be pad pt) = 28" using pad by (simp add: packed2_bytes_def)
  obtain s' where s': "mtd_write_oob ?m (mtd_priv ?m) (chunk_addr dev chunk) ?ops = (0, s')" and dev': "dev' = set_priv dev s'"
    using w pt by (auto simp: nandmtd2_WriteChunkWithTagsToNAND_def Let_def mtd_result_def case_prod_beta prod_eq_iff split: if_splits)
  obtain s'' where "mtd_read_oob ?m s' (chunk_addr dev chunk) True ?rops = (0, data, packed2_bytes be pad pt @ drop 28 (spareBuffer dev), s'')"
    using mtd [unfolded mtd_keeps_oob_def, rule_format, of "mtd_priv ?m" "chunk_addr dev chunk" ?ops s' data ?rops] s' len buf by auto
  then show ?thesis
    by (simp add: nandmtd2_ReadChunkWithTagsFromNAND_def dev' bytes_packed2_bytes [OF pad] up mtd_result_def)
qed

text \<open>A chip that keeps its pages in a map.\<close>

definition map_chip :: "(int \<Rightarrow> u8 list \<times> u8 list) mtd_info" where
  "map_chip = \<lparr>mtd_priv = (\<lambda>_. ([], [])), mtd_read = (\<lambda>s a n. (0, fst (s a), s)), mtd_write = (\<lambda>s a n d. (0, s(a := (d, snd (s a))))),
     mtd_read_oob = (\<lambda>s a w ops. (0, fst (s a), take (nat (ops_ooblen ops)) (snd (s a)) @ drop (nat (ops_ooblen ops)) (ops_oobbuf ops), s)),
     mtd_write_oob = (\<lambda>s a ops. (0, s(a := (case ops_datbuf ops of Some d \<Rightarrow> d | None \<Rightarrow> fst (s a), ops_oobbuf ops)))),
     mtd_erase = (\<lambda>s a n. (0, \<lambda>_. ([], []))), mtd_block_isbad = (\<lambda>s a. (0, s)), mtd_block_markbad = (\<lambda>s a. (0, s)), mtd_oobavail = 28\<rparr>"

lemma map_chip_keeps: "mtd_keeps_oob map_chip"
  by (simp add: mtd_keeps_oob_def map_chip_def)

theorem nandmtd2_write_read_witness:
  "\<forall>dev :: (int \<Rightarrow> u8 list \<times> u8 list) mtd_device. \<exists>dev' dev''.
     nandmtd2_WriteChunkWithTagsToNAND True \<lparr>colParity = 0, lineParity = 0, lineParityPrime = 0\<rparr> [1, 2, 3]
       (dev\<lparr>genericDevice := map_chip, spareBuffer := replicate 64 0\<rparr>) 7 (Some [5, 6]) (Some sample_header) = Some (YAFFS_OK, dev') \<and>
     nandmtd2_ReadChunkWithTagsFromNAND True dev' 7 True True =
       Some (YAFFS_OK, [5, 6], Some ((kept_tags sample_header)\<lparr>eccResult := YAFFS_ECC_RESULT_NO_ERROR\<rparr>), dev'')"
proof
  fix dev :: "(int \<Rightarrow> u8 list \<times> u8 list) mtd_device"
  let ?old = "\<lparr>colParity = 0, lineParity = 0, lineParityPrime = 0\<rparr>" and ?dev = "dev\<lparr>genericDevice := map_chip, spareBuffer := replicate 64 0\<rparr>"
  obtain pt where "yaffs_PackTags2 True False ?old sample_header = Some pt" using PackTags2_total by blast
  then obtain dev' where w: "nandmtd2_WriteChunkWithTagsToNAND True ?old [1, 2, 3] ?dev 7 (Some [5, 6]) (Some sample_header) = Some (YAFFS_OK, dev')"
    by (simp add: nandmtd2_WriteChunkWithTagsToNAND_def Let_def map_chip_def mtd_result_def)
  have "sequenceNumber sample_header \<noteq> 0xFFFFFFFF" by (simp add: sample_header_def zero_tags_def)
  from nandmtd2_write_read [OF _ w packable_samples(2) this] w map_chip_keeps
  show "\<exists>dev' dev''. nandmtd2_WriteChunkWithTagsToNAND True ?old [1, 2, 3] ?dev 7 (Some [5, 6]) (Some sample_header) = Some (YAFFS_OK, dev') \<and>
     nandmtd2_ReadChunkWithTagsFromNAND True dev' 7 True True =
       Some (YAFFS_OK, [5, 6], Some ((kept_tags sample_header)\<lparr>eccResult := YAFFS_ECC_RESULT_NO_ERROR\<rparr>), dev'')"
    by auto
qed

subsection \<open>YAFFS1 pages\<close>

text \<open>The sixth tag byte on its way through the out-of-band area of a page in use.\<close>

definition tagByte5_read :: "u8 \<Rightarrow> u8" where
  "tagByte5_read b = (let x = (b AND 0x3F) OR 0x80 OR 0x40 in if x = 0xFF then 0xFF else x AND 0x3F)"

lemma tagByte5_table: "list_all (\<lambda>n. let b = word_of_nat n in (tagByte5_read b = b) = (b < 0x3F \<or> b = 0xFF)) [0..<256]"
  by code_simp

lemma tagByte5_kept: "tagByte5_read b = b \<longleftrightarrow> b < 0x3F \<or> b = 0xFF"
proof -
  have "\<forall>b. (tagByte5_read b = b) = (b < 0x3F \<or> b = 0xFF)"
    using tagByte5_table unfolding bit_all_u8 by (simp only: list_all_iff set_upt Let_def) auto
  then show ?thesis by blast
qed

lemma spare_union_eq_iff:
  assumes "tagByte0 s = tagByte0 s'" "tagByte1 s = tagByte1 s'" "tagByte2 s = tagByte2 s'" "tagByte3 s = tagByte3 s'" "tagByte4 s = tagByte4 s'"
    "tagByte6 s = tagByte6 s'" "tagByte7 s = tagByte7 s'"
  shows "spare_union s = spare_union s' \<longleftrightarrow> tagByte5 s = tagByte5 s'"
proof
  assume eq: "spare_union s = spare_union s'"
  have "bit (tagByte5 x) n = bit (spare_union x) (n + 40)" if "n < 8" for x n
    using that by (auto simp: spare_union_def bit_or_iff bit_push_bit_iff bit_ucast_iff)
  then show "tagByte5 s = tagByte5 s'" using eq by (auto intro!: bit_word_eqI)
qed (use assms in \<open>simp add: spare_union_def\<close>)

lemma asBytes_5: "asBytes t 5 = ucast (drop_bit 8 (tg_objectId t))"
  by (rule bit_word_eqI) (auto simp: asBytes_bit bit_tags_image bit_ucast_iff bit_drop_bit_eq)

text \<open>
  C40. The YAFFS1 driver of \<^verbatim>\<open>yaffs_mtdif.c\<close> squeezes the page and block status into the two top bits of the sixth tag
  byte, which belong to the object number.  The tags of a page in use are read back as they were written exactly
  if bits 8 to 15 of the object number are below 63 or all ones: object number 16128 is the first that is lost.
\<close>

theorem mtdif_keeps_tags_iff:
  assumes "translate_oob2spare (translate_spare2oob (yaffs_LoadTagsIntoSpare yaffs_SpareInitialise t)) = Some ns"
  shows "spare_union (nspare_spare ns) = tags_image (yaffs_CalcTagsECC t) \<longleftrightarrow>
    (ucast (drop_bit 8 (tg_objectId t)) :: u8) < 0x3F \<or> (ucast (drop_bit 8 (tg_objectId t)) :: u8) = 0xFF"
proof -
  let ?s = "yaffs_LoadTagsIntoSpare yaffs_SpareInitialise t"
  have b: "tagByte5 ?s = ucast (drop_bit 8 (tg_objectId t))"
    using asBytes_5 [of "yaffs_CalcTagsECC t"] by (simp add: yaffs_LoadTagsIntoSpare_def Let_def)
  have st: "pageStatus ?s = 0xFF" "blockStatus ?s = 0xFF" by (simp_all add: yaffs_LoadTagsIntoSpare_def yaffs_SpareInitialise_def Let_def)
  have "spare_union (nspare_spare ns) = spare_union ?s \<longleftrightarrow> tagByte5 (nspare_spare ns) = tagByte5 ?s"
    using assms by (intro spare_union_eq_iff) (auto simp: translate_oob2spare_def translate_spare2oob_def)
  also have "tagByte5 (nspare_spare ns) = tagByte5_read (tagByte5 ?s)"
    using assms by (auto simp: translate_oob2spare_def translate_spare2oob_def tagByte5_read_def st)
  also note tagByte5_kept
  finally show ?thesis unfolding b spare_union_Load .
qed

theorem mtdif_keeps_tags_iff_witness:
  "\<exists>ns. translate_oob2spare (translate_spare2oob (yaffs_LoadTagsIntoSpare yaffs_SpareInitialise (sample_tags\<lparr>tg_objectId := 16128\<rparr>))) = Some ns \<and>
     spare_union (nspare_spare ns) \<noteq> tags_image (yaffs_CalcTagsECC (sample_tags\<lparr>tg_objectId := 16128\<rparr>))"
proof -
  obtain ns where "translate_oob2spare (translate_spare2oob (yaffs_LoadTagsIntoSpare yaffs_SpareInitialise (sample_tags\<lparr>tg_objectId := 16128\<rparr>))) = Some ns"
    by (simp add: translate_oob2spare_def translate_spare2oob_def)
  with mtdif_keeps_tags_iff [OF this] show ?thesis by simp
qed

end
