(* ===== verification/Morse.thy ===== *)
theory Morse
  imports Prelude
begin

section \<open>The morse LED trigger\<close>

text \<open>
  \<^verbatim>\<open>drivers/leds/ledtrig-morse.c\<close>: a LED blinks a message in morse code.  The driver is a state machine that a timer
  drives; \<open>morse_timer_function\<close> is one expiry.  An \<^verbatim>\<open>unsigned long\<close> has 32 bits on the processors of this tree.  A message
  is the list of its bytes with the NUL that ends it, \<open>msgpos\<close> an index into it (\<open>None\<close> is NULL); reading outside
  the message is undefined (\<open>None\<close>).  The pending timer is the number of milliseconds or jiffies it was set to.
  Allocation, string conversion and the creation of sysfs files belong to the kernel and are parameters.
\<close>

datatype morse_timer = Jiffies u32 | Msecs u32

record morse_trig_data =
  mo_delay :: u32
  mo_msg :: "u8 list option"
  mo_morse :: u8
  mo_state :: u8
  mo_msgpos :: "nat option"
  mo_timer :: "morse_timer option"

abbreviation (input) "MORSE_STATE_BLINK_START \<equiv> (0 :: u8)"
abbreviation (input) "MORSE_STATE_BLINK_STOP \<equiv> (1 :: u8)"
abbreviation (input) "LED_OFF \<equiv> (0 :: u32)"
abbreviation (input) "LED_FULL \<equiv> (255 :: u32)"

definition morsetable :: "u8 list" where
  "morsetable =
    [82, 0, 200, 0, 0, 115,
     45, 109, 0, 0, 115, 97, 106, 41,
     63, 62, 60, 56, 48, 32, 33, 35, 39, 47,
     71, 85, 0, 49, 0, 76, 0,
     6, 17, 21, 9, 2, 20, 11, 16, 4,
     30, 13, 18, 7, 5, 15, 22, 27, 10,
     8, 3, 12, 24, 14, 25, 29, 19,
     0, 0, 0, 0, 108]"

definition tomorse :: "u8 \<Rightarrow> u8" where
  "tomorse c =
     (let c = (if c \<ge> 97 \<and> c \<le> 122 then c - 97 + 65 else c)
      in if c \<ge> 34 \<and> c \<le> 95 then morsetable ! unat (c - 34) else 0)"

definition dit_len :: "morse_trig_data \<Rightarrow> u32" where
  "dit_len d = 1 * mo_delay d"

definition dah_len :: "morse_trig_data \<Rightarrow> u32" where
  "dah_len d = 3 * mo_delay d"

definition space_len :: "morse_trig_data \<Rightarrow> u32" where
  "space_len d = 7 * mo_delay d"

text \<open>The case of the switch in which a new character is fetched; the result is the delay.\<close>

definition next_char :: "u8 list \<Rightarrow> morse_trig_data \<Rightarrow> (u32 \<times> morse_trig_data) option" where
  "next_char msg d =
     (let pos = (case mo_msgpos d of None \<Rightarrow> 0 | Some i \<Rightarrow> i)
      in if pos \<ge> length msg then None
         else
           (let (pos, delay) = (if msg ! pos = 0 then (0, space_len d) else (pos, dah_len d));
                d = d\<lparr>mo_morse := tomorse (msg ! pos)\<rparr>;
                (d, delay) = (if mo_morse d = 0 then (d\<lparr>mo_state := MORSE_STATE_BLINK_STOP\<rparr>, space_len d) else (d, delay))
            in Some (delay, d\<lparr>mo_msgpos := Some (pos + 1)\<rparr>)))"

text \<open>One expiry of the timer gives the brightness.  A state other than the two sets the timer to 0.\<close>

definition morse_timer_function :: "morse_trig_data \<Rightarrow> (u32 \<times> morse_trig_data) option" where
  "morse_timer_function d =
     (case mo_msg d of
        None \<Rightarrow> Some (LED_OFF, d\<lparr>mo_timer := None\<rparr>)
      | Some msg \<Rightarrow>
          do { (brightness, delay, d) \<leftarrow>
                 (if mo_state d = MORSE_STATE_BLINK_START then
                    Some (LED_FULL, if mo_morse d AND 1 \<noteq> 0 then dah_len d else dit_len d,
                          d\<lparr>mo_state := MORSE_STATE_BLINK_STOP, mo_morse := drop_bit 1 (mo_morse d)\<rparr>)
                  else if mo_state d = MORSE_STATE_BLINK_STOP then
                    (let d = d\<lparr>mo_state := MORSE_STATE_BLINK_START\<rparr>
                     in if mo_morse d > 1 then Some (LED_OFF, dit_len d, d)
                        else do { (delay, d) \<leftarrow> next_char msg d; Some (LED_OFF, delay, d) })
                  else Some (LED_OFF, 0, d));
               Some (brightness, d\<lparr>mo_timer := Some (Msecs delay)\<rparr>) })"

subsection \<open>The attributes in sysfs\<close>

abbreviation (input) "EINVAL \<equiv> (22 :: int)"
abbreviation (input) "ENOMEM \<equiv> (12 :: int)"

text \<open>
  \<open>strtoul\<close> gives the number at the start of a text and how many bytes it takes.  The byte after it is the
  NUL at the end of the text if there is no other.
\<close>

definition morse_delay_store :: "(u8 list \<Rightarrow> u32 \<times> nat) \<Rightarrow> (u8 \<Rightarrow> bool) \<Rightarrow> u8 list \<Rightarrow> morse_trig_data \<Rightarrow> int \<times> morse_trig_data" where
  "morse_delay_store strtoul isspace buf d =
     (let (state, n) = strtoul buf;
          after = (if n < length buf then buf ! n else 0);
          count = (if after \<noteq> 0 \<and> isspace after then n + 1 else n)
      in if count = length buf then (int count, d\<lparr>mo_delay := state, mo_timer := Some (Jiffies 1)\<rparr>) else (- EINVAL, d))"

text \<open>
  \<open>kmalloc n\<close> is the size of the block that a request for \<open>n\<close> bytes gets, at least \<open>n\<close>, or \<open>None\<close>.  The NUL is stored
  one byte after the part of the block that was asked for: this is undefined unless the block is larger.
\<close>

definition morse_msg_store :: "(nat \<Rightarrow> nat option) \<Rightarrow> u8 list \<Rightarrow> morse_trig_data \<Rightarrow> (int \<times> morse_trig_data) option" where
  "morse_msg_store kmalloc buf d =
     (case kmalloc (length buf) of
        None \<Rightarrow> Some (- ENOMEM, d)
      | Some room \<Rightarrow>
          if length buf < room then
            Some (int (length buf), d\<lparr>mo_msg := Some (buf @ [0]), mo_msgpos := None, mo_state := MORSE_STATE_BLINK_STOP, mo_timer := Some (Jiffies 1)\<rparr>)
          else None)"

text \<open>The text up to the first NUL.\<close>

definition morse_msg_show :: "morse_trig_data \<Rightarrow> u8 list \<times> int" where
  "morse_msg_show d =
     (let text = (case mo_msg d of None \<Rightarrow> [60, 110, 111, 110, 101, 62, 10] | Some m \<Rightarrow> takeWhile (\<lambda>c. c \<noteq> 0) m @ [10])
      in (text, int (length text) + 1))"

subsection \<open>Activation\<close>

text \<open>The LED: the data of its trigger and the sysfs files \<open>delay\<close> and \<open>message\<close>.  \<open>base\<close> is \<^verbatim>\<open>HZ/2\<close>.\<close>

record led_classdev =
  trigger_data :: "morse_trig_data option"
  file_delay :: bool
  file_message :: bool

definition morse_trig_activate :: "u32 \<Rightarrow> bool \<Rightarrow> int \<Rightarrow> int \<Rightarrow> led_classdev \<Rightarrow> led_classdev" where
  "morse_trig_activate base allocated rc_delay rc_message led =
     (if \<not> allocated then led
      else if rc_delay \<noteq> 0 then led
      else
        (let led = led\<lparr>file_delay := True\<rparr>
         in if rc_message \<noteq> 0 then led\<lparr>file_delay := False\<rparr>
            else led\<lparr>file_message := True,
                     trigger_data := Some \<lparr>mo_delay = base, mo_msg = None, mo_morse = 0, mo_state = 0, mo_msgpos = None, mo_timer = None\<rparr>\<rparr>))"

text \<open>The data is freed, but \<open>trigger_data\<close> still points to it.\<close>

definition morse_trig_deactivate :: "led_classdev \<Rightarrow> led_classdev" where
  "morse_trig_deactivate led =
     (case trigger_data led of
        None \<Rightarrow> led
      | Some d \<Rightarrow> led\<lparr>file_message := False, file_delay := False, trigger_data := Some (d\<lparr>mo_timer := None, mo_msg := None\<rparr>)\<rparr>)"

subsection \<open>The message stays in bounds\<close>

definition morse_ok :: "morse_trig_data \<Rightarrow> bool" where
  "morse_ok d \<longleftrightarrow> (\<forall>m. mo_msg d = Some m \<longrightarrow> 2 \<le> length m \<and> last m = 0 \<and> (\<forall>i. mo_msgpos d = Some i \<longrightarrow> i < length m))"

lemma last_nth:
  assumes "2 \<le> length m" "last m = x" "m ! i \<noteq> x" "i < length m"
  shows "i + 1 < length m"
proof -
  have "m \<noteq> []" using assms(1) by auto
  then have "m ! (length m - 1) = x" using assms(2) last_conv_nth by metis
  then have "i \<noteq> length m - 1" using assms(3) by auto
  then show ?thesis using assms(4) by simp
qed

lemma next_char_ok:
  assumes "morse_ok d" and "mo_msg d = Some m"
  shows "\<exists>delay d'. next_char m d = Some (delay, d') \<and> morse_ok d'"
proof -
  let ?p = "case mo_msgpos d of None \<Rightarrow> 0 | Some i \<Rightarrow> i"
  have m: "2 \<le> length m" "last m = 0" using assms by (simp_all add: morse_ok_def)
  have p: "?p < length m" using assms by (auto simp: morse_ok_def split: option.split)
  have q: "m ! ?p \<noteq> 0 \<Longrightarrow> ?p + 1 < length m" using last_nth [OF m(1,2) _ p] by simp
  show ?thesis
    using p q m assms(2) by (simp add: next_char_def Let_def morse_ok_def split: if_split)
qed

lemma timer_ok:
  assumes "morse_ok d"
  shows "\<exists>b d'. morse_timer_function d = Some (b, d') \<and> morse_ok d'"
proof (cases "mo_msg d")
  case None
  then show ?thesis by (simp add: morse_timer_function_def morse_ok_def)
next
  case (Some m)
  have t: "morse_ok (d\<lparr>mo_timer := x\<rparr>) = morse_ok d" "morse_ok (d\<lparr>mo_state := y\<rparr>) = morse_ok d" "morse_ok (d\<lparr>mo_morse := z\<rparr>) = morse_ok d" for d x y z
    by (simp_all add: morse_ok_def)
  obtain delay d' where "next_char m (d\<lparr>mo_state := 0\<rparr>) = Some (delay, d')" "morse_ok d'"
    using next_char_ok [of "d\<lparr>mo_state := 0\<rparr>" m] assms Some t by auto
  then show ?thesis
    using Some assms t by (simp add: morse_timer_function_def Let_def)
qed

subsection \<open>What the LED shows\<close>

text \<open>\<open>n\<close> expiries of the timer: what the LED is set to and for how long.\<close>

primrec morse_run :: "nat \<Rightarrow> morse_trig_data \<Rightarrow> ((u32 \<times> morse_timer option) list \<times> morse_trig_data) option" where
  "morse_run 0 d = Some ([], d)"
| "morse_run (Suc n) d =
     do { (b, d) \<leftarrow> morse_timer_function d;
          (out, d') \<leftarrow> morse_run n d;
          Some ((b, mo_timer d) # out, d') }"

lemma morse_run_add:
  "morse_run m d = Some (out1, d1) \<Longrightarrow> morse_run n d1 = Some (out2, d2) \<Longrightarrow> morse_run (m + n) d = Some (out1 @ out2, d2)"
  by (induction m arbitrary: d out1) (auto simp: bind_eq_Some_conv)

text \<open>The reference: the bits of a code below its leading one, the lowest first; a set bit is a dah.\<close>

fun code_bits :: "nat \<Rightarrow> bool list" where
  "code_bits n = (if n \<le> 1 then [] else odd n # code_bits (n div 2))"

fun pulses :: "u32 \<Rightarrow> bool list \<Rightarrow> (u32 \<times> morse_timer option) list" where
  "pulses t [] = []"
| "pulses t [b] = [(LED_FULL, Some (Msecs (if b then 3 * t else t)))]"
| "pulses t (b # bs) = (LED_FULL, Some (Msecs (if b then 3 * t else t))) # (LED_OFF, Some (Msecs t)) # pulses t bs"

definition letter :: "u32 \<Rightarrow> u8 \<Rightarrow> (u32 \<times> morse_timer option) list" where
  "letter t c = (if tomorse c = 0 then [(LED_OFF, Some (Msecs (7 * t)))]
     else (LED_OFF, Some (Msecs (3 * t))) # pulses t (code_bits (unat (tomorse c))))"

declare code_bits.simps [simp del]

lemma blink_run:
  assumes "1 < unat (mo_morse d)" "mo_state d = 0" "mo_msg d = Some msg"
  shows "\<exists>t. morse_run (length (pulses (mo_delay d) (code_bits (unat (mo_morse d))))) d =
    Some (pulses (mo_delay d) (code_bits (unat (mo_morse d))), d\<lparr>mo_state := 1, mo_morse := 1, mo_timer := t\<rparr>)"
  using assms
proof (induction "unat (mo_morse d)" arbitrary: d rule: less_induct)
  case less
  let ?m = "mo_morse d" and ?t = "mo_delay d"
  have odd: "?m AND 1 \<noteq> 0 \<longleftrightarrow> odd (unat ?m)"
    by (simp add: and_one_eq word_unat_eq_iff unat_mod_distrib odd_iff_mod_2_eq_one)
  have half: "unat (drop_bit 1 ?m) = unat ?m div 2" by (simp add: unat_div_distrib drop_bit_eq_div)
  let ?on = "(LED_FULL, Some (Msecs (if odd (unat ?m) then 3 * ?t else ?t)))"
  let ?d1 = "d\<lparr>mo_state := 1, mo_morse := drop_bit 1 ?m, mo_timer := snd ?on\<rparr>"
  have s1: "morse_timer_function d = Some (fst ?on, ?d1)"
    using less.prems odd by (simp add: morse_timer_function_def dah_len_def dit_len_def)
  show ?case
  proof (cases "unat ?m div 2 = 1")
    case True
    then have "drop_bit 1 ?m = 1" using half by (simp add: word_unat_eq_iff)
    moreover have "code_bits (unat ?m) = [odd (unat ?m)]"
      using True less.prems by (subst code_bits.simps) (simp add: code_bits.simps)
    ultimately show ?thesis using s1 by auto
  next
    case False
    then have gt: "1 < unat ?m div 2" using less.prems by linarith
    let ?d2 = "?d1\<lparr>mo_state := 0, mo_timer := Some (Msecs ?t)\<rparr>"
    have s2: "morse_timer_function ?d1 = Some (LED_OFF, ?d2)"
      using less.prems gt half by (simp add: morse_timer_function_def dit_len_def word_less_nat_alt Let_def)
    obtain t where r: "morse_run (length (pulses ?t (code_bits (unat ?m div 2)))) ?d2 =
        Some (pulses ?t (code_bits (unat ?m div 2)), ?d2\<lparr>mo_state := 1, mo_morse := 1, mo_timer := t\<rparr>)"
      using less.hyps [of ?d2] gt half less.prems by auto
    obtain b bs where bs: "code_bits (unat ?m div 2) = b # bs" using gt code_bits.simps [of "unat ?m div 2"] by simp
    have "code_bits (unat ?m) = odd (unat ?m) # b # bs"
      using less.prems bs by (subst code_bits.simps) simp
    then show ?thesis using s1 s2 r bs by auto
  qed
qed

lemma morsetable_codes: "list_all (\<lambda>m. m = 0 \<or> 1 < m) morsetable" "length morsetable = 62"
  by (simp_all add: morsetable_def)

lemma tomorse_code: "tomorse c = 0 \<or> 1 < unat (tomorse c)"
proof -
  have "morsetable ! unat (x - 34) = 0 \<or> 1 < unat (morsetable ! unat (x - 34))" if "34 \<le> x" "x \<le> 95" for x :: u8
  proof -
    have "unat (x - 34) < length morsetable" using that by (simp add: morsetable_codes(2) unat_sub word_le_nat_alt)
    then have "morsetable ! unat (x - 34) \<in> set morsetable" by simp
    then show ?thesis using morsetable_codes(1) by (auto simp: list_all_iff word_less_nat_alt)
  qed
  then show ?thesis by (simp add: tomorse_def Let_def)
qed

text \<open>One character, from the pause before it to the end of its last blink.\<close>

lemma letter_run:
  assumes "mo_state d = 1" "mo_morse d \<le> 1" "mo_msg d = Some msg" "mo_msgpos d = Some i \<or> mo_msgpos d = None \<and> i = 0" "i < length msg" "msg ! i \<noteq> 0"
  shows "\<exists>t m. m \<le> 1 \<and> morse_run (length (letter (mo_delay d) (msg ! i))) d =
    Some (letter (mo_delay d) (msg ! i), d\<lparr>mo_morse := m, mo_msgpos := Some (i + 1), mo_timer := t\<rparr>)"
proof -
  have i: "(case mo_msgpos d of None \<Rightarrow> 0 | Some i \<Rightarrow> i) = i" using assms(4) by auto
  let ?c = "msg ! i" and ?t = "mo_delay d"
  note step = morse_timer_function_def next_char_def Let_def dah_len_def space_len_def
  show ?thesis
  proof (cases "tomorse ?c = 0")
    case True
    then have "morse_timer_function d = Some (LED_OFF, d\<lparr>mo_morse := 0, mo_msgpos := Some (i + 1), mo_timer := Some (Msecs (7 * ?t))\<rparr>)"
      using assms i by (simp add: step)
    then show ?thesis using True by (auto simp: letter_def intro!: exI [of _ "Some (Msecs (7 * ?t))"] exI [of _ "0 :: u8"])
  next
    case False
    let ?d1 = "d\<lparr>mo_state := 0, mo_morse := tomorse ?c, mo_msgpos := Some (i + 1), mo_timer := Some (Msecs (3 * ?t))\<rparr>"
    have s: "morse_timer_function d = Some (LED_OFF, ?d1)" using False assms i by (simp add: step)
    obtain t where "morse_run (length (pulses ?t (code_bits (unat (tomorse ?c))))) ?d1 =
        Some (pulses ?t (code_bits (unat (tomorse ?c))), ?d1\<lparr>mo_state := 1, mo_morse := 1, mo_timer := t\<rparr>)"
      using blink_run [of ?d1 msg] tomorse_code [of ?c] False assms(3) by auto
    moreover have "?d1\<lparr>mo_state := 1, mo_morse := 1, mo_timer := t\<rparr> = d\<lparr>mo_morse := 1, mo_msgpos := Some (i + 1), mo_timer := t\<rparr>"
      using assms(1) by (cases d) simp
    ultimately have "morse_run (length (letter ?t ?c)) d = Some (letter ?t ?c, d\<lparr>mo_morse := 1, mo_msgpos := Some (i + 1), mo_timer := t\<rparr>)"
      using s False by (simp add: letter_def)
    then show ?thesis by blast
  qed
qed

lemma message_run:
  assumes "mo_state d = 1" "mo_morse d \<le> 1" "mo_msg d = Some msg" "mo_msgpos d = Some i \<or> mo_msgpos d = None \<and> i = 0"
    and "\<forall>c \<in> set cs. c \<noteq> 0" "drop i msg = cs @ rest" "i \<le> length msg" "cs \<noteq> []"
  shows "\<exists>t m. m \<le> 1 \<and> morse_run (length (concat (map (letter (mo_delay d)) cs))) d =
    Some (concat (map (letter (mo_delay d)) cs), d\<lparr>mo_morse := m, mo_msgpos := Some (i + length cs), mo_timer := t\<rparr>)"
  using assms
proof (induction cs arbitrary: d i)
  case (Cons c cs)
  have i: "i < length msg" "msg ! i = c"
  proof -
    show "i < length msg" using Cons.prems(6) by (metis append_Cons drop_eq_Nil linorder_not_le list.distinct(1))
    then show "msg ! i = c" using Cons.prems(6) by (metis append_Cons hd_drop_conv_nth list.sel(1))
  qed
  obtain t m where m: "m \<le> 1" and r: "morse_run (length (letter (mo_delay d) c)) d =
      Some (letter (mo_delay d) c, d\<lparr>mo_morse := m, mo_msgpos := Some (i + 1), mo_timer := t\<rparr>)" (is "_ = Some (_, ?d1)")
    using letter_run [OF Cons.prems(1-4) i(1)] i(2) Cons.prems(5) by auto
  show ?case
  proof (cases "cs = []")
    case True
    then show ?thesis using r m by auto
  next
    case False
    have "drop (i + 1) msg = cs @ rest" using Cons.prems(6) by (metis append_Cons drop_drop drop_Suc_Cons drop0 add.commute One_nat_def)
    then obtain t' m' where "m' \<le> 1" and r': "morse_run (length (concat (map (letter (mo_delay d)) cs))) ?d1 =
        Some (concat (map (letter (mo_delay d)) cs), ?d1\<lparr>mo_morse := m', mo_msgpos := Some (i + 1 + length cs), mo_timer := t'\<rparr>)"
      using Cons.IH [of ?d1 "i + 1"] Cons.prems(1,3,5) m i(1) False by auto
    then show ?thesis using morse_run_add [OF r r'] by (auto intro!: exI [of _ m'])
  qed
qed simp



end
