(* ===== verification/VfsOps.thy ===== *)
theory VfsOps
  imports Mount
begin

section \<open>The interface to the kernel\<close>

text \<open>
  \<^verbatim>\<open>yaffs_fs.c\<close>, as compiled for the kernels of this tree (after 2.6.17): what the virtual file system calls.  Every
  function takes the device's lock around its calls into \<^verbatim>\<open>yaffs_guts.c\<close>, so each is one step on the state.  Inodes,
  dentries and pages are the kernel's: an operation gets the fields it reads and returns the ones it changes.
  \<open>iget\<close> is the kernel's look-up of an inode by number, which may call \<open>yaffs_read_inode\<close>.  An \<^verbatim>\<open>unsigned long\<close> has 32 bits,
  a page 4096 bytes.  Tracing and the file below \<^verbatim>\<open>/proc\<close> are left out.
\<close>

abbreviation (input) "PAGE_CACHE_SHIFT \<equiv> (12 :: nat)"
abbreviation (input) "PAGE_CACHE_SIZE \<equiv> (4096 :: int)"
abbreviation (input) "EPERM \<equiv> (1 :: int)"
abbreviation (input) "ENOMEM \<equiv> (12 :: int)"
abbreviation (input) "EINVAL \<equiv> (22 :: int)"
abbreviation (input) "ENOSPC \<equiv> (28 :: int)"
abbreviation (input) "ENOTEMPTY \<equiv> (39 :: int)"
abbreviation (input) "S_IFREG \<equiv> (0x8000 :: u32)"
abbreviation (input) "S_IFLNK \<equiv> (0xA000 :: u32)"
abbreviation (input) "S_ISGID \<equiv> (0x400 :: u32)"

datatype inode_ops = SpecialInode | FileInode | DirectoryInode | SymlinkInode

record inode =
  i_ino :: u32
  i_mode :: u32
  i_uid :: u32
  i_gid :: u32
  i_rdev :: u32
  i_atime :: u32
  i_mtime :: u32
  i_ctime :: u32
  i_size :: int
  i_blocks :: int
  i_nlink :: u32
  i_version :: u32
  i_op :: inode_ops
  i_private :: "yaffs_addr option"

type_synonym 'n inode_lookup = "u32 \<Rightarrow> 'n yaffs_State \<Rightarrow> (inode option \<times> 'n yaffs_State) option"

subsection \<open>Inodes and objects\<close>

text \<open>The file type bits of the mode are made to agree with the type of the object.\<close>

definition repair_mode :: "yaffs_Object \<Rightarrow> u32" where
  "repair_mode ob =
     (let mode = yst_mode ob;
          with_type = (\<lambda>t. if mode AND S_IFMT \<noteq> t then (mode AND NOT S_IFMT) OR t else mode)
      in if variantType ob = YAFFS_OBJECT_TYPE_FILE then with_type S_IFREG
         else if variantType ob = YAFFS_OBJECT_TYPE_SYMLINK then with_type S_IFLNK
         else if variantType ob = YAFFS_OBJECT_TYPE_DIRECTORY then with_type S_IFDIR
         else mode)"

definition mode_ops :: "u32 \<Rightarrow> inode_ops" where
  "mode_ops mode =
     (if mode AND S_IFMT = S_IFREG then FileInode
      else if mode AND S_IFMT = S_IFDIR then DirectoryInode
      else if mode AND S_IFMT = S_IFLNK then SymlinkInode
      else SpecialInode)"

text \<open>\<open>decode_dev\<close> is the kernel's conversion of a device number.\<close>

definition yaffs_FillInodeFromObject ::
  "(u32 \<Rightarrow> u32) \<Rightarrow> yaffs_Config \<Rightarrow> inode \<Rightarrow> yaffs_addr option \<Rightarrow> 'n yaffs_State \<Rightarrow> (inode \<times> 'n yaffs_State) option" where
  "yaffs_FillInodeFromObject decode_dev cfg inode obj fs =
     (case obj of
        None \<Rightarrow> Some (inode, fs)
      | Some a \<Rightarrow> do {
          fs \<leftarrow> upd_obj (\<lambda>ob. ob\<lparr>yst_mode := repair_mode ob\<rparr>) a fs;
          ob \<leftarrow> objs fs a;
          (n, fs) \<leftarrow> yaffs_GetObjectFileLength cfg a fs;
          fs \<leftarrow> upd_obj (\<lambda>ob. ob\<lparr>myInode := True\<rparr>) a fs;
          Some (inode\<lparr>i_ino := obj_objectId ob, i_mode := yst_mode ob, i_uid := yst_uid ob, i_gid := yst_gid ob,
                      i_rdev := decode_dev (yst_rdev ob), i_atime := yst_atime ob, i_mtime := yst_mtime ob, i_ctime := yst_ctime ob,
                      i_size := n, i_blocks := (n + 511) div 512, i_nlink := word_of_int (yaffs_GetObjectLinkCount ob),
                      i_op := mode_ops (yst_mode ob), i_private := Some a\<rparr>, fs) })"

definition yaffs_read_inode :: "(u32 \<Rightarrow> u32) \<Rightarrow> yaffs_Config \<Rightarrow> inode \<Rightarrow> 'n yaffs_State \<Rightarrow> (inode \<times> 'n yaffs_State) option" where
  "yaffs_read_inode decode_dev cfg inode fs =
     do { obj \<leftarrow> yaffs_FindObjectByNumber fs (i_ino inode); yaffs_FillInodeFromObject decode_dev cfg inode obj fs }"

definition yaffs_get_inode :: "'n inode_lookup \<Rightarrow> yaffs_addr option \<Rightarrow> 'n yaffs_State \<Rightarrow> (inode option \<times> 'n yaffs_State) option" where
  "yaffs_get_inode iget obj fs =
     (case obj of None \<Rightarrow> Some (None, fs) | Some a \<Rightarrow> do { ob \<leftarrow> objs fs a; iget (obj_objectId ob) fs })"

definition yaffs_clear_inode :: "inode \<Rightarrow> 'n yaffs_State \<Rightarrow> (inode \<times> 'n yaffs_State) option" where
  "yaffs_clear_inode inode fs =
     (case i_private inode of
        None \<Rightarrow> Some (inode, fs)
      | Some a \<Rightarrow> do {
          fs \<leftarrow> upd_obj (\<lambda>ob. ob\<lparr>myInode := False\<rparr>) a fs;
          fs \<leftarrow> yaffs_HandleDeferedFree a fs;
          Some (inode\<lparr>i_private := None\<rparr>, fs) })"

text \<open>\<^verbatim>\<open>clear_inode\<close> of the kernel calls \<open>yaffs_clear_inode\<close>.\<close>

definition yaffs_delete_inode :: "yaffs_Config \<Rightarrow> inode \<Rightarrow> 'n yaffs_State \<Rightarrow> (inode \<times> 'n yaffs_State) option" where
  "yaffs_delete_inode cfg inode fs =
     do { fs \<leftarrow> (case i_private inode of None \<Rightarrow> Some fs | Some a \<Rightarrow> map_option snd (yaffs_DeleteFile cfg a fs));
          yaffs_clear_inode inode fs }"

subsection \<open>Looking up names and links\<close>

text \<open>The text that \<^verbatim>\<open>vfs_readlink\<close> and \<^verbatim>\<open>vfs_follow_link\<close> get, or an error.\<close>

definition yaffs_readlink :: "yaffs_Config \<Rightarrow> yaffs_addr \<Rightarrow> 'n yaffs_State \<Rightarrow> ((int + u8 list) \<times> 'n yaffs_State) option" where
  "yaffs_readlink cfg a fs =
     do { (alias, fs) \<leftarrow> yaffs_GetSymlinkAlias cfg a fs;
          Some (case alias of None \<Rightarrow> Inl (- ENOMEM) | Some s \<Rightarrow> Inr s, fs) }"

text \<open>The inode, or none, that is added for the name.\<close>

definition yaffs_lookup :: "'n inode_lookup \<Rightarrow> yaffs_Config \<Rightarrow> yaffs_addr \<Rightarrow> u8 list \<Rightarrow> 'n yaffs_State \<Rightarrow> (inode option \<times> 'n yaffs_State) option" where
  "yaffs_lookup iget cfg dir name fs =
     do { (obj, fs) \<leftarrow> yaffs_FindObjectByName cfg dir (Some name) fs;
          (obj, fs) \<leftarrow> (case obj of
                          None \<Rightarrow> Some (None, fs)
                        | Some a \<Rightarrow> do { (e, fs) \<leftarrow> yaffs_GetEquivalentObject cfg a fs; Some (Some e, fs) });
          yaffs_get_inode iget obj fs }"

subsection \<open>File data\<close>

definition yaffs_file_flush :: "yaffs_Config \<Rightarrow> yaffs_addr \<Rightarrow> 'n yaffs_State \<Rightarrow> (int \<times> 'n yaffs_State) option" where
  "yaffs_file_flush cfg a fs = do { (_, fs) \<leftarrow> yaffs_FlushFile cfg a True fs; Some (0, fs) }"

definition yaffs_sync_object :: "yaffs_Config \<Rightarrow> yaffs_addr \<Rightarrow> 'n yaffs_State \<Rightarrow> (int \<times> 'n yaffs_State) option" where
  "yaffs_sync_object cfg a fs = do { (_, fs) \<leftarrow> yaffs_FlushFile cfg a True fs; Some (0, fs) }"

text \<open>\<^verbatim>\<open>pg->index << PAGE_CACHE_SHIFT\<close>\<close>

definition page_offset :: "u32 \<Rightarrow> int" where
  "page_offset index = sint (push_bit PAGE_CACHE_SHIFT index)"

text \<open>The page's contents; \<open>yaffs_ReadDataFromFile\<close> never returns a negative number here.\<close>

definition yaffs_readpage_nolock :: "yaffs_Config \<Rightarrow> yaffs_addr \<Rightarrow> u32 \<Rightarrow> 'n yaffs_State \<Rightarrow> (int \<times> u8 list \<times> 'n yaffs_State) option" where
  "yaffs_readpage_nolock cfg a index fs =
     do { (bytes, fs) \<leftarrow> yaffs_ReadDataFromFile cfg a (page_offset index) PAGE_CACHE_SIZE fs; Some (0, bytes, fs) }"

definition yaffs_writepage :: "yaffs_Config \<Rightarrow> inode \<Rightarrow> u32 \<Rightarrow> u8 list \<Rightarrow> 'n yaffs_State \<Rightarrow> (int \<times> 'n yaffs_State) option" where
  "yaffs_writepage cfg inode index page fs =
     (if uint index * 4096 > i_size inode then Some (0, fs)
      else do {
        let end_index = i_size inode div 4096;
        let nBytes = (if uint index < end_index then PAGE_CACHE_SIZE else i_size inode mod 4096);
        a \<leftarrow> i_private inode;
        (nWritten, fs) \<leftarrow> yaffs_WriteDataToFile cfg a (take (nat nBytes) page) (page_offset index) False fs;
        Some (if nWritten = nBytes then 0 else - ENOSPC, fs) })"

text \<open>The position after the write, and the inode.  \<open>o_append\<close> is \<^verbatim>\<open>O_APPEND\<close>.  The position is an \<^verbatim>\<open>int\<close>.\<close>

definition yaffs_file_write ::
  "yaffs_Config \<Rightarrow> inode \<Rightarrow> bool \<Rightarrow> u8 list \<Rightarrow> int \<Rightarrow> 'n yaffs_State \<Rightarrow> (int \<times> int \<times> inode \<times> 'n yaffs_State) option" where
  "yaffs_file_write cfg inode o_append buf pos fs =
     do { a \<leftarrow> i_private inode;
          let ipos = signed_take_bit 31 (if i_mode inode AND S_IFMT \<noteq> S_IFBLK \<and> o_append then i_size inode else pos);
          (nWritten, fs) \<leftarrow> yaffs_WriteDataToFile cfg a buf ipos False fs;
          let (pos, inode) =
            (if nWritten > 0 then
               (let ipos = signed_take_bit 31 (ipos + nWritten)
                in (ipos, if ipos > i_size inode then inode\<lparr>i_size := ipos, i_blocks := (ipos + 511) div 512\<rparr> else inode))
             else (pos, inode));
          Some (if nWritten = 0 then - ENOSPC else nWritten, pos, inode, fs) }"

text \<open>\<open>uptodate\<close> says whether the page holds the file's data; the new page and whether it does afterwards are returned.\<close>

definition yaffs_prepare_write ::
  "yaffs_Config \<Rightarrow> yaffs_addr \<Rightarrow> u32 \<Rightarrow> bool \<Rightarrow> u8 list \<Rightarrow> int \<Rightarrow> int \<Rightarrow> 'n yaffs_State \<Rightarrow> (int \<times> bool \<times> u8 list \<times> 'n yaffs_State) option" where
  "yaffs_prepare_write cfg a index uptodate page offset upper fs =
     (if \<not> uptodate \<and> (offset \<noteq> 0 \<or> upper < PAGE_CACHE_SIZE)
      then do { (r, page, fs) \<leftarrow> yaffs_readpage_nolock cfg a index fs; Some (r, True, page, fs) }
      else Some (0, uptodate, page, fs))"

definition yaffs_commit_write ::
  "yaffs_Config \<Rightarrow> inode \<Rightarrow> bool \<Rightarrow> u32 \<Rightarrow> u8 list \<Rightarrow> int \<Rightarrow> int \<Rightarrow> 'n yaffs_State \<Rightarrow> (int \<times> bool \<times> inode \<times> 'n yaffs_State) option" where
  "yaffs_commit_write cfg inode o_append index page offset upper fs =
     do { let nBytes = upper - offset;
          (nWritten, _, inode, fs) \<leftarrow>
            yaffs_file_write cfg inode o_append (take (nat nBytes) (drop (nat offset) page)) (uint index * 4096 + offset) fs;
          Some (if nWritten = nBytes then 0 else nWritten, nWritten = nBytes, inode, fs) }"

subsection \<open>Reading directories\<close>

text \<open>
  \<open>filldir\<close> is the kernel's function that takes an entry (name, offset, inode number, type) and may refuse it; its state
  is of type \<open>'d\<close>.  The result says whether the loop came to its end; with it come the position and the states.
\<close>

type_synonym 'd filldir = "'d \<Rightarrow> u8 list \<Rightarrow> u32 \<Rightarrow> int \<Rightarrow> nat \<Rightarrow> int \<times> 'd"

primrec readdir_loop ::
  "'d filldir \<Rightarrow> yaffs_Config \<Rightarrow> yaffs_addr list \<Rightarrow> u32 \<Rightarrow> u32 \<Rightarrow> int \<Rightarrow> 'd \<Rightarrow> 'n yaffs_State \<Rightarrow> (int \<times> 'd \<times> 'n yaffs_State) option" where
  "readdir_loop filldir cfg [] curoffs offset pos d fs = Some (pos, d, fs)"
| "readdir_loop filldir cfg (l # ls) curoffs offset pos d fs =
     (let curoffs = curoffs + 1
      in if curoffs \<ge> offset then do {
           (name, fs) \<leftarrow> yaffs_GetObjectName cfg l (YAFFS_MAX_NAME_LENGTH + 1) fs;
           (ino, fs) \<leftarrow> yaffs_GetObjectInode cfg l fs;
           (type, fs) \<leftarrow> yaffs_GetObjectType cfg l fs;
           let (r, d) = filldir d name offset ino type;
           if r < 0 then Some (pos, d, fs) else readdir_loop filldir cfg ls curoffs (offset + 1) (pos + 1) d fs }
         else readdir_loop filldir cfg ls curoffs offset pos d fs)"

text \<open>\<open>pos\<close> and \<open>version\<close> are \<^verbatim>\<open>f_pos\<close> and \<^verbatim>\<open>f_version\<close>; \<open>parent_ino\<close> is the inode number of the directory above.\<close>

definition yaffs_readdir ::
  "'d filldir \<Rightarrow> yaffs_Config \<Rightarrow> inode \<Rightarrow> u32 \<Rightarrow> int \<Rightarrow> u32 \<Rightarrow> 'd \<Rightarrow> 'n yaffs_State \<Rightarrow> (int \<times> u32 \<times> 'd \<times> 'n yaffs_State) option" where
  "yaffs_readdir filldir cfg inode parent_ino pos version d fs =
     do { a \<leftarrow> i_private inode;
          ob \<leftarrow> objs fs a;
          let offset = (word_of_int pos :: u32);
          let (r, d) = (if offset = 0 then filldir d [46] offset (uint (i_ino inode)) DT_DIR else (0, d));
          if r < 0 then Some (pos, version, d, fs)
          else do {
            let (offset, pos) = (if offset = 0 then (offset + 1, pos + 1) else (offset, pos));
            let (r, d) = (if offset = 1 then filldir d [46, 46] offset (uint parent_ino) DT_DIR else (0, d));
            if r < 0 then Some (pos, version, d, fs)
            else do {
              let (offset, pos) = (if offset = 1 then (offset + 1, pos + 1) else (offset, pos));
              let (offset, pos) = (if version \<noteq> i_version inode then (2, 2) else (offset, pos));
              ch \<leftarrow> (case variant ob of DirectoryVariant ch \<Rightarrow> Some ch | _ \<Rightarrow> None);
              (pos, d, fs) \<leftarrow> readdir_loop filldir cfg ch 1 offset pos d fs;
              Some (pos, i_version inode, d, fs) } } }"

subsection \<open>Creating, linking and removing\<close>

text \<open>\<open>uid\<close> and \<open>gid\<close> are those of the process; \<open>encode_dev\<close> is the kernel's conversion of a device number.\<close>

definition new_gid :: "inode \<Rightarrow> u32 \<Rightarrow> u32" where
  "new_gid dir gid = (if i_mode dir AND S_ISGID \<noteq> 0 then i_gid dir else gid)"

definition yaffs_mknod ::
  "'n inode_lookup \<Rightarrow> (u32 \<Rightarrow> u32) \<Rightarrow> yaffs_Config \<Rightarrow> inode \<Rightarrow> u8 list \<Rightarrow> u32 \<Rightarrow> u32 \<Rightarrow> u32 \<Rightarrow> u32 \<Rightarrow> 'n yaffs_State \<Rightarrow> (int \<times> inode option \<times> 'n yaffs_State) option" where
  "yaffs_mknod iget encode_dev cfg dir name mode rdev uid gid fs =
     (let gid = new_gid dir gid;
          mode = (if i_mode dir AND S_ISGID \<noteq> 0 \<and> mode AND S_IFMT = S_IFDIR then mode OR S_ISGID else mode)
      in case i_private dir of
           None \<Rightarrow> Some (- EPERM, None, fs)
         | Some p \<Rightarrow> do {
             (obj, fs) \<leftarrow>
               (if mode AND S_IFMT = S_IFREG then yaffs_MknodFile cfg p (Some name) mode uid gid fs
                else if mode AND S_IFMT = S_IFDIR then yaffs_MknodDirectory cfg p (Some name) mode uid gid fs
                else if mode AND S_IFMT = S_IFLNK then Some (None, fs)
                else yaffs_MknodSpecial cfg p (Some name) mode uid gid (encode_dev rdev) fs);
             if obj \<noteq> None then do { (inode, fs) \<leftarrow> yaffs_get_inode iget obj fs; Some (0, inode, fs) }
             else Some (- ENOMEM, None, fs) })"

definition yaffs_mkdir ::
  "'n inode_lookup \<Rightarrow> (u32 \<Rightarrow> u32) \<Rightarrow> yaffs_Config \<Rightarrow> inode \<Rightarrow> u8 list \<Rightarrow> u32 \<Rightarrow> u32 \<Rightarrow> u32 \<Rightarrow> 'n yaffs_State \<Rightarrow> (int \<times> inode option \<times> 'n yaffs_State) option" where
  "yaffs_mkdir iget encode_dev cfg dir name mode uid gid fs = yaffs_mknod iget encode_dev cfg dir name (mode OR S_IFDIR) 0 uid gid fs"

definition yaffs_create ::
  "'n inode_lookup \<Rightarrow> (u32 \<Rightarrow> u32) \<Rightarrow> yaffs_Config \<Rightarrow> inode \<Rightarrow> u8 list \<Rightarrow> u32 \<Rightarrow> u32 \<Rightarrow> u32 \<Rightarrow> 'n yaffs_State \<Rightarrow> (int \<times> inode option \<times> 'n yaffs_State) option" where
  "yaffs_create iget encode_dev cfg dir name mode uid gid fs = yaffs_mknod iget encode_dev cfg dir name (mode OR S_IFREG) 0 uid gid fs"

text \<open>\<open>target\<close> is the inode of the name that goes.\<close>

definition yaffs_unlink :: "yaffs_Config \<Rightarrow> inode \<Rightarrow> inode \<Rightarrow> u8 list \<Rightarrow> 'n yaffs_State \<Rightarrow> (int \<times> inode \<times> inode \<times> 'n yaffs_State) option" where
  "yaffs_unlink cfg dir target name fs =
     do { p \<leftarrow> i_private dir;
          (r, fs) \<leftarrow> yaffs_Unlink cfg p (Some name) fs;
          Some (if r = YAFFS_OK
                then (0, dir\<lparr>i_version := i_version dir + 1\<rparr>, target\<lparr>i_nlink := i_nlink target - 1\<rparr>, fs)
                else (- ENOTEMPTY, dir, target, fs)) }"

definition yaffs_link :: "yaffs_Config \<Rightarrow> inode \<Rightarrow> inode \<Rightarrow> u8 list \<Rightarrow> 'n yaffs_State \<Rightarrow> (int \<times> inode \<times> 'n yaffs_State) option" where
  "yaffs_link cfg inode dir name fs =
     do { a \<leftarrow> i_private inode;
          (link, fs) \<leftarrow> (if i_mode inode AND S_IFMT \<noteq> S_IFDIR then do { p \<leftarrow> i_private dir; yaffs_Link cfg p (Some name) a fs }
                         else Some (None, fs));
          if link \<noteq> None then do { ob \<leftarrow> objs fs a; Some (0, inode\<lparr>i_nlink := word_of_int (yaffs_GetObjectLinkCount ob)\<rparr>, fs) }
          else Some (- EPERM, inode, fs) }"

definition yaffs_symlink ::
  "'n inode_lookup \<Rightarrow> yaffs_Config \<Rightarrow> inode \<Rightarrow> u8 list \<Rightarrow> u8 list \<Rightarrow> u32 \<Rightarrow> u32 \<Rightarrow> 'n yaffs_State \<Rightarrow> (int \<times> inode option \<times> 'n yaffs_State) option" where
  "yaffs_symlink iget cfg dir name symname uid gid fs =
     do { p \<leftarrow> i_private dir;
          (obj, fs) \<leftarrow> yaffs_MknodSymLink cfg p (Some name) (S_IFLNK OR 0x1FF) uid (new_gid dir gid) (Some symname) fs;
          if obj \<noteq> None then do { (inode, fs) \<leftarrow> yaffs_get_inode iget obj fs; Some (0, inode, fs) }
          else Some (- ENOMEM, None, fs) }"

text \<open>\<open>target_inode\<close> is the inode of the new name, if there is one.  The result says whether its link count was changed.\<close>

definition yaffs_rename ::
  "yaffs_Config \<Rightarrow> inode \<Rightarrow> u8 list \<Rightarrow> inode \<Rightarrow> u8 list \<Rightarrow> inode option \<Rightarrow> 'n yaffs_State \<Rightarrow> (int \<times> inode option \<times> 'n yaffs_State) option" where
  "yaffs_rename cfg old_dir old_name new_dir new_name target_inode fs =
     do { od \<leftarrow> i_private old_dir;
          nd \<leftarrow> i_private new_dir;
          (target, fs) \<leftarrow> yaffs_FindObjectByName cfg nd (Some new_name) fs;
          busy \<leftarrow> (case target of None \<Rightarrow> Some False | Some t \<Rightarrow> do { tob \<leftarrow> objs fs t; nonempty_directory tob });
          (r, fs) \<leftarrow> (if busy then Some (YAFFS_FAIL, fs) else yaffs_RenameObject cfg od old_name nd new_name fs);
          if r = YAFFS_OK then
            (if target \<noteq> None then do { ti \<leftarrow> target_inode; Some (0, Some (ti\<lparr>i_nlink := i_nlink ti - 1\<rparr>), fs) }
             else Some (0, target_inode, fs))
          else Some (- ENOTEMPTY, target_inode, fs) }"

text \<open>\<open>change_ok\<close> and \<open>inode_setattr\<close> are the kernel's check of the request and its update of the inode.\<close>

definition yaffs_setattr ::
  "(inode \<Rightarrow> iattr \<Rightarrow> int) \<Rightarrow> (inode \<Rightarrow> iattr \<Rightarrow> int \<times> inode) \<Rightarrow> yaffs_Config \<Rightarrow> inode \<Rightarrow> iattr \<Rightarrow> 'n yaffs_State \<Rightarrow> (int \<times> inode \<times> 'n yaffs_State) option" where
  "yaffs_setattr change_ok inode_setattr cfg inode attr fs =
     (if change_ok inode attr \<noteq> 0 then Some (change_ok inode attr, inode, fs)
      else do {
        a \<leftarrow> i_private inode;
        (r, fs) \<leftarrow> yaffs_SetAttributes cfg a attr fs;
        if r = YAFFS_OK then (let (e, inode) = inode_setattr inode attr in Some (e, inode, fs))
        else Some (- EPERM, inode, fs) })"

end
