(* ===== verification/VfsMount.thy ===== *)
theory VfsMount
  imports VfsOps
begin

section \<open>Mounting through the kernel\<close>

text \<open>
  The super block operations of \<^verbatim>\<open>yaffs_fs.c\<close>: mount options, the checks and the set-up of a device on an MTD, free space
  and unmounting.  What the code asks of \<^verbatim>\<open>struct mtd_info\<close> (its type, its sizes, which functions it has) is a record.
\<close>

abbreviation (input) "YAFFS_BYTES_PER_CHUNK \<equiv> (512 :: int)"
abbreviation (input) "YAFFS_CHUNKS_PER_BLOCK \<equiv> (32 :: int)"
abbreviation (input) "YAFFS_BYTES_PER_SPARE \<equiv> (16 :: int)"
abbreviation (input) "YAFFS_MIN_YAFFS2_CHUNK_SIZE \<equiv> (1024 :: int)"
abbreviation (input) "YAFFS_MIN_YAFFS2_SPARE_SIZE \<equiv> (32 :: int)"
abbreviation (input) "MTD_BLOCK_MAJOR \<equiv> (31 :: nat)"

subsection \<open>Mount options\<close>

record yaffs_options =
  inband_tags :: bool
  skip_checkpoint_read :: bool
  skip_checkpoint_write :: bool
  no_cache :: bool

definition no_options :: yaffs_options where
  "no_options = \<lparr>inband_tags = False, skip_checkpoint_read = False, skip_checkpoint_write = False, no_cache = False\<rparr>"

abbreviation (input) "MAX_OPT_LEN \<equiv> (20 :: nat)"

text \<open>The inner loop: \<open>cur_opt\<close>, from its position \<open>p\<close> on, and the rest of the string.\<close>

fun cur_opt :: "nat \<Rightarrow> string \<Rightarrow> string \<times> string" where
  "cur_opt p [] = ([], [])"
| "cur_opt p (c # cs) =
     (if c = CHR '','' then ([], c # cs)
      else if p < MAX_OPT_LEN then (let (w, rest) = cur_opt (p + 1) cs in (c # w, rest))
      else cur_opt p cs)"

definition set_option :: "string \<Rightarrow> yaffs_options \<Rightarrow> yaffs_options option" where
  "set_option w options =
     (if w = ''inband-tags'' then Some (options\<lparr>inband_tags := True\<rparr>)
      else if w = ''no-cache'' then Some (options\<lparr>no_cache := True\<rparr>)
      else if w = ''no-checkpoint-read'' then Some (options\<lparr>skip_checkpoint_read := True\<rparr>)
      else if w = ''no-checkpoint-write'' then Some (options\<lparr>skip_checkpoint_write := True\<rparr>)
      else if w = ''no-checkpoint'' then Some (options\<lparr>skip_checkpoint_read := True, skip_checkpoint_write := True\<rparr>)
      else None)"

lemma cur_opt_length: "length (fst (cur_opt p s)) + length (snd (cur_opt p s)) \<le> length s"
  by (induction p s rule: cur_opt.induct) (auto split: prod.splits)

lemma set_option_nonempty: "set_option w options = Some options' \<Longrightarrow> w \<noteq> []"
  by (auto simp: set_option_def)

text \<open>The loop ends because an empty option is an error.\<close>

function yaffs_parse_options :: "yaffs_options \<Rightarrow> string \<Rightarrow> bool \<times> yaffs_options" where
  "yaffs_parse_options options s =
     (if s = [] then (False, options)
      else case set_option (fst (cur_opt 0 s)) options of
             None \<Rightarrow> (True, options)
           | Some options \<Rightarrow> yaffs_parse_options options (snd (cur_opt 0 s)))"
  by pat_completeness auto
termination
proof (relation "measure (length \<circ> snd)", goal_cases)
  case 1
  then show ?case by simp
next
  case (2 options s options')
  then have "fst (cur_opt 0 s) \<noteq> []"
    by (auto dest: set_option_nonempty)
  then show ?case
    using cur_opt_length [of 0 s] by (cases "fst (cur_opt 0 s)") simp_all
qed

subsection \<open>The device of a mount\<close>

record mtd_caps =
  mtd_is_nand :: bool
  mtd_has_erase :: bool
  mtd_has_read :: bool
  mtd_has_write :: bool
  mtd_has_read_oob :: bool
  mtd_has_write_oob :: bool
  mtd_has_block_isbad :: bool
  mtd_has_block_markbad :: bool
  mtd_size :: u32
  mtd_erasesize :: u32
  mtd_writesize :: u32
  mtd_oobsize :: u32

text \<open>The options the file system is compiled with.\<close>

record mount_config =
  mc_auto_yaffs2 :: bool
  mc_does_ecc :: bool
  mc_disable_wide_tnodes :: bool
  mc_checkpoint_reserved_blocks :: int

definition select_version :: "mount_config \<Rightarrow> mtd_caps \<Rightarrow> int \<Rightarrow> int" where
  "select_version mc mtd yaffsVersion =
     (if mc_auto_yaffs2 mc then
        (let yaffsVersion = (if yaffsVersion = 1 \<and> mtd_writesize mtd \<ge> 2048 then 2 else yaffsVersion)
         in if yaffsVersion = 2 \<and> mtd_writesize mtd = 512 then 1 else yaffsVersion)
      else yaffsVersion)"

definition mtd_usable :: "int \<Rightarrow> mtd_caps \<Rightarrow> bool" where
  "mtd_usable yaffsVersion mtd \<longleftrightarrow>
     mtd_has_erase mtd \<and> mtd_has_read mtd \<and> mtd_has_write mtd \<and> mtd_has_read_oob mtd \<and> mtd_has_write_oob mtd \<and>
     (if yaffsVersion = 2 then
        mtd_has_block_isbad mtd \<and> mtd_has_block_markbad mtd \<and>
        uint (mtd_writesize mtd) \<ge> YAFFS_MIN_YAFFS2_CHUNK_SIZE \<and> uint (mtd_oobsize mtd) \<ge> YAFFS_MIN_YAFFS2_SPARE_SIZE
      else uint (mtd_writesize mtd) \<ge> YAFFS_BYTES_PER_CHUNK \<and> uint (mtd_oobsize mtd) = YAFFS_BYTES_PER_SPARE)"

text \<open>
  \<open>drivers\<close> sets the function pointers to those of \<^verbatim>\<open>yaffs_mtdif2.c\<close> (version 2) or \<^verbatim>\<open>yaffs_mtdif1.c\<close>; the device is
  all zeros before.  \<open>spare\<close> is the buffer of \<^verbatim>\<open>oobsize\<close> bytes that version 2 allocates.
\<close>

definition mount_device ::
  "(int \<Rightarrow> 'n yaffs_Device \<Rightarrow> 'n yaffs_Device) \<Rightarrow> mount_config \<Rightarrow> yaffs_options \<Rightarrow> mtd_caps \<Rightarrow> u8 list \<Rightarrow> int \<Rightarrow> 'n yaffs_Device \<Rightarrow> 'n yaffs_Device" where
  "mount_device drivers mc options mtd spare yaffsVersion dev =
     (let dev = dev\<lparr>startBlock := 0,
                    endBlock := uint (mtd_size mtd) div (YAFFS_CHUNKS_PER_BLOCK * YAFFS_BYTES_PER_CHUNK) - 1,
                    nChunksPerBlock := YAFFS_CHUNKS_PER_BLOCK, nDataBytesPerChunk := YAFFS_BYTES_PER_CHUNK,
                    nReservedBlocks := 5, nShortOpCaches := (if no_cache options then 0 else 10)\<rparr>;
          dev = drivers yaffsVersion dev;
          dev = (if yaffsVersion = 2 then
                   dev\<lparr>spareBuffer := spare, isYaffs2 := True, nDataBytesPerChunk := uint (mtd_writesize mtd),
                       nChunksPerBlock := uint (mtd_erasesize mtd div mtd_writesize mtd),
                       nCheckpointReservedBlocks := mc_checkpoint_reserved_blocks mc,
                       startBlock := 0, endBlock := uint (mtd_size mtd div mtd_erasesize mtd) - 1\<rparr>
                 else dev\<lparr>isYaffs2 := False\<rparr>)
      in dev\<lparr>useNANDECC := \<not> mc_does_ecc mc \<or> useNANDECC dev, wideTnodesDisabled := mc_disable_wide_tnodes mc \<or> wideTnodesDisabled dev,
             skipCheckpointRead := skip_checkpoint_read options, skipCheckpointWrite := skip_checkpoint_write options\<rparr>)"

text \<open>
  The mount.  \<open>major\<close> and \<open>mtd\<close> belong to the device of the super block, \<open>allocated\<close> says whether \<^verbatim>\<open>kmalloc\<close> gives memory
  for the device and \<open>root_alloc\<close> whether \<^verbatim>\<open>d_alloc_root\<close> does for the root's entry; \<open>zero\<close> is the zeroed device.
  The result is that of \<^verbatim>\<open>yaffs_internal_read_super_mtd\<close>, with the device where one was made.
\<close>

definition yaffs_internal_read_super ::
  "'n inode_lookup \<Rightarrow> (int \<Rightarrow> 'n yaffs_Device \<Rightarrow> 'n yaffs_Device) \<Rightarrow> mount_config \<Rightarrow> yaffs_Config \<Rightarrow> bool \<Rightarrow> bool \<Rightarrow> u8 list \<Rightarrow>
     int \<Rightarrow> nat \<Rightarrow> mtd_caps option \<Rightarrow> string option \<Rightarrow> 'n yaffs_State \<Rightarrow> (int \<times> inode option \<times> 'n yaffs_State option) option" where
  "yaffs_internal_read_super iget drivers mc cfg allocated root_alloc spare yaffsVersion major mtd data_str zero =
     (let (error, options) = yaffs_parse_options no_options (case data_str of None \<Rightarrow> [] | Some s \<Rightarrow> s);
          refused = Some (- EINVAL, None, None)
      in if error then refused
         else if major \<noteq> MTD_BLOCK_MAJOR then refused
         else case mtd of
           None \<Rightarrow> refused
         | Some mtd \<Rightarrow>
             if \<not> mtd_is_nand mtd then refused
             else let yaffsVersion = select_version mc mtd yaffsVersion
               in if \<not> mtd_usable yaffsVersion mtd \<or> \<not> allocated then refused
                  else do {
                    (err, fs) \<leftarrow> yaffs_GutsInitialise cfg
                       (zero\<lparr>the_dev := mount_device drivers mc options mtd spare yaffsVersion (the_dev zero)\<rparr>);
                    (inode, fs) \<leftarrow> (if err = YAFFS_OK then yaffs_get_inode iget (rootDir fs) fs else Some (None, fs));
                    Some (case inode of
                            None \<Rightarrow> (- EINVAL, None, Some fs)
                          | Some i \<Rightarrow> if root_alloc then (0, Some (i\<lparr>i_op := DirectoryInode\<rparr>), Some fs) else (- EINVAL, None, Some fs)) })"

subsection \<open>Free space and unmounting\<close>

record kstatfs =
  f_type :: u32
  f_bsize :: int
  f_namelen :: int
  f_blocks :: u32
  f_bfree :: u32
  f_bavail :: u32
  f_files :: u32
  f_ffree :: u32

text \<open>\<^verbatim>\<open>s_blocksize\<close> is an \<^verbatim>\<open>unsigned long\<close>, so that the products of \<^verbatim>\<open>int\<close>s are taken modulo \<open>2 ^ 32\<close>.\<close>

definition yaffs_statfs :: "u32 \<Rightarrow> 'n yaffs_Device \<Rightarrow> kstatfs" where
  "yaffs_statfs s_blocksize dev =
     (let size = (word_of_int (nDataBytesPerChunk dev) :: u32);
          chunks = (word_of_int ((endBlock dev - startBlock dev + 1) * nChunksPerBlock dev) :: u32);
          free = (word_of_int (yaffs_GetNumberOfFreeChunks dev) :: u32);
          (blocks, bfree) =
            (if s_blocksize > size then (chunks div (s_blocksize div size), free div (s_blocksize div size))
             else (chunks * (size div s_blocksize), free * (size div s_blocksize)))
      in \<lparr>f_type = YAFFS_MAGIC, f_bsize = uint s_blocksize, f_namelen = 255, f_blocks = blocks, f_bfree = bfree, f_bavail = bfree,
          f_files = 0, f_ffree = 0\<rparr>)"

text \<open>\<open>sync\<close> is \<^verbatim>\<open>mtd->sync\<close>, which may be missing.\<close>

definition yaffs_MTDPutSuper :: "('n \<Rightarrow> 'n) option \<Rightarrow> 'n \<Rightarrow> 'n" where
  "yaffs_MTDPutSuper sync mtd = (case sync of None \<Rightarrow> mtd | Some f \<Rightarrow> f mtd)"

text \<open>The device is freed afterwards: what is left of it is what the flash holds.\<close>

definition yaffs_put_super :: "('n \<Rightarrow> 'n) option \<Rightarrow> yaffs_Config \<Rightarrow> yaffs_CheckpointObject \<Rightarrow> 'n yaffs_State \<Rightarrow> 'n yaffs_State option" where
  "yaffs_put_super sync cfg unset fs =
     do { fs \<leftarrow> yaffs_FlushEntireDeviceCache cfg fs;
          (_, fs) \<leftarrow> yaffs_CheckpointSave cfg unset fs;
          let fs = fs\<lparr>the_dev := (the_dev fs)\<lparr>genericDevice := yaffs_MTDPutSuper sync (genericDevice (the_dev fs))\<rparr>\<rparr>;
          let fs = yaffs_Deinitialise fs;
          Some (fs\<lparr>the_dev := (the_dev fs)\<lparr>spareBuffer := []\<rparr>\<rparr>) }"

end
