(* ===== verification/VfsProps.thy ===== *)
theory VfsProps
  imports VfsMount
begin

section \<open>Properties of the interface to the kernel\<close>

text \<open>Mount options, the geometry of an accepted device, inode operations and the positions of a directory read.\<close>

subsection \<open>Mount options\<close>

lemma cur_opt_no_comma: "CHR '','' \<notin> set s \<Longrightarrow> p \<le> 20 \<Longrightarrow> cur_opt p s = (take (20 - p) s, [])"
  by (induction p s rule: cur_opt.induct) (auto simp: take_Cons' Suc_diff_Suc)

lemma cur_opt_rest: "CHR '','' \<in> set s \<Longrightarrow> \<exists>t. snd (cur_opt p s) = CHR '','' # t"
  by (induction p s rule: cur_opt.induct) (auto split: prod.splits)

lemma parse_at_comma: "fst (yaffs_parse_options options (CHR '','' # t))"
  by (subst yaffs_parse_options.simps) (simp add: set_option_def)

lemma known_options:
  "set_option w options \<noteq> None \<longleftrightarrow> w \<in> {''inband-tags'', ''no-cache'', ''no-checkpoint-read'', ''no-checkpoint-write'', ''no-checkpoint''}"
  unfolding set_option_def by (simp del: list.inject)

lemma set_option_short: "20 \<le> length w \<Longrightarrow> set_option w options = None"
proof (rule ccontr)
  assume "set_option w options \<noteq> None"
  then have "length w \<in> length ` {''inband-tags'', ''no-cache'', ''no-checkpoint-read'', ''no-checkpoint-write'', ''no-checkpoint''}"
    unfolding known_options by (rule imageI)
  moreover assume "20 \<le> length w"
  ultimately show False by simp
qed

lemma set_option_take: "set_option (take 20 s) options = set_option s options"
  by (cases "length s < 20") (simp_all add: set_option_short)

text \<open>
  C38. The mount options that are accepted are exactly the empty string and a single known option: the loop leaves the comma
  in place, takes the empty word before it for the next option and rejects it, so that a list of options is always an error.
\<close>

theorem yaffs_parse_options_accepts:
  "yaffs_parse_options options s = (False, options') \<longleftrightarrow>
     s = [] \<and> options' = options \<or> CHR '','' \<notin> set s \<and> set_option s options = Some options'"
proof (cases "CHR '','' \<in> set s")
  case True
  then have "s \<noteq> []" by auto
  moreover obtain t where "snd (cur_opt 0 s) = CHR '','' # t"
    using cur_opt_rest [OF True, of 0] by blast
  ultimately have "fst (yaffs_parse_options options s)"
    by (subst yaffs_parse_options.simps) (auto simp: parse_at_comma simp del: yaffs_parse_options.simps split: option.split)
  then show ?thesis using True by auto
next
  case False
  then show ?thesis
    by (subst yaffs_parse_options.simps)
       (auto simp: cur_opt_no_comma set_option_take yaffs_parse_options.simps [of _ "[]"] dest: set_option_nonempty
             simp del: yaffs_parse_options.simps split: option.split)
qed

subsection \<open>Directory positions\<close>

text \<open>What a directory read has to do from some child on: offer each child once, in order, until one is refused.\<close>

primrec list_children ::
  "'d filldir \<Rightarrow> yaffs_Config \<Rightarrow> yaffs_addr list \<Rightarrow> u32 \<Rightarrow> int \<Rightarrow> 'd \<Rightarrow> 'n yaffs_State \<Rightarrow> (int \<times> 'd \<times> 'n yaffs_State) option" where
  "list_children filldir cfg [] offset pos d fs = Some (pos, d, fs)"
| "list_children filldir cfg (l # ls) offset pos d fs =
     do { (name, fs) \<leftarrow> yaffs_GetObjectName cfg l (YAFFS_MAX_NAME_LENGTH + 1) fs;
          (ino, fs) \<leftarrow> yaffs_GetObjectInode cfg l fs;
          (type, fs) \<leftarrow> yaffs_GetObjectType cfg l fs;
          let (r, d) = filldir d name offset ino type;
          if r < 0 then Some (pos, d, fs) else list_children filldir cfg ls (offset + 1) (pos + 1) d fs }"

text \<open>Once the loop has reached the position, no child is skipped.\<close>

lemma readdir_loop_listing:
  "unat offset + length ls < 2 ^ 32 \<Longrightarrow>
   readdir_loop filldir cfg ls (offset - 1) offset pos d fs = list_children filldir cfg ls offset pos d fs"
proof (induction ls arbitrary: offset pos d fs)
  case (Cons l ls)
  have "unat (offset + 1) = unat offset + 1"
    using Cons.prems by (subst unat_plus_simple [THEN iffD1]) (auto simp: word_le_nat_alt unat_word_ariths)
  then show ?case
    using Cons.IH [of "offset + 1"] Cons.prems by (simp cong: if_cong prod.case_cong Option.bind_cong)
qed simp

lemma readdir_loop_skips:
  "unat curoffs + length ls < 2 ^ 32 \<Longrightarrow> unat curoffs + n < unat offset \<Longrightarrow> n \<le> length ls \<Longrightarrow>
   readdir_loop filldir cfg ls curoffs offset pos d fs = readdir_loop filldir cfg (drop n ls) (curoffs + word_of_nat n) offset pos d fs"
proof (induction n arbitrary: ls curoffs)
  case (Suc n)
  then obtain l ls' where ls: "ls = l # ls'" by (cases ls) auto
  have step: "unat (curoffs + 1) = unat curoffs + 1"
    using Suc.prems ls by (simp add: unat_word_ariths)
  then have "\<not> curoffs + 1 \<ge> offset"
    using Suc.prems by (simp add: word_le_nat_alt)
  then show ?case
    using Suc.IH [of "curoffs + 1" ls'] Suc.prems step ls by (simp add: Let_def add.assoc)
qed simp

lemma readdir_loop_resumes:
  assumes "2 \<le> unat offset" "unat offset \<le> length ch + 2" "length ch + 3 < 2 ^ 31"
  shows "readdir_loop filldir cfg ch 1 offset pos d fs = list_children filldir cfg (drop (unat offset - 2) ch) offset pos d fs"
proof -
  have "readdir_loop filldir cfg ch 1 offset pos d fs =
        readdir_loop filldir cfg (drop (unat offset - 2) ch) (1 + word_of_nat (unat offset - 2)) offset pos d fs"
    using assms by (intro readdir_loop_skips) auto
  moreover have "(1 :: u32) + word_of_nat (unat offset - 2) = offset - 1"
    using assms(1) by (simp add: of_nat_diff)
  ultimately show ?thesis
    using assms by (simp add: readdir_loop_listing)
qed

text \<open>
  C26. A directory read that starts at some position offers exactly the children from that position on, each once and in order,
  and its position advances by one for each that is taken: successive reads of an unchanged directory skip and repeat nothing.
\<close>

theorem readdir_resumes:
  assumes "i_private inode = Some a" "objs fs a = Some ob" "variant ob = DirectoryVariant ch"
    and "2 \<le> pos" "pos \<le> int (length ch) + 2" "length ch + 3 < 2 ^ 31"
  shows "yaffs_readdir filldir cfg inode parent_ino pos (i_version inode) d fs =
    map_option (\<lambda>(pos, d, fs). (pos, i_version inode, d, fs)) (list_children filldir cfg (drop (nat pos - 2) ch) (word_of_int pos) pos d fs)"
proof -
  have "unat (word_of_int pos :: u32) = nat pos"
    using assms by (simp add: unat_eq_nat_uint uint_word_of_int)
  moreover then have "(word_of_int pos :: u32) \<noteq> 0" "(word_of_int pos :: u32) \<noteq> 1"
    using assms by auto
  moreover have "readdir_loop filldir cfg ch 1 (word_of_int pos) pos d fs =
                 list_children filldir cfg (drop (nat pos - 2) ch) (word_of_int pos) pos d fs"
    using readdir_loop_resumes [of "word_of_int pos" ch filldir cfg pos d fs] assms calculation by simp
  ultimately show ?thesis
    using assms by (auto simp: yaffs_readdir_def Let_def map_option_case split: option.split)
qed

text \<open>A directory with three files, read from the second on by a reader that notes the inode numbers.\<close>

definition named_file :: "u32 \<Rightarrow> u8 \<Rightarrow> yaffs_Object" where
  "named_file n c = yaffs_SetObjectName (zero_object\<lparr>obj_objectId := n, obj_chunkId := 70, variantType := YAFFS_OBJECT_TYPE_FILE\<rparr>) (Some [c])"

definition readdir_sample :: "unit yaffs_State \<Rightarrow> unit yaffs_State" where
  "readdir_sample fs = fs\<lparr>objs := [7 \<mapsto> zero_object\<lparr>variantType := YAFFS_OBJECT_TYPE_DIRECTORY, variant := DirectoryVariant [3, 4, 5]\<rparr>,
     3 \<mapsto> named_file 300 97, 4 \<mapsto> named_file 400 98, 5 \<mapsto> named_file 500 99]\<rparr>"

definition sample_inode :: inode where
  "sample_inode = \<lparr>i_ino = 258, i_mode = S_IFDIR, i_uid = 0, i_gid = 0, i_rdev = 0, i_atime = 0, i_mtime = 0, i_ctime = 0, i_size = 0,
     i_blocks = 0, i_nlink = 1, i_version = 1, i_op = DirectoryInode, i_private = Some 7\<rparr>"

lemma readdir_sample_objs:
  "objs (readdir_sample fs) 7 = Some (zero_object\<lparr>variantType := YAFFS_OBJECT_TYPE_DIRECTORY, variant := DirectoryVariant [3, 4, 5]\<rparr>)"
  "objs (readdir_sample fs) 4 = Some (named_file 400 98)" "objs (readdir_sample fs) 5 = Some (named_file 500 99)"
  by (simp_all add: readdir_sample_def)

lemma named_file_fields:
  "lazyLoaded (named_file n c) = False" "obj_objectId (named_file n c) = n" "obj_chunkId (named_file n c) = 70"
  "variantType (named_file n c) = YAFFS_OBJECT_TYPE_FILE" "shortName (named_file n c) = [c]"
  by (simp_all add: named_file_def zero_object_def yaffs_SetObjectName_def)

theorem readdir_resumes_witness:
  "\<forall>cfg fs. yaffs_readdir (\<lambda>d name offset ino type. (0, d @ [ino])) cfg sample_inode 1 3 (i_version sample_inode) [] (readdir_sample fs) =
     Some (5, 1, [400, 500], readdir_sample fs)"
proof (intro allI)
  fix cfg fs
  show "yaffs_readdir (\<lambda>d name offset ino type. (0, d @ [ino])) cfg sample_inode 1 3 (i_version sample_inode) [] (readdir_sample fs) =
     Some (5, 1, [400, 500], readdir_sample fs)"
    by (subst readdir_resumes [OF _ readdir_sample_objs(1), where ch = "[3, 4, 5]"])
       (simp_all add: sample_inode_def readdir_sample_objs named_file_fields yaffs_GetObjectName_def yaffs_GetObjectInode_def
         yaffs_GetObjectType_def yaffs_GetEquivalentObject_def yaffs_CheckObjectDetailsLoaded_def Let_def)
qed

subsection \<open>Inodes and the device\<close>

text \<open>After the repair of its mode, an inode gets the operations of its object's type.\<close>

lemma repair_mode_ops:
  "variantType ob = YAFFS_OBJECT_TYPE_FILE \<Longrightarrow> mode_ops (repair_mode ob) = FileInode"
  "variantType ob = YAFFS_OBJECT_TYPE_DIRECTORY \<Longrightarrow> mode_ops (repair_mode ob) = DirectoryInode"
  "variantType ob = YAFFS_OBJECT_TYPE_SYMLINK \<Longrightarrow> mode_ops (repair_mode ob) = SymlinkInode"
  by (auto simp: repair_mode_def mode_ops_def Let_def bit_simps word_bw_assocs word_ao_dist)

text \<open>
  A device that passes the checks of the mount fails the geometry check of \<open>yaffs_GutsInitialise\<close> only if it has fewer than nine
  blocks, or (version 2) fewer than two chunks in a block.
\<close>

lemma mount_geometry:
  assumes "mtd_usable v mtd" "\<And>dev. startBlock (drivers v dev) = startBlock dev" "\<And>dev. endBlock (drivers v dev) = endBlock dev"
    and "\<And>dev. nChunksPerBlock (drivers v dev) = nChunksPerBlock dev" "\<And>dev. nDataBytesPerChunk (drivers v dev) = nDataBytesPerChunk dev"
    and "\<And>dev. nReservedBlocks (drivers v dev) = nReservedBlocks dev"
  shows "guts_geometry_bad (guts_block_offsets (mount_device drivers mc options mtd spare v dev)) \<longleftrightarrow>
    (if v = 2 then mtd_erasesize mtd div mtd_writesize mtd < 2 \<or> mtd_size mtd div mtd_erasesize mtd < 9 else uint (mtd_size mtd) div 16384 < 9)"
  using assms
  by (auto simp: guts_geometry_bad_def guts_block_offsets_def mount_device_def mtd_usable_def Let_def word_less_def)

end
