(* ===== verification/GpioDrivers.thy ===== *)
theory GpioDrivers
  imports Prelude
begin

section \<open>Drivers on GPIO lines\<close>

text \<open>
  \<^verbatim>\<open>drivers/char/gpio_dev.c\<close> (a character device for the lines), \<^verbatim>\<open>drivers/input/misc/gpio_buttons.c\<close> (polled buttons),
  \<^verbatim>\<open>drivers/spi/spi_gpio.c\<close> (SPI on four lines) and \<^verbatim>\<open>drivers/leds/leds-alix.c\<close>.  The kernel's GPIO layer is a record of
  functions on the state \<open>'g\<close> of the lines; what other parts of the kernel answer (allocation, registration) is an argument.
\<close>

record 'g gpio_layer =
  gpio_get_value :: "'g \<Rightarrow> u32 \<Rightarrow> int"
  gpio_set_value :: "'g \<Rightarrow> u32 \<Rightarrow> int \<Rightarrow> 'g"
  gpio_direction_input :: "'g \<Rightarrow> u32 \<Rightarrow> int \<times> 'g"
  gpio_direction_output :: "'g \<Rightarrow> u32 \<Rightarrow> int \<Rightarrow> int \<times> 'g"
  gpio_request :: "'g \<Rightarrow> u32 \<Rightarrow> int \<times> 'g"
  gpio_free :: "'g \<Rightarrow> u32 \<Rightarrow> 'g"

abbreviation (input) "gp_ENXIO \<equiv> (6 :: int)"
abbreviation (input) "gp_ENOMEM \<equiv> (12 :: int)"
abbreviation (input) "gp_EBUSY \<equiv> (16 :: int)"
abbreviation (input) "gp_ENODEV \<equiv> (19 :: int)"
abbreviation (input) "gp_EINVAL \<equiv> (22 :: int)"

subsection \<open>The character device\<close>

abbreviation (input) "GPIO_GET \<equiv> (0x420A :: u32)"
abbreviation (input) "GPIO_SET \<equiv> (0x420B :: u32)"
abbreviation (input) "GPIO_CLEAR \<equiv> (0x420C :: u32)"
abbreviation (input) "GPIO_DIR_IN \<equiv> (0x420D :: u32)"
abbreviation (input) "GPIO_DIR_OUT \<equiv> (0x420E :: u32)"

text \<open>The shift of an \<^verbatim>\<open>int\<close> by its width or more is undefined (\<open>None\<close>).\<close>

definition gpio_ioctl :: "'g gpio_layer \<Rightarrow> u32 \<Rightarrow> u32 \<Rightarrow> u32 \<Rightarrow> 'g \<Rightarrow> (int \<times> 'g) option" where
  "gpio_ioctl layer gpio_access_mask cmd arg g =
     (if unat arg \<ge> 32 then None
      else let pin = (push_bit (unat arg) 1 :: u32)
        in if pin AND gpio_access_mask \<noteq> pin then Some (- gp_EINVAL, g)
           else if cmd = GPIO_GET then Some (gpio_get_value layer g arg, g)
           else if cmd = GPIO_SET then Some (0, gpio_set_value layer g arg 1)
           else if cmd = GPIO_CLEAR then Some (0, gpio_set_value layer g arg 0)
           else if cmd = GPIO_DIR_IN then Some (0, snd (gpio_direction_input layer g arg))
           else if cmd = GPIO_DIR_OUT then Some (0, snd (gpio_direction_output layer g arg 0))
           else Some (- gp_EINVAL, g))"

text \<open>
  \<open>gpio_open_cnt\<close> is one atomic counter.  Opening decrements and tests it in one step; if it was not one, a second step
  increments it again.  \<open>atomic_dec_and_test\<close> gives the result of the test and the new value.
\<close>

definition atomic_dec_and_test :: "int \<Rightarrow> bool \<times> int" where
  "atomic_dec_and_test cnt = (cnt - 1 = 0, cnt - 1)"

definition gpio_open :: "u32 \<Rightarrow> int \<Rightarrow> int \<times> int" where
  "gpio_open dev_minor cnt =
     (if dev_minor \<noteq> 0 then (- gp_ENODEV, cnt)
      else let (won, cnt) = atomic_dec_and_test cnt in if won then (0, cnt) else (- gp_EBUSY, cnt + 1))"

definition gpio_close :: "int \<Rightarrow> int" where
  "gpio_close cnt = cnt + 1"

text \<open>
  \<open>register_chrdev\<close> is the answer of the kernel; \<open>resources\<close> are the starts of the platform device's resources.  The result
  is followed by the major number, whether the class and the device were made, and the mask.
\<close>

definition gpio_probe :: "int \<Rightarrow> u32 list \<Rightarrow> u32 \<Rightarrow> int \<times> int \<times> bool \<times> u32" where
  "gpio_probe register_chrdev resources gpio_access_mask =
     (if register_chrdev = 0 then (- gp_ENODEV, 0, False, gpio_access_mask)
      else if length resources \<noteq> 1 then (- gp_ENODEV, register_chrdev, True, gpio_access_mask)
      else (0, register_chrdev, True, resources ! 0))"

subsection \<open>Polled buttons\<close>

record gpio_button =
  gb_gpio :: u32
  gb_active_low :: int
  gb_type :: nat
  gb_code :: nat
  gb_count :: int
  gb_threshold :: int

abbreviation (input) "EV_KEY \<equiv> (1 :: nat)"

text \<open>An input event: its type, code and value.\<close>

type_synonym input_event = "nat \<times> nat \<times> int"

definition poll_button :: "'g gpio_layer \<Rightarrow> 'g \<Rightarrow> gpio_button \<Rightarrow> gpio_button \<times> input_event list" where
  "poll_button layer g b =
     (let type = (if gb_type b \<noteq> 0 then gb_type b else EV_KEY);
          state = (if gpio_get_value layer g (gb_gpio b) \<noteq> 0 then 1 else 0) XOR gb_active_low b;
          (b, released) =
            (if state \<noteq> 0 then (b\<lparr>gb_count := gb_count b + 1\<rparr>, [])
             else (b\<lparr>gb_count := 0\<rparr>, if gb_count b \<ge> gb_threshold b then [(type, gb_code b, 1)] else []))
      in (b, released @ (if gb_count b = gb_threshold b then [(type, gb_code b, 0)] else [])))"

primrec gpio_buttons_poll :: "'g gpio_layer \<Rightarrow> 'g \<Rightarrow> gpio_button list \<Rightarrow> gpio_button list \<times> input_event list" where
  "gpio_buttons_poll layer g [] = ([], [])"
| "gpio_buttons_poll layer g (b # bs) =
     (let (b, es) = poll_button layer g b; (bs, es') = gpio_buttons_poll layer g bs in (b # bs, es @ es'))"

text \<open>The loop that claims the lines: the error, the number of buttons before the one that failed, the buttons and the lines.\<close>

function claim_buttons :: "'g gpio_layer \<Rightarrow> nat \<Rightarrow> gpio_button list \<Rightarrow> 'g \<Rightarrow> int \<times> nat \<times> gpio_button list \<times> 'g" where
  "claim_buttons layer i bs g =
     (if i \<ge> length bs then (0, i, bs, g)
      else let (e, g) = gpio_request layer g (gb_gpio (bs ! i))
        in if e \<noteq> 0 then (e, i, bs, g)
           else let (e, g) = gpio_direction_input layer g (gb_gpio (bs ! i))
             in if e \<noteq> 0 then (e, i, bs, g)
                else claim_buttons layer (i + 1) (bs[i := (bs ! i)\<lparr>gb_count := 0\<rparr>]) g)"
  by pat_completeness auto
termination by (relation "measure (\<lambda>(_, i, bs, _). length bs - i)") auto

primrec free_buttons :: "'g gpio_layer \<Rightarrow> gpio_button list \<Rightarrow> 'g \<Rightarrow> 'g" where
  "free_buttons layer [] g = g"
| "free_buttons layer (b # bs) g = free_buttons layer bs (gpio_free layer g (gb_gpio b))"

text \<open>\<open>bdev\<close> and \<open>poll_dev\<close> say whether there is memory for the two structures, \<open>register\<close> is the answer to the registration.\<close>

definition gpio_buttons_probe ::
  "'g gpio_layer \<Rightarrow> bool \<Rightarrow> bool \<Rightarrow> int \<Rightarrow> gpio_button list option \<Rightarrow> 'g \<Rightarrow> int \<times> gpio_button list option \<times> 'g" where
  "gpio_buttons_probe layer bdev poll_dev register pdata g =
     (case pdata of
        None \<Rightarrow> (- gp_ENXIO, pdata, g)
      | Some bs \<Rightarrow>
          if \<not> bdev then (- gp_ENOMEM, pdata, g)
          else if \<not> poll_dev then (- gp_ENOMEM, pdata, g)
          else let (e, i, bs, g) = claim_buttons layer 0 bs g;
                   e = (if e = 0 then register else e)
            in if e = 0 then (0, Some bs, g) else (e, Some bs, free_buttons layer (rev (take i bs)) g))"

definition gpio_buttons_remove :: "'g gpio_layer \<Rightarrow> gpio_button list \<Rightarrow> 'g \<Rightarrow> 'g" where
  "gpio_buttons_remove layer bs g = free_buttons layer bs g"

subsection \<open>SPI on GPIO lines\<close>

record spi_gpio_platform_data =
  pin_clk :: u32
  pin_miso :: u32
  pin_mosi :: u32
  pin_cs :: u32
  cs_activelow :: bool
  no_spi_delay :: bool

definition setsck :: "'g gpio_layer \<Rightarrow> spi_gpio_platform_data \<Rightarrow> int \<Rightarrow> 'g \<Rightarrow> 'g" where
  "setsck layer info val g = gpio_set_value layer g (pin_clk info) (if val \<noteq> 0 then 1 else 0)"

definition setmosi :: "'g gpio_layer \<Rightarrow> spi_gpio_platform_data \<Rightarrow> int \<Rightarrow> 'g \<Rightarrow> 'g" where
  "setmosi layer info val g = gpio_set_value layer g (pin_mosi info) (if val \<noteq> 0 then 1 else 0)"

definition getmiso :: "'g gpio_layer \<Rightarrow> spi_gpio_platform_data \<Rightarrow> 'g \<Rightarrow> u32" where
  "getmiso layer info g = (if gpio_get_value layer g (pin_miso info) \<noteq> 0 then 1 else 0)"

definition spi_gpio_chipselect :: "'g gpio_layer \<Rightarrow> spi_gpio_platform_data \<Rightarrow> int \<Rightarrow> 'g \<Rightarrow> 'g" where
  "spi_gpio_chipselect layer info on g =
     (let on = (if cs_activelow info then (if on = 0 then 1 else 0) else on)
      in gpio_set_value layer g (pin_cs info) (if on \<noteq> 0 then 1 else 0))"

text \<open>The kernel's answers during the probe, in their order.\<close>

record spi_answers =
  sa_alloc_master :: bool
  sa_bitbang_start :: int
  sa_boardinfo_setup :: int
  sa_new_device :: bool

text \<open>The lines from \<open>pin_clk\<close> on are claimed in turn; a failure frees those before it, the last one first.\<close>

primrec request_pins :: "'g gpio_layer \<Rightarrow> u32 list \<Rightarrow> u32 list \<Rightarrow> 'g \<Rightarrow> int \<times> 'g" where
  "request_pins layer claimed [] g = (0, g)"
| "request_pins layer claimed (p # ps) g =
     (let (e, g) = gpio_request layer g p
      in if e \<noteq> 0 then (e, foldl (gpio_free layer) g claimed) else request_pins layer (p # claimed) ps g)"

definition setup_pins :: "'g gpio_layer \<Rightarrow> spi_gpio_platform_data \<Rightarrow> 'g \<Rightarrow> 'g" where
  "setup_pins layer info g =
     (let g = snd (gpio_direction_output layer g (pin_clk info) 0);
          g = snd (gpio_direction_output layer g (pin_mosi info) 0);
          g = snd (gpio_direction_output layer g (pin_cs info) (if cs_activelow info then 1 else 0))
      in snd (gpio_direction_input layer g (pin_miso info)))"

definition spi_gpio_probe :: "'g gpio_layer \<Rightarrow> spi_answers \<Rightarrow> spi_gpio_platform_data option \<Rightarrow> 'g \<Rightarrow> int \<times> 'g" where
  "spi_gpio_probe layer ans pdata g =
     (case pdata of
        None \<Rightarrow> (- gp_ENXIO, g)
      | Some info \<Rightarrow>
          if \<not> sa_alloc_master ans then (- gp_ENOMEM, g)
          else let (err, g) = request_pins layer [] [pin_clk info, pin_mosi info, pin_miso info, pin_cs info] g
            in if err \<noteq> 0 then (err, g)
               else let g = setup_pins layer info g;
                        undo = foldl (gpio_free layer) g [pin_cs info, pin_miso info, pin_mosi info, pin_clk info]
                 in if sa_bitbang_start ans \<noteq> 0 then (sa_bitbang_start ans, undo)
                    else if sa_boardinfo_setup ans \<noteq> 0 then (sa_boardinfo_setup ans, undo)
                    else if \<not> sa_new_device ans then (0, undo)
                    else (0, g))"

definition spi_gpio_remove :: "'g gpio_layer \<Rightarrow> spi_gpio_platform_data \<Rightarrow> 'g \<Rightarrow> 'g" where
  "spi_gpio_remove layer info g = foldl (gpio_free layer) g [pin_clk info, pin_mosi info, pin_miso info, pin_cs info]"

subsection \<open>The LEDs of the ALIX boards\<close>

text \<open>The value written by \<^verbatim>\<open>outl\<close> and its port, for the LED \<open>n\<close> (1 to 3).\<close>

definition alix_led_set :: "nat \<Rightarrow> u32 \<Rightarrow> u32 \<times> u32" where
  "alix_led_set n value =
     (if n = 1 then (if value \<noteq> 0 then 0x400000 else 0x40, 0x6100)
      else if n = 2 then (if value \<noteq> 0 then 0x2000000 else 0x200, 0x6180)
      else (if value \<noteq> 0 then 0x8000000 else 0x800, 0x6180))"

text \<open>The result and the LEDs that stay registered; \<open>register n\<close> is the answer to the registration of LED \<open>n\<close>.\<close>

definition alix_led_probe :: "(nat \<Rightarrow> int) \<Rightarrow> int \<times> nat list" where
  "alix_led_probe register =
     (if register 1 < 0 then (register 1, [])
      else if register 2 < 0 then (register 2, [])
      else if register 3 < 0 then (register 3, [])
      else (register 3, [1, 2, 3]))"

subsection \<open>One user of the character device at a time\<close>

text \<open>
  What processes do with the device, one atomic access to the counter per step: a process that lost the test is \<open>Refused\<close>
  until it has put the counter back.
\<close>

datatype gpio_proc = Idle | Refused | Using

inductive gpio_step :: "int \<times> (nat \<Rightarrow> gpio_proc) \<Rightarrow> int \<times> (nat \<Rightarrow> gpio_proc) \<Rightarrow> bool" where
  open_won: "p i = Idle \<Longrightarrow> atomic_dec_and_test cnt = (True, cnt') \<Longrightarrow> gpio_step (cnt, p) (cnt', p(i := Using))"
| open_lost: "p i = Idle \<Longrightarrow> atomic_dec_and_test cnt = (False, cnt') \<Longrightarrow> gpio_step (cnt, p) (cnt', p(i := Refused))"
| refused: "p i = Refused \<Longrightarrow> gpio_step (cnt, p) (cnt + 1, p(i := Idle))"
| close: "p i = Using \<Longrightarrow> gpio_step (cnt, p) (gpio_close cnt, p(i := Idle))"

inductive_cases gpio_stepE: "gpio_step s s'"

definition gpio_inv :: "int \<times> (nat \<Rightarrow> gpio_proc) \<Rightarrow> bool" where
  "gpio_inv s \<longleftrightarrow> finite {i. snd s i \<noteq> Idle} \<and> fst s = 1 - int (card {i. snd s i \<noteq> Idle}) \<and>
     (\<forall>i j. snd s i = Using \<longrightarrow> snd s j = Using \<longrightarrow> i = j)"

lemma busy_upd:
  "{j. (p(i := s)) j \<noteq> Idle} = (if s = Idle then {j. p j \<noteq> Idle} - {i} else insert i {j. p j \<noteq> Idle})"
  by auto

lemma card_busy:
  assumes "finite {j. p j \<noteq> Idle}" "(p i = Idle) \<noteq> (s = Idle)"
  shows "int (card {j. (p(i := s)) j \<noteq> Idle}) = int (card {j. p j \<noteq> Idle}) + (if s = Idle then - 1 else 1)"
proof (cases "s = Idle")
  case True
  then have "i \<in> {j. p j \<noteq> Idle}" using assms(2) by simp
  then have "card {j. p j \<noteq> Idle} = Suc (card ({j. p j \<noteq> Idle} - {i}))"
    using assms(1) by (metis card.remove)
  then show ?thesis using True by (simp only: busy_upd) simp
next
  case False
  then show ?thesis using assms by (simp only: busy_upd) simp
qed

lemma finite_busy: "finite {j. p j \<noteq> Idle} \<Longrightarrow> finite {j. (p(i := s)) j \<noteq> Idle}"
  by (simp only: busy_upd) simp

lemma gpio_step_inv: "gpio_step s s' \<Longrightarrow> gpio_inv s \<Longrightarrow> gpio_inv s'"
proof (induction rule: gpio_step.induct)
  case (open_won p i cnt cnt')
  then have "{j. p j \<noteq> Idle} = {}"
    by (auto simp: gpio_inv_def atomic_dec_and_test_def)
  then have "p j = Idle" for j by auto
  then show ?case
    using open_won card_busy [of p i Using] by (simp add: gpio_inv_def atomic_dec_and_test_def)
next
  case (open_lost p i cnt cnt')
  then show ?case
    using card_busy [of p i Refused] finite_busy [of p i Refused] by (auto simp: gpio_inv_def atomic_dec_and_test_def)
next
  case (refused p i cnt)
  then show ?case
    using card_busy [of p i Idle] finite_busy [of p i Idle] by (auto simp: gpio_inv_def)
next
  case (close p i cnt)
  then show ?case
    using card_busy [of p i Idle] finite_busy [of p i Idle] by (auto simp: gpio_inv_def gpio_close_def)
qed



subsection \<open>Buttons are debounced\<close>

text \<open>The polls of one button at successive states of the lines, and whether it is pressed at one of them.\<close>

primrec poll_run :: "'g gpio_layer \<Rightarrow> 'g list \<Rightarrow> gpio_button \<Rightarrow> gpio_button \<times> input_event list" where
  "poll_run layer [] b = (b, [])"
| "poll_run layer (g # gs) b = (let (b, es) = poll_button layer g b; (b, es') = poll_run layer gs b in (b, es @ es'))"

definition pressed :: "'g gpio_layer \<Rightarrow> gpio_button \<Rightarrow> 'g \<Rightarrow> bool" where
  "pressed layer b g \<longleftrightarrow> (if gpio_get_value layer g (gb_gpio b) \<noteq> 0 then 1 else 0) XOR gb_active_low b \<noteq> 0"

definition button_event :: "gpio_button \<Rightarrow> int \<Rightarrow> input_event" where
  "button_event b v = (if gb_type b \<noteq> 0 then gb_type b else EV_KEY, gb_code b, v)"

lemma pressed_count [simp]: "pressed layer (b\<lparr>gb_count := n\<rparr>) g = pressed layer b g" "button_event (b\<lparr>gb_count := n\<rparr>) v = button_event b v"
  by (simp_all add: pressed_def button_event_def)

lemma poll_pressed:
  "pressed layer b g \<Longrightarrow> poll_button layer g b =
     (b\<lparr>gb_count := gb_count b + 1\<rparr>, if gb_count b + 1 = gb_threshold b then [button_event b 0] else [])"
  by (auto simp: poll_button_def pressed_def button_event_def Let_def)

lemma poll_released:
  "\<not> pressed layer b g \<Longrightarrow> gb_threshold b > 0 \<Longrightarrow> poll_button layer g b =
     (b\<lparr>gb_count := 0\<rparr>, if gb_count b \<ge> gb_threshold b then [button_event b 1] else [])"
  by (auto simp: poll_button_def pressed_def button_event_def Let_def)

lemma poll_run_pressed:
  "\<forall>g \<in> set gs. pressed layer b g \<Longrightarrow> poll_run layer gs b =
     (b\<lparr>gb_count := gb_count b + int (length gs)\<rparr>,
      if gb_count b < gb_threshold b \<and> gb_threshold b \<le> gb_count b + int (length gs) then [button_event b 0] else [])"
proof (induction gs arbitrary: b)
  case (Cons g gs)
  then show ?case
    using Cons.IH [of "b\<lparr>gb_count := gb_count b + 1\<rparr>"] by (auto simp: poll_pressed Let_def algebra_simps)
qed simp

lemma poll_run_append:
  "poll_run layer (gs @ gs') b = (let (b, es) = poll_run layer gs b; (b, es') = poll_run layer gs' b in (b, es @ es'))"
  by (induction gs arbitrary: b) (auto simp: Let_def split: prod.splits)

lemma poll_run_press:
  assumes "gb_count b = 0" "gb_threshold b > 0" "\<forall>g \<in> set gs. pressed layer b g" "\<not> pressed layer b g"
  shows "poll_run layer (gs @ g # gs') b =
    (let (b', es) = poll_run layer gs' b
     in (b', (if gb_threshold b \<le> int (length gs) then [button_event b 0, button_event b 1] else []) @ es))"
proof -
  have same: "b\<lparr>gb_count := 0\<rparr> = b" using assms(1) by (cases b) simp
  show ?thesis
    using assms by (auto simp: same poll_run_append poll_run_pressed poll_released Let_def split: prod.splits)
qed

text \<open>
  C25. A button is debounced: whatever the lengths of the times for which it is pressed, one that lasts for at least
  \<open>threshold\<close> polls gives exactly two events and a shorter one gives none.  The first event, when the button has been pressed long
  enough, has the value 0 and the second, when it is released, the value 1.
\<close>

theorem buttons_debounced:
  assumes "gb_count b = 0" "gb_threshold b > 0"
    and "map (pressed layer b) gs = concat (map (\<lambda>n. replicate n True @ [False]) ns)"
  shows "snd (poll_run layer gs b) =
    concat (map (\<lambda>n. if gb_threshold b \<le> int n then [button_event b 0, button_event b 1] else []) ns)"
  using assms(3)
proof (induction ns arbitrary: gs)
  case (Cons n ns)
  then obtain us g vs where gs: "gs = us @ g # vs" "map (pressed layer b) us = replicate n True" "\<not> pressed layer b g"
      "map (pressed layer b) vs = concat (map (\<lambda>n. replicate n True @ [False]) ns)"
    by (auto simp: map_eq_append_conv map_eq_Cons_conv)
  then have "\<forall>g \<in> set us. pressed layer b g" "length us = n"
    by (metis in_set_replicate list.set_map image_eqI) (metis gs(2) length_map length_replicate)
  then show ?case
    using poll_run_press [OF assms(1,2), of us layer g vs] gs Cons.IH [OF gs(4)] by (auto simp: Let_def split: prod.splits)
qed simp

text \<open>A line whose level is the state itself.\<close>

definition line_layer :: "bool gpio_layer" where
  "line_layer = \<lparr>gpio_get_value = (\<lambda>l _. if l then 1 else 0), gpio_set_value = (\<lambda>l _ _. l), gpio_direction_input = (\<lambda>l _. (0, l)),
     gpio_direction_output = (\<lambda>l _ _. (0, l)), gpio_request = (\<lambda>l _. (0, l)), gpio_free = (\<lambda>l _. l)\<rparr>"

definition sample_button :: gpio_button where
  "sample_button = \<lparr>gb_gpio = 4, gb_active_low = 0, gb_type = 0, gb_code = 408, gb_count = 0, gb_threshold = 3\<rparr>"

theorem buttons_debounced_witness:
  "snd (poll_run line_layer [True, False, True, True, True, True, False] sample_button) = [(1, 408, 0), (1, 408, 1)]"
proof -
  have levels: "map (pressed line_layer sample_button) [True, False, True, True, True, True, False] =
        concat (map (\<lambda>n. replicate n True @ [False]) [1, 4])"
    by (simp add: pressed_def line_layer_def sample_button_def numeral_eq_Suc)
  show ?thesis
    by (subst buttons_debounced [OF _ _ levels]) (simp_all add: sample_button_def button_event_def)
qed

subsection \<open>A probe that fails and reports success\<close>

text \<open>
  When the SPI device cannot be made, \<open>spi_gpio_probe\<close> gives all lines back and still returns 0, the value that \<open>err\<close> has after the
  last successful call.
\<close>

lemma spi_gpio_probe_reports_success:
  assumes "sa_alloc_master ans" "sa_bitbang_start ans = 0" "sa_boardinfo_setup ans = 0" "\<not> sa_new_device ans"
    and "request_pins layer [] [pin_clk info, pin_mosi info, pin_miso info, pin_cs info] g = (0, g')"
  shows "spi_gpio_probe layer ans (Some info) g =
    (0, foldl (gpio_free layer) (setup_pins layer info g') [pin_cs info, pin_miso info, pin_mosi info, pin_clk info])"
  using assms by (simp add: spi_gpio_probe_def Let_def)

end
