(* ===== verification/NetSwitch.thy ===== *)
theory NetSwitch
  imports Prelude
begin

section \<open>Ethernet switches\<close>

text \<open>
  \<^verbatim>\<open>drivers/net/phy/mvswitch.c\<close> (Marvell 88E6060, compiled with \<^verbatim>\<open>HEADER_MODE\<close>) and \<^verbatim>\<open>drivers/net/phy/adm6996.c\<close>.  The
  MII bus is the kernel's: its two functions are a record and act on the state \<open>'b\<close> of the bus and the chip.  Of a packet buffer
  the functions get what they ask the kernel for.  Reading outside an array and shifting an \<^verbatim>\<open>int\<close> by 32 or more is \<open>None\<close>.
\<close>

record 'b mii_bus =
  bus_read :: "'b \<Rightarrow> nat \<Rightarrow> nat \<Rightarrow> u16 \<times> 'b"
  bus_write :: "'b \<Rightarrow> nat \<Rightarrow> nat \<Rightarrow> u16 \<Rightarrow> 'b"

abbreviation (input) "sw_ENOMEM \<equiv> (12 :: int)"
abbreviation (input) "sw_EINVAL \<equiv> (22 :: int)"
abbreviation (input) "sw_ETIMEDOUT \<equiv> (110 :: int)"

subsection \<open>Marvell 88E6060\<close>

abbreviation (input) "MV_PORTS \<equiv> (5 :: nat)"
abbreviation (input) "MV_WANPORT \<equiv> (4 :: nat)"
abbreviation (input) "MV_CPUPORT \<equiv> (5 :: nat)"
abbreviation (input) "MV_PORT_IDENT \<equiv> (0x03 :: nat)"
abbreviation (input) "MV_PORT_CONTROL \<equiv> (0x04 :: nat)"
abbreviation (input) "MV_PORT_VLANMAP \<equiv> (0x06 :: nat)"
abbreviation (input) "MV_PORT_ASSOC \<equiv> (0x0b :: nat)"
abbreviation (input) "MV_SWITCHREGS \<equiv> (0x1f :: nat)"
abbreviation (input) "MV_SWITCH_CTRL \<equiv> (0x04 :: nat)"
abbreviation (input) "MV_SWITCH_ATU_CTRL \<equiv> (0x0a :: nat)"
abbreviation (input) "MV_SWITCH_ATU_OP \<equiv> (0x0b :: nat)"
abbreviation (input) "MV_ATUCTL_RESET \<equiv> (0x8000 :: u16)"
abbreviation (input) "MV_ATUOP_INPROGRESS \<equiv> (0x8000 :: u16)"
abbreviation (input) "MV_PORTCTRL_ENABLED \<equiv> (3 :: u16)"
abbreviation (input) "MV_PORTCTRL_HEADER \<equiv> (0x800 :: u16)"

definition MV_SWITCHPORT :: "nat \<Rightarrow> nat" where
  "MV_SWITCHPORT n = 0x18 + n"

definition MV_PORTVLAN_ID :: "nat \<Rightarrow> u16" where
  "MV_PORTVLAN_ID n = push_bit 12 (word_of_nat n AND 0xF)"

text \<open>\<open>'h\<close> is the driver's transmit function.\<close>

record 'h mvswitch_priv =
  hardstart :: "'h option"
  vlan_grp :: bool
  vlans :: "u8 list"

definition mvswitch_probe :: "bool \<Rightarrow> int \<times> 'h mvswitch_priv option" where
  "mvswitch_probe kzalloc =
     (if kzalloc then (0, Some \<lparr>hardstart = None, vlan_grp = False, vlans = replicate 16 0\<rparr>) else (- sw_ENOMEM, None))"

text \<open>The packet that is sent: its header and its length; \<open>None\<close> of the inner type: it was dropped.\<close>

record tx_skb =
  skb_len :: nat
  skb_vid :: "nat option"
  skb_cloned :: bool
  skb_headroom :: nat
  skb_can_expand :: bool

definition mvswitch_mangle_tx :: "'h mvswitch_priv option \<Rightarrow> tx_skb \<Rightarrow> (u16 \<times> nat) option option" where
  "mvswitch_mangle_tx priv skb =
     (case priv of
        None \<Rightarrow> Some None
      | Some priv \<Rightarrow>
          if skb_len skb < 16 then Some None
          else case skb_vid skb of
            None \<Rightarrow> Some None
          | Some vid \<Rightarrow>
              (let expand = skb_cloned skb \<or> skb_len skb \<le> 62 \<or> skb_headroom skb < 2
               in if expand \<and> \<not> skb_can_expand skb then Some None
                  else let len = (if expand \<and> skb_len skb < 62 then 62 else skb_len skb)
                    in if vid \<ge> length (vlans priv) then None
                       else Some (Some ((push_bit 12 (word_of_nat vid) AND 0xF000) OR (ucast (vlans priv ! vid) AND 0x1F), len + 2))))"

text \<open>The loop keeps the last match.\<close>

primrec last_vlan :: "u8 \<Rightarrow> nat \<Rightarrow> u8 list \<Rightarrow> nat option \<Rightarrow> nat option" where
  "last_vlan bits i [] found = found"
| "last_vlan bits i (v # vs) found = last_vlan bits (i + 1) vs (if bits AND v \<noteq> 0 then Some i else found)"

text \<open>The VLAN on which the rest of the packet is passed on.  A shift by 8 to 31 finds no port: the table has bytes.\<close>

definition mvswitch_mangle_rx :: "'h mvswitch_priv option \<Rightarrow> u8 list \<Rightarrow> (nat \<times> u8 list) option option" where
  "mvswitch_mangle_rx priv data =
     (case priv of
        None \<Rightarrow> Some None
      | Some priv \<Rightarrow>
          if \<not> vlan_grp priv then Some None
          else if length data < 2 \<or> data ! 1 \<ge> 32 then None
          else case last_vlan (push_bit (unat (data ! 1)) 1) 0 (vlans priv) None of
                 None \<Rightarrow> Some None
               | Some vlan \<Rightarrow> Some (Some (vlan, drop 2 data)))"

definition mvswitch_vlan_rx_register :: "bool \<Rightarrow> 'h mvswitch_priv \<Rightarrow> 'h mvswitch_priv" where
  "mvswitch_vlan_rx_register grp priv = priv\<lparr>vlan_grp := grp\<rparr>"

primrec wait_mask_loop :: "nat \<Rightarrow> 'b mii_bus \<Rightarrow> nat \<Rightarrow> nat \<Rightarrow> u16 \<Rightarrow> u16 \<Rightarrow> 'b \<Rightarrow> int \<times> 'b" where
  "wait_mask_loop 0 bus addr reg bits val b = (- sw_ETIMEDOUT, b)"
| "wait_mask_loop (Suc i) bus addr reg bits val b =
     (let (r, b) = bus_read bus b addr reg
      in if r AND bits = val then (0, b) else wait_mask_loop i bus addr reg bits val b)"

definition mvswitch_wait_mask :: "'b mii_bus \<Rightarrow> nat \<Rightarrow> nat \<Rightarrow> u16 \<Rightarrow> u16 \<Rightarrow> 'b \<Rightarrow> int \<times> 'b" where
  "mvswitch_wait_mask bus addr reg bits val b = wait_mask_loop 100 bus addr reg bits val b"

definition default_vlans :: "u8 list \<Rightarrow> u8 list" where
  "default_vlans vs =
     fold (\<lambda>i vs. let j = (if i = MV_WANPORT then 1 else 0) in vs[j := vs ! j OR push_bit i 1]) [0..<MV_PORTS] vs"

text \<open>One turn of the loop that sets the ports up.\<close>

definition config_port :: "'b mii_bus \<Rightarrow> u8 list \<Rightarrow> nat \<Rightarrow> 'b \<Rightarrow> 'b" where
  "config_port bus vs i b =
     (case last_vlan (push_bit i 1) 0 vs None of
        None \<Rightarrow> b
      | Some j \<Rightarrow>
          (let vlmap = vs ! j OR push_bit MV_CPUPORT 1;
               vlmap = vlmap AND NOT (push_bit i 1);
               b = bus_write bus b (MV_SWITCHPORT i) MV_PORT_VLANMAP ((ucast vlmap AND 0x3F) OR MV_PORTVLAN_ID i)
           in bus_write bus b (MV_SWITCHPORT i) MV_PORT_CONTROL MV_PORTCTRL_ENABLED))"

text \<open>\<open>xmit\<close> is the transmit function of the network device, if there is one.  With the result come the private data and the bus.\<close>

definition mvswitch_config_init :: "'b mii_bus \<Rightarrow> 'h option \<Rightarrow> 'h mvswitch_priv \<Rightarrow> 'b \<Rightarrow> int \<times> 'h mvswitch_priv \<times> 'b" where
  "mvswitch_config_init bus xmit priv b =
     (case xmit of
        None \<Rightarrow> (- sw_EINVAL, priv, b)
      | Some h \<Rightarrow>
          (let priv = priv\<lparr>vlans := default_vlans (vlans priv)\<rparr>;
               b = fold (\<lambda>i b. bus_write bus b (MV_SWITCHPORT i) MV_PORT_CONTROL 0) [0..<MV_PORTS] b;
               b = bus_write bus b MV_SWITCHREGS MV_SWITCH_ATU_CTRL MV_ATUCTL_RESET;
               (i, b) = mvswitch_wait_mask bus MV_SWITCHREGS MV_SWITCH_ATU_CTRL MV_ATUCTL_RESET 0 b
           in if i < 0 then (i, priv, b)
              else
                (let b = bus_write bus b MV_SWITCHREGS MV_SWITCH_ATU_CTRL (0x4000 OR 0x2000 OR 0x10);
                     b = bus_write bus b (MV_SWITCHPORT MV_CPUPORT) MV_PORT_CONTROL (MV_PORTCTRL_HEADER OR MV_PORTCTRL_ENABLED);
                     b = fold (config_port bus (vlans priv)) [0..<MV_PORTS] b;
                     b = bus_write bus b (MV_SWITCHPORT MV_CPUPORT) MV_PORT_VLANMAP (MV_PORTVLAN_ID MV_CPUPORT);
                     b = fold (\<lambda>i b. bus_write bus b (MV_SWITCHPORT i) MV_PORT_ASSOC (push_bit i 1 AND 0x1F)) [0..<MV_PORTS + 1] b;
                     b = bus_write bus b MV_SWITCHREGS MV_SWITCH_CTRL (0x400 OR 0x2000)
                 in (0, priv\<lparr>hardstart := Some h\<rparr>, b))))"

text \<open>The address table is flushed at every poll of the status.\<close>

definition mvswitch_read_status :: "'b mii_bus \<Rightarrow> 'b \<Rightarrow> int \<times> 'b" where
  "mvswitch_read_status bus b =
     (let (_, b) = mvswitch_wait_mask bus MV_SWITCHREGS MV_SWITCH_ATU_OP MV_ATUOP_INPROGRESS 0 b;
          b = bus_write bus b MV_SWITCHREGS MV_SWITCH_ATU_OP (MV_ATUOP_INPROGRESS OR 0x1000);
          (_, b) = mvswitch_wait_mask bus MV_SWITCHREGS MV_SWITCH_ATU_OP MV_ATUOP_INPROGRESS 0 b
      in (0, b))"

text \<open>The transmit function that the network device has afterwards; without a network device its NULL pointer is followed.\<close>

definition mvswitch_remove :: "'h mvswitch_priv \<Rightarrow> 'h option \<Rightarrow> 'h option" where
  "mvswitch_remove priv dev =
     (case dev of None \<Rightarrow> None | Some xmit \<Rightarrow> Some (case hardstart priv of Some h \<Rightarrow> h | None \<Rightarrow> xmit))"

text \<open>\<open>phy_map\<close> says which of the 32 addresses of the bus have a PHY device; the first 31 are removed for the switch.\<close>

definition mvswitch_detect :: "'b mii_bus \<Rightarrow> nat \<Rightarrow> bool list \<Rightarrow> 'b \<Rightarrow> bool \<times> bool list \<times> 'b" where
  "mvswitch_detect bus addr phy_map b =
     (if addr \<noteq> 31 then (False, phy_map, b)
      else let (reg, b) = bus_read bus b (MV_SWITCHPORT 0) MV_PORT_IDENT
        in if reg AND 0xFFF0 \<noteq> 0x0600 then (False, phy_map, b)
           else (True, replicate (min 31 (length phy_map)) False @ drop 31 phy_map, b))"

subsection \<open>Infineon ADM6996\<close>

text \<open>A register's number is split into the address of a PHY and one of its registers.\<close>

definition PHYADDR :: "u16 \<Rightarrow> nat \<times> nat" where
  "PHYADDR reg = (unat (drop_bit 5 reg AND 0xFF), unat (reg AND 0x1F))"

definition adm6996_read_mii_reg :: "'b mii_bus \<Rightarrow> u16 \<Rightarrow> 'b \<Rightarrow> u16 \<times> 'b" where
  "adm6996_read_mii_reg bus reg b = (let (p, r) = PHYADDR reg in bus_read bus b p r)"

definition adm6996_write_mii_reg :: "'b mii_bus \<Rightarrow> u16 \<Rightarrow> u16 \<Rightarrow> 'b \<Rightarrow> 'b" where
  "adm6996_write_mii_reg bus reg val b = (let (p, r) = PHYADDR reg in bus_write bus b p r val)"

definition adm_portcfg :: "u16 list" where
  "adm_portcfg = [1, 3, 5, 7, 8, 9]"

definition ADM_PHY_PORT :: "nat \<Rightarrow> u16" where
  "ADM_PHY_PORT n = 0x200 + 0x20 * word_of_nat n"

abbreviation (input) "ADM_PORTCFG_INIT \<equiv> (0x800F :: u16)"
abbreviation (input) "ADM_PORTCFG_CPU \<equiv> (0x1D :: u16)"
abbreviation (input) "ADM_PHYCFG_INIT \<equiv> (0xB200 :: u16)"

definition adm6996_config_init :: "'b mii_bus \<Rightarrow> 'b \<Rightarrow> int \<times> 'b" where
  "adm6996_config_init bus b =
     (let b = fold (\<lambda>i b. adm6996_write_mii_reg bus (adm_portcfg ! i)
                (ADM_PORTCFG_INIT OR push_bit 10 ((if i = 0 then 1 else 0) AND 0xF)) b) [0..<5] b;
          b = adm6996_write_mii_reg bus (adm_portcfg ! 5) ADM_PORTCFG_CPU b;
          b = fold (\<lambda>i b. adm6996_write_mii_reg bus (ADM_PHY_PORT i) ADM_PHYCFG_INIT b) [0..<5] b
      in (0, b))"

definition adm6996_detect :: "'b mii_bus \<Rightarrow> nat \<Rightarrow> 'b \<Rightarrow> bool \<times> 'b" where
  "adm6996_detect bus addr b =
     (if addr \<noteq> 0 then (False, b)
      else let (reg, b) = adm6996_read_mii_reg bus 0xA0 b
        in if reg AND 0xFFF0 \<noteq> 0x1020 then (False, b)
           else let (reg, b) = adm6996_read_mii_reg bus 0xA1 b in (reg AND 0xFFFF = 0x0007, b))"

subsection \<open>The WAN port is isolated\<close>

lemma wait_mask_timeout:
  assumes "\<And>b. fst (bus_read bus b addr reg) AND bits \<noteq> val"
  shows "fst (mvswitch_wait_mask bus addr reg bits val b) = - sw_ETIMEDOUT"
proof -
  have "fst (wait_mask_loop n bus addr reg bits val b) = - sw_ETIMEDOUT" for n
  proof (induction n arbitrary: b)
    case (Suc n)
    then show ?case
      using assms [of b] by (auto simp: Let_def split: prod.split)
  qed simp
  then show ?thesis by (simp add: mvswitch_wait_mask_def)
qed

definition two_vlans :: "u8 list" where
  "two_vlans = [0x0F, 0x10, 0, 0, 0, 0, 0, 0, 0, 0, 0, 0, 0, 0, 0, 0]"

lemma default_vlans_zero: "default_vlans (replicate 16 0) = two_vlans"
  by (simp add: default_vlans_def two_vlans_def upt_rec numeral_eq_Suc Let_def)

text \<open>
  The destination map of a port that \<open>mvswitch_config_init\<close> writes: the processor's port, and the other ports on the same side.
\<close>

definition allowed :: "nat \<Rightarrow> nat \<Rightarrow> bool" where
  "allowed i j \<longleftrightarrow> j = MV_CPUPORT \<or> j < MV_PORTS \<and> j \<noteq> i \<and> (i = MV_WANPORT \<longleftrightarrow> j = MV_WANPORT)"

lemma config_port_values:
  "config_port bus two_vlans 0 b = bus_write bus (bus_write bus b 0x18 6 0x002E) 0x18 4 3"
  "config_port bus two_vlans (Suc 0) b = bus_write bus (bus_write bus b 0x19 6 0x102D) 0x19 4 3"
  "config_port bus two_vlans 2 b = bus_write bus (bus_write bus b 0x1A 6 0x202B) 0x1A 4 3"
  "config_port bus two_vlans 3 b = bus_write bus (bus_write bus b 0x1B 6 0x3027) 0x1B 4 3"
  "config_port bus two_vlans 4 b = bus_write bus (bus_write bus b 0x1C 6 0x4020) 0x1C 4 3"
  by (simp_all add: config_port_def MV_SWITCHPORT_def MV_PORTVLAN_ID_def two_vlans_def Let_def)

text \<open>
  C23. Once \<open>mvswitch_config_init\<close> has succeeded on a freshly probed switch, the ports of the switch that a packet from port
  \<open>i\<close> may leave by are the processor's port and the other ports on the same side: no packet passes between the WAN port and the others
  but through the processor.  Of the chip it is assumed that the VLAN map of a port is what was last written into its register.
\<close>

theorem mvswitch_isolates_wan:
  assumes written: "\<And>b a r v p. vlanmap (bus_write bus b a r v) p = (if a = MV_SWITCHPORT p \<and> r = MV_PORT_VLANMAP then v else vlanmap b p)"
    and probe: "mvswitch_probe True = (0, Some priv)"
    and config: "mvswitch_config_init bus xmit priv b = (0, priv', b')"
    and ports: "i < MV_PORTS" "j \<le> MV_CPUPORT"
  shows "bit (vlanmap b' i) j \<longleftrightarrow> allowed i j"
proof -
  have vlans: "default_vlans (vlans priv) = two_vlans"
    using probe by (auto simp: mvswitch_probe_def default_vlans_zero)
  obtain b1 where b1: "b' = bus_write bus (fold (\<lambda>i b. bus_write bus b (MV_SWITCHPORT i) MV_PORT_ASSOC (push_bit i 1 AND 0x1F)) [0..<6]
      (bus_write bus (fold (config_port bus two_vlans) [0..<5] b1) (MV_SWITCHPORT 5) MV_PORT_VLANMAP (MV_PORTVLAN_ID 5)))
      MV_SWITCHREGS MV_SWITCH_CTRL (0x400 OR 0x2000)"
    using config by (auto simp: mvswitch_config_init_def Let_def vlans split: option.splits prod.splits if_splits)
  have upt: "[0..<5] = [0, Suc 0, 2, 3, 4]" "[0..<6] = [0, Suc 0, 2, 3, 4, 5]" by (simp_all add: upt_rec)
  have maps: "vlanmap b' 0 = 0x002E" "vlanmap b' 1 = 0x102D" "vlanmap b' 2 = 0x202B" "vlanmap b' 3 = 0x3027" "vlanmap b' 4 = 0x4020"
    unfolding b1 by (simp_all add: upt written config_port_values MV_SWITCHPORT_def)
  have "i \<in> {0, 1, 2, 3, 4}" "j \<in> {0, 1, 2, 3, 4, 5}" using ports by auto
  then show ?thesis by (auto simp: maps [simplified] allowed_def)
qed

text \<open>A chip whose registers are memory and whose reset bit clears itself.\<close>

definition memory_bus :: "(nat \<Rightarrow> nat \<Rightarrow> u16) mii_bus" where
  "memory_bus = \<lparr>bus_read = (\<lambda>b a r. (b a r AND 0x7FFF, b)), bus_write = (\<lambda>b a r v. b(a := (b a)(r := v)))\<rparr>"

theorem mvswitch_isolates_wan_witness:
  "\<exists>priv' b'. mvswitch_config_init memory_bus (Some ()) \<lparr>hardstart = None, vlan_grp = False, vlans = replicate 16 0\<rparr> (\<lambda>_ _. 0) = (0, priv', b') \<and>
     \<not> bit (b' (MV_SWITCHPORT 4) MV_PORT_VLANMAP) 0 \<and> bit (b' (MV_SWITCHPORT 0) MV_PORT_VLANMAP) 1"
proof -
  let ?priv = "\<lparr>hardstart = None, vlan_grp = False, vlans = replicate 16 0\<rparr> :: unit mvswitch_priv"
  have "\<exists>priv' b'. mvswitch_config_init memory_bus (Some ()) ?priv (\<lambda>_ _. 0) = (0, priv', b')"
    by (simp add: mvswitch_config_init_def mvswitch_wait_mask_def memory_bus_def eval_nat_numeral Let_def)
  then obtain priv' b' where config: "mvswitch_config_init memory_bus (Some ()) ?priv (\<lambda>_ _. 0) = (0, priv', b')" by blast
  have "bit (b' (MV_SWITCHPORT i) MV_PORT_VLANMAP) j \<longleftrightarrow> allowed i j" if "i < MV_PORTS" "j \<le> MV_CPUPORT" for i j
    by (rule mvswitch_isolates_wan [where vlanmap = "\<lambda>b p. b (MV_SWITCHPORT p) MV_PORT_VLANMAP", OF _ _ config that])
       (auto simp: memory_bus_def mvswitch_probe_def MV_SWITCHPORT_def)
  from this [of 4 0] this [of 0 1] config show ?thesis by (auto simp: allowed_def)
qed

text \<open>A packet for a VLAN outside of the table reads behind it.\<close>

lemma mangle_tx_outside:
  assumes "skb_len skb \<ge> 16" "skb_vid skb = Some vid" "length (vlans priv) \<le> vid" "skb_can_expand skb"
  shows "mvswitch_mangle_tx (Some priv) skb = None"
  using assms by (simp add: mvswitch_mangle_tx_def Let_def)

end
