(* ===== verification/NetdevTrig.thy ===== *)
theory NetdevTrig
  imports Prelude
begin

section \<open>The network device LED trigger\<close>

text \<open>
  \<^verbatim>\<open>drivers/leds/ledtrig-netdev.c\<close>: a LED shows the link and the traffic of a network device.  The state holds the fields of
  \<^verbatim>\<open>struct led_netdev_data\<close>, the brightness of the LED, the delay of the pending timer (\<open>None\<close>: no timer) and the references to network devices
  that the trigger has taken and not given back.  A network device is a number.  Look-up by name, link state, packet counters, string to
  number conversion and the creation of sysfs files belong to the kernel and are arguments.  Every function holds the lock: it is one step.
\<close>

record led_netdev_data =
  nt_brightness :: u32
  nt_timer :: "u32 option"
  nt_refs :: "nat list"
  nt_net_dev :: "nat option"
  nt_device_name :: string
  nt_interval :: u32
  nt_mode :: u32
  nt_link_up :: bool
  nt_last_activity :: u32

abbreviation (input) "MODE_LINK \<equiv> (1 :: u32)"
abbreviation (input) "MODE_TX \<equiv> (2 :: u32)"
abbreviation (input) "MODE_RX \<equiv> (4 :: u32)"
abbreviation (input) "nt_LED_OFF \<equiv> (0 :: u32)"
abbreviation (input) "nt_LED_FULL \<equiv> (255 :: u32)"
abbreviation (input) "nt_EINVAL \<equiv> (22 :: int)"
abbreviation (input) "IFNAMSIZ \<equiv> (16 :: nat)"

definition set_baseline_state :: "led_netdev_data \<Rightarrow> led_netdev_data" where
  "set_baseline_state d =
     d\<lparr>nt_brightness := (if nt_mode d AND MODE_LINK \<noteq> 0 \<and> nt_link_up d then nt_LED_FULL else nt_LED_OFF),
       nt_timer := (if nt_mode d AND (MODE_TX OR MODE_RX) \<noteq> 0 \<and> nt_link_up d then Some (nt_interval d) else None)\<rparr>"

definition led_device_name_show :: "led_netdev_data \<Rightarrow> string" where
  "led_device_name_show d = nt_device_name d @ [CHR 0x0A]"

text \<open>
  \<open>buf\<close> is the text, whose length is the size unless it has a NUL in it; \<open>dev_get_by_name\<close> takes a reference, \<open>lower_up\<close> is the flag of a device.
\<close>

definition led_device_name_store :: "(string \<Rightarrow> nat option) \<Rightarrow> (nat \<Rightarrow> bool) \<Rightarrow> string \<Rightarrow> led_netdev_data \<Rightarrow> int \<times> led_netdev_data" where
  "led_device_name_store dev_get_by_name lower_up buf d =
     (if length buf \<ge> IFNAMSIZ then (- nt_EINVAL, d)
      else let name = takeWhile (\<lambda>c. c \<noteq> CHR 0x00) buf;
               name = (if buf \<noteq> [] \<and> length name = length buf \<and> last buf = CHR 0x0A then butlast name else name);
               d = d\<lparr>nt_device_name := name\<rparr>
        in if name = [] then (int (length buf), d)
           else let d = d\<lparr>nt_net_dev := dev_get_by_name name, nt_refs := (case dev_get_by_name name of None \<Rightarrow> [] | Some n \<Rightarrow> [n]) @ nt_refs d\<rparr>;
                    d = (case nt_net_dev d of None \<Rightarrow> d | Some n \<Rightarrow> d\<lparr>nt_link_up := lower_up n\<rparr>)
             in (int (length buf), set_baseline_state d))"

definition led_mode_show :: "led_netdev_data \<Rightarrow> string" where
  "led_mode_show d =
     (if nt_mode d = 0 then ''none'' @ [CHR 0x0A]
      else (if nt_mode d AND MODE_LINK \<noteq> 0 then ''link '' else []) @ (if nt_mode d AND MODE_TX \<noteq> 0 then ''tx '' else []) @
           (if nt_mode d AND MODE_RX \<noteq> 0 then ''rx '' else []) @ [CHR 0x0A])"

text \<open>\<open>strsep\<close> with the delimiters of the code: the tokens between them, the empty ones included.\<close>

fun strsep_tokens :: "string \<Rightarrow> string \<Rightarrow> string list" where
  "strsep_tokens token [] = [rev token]"
| "strsep_tokens token (c # cs) =
     (if c = CHR '' '' \<or> c = CHR 0x09 \<or> c = CHR 0x0A then rev token # strsep_tokens [] cs else strsep_tokens (c # token) cs)"

text \<open>\<open>None\<close> as the mode is -1, the result \<open>None\<close> is the error.\<close>

fun mode_tokens :: "string list \<Rightarrow> u32 option \<Rightarrow> u32 option option" where
  "mode_tokens [] new_mode = Some new_mode"
| "mode_tokens (t # ts) new_mode =
     (if t = [] then mode_tokens ts new_mode
      else let m = (case new_mode of None \<Rightarrow> 0 | Some m \<Rightarrow> m)
        in if t = ''none'' then mode_tokens ts (Some 0)
           else if t = ''tx'' then mode_tokens ts (Some (m OR MODE_TX))
           else if t = ''rx'' then mode_tokens ts (Some (m OR MODE_RX))
           else if t = ''link'' then mode_tokens ts (Some (m OR MODE_LINK))
           else None)"

definition led_mode_store :: "string \<Rightarrow> led_netdev_data \<Rightarrow> int \<times> led_netdev_data" where
  "led_mode_store buf d =
     (let copybuf = take 1023 (takeWhile (\<lambda>c. c \<noteq> CHR 0x00) buf)
      in case mode_tokens (strsep_tokens [] copybuf) None of
           Some (Some new_mode) \<Rightarrow> (int (length buf), set_baseline_state (d\<lparr>nt_mode := new_mode\<rparr>))
         | _ \<Rightarrow> (- nt_EINVAL, d))"

text \<open>
  \<open>value\<close> and \<open>count\<close> come from \<^verbatim>\<open>simple_strtoul\<close>: the number and how many characters it has; \<open>space\<close> says that a space follows.
  \<open>msecs_to_jiffies\<close> is the kernel's.
\<close>

definition led_interval_store :: "(u32 \<Rightarrow> u32) \<Rightarrow> u32 \<Rightarrow> nat \<Rightarrow> bool \<Rightarrow> nat \<Rightarrow> led_netdev_data \<Rightarrow> int \<times> led_netdev_data" where
  "led_interval_store msecs_to_jiffies value count space sz d =
     (let count = (if space then count + 1 else count)
      in if count = sz \<and> value \<ge> 5 \<and> value \<le> 10000
         then (int count, set_baseline_state (d\<lparr>nt_interval := msecs_to_jiffies value\<rparr>))
         else (- nt_EINVAL, d))"

datatype netdev_event = NETDEV_UP | NETDEV_DOWN | NETDEV_CHANGE | NETDEV_REGISTER | NETDEV_UNREGISTER | NETDEV_OTHER

definition dev_put :: "nat \<Rightarrow> led_netdev_data \<Rightarrow> led_netdev_data" where
  "dev_put n d = d\<lparr>nt_refs := remove1 n (nt_refs d)\<rparr>"

text \<open>\<open>dev\<close> and \<open>name\<close> are the network device and its name, \<open>carrier\<close> is \<^verbatim>\<open>netif_carrier_ok\<close>.\<close>

definition netdev_trig_notify :: "netdev_event \<Rightarrow> nat \<Rightarrow> string \<Rightarrow> bool \<Rightarrow> led_netdev_data \<Rightarrow> led_netdev_data" where
  "netdev_trig_notify evt dev name carrier d =
     (if evt = NETDEV_OTHER \<or> name \<noteq> nt_device_name d then d
      else if evt = NETDEV_REGISTER then
        (let d = (case nt_net_dev d of None \<Rightarrow> d | Some n \<Rightarrow> dev_put n d)
         in d\<lparr>nt_refs := dev # nt_refs d, nt_net_dev := Some dev, nt_link_up := False\<rparr>)
      else if evt = NETDEV_UNREGISTER \<and> nt_net_dev d \<noteq> None then (dev_put (the (nt_net_dev d)) d)\<lparr>nt_net_dev := None\<rparr>
      else set_baseline_state (d\<lparr>nt_link_up := (evt \<noteq> NETDEV_DOWN \<and> carrier)\<rparr>))"

text \<open>One expiry of the timer; \<open>stats\<close> gives the counters of sent and received packets.\<close>

definition netdev_trig_timer :: "(nat \<Rightarrow> u32 \<times> u32) \<Rightarrow> led_netdev_data \<Rightarrow> led_netdev_data" where
  "netdev_trig_timer stats d =
     (let d = d\<lparr>nt_timer := None\<rparr>
      in case nt_net_dev d of
           Some n \<Rightarrow>
             if \<not> nt_link_up d \<or> nt_mode d AND (MODE_TX OR MODE_RX) = 0
             then d\<lparr>nt_brightness := (if nt_mode d AND MODE_LINK \<noteq> 0 \<and> nt_link_up d then nt_LED_FULL else nt_LED_OFF)\<rparr>
             else let (tx_packets, rx_packets) = stats n;
                      new_activity = (if nt_mode d AND MODE_TX \<noteq> 0 then tx_packets else 0) + (if nt_mode d AND MODE_RX \<noteq> 0 then rx_packets else 0);
                      changed = (nt_last_activity d \<noteq> new_activity);
                      brightness =
                        (if nt_mode d AND MODE_LINK \<noteq> 0
                         then (if nt_brightness d = nt_LED_OFF then nt_LED_FULL else if changed then nt_LED_OFF else nt_brightness d)
                         else (if nt_brightness d = nt_LED_FULL then nt_LED_OFF else if changed then nt_LED_FULL else nt_brightness d))
               in d\<lparr>nt_brightness := brightness, nt_last_activity := new_activity, nt_timer := Some (nt_interval d)\<rparr>
         | None \<Rightarrow> d\<lparr>nt_brightness := (if nt_mode d AND MODE_LINK \<noteq> 0 \<and> nt_link_up d then nt_LED_FULL else nt_LED_OFF)\<rparr>)"

text \<open>\<open>kzalloc\<close> and \<open>create\<close>: whether there is memory, and the answers to the creation of the three files.\<close>

definition netdev_trig_activate :: "u32 \<Rightarrow> bool \<Rightarrow> int list \<Rightarrow> u32 \<Rightarrow> led_netdev_data option" where
  "netdev_trig_activate msecs50 kzalloc create brightness =
     (if kzalloc \<and> (\<forall>rc \<in> set (take 3 create). rc = 0) then
        Some \<lparr>nt_brightness = brightness, nt_timer = None, nt_refs = [], nt_net_dev = None, nt_device_name = [], nt_interval = msecs50,
              nt_mode = 0, nt_link_up = False, nt_last_activity = 0\<rparr>
      else None)"

text \<open>What is left of the references when the trigger is gone.\<close>

definition netdev_trig_deactivate :: "led_netdev_data \<Rightarrow> nat list" where
  "netdev_trig_deactivate d = nt_refs (case nt_net_dev d of None \<Rightarrow> d | Some n \<Rightarrow> dev_put n d)"

subsection \<open>Properties\<close>

text \<open>The text that the mode is shown as sets the same mode when it is stored.\<close>

lemma mode_show_store:
  assumes "nt_mode d < 8"
  shows "snd (led_mode_store (led_mode_show d) d) = set_baseline_state d"
proof -
  have "unat (nt_mode d) < 8" using assms by (simp add: word_less_nat_alt)
  then have "unat (nt_mode d) \<in> {0, 1, 2, 3, 4, 5, 6, 7}" by auto
  then have "(word_of_nat (unat (nt_mode d)) :: u32) \<in> word_of_nat ` {0, 1, 2, 3, 4, 5, 6, 7}" by (rule imageI)
  then have "nt_mode d \<in> {0, 1, 2, 3, 4, 5, 6, 7}" by simp
  then have "mode_tokens (strsep_tokens [] (take 1023 (takeWhile (\<lambda>c. c \<noteq> CHR 0x00) (led_mode_show d)))) None = Some (Some (nt_mode d))"
    by (auto simp: led_mode_show_def)
  then show ?thesis by (simp add: led_mode_store_def Let_def)
qed

text \<open>With the link shown, a LED that is dark after one expiry of the timer is lit after the next.\<close>

lemma link_led_relit:
  assumes "nt_net_dev d = Some n" "nt_link_up d" "nt_mode d AND MODE_LINK \<noteq> 0" "nt_mode d AND (MODE_TX OR MODE_RX) \<noteq> 0"
    and "nt_brightness d = nt_LED_OFF"
  shows "nt_brightness (netdev_trig_timer stats d) = nt_LED_FULL" "nt_timer (netdev_trig_timer stats d) = Some (nt_interval d)"
  using assms by (simp_all add: netdev_trig_timer_def Let_def split: prod.split)

text \<open>Notifications take and give back references in pairs, but a name that is stored a second time takes one that is never given back.\<close>

lemma notify_keeps_refs:
  "nt_refs d = (case nt_net_dev d of None \<Rightarrow> [] | Some n \<Rightarrow> [n]) \<Longrightarrow>
   nt_refs (netdev_trig_notify evt dev name carrier d) =
     (case nt_net_dev (netdev_trig_notify evt dev name carrier d) of None \<Rightarrow> [] | Some n \<Rightarrow> [n])"
  by (auto simp: netdev_trig_notify_def dev_put_def set_baseline_state_def Let_def split: option.splits)

lemma name_store_leaks:
  assumes "dev_get_by_name name = Some n" "name \<noteq> []" "length name < IFNAMSIZ" "CHR 0x00 \<notin> set name" "last name \<noteq> CHR 0x0A"
    and "nt_net_dev d = Some n" "nt_refs d = [n]"
  shows "netdev_trig_deactivate (snd (led_device_name_store dev_get_by_name lower_up name d)) = [n]"
proof -
  have name: "takeWhile (\<lambda>c. c \<noteq> CHR 0x00) name = name"
    unfolding takeWhile_eq_all_conv using assms(4) by blast
  have "led_device_name_store dev_get_by_name lower_up name d =
    (int (length name), set_baseline_state (d\<lparr>nt_device_name := name, nt_net_dev := Some n, nt_refs := [n, n], nt_link_up := lower_up n\<rparr>))"
    using assms(1,2,3,5-7) by (simp add: led_device_name_store_def name Let_def)
  then show ?thesis
    by (simp add: netdev_trig_deactivate_def dev_put_def set_baseline_state_def)
qed

end
