(* ===== verification/Decimal.thy ===== *)
theory Decimal
  imports Prelude
begin

section \<open>Numbers as text\<close>

text \<open>
  The parts of \<^verbatim>\<open>printf\<close> and \<^verbatim>\<open>scanf\<close> of the C library that the tools use: digits in a base up to 16, the conversions \<^verbatim>\<open>%d\<close>,
  \<^verbatim>\<open>%llu\<close> and \<^verbatim>\<open>%04llx\<close>, and the conversion \<^verbatim>\<open>%d\<close> on input; and that what is printed is read back.
\<close>

definition digit_char :: "nat \<Rightarrow> char" where
  "digit_char d = char_of (if d < 10 then 48 + d else 87 + d)"

definition char_digit :: "char \<Rightarrow> nat" where
  "char_digit c = (if of_char c < (58 :: nat) then of_char c - 48 else of_char c - 87)"

function digits :: "nat \<Rightarrow> nat \<Rightarrow> string" where
  "digits b n = (if n < b \<or> b < 2 then [digit_char n] else digits b (n div b) @ [digit_char (n mod b)])"
  by pat_completeness auto
termination by (relation "measure snd") (auto intro: div_less_dividend)

declare digits.simps [simp del]

definition digits_value :: "nat \<Rightarrow> string \<Rightarrow> nat" where
  "digits_value b s = foldl (\<lambda>v c. v * b + char_digit c) 0 s"

definition print_int :: "int \<Rightarrow> string" where
  "print_int i = (if i < 0 then CHR ''-'' # digits 10 (nat (- i)) else digits 10 (nat i))"

definition hex04 :: "nat \<Rightarrow> string" where
  "hex04 n = replicate (4 - length (digits 16 n)) (CHR ''0'') @ digits 16 n"

definition is_digit :: "char \<Rightarrow> bool" where
  "is_digit c \<longleftrightarrow> 48 \<le> (of_char c :: nat) \<and> of_char c < (58 :: nat)"

definition is_space :: "char \<Rightarrow> bool" where
  "is_space c \<longleftrightarrow> c \<in> {CHR '' '', CHR 0x09, CHR 0x0A, CHR 0x0B, CHR 0x0C, CHR 0x0D}"

text \<open>One conversion \<^verbatim>\<open>%d\<close>: the number and what is left of the text, or a failure.\<close>

definition scan_int :: "string \<Rightarrow> (int \<times> string) option" where
  "scan_int s =
     (let s = dropWhile is_space s;
          neg = (s \<noteq> [] \<and> hd s = CHR ''-'');
          s = (if s \<noteq> [] \<and> (hd s = CHR ''-'' \<or> hd s = CHR ''+'') then tl s else s);
          ds = takeWhile is_digit s
      in if ds = [] then None
         else Some (if neg then - int (digits_value 10 ds) else int (digits_value 10 ds), dropWhile is_digit s))"

subsection \<open>Printed numbers are read back\<close>

lemma char_digit_char: "d < 16 \<Longrightarrow> char_digit (digit_char d) = d"
  by (simp add: char_digit_def digit_char_def)

lemma is_digit_char: "d < 10 \<Longrightarrow> is_digit (digit_char d)"
  by (simp add: is_digit_def digit_char_def)

lemma digits_not_empty [simp]: "digits b n \<noteq> []"
  by (subst digits.simps) simp

lemma digits_value_append: "digits_value b (s @ [c]) = digits_value b s * b + char_digit c"
  by (simp add: digits_value_def)

lemma digits_value_digits [simp]:
  assumes "2 \<le> b" "b \<le> 16"
  shows "digits_value b (digits b n) = n"
proof (induction n rule: less_induct)
  case (less n)
  show ?case
  proof (cases "n < b")
    case True
    then show ?thesis
      using assms by (subst digits.simps) (simp add: digits_value_def char_digit_char)
  next
    case False
    then have "n div b < n" using assms by (intro div_less_dividend) auto
    moreover have "n mod b < 16" using assms by (metis less_le_trans mod_less_divisor zero_less_numeral)
    ultimately show ?thesis
      using False assms less by (subst digits.simps) (simp add: digits_value_append char_digit_char)
  qed
qed

lemma digits_digits: "b \<le> 10 \<Longrightarrow> 2 \<le> b \<Longrightarrow> \<forall>c \<in> set (digits b n). is_digit c"
proof (induction n rule: less_induct)
  case (less n)
  have last: "n mod b < 10" using less.prems by (metis less_le_trans mod_less_divisor zero_less_numeral)
  show ?case
  proof (cases "n < b")
    case False
    then have "n div b < n" using less.prems by (intro div_less_dividend) auto
    from less.IH [OF this less.prems] show ?thesis
      using False last less.prems by (subst digits.simps) (simp add: is_digit_char)
  qed (use less.prems in \<open>subst digits.simps, simp add: is_digit_char\<close>)
qed

lemma digits_inject: "2 \<le> b \<Longrightarrow> b \<le> 16 \<Longrightarrow> digits b n = digits b m \<Longrightarrow> n = m"
  by (metis digits_value_digits)

lemma is_digit_simps [simp]: "\<not> is_digit (CHR ''-'')" "\<not> is_digit (CHR ''+'')" "\<not> is_digit (CHR '' '')" "\<not> is_digit (CHR 0x0A)"
  by (simp_all add: is_digit_def)

lemma digit_not_space: "is_digit c \<Longrightarrow> \<not> is_space c"
  by (auto simp: is_digit_def is_space_def)

lemma scan_print_int:
  assumes "rest = [] \<or> \<not> is_digit (hd rest)"
  shows "scan_int (print_int i @ rest) = Some (i, rest)"
proof -
  have take_digits: "takeWhile is_digit (digits 10 n @ rest) = digits 10 n" "dropWhile is_digit (digits 10 n @ rest) = rest" for n
    using assms digits_digits [of 10 n] by (cases rest; simp add: takeWhile_append2 dropWhile_append2)+
  have head: "dropWhile is_space (digits 10 n @ rest) = digits 10 n @ rest" "is_digit (hd (digits 10 n @ rest))" for n
    using digits_digits [of 10 n] digit_not_space by (cases "digits 10 n"; auto)+
  have sign: "hd (digits 10 n @ rest) \<noteq> CHR ''-''" "hd (digits 10 n @ rest) \<noteq> CHR ''+''" for n
    using head(2) [of n] is_digit_simps by metis+
  show ?thesis
    using sign by (auto simp: scan_int_def print_int_def Let_def head take_digits is_space_def)
qed

lemma scan_skips_space: "is_space c \<Longrightarrow> scan_int (c # s) = scan_int s"
  by (simp add: scan_int_def)

lemma digits_length: "2 \<le> b \<Longrightarrow> n < b ^ Suc k \<Longrightarrow> length (digits b n) \<le> Suc k"
proof (induction k arbitrary: n)
  case 0
  then show ?case by (subst digits.simps) simp
next
  case (Suc k)
  then have "n div b < b ^ Suc k" by (simp add: less_mult_imp_div_less mult.commute)
  then show ?case using Suc by (subst digits.simps) simp
qed

lemma hex04_no_dash: "CHR ''-'' \<notin> set (hex04 n)"
proof -
  have "CHR ''-'' \<notin> set (digits 16 m)" for m
  proof (induction m rule: less_induct)
    case (less m)
    have "digit_char d \<noteq> CHR ''-''" if "d < 16" for d
    proof
      assume "digit_char d = CHR ''-''"
      then have "char_digit (digit_char d) = char_digit (CHR ''-'')" by simp
      then have "d = 0" using that by (simp add: char_digit_char) (simp add: char_digit_def)
      with \<open>digit_char d = CHR ''-''\<close> show False by (simp add: digit_char_def char_of_def bit_0)
    qed
    then show ?case
      using less by (subst digits.simps) (auto simp: eq_commute)
  qed
  then show ?thesis by (simp add: hex04_def)
qed

lemma hex04_inject: "hex04 n = hex04 m \<Longrightarrow> n = m"
proof -
  have pad: "digits_value 16 (replicate k (CHR ''0'') @ s) = digits_value 16 s" for k s
    by (induction k) (simp_all add: digits_value_def char_digit_def)
  show "hex04 n = hex04 m \<Longrightarrow> n = m"
    using pad digits_value_digits [of 16] unfolding hex04_def by (metis le_refl numeral_le_iff semiring_norm(68,69,71))
qed

end
