(* ===== verification/Fstat.thy ===== *)
theory Fstat
  imports Decimal
begin

section \<open>The fstat tool\<close>

text \<open>
  \<^verbatim>\<open>TOOLS/fstat.c\<close> prints times and sizes of a file.  The array \<^verbatim>\<open>fmt\<close> of 256 characters is on the stack and not set before it is used: its
  contents are an argument.  Printing a string that has no NUL within the array is undefined (\<open>None\<close>).
\<close>

record file_stat =
  fs_size :: nat
  fs_blksize :: nat
  fs_blocks :: nat
  fs_atime :: nat
  fs_mtime :: nat
  fs_ctime :: nat

function fmt_len :: "nat \<Rightarrow> nat" where
  "fmt_len tmp = (if tmp > 9 then fmt_len (tmp div 10) + 1 else 1)"
  by pat_completeness auto
termination by (relation "measure id") auto

declare fmt_len.simps [simp del]

text \<open>The second loop, with \<open>n\<close> characters still to be written.\<close>

primrec fmt_write :: "nat \<Rightarrow> nat \<Rightarrow> string \<Rightarrow> string" where
  "fmt_write 0 tmp dest = dest"
| "fmt_write (Suc n) tmp dest = fmt_write n (tmp div 10) (dest[n := char_of (tmp mod 10 + 48)])"

definition fmt_ulong :: "string \<Rightarrow> nat \<Rightarrow> nat \<times> string" where
  "fmt_ulong dest i = (fmt_len i, fmt_write (fmt_len i) i dest)"

text \<open>What \<open>write1\<close> and \<open>write2\<close> print of the array.\<close>

definition c_string :: "string \<Rightarrow> string option" where
  "c_string buf = (if CHR 0x00 \<in> set buf then Some (takeWhile (\<lambda>c. c \<noteq> CHR 0x00) buf) else None)"

definition write2 :: "string \<Rightarrow> string \<Rightarrow> string option" where
  "write2 a buf = map_option (\<lambda>s. a @ s @ [CHR 0x0A]) (c_string buf)"

definition write1 :: "string \<Rightarrow> string option" where
  "write1 buf = map_option (\<lambda>s. s @ [CHR 0x0A]) (c_string buf)"

text \<open>An \<^verbatim>\<open>unsigned long\<close> has 32 bits.\<close>

definition realsize :: "file_stat \<Rightarrow> nat" where
  "realsize st = fs_blksize st * fs_blocks st mod 2 ^ 32"

text \<open>The number asked for by an option, whose leading dashes are skipped.\<close>

definition fstat_option :: "string \<Rightarrow> file_stat \<Rightarrow> nat option" where
  "fstat_option opt st =
     (case dropWhile (\<lambda>c. c = CHR ''-'') opt of
        c # _ \<Rightarrow>
          if c = CHR ''a'' then Some (fs_atime st)
          else if c = CHR ''c'' then Some (fs_ctime st)
          else if c = CHR ''m'' then Some (fs_mtime st)
          else if c = CHR ''r'' then Some (realsize st)
          else if c = CHR ''s'' then Some (fs_size st)
          else None
      | [] \<Rightarrow> None)"

text \<open>
  The program with its arguments (the name it is called by left out): the exit status and what it prints on standard output.
  \<open>lstat\<close> is the system call.
\<close>

definition fstat_main :: "string \<Rightarrow> (string \<Rightarrow> file_stat option) \<Rightarrow> string list \<Rightarrow> (int \<times> string) option" where
  "fstat_main fmt lstat args =
     (if args = [] then Some (1, [])
      else case lstat (if length args = 2 then args ! 1 else args ! 0) of
        None \<Rightarrow> Some (1, [])
      | Some st \<Rightarrow>
          if length args = 2 then
            (case fstat_option (args ! 0) st of
               None \<Rightarrow> Some (1, [])
             | Some n \<Rightarrow> map_option (Pair 0) (write1 (snd (fmt_ulong fmt n))))
          else do {
            let fmt = snd (fmt_ulong fmt (fs_size st));
            l1 \<leftarrow> write2 ''size:     '' fmt;
            let fmt = snd (fmt_ulong fmt (realsize st));
            l2 \<leftarrow> write2 ''realsize: '' fmt;
            let fmt = snd (fmt_ulong fmt (fs_atime st));
            l3 \<leftarrow> write2 ''access:   '' fmt;
            let fmt = snd (fmt_ulong fmt (fs_mtime st));
            l4 \<leftarrow> write2 ''modify:   '' fmt;
            let fmt = snd (fmt_ulong fmt (fs_ctime st));
            l5 \<leftarrow> write2 ''change:   '' fmt;
            Some (0, l1 @ l2 @ l3 @ l4 @ l5) })"

subsection \<open>Numbers are formatted, but strings are not ended\<close>

lemma fmt_len_digits: "fmt_len n = length (digits 10 n)"
  by (induction n rule: fmt_len.induct) (subst fmt_len.simps, subst digits.simps, auto)

lemma fmt_write_digits:
  "length (digits 10 n) \<le> length dest \<Longrightarrow> fmt_write (length (digits 10 n)) n dest = digits 10 n @ drop (length (digits 10 n)) dest"
proof (induction n arbitrary: dest rule: less_induct)
  case (less n)
  have last: "char_of (n mod 10 + 48) = digit_char (n mod 10)" by (simp add: digit_char_def add.commute)
  show ?case
  proof (cases "n < 10")
    case True
    then show ?thesis
      using less.prems last by (simp add: digits.simps [of 10 n]) (cases dest; simp)
  next
    case False
    then have split: "digits 10 n = digits 10 (n div 10) @ [digit_char (n mod 10)]" by (simp add: digits.simps [of 10 n])
    let ?k = "length (digits 10 (n div 10))"
    have "fmt_write ?k (n div 10) (dest[?k := digit_char (n mod 10)]) =
          digits 10 (n div 10) @ drop ?k (dest[?k := digit_char (n mod 10)])"
      using False less.prems by (intro less.IH) (auto simp: split)
    moreover have "drop ?k (dest[?k := digit_char (n mod 10)]) = digit_char (n mod 10) # drop (Suc ?k) dest"
      using less.prems by (simp add: split drop_update_swap Cons_nth_drop_Suc [symmetric])
    ultimately show ?thesis by (simp add: split last)
  qed
qed

text \<open>The digits of a number are followed by whatever the array held behind them.\<close>

lemma fmt_ulong_digits:
  "length (digits 10 n) \<le> length dest \<Longrightarrow>
   fmt_ulong dest n = (length (digits 10 n), digits 10 n @ drop (length (digits 10 n)) dest)"
  by (simp add: fmt_ulong_def fmt_len_digits fmt_write_digits)

lemma digits_no_nul: "CHR 0x00 \<notin> set (digits 10 n)"
  using digits_digits [of 10 n] by (auto simp: is_digit_def)

text \<open>
  C39. Asked for one number, \<open>fstat\<close> prints its decimal digits and a newline exactly if the uninitialised array happens to
  hold a NUL right behind them: the string is never ended by the program.
\<close>

theorem fstat_prints_number_iff:
  assumes "lstat name = Some st" "fstat_option opt st = Some n" "length (digits 10 n) < length fmt"
  shows "fstat_main fmt lstat [opt, name] = Some (0, digits 10 n @ [CHR 0x0A]) \<longleftrightarrow> fmt ! length (digits 10 n) = CHR 0x00"
proof -
  let ?ds = "digits 10 n"
  let ?rest = "drop (length ?ds) fmt"
  have rest: "?rest = fmt ! length ?ds # drop (Suc (length ?ds)) fmt"
    using assms(3) by (simp add: Cons_nth_drop_Suc)
  have "takeWhile (\<lambda>c. c \<noteq> CHR 0x00) (?ds @ ?rest) = ?ds @ takeWhile (\<lambda>c. c \<noteq> CHR 0x00) ?rest"
    using digits_no_nul [of n] by (intro takeWhile_append2) metis
  then have "fstat_main fmt lstat [opt, name] =
      (if CHR 0x00 \<in> set ?rest then Some (0, (?ds @ takeWhile (\<lambda>c. c \<noteq> CHR 0x00) ?rest) @ [CHR 0x0A]) else None)"
    using assms digits_no_nul [of n] by (simp add: fstat_main_def fmt_ulong_digits write1_def c_string_def)
  moreover have "takeWhile (\<lambda>c. c \<noteq> CHR 0x00) ?rest = [] \<longleftrightarrow> fmt ! length ?ds = CHR 0x00"
    by (subst rest) simp
  moreover have "CHR 0x00 \<in> set ?rest" if "fmt ! length ?ds = CHR 0x00"
    using that rest by (metis list.set_intros(1))
  ultimately show ?thesis by auto
qed

text \<open>A size of 42 bytes is printed as 427 if a 7 was left in the array.\<close>

definition small_file :: file_stat where
  "small_file = \<lparr>fs_size = 42, fs_blksize = 4096, fs_blocks = 8, fs_atime = 0, fs_mtime = 0, fs_ctime = 0\<rparr>"

theorem fstat_prints_number_iff_witness:
  "fstat_main (''1997'' @ replicate 252 (CHR 0x00)) (\<lambda>_. Some small_file) [''-s'', ''f''] \<noteq> Some (0, ''42'' @ [CHR 0x0A])"
proof -
  have ds: "digits 10 42 = ''42''" by (simp add: digits.simps digit_char_def char_of_def bit_0)
  have "fstat_option ''-s'' small_file = Some 42" by (simp add: fstat_option_def small_file_def)
  from fstat_prints_number_iff [of "\<lambda>_. Some small_file" "''f''", OF refl this, of "''1997'' @ replicate 252 (CHR 0x00)"]
  show ?thesis by (simp add: ds)
qed

end
