(* ===== verification/Pretendroot.thy ===== *)
theory Pretendroot
  imports Decimal
begin

section \<open>Pretending to be root\<close>

text \<open>
  \<^verbatim>\<open>development/libpretendroot/libpretendroot.c\<close>, a library that is loaded before the C library: packages are built by a user who appears to be
  root.  The owners that files were given are kept in a directory, one small text file per inode.  \<open>dir\<close> is that directory, \<open>None\<close>
  if the library is inactive.  The C library below is a parameter: a record of the calls on the files of the directory, which
  act on the state \<open>'s\<close> of the system, and for each function the function of the same name that it hides.  Opening, reading or writing and
  closing a file of the directory is one call.
\<close>

record pr_stat =
  st_dev :: nat
  st_ino :: nat
  st_uid :: u32
  st_gid :: u32
  st_nlink :: nat
  st_is_dir :: bool

record 's libc =
  db_read :: "'s \<Rightarrow> string \<Rightarrow> string option"
  db_create :: "'s \<Rightarrow> string \<Rightarrow> string \<Rightarrow> bool \<times> 's"
  next_rename :: "'s \<Rightarrow> string \<Rightarrow> string \<Rightarrow> int \<times> 's"
  next_unlink :: "'s \<Rightarrow> string \<Rightarrow> int \<times> 's"

subsection \<open>The owners of inodes\<close>

definition print_filename :: "string \<Rightarrow> nat \<Rightarrow> nat \<Rightarrow> string" where
  "print_filename dir dev ino = dir @ ''/'' @ hex04 dev @ ''-'' @ digits 10 ino"

definition scan_owner :: "string \<Rightarrow> (u32 \<times> u32) option" where
  "scan_owner buf =
     do { (uid, rest) \<leftarrow> scan_int buf; (gid, _) \<leftarrow> scan_int rest; Some (word_of_int uid, word_of_int gid) }"

definition pretended_owner :: "'s libc \<Rightarrow> string \<Rightarrow> 's \<Rightarrow> nat \<times> nat \<Rightarrow> u32 \<times> u32" where
  "pretended_owner os dir s k =
     (case db_read os s (print_filename dir (fst k) (snd k)) of
        None \<Rightarrow> (0, 0)
      | Some buf \<Rightarrow> if 0 < length buf \<and> length buf < 32 then (case scan_owner buf of None \<Rightarrow> (0, 0) | Some owner \<Rightarrow> owner) else (0, 0))"

definition get_pretended_uid_gid :: "'s libc \<Rightarrow> string \<Rightarrow> 's \<Rightarrow> pr_stat \<Rightarrow> pr_stat" where
  "get_pretended_uid_gid os dir s st =
     (let (uid, gid) = pretended_owner os dir s (st_dev st, st_ino st) in st\<lparr>st_uid := uid, st_gid := gid\<rparr>)"

definition remove_pretended_uid_gid :: "'s libc \<Rightarrow> string \<Rightarrow> pr_stat \<Rightarrow> 's \<Rightarrow> 's" where
  "remove_pretended_uid_gid os dir st s = snd (next_unlink os s (print_filename dir (st_dev st) (st_ino st)))"

definition print_owner :: "u32 \<Rightarrow> u32 \<Rightarrow> string" where
  "print_owner uid gid = print_int (sint uid) @ '' '' @ print_int (sint gid) @ [CHR 0x0A]"

definition set_pretended_uid_gid :: "'s libc \<Rightarrow> string \<Rightarrow> pr_stat \<Rightarrow> u32 \<Rightarrow> u32 \<Rightarrow> 's \<Rightarrow> 's" where
  "set_pretended_uid_gid os dir st uid gid s =
     (let st = get_pretended_uid_gid os dir s st;
          st = (if uid \<noteq> -1 then st\<lparr>st_uid := uid\<rparr> else st);
          st = (if gid \<noteq> -1 then st\<lparr>st_gid := gid\<rparr> else st)
      in if st_uid st \<noteq> 0 \<or> st_gid st \<noteq> 0 then
           (let path = print_filename dir (st_dev st) (st_ino st);
                path_tmp = path @ ''.tmp'';
                (ok, s) = db_create os s path_tmp (print_owner (st_uid st) (st_gid st))
            in if ok then snd (next_rename os s path_tmp path) else s)
         else remove_pretended_uid_gid os dir st s)"

subsection \<open>The functions that are hidden\<close>

text \<open>\<^verbatim>\<open>getuid\<close>, \<^verbatim>\<open>geteuid\<close>, \<^verbatim>\<open>getgid\<close> and \<^verbatim>\<open>getegid\<close>.\<close>

definition pretend_getid :: "string option \<Rightarrow> u32 \<Rightarrow> u32" where
  "pretend_getid dir next_id = (if dir = None then next_id else 0)"

text \<open>The result and the list afterwards.\<close>

definition pretend_getgroups :: "string option \<Rightarrow> int \<times> u32 list \<Rightarrow> int \<Rightarrow> u32 list \<Rightarrow> int \<times> u32 list" where
  "pretend_getgroups dir next_result sz groups =
     (if dir = None then next_result else (1, if sz > 0 then groups[0 := 0] else groups))"

text \<open>\<^verbatim>\<open>setuid\<close>, \<^verbatim>\<open>seteuid\<close>, \<^verbatim>\<open>setreuid\<close>, \<^verbatim>\<open>setgid\<close>, \<^verbatim>\<open>setegid\<close>, \<^verbatim>\<open>setregid\<close> and \<^verbatim>\<open>setgroups\<close>.\<close>

definition pretend_setid :: "string option \<Rightarrow> ('s \<Rightarrow> int \<times> 's) \<Rightarrow> 's \<Rightarrow> int \<times> 's" where
  "pretend_setid dir next_set s = (let (r, s) = next_set s in (if dir = None then r else 0, s))"

text \<open>The eight functions of the \<^verbatim>\<open>stat\<close> family; \<open>None\<close> is the error of the hidden function.\<close>

definition pretend_stat :: "'s libc \<Rightarrow> string option \<Rightarrow> ('s \<Rightarrow> pr_stat option) \<Rightarrow> 's \<Rightarrow> pr_stat option" where
  "pretend_stat os dir next_stat s =
     (case dir of
        None \<Rightarrow> next_stat s
      | Some d \<Rightarrow> (case next_stat s of None \<Rightarrow> None | Some st \<Rightarrow> Some (get_pretended_uid_gid os d s st)))"

text \<open>\<^verbatim>\<open>chown\<close>, \<^verbatim>\<open>lchown\<close>, \<^verbatim>\<open>fchown\<close> and \<^verbatim>\<open>fchownat\<close>, with the function of the \<^verbatim>\<open>stat\<close> family that each uses.\<close>

definition pretend_chown ::
  "'s libc \<Rightarrow> string option \<Rightarrow> ('s \<Rightarrow> int \<times> 's) \<Rightarrow> ('s \<Rightarrow> pr_stat option) \<Rightarrow> u32 \<Rightarrow> u32 \<Rightarrow> 's \<Rightarrow> int \<times> 's" where
  "pretend_chown os dir next_chown next_stat uid gid s =
     (case dir of
        None \<Rightarrow> next_chown s
      | Some d \<Rightarrow> (case next_stat s of None \<Rightarrow> (-1, s) | Some st \<Rightarrow> (0, set_pretended_uid_gid os d st uid gid s)))"

text \<open>\<open>gone\<close> says whether the inode has no name left.\<close>

definition pretend_remove ::
  "'s libc \<Rightarrow> string option \<Rightarrow> ('s \<Rightarrow> int \<times> 's) \<Rightarrow> ('s \<Rightarrow> pr_stat option) \<Rightarrow> (pr_stat \<Rightarrow> bool) \<Rightarrow> 's \<Rightarrow> int \<times> 's" where
  "pretend_remove os dir next_remove next_lstat gone s =
     (case dir of
        None \<Rightarrow> next_remove s
      | Some d \<Rightarrow>
          (case next_lstat s of
             None \<Rightarrow> (-1, s)
           | Some st \<Rightarrow>
               let (r, s) = next_remove s
               in if r < 0 then (-1, s)
                  else (0, if gone st then remove_pretended_uid_gid os d st s else s)))"

definition pretend_unlink :: "'s libc \<Rightarrow> string option \<Rightarrow> ('s \<Rightarrow> int \<times> 's) \<Rightarrow> ('s \<Rightarrow> pr_stat option) \<Rightarrow> 's \<Rightarrow> int \<times> 's" where
  "pretend_unlink os dir next_un next_lstat s = pretend_remove os dir next_un next_lstat (\<lambda>st. st_nlink st = 1) s"

definition pretend_unlinkat :: "'s libc \<Rightarrow> string option \<Rightarrow> ('s \<Rightarrow> int \<times> 's) \<Rightarrow> ('s \<Rightarrow> pr_stat option) \<Rightarrow> bool \<Rightarrow> 's \<Rightarrow> int \<times> 's" where
  "pretend_unlinkat os dir next_un next_lstat removedir s =
     pretend_remove os dir next_un next_lstat (\<lambda>st. st_nlink st = 1 \<or> removedir) s"

definition pretend_rmdir :: "'s libc \<Rightarrow> string option \<Rightarrow> ('s \<Rightarrow> int \<times> 's) \<Rightarrow> ('s \<Rightarrow> pr_stat option) \<Rightarrow> 's \<Rightarrow> int \<times> 's" where
  "pretend_rmdir os dir next_rm next_lstat s = pretend_remove os dir next_rm next_lstat (\<lambda>_. True) s"

text \<open>\<open>next_move\<close> renames, \<open>next_lstat\<close> looks at the new name.\<close>

definition pretend_rename :: "'s libc \<Rightarrow> string option \<Rightarrow> ('s \<Rightarrow> int \<times> 's) \<Rightarrow> ('s \<Rightarrow> pr_stat option) \<Rightarrow> 's \<Rightarrow> int \<times> 's" where
  "pretend_rename os dir next_move next_lstat s =
     (case (dir, next_lstat s) of
        (Some d, Some st1) \<Rightarrow>
          if st_nlink st1 > 1 \<and> \<not> st_is_dir st1 then next_move s
          else (let (r, s) = next_move s
                in if r < 0 then (-1, s)
                   else (0, case next_lstat s of
                              None \<Rightarrow> remove_pretended_uid_gid os d st1 s
                            | Some st2 \<Rightarrow> if st_ino st1 \<noteq> st_ino st2 then remove_pretended_uid_gid os d st1 s else s))
      | _ \<Rightarrow> next_move s)"

subsection \<open>Owners are remembered\<close>

text \<open>What is relied on of the file system that holds the directory: \<open>files\<close> gives the contents of a file.\<close>

definition file_laws :: "'s libc \<Rightarrow> ('s \<Rightarrow> string \<Rightarrow> string option) \<Rightarrow> bool" where
  "file_laws os files \<longleftrightarrow>
     (\<forall>s p. db_read os s p = map_option (take 32) (files s p)) \<and>
     (\<forall>s p t. files s p = None \<longrightarrow> fst (db_create os s p t) \<and> files (snd (db_create os s p t)) = (files s)(p \<mapsto> t)) \<and>
     (\<forall>s p q t. files s p = Some t \<longrightarrow> files (snd (next_rename os s p q)) = (files s)(p := None, q \<mapsto> t)) \<and>
     (\<forall>s p. files (snd (next_unlink os s p)) = (files s)(p := None))"

lemma print_filename_inject: "print_filename dir dev ino = print_filename dir dev' ino' \<Longrightarrow> dev = dev' \<and> ino = ino'"
proof -
  assume "print_filename dir dev ino = print_filename dir dev' ino'"
  then have eq: "hex04 dev @ CHR ''-'' # digits 10 ino = hex04 dev' @ CHR ''-'' # digits 10 ino'"
    by (simp add: print_filename_def)
  then have "takeWhile (\<lambda>c. c \<noteq> CHR ''-'') (hex04 dev @ CHR ''-'' # digits 10 ino) =
             takeWhile (\<lambda>c. c \<noteq> CHR ''-'') (hex04 dev' @ CHR ''-'' # digits 10 ino')" by simp
  moreover have "takeWhile (\<lambda>c. c \<noteq> CHR ''-'') (hex04 n) = hex04 n" for n
    unfolding takeWhile_eq_all_conv using hex04_no_dash by blast
  ultimately have "hex04 dev = hex04 dev'" by (simp add: takeWhile_tail)
  then show ?thesis using eq hex04_inject digits_inject [of 10 ino ino'] by auto
qed

lemma print_filename_not_tmp: "print_filename dir dev ino \<noteq> print_filename dir dev' ino' @ ''.tmp''"
proof
  assume "print_filename dir dev ino = print_filename dir dev' ino' @ ''.tmp''"
  then have "last (print_filename dir dev ino) = last (print_filename dir dev' ino' @ ''.tmp'')" by simp
  then have "last (digits 10 ino) = CHR ''p''" by (simp add: print_filename_def)
  then show False using digits_digits [of 10 ino] last_in_set [of "digits 10 ino"] by (auto simp: is_digit_def)
qed

lemma scan_print_owner: "scan_owner (print_owner uid gid) = Some (uid, gid)"
  by (simp add: scan_owner_def print_owner_def scan_print_int scan_skips_space is_space_def)

lemma print_owner_length: "0 < length (print_owner uid gid)" "length (print_owner uid gid) < 32"
proof -
  have "length (print_int (sint w)) \<le> 11" for w :: u32
  proof -
    have "- (2 ^ 31) \<le> sint w" "sint w < 2 ^ 31" using sint_ge [of w] sint_lt [of w] by simp_all
    then have "nat (sint w) < 10 ^ Suc 9" "nat (- sint w) < 10 ^ Suc 9" by auto
    then show ?thesis
      using digits_length [of 10 "nat (sint w)" 9] digits_length [of 10 "nat (- sint w)" 9] by (simp add: print_int_def)
  qed
  from this [of uid] this [of gid] show "0 < length (print_owner uid gid)" "length (print_owner uid gid) < 32"
    by (simp_all add: print_owner_def)
qed

lemma file_laws_create:
  assumes "file_laws os files" "files s p = None" "db_create os s p t = (ok, s1)"
  shows "ok" "files s1 = (files s)(p \<mapsto> t)"
proof -
  have "fst (db_create os s p t) \<and> files (snd (db_create os s p t)) = (files s)(p \<mapsto> t)"
    using assms(1,2) unfolding file_laws_def by blast
  then show "ok" "files s1 = (files s)(p \<mapsto> t)" using assms(3) by simp_all
qed

text \<open>The owners of two states agree where the files agree.\<close>

lemma owner_files:
  assumes "file_laws os files" "files s (print_filename dir dev ino) = files s' (print_filename dir dev ino)"
  shows "pretended_owner os dir s (dev, ino) = pretended_owner os dir s' (dev, ino)"
  using assms by (simp add: pretended_owner_def file_laws_def)

lemma owner_none: "file_laws os files \<Longrightarrow> files s (print_filename dir dev ino) = None \<Longrightarrow> pretended_owner os dir s (dev, ino) = (0, 0)"
  by (simp add: pretended_owner_def file_laws_def)

lemma owner_printed:
  assumes "file_laws os files" "files s (print_filename dir dev ino) = Some (print_owner uid gid)"
  shows "pretended_owner os dir s (dev, ino) = (uid, gid)"
  using assms print_owner_length [of uid gid] by (simp add: pretended_owner_def file_laws_def scan_print_owner)

lemma remove_owner:
  assumes "file_laws os files"
  shows "pretended_owner os dir (remove_pretended_uid_gid os dir st s) = (pretended_owner os dir s)((st_dev st, st_ino st) := (0, 0))"
proof
  fix k :: "nat \<times> nat"
  obtain dev ino where k: "k = (dev, ino)" by (cases k)
  have files: "files (remove_pretended_uid_gid os dir st s) = (files s)(print_filename dir (st_dev st) (st_ino st) := None)"
    using assms by (simp add: file_laws_def remove_pretended_uid_gid_def)
  show "pretended_owner os dir (remove_pretended_uid_gid os dir st s) k = ((pretended_owner os dir s)((st_dev st, st_ino st) := (0, 0))) k"
  proof (cases "k = (st_dev st, st_ino st)")
    case True
    then show ?thesis using owner_none [OF assms] files by simp
  next
    case False
    then have "print_filename dir dev ino \<noteq> print_filename dir (st_dev st) (st_ino st)"
      using k print_filename_inject by blast
    then have "pretended_owner os dir (remove_pretended_uid_gid os dir st s) (dev, ino) = pretended_owner os dir s (dev, ino)"
      by (intro owner_files [OF assms]) (simp add: files)
    then show ?thesis using False k by auto
  qed
qed

lemma store_owner:
  assumes laws: "file_laws os files" and free: "files s (print_filename dir dev ino @ ''.tmp'') = None"
    and create: "db_create os s (print_filename dir dev ino @ ''.tmp'') (print_owner uid gid) = (ok, s1)"
  shows "ok \<and> pretended_owner os dir (snd (next_rename os s1 (print_filename dir dev ino @ ''.tmp'') (print_filename dir dev ino))) =
    (pretended_owner os dir s)((dev, ino) := (uid, gid))"
proof
  let ?p = "print_filename dir dev ino"
  let ?s2 = "snd (next_rename os s1 (?p @ ''.tmp'') ?p)"
  have ok: "ok" "files s1 = (files s)(?p @ ''.tmp'' \<mapsto> print_owner uid gid)"
    using file_laws_create [OF laws free create] by blast+
  then have "files s1 (?p @ ''.tmp'') = Some (print_owner uid gid)" by simp
  then have "files ?s2 = (files s1)(?p @ ''.tmp'' := None, ?p \<mapsto> print_owner uid gid)"
    using laws unfolding file_laws_def by blast
  then have files: "files ?s2 = (files s)(?p \<mapsto> print_owner uid gid)" using ok(2) free by auto
  show "ok" by (rule ok)
  show "pretended_owner os dir ?s2 = (pretended_owner os dir s)((dev, ino) := (uid, gid))"
  proof
    fix k :: "nat \<times> nat"
    obtain dev' ino' where k: "k = (dev', ino')" by (cases k)
    show "pretended_owner os dir ?s2 k = ((pretended_owner os dir s)((dev, ino) := (uid, gid))) k"
    proof (cases "k = (dev, ino)")
      case True
      then show ?thesis using owner_printed [OF laws] files by simp
    next
      case False
      then have "print_filename dir dev' ino' \<noteq> ?p" using k print_filename_inject by blast
      then have "pretended_owner os dir ?s2 (dev', ino') = pretended_owner os dir s (dev', ino')"
        by (intro owner_files [OF laws]) (simp add: files)
      then show ?thesis using False k by auto
    qed
  qed
qed

text \<open>
  C22. The directory of small files implements a map from inodes to owners: after a successful change of owner the map is changed at
  that inode only, where an id of -1 keeps what was there, and the functions of the stat family report what the map holds.
  Relied on are the laws of a file system, and that no temporary file is left over from an earlier change of the same inode.
\<close>

theorem pretended_owners_refine_map:
  assumes "file_laws os files" "next_stat s = Some st" "files s (print_filename d (st_dev st) (st_ino st) @ ''.tmp'') = None"
    and "pretend_chown os (Some d) next_chown next_stat uid gid s = (r, s')"
    and "pretended_owner os d s (st_dev st, st_ino st) = (uid0, gid0)"
  shows "r = 0 \<and>
    pretended_owner os d s' = (pretended_owner os d s)((st_dev st, st_ino st) := (if uid = -1 then uid0 else uid, if gid = -1 then gid0 else gid)) \<and>
    (\<forall>st2 f. f s' = Some st2 \<longrightarrow> map_option (\<lambda>st. (st_uid st, st_gid st)) (pretend_stat os (Some d) f s') = Some (pretended_owner os d s' (st_dev st2, st_ino st2)))"
proof (intro conjI)
  let ?uid = "if uid = -1 then uid0 else uid" and ?gid = "if gid = -1 then gid0 else gid"
  let ?st = "st\<lparr>st_uid := ?uid, st_gid := ?gid\<rparr>"
  show "r = 0" using assms(2,4) by (simp add: pretend_chown_def)
  have s': "s' = set_pretended_uid_gid os d st uid gid s"
    using assms(2,4) by (simp add: pretend_chown_def)
  show "pretended_owner os d s' = (pretended_owner os d s)((st_dev st, st_ino st) := (?uid, ?gid))"
  proof (cases "?uid \<noteq> 0 \<or> ?gid \<noteq> 0")
    case True
    obtain ok s1 where create: "db_create os s (print_filename d (st_dev st) (st_ino st) @ ''.tmp'') (print_owner ?uid ?gid) = (ok, s1)"
      by fastforce
    with store_owner [OF assms(1,3) create] True show ?thesis
      unfolding s' set_pretended_uid_gid_def get_pretended_uid_gid_def assms(5) by (cases "uid = -1"; cases "gid = -1") (simp_all add: Let_def)
  next
    case False
    then show ?thesis
      using remove_owner [OF assms(1), of d ?st s]
      unfolding s' set_pretended_uid_gid_def get_pretended_uid_gid_def assms(5)
      by (cases "uid = -1"; cases "gid = -1") (simp_all add: Let_def remove_pretended_uid_gid_def)
  qed
  show "\<forall>st2 f. f s' = Some st2 \<longrightarrow> map_option (\<lambda>st. (st_uid st, st_gid st)) (pretend_stat os (Some d) f s') = Some (pretended_owner os d s' (st_dev st2, st_ino st2))"
    by (auto simp: pretend_stat_def get_pretended_uid_gid_def split: prod.split)
qed

text \<open>A file system that is a map from names to contents.\<close>

definition map_libc :: "(string \<Rightarrow> string option) libc" where
  "map_libc = \<lparr>db_read = (\<lambda>s p. map_option (take 32) (s p)), db_create = (\<lambda>s p t. if s p = None then (True, s(p \<mapsto> t)) else (False, s)),
     next_rename = (\<lambda>s p q. case s p of None \<Rightarrow> (-1, s) | Some t \<Rightarrow> (0, s(p := None, q \<mapsto> t))),
     next_unlink = (\<lambda>s p. (0, s(p := None)))\<rparr>"

lemma map_libc_laws: "file_laws map_libc (\<lambda>s. s)"
  by (simp add: file_laws_def map_libc_def)

definition sample_stat :: pr_stat where
  "sample_stat = \<lparr>st_dev = 8, st_ino = 42, st_uid = 1000, st_gid = 100, st_nlink = 1, st_is_dir = False\<rparr>"

theorem pretended_owners_refine_map_witness:
  "\<exists>s'. pretend_chown map_libc (Some ''db'') (\<lambda>s. (-1, s)) (\<lambda>_. Some sample_stat) 33 (-1) Map.empty = (0, s') \<and>
     pretended_owner map_libc ''db'' s' (8, 42) = (33, 0) \<and> pretended_owner map_libc ''db'' s' (8, 43) = (0, 0)"
proof -
  obtain r s' where chown: "pretend_chown map_libc (Some ''db'') (\<lambda>s. (-1, s)) (\<lambda>_. Some sample_stat) 33 (-1) Map.empty = (r, s')"
    by fastforce
  have empty: "pretended_owner map_libc ''db'' Map.empty = (\<lambda>_. (0, 0))"
    by (simp add: fun_eq_iff pretended_owner_def map_libc_def)
  from pretended_owners_refine_map [OF map_libc_laws refl _ chown, of 0 0] show ?thesis
    using chown by (simp add: empty sample_stat_def)
qed

text \<open>A temporary file that was left over makes every later change of the owner fail without an error.\<close>

lemma chown_blocked:
  assumes "next_stat s = Some st" "\<And>t. db_create os s (print_filename d (st_dev st) (st_ino st) @ ''.tmp'') t = (False, s)" "uid \<noteq> -1" "uid \<noteq> 0"
  shows "pretend_chown os (Some d) next_chown next_stat uid gid s = (0, s)"
  using assms by (auto simp: pretend_chown_def set_pretended_uid_gid_def get_pretended_uid_gid_def Let_def split: prod.split)

end
