(* ===== verification/Spec2Isabelle.thy ===== *)
theory Spec2Isabelle
  imports Ecc Tags Device Geometry TagsCompat ChunkBits TempBuffers Nand Checkpt Blocks BlockInv BlockOps Qsort Tnodes TnodeMap TnodePrune WriteLoop Objects ObjectHash Headers Files FileData FileIO Namespace Scan CheckptData Mount HeaderProps ScanProps CheckptProps ObjectTypes MtdIf MtdProps Morse VfsOps VfsMount VfsProps GpioDrivers NetSwitch NetdevTrig Decimal Fstat Pretendroot
begin

text \<open>
  \<^bold>\<open>Verification of the C code of Tenchio's Tiny Linux.\<close>

  The distribution's own code is the YAFFS flash file system as it is added to the kernel
  (\<^verbatim>\<open>kernel/work_in_progress/files-2.6.26/fs/yaffs2\<close>), a handful of device drivers (\<^verbatim>\<open>files-2.6.26/drivers\<close>) and two tools
  (\<^verbatim>\<open>development/libpretendroot\<close>, \<^verbatim>\<open>TOOLS/fstat.c\<close>).

  \<^bold>\<open>How the file system works.\<close>  NAND flash is written in chunks and erased in blocks.  Every chunk carries tags: the object it belongs to,
  its number in the object, and a sequence number.  In memory a file is a tree of tnodes from chunk numbers to flash chunks; objects
  (files, directories, links) are found by number in a hash table.  Writing a chunk allocates a fresh one and frees the old one; garbage collection
  copies what is left of a block and erases it.  Mounting rebuilds the memory state either from a checkpoint, a byte stream
  written on unmounting, or by scanning the tags of all chunks.  Two error-correcting codes protect data and tags.

  \<^bold>\<open>Modelling.\<close>  A C \<^verbatim>\<open>struct\<close> is a record, an \<^verbatim>\<open>enum\<close> or \<^verbatim>\<open>union\<close> a datatype, an \<^verbatim>\<open>unsigned\<close> a word of its width; signed numbers are
  \<^typ>\<open>int\<close> where the code keeps them in range and are cut to their width where it does not.  Code that changes state takes the
  state and returns the new one.  The result \<^term>\<open>None\<close> of an option is undefined behaviour (a bad pointer, an index out of range) or a loop
  that does not end; errors that the code reports are values.  The device (\<open>yaffs_Device\<close>) holds the function pointers of
  the flash driver, and the driver's own state is a type parameter \<open>'n\<close>; objects are records at addresses (\<open>yaffs_State\<close>).  Options of
  the compilation are the fields of \<open>yaffs_Config\<close>.  Functions keep the names of the source; a loop or a part of a long function has a name of its own.

  \<^bold>\<open>Theories, lowest first.\<close>

  \<^item> \<open>Prelude\<close>: words, bytes, C division, the collections \<open>byte_bits\<close> and \<open>eval_defs\<close>.
  \<^item> \<open>Ecc\<close> (\<^verbatim>\<open>yaffs_ecc.c\<close>): both codes correct one and detect two flipped bits; the locale \<open>error_code\<close> states the contract, both codes interpret it.
  \<^item> \<open>Tags\<close> (\<^verbatim>\<open>yaffs_packedtags1.c\<close>, \<^verbatim>\<open>yaffs_packedtags2.c\<close>, \<^verbatim>\<open>yaffs_tagsvalidity.c\<close>): round trips of the packed tags, with and without flipped bits.
  \<^item> \<open>Device\<close>, \<open>Geometry\<close> (\<^verbatim>\<open>yaffs_guts.h\<close>, \<open>yaffs_AddrToChunk\<close>, the geometry of \<open>yaffs_GutsInitialise\<close>): the record of a device; offsets are divided exactly, tnodes are wide enough.
  \<^item> \<open>TagsCompat\<close> (\<^verbatim>\<open>yaffs_tagscompat.c\<close>): YAFFS1 pages are read back as written, also with a flipped bit; a flipped bit of the stored tags code damages the tags.
  \<^item> \<open>ChunkBits\<close>, \<open>TempBuffers\<close>: the bitmap implements a set (locale \<open>chunk_set\<close>), buffers are handed out to one user (locale \<open>buffer_pool\<close>).
  \<^item> \<open>Nand\<close> (\<^verbatim>\<open>yaffs_nand.c\<close>), \<open>Checkpt\<close> (\<^verbatim>\<open>yaffs_checkptrw.c\<close>): the calls into the driver and the checkpoint stream.
  \<^item> \<open>Blocks\<close>, \<open>BlockInv\<close>, \<open>BlockOps\<close>, \<open>WriteLoop\<close>: the block manager; its invariant \<open>block_inv\<close> is kept by every operation (step relation \<open>block_run\<close>), allocation gives unused chunks, counters equal a recount, the retry loop ends and succeeds on good flash.
  \<^item> \<open>Qsort\<close> (\<^verbatim>\<open>yaffs_qsort.c\<close>): the quicksort sorts, for every comparison of the locale \<open>comparator\<close>.
  \<^item> \<open>Tnodes\<close>, \<open>TnodeMap\<close>, \<open>TnodePrune\<close>: the tree implements a map (locale \<open>chunk_map\<close>); pruning keeps it for 16-bit entries and can lose a wide one.
  \<^item> \<open>Objects\<close>, \<open>ObjectHash\<close>, \<open>Headers\<close>, \<open>HeaderProps\<close>: objects, hash table (locale \<open>object_table\<close>), new numbers, header pages and names.
  \<^item> \<open>Files\<close>, \<open>FileIO\<close>, \<open>Namespace\<close>, \<open>ObjectTypes\<close>: chunks of files and garbage collection, cache and file data, names and attributes; the type of every object agrees with its variant under every sequence of operations (step relation \<open>runtime_step\<close>, locale \<open>typed_collector\<close> for what the operations rely on of garbage collection).
  \<^item> \<open>FileData\<close>: block manager, flash and tree together: a chunk written into a file is found through the tree and read back, on every chip that keeps what is programmed (\<open>flash_laws\<close>).
  \<^item> \<open>Scan\<close>, \<open>ScanProps\<close>, \<open>CheckptData\<close>, \<open>CheckptProps\<close>, \<open>Mount\<close>: both scans, the contents of a checkpoint, mounting and unmounting; order of the scan, layout and checksum of the checkpoint.
  \<^item> \<open>MtdIf\<close>, \<open>MtdProps\<close> (\<^verbatim>\<open>yaffs_mtdif*.c\<close>): the flash drivers; YAFFS2 pages are read back, YAFFS1 tags only for some object numbers.
  \<^item> \<open>VfsOps\<close>, \<open>VfsMount\<close>, \<open>VfsProps\<close> (\<^verbatim>\<open>yaffs_fs.c\<close>): what the kernel calls; directory reads resume where they stopped, lists of mount options are rejected.
  \<^item> \<open>Morse\<close>, \<open>NetdevTrig\<close> (LED triggers), \<open>GpioDrivers\<close>, \<open>NetSwitch\<close>: the drivers; morse code is sent as stored, buttons are debounced, the GPIO device has one user, the WAN port is isolated.
  \<^item> \<open>Decimal\<close>, \<open>Fstat\<close>, \<open>Pretendroot\<close>: numbers as text and the two tools; the owner files implement a map, \<open>fstat\<close> does not end its strings.

  \<^bold>\<open>Loops.\<close>  Loops over lists and ranges are structural.  Loops whose end depends on the state are \<^theory_text>\<open>partial_function (option)\<close>, so that not
  ending is \<^term>\<open>None\<close>: \<open>write_loop\<close> and \<open>new_number_loop\<close> are proved to end; \<open>flush_loop\<close>, \<open>yaffs_FlushEntireDeviceCache\<close>, \<open>read_loop\<close>,
  \<open>wr_loop\<close>, \<open>read_tnodes_loop\<close>, \<open>read_objects_loop\<close> and \<open>destroy_from\<close> are modelled, and where they occur in a property it is either a
  statement about all states they can return or does not depend on them.  The other non-structural recursions are total, with a measure.  No fuel is used.

  \<^bold>\<open>Assumptions.\<close>  Hypotheses about code outside of the repository are premises of the theorems: a driver that keeps what is written
  (\<open>MtdProps\<close>, \<open>WriteLoop\<close>, \<open>FileData\<close>), a file system that obeys \<open>file_laws\<close> (\<open>Pretendroot\<close>), a switch whose VLAN map is what was last written
  (\<open>NetSwitch\<close>).  Each has a witness in which the hypotheses hold.  Device-wide locks make each operation of the file system one step.

  \<^bold>\<open>Not modelled.\<close>  Tracing, the \<open>yaffs_Verify\<close> functions (run-time checks, whose content is in \<open>block_inv\<close>), the file below
  \<^verbatim>\<open>/proc\<close> and the registration of modules: no effect on the state.  \<^verbatim>\<open>yaffs_mtdif1-compat.c\<close> and code for kernels before 2.6.18: not
  compiled.  \<^verbatim>\<open>IxNpeMicrocode.c\<close>: firmware images.  \<^verbatim>\<open>dietheaders\<close>: declarations.  \<^verbatim>\<open>cf_parser.h\<close>: generated, for a program that is not
  in the repository.  Makefiles, scripts and patches: other languages.
\<close>

end
